(* ===== verification/Prelude.thy ===== *)
theory Prelude
  imports Main "HOL-Library.Multiset"
begin

text \<open>
  Shared vocabulary of the development: the types that name Python values
  (identifiers, instants, text), the one update function the table models use,
  and the generic lemmas on lists, options and tables that the component proofs
  share.  Python's \<open>str\<close> is a list of code points (\<open>ustr\<close>), because the code
  measures and inspects text by code point; fixed ASCII texts (error codes,
  audit actions, scopes) are HOL strings, turned into text by \<open>u\<close>.
\<close>

named_theorems row_simps \<open>lookups after updates of table rows\<close>
named_theorems op_defs \<open>definitions of the service operations\<close>

type_synonym uuid = nat
type_synonym time = int  \<comment> \<open>microseconds since the epoch, always timezone-aware\<close>
type_synonym ustr = "nat list"
type_synonym bytes = "nat list"

definition u :: "string \<Rightarrow> ustr" where
  "u s = map of_char s"

lemma u_inject [simp]: "u s = u t \<longleftrightarrow> s = t"
  unfolding u_def by (rule inj_map_eq_map) (simp add: inj_def)

lemma u_Nil [simp]: "u [] = []"
  by (simp add: u_def)

lemma u_append: "u (s @ t) = u s @ u t"
  by (simp add: u_def)

lemma u_eq_Nil [simp]: "u s = [] \<longleftrightarrow> s = []" "[] = u s \<longleftrightarrow> s = []"
  by (auto simp: u_def)

abbreviation second :: time where "second \<equiv> 1000000"
abbreviation minute :: time where "minute \<equiv> 60000000"
abbreviation hour :: time where "hour \<equiv> 3600000000"
abbreviation day :: time where "day \<equiv> 86400000000"

section \<open>Tables as lists of rows\<close>

text \<open>
  A table is the list of its rows in insertion order.  \<open>SELECT ... WHERE P\<close> for
  one row is \<^const>\<open>find\<close>, an \<open>UPDATE\<close> is \<open>update_rows\<close>.
\<close>

definition update_rows :: "('r \<Rightarrow> bool) \<Rightarrow> ('r \<Rightarrow> 'r) \<Rightarrow> 'r list \<Rightarrow> 'r list" where
  "update_rows P f rows = map (\<lambda>r. if P r then f r else r) rows"

lemma update_rows_Nil [simp]: "update_rows P f [] = []"
  by (simp add: update_rows_def)

lemma update_rows_Cons [simp]:
  "update_rows P f (r # rows) = (if P r then f r else r) # update_rows P f rows"
  by (simp add: update_rows_def)

lemma length_update_rows [simp]: "length (update_rows P f rows) = length rows"
  by (simp add: update_rows_def)

lemma set_update_rows:
  "set (update_rows P f rows) = (\<lambda>r. if P r then f r else r) ` set rows"
  by (simp add: update_rows_def)

lemma map_update_rows_same:
  assumes "\<And>r. k (f r) = k r"
  shows "map k (update_rows P f rows) = map k rows"
  using assms by (induction rows) auto

lemma find_update_rows [row_simps]:
  assumes "\<And>r. Q (f r) = Q r"
  shows "find Q (update_rows P f rows) = map_option (\<lambda>r. if P r then f r else r) (find Q rows)"
  using assms by (induction rows) auto

lemma find_update_rows_None:
  assumes "find Q rows = None" "\<And>r. Q (f r) \<Longrightarrow> Q r"
  shows "find Q (update_rows P f rows) = None"
  using assms by (induction rows) (auto split: if_splits)

lemma find_SomeD: "find P xs = Some x \<Longrightarrow> P x \<and> x \<in> set xs"
  by (induction xs) (auto split: if_splits)

lemma find_append [row_simps]:
  "find P (xs @ ys) = (case find P xs of None \<Rightarrow> find P ys | Some x \<Rightarrow> Some x)"
  by (induction xs) auto

lemma find_None_iff_all: "find P xs = None \<longleftrightarrow> (\<forall>x \<in> set xs. \<not> P x)"
  by (induction xs) auto

lemma find_key_unique:
  assumes "distinct (map k rows)" "r \<in> set rows"
  shows "find (\<lambda>r'. k r' = k r) rows = Some r"
  using assms by (induction rows) (auto simp: rev_image_eqI)

lemma filter_update_rows_same:
  assumes "\<And>r. Q (f r) = Q r"
  shows "filter Q (update_rows P f rows) = update_rows P f (filter Q rows)"
  using assms by (induction rows) auto

section \<open>Lists\<close>

lemma list_all_sort_key: "list_all P (sort_key k xs) = list_all P xs"
  by (simp add: list_all_iff)

lemma distinct_map_sort_key: "distinct (map f (sort_key k xs)) = distinct (map f xs)"
proof -
  have "mset (map f (sort_key k xs)) = mset (map f xs)" by simp
  then show ?thesis by (metis mset_eq_imp_distinct_iff)
qed

lemma butlast_last_find:
  "find P xs = Some x \<Longrightarrow> \<exists>ys zs. xs = ys @ x # zs \<and> list_all (\<lambda>y. \<not> P y) ys"
proof (induction xs)
  case (Cons a xs)
  show ?case
  proof (cases "P a")
    case True
    with Cons.prems have "a # xs = [] @ x # xs" by simp
    then show ?thesis by fastforce
  next
    case False
    with Cons obtain ys zs where "xs = ys @ x # zs" "list_all (\<lambda>y. \<not> P y) ys" by auto
    with False have "a # xs = (a # ys) @ x # zs" "list_all (\<lambda>y. \<not> P y) (a # ys)" by simp_all
    then show ?thesis by blast
  qed
qed simp

end
