(* ===== verification/Text.thy ===== *)
theory Text
  imports Prelude
begin

text \<open>
  Text as the code handles it: UTF-8 encoding (\<open>str.encode("utf-8")\<close>, which raises
  on surrogates), the character tests the validators share, decimal and
  hexadecimal renderings, \<open>str(UUID)\<close> and \<open>date.isoformat()\<close>.  These are the parts
  of Python's library the services use; they are written out so that the size
  and shape checks of the validators compute.
\<close>

section \<open>UTF-8\<close>

definition surrogate :: "nat \<Rightarrow> bool" where
  "surrogate c \<longleftrightarrow> 55296 \<le> c \<and> c \<le> 57343"

definition utf8_char :: "nat \<Rightarrow> bytes" where
  "utf8_char c =
     (if c < 128 then [c]
      else if c < 2048 then [192 + c div 64, 128 + c mod 64]
      else if c < 65536 then [224 + c div 4096, 128 + c div 64 mod 64, 128 + c mod 64]
      else [240 + c div 262144, 128 + c div 4096 mod 64, 128 + c div 64 mod 64, 128 + c mod 64])"

definition utf8_encode :: "ustr \<Rightarrow> bytes option" where
  "utf8_encode s = (if list_ex surrogate s then None else Some (concat (map utf8_char s)))"

lemma utf8_char_nonempty [simp]: "utf8_char c \<noteq> []"
  by (simp add: utf8_char_def)

lemma length_utf8_char: "1 \<le> length (utf8_char c) \<and> length (utf8_char c) \<le> 4"
  by (simp add: utf8_char_def)

lemma length_utf8_ge: "length s \<le> length (concat (map utf8_char s))"
proof (induction s)
  case (Cons c s)
  then show ?case using length_utf8_char [of c] by simp
qed simp

lemma length_utf8_le: "length (concat (map utf8_char s)) \<le> 4 * length s"
proof (induction s)
  case (Cons c s)
  then show ?case using length_utf8_char [of c] by simp
qed simp

lemma utf8_encode_bounds:
  assumes "utf8_encode s = Some b"
  shows "length s \<le> length b" "length b \<le> 4 * length s"
  using assms length_utf8_ge [of s] length_utf8_le [of s]
  by (auto simp: utf8_encode_def split: if_splits)

lemma utf8_char_inject_append:
  assumes "utf8_char c @ xs = utf8_char d @ ys" "c < 1114112" "d < 1114112"
  shows "c = d \<and> xs = ys"
proof -
  have dm: "\<And>k::nat. k = 64 * (k div 64) + k mod 64" by simp
  have d4: "\<And>k::nat. k div 4096 = k div 64 div 64" "\<And>k::nat. k div 262144 = k div 64 div 64 div 64"
    by (simp_all add: div_mult2_eq [symmetric])
  have lt: "\<And>k::nat. k < 1114112 \<Longrightarrow> k div 262144 < 5" by linarith
  have bounds: "c < 2048 \<Longrightarrow> c div 64 < 32" "c < 65536 \<Longrightarrow> c div 4096 < 16"
    "d < 2048 \<Longrightarrow> d div 64 < 32" "d < 65536 \<Longrightarrow> d div 4096 < 16"
    by linarith+
  show ?thesis
    using assms bounds lt [of c] lt [of d]
    apply (simp add: utf8_char_def split: if_splits)
    using dm [of c] dm [of d] dm [of "c div 64"] dm [of "d div 64"]
      dm [of "c div 64 div 64"] dm [of "d div 64 div 64"]
    by (simp_all add: d4)
qed

lemma utf8_concat_inject:
  assumes "concat (map utf8_char s) = concat (map utf8_char t)"
    "\<forall>c \<in> set s. c < 1114112" "\<forall>c \<in> set t. c < 1114112"
  shows "s = t"
  using assms
proof (induction s arbitrary: t)
  case Nil
  then show ?case by (cases t) auto
next
  case (Cons c s)
  from Cons.prems(1) obtain d t' where t: "t = d # t'" by (cases t) auto
  with Cons.prems have "c = d \<and> concat (map utf8_char s) = concat (map utf8_char t')"
    by (intro utf8_char_inject_append) auto
  with Cons t show ?case by auto
qed

section \<open>Character tests of the validators\<close>

text \<open>\<open>ord(ch) < 32 or ord(ch) == 127\<close>, the test every text validator makes.\<close>

definition control :: "nat \<Rightarrow> bool" where
  "control c \<longleftrightarrow> c < 32 \<or> c = 127"

text \<open>\<open>[0-9a-f]{64}\<close>, full match.\<close>

definition lower_hex :: "nat \<Rightarrow> bool" where
  "lower_hex c \<longleftrightarrow> (48 \<le> c \<and> c \<le> 57) \<or> (97 \<le> c \<and> c \<le> 102)"

definition sha256_text :: "ustr \<Rightarrow> bool" where
  "sha256_text s \<longleftrightarrow> length s = 64 \<and> list_all lower_hex s"

text \<open>\<open>[!-~]{1,255}\<close>, full match: the Idempotency-Key.\<close>

definition printable :: "nat \<Rightarrow> bool" where
  "printable c \<longleftrightarrow> 33 \<le> c \<and> c \<le> 126"

definition idempotency_key_ok :: "ustr \<Rightarrow> bool" where
  "idempotency_key_ok s \<longleftrightarrow> 1 \<le> length s \<and> length s \<le> 255 \<and> list_all printable s"

text \<open>\<open>[A-Za-z0-9!#$&^_.+-]+/[A-Za-z0-9!#$&^_.+-]+\<close>, full match.\<close>

definition mime_char :: "nat \<Rightarrow> bool" where
  "mime_char c \<longleftrightarrow> (65 \<le> c \<and> c \<le> 90) \<or> (97 \<le> c \<and> c \<le> 122) \<or> (48 \<le> c \<and> c \<le> 57)
     \<or> c \<in> set (u ''!#$&^_.+-'')"

definition mime_type :: "ustr \<Rightarrow> bool" where
  "mime_type s =
     (let a = takeWhile mime_char s; r = dropWhile mime_char s in
      a \<noteq> [] \<and> (case r of [] \<Rightarrow> False | c # b \<Rightarrow> c = 47 \<and> b \<noteq> [] \<and> list_all mime_char b))"

text \<open>\<open>^[A-Z][A-Z0-9_]{0,63}$\<close>: result codes.\<close>

definition result_code_char :: "nat \<Rightarrow> bool" where
  "result_code_char c \<longleftrightarrow> (65 \<le> c \<and> c \<le> 90) \<or> (48 \<le> c \<and> c \<le> 57) \<or> c = 95"

definition result_code_text :: "ustr \<Rightarrow> bool" where
  "result_code_text s =
     (case s of [] \<Rightarrow> False
      | c # r \<Rightarrow> 65 \<le> c \<and> c \<le> 90 \<and> length r \<le> 63 \<and> list_all result_code_char r)"

lemma sha256_text_no_control: "sha256_text s \<Longrightarrow> list_all (\<lambda>c. \<not> control c) s"
  by (auto simp: sha256_text_def control_def lower_hex_def list_all_iff)

lemma mime_char_not_control: "mime_char c \<Longrightarrow> \<not> control c"
  by (auto simp: mime_char_def control_def u_def)

lemma mime_type_no_control: "mime_type s \<Longrightarrow> list_all (\<lambda>c. \<not> control c) s"
proof -
  assume m: "mime_type s"
  have split: "set s = set (takeWhile mime_char s) \<union> set (dropWhile mime_char s)"
    by (metis set_append takeWhile_dropWhile_id)
  have "\<not> control c" if c: "c \<in> set s" for c
  proof (cases "c \<in> set (takeWhile mime_char s)")
    case True
    then show ?thesis by (metis mime_char_not_control set_takeWhileD)
  next
    case False
    with c split have "c \<in> set (dropWhile mime_char s)" by auto
    with m obtain b where "list_all mime_char b" "c = 47 \<or> c \<in> set b"
      by (auto simp: mime_type_def Let_def split: list.splits)
    then have "c = 47 \<or> mime_char c" by (auto simp: list_all_iff)
    then show ?thesis using mime_char_not_control by (auto simp: control_def)
  qed
  then show ?thesis by (simp add: list_all_iff)
qed

section \<open>Decimal and hexadecimal renderings\<close>

fun dec :: "nat \<Rightarrow> ustr" where
  "dec n = (if n < 10 then [48 + n] else dec (n div 10) @ [48 + n mod 10])"

declare dec.simps [simp del]

definition dec_pad :: "nat \<Rightarrow> nat \<Rightarrow> ustr" where
  "dec_pad w n = (let s = dec n in replicate (w - length s) 48 @ s)"

lemma dec_digits: "\<forall>c \<in> set (dec n). 48 \<le> c \<and> c \<le> 57"
proof (induction n rule: dec.induct)
  case (1 n)
  then show ?case by (cases "n < 10") (auto simp: dec.simps [of n])
qed

lemma dec_nonempty [simp]: "dec n \<noteq> []"
  by (subst dec.simps) simp

fun undec :: "ustr \<Rightarrow> nat" where
  "undec s = foldl (\<lambda>n c. 10 * n + (c - 48)) 0 s"

lemma undec_dec: "undec (dec n) = n"
proof (induction n rule: dec.induct)
  case (1 n)
  show ?case
  proof (cases "n < 10")
    case True
    then show ?thesis by (simp add: dec.simps [of n])
  next
    case False
    with 1 have "undec (dec (n div 10)) = n div 10" by simp
    with False show ?thesis by (subst dec.simps) simp
  qed
qed

lemma dec_inject [simp]: "dec m = dec n \<longleftrightarrow> m = n"
  by (metis undec_dec)

lemma foldl_dec_zeros:
  "foldl (\<lambda>n c. 10 * n + (c - 48)) (0::nat) (replicate k 48) = 0"
  by (induction k) auto

lemma undec_dec_pad: "undec (dec_pad w n) = n"
  using undec_dec [of n] by (simp add: dec_pad_def Let_def foldl_dec_zeros)

lemma dec_pad_digits: "\<forall>c \<in> set (dec_pad w n). 48 \<le> c \<and> c \<le> 57"
  using dec_digits [of n] by (auto simp: dec_pad_def Let_def)

type_synonym date = "nat \<times> nat \<times> nat"

definition iso_date :: "date \<Rightarrow> ustr" where
  "iso_date d = (case d of (y, m, dd) \<Rightarrow> dec_pad 4 y @ 45 # dec_pad 2 m @ 45 # dec_pad 2 dd)"

lemma split_at_unique:
  assumes "x \<notin> set a" "x \<notin> set c" "a @ x # b = c @ x # d"
  shows "a = c \<and> b = d"
  using assms
proof (induction a arbitrary: c)
  case Nil
  then show ?case by (cases c) auto
next
  case (Cons y a)
  then show ?case by (cases c) auto
qed

lemma dec_pad_no_dash: "45 \<notin> set (dec_pad w n)"
  using dec_pad_digits [of w n] by auto

lemma iso_date_inject: "iso_date d = iso_date e \<longleftrightarrow> d = e"
proof
  assume eq: "iso_date d = iso_date e"
  obtain y m dd where d: "d = (y, m, dd)" by (cases d)
  obtain y' m' dd' where e: "e = (y', m', dd')" by (cases e)
  from eq have y: "dec_pad 4 y = dec_pad 4 y'"
    and r: "dec_pad 2 m @ 45 # dec_pad 2 dd = dec_pad 2 m' @ 45 # dec_pad 2 dd'"
    unfolding d e iso_date_def
    by (auto dest!: split_at_unique [OF dec_pad_no_dash dec_pad_no_dash])
  from r have "dec_pad 2 m = dec_pad 2 m'" "dec_pad 2 dd = dec_pad 2 dd'"
    by (auto dest!: split_at_unique [OF dec_pad_no_dash dec_pad_no_dash])
  with y show "d = e" unfolding d e by (metis undec_dec_pad)
qed simp

text \<open>The low \<open>k\<close> hexadecimal digits of a number, and \<open>str(UUID)\<close>: 8-4-4-4-12.\<close>

definition hex_char :: "nat \<Rightarrow> nat" where
  "hex_char d = (if d < 10 then 48 + d else 87 + d)"

primrec hex_digits :: "nat \<Rightarrow> nat \<Rightarrow> ustr" where
  "hex_digits 0 n = []"
| "hex_digits (Suc k) n = hex_digits k (n div 16) @ [hex_char (n mod 16)]"

definition uuid_str :: "uuid \<Rightarrow> ustr" where
  "uuid_str i = (let h = hex_digits 32 i in
     take 8 h @ 45 # take 4 (drop 8 h) @ 45 # take 4 (drop 12 h) @ 45 # take 4 (drop 16 h)
     @ 45 # drop 20 h)"

lemma length_hex_digits [simp]: "length (hex_digits k n) = k"
  by (induction k arbitrary: n) auto

lemma hex_char_inject: "d < 16 \<Longrightarrow> e < 16 \<Longrightarrow> hex_char d = hex_char e \<longleftrightarrow> d = e"
  by (auto simp: hex_char_def split: if_splits)

lemma hex_digits_inject:
  "m < 16 ^ k \<Longrightarrow> n < 16 ^ k \<Longrightarrow> hex_digits k m = hex_digits k n \<longleftrightarrow> m = n"
proof (induction k arbitrary: m n)
  case (Suc k)
  from Suc.prems have "m div 16 < 16 ^ k" "n div 16 < 16 ^ k" by (simp_all add: less_mult_imp_div_less mult.commute)
  then have "hex_digits k (m div 16) = hex_digits k (n div 16) \<longleftrightarrow> m div 16 = n div 16"
    by (rule Suc.IH)
  moreover have "m = n \<longleftrightarrow> m div 16 = n div 16 \<and> m mod 16 = n mod 16"
    by (metis div_mult_mod_eq)
  ultimately show ?case by (simp add: hex_char_inject)
qed simp

lemma uuid_str_inject:
  assumes "i < 16 ^ 32" "j < 16 ^ 32"
  shows "uuid_str i = uuid_str j \<longleftrightarrow> i = j"
proof
  assume eq: "uuid_str i = uuid_str j"
  let ?h = "hex_digits 32 i" and ?g = "hex_digits 32 j"
  have parts: "take 8 ?h = take 8 ?g" "take 4 (drop 8 ?h) = take 4 (drop 8 ?g)"
    "take 4 (drop 12 ?h) = take 4 (drop 12 ?g)" "take 4 (drop 16 ?h) = take 4 (drop 16 ?g)"
    "drop 20 ?h = drop 20 ?g"
    using eq unfolding uuid_str_def Let_def by (simp_all add: append_eq_append_conv)
  have "drop 16 ?h = drop 16 ?g"
    using parts(4,5) append_take_drop_id [of 4 "drop 16 ?h"] append_take_drop_id [of 4 "drop 16 ?g"]
    by simp
  then have "drop 12 ?h = drop 12 ?g"
    using parts(3) append_take_drop_id [of 4 "drop 12 ?h"] append_take_drop_id [of 4 "drop 12 ?g"]
    by simp
  then have "drop 8 ?h = drop 8 ?g"
    using parts(2) append_take_drop_id [of 4 "drop 8 ?h"] append_take_drop_id [of 4 "drop 8 ?g"]
    by simp
  then have "?h = ?g"
    using parts(1) by (metis append_take_drop_id)
  then show "i = j" by (rule iffD1 [OF hex_digits_inject [OF assms]])
qed simp

section \<open>ASCII text\<close>

text \<open>Short ASCII text, the shape of every constant and identifier the services log.\<close>

definition ascii :: "ustr \<Rightarrow> bool" where
  "ascii s \<longleftrightarrow> length s \<le> 300 \<and> list_all (\<lambda>c. c < 128) s"

lemma utf8_ascii: "list_all (\<lambda>c. c < 128) s \<Longrightarrow> utf8_encode s = Some s"
proof -
  assume a: "list_all (\<lambda>c. c < 128) s"
  then have "\<not> list_ex surrogate s" by (auto simp: list_ex_iff list_all_iff surrogate_def)
  moreover from a have "concat (map utf8_char s) = s"
    by (induction s) (simp_all add: utf8_char_def)
  ultimately show ?thesis by (simp add: utf8_encode_def)
qed

lemma hex_char_bound: "d < 16 \<Longrightarrow> hex_char d < 128"
  by (simp add: hex_char_def)

lemma hex_digits_ascii: "list_all (\<lambda>c. c < 128) (hex_digits k n)"
  by (induction k arbitrary: n) (auto simp: hex_char_bound)

lemma uuid_str_ascii [simp]: "ascii (uuid_str i)"
proof -
  have *: "list_all (\<lambda>c. c < 128) (take m (drop d (hex_digits 32 i)))" for m d
    using hex_digits_ascii [of 32 i] by (auto simp: list_all_iff dest!: in_set_takeD in_set_dropD)
  have "list_all (\<lambda>c. c < 128) (uuid_str i)"
    using * [of 8 0] * [of 4 8] * [of 4 12] * [of 4 16] * [of 12 20]
    by (simp add: uuid_str_def Let_def)
  then show ?thesis by (simp add: ascii_def uuid_str_def Let_def)
qed

section \<open>Stripping\<close>

text \<open>\<open>str.strip(chars)\<close> with the characters given as a test.\<close>

definition strip_chars :: "(nat \<Rightarrow> bool) \<Rightarrow> ustr \<Rightarrow> ustr" where
  "strip_chars P s = rev (dropWhile P (rev (dropWhile P s)))"

text \<open>\<open>" \t\r\n\u00a0"\<close>, the edge whitespace of project and device names.\<close>

definition edge_whitespace :: "nat \<Rightarrow> bool" where
  "edge_whitespace c \<longleftrightarrow> c \<in> {32, 9, 13, 10, 160}"

lemma strip_chars_subset: "set (strip_chars P s) \<subseteq> set s"
  by (auto simp: strip_chars_def dest!: set_dropWhileD)

lemma strip_chars_last: "strip_chars P s \<noteq> [] \<Longrightarrow> \<not> P (last (strip_chars P s))"
  by (metis hd_dropWhile last_rev rev_is_Nil_conv strip_chars_def)

lemma dropWhile_hd_rev:
  assumes "t \<noteq> []" "\<not> P (hd t)"
  shows "rev (dropWhile P (rev t)) \<noteq> [] \<and> hd (rev (dropWhile P (rev t))) = hd t"
proof -
  from assms obtain x xs where t: "t = x # xs" "\<not> P x" by (cases t) auto
  then have "dropWhile P (rev xs @ [x]) \<noteq> [] \<and> last (dropWhile P (rev xs @ [x])) = x"
    by (induction "rev xs" arbitrary: xs) (auto simp: dropWhile_append)
  with t show ?thesis by (simp add: hd_rev)
qed

lemma strip_chars_hd:
  assumes "strip_chars P s \<noteq> []"
  shows "\<not> P (hd (strip_chars P s))"
proof -
  let ?t = "dropWhile P s"
  from assms have "?t \<noteq> []" by (metis dropWhile.simps(1) rev.simps(1) strip_chars_def)
  moreover from this have "\<not> P (hd ?t)" by (rule hd_dropWhile)
  ultimately show ?thesis using dropWhile_hd_rev [of ?t P] by (simp add: strip_chars_def)
qed

lemma strip_chars_fixed:
  assumes "s = [] \<or> \<not> P (hd s) \<and> \<not> P (last s)"
  shows "strip_chars P s = s"
proof (cases "s = []")
  case False
  with assms have "dropWhile P s = s" "dropWhile P (rev s) = rev s"
    by (auto simp: dropWhile_eq_self_iff hd_rev)
  then show ?thesis by (simp add: strip_chars_def)
qed (simp add: strip_chars_def)

lemma strip_chars_idem: "strip_chars P (strip_chars P s) = strip_chars P s"
  by (rule strip_chars_fixed) (use strip_chars_hd strip_chars_last in blast)

end
