(* ===== verification/Platform.thy ===== *)
theory Platform
  imports Text
begin

text \<open>
  What the services take from outside their own source: JSON values as Python
  objects, the errors they raise (\<open>core/errors.py\<close> and the exception classes of
  the modules), and the record \<open>lib\<close> of the third-party and library functions
  the code calls (hashing, UUID5, JWT, Argon2, Unicode tables).  A theorem
  that needs a documented property of one of them names it as a hypothesis.
\<close>

section \<open>JSON values\<close>

datatype pyfloat = Finite int int | Infinity bool | NaN
  \<comment> \<open>a double: mantissa times a power of two, or a non-finite value\<close>

datatype json =
    JNull
  | JBool bool
  | JInt int
  | JFloat pyfloat
  | JStr ustr
  | JList "json list"
  | JObj "(ustr \<times> json) list"

definition jopt :: "('a \<Rightarrow> json) \<Rightarrow> 'a option \<Rightarrow> json" where
  "jopt f v = (case v of None \<Rightarrow> JNull | Some x \<Rightarrow> f x)"

section \<open>Errors\<close>

text \<open>
  \<open>DomainError\<close> carries the public code, message and HTTP status; its subclasses
  are the definitions below.  The other constructors are the exception classes the
  services raise themselves, \<open>PyError\<close> any Python exception by class name, and
  \<open>Integrity\<close> a violated database constraint.
\<close>

datatype exn =
    DomainError string string nat
  | LoginFailure "uuid option" string
  | InvalidSession
  | InvalidDeviceGrant
  | InvalidDeviceCredential
  | LocalAdminError string
  | TokenError
  | PasswordPolicyError
  | PyError string
  | Integrity string

type_synonym 'a result = "exn + 'a"

fun error_code :: "exn \<Rightarrow> string" where
  "error_code (DomainError c m s) = c"
| "error_code _ = ''''"

definition unauthenticated_error :: exn where
  "unauthenticated_error = DomainError ''AUTHENTICATION_REQUIRED'' ''Authentication required'' 401"
definition authentication_failed_error :: exn where
  "authentication_failed_error =
     DomainError ''AUTHENTICATION_FAILED'' ''Username or password is invalid'' 401"
definition password_change_required_error :: exn where
  "password_change_required_error =
     DomainError ''PASSWORD_CHANGE_REQUIRED'' ''Password change required'' 403"
definition password_reuse_forbidden_error :: exn where
  "password_reuse_forbidden_error =
     DomainError ''PASSWORD_REUSE_FORBIDDEN'' ''New password must be different'' 422"
definition forbidden_error :: "string \<Rightarrow> string \<Rightarrow> exn" where
  "forbidden_error code message = DomainError code message 403"
definition project_forbidden :: exn where
  "project_forbidden = forbidden_error ''PROJECT_FORBIDDEN'' ''You cannot access this project''"
definition not_found_error :: "string \<Rightarrow> string \<Rightarrow> exn" where
  "not_found_error code message = DomainError code message 404"
definition project_not_found :: exn where
  "project_not_found = not_found_error ''PROJECT_NOT_FOUND'' ''Project not found''"
definition conflict_error :: "string \<Rightarrow> string \<Rightarrow> exn" where
  "conflict_error code message = DomainError code message 409"
definition project_name_conflict :: exn where
  "project_name_conflict =
     conflict_error ''PROJECT_NAME_CONFLICT'' ''A project with this name already exists''"
definition file_provisioning_pending_error :: exn where
  "file_provisioning_pending_error =
     DomainError ''FILE_PROVISIONING_PENDING'' ''File upload provisioning is pending'' 503"
definition file_completion_pending_error :: exn where
  "file_completion_pending_error =
     DomainError ''FILE_COMPLETION_PENDING'' ''File completion is pending'' 503"

lemmas error_defs =
  unauthenticated_error_def authentication_failed_error_def password_change_required_error_def
  password_reuse_forbidden_error_def forbidden_error_def project_forbidden_def
  not_found_error_def project_not_found_def conflict_error_def project_name_conflict_def
  file_provisioning_pending_error_def file_completion_pending_error_def

section \<open>Library functions\<close>

text \<open>
  \<open>jwt_decode L now verify secret token\<close> is \<open>jwt.decode\<close> with the expiry checks on
  (\<open>verify\<close>) or off; \<open>None\<close> is a \<open>PyJWTError\<close>.  \<open>argon2_verify\<close> is \<open>None\<close> where the
  hasher raises one of its documented errors.  \<open>argon2_hash\<close> takes the salt it draws.
  \<open>pg_lower\<close> and \<open>collate_key\<close> are PostgreSQL's \<open>lower\<close> and its collation order,
  \<open>white_space\<close> the characters pydantic strips.
\<close>

record lib =
  sha256_hex :: "bytes \<Rightarrow> ustr"
  uuid5_url :: "ustr \<Rightarrow> uuid"
  nfc :: "ustr \<Rightarrow> ustr"
  nfkc :: "ustr \<Rightarrow> ustr"
  casefold :: "ustr \<Rightarrow> ustr"
  isalnum :: "nat \<Rightarrow> bool"
  isspace :: "nat \<Rightarrow> bool"
  category_C :: "nat \<Rightarrow> bool"
  category_Cc :: "nat \<Rightarrow> bool"
  jwt_encode :: "ustr \<Rightarrow> (ustr \<times> json) list \<Rightarrow> ustr"
  jwt_decode :: "time \<Rightarrow> bool \<Rightarrow> ustr \<Rightarrow> ustr \<Rightarrow> (ustr \<times> json) list option"
  float_repr :: "pyfloat \<Rightarrow> ustr"
  uuid_parse :: "ustr \<Rightarrow> uuid option"
  argon2_hash :: "nat \<Rightarrow> ustr \<Rightarrow> ustr"
  argon2_verify :: "ustr \<Rightarrow> ustr \<Rightarrow> bool option"
  argon2_needs_rehash :: "ustr \<Rightarrow> bool"
  pg_lower :: "ustr \<Rightarrow> ustr"
  collate_key :: "ustr \<Rightarrow> nat list"
  white_space :: "nat \<Rightarrow> bool"

end
