(* ===== verification/Schema.thy ===== *)
theory Schema
  imports Platform
begin

text \<open>
  The persistent state: one record per table of the server (the SQLAlchemy models of
  \<open>modules/*/models.py\<close>), the enumerations of their columns, and the record
  \<open>db\<close> of all tables.  \<open>string\<close> columns that only ever hold constants of the code
  (actor kinds, actions, outcomes, scopes) are HOL strings.
\<close>

section \<open>Users, projects, sessions\<close>

datatype role = OWNER | STAFF
datatype user_status = USER_ACTIVE | USER_DISABLED

record user =
  u_id :: uuid
  u_username :: ustr
  u_display_name :: ustr
  u_password_hash :: ustr
  u_must_change_password :: bool
  u_password_changed_at :: time
  u_failed_login_count :: nat
  u_locked_until :: "time option"
  u_role :: role
  u_status :: user_status
  u_last_login_at :: "time option"

datatype project_status = PROJECT_ACTIVE | PROJECT_ARCHIVED

record project =
  p_id :: uuid
  p_name :: ustr
  p_is_test :: bool
  p_status :: project_status

record project_member =
  pm_project_id :: uuid
  pm_user_id :: uuid

datatype session_kind = SESSION_USER | SESSION_DEVICE

record auth_session =
  s_id :: uuid
  s_kind :: session_kind
  s_user_id :: "uuid option"
  s_device_id :: "uuid option"
  s_access_jti :: ustr
  s_refresh_token_hash :: ustr
  s_access_expires_at :: time
  s_refresh_expires_at :: time
  s_refresh_used_at :: "time option"
  s_revoked_at :: "time option"
  s_created_at :: time

section \<open>Devices\<close>

record device_pairing_code =
  pc_id :: uuid
  pc_owner_id :: uuid
  pc_code_hash :: ustr
  pc_expires_at :: time
  pc_used_at :: "time option"
  pc_created_at :: time

record device_pairing_project =
  pp_pairing_code_id :: uuid
  pp_project_id :: uuid

record device_connection =
  d_id :: uuid
  d_owner_id :: uuid
  d_name :: ustr
  d_paired_at :: time
  d_last_used_at :: "time option"
  d_revoked_at :: "time option"

record device_project_grant =
  dpg_device_id :: uuid
  dpg_project_id :: uuid

record device_scope_grant =
  dsg_device_id :: uuid
  dsg_scope :: string

section \<open>Files\<close>

datatype file_state =
  FILE_UPLOADING | FILE_QUARANTINED | FILE_SCANNING | FILE_CLEAN | FILE_INFECTED | FILE_FAILED

record file_row =
  f_id :: uuid
  f_project_id :: uuid
  f_filename :: ustr
  f_category :: ustr
  f_file_date :: date
  f_object_key :: ustr
  f_size_bytes :: int
  f_sha256 :: ustr
  f_state :: file_state
  f_uploader_id :: uuid
  f_uploader_kind :: string
  f_content_type :: ustr
  f_scan_result :: "ustr option"
  f_metadata_fingerprint :: "ustr option"
  f_idempotency_key :: "ustr option"
  f_multipart_id :: "ustr option"
  f_created_at :: time
  f_updated_at :: time

fun file_state_text :: "file_state \<Rightarrow> string" where
  "file_state_text FILE_UPLOADING = ''UPLOADING''"
| "file_state_text FILE_QUARANTINED = ''QUARANTINED''"
| "file_state_text FILE_SCANNING = ''SCANNING''"
| "file_state_text FILE_CLEAN = ''CLEAN''"
| "file_state_text FILE_INFECTED = ''INFECTED''"
| "file_state_text FILE_FAILED = ''FAILED''"

section \<open>Imports\<close>

datatype import_status = IMPORT_UPLOADING | IMPORT_SCANNING | IMPORT_RECEIVED | IMPORT_REJECTED
  | IMPORT_CONFLICT

fun import_status_text :: "import_status \<Rightarrow> string" where
  "import_status_text IMPORT_UPLOADING = ''UPLOADING''"
| "import_status_text IMPORT_SCANNING = ''SCANNING''"
| "import_status_text IMPORT_RECEIVED = ''RECEIVED''"
| "import_status_text IMPORT_REJECTED = ''REJECTED''"
| "import_status_text IMPORT_CONFLICT = ''CONFLICT''"

datatype attachment_kind = ORIGINAL | REVISED | K3_RAW

fun attachment_kind_text :: "attachment_kind \<Rightarrow> string" where
  "attachment_kind_text ORIGINAL = ''ORIGINAL''"
| "attachment_kind_text REVISED = ''REVISED''"
| "attachment_kind_text K3_RAW = ''K3_RAW''"

record import_job =
  j_id :: uuid
  j_device_id :: uuid
  j_project_id :: uuid
  j_idempotency_key :: ustr
  j_local_task_id :: ustr
  j_external_document_reference :: "ustr option"
  j_base_sha256 :: "ustr option"
  j_canonical_manifest :: json
  j_manifest_fingerprint :: ustr
  j_status :: import_status
  j_result_code :: "string option"
  j_submitted_at :: "time option"
  j_created_at :: time
  j_updated_at :: time

record import_attachment =
  a_id :: uuid
  a_job_id :: uuid
  a_project_id :: uuid
  a_file_id :: uuid
  a_upload_id :: uuid
  a_kind :: attachment_kind

section \<open>Audit log\<close>

record audit_log =
  al_id :: uuid
  al_actor_kind :: string
  al_actor_id :: "uuid option"
  al_action :: string
  al_object_type :: string
  al_object_id :: "uuid option"
  al_project_id :: "uuid option"
  al_outcome :: string
  al_metadata :: "(ustr \<times> json) list"
  al_request_id :: "uuid option"
  al_event_key :: "uuid option"

section \<open>The database\<close>

record db =
  users :: "user list"
  projects :: "project list"
  members :: "project_member list"
  sessions :: "auth_session list"
  pairing_codes :: "device_pairing_code list"
  pairing_projects :: "device_pairing_project list"
  devices :: "device_connection list"
  project_grants :: "device_project_grant list"
  scope_grants :: "device_scope_grant list"
  files :: "file_row list"
  jobs :: "import_job list"
  attachments :: "import_attachment list"
  audit_logs :: "audit_log list"

definition empty_db :: db where
  "empty_db = \<lparr>users = [], projects = [], members = [], sessions = [], pairing_codes = [],
     pairing_projects = [], devices = [], project_grants = [], scope_grants = [], files = [],
     jobs = [], attachments = [], audit_logs = []\<rparr>"

definition get_user :: "db \<Rightarrow> uuid \<Rightarrow> user option" where
  "get_user db i = find (\<lambda>x. u_id x = i) (users db)"
definition get_project :: "db \<Rightarrow> uuid \<Rightarrow> project option" where
  "get_project db i = find (\<lambda>x. p_id x = i) (projects db)"
definition get_session :: "db \<Rightarrow> uuid \<Rightarrow> auth_session option" where
  "get_session db i = find (\<lambda>x. s_id x = i) (sessions db)"
definition session_by_refresh_hash :: "db \<Rightarrow> ustr \<Rightarrow> auth_session option" where
  "session_by_refresh_hash db h = find (\<lambda>x. s_refresh_token_hash x = h) (sessions db)"
definition get_device_row :: "db \<Rightarrow> uuid \<Rightarrow> device_connection option" where
  "get_device_row db i = find (\<lambda>x. d_id x = i) (devices db)"
definition get_file :: "db \<Rightarrow> uuid \<Rightarrow> file_row option" where
  "get_file db i = find (\<lambda>x. f_id x = i) (files db)"
definition get_job :: "db \<Rightarrow> uuid \<Rightarrow> import_job option" where
  "get_job db i = find (\<lambda>x. j_id x = i) (jobs db)"

definition put_user :: "uuid \<Rightarrow> (user \<Rightarrow> user) \<Rightarrow> db \<Rightarrow> db" where
  "put_user i f db = db\<lparr>users := update_rows (\<lambda>x. u_id x = i) f (users db)\<rparr>"
definition put_session :: "uuid \<Rightarrow> (auth_session \<Rightarrow> auth_session) \<Rightarrow> db \<Rightarrow> db" where
  "put_session i f db = db\<lparr>sessions := update_rows (\<lambda>x. s_id x = i) f (sessions db)\<rparr>"
definition put_device :: "uuid \<Rightarrow> (device_connection \<Rightarrow> device_connection) \<Rightarrow> db \<Rightarrow> db" where
  "put_device i f db = db\<lparr>devices := update_rows (\<lambda>x. d_id x = i) f (devices db)\<rparr>"
definition put_file :: "uuid \<Rightarrow> (file_row \<Rightarrow> file_row) \<Rightarrow> db \<Rightarrow> db" where
  "put_file i f db = db\<lparr>files := update_rows (\<lambda>x. f_id x = i) f (files db)\<rparr>"
definition put_job :: "uuid \<Rightarrow> (import_job \<Rightarrow> import_job) \<Rightarrow> db \<Rightarrow> db" where
  "put_job i f db = db\<lparr>jobs := update_rows (\<lambda>x. j_id x = i) f (jobs db)\<rparr>"

lemmas get_defs = get_user_def get_project_def get_session_def session_by_refresh_hash_def
  get_device_row_def get_file_def get_job_def
lemmas put_defs = put_user_def put_session_def put_device_def put_file_def put_job_def

text \<open>
  The contract of a table: lookup by primary key and update of the row with a key.
  Every component that keeps rows relies on these two laws only.
\<close>

locale row_table =
  fixes key :: "'r \<Rightarrow> uuid"
    and rows :: "'d \<Rightarrow> 'r list"
    and get :: "'d \<Rightarrow> uuid \<Rightarrow> 'r option"
    and put :: "uuid \<Rightarrow> ('r \<Rightarrow> 'r) \<Rightarrow> 'd \<Rightarrow> 'd"
  assumes get_find: "get d i = find (\<lambda>r. key r = i) (rows d)"
    and put_rows: "rows (put i f d) = update_rows (\<lambda>r. key r = i) f (rows d)"
begin

lemma get_key: "get d i = Some r \<Longrightarrow> key r = i"
  by (auto simp: get_find dest: find_SomeD)

lemma get_member: "get d i = Some r \<Longrightarrow> r \<in> set (rows d)"
  by (auto simp: get_find dest: find_SomeD)

lemma get_put:
  assumes "\<And>r. key (f r) = key r"
  shows "get (put i f d) k = map_option (\<lambda>r. if k = i then f r else r) (get d k)"
proof -
  have "get (put i f d) k = map_option (\<lambda>r. if key r = i then f r else r) (get d k)"
    using assms by (simp add: get_find put_rows find_update_rows)
  then show ?thesis by (cases "get d k") (auto dest: get_key)
qed

lemma get_put_other:
  assumes "\<And>r. key (f r) = key r" "k \<noteq> i"
  shows "get (put i f d) k = get d k"
  using assms by (simp add: get_put option.map_ident)

lemma keys_put:
  assumes "\<And>r. key (f r) = key r"
  shows "map key (rows (put i f d)) = map key (rows d)"
  using assms by (simp add: put_rows map_update_rows_same)

lemma get_of_member:
  assumes "distinct (map key (rows d))" "r \<in> set (rows d)"
  shows "get d (key r) = Some r"
  using find_key_unique [OF assms] by (simp add: get_find)

end

interpretation user_table: row_table u_id users get_user put_user
  by unfold_locales (simp_all add: get_user_def put_user_def)
interpretation session_table: row_table s_id sessions get_session put_session
  by unfold_locales (simp_all add: get_session_def put_session_def)
interpretation device_table: row_table d_id devices get_device_row put_device
  by unfold_locales (simp_all add: get_device_row_def put_device_def)
interpretation file_table: row_table f_id files get_file put_file
  by unfold_locales (simp_all add: get_file_def put_file_def)
interpretation job_table: row_table j_id jobs get_job put_job
  by unfold_locales (simp_all add: get_job_def put_job_def)

lemmas get_put_rows [row_simps] =
  user_table.get_put session_table.get_put device_table.get_put file_table.get_put job_table.get_put

lemma get_rows_id:
  "get_user db i = Some r1 \<Longrightarrow> u_id r1 = i"
  "get_project db i = Some r2 \<Longrightarrow> p_id r2 = i"
  "get_session db i = Some r3 \<Longrightarrow> s_id r3 = i"
  "get_device_row db i = Some r4 \<Longrightarrow> d_id r4 = i"
  "get_file db i = Some r5 \<Longrightarrow> f_id r5 = i"
  "get_job db i = Some r6 \<Longrightarrow> j_id r6 = i"
  "session_by_refresh_hash db h = Some r7 \<Longrightarrow> s_refresh_token_hash r7 = h"
  by (auto simp: get_defs dest: find_SomeD)

text \<open>A write to one table leaves the lookups in the others alone.\<close>

lemma get_frame [simp]:
  "get_user (d\<lparr>files := fs\<rparr>) i = get_user d i"
  "get_user (d\<lparr>sessions := ss\<rparr>) i = get_user d i"
  "get_user (d\<lparr>audit_logs := al\<rparr>) i = get_user d i"
  "get_user (d\<lparr>devices := dv\<rparr>) i = get_user d i"
  "get_user (d\<lparr>jobs := js\<rparr>) i = get_user d i"
  "get_project (d\<lparr>files := fs\<rparr>) i = get_project d i"
  "get_project (d\<lparr>sessions := ss\<rparr>) i = get_project d i"
  "get_project (d\<lparr>audit_logs := al\<rparr>) i = get_project d i"
  "get_project (d\<lparr>devices := dv\<rparr>) i = get_project d i"
  "get_session (d\<lparr>files := fs\<rparr>) i = get_session d i"
  "get_session (d\<lparr>users := us\<rparr>) i = get_session d i"
  "get_session (d\<lparr>audit_logs := al\<rparr>) i = get_session d i"
  "get_session (d\<lparr>devices := dv\<rparr>) i = get_session d i"
  "session_by_refresh_hash (d\<lparr>users := us\<rparr>) h = session_by_refresh_hash d h"
  "session_by_refresh_hash (d\<lparr>audit_logs := al\<rparr>) h = session_by_refresh_hash d h"
  "session_by_refresh_hash (d\<lparr>devices := dv\<rparr>) h = session_by_refresh_hash d h"
  "get_device_row (d\<lparr>sessions := ss\<rparr>) i = get_device_row d i"
  "get_device_row (d\<lparr>audit_logs := al\<rparr>) i = get_device_row d i"
  "get_file (d\<lparr>audit_logs := al\<rparr>) i = get_file d i"
  "get_file (d\<lparr>jobs := js\<rparr>) i = get_file d i"
  "get_file (d\<lparr>attachments := as\<rparr>) i = get_file d i"
  "get_job (d\<lparr>audit_logs := al\<rparr>) i = get_job d i"
  "get_job (d\<lparr>files := fs\<rparr>) i = get_job d i"
  "get_job (d\<lparr>attachments := as\<rparr>) i = get_job d i"
  by (simp_all add: get_defs)

end
