(* ===== verification/Json.thy ===== *)
theory Json
  imports Platform "HOL-Library.List_Lexorder"
begin

text \<open>
  \<open>json.dumps(..., ensure_ascii=False, allow_nan=False)\<close> as the code calls it: with
  the compact and the spaced separators, with and without \<open>sort_keys\<close>.  The string
  syntax is proved uniquely decodable, which the canonical manifest relies on.
\<close>

fun join :: "ustr \<Rightarrow> ustr list \<Rightarrow> ustr" where
  "join sep [] = []"
| "join sep [x] = x"
| "join sep (x # y # ys) = x @ sep @ join sep (y # ys)"

definition esc_char :: "nat \<Rightarrow> ustr" where
  "esc_char c =
     (if c = 34 then [92, 34]
      else if c = 92 then [92, 92]
      else if c = 10 then [92, 110]
      else if c = 13 then [92, 114]
      else if c = 9 then [92, 116]
      else if c = 8 then [92, 98]
      else if c = 12 then [92, 102]
      else if c < 32 then [92, 117, 48, 48, hex_char (c div 16), hex_char (c mod 16)]
      else [c])"

definition json_string :: "ustr \<Rightarrow> ustr" where
  "json_string s = 34 # concat (map esc_char s) @ [34]"

definition int_text :: "int \<Rightarrow> ustr" where
  "int_text i = (if i < 0 then 45 # dec (nat (- i)) else dec (nat i))"

text \<open>\<open>sort_keys=True\<close>: the keys of every object in code point order.\<close>

fun sort_json :: "json \<Rightarrow> json" where
  "sort_json (JList xs) = JList (map sort_json xs)"
| "sort_json (JObj kvs) = JObj (sort_key fst (map (\<lambda>kv. (fst kv, sort_json (snd kv))) kvs))"
| "sort_json v = v"

fun json_text :: "lib \<Rightarrow> ustr \<Rightarrow> ustr \<Rightarrow> json \<Rightarrow> ustr" where
  "json_text L isep ksep JNull = u ''null''"
| "json_text L isep ksep (JBool b) = (if b then u ''true'' else u ''false'')"
| "json_text L isep ksep (JInt i) = int_text i"
| "json_text L isep ksep (JFloat f) = float_repr L f"
| "json_text L isep ksep (JStr s) = json_string s"
| "json_text L isep ksep (JList xs) = u ''['' @ join isep (map (json_text L isep ksep) xs) @ u '']''"
| "json_text L isep ksep (JObj kvs) =
     u ''{'' @ join isep (map (\<lambda>kv. json_string (fst kv) @ ksep @ json_text L isep ksep (snd kv)) kvs)
     @ u ''}''"

fun finite_numbers :: "json \<Rightarrow> bool" where
  "finite_numbers (JFloat (Finite m e)) = True"
| "finite_numbers (JFloat f) = False"
| "finite_numbers (JList xs) = list_all finite_numbers xs"
| "finite_numbers (JObj kvs) = list_all (\<lambda>kv. finite_numbers (snd kv)) kvs"
| "finite_numbers v = True"

text \<open>\<open>json.dumps(...).encode("utf-8")\<close>: a non-finite number or a surrogate raises.\<close>

definition json_bytes :: "lib \<Rightarrow> ustr \<Rightarrow> ustr \<Rightarrow> json \<Rightarrow> bytes result" where
  "json_bytes L isep ksep v =
     (if \<not> finite_numbers v then Inl (PyError ''ValueError'')
      else case utf8_encode (json_text L isep ksep v) of
        None \<Rightarrow> Inl (PyError ''UnicodeEncodeError'')
      | Some b \<Rightarrow> Inr b)"

section \<open>The string syntax\<close>

lemma esc_char_nonempty [simp]: "esc_char c \<noteq> []"
  by (simp add: esc_char_def)

text \<open>Reading one character back: the inverse that makes the escapes unambiguous.\<close>

definition unhex :: "nat \<Rightarrow> nat" where
  "unhex c = (if c < 58 then c - 48 else c - 87)"

definition unescape :: "ustr \<Rightarrow> nat \<times> ustr" where
  "unescape s =
     (if hd s \<noteq> 92 then (hd s, tl s)
      else if s ! 1 = 117 then (16 * unhex (s ! 4) + unhex (s ! 5), drop 6 s)
      else (if s ! 1 = 110 then 10 else if s ! 1 = 114 then 13 else if s ! 1 = 116 then 9
            else if s ! 1 = 98 then 8 else if s ! 1 = 102 then 12 else s ! 1, drop 2 s))"

lemma unhex_hex_char: "d < 16 \<Longrightarrow> unhex (hex_char d) = d"
  by (simp add: unhex_def hex_char_def)

lemma unescape_esc_char: "unescape (esc_char c @ xs) = (c, xs)"
proof (cases "c < 32 \<and> c \<notin> {8, 9, 10, 12, 13}")
  case True
  then have "esc_char c = [92, 117, 48, 48, hex_char (c div 16), hex_char (c mod 16)]"
    by (auto simp: esc_char_def)
  moreover have "unhex (hex_char (c div 16)) = c div 16" "unhex (hex_char (c mod 16)) = c mod 16"
  proof -
    from True have "c div 16 < 16" by linarith
    then show "unhex (hex_char (c div 16)) = c div 16" by (rule unhex_hex_char)
    show "unhex (hex_char (c mod 16)) = c mod 16" by (rule unhex_hex_char) simp
  qed
  ultimately show ?thesis by (simp add: unescape_def)
next
  case False
  then consider "c = 8" | "c = 9" | "c = 10" | "c = 12" | "c = 13" | "c = 34" | "c = 92"
    | "32 \<le> c" "c \<noteq> 34" "c \<noteq> 92" by fastforce
  then show ?thesis
    by cases (simp_all add: unescape_def esc_char_def)
qed

lemma esc_char_prefix:
  assumes "esc_char c @ xs = esc_char d @ ys"
  shows "c = d \<and> xs = ys"
proof -
  have "(c, xs) = (d, ys)"
    by (rule trans [OF unescape_esc_char [symmetric]]) (simp only: assms unescape_esc_char)
  then show ?thesis by simp
qed

lemma esc_char_not_quote: "esc_char c @ xs \<noteq> 34 # ys"
  by (auto simp: esc_char_def)

lemma json_string_body_inject:
  "concat (map esc_char s) @ 34 # xs = concat (map esc_char t) @ 34 # ys \<Longrightarrow> s = t \<and> xs = ys"
proof (induction s arbitrary: t)
  case Nil
  then show ?case
  proof (cases t)
    case (Cons d t')
    with Nil show ?thesis
      using esc_char_not_quote [of d "concat (map esc_char t') @ 34 # ys" xs] by simp
  qed simp
next
  case (Cons c s)
  show ?case
  proof (cases t)
    case Nil
    with Cons.prems show ?thesis
      using esc_char_not_quote [of c "concat (map esc_char s) @ 34 # xs" ys] by simp
  next
    case t: (Cons d t')
    with Cons.prems have
      "esc_char c @ (concat (map esc_char s) @ 34 # xs) = esc_char d @ (concat (map esc_char t') @ 34 # ys)"
      by simp
    then have "c = d \<and> concat (map esc_char s) @ 34 # xs = concat (map esc_char t') @ 34 # ys"
      by (rule esc_char_prefix)
    with Cons.IH t show ?thesis by blast
  qed
qed

text \<open>A quoted string followed by any text determines both.\<close>

lemma json_string_prefix: "json_string s @ xs = json_string t @ ys \<Longrightarrow> s = t \<and> xs = ys"
  using json_string_body_inject [of s xs t ys] by (simp add: json_string_def)

lemma json_string_inject [simp]: "json_string s = json_string t \<longleftrightarrow> s = t"
  using json_string_prefix [of s "[]" t "[]"] by auto

section \<open>Values that are always written\<close>

fun ascii_json :: "json \<Rightarrow> bool" where
  "ascii_json (JFloat f) = False"
| "ascii_json (JStr s) = list_all (\<lambda>c. c < 128) s"
| "ascii_json (JList xs) = list_all ascii_json xs"
| "ascii_json (JObj kvs) = list_all (\<lambda>kv. list_all (\<lambda>c. c < 128) (fst kv) \<and> ascii_json (snd kv)) kvs"
| "ascii_json v = True"

text \<open>A bound on the length of its text.\<close>

fun json_size :: "json \<Rightarrow> nat" where
  "json_size (JInt i) = length (int_text i)"
| "json_size (JStr s) = 6 * length s + 2"
| "json_size (JList xs) = 2 + sum_list (map (\<lambda>x. json_size x + 2) xs)"
| "json_size (JObj kvs) = 2 + sum_list (map (\<lambda>kv. 6 * length (fst kv) + json_size (snd kv) + 6) kvs)"
| "json_size v = 5"

lemma esc_ascii: "c < 128 \<Longrightarrow> list_all (\<lambda>c. c < 128) (esc_char c) \<and> length (esc_char c) \<le> 6"
proof -
  assume "c < 128"
  then have "c div 16 < 16" "c mod 16 < 16" by auto
  with \<open>c < 128\<close> show ?thesis by (auto simp: esc_char_def hex_char_def)
qed

lemma json_string_size:
  assumes "list_all (\<lambda>c. c < 128) s"
  shows "list_all (\<lambda>c. c < 128) (json_string s) \<and> length (json_string s) \<le> 6 * length s + 2"
proof -
  have "list_all (\<lambda>c. c < 128) (concat (map esc_char s)) \<and> length (concat (map esc_char s)) \<le> 6 * length s"
    using assms
  proof (induction s)
    case (Cons c s)
    then show ?case using esc_ascii [of c] by auto
  qed simp
  then show ?thesis by (simp add: json_string_def)
qed

lemma join_size:
  assumes "list_all (\<lambda>c. c < 128) sep" "length sep \<le> 2"
    and "\<forall>x \<in> set xs. list_all (\<lambda>c. c < 128) (f x) \<and> length (f x) \<le> g x"
  shows "list_all (\<lambda>c. c < 128) (join sep (map f xs)) \<and> length (join sep (map f xs)) \<le> sum_list (map (\<lambda>x. g x + 2) xs)"
  using assms(3)
proof (induction xs)
  case (Cons x xs)
  then have ih: "list_all (\<lambda>c. c < 128) (join sep (map f xs))"
    "length (join sep (map f xs)) \<le> sum_list (map (\<lambda>x. g x + 2) xs)"
    and x: "list_all (\<lambda>c. c < 128) (f x)" "length (f x) \<le> g x" by auto
  have "join sep (map f (x # xs)) = (if xs = [] then f x else f x @ sep @ join sep (map f xs))"
    by (cases xs) simp_all
  with ih x assms(1,2) show ?case by auto
qed simp

lemma int_text_ascii: "list_all (\<lambda>c. c < 128) (int_text i)"
  using dec_digits by (fastforce simp: int_text_def list_all_iff)

lemma json_text_size:
  assumes "ascii_json v" "list_all (\<lambda>c. c < 128) isep" "length isep \<le> 2"
    "list_all (\<lambda>c. c < 128) ksep" "length ksep \<le> 2"
  shows "list_all (\<lambda>c. c < 128) (json_text L isep ksep v) \<and> length (json_text L isep ksep v) \<le> json_size v"
  using assms(1)
proof (induction v)
  case (JList xs)
  then have "\<forall>x \<in> set xs. list_all (\<lambda>c. c < 128) (json_text L isep ksep x)
      \<and> length (json_text L isep ksep x) \<le> json_size x"
    by (simp add: list_all_iff)
  from join_size [OF assms(2,3) this] show ?case by (simp add: u_def)
next
  case (JObj kvs)
  let ?f = "\<lambda>kv. json_string (fst kv) @ ksep @ json_text L isep ksep (snd kv)"
  have "\<forall>kv \<in> set kvs. list_all (\<lambda>c. c < 128) (?f kv) \<and> length (?f kv) \<le> 6 * length (fst kv) + json_size (snd kv) + 4"
  proof
    fix kv assume kv: "kv \<in> set kvs"
    obtain k w where kw: "kv = (k, w)" by (cases kv)
    with JObj kv have "list_all (\<lambda>c. c < 128) (json_text L isep ksep w) \<and> length (json_text L isep ksep w) \<le> json_size w"
      "list_all (\<lambda>c. c < 128) k" by (auto simp: list_all_iff)
    with json_string_size [of k] assms(4,5) kw
    show "list_all (\<lambda>c. c < 128) (?f kv) \<and> length (?f kv) \<le> 6 * length (fst kv) + json_size (snd kv) + 4" by auto
  qed
  from join_size [OF assms(2,3) this] show ?case by (simp add: u_def ac_simps)
next
  case (JStr s)
  then show ?case using json_string_size by simp
next
  case (JInt i)
  then show ?case using int_text_ascii by simp
next
  case (JBool b)
  then show ?case by (simp add: u_def)
qed (simp_all add: u_def)

lemma ascii_finite: "ascii_json v \<Longrightarrow> finite_numbers v"
  by (induction v) (auto simp: list_all_iff)

lemma sort_json_ascii: "ascii_json (sort_json v) = ascii_json v"
proof (induction v)
  case (JObj kvs)
  then show ?case by (fastforce simp: list_all_iff)
qed (auto simp: list_all_iff)

lemma sort_json_size: "json_size (sort_json v) = json_size v"
proof (induction v)
  case (JList xs)
  then show ?case by (simp add: comp_def cong: map_cong)
next
  case (JObj kvs)
  let ?g = "\<lambda>kv :: ustr \<times> json. 6 * length (fst kv) + json_size (snd kv) + 6"
  have m: "mset (map ?g (sort_key fst ys)) = mset (map ?g ys)" for ys by simp
  have "sum_list (map ?g (sort_key fst ys)) = sum_list (map ?g ys)" for ys
    using arg_cong [OF m [of ys], of sum_mset] by (simp only: sum_mset_sum_list)
  moreover have "map ?g (map (\<lambda>kv. (fst kv, sort_json (snd kv))) kvs) = map ?g kvs"
    using JObj by (auto simp: prod_set_defs)
  ultimately show ?case by (simp only: sort_json.simps json_size.simps)
qed auto

text \<open>ASCII values without floats are always written, within the bound.\<close>

lemma json_bytes_ascii:
  assumes "ascii_json v" "list_all (\<lambda>c. c < 128) isep" "length isep \<le> 2"
    "list_all (\<lambda>c. c < 128) ksep" "length ksep \<le> 2"
  shows "\<exists>b. json_bytes L isep ksep (sort_json v) = Inr b \<and> length b \<le> json_size v"
proof -
  have "ascii_json (sort_json v)" using assms(1) by (simp add: sort_json_ascii)
  from json_text_size [OF this assms(2-5), of L] utf8_ascii ascii_finite [OF this] show ?thesis
    by (simp add: json_bytes_def sort_json_size)
qed

end
