(* ===== verification/Security.thy ===== *)
theory Security
  imports Schema Json
begin

text \<open>
  \<open>core/security.py\<close> and \<open>modules/auth/passwords.py\<close>: token hashing, the browser and
  the device access tokens with the exact claim shapes their decoders accept, and
  the password policy.  Random values (opaque tokens, UUID4s, salts) and clock
  readings are arguments.
\<close>

section \<open>Token primitives\<close>

definition DEVICE_ACCESS_SCOPES :: "string list" where
  "DEVICE_ACCESS_SCOPES =
     [''imports:create'', ''imports:read-own'', ''imports:submit'', ''imports:upload'']"

definition DEVICE_ACCESS_CLAIMS :: "string list" where
  "DEVICE_ACCESS_CLAIMS = [''sub'', ''device_id'', ''owner_id'', ''scopes'', ''session_id'', ''iat'',
     ''exp'', ''jti'']"

definition ACCESS_CLAIMS :: "string list" where
  "ACCESS_CLAIMS = [''sub'', ''role'', ''session_id'', ''iat'', ''exp'', ''jti'']"

definition hash_token :: "lib \<Rightarrow> ustr \<Rightarrow> ustr option" where
  "hash_token L raw = map_option (sha256_hex L) (utf8_encode raw)"

fun role_text :: "role \<Rightarrow> string" where
  "role_text OWNER = ''OWNER''"
| "role_text STAFF = ''STAFF''"

lemma role_text_inject [simp]: "role_text r = role_text s \<longleftrightarrow> r = s"
  by (cases r; cases s) auto

definition whole_seconds :: "time \<Rightarrow> time" where
  "whole_seconds t = t - t mod second"

text \<open>JWT NumericDate claims are whole seconds.\<close>

definition numeric_date :: "time \<Rightarrow> json" where
  "numeric_date t = JInt (t div second)"

definition claim_text :: "(ustr \<times> json) list \<Rightarrow> string \<Rightarrow> ustr option" where
  "claim_text p k = (case map_of p (u k) of Some (JStr s) \<Rightarrow> Some s | _ \<Rightarrow> None)"

definition claim_int :: "(ustr \<times> json) list \<Rightarrow> string \<Rightarrow> int option" where
  "claim_int p k = (case map_of p (u k) of Some (JInt i) \<Rightarrow> Some i | _ \<Rightarrow> None)"

definition claim_uuid :: "lib \<Rightarrow> (ustr \<times> json) list \<Rightarrow> string \<Rightarrow> uuid option" where
  \<comment> \<open>\<open>UUID(str(payload[k]))\<close>: of the JSON values only text and integers can read as a UUID\<close>
  "claim_uuid L p k = (case map_of p (u k) of
       Some (JStr s) \<Rightarrow> uuid_parse L s
     | Some (JInt i) \<Rightarrow> uuid_parse L (int_text i)
     | _ \<Rightarrow> None)"

definition exact_claims :: "(ustr \<times> json) list \<Rightarrow> string list \<Rightarrow> bool" where
  "exact_claims p ks \<longleftrightarrow> set (map fst p) = set (map u ks)"

section \<open>Browser access tokens\<close>

definition issue_access_token ::
  "lib \<Rightarrow> ustr \<Rightarrow> time \<Rightarrow> uuid \<Rightarrow> uuid \<Rightarrow> string \<Rightarrow> uuid \<Rightarrow> (ustr \<times> time) result" where
  "issue_access_token L secret now jti user_id role session_id =
     (if secret = [] then Inl TokenError
      else (let issued_at = whole_seconds now; expires_at = issued_at + 2 * hour in
        Inr (jwt_encode L secret
          [(u ''sub'', JStr (uuid_str user_id)), (u ''role'', JStr (u role)),
           (u ''session_id'', JStr (uuid_str session_id)), (u ''iat'', numeric_date issued_at),
           (u ''exp'', numeric_date expires_at), (u ''jti'', JStr (uuid_str jti))],
          expires_at)))"

definition decode_access_token ::
  "lib \<Rightarrow> time \<Rightarrow> ustr \<Rightarrow> ustr \<Rightarrow> (ustr \<times> json) list result" where
  "decode_access_token L now secret token =
     (if secret = [] then Inl TokenError
      else case jwt_decode L now True secret token of
        None \<Rightarrow> Inl TokenError
      | Some payload \<Rightarrow>
          if \<not> exact_claims payload ACCESS_CLAIMS then Inl TokenError
          else if \<not> list_all (\<lambda>k. case claim_text payload k of None \<Rightarrow> False | Some s \<Rightarrow> s \<noteq> [])
                 [''sub'', ''role'', ''session_id'', ''jti''] then Inl TokenError
          else if \<not> list_all (\<lambda>k. claim_int payload k \<noteq> None) [''iat'', ''exp''] then Inl TokenError
          else Inr payload)"

section \<open>Device access tokens\<close>

definition scopes_json :: json where
  "scopes_json = JList (map (\<lambda>s. JStr (u s)) DEVICE_ACCESS_SCOPES)"

definition issue_device_access_token ::
  "lib \<Rightarrow> ustr \<Rightarrow> uuid \<Rightarrow> uuid \<Rightarrow> uuid \<Rightarrow> uuid \<Rightarrow> time \<Rightarrow> (ustr \<times> time) result" where
  "issue_device_access_token L secret device_id owner_id session_id access_jti issued_at =
     (if secret = [] then Inl TokenError
      else (let expires_at = issued_at + 2 * hour in
        Inr (jwt_encode L secret
          [(u ''sub'', JStr (uuid_str device_id)), (u ''device_id'', JStr (uuid_str device_id)),
           (u ''owner_id'', JStr (uuid_str owner_id)), (u ''scopes'', scopes_json),
           (u ''session_id'', JStr (uuid_str session_id)), (u ''iat'', numeric_date issued_at),
           (u ''exp'', numeric_date expires_at), (u ''jti'', JStr (uuid_str access_jti))],
          expires_at)))"

definition decode_device_access_token ::
  "lib \<Rightarrow> time \<Rightarrow> ustr \<Rightarrow> ustr \<Rightarrow> (ustr \<times> json) list result" where
  "decode_device_access_token L now secret token =
     (if secret = [] then Inl TokenError
      else case jwt_decode L now False secret token of
        None \<Rightarrow> Inl TokenError
      | Some payload \<Rightarrow>
          if \<not> exact_claims payload DEVICE_ACCESS_CLAIMS then Inl TokenError
          else (case (claim_int payload ''iat'', claim_int payload ''exp'') of
            (Some iat, Some ex) \<Rightarrow>
              if ex \<noteq> iat + 2 * 60 * 60 then Inl TokenError
              else if map_of payload (u ''scopes'') \<noteq> Some scopes_json then Inl TokenError
              else (case (claim_uuid L payload ''sub'', claim_uuid L payload ''device_id'') of
                (Some subject_id, Some device_id) \<Rightarrow>
                  if claim_uuid L payload ''owner_id'' = None
                     \<or> claim_uuid L payload ''session_id'' = None
                     \<or> claim_uuid L payload ''jti'' = None then Inl TokenError
                  else if subject_id \<noteq> device_id then Inl TokenError
                  else Inr payload
              | _ \<Rightarrow> Inl TokenError)
          | _ \<Rightarrow> Inl TokenError))"

lemma decode_device_access_token_Inr:
  assumes "decode_device_access_token L now secret token = Inr payload"
  obtains iat d o_id s_id' j where
    "claim_int payload ''iat'' = Some iat" "claim_int payload ''exp'' = Some (iat + 7200)"
    "claim_uuid L payload ''device_id'' = Some d" "claim_uuid L payload ''owner_id'' = Some o_id"
    "claim_uuid L payload ''session_id'' = Some s_id'" "claim_uuid L payload ''jti'' = Some j"
    "exact_claims payload DEVICE_ACCESS_CLAIMS"
  using assms
  by (auto simp: decode_device_access_token_def split: if_splits option.splits)

text \<open>The two token shapes exclude each other: no payload has both claim sets.\<close>

lemma claim_sets_differ: "exact_claims p ACCESS_CLAIMS \<Longrightarrow> \<not> exact_claims p DEVICE_ACCESS_CLAIMS"
proof
  assume "exact_claims p ACCESS_CLAIMS" "exact_claims p DEVICE_ACCESS_CLAIMS"
  then have "set (map u ACCESS_CLAIMS) = set (map u DEVICE_ACCESS_CLAIMS)"
    by (simp add: exact_claims_def)
  then have "u ''role'' \<in> set (map u DEVICE_ACCESS_CLAIMS)"
    by (auto simp: ACCESS_CLAIMS_def)
  then show False by (simp add: DEVICE_ACCESS_CLAIMS_def)
qed

section \<open>Passwords (auth/passwords.py)\<close>

definition MIN_PASSWORD_CODEPOINTS :: nat where "MIN_PASSWORD_CODEPOINTS = 12"
definition MAX_PASSWORD_CODEPOINTS :: nat where "MAX_PASSWORD_CODEPOINTS = 128"
definition MAX_PASSWORD_UTF8_BYTES :: nat where "MAX_PASSWORD_UTF8_BYTES = 512"

definition validate_password :: "lib \<Rightarrow> ustr \<Rightarrow> unit result" where
  "validate_password L raw =
     (if \<not> (MIN_PASSWORD_CODEPOINTS \<le> length raw \<and> length raw \<le> MAX_PASSWORD_CODEPOINTS)
      then Inl PasswordPolicyError
      else if list_ex (category_Cc L) raw then Inl PasswordPolicyError
      else case utf8_encode raw of
        None \<Rightarrow> Inl PasswordPolicyError
      | Some encoded \<Rightarrow> if length encoded > MAX_PASSWORD_UTF8_BYTES then Inl PasswordPolicyError
          else Inr ())"

definition hash_password :: "lib \<Rightarrow> nat \<Rightarrow> ustr \<Rightarrow> ustr result" where
  "hash_password L salt raw = (case validate_password L raw of
       Inl e \<Rightarrow> Inl e
     | Inr _ \<Rightarrow> Inr (argon2_hash L salt raw))"

record password_verification =
  pv_valid :: bool
  pv_needs_rehash :: bool

definition verify_password :: "lib \<Rightarrow> ustr \<Rightarrow> ustr \<Rightarrow> password_verification" where
  "verify_password L encoded_hash raw =
     (case (case validate_password L raw of Inl _ \<Rightarrow> None | Inr _ \<Rightarrow> argon2_verify L encoded_hash raw) of
        None \<Rightarrow> \<lparr>pv_valid = False, pv_needs_rehash = False\<rparr>
      | Some valid \<Rightarrow> \<lparr>pv_valid = valid,
          pv_needs_rehash = (valid \<and> argon2_needs_rehash L encoded_hash)\<rparr>)"

text \<open>
  The byte limit of the policy never decides: 128 code points take at most 512 bytes.
\<close>

lemma validate_password_iff:
  "validate_password L raw = Inr () \<longleftrightarrow>
     12 \<le> length raw \<and> length raw \<le> 128 \<and> list_all (\<lambda>c. \<not> category_Cc L c) raw
     \<and> list_all (\<lambda>c. \<not> surrogate c) raw"
proof -
  have "length (concat (map utf8_char raw)) \<le> 512" if "length raw \<le> 128"
    using length_utf8_le [of raw] that by simp
  then show ?thesis
    by (auto simp: validate_password_def MIN_PASSWORD_CODEPOINTS_def MAX_PASSWORD_CODEPOINTS_def
        MAX_PASSWORD_UTF8_BYTES_def utf8_encode_def list_ex_iff list_all_iff)
qed

lemma verify_password_valid_policy:
  "pv_valid (verify_password L h raw) \<Longrightarrow> validate_password L raw = Inr ()"
  by (auto simp: verify_password_def split: sum.splits option.splits)

end
