(* ===== verification/Actors.thy ===== *)
theory Actors
  imports Schema
begin

text \<open>
  \<open>core/actors.py\<close>: the actor a request acts for and the project authorization
  policies.  \<open>Inr ()\<close> is a policy that returns, \<open>Inl\<close> the error it raises.
\<close>

record actor =
  actor_kind :: string
  actor_subject :: uuid
  actor_role :: "role option"
  actor_projects :: "uuid list"
  actor_scopes :: "string list"

definition require_owner :: "actor \<Rightarrow> unit result" where
  "require_owner a =
     (if actor_kind a \<noteq> ''user'' \<or> actor_role a \<noteq> Some OWNER
      then Inl (forbidden_error ''PROJECT_CREATE_FORBIDDEN'' ''You cannot create projects'')
      else Inr ())"

definition require_project_access :: "actor \<Rightarrow> uuid \<Rightarrow> unit result" where
  "require_project_access a project_id =
     (if actor_kind a \<noteq> ''user'' then Inl project_forbidden
      else if actor_role a = Some OWNER then Inr ()
      else if actor_role a = Some STAFF \<and> project_id \<in> set (actor_projects a) then Inr ()
      else Inl project_forbidden)"

definition require_project_actor :: "actor \<Rightarrow> unit result" where
  "require_project_actor a =
     (if actor_kind a \<noteq> ''user'' \<or> actor_role a \<notin> {Some OWNER, Some STAFF}
      then Inl project_forbidden
      else Inr ())"

text \<open>Who may reach a project through the browser API.\<close>

definition may_access_project :: "actor \<Rightarrow> uuid \<Rightarrow> bool" where
  "may_access_project a p \<longleftrightarrow> actor_kind a = ''user'' \<and>
     (actor_role a = Some OWNER \<or> actor_role a = Some STAFF \<and> p \<in> set (actor_projects a))"

lemma require_project_access_iff:
  "require_project_access a p = (if may_access_project a p then Inr () else Inl project_forbidden)"
  by (auto simp: require_project_access_def may_access_project_def)

lemma require_owner_iff:
  "require_owner a = Inr () \<longleftrightarrow> actor_kind a = ''user'' \<and> actor_role a = Some OWNER"
  by (auto simp: require_owner_def)

text \<open>The device actors an import operation accepts: kind, no role, project and scope.\<close>

definition device_may :: "string \<Rightarrow> actor \<Rightarrow> uuid \<Rightarrow> bool" where
  "device_may scope a p \<longleftrightarrow>
     actor_kind a = ''device'' \<and> actor_role a = None \<and> p \<in> set (actor_projects a)
     \<and> scope \<in> set (actor_scopes a)"

lemma device_never_accesses_project: "actor_kind a = ''device'' \<Longrightarrow> \<not> may_access_project a p"
  by (simp add: may_access_project_def)

end
