(* ===== verification/Audit_Log.thy ===== *)
theory Audit_Log
  imports Actors Json
begin

text \<open>
  \<open>modules/audit\<close>: the sanitizer that bounds and redacts event metadata
  (\<open>schemas.py\<close>) and the append-only event log (\<open>service.py\<close>).  JSON values of the
  model are finite trees, so the cycle test of \<open>_validate_value\<close> never fires.
\<close>

section \<open>Metadata sanitizing (audit/schemas.py)\<close>

definition MAX_DEPTH :: nat where "MAX_DEPTH = 32"
definition MAX_NODES :: nat where "MAX_NODES = 1000"
definition MAX_TEXT_BYTES :: nat where "MAX_TEXT_BYTES = 64 * 1024"
definition MAX_JSON_INTEGER :: int where "MAX_JSON_INTEGER = 2 ^ 53 - 1"
definition REDACTED :: json where "REDACTED = JStr (u ''[REDACTED]'')"

lemmas audit_limits = MAX_DEPTH_def MAX_NODES_def MAX_TEXT_BYTES_def MAX_JSON_INTEGER_def

definition fold_key :: "lib \<Rightarrow> ustr \<Rightarrow> ustr" where
  "fold_key L k = casefold L (nfkc L k)"

definition forbidden_metadata_keys :: "lib \<Rightarrow> ustr list" where
  "forbidden_metadata_keys L = map (\<lambda>k. fold_key L (u k))
     [''access_token'', ''refresh_token'', ''authorization'', ''cookie'', ''file_content'',
      ''model_input'']"

record budget =
  b_nodes :: nat
  b_text_bytes :: nat

definition budget_node :: "budget \<Rightarrow> budget result" where
  "budget_node b = (let b' = b\<lparr>b_nodes := b_nodes b + 1\<rparr> in
     if b_nodes b' > MAX_NODES then Inl (PyError ''ValueError'') else Inr b')"

definition budget_text :: "ustr \<Rightarrow> budget \<Rightarrow> budget result" where
  "budget_text s b = (case utf8_encode s of
       None \<Rightarrow> Inl (PyError ''UnicodeEncodeError'')
     | Some bs \<Rightarrow> (let b' = b\<lparr>b_text_bytes := b_text_bytes b + length bs\<rparr> in
         if b_text_bytes b' > MAX_TEXT_BYTES then Inl (PyError ''ValueError'') else Inr b'))"

fun validate_value :: "nat \<Rightarrow> json \<Rightarrow> budget \<Rightarrow> budget result"
  and validate_items :: "nat \<Rightarrow> json list \<Rightarrow> budget \<Rightarrow> budget result"
  and validate_pairs :: "nat \<Rightarrow> (ustr \<times> json) list \<Rightarrow> budget \<Rightarrow> budget result" where
  "validate_value depth v b = (case budget_node b of
       Inl e \<Rightarrow> Inl e
     | Inr b1 \<Rightarrow>
         if depth > MAX_DEPTH then Inl (PyError ''ValueError'')
         else (case v of
             JNull \<Rightarrow> Inr b1
           | JBool _ \<Rightarrow> Inr b1
           | JStr s \<Rightarrow> budget_text s b1
           | JInt i \<Rightarrow> if i < - MAX_JSON_INTEGER \<or> i > MAX_JSON_INTEGER
               then Inl (PyError ''ValueError'') else Inr b1
           | JFloat f \<Rightarrow> (case f of Finite _ _ \<Rightarrow> Inr b1 | _ \<Rightarrow> Inl (PyError ''ValueError''))
           | JList xs \<Rightarrow> validate_items (depth + 1) xs b1
           | JObj kvs \<Rightarrow> validate_pairs (depth + 1) kvs b1))"
| "validate_items depth [] b = Inr b"
| "validate_items depth (x # xs) b = (case validate_value depth x b of
       Inl e \<Rightarrow> Inl e
     | Inr b1 \<Rightarrow> validate_items depth xs b1)"
| "validate_pairs depth [] b = Inr b"
| "validate_pairs depth ((k, x) # kvs) b = (case budget_text k b of
       Inl e \<Rightarrow> Inl e
     | Inr b1 \<Rightarrow> (case validate_value depth x b1 of
         Inl e \<Rightarrow> Inl e
       | Inr b2 \<Rightarrow> validate_pairs depth kvs b2))"

declare validate_value.simps [simp del]

fun copy_sanitized :: "lib \<Rightarrow> json \<Rightarrow> json" where
  "copy_sanitized L (JList xs) = JList (map (copy_sanitized L) xs)"
| "copy_sanitized L (JObj kvs) = JObj (map (\<lambda>kv. (fst kv,
     if fold_key L (fst kv) \<in> set (forbidden_metadata_keys L) then REDACTED
     else copy_sanitized L (snd kv))) kvs)"
| "copy_sanitized L v = v"

definition sanitize_metadata :: "lib \<Rightarrow> json \<Rightarrow> (ustr \<times> json) list result" where
  "sanitize_metadata L value = (case value of
       JObj kvs \<Rightarrow> (case validate_value 0 value \<lparr>b_nodes = 0, b_text_bytes = 0\<rparr> of
           Inl e \<Rightarrow> Inl e
         | Inr _ \<Rightarrow> (let result = copy_sanitized L value in
             case json_bytes L (u '','') (u '':'') result of
               Inl e \<Rightarrow> Inl e
             | Inr encoded \<Rightarrow>
                 if length encoded > MAX_TEXT_BYTES then Inl (PyError ''ValueError'')
                 else (case result of JObj r \<Rightarrow> Inr r | _ \<Rightarrow> Inl (PyError ''AssertionError''))))
     | _ \<Rightarrow> Inl (PyError ''TypeError''))"

section \<open>The event log (audit/service.py)\<close>

text \<open>Equality of metadata objects: the same keys with the same values, in any order, at
  every depth.\<close>

definition same_object :: "(ustr \<times> json) list \<Rightarrow> (ustr \<times> json) list \<Rightarrow> bool" where
  "same_object a b \<longleftrightarrow> sort_json (JObj a) = sort_json (JObj b)"

lemma same_object_refl [simp]: "same_object a a"
  by (simp add: same_object_def)

text \<open>\<open>_same_event\<close>: every stored column but the identifier and the event key.\<close>

definition same_event :: "audit_log \<Rightarrow> audit_log \<Rightarrow> bool" where
  "same_event existing row \<longleftrightarrow>
     al_actor_kind existing = al_actor_kind row
     \<and> al_actor_id existing = al_actor_id row
     \<and> al_action existing = al_action row
     \<and> al_object_type existing = al_object_type row
     \<and> al_object_id existing = al_object_id row
     \<and> al_project_id existing = al_project_id row
     \<and> al_outcome existing = al_outcome row
     \<and> al_request_id existing = al_request_id row
     \<and> same_object (al_metadata existing) (al_metadata row)"

definition event_by_key :: "db \<Rightarrow> uuid \<Rightarrow> audit_log option" where
  "event_by_key db k = find (\<lambda>x. al_event_key x = Some k) (audit_logs db)"

text \<open>\<open>session.add(AuditLog(...))\<close> and its flush, under the unique index on event keys.\<close>

definition insert_audit :: "audit_log \<Rightarrow> db \<Rightarrow> db result" where
  "insert_audit row db =
     (if (case al_event_key row of None \<Rightarrow> False | Some k \<Rightarrow> event_by_key db k \<noteq> None)
      then Inl (Integrity ''uq_audit_logs_event_key'')
      else Inr (db\<lparr>audit_logs := audit_logs db @ [row]\<rparr>))"

text \<open>
  \<open>write_audit\<close>.  \<open>race\<close> is what other transactions commit between its SELECT and its
  INSERT; the sequential behaviour is \<open>write_audit id\<close>.
\<close>

definition write_audit :: "(db \<Rightarrow> db) \<Rightarrow> audit_log \<Rightarrow> db \<Rightarrow> uuid result \<times> db" where
  "write_audit race row db =
     (case (case al_event_key row of None \<Rightarrow> None | Some k \<Rightarrow> event_by_key db k) of
        Some existing \<Rightarrow>
          if \<not> same_event existing row then (Inl (PyError ''RuntimeError''), db)
          else (Inr (al_id existing), db)
      | None \<Rightarrow> (case insert_audit row (race db) of
          Inl e \<Rightarrow> (Inl e, race db)
        | Inr db' \<Rightarrow> (Inr (al_id row), db')))"

text \<open>
  \<open>AuditEventInput\<close> and \<open>AuditService.record\<close>: the metadata is sanitized, the actor's
  role added, the row committed in a transaction of its own; after a lost race the
  stored event is read back, and nothing is committed.
\<close>

definition role_json :: "role option \<Rightarrow> json" where
  "role_json r = (case r of None \<Rightarrow> JNull | Some OWNER \<Rightarrow> JStr (u ''OWNER'')
     | Some STAFF \<Rightarrow> JStr (u ''STAFF''))"

definition obj_set :: "ustr \<Rightarrow> json \<Rightarrow> (ustr \<times> json) list \<Rightarrow> (ustr \<times> json) list" where
  "obj_set k v kvs = (if k \<in> set (map fst kvs)
     then map (\<lambda>kv. if fst kv = k then (k, v) else kv) kvs else kvs @ [(k, v)])"

record audit_event =
  ev_actor :: actor
  ev_action :: string
  ev_object_type :: string
  ev_object_id :: "uuid option"
  ev_project_id :: "uuid option"
  ev_outcome :: string
  ev_request_id :: uuid
  ev_event_key :: "uuid option"
  ev_metadata :: json

definition audit_row :: "lib \<Rightarrow> uuid \<Rightarrow> audit_event \<Rightarrow> audit_log result" where
  "audit_row L aid ev = (case sanitize_metadata L (ev_metadata ev) of
       Inl e \<Rightarrow> Inl (PyError ''ValidationError'')
     | Inr md \<Rightarrow> Inr \<lparr>al_id = aid, al_actor_kind = actor_kind (ev_actor ev),
         al_actor_id = Some (actor_subject (ev_actor ev)), al_action = ev_action ev,
         al_object_type = ev_object_type ev, al_object_id = ev_object_id ev,
         al_project_id = ev_project_id ev, al_outcome = ev_outcome ev,
         al_metadata = obj_set (u ''actor_role'') (role_json (actor_role (ev_actor ev))) md,
         al_request_id = Some (ev_request_id ev), al_event_key = ev_event_key ev\<rparr>)"

definition audit_record :: "lib \<Rightarrow> (db \<Rightarrow> db) \<Rightarrow> uuid \<Rightarrow> audit_event \<Rightarrow> db \<Rightarrow> uuid result \<times> db" where
  "audit_record L race aid ev db = (case audit_row L aid ev of
       Inl e \<Rightarrow> (Inl e, db)
     | Inr row \<Rightarrow> (case write_audit race row db of
         (Inr i, db') \<Rightarrow> (Inr i, db')
       | (Inl (Integrity c), db') \<Rightarrow>
           if al_event_key row = None then (Inl (Integrity c), db')
           else (fst (write_audit id row db'), db')
       | (Inl e, db') \<Rightarrow> (Inl e, db')))"

section \<open>What the sanitizer guarantees\<close>

text \<open>Sizes of a JSON value: nodes, nesting, UTF-8 bytes of keys and text.\<close>

fun node_count :: "json \<Rightarrow> nat" where
  "node_count (JList xs) = 1 + sum_list (map node_count xs)"
| "node_count (JObj kvs) = 1 + sum_list (map (\<lambda>kv. node_count (snd kv)) kvs)"
| "node_count v = 1"

fun text_size :: "json \<Rightarrow> nat" where
  "text_size (JStr s) = length (concat (map utf8_char s))"
| "text_size (JList xs) = sum_list (map text_size xs)"
| "text_size (JObj kvs) =
     sum_list (map (\<lambda>kv. length (concat (map utf8_char (fst kv))) + text_size (snd kv)) kvs)"
| "text_size v = 0"

fun nested_within :: "nat \<Rightarrow> json \<Rightarrow> bool" where
  "nested_within d (JList xs) \<longleftrightarrow> (case d of 0 \<Rightarrow> xs = [] | Suc e \<Rightarrow> list_all (nested_within e) xs)"
| "nested_within d (JObj kvs) \<longleftrightarrow>
     (case d of 0 \<Rightarrow> kvs = [] | Suc e \<Rightarrow> list_all (\<lambda>kv. nested_within e (snd kv)) kvs)"
| "nested_within d v = True"

text \<open>No forbidden key keeps its value, at any depth.\<close>

fun redacted :: "lib \<Rightarrow> json \<Rightarrow> bool" where
  "redacted L (JList xs) = list_all (redacted L) xs"
| "redacted L (JObj kvs) = list_all (\<lambda>kv.
     if fold_key L (fst kv) \<in> set (forbidden_metadata_keys L) then snd kv = REDACTED
     else redacted L (snd kv)) kvs"
| "redacted L v = True"

lemma redacted_copy: "redacted L (copy_sanitized L v)"
  by (induction L v rule: copy_sanitized.induct) (auto simp: list_all_iff)

lemma budget_node_Inr:
  "budget_node b = Inr b' \<Longrightarrow>
     b' = b\<lparr>b_nodes := b_nodes b + 1\<rparr> \<and> b_nodes b' \<le> MAX_NODES"
  by (auto simp: budget_node_def Let_def split: if_splits)

lemma budget_text_Inr:
  "budget_text s b = Inr b' \<Longrightarrow>
     b' = b\<lparr>b_text_bytes := b_text_bytes b + length (concat (map utf8_char s))\<rparr>
     \<and> b_text_bytes b' \<le> MAX_TEXT_BYTES"
  by (auto simp: budget_text_def utf8_encode_def Let_def split: if_splits option.splits)

definition within_budget :: "budget \<Rightarrow> bool" where
  "within_budget b \<longleftrightarrow> b_nodes b \<le> MAX_NODES \<and> b_text_bytes b \<le> MAX_TEXT_BYTES"

lemma validate_spends:
  "validate_value d v b = Inr b' \<Longrightarrow> within_budget b \<Longrightarrow> within_budget b'
     \<and> b_nodes b' = b_nodes b + node_count v
     \<and> b_text_bytes b' = b_text_bytes b + text_size v
     \<and> d \<le> MAX_DEPTH \<and> nested_within (MAX_DEPTH - d) v"
  "validate_items d xs b = Inr b' \<Longrightarrow> within_budget b \<Longrightarrow> within_budget b'
     \<and> b_nodes b' = b_nodes b + sum_list (map node_count xs)
     \<and> b_text_bytes b' = b_text_bytes b + sum_list (map text_size xs)
     \<and> (xs \<noteq> [] \<longrightarrow> d \<le> MAX_DEPTH) \<and> list_all (nested_within (MAX_DEPTH - d)) xs"
  "validate_pairs d kvs b = Inr b' \<Longrightarrow> within_budget b \<Longrightarrow> within_budget b'
     \<and> b_nodes b' = b_nodes b + sum_list (map (\<lambda>kv. node_count (snd kv)) kvs)
     \<and> b_text_bytes b' = b_text_bytes b
         + sum_list (map (\<lambda>kv. length (concat (map utf8_char (fst kv))) + text_size (snd kv)) kvs)
     \<and> (kvs \<noteq> [] \<longrightarrow> d \<le> MAX_DEPTH)
     \<and> list_all (\<lambda>kv. nested_within (MAX_DEPTH - d) (snd kv)) kvs"
proof (induction d v b and d xs b and d kvs b arbitrary: b' and b' and b'
    rule: validate_value_validate_items_validate_pairs.induct)
  case (1 depth v b)
  from "1.prems"(1) obtain b1 where b1: "budget_node b = Inr b1" and d: "depth \<le> MAX_DEPTH"
    by (auto simp: validate_value.simps [of depth v b] split: sum.splits if_splits)
  note n = budget_node_Inr [OF b1]
  from n "1.prems"(2) have w: "within_budget b1" by (auto simp: within_budget_def)
  have step: "Suc (MAX_DEPTH - Suc depth) = MAX_DEPTH - depth" if "Suc depth \<le> MAX_DEPTH"
    using that by simp
  show ?case
  proof (cases v)
    case (JStr s)
    with "1.prems" b1 d have "budget_text s b1 = Inr b'" by (simp add: validate_value.simps)
    from budget_text_Inr [OF this] n w d JStr show ?thesis by (auto simp: within_budget_def)
  next
    case (JList xs)
    with "1.prems" b1 d have r: "validate_items (depth + 1) xs b1 = Inr b'"
      by (simp add: validate_value.simps)
    from "1.IH"(1) [OF b1 _ JList r w] d have
      "within_budget b' \<and> b_nodes b' = b_nodes b1 + sum_list (map node_count xs)
       \<and> b_text_bytes b' = b_text_bytes b1 + sum_list (map text_size xs)
       \<and> (xs \<noteq> [] \<longrightarrow> depth + 1 \<le> MAX_DEPTH)
       \<and> list_all (nested_within (MAX_DEPTH - (depth + 1))) xs" by simp
    with n d JList show ?thesis
      by (cases xs) (auto simp: step [symmetric] split: nat.splits)
  next
    case (JObj kvs)
    with "1.prems" b1 d have r: "validate_pairs (depth + 1) kvs b1 = Inr b'"
      by (simp add: validate_value.simps)
    from "1.IH"(2) [OF b1 _ JObj r w] d n JObj show ?thesis
      by (cases kvs) (auto simp: step [symmetric] split: nat.splits)
  qed (use "1.prems" b1 d n w in \<open>auto simp: validate_value.simps within_budget_def
      split: if_splits pyfloat.splits\<close>)
next
  case (3 depth x xs b)
  from "3.prems"(1) obtain b1 where b1: "validate_value depth x b = Inr b1"
    and r: "validate_items depth xs b1 = Inr b'" by (auto split: sum.splits)
  from "3.IH"(1) [OF b1 "3.prems"(2)] have x: "within_budget b1
     \<and> b_nodes b1 = b_nodes b + node_count x \<and> b_text_bytes b1 = b_text_bytes b + text_size x
     \<and> depth \<le> MAX_DEPTH \<and> nested_within (MAX_DEPTH - depth) x" .
  with "3.IH"(2) [OF b1 r] show ?case by simp
next
  case (5 depth k x kvs b)
  from "5.prems"(1) obtain b1 b2 where b1: "budget_text k b = Inr b1"
    and b2: "validate_value depth x b1 = Inr b2" and r: "validate_pairs depth kvs b2 = Inr b'"
    by (auto split: sum.splits)
  note t = budget_text_Inr [OF b1]
  from t "5.prems"(2) have w: "within_budget b1" by (auto simp: within_budget_def)
  from "5.IH"(1) [OF b1 b2 w] have x: "within_budget b2
     \<and> b_nodes b2 = b_nodes b1 + node_count x \<and> b_text_bytes b2 = b_text_bytes b1 + text_size x
     \<and> depth \<le> MAX_DEPTH \<and> nested_within (MAX_DEPTH - depth) x" .
  with "5.IH"(2) [OF b1 b2 r] t show ?case by simp
qed simp_all

lemma sanitize_Inr:
  assumes "sanitize_metadata L v = Inr r"
  shows "\<exists>kvs b. v = JObj kvs \<and> JObj r = copy_sanitized L v
     \<and> validate_value 0 v \<lparr>b_nodes = 0, b_text_bytes = 0\<rparr> = Inr b"
  using assms
  by (auto simp: sanitize_metadata_def Let_def simp del: copy_sanitized.simps
      split: json.splits sum.splits if_splits)

section \<open>The log is append-only\<close>

text \<open>The states an operation that only logs can lead to.\<close>

definition only_log :: "db \<Rightarrow> db \<Rightarrow> bool" where
  "only_log db db' \<longleftrightarrow> (\<exists>rows. db' = db\<lparr>audit_logs := audit_logs db @ rows\<rparr>)"

lemma only_log_refl [simp, intro]: "only_log db db"
  unfolding only_log_def by (rule exI [of _ "[]"]) simp

lemma only_log_trans: "only_log a b \<Longrightarrow> only_log b c \<Longrightarrow> only_log a c"
  unfolding only_log_def by auto

lemma only_log_append [simp, intro]: "only_log db (db\<lparr>audit_logs := audit_logs db @ rows\<rparr>)"
  unfolding only_log_def by blast

text \<open>The interface of the log its clients rely on.\<close>

locale event_sink =
  fixes sink :: "'e \<Rightarrow> db \<Rightarrow> uuid result \<times> db"
  assumes only_logs: "only_log db (snd (sink e db))"
begin

lemma sink_tables:
  "users (snd (sink e db)) = users db"
  "projects (snd (sink e db)) = projects db"
  "members (snd (sink e db)) = members db"
  "sessions (snd (sink e db)) = sessions db"
  "pairing_codes (snd (sink e db)) = pairing_codes db"
  "pairing_projects (snd (sink e db)) = pairing_projects db"
  "devices (snd (sink e db)) = devices db"
  "project_grants (snd (sink e db)) = project_grants db"
  "scope_grants (snd (sink e db)) = scope_grants db"
  "files (snd (sink e db)) = files db"
  "jobs (snd (sink e db)) = jobs db"
  "attachments (snd (sink e db)) = attachments db"
  using only_logs [of db e] by (auto simp: only_log_def)

lemma sink_keeps: "x \<in> set (audit_logs db) \<Longrightarrow> x \<in> set (audit_logs (snd (sink e db)))"
  using only_logs [of db e] by (auto simp: only_log_def)

end

lemma insert_audit_Inr:
  "insert_audit row db = Inr db' \<Longrightarrow> db' = db\<lparr>audit_logs := audit_logs db @ [row]\<rparr>"
  by (auto simp: insert_audit_def split: if_splits)

lemma write_audit_only_logs: "only_log (race db) (snd (write_audit race row db)) \<or>
    snd (write_audit race row db) = db"
  by (auto simp: write_audit_def dest: insert_audit_Inr split: option.splits sum.splits)

interpretation audit_writer: event_sink "write_audit id"
  by unfold_locales
    (auto simp: write_audit_def dest: insert_audit_Inr split: option.splits sum.splits)

interpretation audit_service: event_sink "\<lambda>e. audit_record L id (fst e) (snd e)" for L
proof
  fix db and e :: "uuid \<times> audit_event"
  show "only_log db (snd (audit_record L id (fst e) (snd e) db))"
  proof (cases "audit_row L (fst e) (snd e)")
    case (Inr row)
    with audit_writer.only_logs [of db row] show ?thesis
      by (auto simp: audit_record_def split: prod.splits sum.splits exn.splits)
  qed (simp add: audit_record_def)
qed

section \<open>Event keys\<close>

definition event_keys :: "db \<Rightarrow> uuid list" where
  "event_keys db = List.map_filter al_event_key (audit_logs db)"

definition event_keys_unique :: "db \<Rightarrow> bool" where
  "event_keys_unique db \<longleftrightarrow> distinct (event_keys db)"

lemma event_by_key_None: "event_by_key db k = None \<longleftrightarrow> k \<notin> set (event_keys db)"
  by (auto simp: event_by_key_def find_None_iff_all event_keys_def map_filter_def image_iff)

lemma insert_audit_unique:
  "event_keys_unique db \<Longrightarrow> insert_audit row db = Inr db' \<Longrightarrow> event_keys_unique db'"
  using event_by_key_None [of db]
  by (auto simp: insert_audit_def event_keys_unique_def event_keys_def map_filter_def
      split: if_splits option.splits)

section \<open>Flat events are always accepted\<close>

text \<open>
  The metadata the services write is an object of few short ASCII texts.  The sanitizer
  accepts all of it, so recording a denial never fails on its own metadata.
\<close>

definition flat_ascii :: "(ustr \<times> json) list \<Rightarrow> bool" where
  "flat_ascii kvs \<longleftrightarrow> length kvs \<le> 8 \<and>
     (\<forall>kv \<in> set kvs. ascii (fst kv) \<and> (snd kv = JNull \<or> (\<exists>s. snd kv = JStr s \<and> ascii s)))"

lemma budget_text_ascii:
  assumes "ascii s" "b_text_bytes b + 300 \<le> MAX_TEXT_BYTES"
  shows "budget_text s b = Inr (b\<lparr>b_text_bytes := b_text_bytes b + length s\<rparr>)"
  using assms by (simp add: budget_text_def Let_def ascii_def utf8_ascii)

lemma validate_pairs_flat:
  assumes "\<forall>kv \<in> set kvs. ascii (fst kv) \<and> (snd kv = JNull \<or> (\<exists>s. snd kv = JStr s \<and> ascii s))"
    and "b_nodes b + length kvs \<le> MAX_NODES" "b_text_bytes b + 600 * length kvs \<le> MAX_TEXT_BYTES"
  shows "\<exists>b'. validate_pairs 1 kvs b = Inr b'"
  using assms
proof (induction kvs arbitrary: b)
  case (Cons kv kvs)
  obtain k v where kv: "kv = (k, v)" by (cases kv)
  let ?b1 = "b\<lparr>b_text_bytes := b_text_bytes b + length k\<rparr>"
  from Cons.prems kv have k: "ascii k" and v: "v = JNull \<or> (\<exists>s. v = JStr s \<and> ascii s)" by auto
  from k have lk: "length k \<le> 300" by (simp add: ascii_def)
  from k Cons.prems have t: "budget_text k b = Inr ?b1" by (intro budget_text_ascii) auto
  have "\<exists>b2. validate_value 1 v ?b1 = Inr b2 \<and> b_nodes b2 = b_nodes b + 1
      \<and> b_text_bytes b2 \<le> b_text_bytes b + 600"
    using v Cons.prems lk
    by (auto simp: validate_value.simps budget_node_def Let_def MAX_DEPTH_def ascii_def
        budget_text_def utf8_ascii)
  then obtain b2 where b2: "validate_value 1 v ?b1 = Inr b2" "b_nodes b2 = b_nodes b + 1"
    "b_text_bytes b2 \<le> b_text_bytes b + 600" by blast
  with Cons.prems have "\<exists>b'. validate_pairs 1 kvs b2 = Inr b'" by (intro Cons.IH) auto
  with kv t b2 show ?case by simp
qed simp

lemma esc_char_ascii: "c < 128 \<Longrightarrow> list_all (\<lambda>c. c < 128) (esc_char c) \<and> length (esc_char c) \<le> 6"
proof -
  assume "c < 128"
  then have "c div 16 < 16" "c mod 16 < 16" by auto
  with \<open>c < 128\<close> show ?thesis by (auto simp: esc_char_def hex_char_bound)
qed

lemma json_string_ascii:
  assumes "ascii s"
  shows "list_all (\<lambda>c. c < 128) (json_string s) \<and> length (json_string s) \<le> 1802"
proof -
  have "list_all (\<lambda>c. c < 128) s \<Longrightarrow> list_all (\<lambda>c. c < 128) (concat (map esc_char s))
      \<and> length (concat (map esc_char s)) \<le> 6 * length s"
  proof (induction s)
    case (Cons c s)
    then show ?case using esc_char_ascii [of c] by auto
  qed simp
  with assms show ?thesis by (auto simp: json_string_def ascii_def)
qed

lemma join_ascii:
  assumes "list_all (\<lambda>x. list_all (\<lambda>c. c < 128) x \<and> length x \<le> n) xs" "list_all (\<lambda>c. c < 128) sep"
  shows "list_all (\<lambda>c. c < 128) (join sep xs) \<and> length (join sep xs) \<le> length xs * (n + length sep)"
  using assms by (induction sep xs rule: join.induct) auto

lemma flat_json_bytes:
  assumes "flat_ascii kvs"
  shows "\<exists>b. json_bytes L (u '','') (u '':'') (JObj kvs) = Inr b \<and> length b \<le> MAX_TEXT_BYTES"
proof -
  let ?pair = "\<lambda>kv. json_string (fst kv) @ u '':'' @ json_text L (u '','') (u '':'') (snd kv)"
  have "list_all (\<lambda>x. list_all (\<lambda>c. c < 128) x \<and> length x \<le> 3700) (map ?pair kvs)"
  proof -
    have "list_all (\<lambda>c. c < 128) (?pair kv) \<and> length (?pair kv) \<le> 3700" if kv: "kv \<in> set kvs" for kv
    proof -
      from assms kv have k: "ascii (fst kv)" and v: "snd kv = JNull \<or> (\<exists>s. snd kv = JStr s \<and> ascii s)"
        by (auto simp: flat_ascii_def)
      from v have "list_all (\<lambda>c. c < 128) (json_text L (u '','') (u '':'') (snd kv))
          \<and> length (json_text L (u '','') (u '':'') (snd kv)) \<le> 1802"
        by (elim disjE exE conjE) (simp_all add: json_string_ascii u_def)
      with json_string_ascii [OF k] show ?thesis by (simp add: u_def)
    qed
    then show ?thesis by (simp add: list_all_iff)
  qed
  from join_ascii [OF this, of "u '',''"] have
    j: "list_all (\<lambda>c. c < 128) (join (u '','') (map ?pair kvs))"
      "length (join (u '','') (map ?pair kvs)) \<le> length kvs * 3701"
    by (simp_all add: u_def)
  from assms have "length kvs \<le> 8" by (simp add: flat_ascii_def)
  then have l: "length kvs * 3701 \<le> 29608" by simp
  from j have a: "list_all (\<lambda>c. c < 128) (json_text L (u '','') (u '':'') (JObj kvs))"
    by (simp add: u_def)
  have "finite_numbers (JObj kvs)"
    using assms by (auto simp: flat_ascii_def list_all_iff)
  with a have "json_bytes L (u '','') (u '':'') (JObj kvs) = Inr (json_text L (u '','') (u '':'') (JObj kvs))"
    by (simp add: json_bytes_def utf8_ascii del: json_text.simps finite_numbers.simps)
  moreover have "length (json_text L (u '','') (u '':'') (JObj kvs)) \<le> MAX_TEXT_BYTES"
    using j(2) l by (simp add: u_def MAX_TEXT_BYTES_def)
  ultimately show ?thesis by blast
qed

lemma sanitize_flat:
  assumes "flat_ascii kvs"
  shows "\<exists>r. sanitize_metadata L (JObj kvs) = Inr r"
proof -
  let ?f = "\<lambda>kv. (fst kv, if fold_key L (fst kv) \<in> set (forbidden_metadata_keys L) then REDACTED
     else copy_sanitized L (snd kv))"
  have red: "ascii (u ''[REDACTED]'')" by (simp add: ascii_def u_def)
  have "\<exists>b'. validate_pairs 1 kvs \<lparr>b_nodes = 1, b_text_bytes = 0\<rparr> = Inr b'"
    using assms by (intro validate_pairs_flat) (auto simp: flat_ascii_def MAX_NODES_def MAX_TEXT_BYTES_def)
  then have v: "\<exists>b'. validate_value 0 (JObj kvs) \<lparr>b_nodes = 0, b_text_bytes = 0\<rparr> = Inr b'"
    by (simp add: validate_value.simps budget_node_def Let_def MAX_NODES_def)
  have "flat_ascii (map ?f kvs)"
    using assms red by (fastforce simp: flat_ascii_def REDACTED_def)
  from flat_json_bytes [OF this, of L] v show ?thesis
    by (auto simp: sanitize_metadata_def Let_def simp del: json_text.simps)
qed

lemma audit_row_flat:
  assumes "ev_metadata ev = JObj kvs" "flat_ascii kvs"
  shows "\<exists>row. audit_row L aid ev = Inr row \<and> al_event_key row = ev_event_key ev
    \<and> al_outcome row = ev_outcome ev \<and> al_action row = ev_action ev
    \<and> al_actor_kind row = actor_kind (ev_actor ev)
    \<and> al_actor_id row = Some (actor_subject (ev_actor ev)) \<and> al_object_id row = ev_object_id ev
    \<and> al_project_id row = ev_project_id ev"
  using sanitize_flat [OF assms(2), of L] assms(1) by (auto simp: audit_row_def)

text \<open>An event without a key, with flat metadata, is always committed.\<close>

lemma audit_record_flat:
  assumes "ev_metadata ev = JObj kvs" "flat_ascii kvs" "ev_event_key ev = None"
  shows "\<exists>row. audit_record L id aid ev db = (Inr (al_id row), db\<lparr>audit_logs := audit_logs db @ [row]\<rparr>)
    \<and> al_outcome row = ev_outcome ev \<and> al_action row = ev_action ev
    \<and> al_actor_id row = Some (actor_subject (ev_actor ev)) \<and> al_object_id row = ev_object_id ev
    \<and> al_project_id row = ev_project_id ev"
  using audit_row_flat [OF assms(1,2), of L aid] assms(3)
  by (auto simp: audit_record_def write_audit_def insert_audit_def)

section \<open>What a recording returns\<close>

text \<open>A stored row states an event when every column but the identifier and the event key
  is the event's, with the actor's role in the metadata.\<close>

definition states_event :: "audit_event \<Rightarrow> (ustr \<times> json) list \<Rightarrow> audit_log \<Rightarrow> bool" where
  "states_event ev md x \<longleftrightarrow>
     al_actor_kind x = actor_kind (ev_actor ev) \<and> al_actor_id x = Some (actor_subject (ev_actor ev))
     \<and> al_action x = ev_action ev \<and> al_object_type x = ev_object_type ev \<and> al_object_id x = ev_object_id ev
     \<and> al_project_id x = ev_project_id ev \<and> al_outcome x = ev_outcome ev
     \<and> al_request_id x = Some (ev_request_id ev)
     \<and> same_object (al_metadata x)
         (obj_set (u ''actor_role'') (role_json (actor_role (ev_actor ev))) md)"

lemma audit_row_states:
  assumes "sanitize_metadata L (ev_metadata ev) = Inr md"
  shows "\<exists>row. audit_row L aid ev = Inr row \<and> al_id row = aid \<and> al_event_key row = ev_event_key ev
    \<and> states_event ev md row \<and> (\<forall>x. same_event x row = states_event ev md x)"
  using assms by (auto simp: audit_row_def states_event_def same_event_def)

text \<open>Under unique keys, the lookup finds the one row with the key.\<close>

lemma event_by_key_member:
  assumes "event_keys_unique db" "x \<in> set (audit_logs db)" "al_event_key x = Some k"
  shows "event_by_key db k = Some x"
proof -
  have "find (\<lambda>y. al_event_key y = Some k) xs = Some x"
    if "distinct (List.map_filter al_event_key xs)" "x \<in> set xs" for xs
    using that
  proof (induction xs)
    case (Cons y ys)
    show ?case
    proof (cases "al_event_key y = Some k")
      case True
      with Cons.prems(1) have "k \<notin> set (List.map_filter al_event_key ys)" by (simp add: map_filter_def)
      with assms(3) have "x \<notin> set ys" by (force simp: map_filter_def image_iff)
      with Cons.prems(2) True show ?thesis by simp
    next
      case False
      with Cons.prems assms(3) have "x \<in> set ys" by auto
      moreover from Cons.prems(1) have "distinct (List.map_filter al_event_key ys)"
        by (simp add: map_filter_def split: if_splits option.splits)
      ultimately show ?thesis using Cons.IH False by simp
    qed
  qed simp
  with assms(1,2) show ?thesis by (simp add: event_by_key_def event_keys_unique_def event_keys_def)
qed

lemma event_by_key_found:
  "event_by_key db k = Some x \<Longrightarrow> x \<in> set (audit_logs db) \<and> al_event_key x = Some k"
  unfolding event_by_key_def by (auto simp: find_Some_iff in_set_conv_nth)

lemma event_keys_prefix: "only_log db d \<Longrightarrow> event_keys_unique d \<Longrightarrow> event_keys_unique db"
  by (auto simp: only_log_def event_keys_unique_def event_keys_def map_filter_def)

text \<open>The four outcomes of recording a well-formed event.\<close>

lemma audit_record_outcomes:
  assumes "sanitize_metadata L (ev_metadata ev) = Inr md"
    and "event_keys_unique (race db)" "only_log db (race db)"
  shows "x \<in> set (audit_logs db) \<Longrightarrow> al_event_key x = Some k \<Longrightarrow> ev_event_key ev = Some k \<Longrightarrow>
      audit_record L race aid ev db
        = (if states_event ev md x then Inr (al_id x) else Inl (PyError ''RuntimeError''), db)"
    and "(\<forall>y \<in> set (audit_logs db). al_event_key y \<noteq> Some k) \<Longrightarrow> x \<in> set (audit_logs (race db)) \<Longrightarrow>
      al_event_key x = Some k \<Longrightarrow> ev_event_key ev = Some k \<Longrightarrow>
      audit_record L race aid ev db
        = (if states_event ev md x then Inr (al_id x) else Inl (PyError ''RuntimeError''), race db)"
    and "(\<forall>y \<in> set (audit_logs (race db)). ev_event_key ev = None \<or> al_event_key y \<noteq> ev_event_key ev) \<Longrightarrow>
      \<exists>row. audit_record L race aid ev db = (Inr aid, (race db)\<lparr>audit_logs := audit_logs (race db) @ [row]\<rparr>)
        \<and> al_id row = aid \<and> al_event_key row = ev_event_key ev \<and> states_event ev md row"
proof -
  obtain row where row: "audit_row L aid ev = Inr row" "al_id row = aid" "al_event_key row = ev_event_key ev"
    "states_event ev md row" "\<And>x. same_event x row = states_event ev md x"
    using audit_row_states [OF assms(1), of aid] by blast
  have none: "event_by_key d k = None" if "\<forall>y \<in> set (audit_logs d). al_event_key y \<noteq> Some k" for d k
    using event_by_key_found [of d k] that by (cases "event_by_key d k") blast+
  show "audit_record L race aid ev db
        = (if states_event ev md x then Inr (al_id x) else Inl (PyError ''RuntimeError''), db)"
    if "x \<in> set (audit_logs db)" "al_event_key x = Some k" "ev_event_key ev = Some k"
    using event_by_key_member [OF event_keys_prefix [OF assms(3,2)] that(1,2)] row that(3)
    by (simp add: audit_record_def write_audit_def)
  show "audit_record L race aid ev db
        = (if states_event ev md x then Inr (al_id x) else Inl (PyError ''RuntimeError''), race db)"
    if "\<forall>y \<in> set (audit_logs db). al_event_key y \<noteq> Some k" "x \<in> set (audit_logs (race db))"
      "al_event_key x = Some k" "ev_event_key ev = Some k"
    using event_by_key_member [OF assms(2) that(2,3)] none [OF that(1)] row that(4)
    by (simp add: audit_record_def write_audit_def insert_audit_def)
  show "\<exists>row. audit_record L race aid ev db = (Inr aid, (race db)\<lparr>audit_logs := audit_logs (race db) @ [row]\<rparr>)
        \<and> al_id row = aid \<and> al_event_key row = ev_event_key ev \<and> states_event ev md row"
    if "\<forall>y \<in> set (audit_logs (race db)). ev_event_key ev = None \<or> al_event_key y \<noteq> ev_event_key ev"
  proof -
    have "event_by_key (race db) k = None \<and> event_by_key db k = None" if "ev_event_key ev = Some k" for k
      using \<open>\<forall>y \<in> _. _\<close> that assms(3) none [of "race db" k] none [of db k]
      by (auto simp: only_log_def)
    then have "audit_record L race aid ev db
        = (Inr aid, (race db)\<lparr>audit_logs := audit_logs (race db) @ [row]\<rparr>)"
      using row(1-3) by (cases "ev_event_key ev") (simp_all add: audit_record_def write_audit_def insert_audit_def)
    with row show ?thesis by blast
  qed
qed

end
