(* ===== verification/Files.thy ===== *)
theory Files
  imports Security Audit_Log
begin

text \<open>
  \<open>modules/files\<close>: resumable uploads, their authorization, completion and download.
  The object storage is the record \<open>storage\<close> of what its calls return (\<open>None\<close> is an
  exception or the 20 second timeout; an unconfigured storage is one whose calls all
  fail), and every operation also returns the calls it makes that have an effect
  outside the database, in order.
\<close>

section \<open>Schemas (files/schemas.py)\<close>

record upload_start =
  us_project_id :: uuid
  us_filename :: ustr
  us_size_bytes :: int
  us_sha256 :: ustr
  us_category :: ustr
  us_file_date :: date
  us_content_type :: ustr

definition nonblank_text :: "lib \<Rightarrow> ustr \<Rightarrow> bool" where
  "nonblank_text L s \<longleftrightarrow> strip_chars (isspace L) s \<noteq> [] \<and> list_all (\<lambda>c. \<not> control c) s"

definition upload_start_schema :: "lib \<Rightarrow> upload_start \<Rightarrow> bool" where
  "upload_start_schema L c \<longleftrightarrow>
     1 \<le> length (us_filename c) \<and> length (us_filename c) \<le> 1024
     \<and> 1 \<le> us_size_bytes c \<and> us_size_bytes c \<le> 100 * 1024 * 1024
     \<and> sha256_text (us_sha256 c)
     \<and> 1 \<le> length (us_category c) \<and> length (us_category c) \<le> 255
     \<and> nonblank_text L (us_filename c) \<and> nonblank_text L (us_category c)
     \<and> length (us_content_type c) \<le> 255 \<and> mime_type (us_content_type c)"

record completed_part =
  cp_number :: int
  cp_etag :: ustr

definition part_complete_schema :: "lib \<Rightarrow> completed_part \<Rightarrow> completed_part result" where
  "part_complete_schema L p =
     (let value = strip_chars (isspace L) (cp_etag p) in
      if \<not> (1 \<le> cp_number p \<and> cp_number p \<le> 10000)
         \<or> \<not> (1 \<le> length (cp_etag p) \<and> length (cp_etag p) \<le> 1024)
         \<or> value = [] \<or> list_ex control value
      then Inl (PyError ''ValueError'') else Inr (p\<lparr>cp_etag := value\<rparr>))"

fun part_list_schema :: "lib \<Rightarrow> completed_part list \<Rightarrow> completed_part list result" where
  "part_list_schema L [] = Inr []"
| "part_list_schema L (p # ps) = (case part_complete_schema L p of
       Inl e \<Rightarrow> Inl e
     | Inr q \<Rightarrow> (case part_list_schema L ps of Inl e \<Rightarrow> Inl e | Inr qs \<Rightarrow> Inr (q # qs)))"

definition upload_complete_schema :: "lib \<Rightarrow> completed_part list \<Rightarrow> completed_part list result" where
  "upload_complete_schema L parts = (case part_list_schema L parts of
       Inl e \<Rightarrow> Inl e
     | Inr value \<Rightarrow>
         if value = [] \<or> \<not> distinct (map cp_number value) then Inl (PyError ''ValueError'')
         else Inr (sort_key cp_number value))"

section \<open>Object storage (files/storage.py)\<close>

record storage =
  st_list :: "ustr \<Rightarrow> ustr list option"
  st_create :: "ustr \<Rightarrow> ustr \<Rightarrow> ustr option"
  st_complete :: "ustr \<Rightarrow> ustr \<Rightarrow> completed_part list \<Rightarrow> int option"
  st_presign_part :: "ustr \<Rightarrow> ustr \<Rightarrow> int \<Rightarrow> int \<Rightarrow> ustr result"
  st_presign_get :: "ustr \<Rightarrow> int \<Rightarrow> ustr result"

datatype call =
    CreateMultipart ustr ustr
  | AbortMultipart ustr ustr
  | CompleteMultipart ustr ustr "completed_part list"
  | DeleteObject ustr
  | EnqueueScan uuid uuid

section \<open>Upload start (files/service.py)\<close>

definition segment :: "lib \<Rightarrow> ustr \<Rightarrow> string \<Rightarrow> ustr" where
  "segment L value fallback =
     (let base = rev (takeWhile (\<lambda>c. c \<noteq> 47 \<and> c \<noteq> 92) (rev value));
          kept = map (\<lambda>c. if isalnum L c \<or> c \<in> {46, 95, 45} then c else 95)
            (filter (\<lambda>c. c \<ge> 32 \<and> c \<noteq> 127) base);
          stripped = strip_chars (\<lambda>c. c = 46 \<or> c = 95) kept in
      if stripped = [] then u fallback else stripped)"

definition fingerprint_material :: "upload_start \<Rightarrow> ustr" where
  "fingerprint_material c = join [31]
     [us_filename c, us_category c, iso_date (us_file_date c), int_text (us_size_bytes c),
      us_sha256 c, us_content_type c]"

definition fingerprint :: "lib \<Rightarrow> upload_start \<Rightarrow> ustr option" where
  "fingerprint L c = map_option (sha256_hex L) (utf8_encode (fingerprint_material c))"

definition object_key :: "lib \<Rightarrow> upload_start \<Rightarrow> uuid \<Rightarrow> ustr" where
  "object_key L c file_id = u ''projects/'' @ uuid_str (us_project_id c) @ u ''/''
     @ segment L (us_category c) ''uncategorized'' @ u ''/'' @ iso_date (us_file_date c) @ u ''/''
     @ uuid_str file_id @ u ''/'' @ segment L (us_filename c) ''file''"

definition file_by_idempotency :: "db \<Rightarrow> uuid \<Rightarrow> string \<Rightarrow> uuid \<Rightarrow> ustr \<Rightarrow> file_row option" where
  "file_by_idempotency db project_id kind uploader key = find (\<lambda>f. f_project_id f = project_id
     \<and> f_uploader_kind f = kind \<and> f_uploader_id f = uploader
     \<and> f_idempotency_key f = Some key) (files db)"

text \<open>The insert of a file row under the constraints of the table.\<close>

definition file_checks :: "file_row \<Rightarrow> bool" where
  "file_checks f \<longleftrightarrow> 1 \<le> f_size_bytes f \<and> f_size_bytes f \<le> 104857600 \<and> sha256_text (f_sha256 f)
     \<and> f_uploader_kind f \<in> {''user'', ''device'', ''system''} \<and> f_filename f \<noteq> []
     \<and> f_category f \<noteq> [] \<and> f_object_key f \<noteq> [] \<and> f_content_type f \<noteq> []
     \<and> f_idempotency_key f \<noteq> Some [] \<and> f_multipart_id f \<noteq> Some []
     \<and> (case f_metadata_fingerprint f of None \<Rightarrow> True | Some h \<Rightarrow> sha256_text h)"

definition insert_file :: "file_row \<Rightarrow> db \<Rightarrow> db result" where
  "insert_file f db =
     (if \<not> file_checks f then Inl (Integrity ''ck_files'')
      else if get_file db (f_id f) \<noteq> None then Inl (Integrity ''files_pkey'')
      else if (case f_idempotency_key f of None \<Rightarrow> False | Some k \<Rightarrow>
          file_by_idempotency db (f_project_id f) (f_uploader_kind f) (f_uploader_id f) k \<noteq> None)
      then Inl (Integrity ''uq_files_upload_idempotency'')
      else if list_ex (\<lambda>g. f_object_key g = f_object_key f) (files db)
      then Inl (Integrity ''files_object_key_key'')
      else if get_project db (f_project_id f) = None then Inl (Integrity ''files_project_id_fkey'')
      else Inr (db\<lparr>files := files db @ [f]\<rparr>))"

definition write_file :: "time \<Rightarrow> uuid \<Rightarrow> (file_row \<Rightarrow> file_row) \<Rightarrow> db \<Rightarrow> db" where
  "write_file now i g = put_file i (\<lambda>f. (g f)\<lparr>f_updated_at := now\<rparr>)"

text \<open>\<open>_provision_upload\<close>: a single open multipart upload is adopted, otherwise the
  leftovers are aborted and a new one created; the row lock is held throughout.\<close>

definition provision_upload ::
  "storage \<Rightarrow> time \<Rightarrow> uuid \<Rightarrow> db \<Rightarrow> file_row result \<times> db \<times> call list" where
  "provision_upload st now i db =
     (case get_file db i of
        None \<Rightarrow> (Inl file_provisioning_pending_error, db, [])
      | Some f \<Rightarrow>
        if f_state f \<noteq> FILE_UPLOADING then (Inl file_provisioning_pending_error, db, [])
        else if f_multipart_id f \<noteq> None then (Inr f, db, [])
        else (case st_list st (f_object_key f) of
            None \<Rightarrow> (Inl file_provisioning_pending_error, db, [])
          | Some [m] \<Rightarrow> (Inr (f\<lparr>f_multipart_id := Some m\<rparr>),
                write_file now i (\<lambda>f. f\<lparr>f_multipart_id := Some m\<rparr>) db, [])
          | Some existing \<Rightarrow>
            (let aborts = map (AbortMultipart (f_object_key f)) existing;
                 calls = aborts @ [CreateMultipart (f_object_key f) (f_content_type f)] in
             case st_create st (f_object_key f) (f_content_type f) of
               None \<Rightarrow> (Inl file_provisioning_pending_error, db, calls)
             | Some m \<Rightarrow> (Inr (f\<lparr>f_multipart_id := Some m\<rparr>),
                 write_file now i (\<lambda>f. f\<lparr>f_multipart_id := Some m\<rparr>) db, calls))))"

definition upload_conflict :: exn where
  "upload_conflict = conflict_error ''FILE_UPLOAD_CONFLICT'' ''Upload metadata conflicts''"

text \<open>
  \<open>_start_upload\<close>.  \<open>race\<close> is what other transactions commit between the SELECT and the
  INSERT, \<open>race2\<close> between the commit of the row and the lock of \<open>_provision_upload\<close>.
\<close>

definition start_upload_row ::
  "lib \<Rightarrow> storage \<Rightarrow> time \<Rightarrow> uuid \<Rightarrow> (db \<Rightarrow> db) \<Rightarrow> (db \<Rightarrow> db) \<Rightarrow> actor \<Rightarrow> upload_start \<Rightarrow> ustr \<Rightarrow> db
   \<Rightarrow> file_row result \<times> db \<times> call list" where
  "start_upload_row L st now file_id race race2 a command key db =
     (if \<not> idempotency_key_ok key then (Inl (PyError ''ValueError''), db, [])
      else (case fingerprint L command of
          None \<Rightarrow> (Inl (PyError ''UnicodeEncodeError''), db, [])
        | Some fp \<Rightarrow>
          (let lookup = (\<lambda>d. file_by_idempotency d (us_project_id command) (actor_kind a)
                 (actor_subject a) key) in
           case lookup db of
             Some existing \<Rightarrow>
               if f_metadata_fingerprint existing \<noteq> Some fp then (Inl upload_conflict, db, [])
               else provision_upload st now (f_id existing) (race2 db)
           | None \<Rightarrow>
             (let file = \<lparr>f_id = file_id, f_project_id = us_project_id command,
                    f_filename = us_filename command, f_category = us_category command,
                    f_file_date = us_file_date command, f_object_key = object_key L command file_id,
                    f_size_bytes = us_size_bytes command, f_sha256 = us_sha256 command,
                    f_state = FILE_UPLOADING, f_uploader_id = actor_subject a,
                    f_uploader_kind = actor_kind a, f_content_type = us_content_type command,
                    f_scan_result = None, f_metadata_fingerprint = Some fp,
                    f_idempotency_key = Some key, f_multipart_id = None, f_created_at = now,
                    f_updated_at = now\<rparr>;
                  db1 = race db in
              case insert_file file db1 of
                Inr db2 \<Rightarrow> provision_upload st now file_id (race2 db2)
              | Inl e \<Rightarrow>
                  if e \<noteq> Integrity ''uq_files_upload_idempotency'' then (Inl e, db1, [])
                  else (case lookup db1 of
                      Some winner \<Rightarrow>
                        if f_metadata_fingerprint winner = Some fp
                        then provision_upload st now (f_id winner) (race2 db1)
                        else (Inl upload_conflict, db1, [])
                    | None \<Rightarrow> (Inl upload_conflict, db1, []))))))"

definition start_upload ::
  "lib \<Rightarrow> storage \<Rightarrow> time \<Rightarrow> uuid \<Rightarrow> (db \<Rightarrow> db) \<Rightarrow> (db \<Rightarrow> db) \<Rightarrow> actor \<Rightarrow> upload_start \<Rightarrow> ustr \<Rightarrow> db
   \<Rightarrow> file_row result \<times> db \<times> call list" where
  "start_upload L st now file_id race race2 a command key db =
     (case require_project_access a (us_project_id command) of
        Inl e \<Rightarrow> (Inl e, db, [])
      | Inr _ \<Rightarrow> start_upload_row L st now file_id race race2 a command key db)"

definition start_import_upload ::
  "lib \<Rightarrow> storage \<Rightarrow> time \<Rightarrow> uuid \<Rightarrow> (db \<Rightarrow> db) \<Rightarrow> (db \<Rightarrow> db) \<Rightarrow> actor \<Rightarrow> upload_start \<Rightarrow> ustr \<Rightarrow> db
   \<Rightarrow> file_row result \<times> db \<times> call list" where
  "start_import_upload L st now file_id race race2 a command key db =
     (if actor_kind a \<noteq> ''device'' \<or> actor_role a \<noteq> None
         \<or> us_project_id command \<notin> set (actor_projects a)
         \<or> ''imports:create'' \<notin> set (actor_scopes a)
      then (Inl (forbidden_error ''IMPORT_CREATE_FORBIDDEN'' ''Import creation is not permitted''), db, [])
      else start_upload_row L st now file_id race race2 a command key db)"

section \<open>Parts, completion, download\<close>

definition upload_not_found :: exn where
  "upload_not_found = not_found_error ''FILE_UPLOAD_NOT_FOUND'' ''Upload not found''"
definition upload_not_active :: exn where
  "upload_not_active = conflict_error ''FILE_UPLOAD_NOT_ACTIVE'' ''Upload is not active''"

definition authorize_upload_operation :: "bool \<Rightarrow> actor \<Rightarrow> uuid \<Rightarrow> unit result" where
  "authorize_upload_operation import_device a project_id =
     (if \<not> import_device then require_project_access a project_id
      else if actor_kind a \<noteq> ''device'' \<or> actor_role a \<noteq> None
        \<or> project_id \<notin> set (actor_projects a) \<or> ''imports:upload'' \<notin> set (actor_scopes a)
      then Inl (forbidden_error ''IMPORT_UPLOAD_FORBIDDEN'' ''Import upload is not permitted'')
      else Inr ())"

definition presign_part :: "storage \<Rightarrow> bool \<Rightarrow> actor \<Rightarrow> uuid \<Rightarrow> int \<Rightarrow> db \<Rightarrow> ustr result" where
  "presign_part st import_device a upload_id part_number db =
     (if \<not> (1 \<le> part_number \<and> part_number \<le> 10000) then Inl (PyError ''ValueError'')
      else (case get_file db upload_id of
          None \<Rightarrow> Inl upload_not_found
        | Some f \<Rightarrow>
          if f_state f \<noteq> FILE_UPLOADING then Inl upload_not_active
          else (case authorize_upload_operation import_device a (f_project_id f) of
              Inl e \<Rightarrow> Inl e
            | Inr _ \<Rightarrow> (case f_multipart_id f of
                None \<Rightarrow> Inl upload_not_active
              | Some m \<Rightarrow> st_presign_part st (f_object_key f) m part_number 900))))"

definition completion_audit :: "uuid \<Rightarrow> uuid \<Rightarrow> actor \<Rightarrow> file_row \<Rightarrow> audit_log" where
  "completion_audit aid request_id a f = \<lparr>al_id = aid, al_actor_kind = actor_kind a,
     al_actor_id = Some (actor_subject a), al_action = ''file.upload.complete'',
     al_object_type = ''file'', al_object_id = Some (f_id f), al_project_id = Some (f_project_id f),
     al_outcome = ''SUCCESS'', al_metadata = [(u ''state'', JStr (u (file_state_text FILE_QUARANTINED))),
       (u ''size_bytes'', JInt (f_size_bytes f)), (u ''actor_role'', role_json (actor_role a))],
     al_request_id = Some request_id, al_event_key = None\<rparr>"

definition complete_upload ::
  "storage \<Rightarrow> bool \<Rightarrow> time \<Rightarrow> uuid \<Rightarrow> actor \<Rightarrow> uuid \<Rightarrow> completed_part list \<Rightarrow> uuid option \<Rightarrow> db
   \<Rightarrow> file_row result \<times> db \<times> call list" where
  "complete_upload st import_device now aid a upload_id parts request_id db =
     (case get_file db upload_id of
        None \<Rightarrow> (Inl upload_not_found, db, [])
      | Some f \<Rightarrow>
        (case authorize_upload_operation import_device a (f_project_id f) of
           Inl e \<Rightarrow> (Inl e, db, [])
         | Inr _ \<Rightarrow>
           if f_state f \<noteq> FILE_UPLOADING then (Inr f, db, [])
           else (case f_multipart_id f of
               None \<Rightarrow> (Inl upload_not_active, db, [])
             | Some m \<Rightarrow>
               if \<not> distinct (map cp_number parts) then (Inl (PyError ''ValueError''), db, [])
               else (let canonical = sort_key cp_number parts;
                         done = CompleteMultipart (f_object_key f) m canonical in
                 case st_complete st (f_object_key f) m canonical of
                   None \<Rightarrow> (Inl file_completion_pending_error, db, [done])
                 | Some stored_bytes \<Rightarrow>
                   if stored_bytes \<noteq> f_size_bytes f
                   then (Inl (conflict_error ''FILE_UPLOAD_SIZE_MISMATCH''
                           ''Uploaded object size does not match declared size''),
                         write_file now upload_id (\<lambda>f. f\<lparr>f_state := FILE_FAILED,
                           f_scan_result := Some (u ''SIZE_MISMATCH'')\<rparr>) db,
                         [done, DeleteObject (f_object_key f)])
                   else (let db1 = write_file now upload_id (\<lambda>f. f\<lparr>f_state := FILE_QUARANTINED\<rparr>) db;
                             result = f\<lparr>f_state := FILE_QUARANTINED\<rparr> in
                     case (case request_id of None \<Rightarrow> Inr db1
                           | Some rid \<Rightarrow> insert_audit (completion_audit aid rid a f) db1) of
                       Inl e \<Rightarrow> (Inl e, db, [done])
                     | Inr db2 \<Rightarrow>
                       (Inr result, db2, [done, EnqueueScan (f_id f) (f_id f)]))))))"

definition ensure_downloadable :: "file_row \<Rightarrow> unit result" where
  "ensure_downloadable f =
     (if f_state f = FILE_INFECTED
      then Inl (conflict_error ''FILE_INFECTED'' ''File did not pass security scanning'')
      else if f_state f = FILE_FAILED
      then Inl (conflict_error ''FILE_SCAN_FAILED'' ''File scanning did not complete'')
      else if f_state f \<noteq> FILE_CLEAN
      then Inl (conflict_error ''FILE_NOT_READY'' ''File is not available for download'')
      else Inr ())"

definition presign_download :: "storage \<Rightarrow> actor \<Rightarrow> uuid \<Rightarrow> db \<Rightarrow> ustr result" where
  "presign_download st a file_id db =
     (case get_file db file_id of
        None \<Rightarrow> Inl (not_found_error ''FILE_NOT_FOUND'' ''File not found'')
      | Some f \<Rightarrow>
        (case require_project_access a (f_project_id f) of
           Inl e \<Rightarrow> Inl e
         | Inr _ \<Rightarrow> (case ensure_downloadable f of
             Inl e \<Rightarrow> Inl e
           | Inr _ \<Rightarrow> st_presign_get st (f_object_key f) 60)))"

section \<open>Routes (files/router.py)\<close>

definition AUDITABLE_UPLOAD_DENIAL_CODES :: "string list" where
  "AUDITABLE_UPLOAD_DENIAL_CODES = [''PROJECT_FORBIDDEN'', ''FILE_UPLOAD_CONFLICT'',
     ''FILE_UPLOAD_NOT_FOUND'', ''FILE_UPLOAD_NOT_ACTIVE'']"

definition record_upload_denial_audit ::
  "lib \<Rightarrow> uuid \<Rightarrow> actor \<Rightarrow> string \<Rightarrow> string \<Rightarrow> uuid \<Rightarrow> uuid option \<Rightarrow> uuid \<Rightarrow> exn \<Rightarrow> db \<Rightarrow> db" where
  "record_upload_denial_audit L aid a action object_type object_id project_id request_id e db =
     (case e of
        DomainError code m s \<Rightarrow>
          if code \<notin> set AUDITABLE_UPLOAD_DENIAL_CODES then db
          else snd (audit_record L id aid \<lparr>ev_actor = a, ev_action = action,
            ev_object_type = object_type, ev_object_id = Some object_id, ev_project_id = project_id,
            ev_outcome = ''DENIED'', ev_request_id = request_id, ev_event_key = None,
            ev_metadata = JObj [(u ''error_code'', JStr (u code))]\<rparr> db)
      | _ \<Rightarrow> db)"

definition upload_project_id :: "db \<Rightarrow> uuid \<Rightarrow> uuid option" where
  "upload_project_id db i = map_option f_project_id (get_file db i)"

definition start_upload_route ::
  "lib \<Rightarrow> storage \<Rightarrow> time \<Rightarrow> uuid \<Rightarrow> uuid \<Rightarrow> (db \<Rightarrow> db) \<Rightarrow> (db \<Rightarrow> db) \<Rightarrow> actor \<Rightarrow> upload_start
   \<Rightarrow> ustr \<Rightarrow> uuid \<Rightarrow> db \<Rightarrow> file_row result \<times> db \<times> call list" where
  "start_upload_route L st now file_id aid race race2 a command key request_id db =
     (case start_upload L st now file_id race race2 a command key db of
        (Inr f, db', calls) \<Rightarrow> (Inr f, db', calls)
      | (Inl e, db', calls) \<Rightarrow>
          (Inl e, record_upload_denial_audit L aid a ''file.upload.start'' ''project''
             (us_project_id command) (Some (us_project_id command)) request_id e db', calls))"

definition complete_upload_route ::
  "lib \<Rightarrow> storage \<Rightarrow> time \<Rightarrow> uuid \<Rightarrow> uuid \<Rightarrow> actor \<Rightarrow> uuid \<Rightarrow> completed_part list \<Rightarrow> uuid \<Rightarrow> db
   \<Rightarrow> file_row result \<times> db \<times> call list" where
  "complete_upload_route L st now aid aid2 a upload_id parts request_id db =
     (case complete_upload st False now aid a upload_id parts (Some request_id) db of
        (Inr f, db', calls) \<Rightarrow> (Inr f, db', calls)
      | (Inl e, db', calls) \<Rightarrow>
          (Inl e, record_upload_denial_audit L aid2 a ''file.upload.complete'' ''upload'' upload_id
             (upload_project_id db' upload_id) request_id e db', calls))"

definition part_route ::
  "lib \<Rightarrow> storage \<Rightarrow> uuid \<Rightarrow> actor \<Rightarrow> uuid \<Rightarrow> int \<Rightarrow> uuid \<Rightarrow> db \<Rightarrow> ustr result \<times> db" where
  "part_route L st aid a upload_id part_number request_id db =
     (case presign_part st False a upload_id part_number db of
        Inr url \<Rightarrow> (Inr url, db)
      | Inl e \<Rightarrow> (Inl e, record_upload_denial_audit L aid a ''file.upload.part_url'' ''upload''
          upload_id (upload_project_id db upload_id) request_id e db))"

definition download_event :: "actor \<Rightarrow> file_row option \<Rightarrow> uuid \<Rightarrow> string \<Rightarrow> uuid \<Rightarrow> audit_event" where
  "download_event a file file_id outcome request_id = \<lparr>ev_actor = a, ev_action = ''file.download'',
     ev_object_type = ''file'', ev_object_id = Some file_id,
     ev_project_id = map_option f_project_id file, ev_outcome = outcome, ev_request_id = request_id,
     ev_event_key = None, ev_metadata = (case file of
         None \<Rightarrow> JObj [] | Some f \<Rightarrow> JObj [(u ''state'', JStr (u (file_state_text (f_state f))))])\<rparr>"

text \<open>Success evidence must be committed before the link is returned; a denial's is best effort.\<close>

definition download_route ::
  "lib \<Rightarrow> storage \<Rightarrow> uuid \<Rightarrow> actor \<Rightarrow> uuid \<Rightarrow> uuid \<Rightarrow> db \<Rightarrow> ustr result \<times> db" where
  "download_route L st aid a file_id request_id db =
     (case presign_download st a file_id db of
        Inr url \<Rightarrow> (case audit_record L id aid
              (download_event a (get_file db file_id) file_id ''SUCCESS'' request_id) db of
            (Inl e, db') \<Rightarrow> (Inl e, db')
          | (Inr _, db') \<Rightarrow> (Inr url, db'))
      | Inl (DomainError c m s) \<Rightarrow> (Inl (DomainError c m s), snd (audit_record L id aid
          (download_event a (get_file db file_id) file_id ''DENIED'' request_id) db))
      | Inl e \<Rightarrow> (Inl e, db))"

end
