(* ===== verification/Scans.thy ===== *)
theory Scans
  imports Files "HOL-Library.Product_Lexorder"
begin

text \<open>
  Scanning and maintenance of files: \<open>FileScanService\<close> and \<open>StaleUploadService\<close> of
  \<open>modules/files/service.py\<close>.  A scan is two transactions around the external work; what
  that work did is the value \<open>scan_run\<close>.
\<close>

section \<open>Scanning\<close>

datatype scan_verdict = VERDICT_CLEAN | VERDICT_INFECTED "ustr option" | VERDICT_ERROR

text \<open>
  The external work: the bytes the scanner pulled through \<open>hashing_chunks\<close> with its
  verdict, an \<open>Exception\<close> of storage or scanner, or an interruption that is not an
  \<open>Exception\<close> (a cancelled delivery, a lost worker), after which nothing more runs.
\<close>

datatype scan_run = Scanned bytes scan_verdict | ScanRaised | ScanInterrupted

definition signature_char :: "nat \<Rightarrow> bool" where
  "signature_char c \<longleftrightarrow> 65 \<le> c \<and> c \<le> 90 \<or> 97 \<le> c \<and> c \<le> 122 \<or> 48 \<le> c \<and> c \<le> 57
     \<or> c \<in> set (u ''._: +()-'')"

definition MAX_SIGNATURE_LENGTH :: nat where "MAX_SIGNATURE_LENGTH = 128"

definition safe_signature :: "ustr option \<Rightarrow> ustr" where
  "safe_signature signature = (case signature of
       None \<Rightarrow> u ''INFECTED''
     | Some s \<Rightarrow>
       (let sanitized = map (\<lambda>c. if signature_char c then c else 95) s;
            r = take MAX_SIGNATURE_LENGTH sanitized in
        if r = [] then u ''INFECTED'' else r))"

definition file_terminal :: "file_state \<Rightarrow> bool" where
  "file_terminal s \<longleftrightarrow> s = FILE_CLEAN \<or> s = FILE_INFECTED \<or> s = FILE_FAILED"

text \<open>The first transaction: only a quarantined file is claimed.\<close>

definition claim_scan :: "time \<Rightarrow> uuid \<Rightarrow> db \<Rightarrow> (ustr \<times> ustr) option \<times> db" where
  "claim_scan now i db = (case get_file db i of
       None \<Rightarrow> (None, db)
     | Some f \<Rightarrow>
       if file_terminal (f_state f) then (None, db)
       else if f_state f \<noteq> FILE_QUARANTINED then (None, db)
       else (Some (f_object_key f, f_sha256 f),
             write_file now i (\<lambda>f. f\<lparr>f_state := FILE_SCANNING\<rparr>) db))"

definition scan_result_of :: "lib \<Rightarrow> ustr \<Rightarrow> scan_run \<Rightarrow> file_state \<times> ustr" where
  "scan_result_of L expected_sha256 run = (case run of
       Scanned pulled verdict \<Rightarrow>
         if sha256_hex L pulled \<noteq> expected_sha256 then (FILE_FAILED, u ''HASH_MISMATCH'')
         else (case verdict of
             VERDICT_CLEAN \<Rightarrow> (FILE_CLEAN, u ''CLEAN'')
           | VERDICT_INFECTED signature \<Rightarrow> (FILE_INFECTED, safe_signature signature)
           | VERDICT_ERROR \<Rightarrow> (FILE_FAILED, u ''SCAN_FAILED''))
     | _ \<Rightarrow> (FILE_FAILED, u ''SCAN_FAILED''))"

text \<open>The second transaction, and the deletion of an object that did not pass.\<close>

definition finish_scan ::
  "time \<Rightarrow> uuid \<Rightarrow> ustr \<Rightarrow> file_state \<times> ustr \<Rightarrow> db \<Rightarrow> db \<times> call list" where
  "finish_scan now i key outcome db = (case get_file db i of
       None \<Rightarrow> (db, [])
     | Some f \<Rightarrow>
       if f_state f \<noteq> FILE_SCANNING then (db, [])
       else (write_file now i (\<lambda>f. f\<lparr>f_state := fst outcome, f_scan_result := Some (snd outcome)\<rparr>) db,
             if fst outcome \<in> {FILE_INFECTED, FILE_FAILED} then [DeleteObject key] else []))"

text \<open>\<open>race\<close> is what other transactions commit during the external work.\<close>

definition scan_file ::
  "lib \<Rightarrow> time \<Rightarrow> time \<Rightarrow> scan_run \<Rightarrow> (db \<Rightarrow> db) \<Rightarrow> uuid \<Rightarrow> db \<Rightarrow> db \<times> call list" where
  "scan_file L now later run race i db = (case claim_scan now i db of
       (None, db1) \<Rightarrow> (db1, [])
     | (Some (key, expected), db1) \<Rightarrow>
         if run = ScanInterrupted then (race db1, [])
         else finish_scan later i key (scan_result_of L expected run) (race db1))"

section \<open>Maintenance\<close>

definition EXPIRY_AGE :: time where "EXPIRY_AGE = 24 * hour"
definition SCAN_RETRY_AGE :: time where "SCAN_RETRY_AGE = 15 * minute"

definition expire_one :: "time \<Rightarrow> time \<Rightarrow> uuid \<Rightarrow> db \<Rightarrow> bool \<times> db \<times> call list" where
  "expire_one now cutoff i db = (case get_file db i of
       None \<Rightarrow> (False, db, [])
     | Some f \<Rightarrow>
       if f_state f \<noteq> FILE_UPLOADING then (False, db, [])
       else if f_created_at f \<ge> cutoff then (False, db, [])
       else (True, write_file now i (\<lambda>f. f\<lparr>f_state := FILE_FAILED,
                 f_scan_result := Some (u ''UPLOAD_EXPIRED'')\<rparr>) db,
             (case f_multipart_id f of None \<Rightarrow> [] | Some m \<Rightarrow> [AbortMultipart (f_object_key f) m])
             @ [DeleteObject (f_object_key f)]))"

definition expire_candidates :: "time \<Rightarrow> nat \<Rightarrow> db \<Rightarrow> uuid list" where
  "expire_candidates cutoff limit db = take limit (map f_id
     (sort_key (\<lambda>f. (f_created_at f, f_id f))
       (filter (\<lambda>f. f_state f = FILE_UPLOADING \<and> f_created_at f < cutoff) (files db))))"

fun expire_all :: "time \<Rightarrow> time \<Rightarrow> uuid list \<Rightarrow> db \<Rightarrow> nat \<times> db \<times> call list" where
  "expire_all now cutoff [] db = (0, db, [])"
| "expire_all now cutoff (i # ids) db =
     (let (done, db1, c1) = expire_one now cutoff i db;
          (n, db2, c2) = expire_all now cutoff ids db1 in
      ((if done then Suc n else n), db2, c1 @ c2))"

definition redispatch_candidates :: "time \<Rightarrow> nat \<Rightarrow> db \<Rightarrow> uuid list" where
  "redispatch_candidates cutoff limit db = take limit (map f_id
     (sort_key (\<lambda>f. (f_updated_at f, f_id f))
       (filter (\<lambda>f. f_state f = FILE_QUARANTINED \<and> f_updated_at f < cutoff) (files db))))"

definition recover_stale_uploads ::
  "time \<Rightarrow> time \<Rightarrow> int \<Rightarrow> db \<Rightarrow> nat result \<times> db \<times> call list" where
  "recover_stale_uploads now reference limit db =
     (if limit < 1 then (Inl (PyError ''ValueError''), db, [])
      else (let (n, db1, c1) = expire_all now (reference - EXPIRY_AGE)
                  (expire_candidates (reference - EXPIRY_AGE) (nat limit) db) db;
                ids = redispatch_candidates (reference - SCAN_RETRY_AGE) (nat limit) db1 in
            (Inr (n + length ids), db1, c1 @ map (\<lambda>i. EnqueueScan i i) ids)))"

end
