(* ===== verification/Files_Proofs.thy ===== *)
theory Files_Proofs
  imports Scans
begin

text \<open>
  Correctness of the file lifecycle: the edges a file's state can take under every
  operation and interleaving, the idempotency of upload start, the exact conditions of
  completion, scanning verdicts and download, and what maintenance recovers.
\<close>

section \<open>The state machine\<close>

inductive file_edge :: "file_state \<Rightarrow> file_state \<Rightarrow> bool" where
  complete: "file_edge FILE_UPLOADING FILE_QUARANTINED"
| abandon: "file_edge FILE_UPLOADING FILE_FAILED"
| claim: "file_edge FILE_QUARANTINED FILE_SCANNING"
| finish: "file_terminal s \<Longrightarrow> file_edge FILE_SCANNING s"

inductive_cases file_edge_from: "file_edge s t"

lemma file_edge_terminal: "file_edge s t \<Longrightarrow> \<not> file_terminal s"
  by (auto simp: file_terminal_def elim: file_edge_from)

lemma terminal_absorbing: "file_edge\<^sup>*\<^sup>* s t \<Longrightarrow> file_terminal s \<Longrightarrow> t = s"
  by (induction rule: converse_rtranclp_induct) (auto dest: file_edge_terminal)

text \<open>What of a row never changes.\<close>

definition file_identity :: "file_row \<Rightarrow> file_row" where
  "file_identity f = f\<lparr>f_state := FILE_UPLOADING, f_scan_result := None, f_multipart_id := None,
     f_updated_at := 0\<rparr>"

definition row_evolves :: "file_row \<Rightarrow> file_row \<Rightarrow> bool" where
  "row_evolves f g \<longleftrightarrow> file_identity g = file_identity f \<and> file_edge\<^sup>*\<^sup>* (f_state f) (f_state g)
     \<and> (file_terminal (f_state f) \<longrightarrow> f_scan_result g = f_scan_result f)
     \<and> (f_multipart_id f \<noteq> None \<longrightarrow> f_multipart_id g = f_multipart_id f)"

lemma row_evolves_refl [simp, intro]: "row_evolves f f"
  by (simp add: row_evolves_def)

lemma row_evolves_trans:
  assumes "row_evolves f g" "row_evolves g h"
  shows "row_evolves f h"
proof -
  from assms have "file_edge\<^sup>*\<^sup>* (f_state f) (f_state h)"
    by (auto simp: row_evolves_def)
  moreover have "f_scan_result h = f_scan_result f" if "file_terminal (f_state f)"
  proof -
    from assms(1) that terminal_absorbing have "f_state g = f_state f"
      by (auto simp: row_evolves_def)
    with assms that show ?thesis by (simp add: row_evolves_def)
  qed
  ultimately show ?thesis using assms by (auto simp: row_evolves_def)
qed

text \<open>A table evolves: rows are only appended, and each keeps its identity and follows edges.\<close>

definition files_evolve :: "db \<Rightarrow> db \<Rightarrow> bool" where
  "files_evolve db db' \<longleftrightarrow>
     (\<exists>new. map file_identity (files db') = map file_identity (files db) @ new) \<and>
     (\<forall>i f. get_file db i = Some f \<longrightarrow> (\<exists>g. get_file db' i = Some g \<and> row_evolves f g))"

lemma files_evolve_same: "files db' = files db \<Longrightarrow> files_evolve db db'"
  by (auto simp: files_evolve_def get_file_def)

lemma files_evolve_refl [simp, intro]: "files_evolve db db"
  by (rule files_evolve_same) simp

lemma files_evolve_trans:
  assumes "files_evolve a b" "files_evolve b c"
  shows "files_evolve a c"
proof -
  from assms obtain n1 n2 where "map file_identity (files b) = map file_identity (files a) @ n1"
    "map file_identity (files c) = map file_identity (files b) @ n2" by (auto simp: files_evolve_def)
  then have "map file_identity (files c) = map file_identity (files a) @ (n1 @ n2)" by simp
  moreover have "\<exists>h. get_file c i = Some h \<and> row_evolves f h" if "get_file a i = Some f" for i f
  proof -
    from assms(1) that obtain g where g: "get_file b i = Some g" "row_evolves f g"
      unfolding files_evolve_def by blast
    with assms(2) obtain h where "get_file c i = Some h" "row_evolves g h"
      unfolding files_evolve_def by blast
    with g row_evolves_trans show ?thesis by blast
  qed
  ultimately show ?thesis unfolding files_evolve_def by blast
qed

lemma files_evolve_log: "only_log db db' \<Longrightarrow> files_evolve db db'"
  by (auto simp: only_log_def intro: files_evolve_same)

lemma files_evolve_append: "files db' = files db @ new \<Longrightarrow> files_evolve db db'"
  by (auto simp: files_evolve_def get_file_def find_append)

lemma identity_fields:
  assumes "file_identity g = file_identity f"
  shows "f_id g = f_id f" "f_project_id g = f_project_id f" "f_uploader_kind g = f_uploader_kind f"
    "f_uploader_id g = f_uploader_id f" "f_idempotency_key g = f_idempotency_key f"
    "f_metadata_fingerprint g = f_metadata_fingerprint f" "f_object_key g = f_object_key f"
    "f_sha256 g = f_sha256 f" "f_size_bytes g = f_size_bytes f"
  using assms by (cases f; cases g; simp add: file_identity_def)+

lemma files_evolve_write:
  assumes "get_file db i = Some f" "\<And>x. file_identity (g x) = file_identity x"
    "row_evolves f ((g f)\<lparr>f_updated_at := now\<rparr>)"
  shows "files_evolve db (write_file now i g db)"
proof -
  have fid: "f_id (g x) = f_id x" for x using identity_fields(1) [OF assms(2)] .
  have "file_identity ((g x)\<lparr>f_updated_at := now\<rparr>) = file_identity x" for x
    using assms(2) [of x] by (simp add: file_identity_def)
  then have "map file_identity (files (write_file now i g db)) = map file_identity (files db)"
    by (simp add: write_file_def put_file_def map_update_rows_same)
  with assms(1,3) fid show ?thesis
    by (auto simp: files_evolve_def write_file_def file_table.get_put)
qed

lemma get_write_file:
  assumes "get_file db i = Some f" "\<And>x. f_id (g x) = f_id x"
  shows "get_file (write_file now i g db) i = Some ((g f)\<lparr>f_updated_at := now\<rparr>)"
  using assms by (simp add: write_file_def file_table.get_put)

lemma get_write_other:
  assumes "\<And>x. f_id (g x) = f_id x" "k \<noteq> i"
  shows "get_file (write_file now i g db) k = get_file db k"
  using assms by (simp add: write_file_def file_table.get_put_other)

section \<open>Upload start\<close>

lemma insert_file_Inr:
  "insert_file f db = Inr db' \<Longrightarrow> db' = db\<lparr>files := files db @ [f]\<rparr> \<and> get_file db (f_id f) = None"
  by (auto simp: insert_file_def split: if_splits)

lemma provision_cases:
  assumes "provision_upload st now i db = (r, db', calls)"
  obtains "db' = db" "r = Inl file_provisioning_pending_error"
  | f where "get_file db i = Some f" "f_state f = FILE_UPLOADING" "f_multipart_id f \<noteq> None"
      "db' = db" "r = Inr f" "calls = []"
  | f m where "get_file db i = Some f" "f_state f = FILE_UPLOADING" "f_multipart_id f = None"
      "db' = write_file now i (\<lambda>f. f\<lparr>f_multipart_id := Some m\<rparr>) db"
      "r = Inr (f\<lparr>f_multipart_id := Some m\<rparr>)"
      "st_list st (f_object_key f) = Some [m] \<or> st_create st (f_object_key f) (f_content_type f) = Some m"
  using assms
  by (auto simp: provision_upload_def Let_def split: option.splits if_splits list.splits)

lemma provision_evolves:
  assumes "provision_upload st now i db = (r, db', calls)"
  shows "files_evolve db db'"
  using assms
proof (cases rule: provision_cases)
  case (3 f m)
  have "row_evolves f ((f\<lparr>f_multipart_id := Some m\<rparr>)\<lparr>f_updated_at := now\<rparr>)"
    using 3 by (simp add: row_evolves_def file_identity_def)
  with files_evolve_write [OF 3(1)] 3(4) show ?thesis by (simp add: file_identity_def)
qed auto

lemma start_upload_evolves:
  assumes "start_upload_row L st now i race race2 a c key db = (r, db', calls)"
    and "\<And>d. files_evolve d (race d)" "\<And>d. files_evolve d (race2 d)"
  shows "files_evolve db db'"
proof -
  have prov: "files_evolve d d'" if "provision_upload st now k (race2 d) = (r', d', cs)" for d k r' d' cs
    using provision_evolves [OF that] assms(3) files_evolve_trans by blast
  have ins: "files_evolve d d'" if "insert_file f d = Inr d'" for f d d'
    using insert_file_Inr [OF that] by (intro files_evolve_append [of _ _ "[f]"]) simp
  show ?thesis
    using assms(1,2) prov ins
    by (auto simp: start_upload_row_def Let_def split: if_splits option.splits sum.splits)
      (meson files_evolve_trans)+
qed

lemma find_identity:
  assumes "\<And>x y. file_identity x = file_identity y \<Longrightarrow> P x = P y"
  shows "find P xs = Some x \<Longrightarrow> map file_identity ys = map file_identity xs @ new \<Longrightarrow>
    \<exists>y. find P ys = Some y \<and> file_identity y = file_identity x"
proof (induction xs arbitrary: ys)
  case (Cons a xs)
  then obtain b bs where ys: "ys = b # bs" "file_identity b = file_identity a"
    "map file_identity bs = map file_identity xs @ new" by auto
  with assms have "P b = P a" by blast
  with Cons ys show ?case by (auto split: if_splits)
qed simp

lemma idempotency_evolves:
  assumes "file_by_idempotency db p k w key = Some f" "files_evolve db db'"
  shows "\<exists>g. file_by_idempotency db' p k w key = Some g \<and> file_identity g = file_identity f"
proof -
  let ?P = "\<lambda>f. f_project_id f = p \<and> f_uploader_kind f = k \<and> f_uploader_id f = w
    \<and> f_idempotency_key f = Some key"
  from assms(2) obtain new where "map file_identity (files db') = map file_identity (files db) @ new"
    by (auto simp: files_evolve_def)
  moreover have P: "?P x = ?P y" if "file_identity x = file_identity y" for x y
    using identity_fields [OF that] by simp
  moreover have "find ?P (files db) = Some f" using assms(1) by (simp add: file_by_idempotency_def)
  ultimately have "\<exists>y. find ?P (files db') = Some y \<and> file_identity y = file_identity f"
    by (intro find_identity [of ?P, OF P])
  then show ?thesis by (simp add: file_by_idempotency_def)
qed

lemma start_row_Inr:
  assumes "start_upload_row L st now i race race2 a c key db = (Inr f, db', calls)"
  obtains d e fp where "fingerprint L c = Some fp" "idempotency_key_ok key"
    "file_by_idempotency d (us_project_id c) (actor_kind a) (actor_subject a) key = Some e"
    "f_metadata_fingerprint e = Some fp" "provision_upload st now (f_id e) (race2 d) = (Inr f, db', calls)"
proof -
  let ?look = "\<lambda>d. file_by_idempotency d (us_project_id c) (actor_kind a) (actor_subject a) key"
  from assms obtain fp where k: "idempotency_key_ok key" "fingerprint L c = Some fp"
    by (auto simp: start_upload_row_def split: if_splits option.splits)
  show ?thesis
  proof (cases "?look db")
    case (Some e)
    with assms k have "f_metadata_fingerprint e = Some fp"
      "provision_upload st now (f_id e) (race2 db) = (Inr f, db', calls)"
      by (auto simp: start_upload_row_def split: if_splits)
    with that k Some show ?thesis by blast
  next
    case None
    let ?file = "\<lparr>f_id = i, f_project_id = us_project_id c, f_filename = us_filename c,
      f_category = us_category c, f_file_date = us_file_date c, f_object_key = object_key L c i,
      f_size_bytes = us_size_bytes c, f_sha256 = us_sha256 c, f_state = FILE_UPLOADING,
      f_uploader_id = actor_subject a, f_uploader_kind = actor_kind a,
      f_content_type = us_content_type c, f_scan_result = None, f_metadata_fingerprint = Some fp,
      f_idempotency_key = Some key, f_multipart_id = None, f_created_at = now, f_updated_at = now\<rparr>"
    show ?thesis
    proof (cases "insert_file ?file (race db)")
      case (Inr d)
      with assms k None have p: "provision_upload st now i (race2 d) = (Inr f, db', calls)"
        by (auto simp: start_upload_row_def Let_def)
      from Inr have "?look (race db) = None" by (auto simp: insert_file_def split: if_splits)
      then have "?look d = Some ?file"
        using insert_file_Inr [OF Inr] by (simp add: file_by_idempotency_def find_append)
      with that k p show ?thesis by force
    next
      case (Inl e)
      with assms k None obtain w where "?look (race db) = Some w" "f_metadata_fingerprint w = Some fp"
        "provision_upload st now (f_id w) (race2 (race db)) = (Inr f, db', calls)"
        by (auto simp: start_upload_row_def Let_def split: if_splits option.splits)
      with that k show ?thesis by blast
    qed
  qed
qed

lemma provision_same_id:
  assumes "provision_upload st now i db = (r, db', calls)"
  shows "map f_id (files db') = map f_id (files db) \<and> (\<forall>f. r = Inr f \<longrightarrow> f_id f = i)
    \<and> (isl r \<longrightarrow> r = Inl file_provisioning_pending_error)"
  using assms
proof (cases rule: provision_cases)
  case (3 f m)
  have "map f_id (files db') = map f_id (files db)"
    using 3(4) by (simp add: write_file_def file_table.keys_put)
  with 3(5) get_rows_id(5) [OF 3(1)] show ?thesis by simp
qed (auto dest: get_rows_id(5))

text \<open>A repeated start creates no row and returns the same upload, or asks to retry.\<close>

lemma start_row_replay:
  assumes "start_upload_row L st now i race race2 a c key db = (Inr f, db1, calls)"
    and "\<And>d. files_evolve d (race2 d)" "files_evolve db1 db2"
    and "start_upload_row L st2 now2 i2 race3 id a c key db2 = (r, db3, calls2)"
  shows "map f_id (files db3) = map f_id (files db2)
    \<and> (r = Inl file_provisioning_pending_error \<or> (\<exists>g. r = Inr g \<and> f_id g = f_id f))"
  using assms(1)
proof (cases rule: start_row_Inr)
  case (1 d e fp)
  from provision_evolves [OF 1(5)] assms(2,3) have "files_evolve d db2"
    using files_evolve_trans by blast
  from idempotency_evolves [OF 1(3) this] obtain g where
    g: "file_by_idempotency db2 (us_project_id c) (actor_kind a) (actor_subject a) key = Some g"
    "file_identity g = file_identity e" by blast
  with 1(4) have "f_metadata_fingerprint g = Some fp" "f_id g = f_id e"
    using identity_fields [OF g(2)] by simp_all
  with assms(4) g 1(1,2) have "provision_upload st2 now2 (f_id e) db2 = (r, db3, calls2)"
    by (simp add: start_upload_row_def Let_def)
  note p2 = provision_same_id [OF this]
  have "f_id f = f_id e" using provision_same_id [OF 1(5)] by blast
  with p2 show ?thesis by (cases r) simp_all
qed

text \<open>The same key with other metadata is refused without a write.\<close>

lemma start_row_conflict:
  assumes "start_upload_row L st now i race race2 a c key db = (Inr f, db1, calls)"
    and "\<And>d. files_evolve d (race2 d)" "files_evolve db1 db2"
    and "us_project_id c' = us_project_id c" "fingerprint L c' = Some fp'" "fingerprint L c \<noteq> Some fp'"
  shows "start_upload_row L st2 now2 i2 race3 race4 a c' key db2 = (Inl upload_conflict, db2, [])"
  using assms(1)
proof (cases rule: start_row_Inr)
  case (1 d e fp)
  from provision_evolves [OF 1(5)] assms(2,3) have "files_evolve d db2"
    using files_evolve_trans by blast
  from idempotency_evolves [OF 1(3) this] obtain g where
    g: "file_by_idempotency db2 (us_project_id c) (actor_kind a) (actor_subject a) key = Some g"
    "file_identity g = file_identity e" by blast
  with 1(4) have "f_metadata_fingerprint g = Some fp" using identity_fields [OF g(2)] by simp
  with assms(4-6) g 1(1,2) show ?thesis by (simp add: start_upload_row_def Let_def)
qed

section \<open>Completion\<close>

lemma complete_cases:
  assumes "complete_upload st dev now aid a i parts rid db = (r, db', calls)"
  obtains "db' = db" "isl r" "\<forall>k d. EnqueueScan k d \<notin> set calls" "\<forall>k. DeleteObject k \<notin> set calls"
  | f where "get_file db i = Some f" "f_state f \<noteq> FILE_UPLOADING" "r = Inr f" "db' = db" "calls = []"
      "authorize_upload_operation dev a (f_project_id f) = Inr ()"
  | f m n where "get_file db i = Some f" "f_state f = FILE_UPLOADING" "f_multipart_id f = Some m"
      "authorize_upload_operation dev a (f_project_id f) = Inr ()" "distinct (map cp_number parts)"
      "st_complete st (f_object_key f) m (sort_key cp_number parts) = Some n" "n \<noteq> f_size_bytes f"
      "isl r" "db' = write_file now i (\<lambda>f. f\<lparr>f_state := FILE_FAILED,
        f_scan_result := Some (u ''SIZE_MISMATCH'')\<rparr>) db"
      "calls = [CompleteMultipart (f_object_key f) m (sort_key cp_number parts), DeleteObject (f_object_key f)]"
  | f m where "get_file db i = Some f" "f_state f = FILE_UPLOADING" "f_multipart_id f = Some m"
      "authorize_upload_operation dev a (f_project_id f) = Inr ()" "distinct (map cp_number parts)"
      "st_complete st (f_object_key f) m (sort_key cp_number parts) = Some (f_size_bytes f)"
      "r = Inr (f\<lparr>f_state := FILE_QUARANTINED\<rparr>)"
      "only_log (write_file now i (\<lambda>f. f\<lparr>f_state := FILE_QUARANTINED\<rparr>) db) db'"
      "calls = [CompleteMultipart (f_object_key f) m (sort_key cp_number parts), EnqueueScan (f_id f) (f_id f)]"
proof (cases "get_file db i")
  case None
  with assms have "db' = db \<and> isl r \<and> set calls \<subseteq> {CompleteMultipart k m cs | k m cs. True}"
    by (auto simp: complete_upload_def)
  then show ?thesis by (intro that(1)) auto
next
  case (Some f)
  show ?thesis
  proof (cases "authorize_upload_operation dev a (f_project_id f)")
    case (Inl e)
    with Some assms have "db' = db \<and> isl r \<and> set calls \<subseteq> {CompleteMultipart k m cs | k m cs. True}"
      by (auto simp: complete_upload_def)
    then show ?thesis by (intro that(1)) auto
  next
    case auth: (Inr x)
    show ?thesis
    proof (cases "f_state f = FILE_UPLOADING")
      case False
      with Some auth assms have "r = Inr f" "db' = db" "calls = []" by (simp_all add: complete_upload_def)
        with Some auth False that(2) [of f] show ?thesis by simp
    next
      case up: True
      show ?thesis
      proof (cases "f_multipart_id f")
        case None
        with Some auth up assms have "db' = db \<and> isl r \<and> set calls \<subseteq> {CompleteMultipart k m cs | k m cs. True}"
          by (auto simp: complete_upload_def)
        then show ?thesis by (intro that(1)) auto
      next
        case m: (Some m)
        show ?thesis
        proof (cases "distinct (map cp_number parts)")
          case False
          with Some auth up m assms have "db' = db \<and> isl r \<and> set calls \<subseteq> {CompleteMultipart k m cs | k m cs. True}"
            by (auto simp: complete_upload_def)
          then show ?thesis by (intro that(1)) auto
        next
          case d: True
          let ?cs = "sort_key cp_number parts"
          show ?thesis
          proof (cases "st_complete st (f_object_key f) m ?cs")
            case None
            with Some auth up m d assms have "db' = db \<and> isl r \<and> set calls \<subseteq> {CompleteMultipart k m cs | k m cs. True}"
              by (auto simp: complete_upload_def Let_def)
            then show ?thesis by (intro that(1)) auto
          next
            case n: (Some n)
            show ?thesis
            proof (cases "n = f_size_bytes f")
              case False
              with Some auth up m d n assms have "isl r"
                "db' = write_file now i (\<lambda>f. f\<lparr>f_state := FILE_FAILED,
                  f_scan_result := Some (u ''SIZE_MISMATCH'')\<rparr>) db"
                "calls = [CompleteMultipart (f_object_key f) m ?cs, DeleteObject (f_object_key f)]"
                by (auto simp: complete_upload_def Let_def)
              with Some auth up m d n False that(3) [of f m n] show ?thesis by simp
            next
              case True
              with Some auth up m d n assms have
                "r = Inr (f\<lparr>f_state := FILE_QUARANTINED\<rparr>)"
                "only_log (write_file now i (\<lambda>f. f\<lparr>f_state := FILE_QUARANTINED\<rparr>) db) db'"
                "calls = [CompleteMultipart (f_object_key f) m ?cs, EnqueueScan (f_id f) (f_id f)]"
                by (auto simp: complete_upload_def Let_def completion_audit_def insert_audit_def
                    split: option.splits)
              with Some auth up m d n True that(4) [of f m] show ?thesis by simp
            qed
          qed
        qed
      qed
    qed
  qed
qed

lemma evolve_state:
  assumes "get_file db i = Some f" "file_edge (f_state f) s"
  shows "files_evolve db (write_file now i (\<lambda>f. f\<lparr>f_state := s\<rparr>) db)"
    and "files_evolve db (write_file now i (\<lambda>f. f\<lparr>f_state := s, f_scan_result := res\<rparr>) db)"
  using assms file_edge_terminal [OF assms(2)]
  by (auto intro!: files_evolve_write [OF assms(1)] simp: row_evolves_def file_identity_def)

lemma complete_evolves:
  assumes "complete_upload st dev now aid a i parts rid db = (r, db', calls)"
  shows "files_evolve db db'"
  using assms
proof (cases rule: complete_cases)
  case (3 f m n)
  then show ?thesis using evolve_state(2) [of db i f FILE_FAILED] file_edge.abandon by simp
next
  case (4 f m)
  then have "files_evolve db (write_file now i (\<lambda>f. f\<lparr>f_state := FILE_QUARANTINED\<rparr>) db)"
    using evolve_state(1) [of db i f FILE_QUARANTINED] file_edge.complete by simp
  with 4(8) files_evolve_log files_evolve_trans show ?thesis by blast
qed auto

section \<open>Scanning\<close>

lemma scan_result_terminal: "file_terminal (fst (scan_result_of L expected run))"
  by (auto simp: scan_result_of_def file_terminal_def split: scan_run.splits scan_verdict.splits)

lemma scan_result_clean:
  "fst (scan_result_of L expected run) = FILE_CLEAN \<longleftrightarrow>
     (\<exists>pulled. run = Scanned pulled VERDICT_CLEAN \<and> sha256_hex L pulled = expected)"
  by (auto simp: scan_result_of_def split: scan_run.splits scan_verdict.splits)

lemma claim_cases:
  assumes "claim_scan now i db = (c, db')"
  obtains "c = None" "db' = db" "\<And>f. get_file db i = Some f \<Longrightarrow> f_state f \<noteq> FILE_QUARANTINED"
  | f where "get_file db i = Some f" "f_state f = FILE_QUARANTINED"
      "c = Some (f_object_key f, f_sha256 f)" "db' = write_file now i (\<lambda>f. f\<lparr>f_state := FILE_SCANNING\<rparr>) db"
  using assms by (auto simp: claim_scan_def file_terminal_def split: option.splits if_splits)

lemma claim_evolves: "claim_scan now i db = (c, db') \<Longrightarrow> files_evolve db db'"
  by (erule claim_cases) (auto intro!: evolve_state file_edge.claim)

lemma finish_cases:
  assumes "finish_scan now i key o1 db = (db', calls)"
  obtains "db' = db" "calls = []" "\<And>f. get_file db i = Some f \<Longrightarrow> f_state f \<noteq> FILE_SCANNING"
  | f where "get_file db i = Some f" "f_state f = FILE_SCANNING"
      "db' = write_file now i (\<lambda>f. f\<lparr>f_state := fst o1, f_scan_result := Some (snd o1)\<rparr>) db"
      "calls = (if fst o1 \<in> {FILE_INFECTED, FILE_FAILED} then [DeleteObject key] else [])"
  using assms by (auto simp: finish_scan_def split: option.splits if_splits)

lemma finish_evolves:
  assumes "finish_scan now i key (scan_result_of L expected run) db = (db', calls)"
  shows "files_evolve db db'"
  using assms
proof (cases rule: finish_cases)
  case (2 f)
  have "file_edge (f_state f) (fst (scan_result_of L expected run))"
    using 2(2) file_edge.finish [OF scan_result_terminal] by simp
  with 2 evolve_state(2) show ?thesis by simp
qed auto

lemma scan_evolves:
  assumes "scan_file L now later run race i db = (db', calls)" "\<And>d. files_evolve d (race d)"
  shows "files_evolve db db'"
proof -
  obtain c db1 where c: "claim_scan now i db = (c, db1)" by fastforce
  have "files_evolve db1 db'"
  proof (cases c)
    case None
    with c assms(1) show ?thesis by (auto simp: scan_file_def)
  next
    case (Some ke)
    obtain key ex where ke: "ke = (key, ex)" by fastforce
    show ?thesis
    proof (cases "run = ScanInterrupted")
      case True
      with c Some ke assms show ?thesis by (auto simp: scan_file_def)
    next
      case False
      with c Some ke assms(1) have
        "finish_scan later i key (scan_result_of L ex run) (race db1) = (db', calls)"
        by (simp add: scan_file_def)
      from finish_evolves [OF this] assms(2) files_evolve_trans show ?thesis by blast
    qed
  qed
  with claim_evolves [OF c] files_evolve_trans show ?thesis by blast
qed

lemma safe_signature_safe:
  "1 \<le> length (safe_signature s) \<and> length (safe_signature s) \<le> 128 \<and> list_all signature_char (safe_signature s)"
proof -
  have "list_all signature_char (take n (map (\<lambda>c. if signature_char c then c else 95) t))" for n t
  proof (rule list_all_iff [THEN iffD2, rule_format])
    fix c assume "c \<in> set (take n (map (\<lambda>c. if signature_char c then c else 95) t))"
    then have "c \<in> (\<lambda>c. if signature_char c then c else 95) ` set t" by (auto dest!: in_set_takeD)
    then obtain d where "c = (if signature_char d then d else 95)" by (rule imageE)
    then show "signature_char c" by (auto simp: signature_char_def u_def)
  qed
  moreover have "list_all signature_char (u ''INFECTED'')" "length (u ''INFECTED'') = 8"
    by (auto simp: signature_char_def u_def)
  ultimately show ?thesis
    by (auto simp: safe_signature_def Let_def MAX_SIGNATURE_LENGTH_def Suc_le_eq split: option.split)
qed

section \<open>Maintenance\<close>

lemma expire_one_cases:
  assumes "expire_one now cutoff i db = (d, db', calls)"
  obtains "\<not> d" "db' = db" "calls = []"
    "\<And>f. get_file db i = Some f \<Longrightarrow> f_state f \<noteq> FILE_UPLOADING \<or> cutoff \<le> f_created_at f"
  | f where "d" "get_file db i = Some f" "f_state f = FILE_UPLOADING" "f_created_at f < cutoff"
      "db' = write_file now i (\<lambda>f. f\<lparr>f_state := FILE_FAILED,
        f_scan_result := Some (u ''UPLOAD_EXPIRED'')\<rparr>) db"
      "DeleteObject (f_object_key f) \<in> set calls"
  using assms by (auto simp: expire_one_def split: option.splits if_splits)

lemma expire_one_evolves: "expire_one now cutoff i db = (d, db', calls) \<Longrightarrow> files_evolve db db'"
  by (erule expire_one_cases) (auto intro!: evolve_state file_edge.abandon)

lemma expire_all_evolves: "expire_all now cutoff ids db = (n, db', calls) \<Longrightarrow> files_evolve db db'"
proof (induction ids arbitrary: db n db' calls)
  case (Cons i ids)
  obtain d db1 c1 where e: "expire_one now cutoff i db = (d, db1, c1)" by (metis prod_cases3)
  obtain m db2 c2 where a: "expire_all now cutoff ids db1 = (m, db2, c2)" by (metis prod_cases3)
  from Cons.prems e a have "db' = db2" by simp
  with Cons.IH [OF a] expire_one_evolves [OF e] files_evolve_trans show ?case by blast
qed simp

lemma expire_all_count: "fst (expire_all now cutoff ids db) \<le> length ids"
proof (induction ids arbitrary: db)
  case (Cons i ids)
  obtain d db1 c1 where e: "expire_one now cutoff i db = (d, db1, c1)" by (metis prod_cases3)
  obtain m db2 c2 where a: "expire_all now cutoff ids db1 = (m, db2, c2)" by (metis prod_cases3)
  with Cons.IH [of db1] e show ?case by simp
qed simp

definition stale_upload :: "time \<Rightarrow> file_row \<Rightarrow> bool" where
  "stale_upload cutoff f \<longleftrightarrow> f_state f = FILE_UPLOADING \<and> f_created_at f < cutoff"

lemma expire_one_row:
  assumes "expire_one now cutoff i db = (d, db', calls)" "get_file db k = Some f"
  shows "\<exists>g. get_file db' k = Some g \<and>
    (if k = i \<and> stale_upload cutoff f then f_state g = FILE_FAILED else g = f)"
  using assms(1)
proof (cases rule: expire_one_cases)
  case (2 h)
  with assms(2) show ?thesis
    by (cases "k = i") (auto simp: get_write_file get_write_other stale_upload_def)
qed (use assms(2) in \<open>auto simp: stale_upload_def\<close>)

lemma expire_one_ids:
  "expire_one now cutoff i db = (d, db', calls) \<Longrightarrow> map f_id (files db') = map f_id (files db)"
  by (erule expire_one_cases) (simp_all add: write_file_def file_table.keys_put)

lemma expire_all_row:
  assumes "expire_all now cutoff ids db = (n, db', calls)" "get_file db k = Some f"
  shows "\<exists>g. get_file db' k = Some g \<and>
    (if k \<in> set ids \<and> stale_upload cutoff f then f_state g = FILE_FAILED else g = f)"
  using assms
proof (induction ids arbitrary: db n calls f)
  case (Cons i ids)
  obtain d db1 c1 where e: "expire_one now cutoff i db = (d, db1, c1)" by (metis prod_cases3)
  obtain m db2 c2 where a: "expire_all now cutoff ids db1 = (m, db2, c2)" by (metis prod_cases3)
  from Cons.prems(1) e a have db: "db' = db2" by simp
  obtain f1 where f1: "get_file db1 k = Some f1"
    "if k = i \<and> stale_upload cutoff f then f_state f1 = FILE_FAILED else f1 = f"
    using expire_one_row [OF e Cons.prems(2)] by blast
  from Cons.IH [OF _ f1(1)] a db obtain g where g: "get_file db' k = Some g"
    "if k \<in> set ids \<and> stale_upload cutoff f1 then f_state g = FILE_FAILED else g = f1" by blast
  have "f_state f1 = FILE_FAILED \<Longrightarrow> \<not> stale_upload cutoff f1" by (simp add: stale_upload_def)
  with f1(2) g show ?case by (auto split: if_splits)
qed simp

lemma expire_all_ids:
  "expire_all now cutoff ids db = (n, db', calls) \<Longrightarrow> map f_id (files db') = map f_id (files db)"
proof (induction ids arbitrary: db n calls)
  case (Cons i ids)
  obtain d db1 c1 where e: "expire_one now cutoff i db = (d, db1, c1)" by (metis prod_cases3)
  obtain m db2 c2 where a: "expire_all now cutoff ids db1 = (m, db2, c2)" by (metis prod_cases3)
  with Cons.prems e Cons.IH [of db1] expire_one_ids [OF e] show ?case by simp
qed simp

lemma same_ids_row:
  assumes "map f_id (files db') = map f_id (files db)" "g \<in> set (files db')"
  shows "\<exists>f \<in> set (files db). f_id f = f_id g"
  using assms by (metis image_iff list.set_map)

lemma quarantined_backlog:
  assumes "distinct (map f_id (files db))" "map f_id (files db') = map f_id (files db)"
    and "\<And>f. f \<in> set (files db) \<Longrightarrow> \<exists>g. get_file db' (f_id f) = Some g \<and>
      (if stale_upload cutoff f then f_state g = FILE_FAILED else g = f)"
  shows "length (filter (\<lambda>f. f_state f = FILE_QUARANTINED \<and> P f) (files db'))
    \<le> length (filter (\<lambda>f. f_state f = FILE_QUARANTINED) (files db))"
proof -
  let ?new = "filter (\<lambda>f. f_state f = FILE_QUARANTINED \<and> P f) (files db')"
  let ?old = "filter (\<lambda>f. f_state f = FILE_QUARANTINED) (files db)"
  have dist: "distinct (map f_id (files db'))" using assms(1,2) by simp
  have "g \<in> set ?old" if g: "g \<in> set ?new" for g
  proof -
    from g have gm: "g \<in> set (files db')" "f_state g = FILE_QUARANTINED" by simp_all
    from same_ids_row [OF assms(2) gm(1)] obtain f where f: "f \<in> set (files db)" "f_id f = f_id g" by blast
    from assms(3) [OF f(1)] file_table.get_of_member [OF dist gm(1)] f(2)
    have "if stale_upload cutoff f then f_state g = FILE_FAILED else g = f" by simp
    with f(1) gm(2) show ?thesis by (cases "stale_upload cutoff f") simp_all
  qed
  then have "set ?new \<subseteq> set ?old" by blast
  then have "card (set ?new) \<le> card (set ?old)" by (rule card_mono [OF finite_set])
  moreover have "distinct ?new" "distinct ?old" using assms(1) dist by (simp_all add: distinct_map)
  ultimately show ?thesis by (simp add: distinct_card del: set_filter)
qed

lemma expire_candidates_all:
  assumes "length (filter (stale_upload cutoff) (files db)) \<le> limit"
  shows "set (expire_candidates cutoff limit db) = f_id ` {f \<in> set (files db). stale_upload cutoff f}"
proof -
  have "filter (stale_upload cutoff) (files db)
      = filter (\<lambda>f. f_state f = FILE_UPLOADING \<and> f_created_at f < cutoff) (files db)"
    by (rule filter_cong) (simp_all add: stale_upload_def)
  with assms show ?thesis by (simp add: expire_candidates_def stale_upload_def)
qed

lemma recover_evolves:
  assumes "recover_stale_uploads now reference limit db = (r, db', calls)"
  shows "files_evolve db db'"
  using assms expire_all_evolves
  by (auto simp: recover_stale_uploads_def Let_def split: if_splits prod.splits)

section \<open>Runs\<close>

text \<open>Every operation that writes a file row, with its drawn values.  A scan delivery is one
  event; interleavings inside an operation are the \<open>race\<close> arguments of the lemmas above.\<close>

datatype file_op =
    StartUpload storage time uuid actor upload_start ustr
  | StartImportUpload storage time uuid actor upload_start ustr
  | CompleteUpload storage bool time uuid actor uuid "completed_part list" "uuid option"
  | ScanFile time time scan_run uuid
  | RecoverStale time time int

fun file_step :: "lib \<Rightarrow> file_op \<Rightarrow> db \<Rightarrow> db" where
  "file_step L (StartUpload st now i a c key) db = fst (snd (start_upload L st now i id id a c key db))"
| "file_step L (StartImportUpload st now i a c key) db =
     fst (snd (start_import_upload L st now i id id a c key db))"
| "file_step L (CompleteUpload st dev now aid a i parts rid) db =
     fst (snd (complete_upload st dev now aid a i parts rid db))"
| "file_step L (ScanFile now later run i) db = fst (scan_file L now later run id i db)"
| "file_step L (RecoverStale now reference limit) db =
     fst (snd (recover_stale_uploads now reference limit db))"

lemma file_step_evolves: "files_evolve db (file_step L op db)"
proof (cases op)
  case (StartUpload st now i a c key)
  then show ?thesis
    using start_upload_evolves [of L st now i id id a c key db]
    by (auto simp: start_upload_def split: sum.splits) (metis files_evolve_refl id_apply prod.collapse)
next
  case (StartImportUpload st now i a c key)
  then show ?thesis
    using start_upload_evolves [of L st now i id id a c key db]
    by (auto simp: start_import_upload_def) (metis files_evolve_refl id_apply prod.collapse)
next
  case (CompleteUpload st dev now aid a i parts rid)
  then show ?thesis
    using complete_evolves [of st dev now aid a i parts rid db] by (metis file_step.simps(3) prod.collapse)
next
  case (ScanFile now later run i)
  then show ?thesis
    using scan_evolves [of L now later run id i db] by (metis file_step.simps(4) files_evolve_refl id_apply prod.collapse)
next
  case (RecoverStale now reference limit)
  then show ?thesis
    using recover_evolves [of now reference limit db] by (metis file_step.simps(5) prod.collapse)
qed

lemma file_run_evolves: "files_evolve db (fold (file_step L) ops db)"
proof (induction ops arbitrary: db)
  case (Cons op ops)
  from file_step_evolves Cons.IH [of "file_step L op db"] files_evolve_trans show ?case by fastforce
qed simp

section \<open>A scan that was interrupted\<close>

text \<open>
  After an interruption the row is SCANNING, and every operation that could move it on
  requires another state: a scan claims QUARANTINED rows, completion and expiry
  UPLOADING ones, the redispatch lists QUARANTINED ones.
\<close>

definition state_of :: "db \<Rightarrow> uuid \<Rightarrow> file_state option" where
  "state_of db i = map_option f_state (get_file db i)"

lemma write_other_state:
  assumes "state_of db i = Some FILE_SCANNING" "\<And>x. f_id (g x) = f_id x"
    and "state_of db k \<noteq> Some FILE_SCANNING"
  shows "state_of (write_file now k g db) i = Some FILE_SCANNING"
  using assms get_write_other [OF assms(2), of i k] by (cases "i = k") (simp_all add: state_of_def)

lemma provision_scanning:
  assumes "state_of db i = Some FILE_SCANNING" "provision_upload st now k db = (r, db', cs)"
  shows "state_of db' i = Some FILE_SCANNING"
  using assms(2)
proof (cases rule: provision_cases)
  case (3 f m)
  then have "state_of db k \<noteq> Some FILE_SCANNING" by (simp add: state_of_def)
  with 3(4) write_other_state [OF assms(1)] show ?thesis by simp
qed (use assms(1) in auto)

lemma insert_file_state:
  "insert_file f db = Inr db' \<Longrightarrow> state_of db i = Some s \<Longrightarrow> state_of db' i = Some s"
  by (auto simp: state_of_def get_file_def find_append dest!: insert_file_Inr)

lemma start_row_scanning:
  assumes "state_of db i = Some FILE_SCANNING"
  shows "state_of (fst (snd (start_upload_row L st now k id id a c key db))) i = Some FILE_SCANNING"
proof -
  have prov: "state_of (fst (snd (provision_upload st now j d))) i = Some FILE_SCANNING"
    if "state_of d i = Some FILE_SCANNING" for j d
    using provision_scanning [OF that] by (metis prod.collapse)
  have ins: "state_of d i = Some FILE_SCANNING" if "insert_file f db = Inr d" for f d
    using insert_file_state [OF that assms] .
  show ?thesis
    using assms prov ins by (simp add: start_upload_row_def Let_def split: option.split sum.split)
qed

lemma expire_one_scanning:
  assumes "state_of db i = Some FILE_SCANNING" "expire_one now cutoff k db = (d, db', cs)"
  shows "state_of db' i = Some FILE_SCANNING"
  using assms(2)
proof (cases rule: expire_one_cases)
  case (2 f)
  then have "state_of db k \<noteq> Some FILE_SCANNING" by (simp add: state_of_def)
  with 2(5) write_other_state [OF assms(1)] show ?thesis by simp
qed (use assms(1) in auto)

lemma expire_all_scanning:
  "state_of db i = Some FILE_SCANNING \<Longrightarrow>
     state_of (fst (snd (expire_all now cutoff ids db))) i = Some FILE_SCANNING"
proof (induction ids arbitrary: db)
  case (Cons k ids)
  obtain d db1 c1 where e: "expire_one now cutoff k db = (d, db1, c1)" by (metis prod_cases3)
  obtain m db2 c2 where a: "expire_all now cutoff ids db1 = (m, db2, c2)" by (metis prod_cases3)
  with Cons.IH [OF expire_one_scanning [OF Cons.prems e]] e show ?case by simp
qed simp

lemma claim_scanning:
  assumes "state_of db i = Some FILE_SCANNING" "claim_scan now k db = (c, db1)"
  shows "state_of db1 i = Some FILE_SCANNING \<and> (c \<noteq> None \<longrightarrow> k \<noteq> i)"
  using assms(2)
proof (cases rule: claim_cases)
  case (2 f)
  then have "state_of db k \<noteq> Some FILE_SCANNING" by (simp add: state_of_def)
  with 2 write_other_state [OF assms(1)] assms(1) show ?thesis by auto
qed (use assms(1) in auto)

lemma finish_other:
  assumes "finish_scan now k key o1 db = (db', calls)" "k \<noteq> i"
  shows "get_file db' i = get_file db i"
  using assms(1)
proof (cases rule: finish_cases)
  case (2 f)
  then show ?thesis using assms(2) by (simp add: get_write_other)
qed simp

lemma scan_scanning:
  assumes "state_of db i = Some FILE_SCANNING"
  shows "state_of (fst (scan_file L now later run id k db)) i = Some FILE_SCANNING"
proof -
  obtain c db1 where c: "claim_scan now k db = (c, db1)" by fastforce
  note cl = claim_scanning [OF assms c]
  show ?thesis
  proof (cases c)
    case None
    with c cl show ?thesis by (simp add: scan_file_def)
  next
    case (Some ke)
    obtain key ex where ke: "ke = (key, ex)" by fastforce
    obtain db2 cs where f: "finish_scan later k key (scan_result_of L ex run) db1 = (db2, cs)" by fastforce
    from finish_other [OF f, of i] cl Some have "state_of db2 i = Some FILE_SCANNING"
      by (simp add: state_of_def)
    with c cl Some ke f show ?thesis by (simp add: scan_file_def)
  qed
qed

lemma only_log_state: "only_log db db' \<Longrightarrow> state_of db' i = state_of db i"
  by (auto simp: only_log_def state_of_def)

lemma file_step_scanning:
  assumes "state_of db i = Some FILE_SCANNING"
  shows "state_of (file_step L op db) i = Some FILE_SCANNING"
proof (cases op)
  case (StartUpload st now k a c key)
  with assms start_row_scanning show ?thesis by (simp add: start_upload_def split: sum.split)
next
  case (StartImportUpload st now k a c key)
  with assms start_row_scanning show ?thesis by (simp add: start_import_upload_def)
next
  case (CompleteUpload st dev now aid a k parts rid)
  obtain r db' cs where e: "complete_upload st dev now aid a k parts rid db = (r, db', cs)"
    by (metis prod_cases3)
  from e have "state_of db' i = Some FILE_SCANNING"
  proof (cases rule: complete_cases)
    case (3 f m n)
    then have "state_of db k \<noteq> Some FILE_SCANNING" by (simp add: state_of_def)
    with 3(9) write_other_state [OF assms] show ?thesis by simp
  next
    case (4 f m)
    then have "state_of db k \<noteq> Some FILE_SCANNING" by (simp add: state_of_def)
    with 4(8) write_other_state [OF assms] show ?thesis by (simp add: only_log_state)
  qed (use assms in auto)
  with e CompleteUpload show ?thesis by simp
next
  case (ScanFile now later run k)
  with scan_scanning [OF assms] show ?thesis by simp
next
  case (RecoverStale now reference limit)
  with assms expire_all_scanning [OF assms] show ?thesis
    by (auto simp: recover_stale_uploads_def Let_def split: prod.split) (metis fst_conv snd_conv)
qed

lemma file_run_scanning:
  "state_of db i = Some FILE_SCANNING \<Longrightarrow> state_of (fold (file_step L) ops db) i = Some FILE_SCANNING"
  by (induction ops arbitrary: db) (simp_all add: file_step_scanning)

lemma scan_interrupted:
  assumes "get_file db i = Some f" "f_state f = FILE_QUARANTINED"
  shows "state_of (fst (scan_file L now later ScanInterrupted id i db)) i = Some FILE_SCANNING"
  using assms
  by (simp add: scan_file_def claim_scan_def file_terminal_def state_of_def get_write_file)

section \<open>Fingerprints\<close>

text \<open>No field of a validated start holds the separator \<open>\\x1f\<close>, so the material is read back
  uniquely.\<close>

lemma int_text_digits: "0 \<le> i \<Longrightarrow> 31 \<notin> set (int_text i)"
  using dec_digits [of "nat i"] by (auto simp: int_text_def)

lemma int_text_inject: "0 \<le> i \<Longrightarrow> 0 \<le> j \<Longrightarrow> int_text i = int_text j \<longleftrightarrow> i = j"
  by (auto simp: int_text_def)

lemma iso_date_no_sep: "31 \<notin> set (iso_date d)"
  by (cases d) (auto simp: iso_date_def dest!: dec_pad_digits [rule_format])

lemma fingerprint_material_inject:
  assumes "upload_start_schema L c" "upload_start_schema L d"
    and "fingerprint_material c = fingerprint_material d"
  shows "us_filename c = us_filename d \<and> us_category c = us_category d
    \<and> us_file_date c = us_file_date d \<and> us_size_bytes c = us_size_bytes d
    \<and> us_sha256 c = us_sha256 d \<and> us_content_type c = us_content_type d"
proof -
  have free: "31 \<notin> set (us_filename x)" "31 \<notin> set (us_category x)" "31 \<notin> set (int_text (us_size_bytes x))"
    "31 \<notin> set (us_sha256 x)" "0 \<le> us_size_bytes x" if "upload_start_schema L x" for x
    using that sha256_text_no_control [of "us_sha256 x"]
    by (auto simp: upload_start_schema_def nonblank_text_def control_def list_all_iff intro!: int_text_digits)
  note c = free [OF assms(1)] and d = free [OF assms(2)]
  from assms(3) have m: "us_filename c @ 31 # us_category c @ 31 # iso_date (us_file_date c) @ 31
      # int_text (us_size_bytes c) @ 31 # us_sha256 c @ 31 # us_content_type c
    = us_filename d @ 31 # us_category d @ 31 # iso_date (us_file_date d) @ 31
      # int_text (us_size_bytes d) @ 31 # us_sha256 d @ 31 # us_content_type d"
    by (simp add: fingerprint_material_def)
  note f1 = split_at_unique [OF c(1) d(1) m]
  note f2 = split_at_unique [OF c(2) d(2) f1 [THEN conjunct2]]
  note f3 = split_at_unique [OF iso_date_no_sep iso_date_no_sep f2 [THEN conjunct2]]
  note f4 = split_at_unique [OF c(3) d(3) f3 [THEN conjunct2]]
  note f5 = split_at_unique [OF c(4) d(4) f4 [THEN conjunct2]]
  from f1 f2 f3 f4 f5 iso_date_inject int_text_inject [OF c(5) d(5)] show ?thesis by blast
qed

section \<open>Object keys\<close>

lemma strip_segment_edge:
  "segment L v fb = t \<Longrightarrow> t \<noteq> u fb \<Longrightarrow> hd t \<noteq> 46 \<and> last t \<noteq> 46"
  using strip_chars_hd [of "\<lambda>c. c = 46 \<or> c = 95"] strip_chars_last [of "\<lambda>c. c = 46 \<or> c = 95"]
  by (auto simp: segment_def Let_def split: if_splits)

lemma segment_chars:
  assumes "c \<in> set (segment L v fb)" "c \<notin> set (u fb)"
  shows "isalnum L c \<or> c \<in> {46, 95, 45}"
proof -
  let ?kept = "map (\<lambda>c. if isalnum L c \<or> c \<in> {46, 95, 45} then c else 95)
    (filter (\<lambda>c. c \<ge> 32 \<and> c \<noteq> 127) (rev (takeWhile (\<lambda>c. c \<noteq> 47 \<and> c \<noteq> 92) (rev v))))"
  from assms have "c \<in> set (strip_chars (\<lambda>c. c = 46 \<or> c = 95) ?kept)"
    by (auto simp: segment_def Let_def split: if_splits)
  then have "c \<in> set ?kept" using strip_chars_subset by blast
  then show ?thesis by auto
qed

lemma segment_nonempty: "fb \<noteq> [] \<Longrightarrow> segment L v fb \<noteq> []"
  by (simp add: segment_def Let_def)

section \<open>An uninterrupted scan\<close>

text \<open>The row a scan of a quarantined file leaves, and the object it deletes.\<close>

lemma scan_outcome:
  assumes "get_file db i = Some f" "f_state f = FILE_QUARANTINED" "run \<noteq> ScanInterrupted"
  shows "get_file (fst (scan_file L now later run id i db)) i
      = Some (f\<lparr>f_state := fst (scan_result_of L (f_sha256 f) run), f_updated_at := later,
          f_scan_result := Some (snd (scan_result_of L (f_sha256 f) run))\<rparr>)"
    and "snd (scan_file L now later run id i db)
      = (if fst (scan_result_of L (f_sha256 f) run) = FILE_CLEAN then [] else [DeleteObject (f_object_key f)])"
proof -
  let ?o = "scan_result_of L (f_sha256 f) run"
  let ?db1 = "write_file now i (\<lambda>f. f\<lparr>f_state := FILE_SCANNING\<rparr>) db"
  have c: "claim_scan now i db = (Some (f_object_key f, f_sha256 f), ?db1)"
    using assms by (simp add: claim_scan_def file_terminal_def)
  have g1: "get_file ?db1 i = Some (f\<lparr>f_state := FILE_SCANNING, f_updated_at := now\<rparr>)"
    using assms(1) by (simp add: get_write_file)
  have "fst ?o \<in> {FILE_INFECTED, FILE_FAILED} \<longleftrightarrow> fst ?o \<noteq> FILE_CLEAN"
    using scan_result_terminal [of L "f_sha256 f" run] by (auto simp: file_terminal_def)
  then have s: "scan_file L now later run id i db
    = (write_file later i (\<lambda>f. f\<lparr>f_state := fst ?o, f_scan_result := Some (snd ?o)\<rparr>) ?db1,
       if fst ?o = FILE_CLEAN then [] else [DeleteObject (f_object_key f)])"
    using assms(3) c g1 by (simp add: scan_file_def finish_scan_def)
  show "get_file (fst (scan_file L now later run id i db)) i
      = Some (f\<lparr>f_state := fst ?o, f_updated_at := later, f_scan_result := Some (snd ?o)\<rparr>)"
    and "snd (scan_file L now later run id i db)
      = (if fst ?o = FILE_CLEAN then [] else [DeleteObject (f_object_key f)])"
    unfolding s using g1 by (simp_all add: get_write_file)
qed

end
