(* ===== verification/Examples.thy ===== *)
theory Examples
  imports Actors Json
begin

text \<open>
  Concrete values the witnesses evaluate on: a library record whose functions compute
  (a checksum in place of SHA-256, ASCII character tables, a password
  hasher that stores the password), an OWNER, a STAFF member, a project and the
  database that holds them.
\<close>

definition toy_sum :: "bytes \<Rightarrow> nat" where
  "toy_sum bs = sum_list bs mod 65521"

definition toy_digest :: "bytes \<Rightarrow> ustr" where
  "toy_digest bs = replicate 60 48 @ hex_digits 4 (toy_sum bs)"

lemma toy_digest_inject: "toy_digest a = toy_digest b \<longleftrightarrow> toy_sum a = toy_sum b"
proof -
  have "toy_sum bs < 16 ^ 4" for bs
    by (simp add: toy_sum_def less_trans [OF mod_less_divisor])
  then show ?thesis by (simp add: toy_digest_def hex_digits_inject del: power_numeral)
qed

definition sample_lib :: lib where
  "sample_lib = \<lparr>sha256_hex = toy_digest, uuid5_url = (\<lambda>s. foldl (\<lambda>a b. 131 * a + b) 5 s),
     nfc = id, nfkc = id, casefold = map (\<lambda>c. if 65 \<le> c \<and> c \<le> 90 then c + 32 else c),
     isalnum = (\<lambda>c. 48 \<le> c \<and> c \<le> 57 \<or> 65 \<le> c \<and> c \<le> 90 \<or> 97 \<le> c \<and> c \<le> 122),
     isspace = (\<lambda>c. c = 32 \<or> 9 \<le> c \<and> c \<le> 13), category_C = (\<lambda>c. c < 32), category_Cc = (\<lambda>c. c < 32),
     jwt_encode = (\<lambda>secret claims. u ''token''), jwt_decode = (\<lambda>now verify secret token. None),
     float_repr = (\<lambda>f. u ''0.0''), uuid_parse = (\<lambda>s. None),
     argon2_hash = (\<lambda>salt pw. u ''$argon2id$'' @ pw),
     argon2_verify = (\<lambda>h pw. Some (h = u ''$argon2id$'' @ pw)),
     argon2_needs_rehash = (\<lambda>h. False),
     pg_lower = map (\<lambda>c. if 65 \<le> c \<and> c \<le> 90 then c + 32 else c), collate_key = id,
     white_space = (\<lambda>c. c = 32 \<or> 9 \<le> c \<and> c \<le> 13)\<rparr>"

lemma sample_lib_simps [simp]:
  "sha256_hex sample_lib = toy_digest" "nfkc sample_lib = id"
  "isalnum sample_lib c = (48 \<le> c \<and> c \<le> 57 \<or> 65 \<le> c \<and> c \<le> 90 \<or> 97 \<le> c \<and> c \<le> 122)"
  "isspace sample_lib c = (c = 32 \<or> 9 \<le> c \<and> c \<le> 13)" "category_C sample_lib c = (c < 32)"
  "category_Cc sample_lib c = (c < 32)"
  "argon2_hash sample_lib k pw = u ''$argon2id$'' @ pw"
  "argon2_verify sample_lib h pw = Some (h = u ''$argon2id$'' @ pw)"
  "argon2_needs_rehash sample_lib h = False" "jwt_decode sample_lib t v s x = None"
  by (simp_all add: sample_lib_def)

definition owner_row :: user where
  "owner_row = \<lparr>u_id = 11, u_username = u ''boss'', u_display_name = u ''Boss'',
     u_password_hash = u ''$argon2id$correct-horse-1'', u_must_change_password = False,
     u_password_changed_at = 0, u_failed_login_count = 0, u_locked_until = None,
     u_role = OWNER, u_status = USER_ACTIVE, u_last_login_at = None\<rparr>"

definition staff_row :: user where
  "staff_row = \<lparr>u_id = 12, u_username = u ''anna'', u_display_name = u ''Anna'',
     u_password_hash = u ''$argon2id$staff-secret-22'', u_must_change_password = False,
     u_password_changed_at = 0, u_failed_login_count = 0, u_locked_until = None,
     u_role = STAFF, u_status = USER_ACTIVE, u_last_login_at = None\<rparr>"

definition owner_actor :: actor where
  "owner_actor = \<lparr>actor_kind = ''user'', actor_subject = 11, actor_role = Some OWNER,
     actor_projects = [], actor_scopes = []\<rparr>"

definition staff_actor :: actor where
  "staff_actor = \<lparr>actor_kind = ''user'', actor_subject = 12, actor_role = Some STAFF,
     actor_projects = [10], actor_scopes = []\<rparr>"

definition device_actor :: actor where
  "device_actor = \<lparr>actor_kind = ''device'', actor_subject = 20, actor_role = None,
     actor_projects = [10], actor_scopes =
       [''imports:create'', ''imports:read-own'', ''imports:submit'', ''imports:upload'']\<rparr>"

definition project_row :: project where
  "project_row = \<lparr>p_id = 10, p_name = u ''Alpha'', p_is_test = False, p_status = PROJECT_ACTIVE\<rparr>"

definition sample_db :: db where
  "sample_db = empty_db\<lparr>users := [owner_row, staff_row], projects := [project_row],
     members := [\<lparr>pm_project_id = 10, pm_user_id = 12\<rparr>]\<rparr>"

definition sample_file :: "file_state \<Rightarrow> file_row" where
  "sample_file s = \<lparr>f_id = 30, f_project_id = 10, f_filename = u ''a.txt'', f_category = u ''doc'',
     f_file_date = (2024, 1, 2), f_object_key = u ''k'', f_size_bytes = 3,
     f_sha256 = toy_digest [1, 2, 3], f_state = s, f_uploader_id = 12, f_uploader_kind = ''user'',
     f_content_type = u ''text/plain'', f_scan_result = None, f_metadata_fingerprint = None,
     f_idempotency_key = Some (u ''key''), f_multipart_id = Some (u ''m''), f_created_at = 0,
     f_updated_at = 0\<rparr>"

definition file_db :: "file_state \<Rightarrow> db" where
  "file_db s = sample_db\<lparr>files := [sample_file s]\<rparr>"

lemma get_file_db [simp]: "get_file (file_db s) 30 = Some (sample_file s)"
  by (simp add: get_file_def file_db_def sample_file_def)

lemma sample_file_fields [simp]:
  "f_state (sample_file s) = s" "f_id (sample_file s) = 30" "f_project_id (sample_file s) = 10"
  "f_object_key (sample_file s) = u ''k''" "f_sha256 (sample_file s) = toy_digest [1, 2, 3]"
  "f_size_bytes (sample_file s) = 3" "f_multipart_id (sample_file s) = Some (u ''m'')"
  "f_created_at (sample_file s) = 0" "f_scan_result (sample_file s) = None"
  by (simp_all add: sample_file_def)

end
