(* ===== verification/Files_Properties.thy ===== *)
theory Files_Properties
  imports Files_Proofs Examples
begin

text \<open>
  The properties of the file lifecycle, stated over the operations themselves, each
  with the concrete run that shows its hypotheses can hold.
\<close>

section \<open>Lifecycle\<close>

text \<open>C29. Whatever uploads, completions, scans and maintenance runs follow, a file that
  is CLEAN, INFECTED or FAILED keeps that state and its scan result, and every file keeps
  its project, name, digest, size and object key.\<close>

theorem terminal_file_keeps_result:
  assumes "get_file db i = Some f" "file_terminal (f_state f)"
  shows "\<exists>g. get_file (fold (file_step L) ops db) i = Some g \<and> f_state g = f_state f
    \<and> f_scan_result g = f_scan_result f \<and> f_object_key g = f_object_key f
    \<and> f_sha256 g = f_sha256 f \<and> f_size_bytes g = f_size_bytes f \<and> f_project_id g = f_project_id f"
proof -
  from file_run_evolves [of db L ops] assms(1) obtain g where
    g: "get_file (fold (file_step L) ops db) i = Some g" "row_evolves f g"
    unfolding files_evolve_def by blast
  with assms(2) have "f_state g = f_state f" "f_scan_result g = f_scan_result f"
    using terminal_absorbing by (auto simp: row_evolves_def)
  moreover have "file_identity g = file_identity f" using g(2) by (simp add: row_evolves_def)
  ultimately show ?thesis using g(1) identity_fields [of g f] by auto
qed

lemma terminal_file_keeps_result_witness:
  "\<exists>g. get_file (fold (file_step sample_lib)
      [ScanFile 5 6 (Scanned [1, 2, 3] VERDICT_CLEAN) 30, RecoverStale 9 (99 * day) 10]
      (file_db FILE_INFECTED)) 30 = Some g \<and> f_state g = FILE_INFECTED"
  using terminal_file_keeps_result [of "file_db FILE_INFECTED" 30 "sample_file FILE_INFECTED" sample_lib
    "[ScanFile 5 6 (Scanned [1, 2, 3] VERDICT_CLEAN) 30, RecoverStale 9 (99 * day) 10]"]
  by (auto simp: file_terminal_def)

text \<open>C30. A scan of a quarantined file that is not interrupted decides it: CLEAN exactly when
  the scanner pulled bytes with the declared digest and called them clean, INFECTED with a
  safe signature when it reported one, FAILED on a digest mismatch, a scanner error or any
  exception, and the stored object is deleted exactly when the file did not pass.\<close>

theorem scan_decides:
  assumes "get_file db i = Some f" "f_state f = FILE_QUARANTINED" "run \<noteq> ScanInterrupted"
  shows "\<exists>g. get_file (fst (scan_file L now later run id i db)) i = Some g
    \<and> (f_state g, f_scan_result g) = (case run of
        Scanned pulled verdict \<Rightarrow>
          if sha256_hex L pulled \<noteq> f_sha256 f then (FILE_FAILED, Some (u ''HASH_MISMATCH''))
          else (case verdict of VERDICT_CLEAN \<Rightarrow> (FILE_CLEAN, Some (u ''CLEAN''))
            | VERDICT_INFECTED s \<Rightarrow> (FILE_INFECTED, Some (safe_signature s))
            | VERDICT_ERROR \<Rightarrow> (FILE_FAILED, Some (u ''SCAN_FAILED'')))
      | _ \<Rightarrow> (FILE_FAILED, Some (u ''SCAN_FAILED'')))
    \<and> snd (scan_file L now later run id i db)
      = (if f_state g = FILE_CLEAN then [] else [DeleteObject (f_object_key f)])"
  using scan_outcome [OF assms, of L now later] scan_result_terminal [of L "f_sha256 f" run]
  by (auto simp: scan_result_of_def file_terminal_def split: scan_run.splits scan_verdict.splits)

lemma scan_decides_witness:
  "\<exists>g. get_file (fst (scan_file sample_lib 5 6 (Scanned [1, 2, 3] (VERDICT_INFECTED (Some (u ''Eicar!''))))
      id 30 (file_db FILE_QUARANTINED))) 30 = Some g \<and> f_state g = FILE_INFECTED
    \<and> f_scan_result g = Some (u ''Eicar_'')"
  using scan_decides [of "file_db FILE_QUARANTINED" 30 "sample_file FILE_QUARANTINED"
    "Scanned [1, 2, 3] (VERDICT_INFECTED (Some (u ''Eicar!'')))" sample_lib 5 6]
  by (auto simp: safe_signature_def MAX_SIGNATURE_LENGTH_def u_def signature_char_def)

text \<open>The scan result of an infected file is safe to store whatever the scanner said:
  between 1 and 128 characters, all of them from the allowed class.\<close>

theorem signature_is_safe:
  "1 \<le> length (safe_signature s) \<and> length (safe_signature s) \<le> 128
   \<and> list_all signature_char (safe_signature s)"
  by (rule safe_signature_safe)

text \<open>C35. A scan delivery that is interrupted between its two transactions leaves the file
  SCANNING, and no later upload, completion, scan delivery or maintenance run ever moves it:
  the redelivered scan and the stale recovery both skip SCANNING files.\<close>

theorem interrupted_scan_is_stranded:
  assumes "get_file db i = Some f" "f_state f = FILE_QUARANTINED"
  shows "state_of (fold (file_step L) ops (fst (scan_file L now later ScanInterrupted id i db))) i
    = Some FILE_SCANNING"
  by (rule file_run_scanning) (rule scan_interrupted [OF assms])

lemma interrupted_scan_is_stranded_witness:
  "state_of (fold (file_step sample_lib)
      [ScanFile 7 8 (Scanned [1, 2, 3] VERDICT_CLEAN) 30, RecoverStale 9 (99 * day) 10]
      (fst (scan_file sample_lib 5 6 ScanInterrupted id 30 (file_db FILE_QUARANTINED)))) 30
    = Some FILE_SCANNING"
  by (rule interrupted_scan_is_stranded [of _ _ "sample_file FILE_QUARANTINED"]) simp_all

section \<open>Download\<close>

text \<open>C36. A download link is issued only for a CLEAN file, only to the OWNER or to a STAFF
  member of the file's project, and it is the 60 second link of exactly that file's object.\<close>

theorem download_only_clean:
  assumes "presign_download st a i db = Inr url"
  shows "\<exists>f. get_file db i = Some f \<and> f_state f = FILE_CLEAN \<and> may_access_project a (f_project_id f)
    \<and> st_presign_get st (f_object_key f) 60 = Inr url"
  using assms
  by (auto simp: presign_download_def require_project_access_iff ensure_downloadable_def
      split: option.splits if_splits)

definition sample_storage :: storage where
  "sample_storage = \<lparr>st_list = (\<lambda>k. Some []), st_create = (\<lambda>k ct. Some (u ''m'')),
     st_complete = (\<lambda>k m ps. Some 3), st_presign_part = (\<lambda>k m n t. Inr (u ''part'')),
     st_presign_get = (\<lambda>k t. Inr (u ''link''))\<rparr>"

lemma download_only_clean_witness:
  "presign_download sample_storage staff_actor 30 (file_db FILE_CLEAN) = Inr (u ''link'')
   \<and> (\<exists>f. get_file (file_db FILE_CLEAN) 30 = Some f \<and> f_state f = FILE_CLEAN)"
proof -
  have e: "presign_download sample_storage staff_actor 30 (file_db FILE_CLEAN) = Inr (u ''link'')"
    by (simp add: presign_download_def require_project_access_def staff_actor_def
        ensure_downloadable_def sample_storage_def)
  with download_only_clean [OF e] show ?thesis by blast
qed

text \<open>Every other outcome of a download is the documented error, in the order of the code:
  an unknown file, a caller without access, then the state of the file.\<close>

theorem download_refusals:
  "presign_download st a i db = (case get_file db i of
       None \<Rightarrow> Inl (DomainError ''FILE_NOT_FOUND'' ''File not found'' 404)
     | Some f \<Rightarrow> if \<not> may_access_project a (f_project_id f)
         then Inl (DomainError ''PROJECT_FORBIDDEN'' ''You cannot access this project'' 403)
         else (case f_state f of
             FILE_CLEAN \<Rightarrow> st_presign_get st (f_object_key f) 60
           | FILE_INFECTED \<Rightarrow> Inl (DomainError ''FILE_INFECTED'' ''File did not pass security scanning'' 409)
           | FILE_FAILED \<Rightarrow> Inl (DomainError ''FILE_SCAN_FAILED'' ''File scanning did not complete'' 409)
           | _ \<Rightarrow> Inl (DomainError ''FILE_NOT_READY'' ''File is not available for download'' 409)))"
  by (simp add: presign_download_def require_project_access_iff ensure_downloadable_def error_defs
      split: option.split file_state.split)

section \<open>Uploads\<close>

text \<open>Upload start is idempotent: once a start succeeded, repeating it with the same key
  and metadata at any later moment creates no row and returns the same upload, or asks the
  caller to retry, whatever other operations ran in between and even when the repeat itself
  races with others.\<close>

theorem start_upload_idempotent:
  assumes "start_upload L st now i race race2 a c key db = (Inr f, db1, calls)"
    and "\<And>d. files_evolve d (race2 d)" "files_evolve db1 db2"
    and "start_upload L st2 now2 i2 race3 id a c key db2 = (r, db3, calls2)"
  shows "map f_id (files db3) = map f_id (files db2)
    \<and> (r = Inl file_provisioning_pending_error \<or> (\<exists>g. r = Inr g \<and> f_id g = f_id f))"
proof -
  from assms(1) have a: "may_access_project a (us_project_id c)"
    by (auto simp: start_upload_def require_project_access_iff split: if_splits)
  from assms(1,4) a have
    "start_upload_row L st now i race race2 a c key db = (Inr f, db1, calls)"
    "start_upload_row L st2 now2 i2 race3 id a c key db2 = (r, db3, calls2)"
    by (simp_all add: start_upload_def require_project_access_iff)
  from start_row_replay [OF this(1) assms(2,3) this(2)] show ?thesis .
qed

definition sample_start :: upload_start where
  "sample_start = \<lparr>us_project_id = 10, us_filename = u ''a.txt'', us_size_bytes = 3,
     us_sha256 = toy_digest [1, 2, 3], us_category = u ''doc'', us_file_date = (2024, 1, 2),
     us_content_type = u ''text/plain''\<rparr>"

definition sample_started :: "file_row result \<times> db \<times> call list" where
  "sample_started = start_upload sample_lib sample_storage 5 31 id id owner_actor sample_start (u ''key'') sample_db"

lemma toy_digest_sha256: "sha256_text (toy_digest bs)"
proof -
  have "list_all lower_hex (hex_digits k n)" for k n
    by (induction k arbitrary: n) (auto simp: hex_char_def lower_hex_def)
  then show ?thesis by (simp add: toy_digest_def sha256_text_def lower_hex_def list_all_iff)
qed

lemma sample_fingerprint: "\<exists>fp. fingerprint sample_lib sample_start = Some fp \<and> sha256_text fp"
proof -
  have "\<not> list_ex surrogate (fingerprint_material sample_start)"
    using dec_digits hex_digits_ascii [of 4]
    by (auto simp: list_all_iff fingerprint_material_def sample_start_def toy_digest_def u_def surrogate_def
        iso_date_def dec_pad_def int_text_def list_ex_iff hex_char_def Let_def) fastforce+
  then show ?thesis
    using toy_digest_sha256 by (auto simp: fingerprint_def utf8_encode_def)
qed

lemma sample_started_runs:
  "case sample_started of (Inr f, db1, calls) \<Rightarrow> f_id f = 31 | _ \<Rightarrow> False"
proof -
  obtain fp where fp: "fingerprint sample_lib sample_start = Some fp" "sha256_text fp"
    using sample_fingerprint by blast
  have key: "object_key sample_lib sample_start 31 \<noteq> []" by (simp add: object_key_def u_def)
  have ok: "idempotency_key_ok (u ''key'')" by (simp add: idempotency_key_ok_def printable_def u_def)
  show ?thesis
    using fp key ok toy_digest_sha256
    by (simp add: sample_started_def start_upload_def require_project_access_def owner_actor_def
        start_upload_row_def Let_def file_by_idempotency_def sample_db_def empty_db_def
        insert_file_def file_checks_def get_file_def get_project_def project_row_def
        provision_upload_def sample_storage_def write_file_def sample_start_def)
qed

lemma sample_started_ok: "\<exists>f db1 calls. sample_started = (Inr f, db1, calls)"
  using sample_started_runs by (auto split: prod.splits sum.splits)

lemma start_upload_idempotent_witness:
  "\<exists>f db1 calls r db3 calls2. sample_started = (Inr f, db1, calls)
    \<and> start_upload sample_lib sample_storage 6 32 id id owner_actor sample_start (u ''key'') db1
        = (r, db3, calls2) \<and> map f_id (files db3) = map f_id (files db1)"
proof -
  obtain f db1 calls where s: "sample_started = (Inr f, db1, calls)" using sample_started_ok by blast
  obtain r db3 calls2 where t: "start_upload sample_lib sample_storage 6 32 id id owner_actor
      sample_start (u ''key'') db1 = (r, db3, calls2)" by (metis prod_cases3)
  have "map f_id (files db3) = map f_id (files db1)"
    using start_upload_idempotent [OF s [unfolded sample_started_def] _ files_evolve_refl t] by simp
  with s t show ?thesis by blast
qed

text \<open>Reusing an idempotency key for different metadata is refused with 409 and changes
  nothing, at any later moment.\<close>

theorem start_upload_conflict:
  assumes "start_upload L st now i race race2 a c key db = (Inr f, db1, calls)"
    and "\<And>d. files_evolve d (race2 d)" "files_evolve db1 db2"
    and "us_project_id c' = us_project_id c" "fingerprint L c' = Some fp'" "fingerprint L c \<noteq> Some fp'"
  shows "start_upload L st2 now2 i2 race3 race4 a c' key db2
    = (Inl (DomainError ''FILE_UPLOAD_CONFLICT'' ''Upload metadata conflicts'' 409), db2, [])"
proof -
  from assms(1) have a: "may_access_project a (us_project_id c)"
    by (auto simp: start_upload_def require_project_access_iff split: if_splits)
  with assms(1) have "start_upload_row L st now i race race2 a c key db = (Inr f, db1, calls)"
    by (simp add: start_upload_def require_project_access_iff)
  from start_row_conflict [OF this assms(2-6)] a assms(4) show ?thesis
    by (simp add: start_upload_def require_project_access_iff upload_conflict_def conflict_error_def)
qed

definition other_start :: upload_start where
  "other_start = sample_start\<lparr>us_size_bytes := 4\<rparr>"

lemma sample_sums: "toy_sum (concat (map utf8_char (fingerprint_material sample_start)))
    \<noteq> toy_sum (concat (map utf8_char (fingerprint_material other_start)))"
proof -
  define pre where "pre = u ''a.txt'' @ [31] @ u ''doc'' @ [31] @ iso_date (2024, 1, 2) @ [31]"
  define post where "post = [31] @ toy_digest [1, 2, 3] @ [31] @ u ''text/plain''"
  let ?n = "sum_list (concat (map utf8_char pre)) + sum_list (concat (map utf8_char post))"
  have "dec 3 = [51]" "dec 4 = [52]" by (subst dec.simps, simp)+
  then have t: "int_text 3 = [51]" "int_text 4 = [52]" by (simp_all add: int_text_def)
  have a: "fingerprint_material sample_start = pre @ [51] @ post"
    "fingerprint_material other_start = pre @ [52] @ post"
    unfolding fingerprint_material_def sample_start_def other_start_def pre_def post_def
    by (simp_all only: upload_start.simps t join.simps append_assoc append_Cons append_Nil)
  have "k mod 65521 \<noteq> Suc k mod 65521" for k :: nat
    by (auto simp: mod_Suc)
  from this [of "?n + 51"] show ?thesis
    unfolding a toy_sum_def by (simp add: utf8_char_def ac_simps)
qed

lemma start_upload_conflict_witness:
  "\<exists>f db1 calls. sample_started = (Inr f, db1, calls)
    \<and> start_upload sample_lib sample_storage 6 32 id id owner_actor other_start (u ''key'') db1
        = (Inl (DomainError ''FILE_UPLOAD_CONFLICT'' ''Upload metadata conflicts'' 409), db1, [])"
proof -
  obtain f db1 calls where s: "sample_started = (Inr f, db1, calls)" using sample_started_ok by blast
  have ns: "\<not> list_ex surrogate (fingerprint_material sample_start)"
    "\<not> list_ex surrogate (fingerprint_material other_start)"
    using dec_digits hex_digits_ascii [of 4]
    by (auto simp: list_all_iff fingerprint_material_def sample_start_def other_start_def toy_digest_def
        u_def surrogate_def iso_date_def dec_pad_def int_text_def list_ex_iff hex_char_def Let_def) fastforce+
  then obtain x y where xy: "fingerprint sample_lib sample_start = Some x"
    "fingerprint sample_lib other_start = Some y" by (auto simp: fingerprint_def utf8_encode_def)
  have "x \<noteq> y"
    using xy ns sample_sums by (auto simp: fingerprint_def utf8_encode_def toy_digest_inject)
  then have "start_upload sample_lib sample_storage 6 32 id id owner_actor other_start (u ''key'') db1
      = (Inl (DomainError ''FILE_UPLOAD_CONFLICT'' ''Upload metadata conflicts'' 409), db1, [])"
    by (intro start_upload_conflict [OF s [unfolded sample_started_def] _ files_evolve_refl _ xy(2)])
      (simp_all add: xy(1), simp add: other_start_def)
  with s show ?thesis by blast
qed

text \<open>The fingerprint identifies the metadata: two validated starts with the same
  fingerprint agree on every field it covers, or SHA-256 has a collision; the field
  separator cannot be forged through a name.\<close>

theorem fingerprint_identifies:
  assumes "upload_start_schema L c" "upload_start_schema L d"
    and "fingerprint L c = Some fp" "fingerprint L d = Some fp"
    and "\<forall>x \<in> set (fingerprint_material c @ fingerprint_material d). x < 1114112"
  shows "us_filename c = us_filename d \<and> us_category c = us_category d
    \<and> us_file_date c = us_file_date d \<and> us_size_bytes c = us_size_bytes d
    \<and> us_sha256 c = us_sha256 d \<and> us_content_type c = us_content_type d
    \<or> (\<exists>x y. x \<noteq> y \<and> sha256_hex L x = sha256_hex L y)"
proof (cases "fingerprint_material c = fingerprint_material d")
  case True
  with fingerprint_material_inject [OF assms(1,2)] show ?thesis by blast
next
  case False
  let ?b = "\<lambda>c. concat (map utf8_char (fingerprint_material c))"
  from False assms(5) have "?b c \<noteq> ?b d"
    using utf8_concat_inject [of "fingerprint_material c" "fingerprint_material d"] by auto
  moreover from assms(3,4) have "sha256_hex L (?b c) = sha256_hex L (?b d)"
    by (auto simp: fingerprint_def utf8_encode_def split: if_splits)
  ultimately show ?thesis by blast
qed

lemma sample_start_schema: "upload_start_schema sample_lib sample_start"
  by (simp add: upload_start_schema_def sample_start_def toy_digest_sha256 nonblank_text_def
      strip_chars_def control_def mime_type_def mime_char_def u_def)

lemma fingerprint_identifies_witness:
  "\<exists>fp. fingerprint sample_lib sample_start = Some fp
    \<and> (us_filename sample_start = us_filename sample_start \<and> us_category sample_start = u ''doc''
      \<or> (\<exists>x y. x \<noteq> y \<and> sha256_hex sample_lib x = sha256_hex sample_lib y))"
proof -
  obtain fp where fp: "fingerprint sample_lib sample_start = Some fp" using sample_fingerprint by blast
  have "\<forall>x \<in> set (fingerprint_material sample_start @ fingerprint_material sample_start). x < 1114112"
    using dec_digits hex_digits_ascii [of 4]
    by (auto simp: list_all_iff fingerprint_material_def sample_start_def toy_digest_def u_def
        iso_date_def dec_pad_def int_text_def hex_char_def Let_def) fastforce+
  from fingerprint_identifies [OF sample_start_schema sample_start_schema fp fp this] fp show ?thesis
    by (auto simp: sample_start_def)
qed

text \<open>C34. Completion moves an upload to QUARANTINED exactly when the assembled object has the
  declared size, and only then enqueues its scan, once; with another size the upload is FAILED
  and its object deleted; a second completion returns the row and calls nothing.\<close>

theorem completion_outcomes:
  assumes "get_file db i = Some f" "f_multipart_id f = Some m" "distinct (map cp_number parts)"
    and "authorize_upload_operation dev a (f_project_id f) = Inr ()" "f_state f = FILE_UPLOADING"
    and "st_complete st (f_object_key f) m (sort_key cp_number parts) = Some n"
  shows "\<exists>r db' calls g. complete_upload st dev now aid a i parts rid db = (r, db', calls)
    \<and> get_file db' i = Some g
    \<and> (if n = f_size_bytes f
       then \<not> isl r \<and> f_state g = FILE_QUARANTINED \<and> filter (\<lambda>c. c = EnqueueScan i i) calls = [EnqueueScan i i]
         \<and> complete_upload st dev now aid a i parts rid db' = (Inr g, db', [])
       else isl r \<and> f_state g = FILE_FAILED \<and> DeleteObject (f_object_key f) \<in> set calls
         \<and> EnqueueScan i i \<notin> set calls)"
proof -
  obtain r db' calls where e: "complete_upload st dev now aid a i parts rid db = (r, db', calls)"
    by (metis prod_cases3)
  from assms(1) have fi: "f_id f = i" by (rule get_rows_id)
  show ?thesis
    using e
  proof (cases rule: complete_cases)
    case 1
    with e assms show ?thesis
      by (auto simp: complete_upload_def Let_def completion_audit_def insert_audit_def
          split: option.splits if_splits)
  next
    case (3 f' m' n')
    with assms have "get_file db' i = Some (f\<lparr>f_state := FILE_FAILED, f_updated_at := now,
        f_scan_result := Some (u ''SIZE_MISMATCH'')\<rparr>)"
      by (simp add: get_write_file)
    with 3 assms e show ?thesis by auto
  next
    case (4 f' m')
    let ?g = "f\<lparr>f_state := FILE_QUARANTINED, f_updated_at := now\<rparr>"
    have "get_file db' i = get_file (write_file now i (\<lambda>f. f\<lparr>f_state := FILE_QUARANTINED\<rparr>) db) i"
      using 4(8) by (auto simp: only_log_def)
    then have g: "get_file db' i = Some ?g" using assms(1) by (simp add: get_write_file)
    then have "complete_upload st dev now aid a i parts rid db' = (Inr ?g, db', [])"
      using assms(4) by (simp add: complete_upload_def)
    with 4 assms e g fi show ?thesis by (auto simp: g)
  qed (use assms in simp)
qed

lemma completion_outcomes_witness:
  "\<exists>r db' calls g. complete_upload sample_storage False 5 90 owner_actor 30
      [\<lparr>cp_number = 1, cp_etag = u ''e''\<rparr>] None (file_db FILE_UPLOADING) = (r, db', calls)
    \<and> get_file db' 30 = Some g \<and> f_state g = FILE_QUARANTINED"
  using completion_outcomes [of "file_db FILE_UPLOADING" 30 "sample_file FILE_UPLOADING" "u ''m''"
      "[\<lparr>cp_number = 1, cp_etag = u ''e''\<rparr>]" False owner_actor sample_storage 3 5 90 None]
  by (auto simp: authorize_upload_operation_def require_project_access_def owner_actor_def
      sample_storage_def)

section \<open>Maintenance\<close>

text \<open>A maintenance run whose limit covers its backlog leaves no abandoned upload: no row
  that is UPLOADING and older than 24 hours remains, an abandoned one has become FAILED, every
  other row is untouched, and each QUARANTINED file idle for 15 minutes is enqueued again.\<close>

theorem maintenance_recovers:
  assumes "recover_stale_uploads now reference limit db = (Inr n, db', calls)"
    and "distinct (map f_id (files db))"
    and "length (filter (stale_upload (reference - 24 * hour)) (files db)) \<le> nat limit"
    and "length (filter (\<lambda>f. f_state f = FILE_QUARANTINED) (files db)) \<le> nat limit"
  shows "(\<forall>g \<in> set (files db'). \<not> stale_upload (reference - 24 * hour) g)
    \<and> (\<forall>f \<in> set (files db). \<exists>g. get_file db' (f_id f) = Some g \<and>
        (if stale_upload (reference - 24 * hour) f then f_state g = FILE_FAILED else g = f))
    \<and> (\<forall>f \<in> set (files db). f_state f = FILE_QUARANTINED \<and> f_updated_at f < reference - 15 * minute
        \<longrightarrow> EnqueueScan (f_id f) (f_id f) \<in> set calls)"
proof -
  let ?cut = "reference - EXPIRY_AGE" and ?cut2 = "reference - SCAN_RETRY_AGE"
  let ?cand = "expire_candidates ?cut (nat limit) db"
  have age: "?cut = reference - 24 * hour" "?cut2 = reference - 15 * minute"
    by (simp_all add: EXPIRY_AGE_def SCAN_RETRY_AGE_def)
  obtain m db1 c1 where e: "expire_all now ?cut ?cand db = (m, db1, c1)" by (metis prod_cases3)
  from assms(1) e have r: "db' = db1"
    "calls = c1 @ map (\<lambda>i. EnqueueScan i i) (redispatch_candidates ?cut2 (nat limit) db1)"
    by (auto simp: recover_stale_uploads_def Let_def split: if_splits)
  have cand: "set ?cand = f_id ` {f \<in> set (files db). stale_upload ?cut f}"
    using assms(3) age by (intro expire_candidates_all) simp
  have row: "\<exists>g. get_file db' (f_id f) = Some g \<and>
      (if stale_upload ?cut f then f_state g = FILE_FAILED else g = f)" if f: "f \<in> set (files db)" for f
  proof -
    from file_table.get_of_member [OF assms(2) f] have "get_file db (f_id f) = Some f" .
    from expire_all_row [OF e this] r cand f show ?thesis by (auto split: if_splits)
  qed
  have ids: "map f_id (files db') = map f_id (files db)" using expire_all_ids [OF e] r by simp
  with assms(2) have dist: "distinct (map f_id (files db'))" by simp
  have "\<not> stale_upload ?cut g" if g: "g \<in> set (files db')" for g
  proof -
    from same_ids_row [OF ids g] obtain f where f: "f \<in> set (files db)" "f_id f = f_id g" by blast
    with row [OF f(1)] file_table.get_of_member [OF dist g]
    have "if stale_upload ?cut f then f_state g = FILE_FAILED else g = f" by simp
    then show ?thesis by (cases "stale_upload ?cut f") (simp_all add: stale_upload_def)
  qed
  moreover have "EnqueueScan (f_id f) (f_id f) \<in> set calls"
    if f: "f \<in> set (files db)" "f_state f = FILE_QUARANTINED" "f_updated_at f < ?cut2" for f
  proof -
    have "length (filter (\<lambda>f. f_state f = FILE_QUARANTINED \<and> f_updated_at f < ?cut2) (files db')) \<le> nat limit"
      using quarantined_backlog [OF assms(2) ids row] assms(4) by (rule order_trans)
    moreover from row [OF f(1)] f(2) have "f \<in> set (files db')"
      by (auto simp: stale_upload_def dest: file_table.get_member)
    ultimately show ?thesis using r f by (auto simp: redispatch_candidates_def image_iff)
  qed
  ultimately show ?thesis using row age by auto
qed

definition stale_db :: db where
  "stale_db = sample_db\<lparr>files := [sample_file FILE_UPLOADING,
     (sample_file FILE_QUARANTINED)\<lparr>f_id := 31\<rparr>]\<rparr>"

lemma maintenance_recovers_witness:
  "\<exists>n db' calls. recover_stale_uploads 7 (2 * day) 10 stale_db = (Inr n, db', calls)
    \<and> (\<forall>g \<in> set (files db'). \<not> stale_upload (2 * day - 24 * hour) g)
    \<and> EnqueueScan 31 31 \<in> set calls"
proof -
  obtain r db' calls where e: "recover_stale_uploads 7 (2 * day) 10 stale_db = (r, db', calls)"
    by (metis prod_cases3)
  then obtain n where "r = Inr n" by (auto simp: recover_stale_uploads_def Let_def split: prod.splits)
  with e have e: "recover_stale_uploads 7 (2 * day) 10 stale_db = (Inr n, db', calls)" by simp
  note defs = stale_db_def sample_file_def stale_upload_def sample_db_def empty_db_def
  have h: "distinct (map f_id (files stale_db))"
    "length (filter (stale_upload (2 * day - 24 * hour)) (files stale_db)) \<le> nat 10"
    "length (filter (\<lambda>f. f_state f = FILE_QUARANTINED) (files stale_db)) \<le> nat 10"
    by (simp_all add: defs)
  note m = maintenance_recovers [OF e h]
  have q: "(sample_file FILE_QUARANTINED)\<lparr>f_id := 31\<rparr> \<in> set (files stale_db)" by (simp add: stale_db_def)
  from m [THEN conjunct2, THEN conjunct2, rule_format, OF q] have "EnqueueScan 31 31 \<in> set calls"
    by (simp add: sample_file_def)
  moreover from m have "\<forall>g \<in> set (files db'). \<not> stale_upload (2 * day - 24 * hour) g" by blast
  ultimately have "\<forall>g \<in> set (files db'). \<not> stale_upload (2 * day - 24 * hour) g"
    "EnqueueScan 31 31 \<in> set calls" by blast+
  with e show ?thesis by blast
qed

end
