(* ===== verification/Auth.thy ===== *)
theory Auth
  imports Security Audit_Log
begin

text \<open>
  \<open>modules/auth/service.py\<close>: password login with its lockout, the rotating browser
  sessions, and the routes of \<open>router.py\<close> that decide what is committed.  An operation
  of the service takes the request's transaction state and returns the state after its
  flushes, also when it raises; the route says whether that state is committed.
  Clock readings and random values are arguments.
\<close>

definition MAX_LOGIN_FAILURES :: nat where "MAX_LOGIN_FAILURES = 5"
definition LOGIN_LOCK_DURATION :: time where "LOGIN_LOCK_DURATION = 15 * minute"

record session_pair =
  sp_access_token :: ustr
  sp_refresh_token :: ustr
  sp_access_expires_at :: time
  sp_refresh_expires_at :: time

record completed_login =
  cl_pair :: session_pair
  cl_user :: user

text \<open>What one session issue draws: clock, opaque token, session id, token id.\<close>

record session_draw =
  sd_now :: time
  sd_raw_refresh :: ustr
  sd_session_id :: uuid
  sd_jti :: uuid

section \<open>Sessions\<close>

definition user_by_username :: "db \<Rightarrow> ustr \<Rightarrow> user option" where
  "user_by_username db username = find (\<lambda>x. u_username x = username) (users db)"

definition revoke_all_for_user :: "uuid \<Rightarrow> time \<Rightarrow> db \<Rightarrow> db" where
  "revoke_all_for_user user_id at db = db\<lparr>sessions :=
     update_rows (\<lambda>s. s_user_id s = Some user_id \<and> s_revoked_at s = None)
       (\<lambda>s. s\<lparr>s_revoked_at := Some at\<rparr>) (sessions db)\<rparr>"

definition issue_session ::
  "lib \<Rightarrow> ustr \<Rightarrow> session_draw \<Rightarrow> user \<Rightarrow> db \<Rightarrow> session_pair result \<times> db" where
  "issue_session L secret dr user db =
     (let now = sd_now dr; refresh_expires_at = now + 14 * day in
      case hash_token L (sd_raw_refresh dr) of
        None \<Rightarrow> (Inl (PyError ''UnicodeEncodeError''), db)
      | Some h \<Rightarrow>
        (let auth_session = \<lparr>s_id = sd_session_id dr, s_kind = SESSION_USER,
              s_user_id = Some (u_id user), s_device_id = None, s_access_jti = u ''pending'',
              s_refresh_token_hash = h, s_access_expires_at = now,
              s_refresh_expires_at = refresh_expires_at, s_refresh_used_at = None,
              s_revoked_at = None, s_created_at = now\<rparr>;
            db1 = db\<lparr>sessions := sessions db @ [auth_session]\<rparr> in
         case issue_access_token L secret now (sd_jti dr) (u_id user) (role_text (u_role user))
                (s_id auth_session) of
           Inl e \<Rightarrow> (Inl e, db1)
         | Inr (access_token, access_expires_at) \<Rightarrow>
           (case decode_access_token L now secret access_token of
              Inl e \<Rightarrow> (Inl e, db1)
            | Inr claims \<Rightarrow>
              (Inr \<lparr>sp_access_token = access_token, sp_refresh_token = sd_raw_refresh dr,
                    sp_access_expires_at = access_expires_at,
                    sp_refresh_expires_at = refresh_expires_at\<rparr>,
               db\<lparr>sessions := sessions db @ [auth_session\<lparr>
                    s_access_jti := (case claim_text claims ''jti'' of Some j \<Rightarrow> j | None \<Rightarrow> []),
                    s_access_expires_at := access_expires_at\<rparr>]\<rparr>))))"

section \<open>Login\<close>

text \<open>The three updates of a user row: an expired lock lifted, a failure, a success.\<close>

definition clear_lock :: "user \<Rightarrow> user" where
  "clear_lock user = (if u_locked_until user \<noteq> None
     then user\<lparr>u_locked_until := None, u_failed_login_count := 0\<rparr> else user)"

definition count_failure :: "time \<Rightarrow> user \<Rightarrow> user" where
  "count_failure now user =
     (let count = min (u_failed_login_count user + 1) MAX_LOGIN_FAILURES;
          user1 = user\<lparr>u_failed_login_count := count\<rparr> in
      if count \<ge> MAX_LOGIN_FAILURES then user1\<lparr>u_locked_until := Some (now + LOGIN_LOCK_DURATION)\<rparr>
      else user1)"

definition accept_login :: "time \<Rightarrow> ustr \<Rightarrow> user \<Rightarrow> user" where
  "accept_login now password_hash user = user\<lparr>u_password_hash := password_hash,
     u_failed_login_count := 0, u_locked_until := None, u_last_login_at := Some now\<rparr>"

definition locked :: "time \<Rightarrow> user \<Rightarrow> bool" where
  "locked now user \<longleftrightarrow> (case u_locked_until user of None \<Rightarrow> False | Some t \<Rightarrow> t > now)"

definition login ::
  "lib \<Rightarrow> ustr \<Rightarrow> time \<Rightarrow> nat \<Rightarrow> session_draw \<Rightarrow> ustr \<Rightarrow> ustr \<Rightarrow> db \<Rightarrow> completed_login result \<times> db" where
  "login L secret now salt dr username password db =
     (case user_by_username db username of
        None \<Rightarrow> (Inl (LoginFailure None ''INVALID_CREDENTIALS''), db)
      | Some user \<Rightarrow>
        if locked now user then (Inl (LoginFailure (Some (u_id user)) ''LOCKED''), db)
        else (let db1 = put_user (u_id user) clear_lock db;
                  verification = verify_password L (u_password_hash user) password in
          if \<not> pv_valid verification \<or> u_status user \<noteq> USER_ACTIVE
          then (Inl (LoginFailure (Some (u_id user)) ''INVALID_CREDENTIALS''),
                put_user (u_id user) (count_failure now) db1)
          else (case (if pv_needs_rehash verification then hash_password L salt password
                      else Inr (u_password_hash user)) of
              Inl e \<Rightarrow> (Inl e, db1)
            | Inr new_hash \<Rightarrow>
              (let user2 = accept_login now new_hash (clear_lock user);
                   db2 = put_user (u_id user) (accept_login now new_hash) db1 in
               case issue_session L secret dr user2 db2 of
                 (Inl e, db3) \<Rightarrow> (Inl e, db3)
               | (Inr pair, db3) \<Rightarrow> (Inr \<lparr>cl_pair = pair, cl_user = user2\<rparr>, db3)))))"

definition set_password :: "time \<Rightarrow> ustr \<Rightarrow> bool \<Rightarrow> user \<Rightarrow> user" where
  "set_password now password_hash must_change user = user\<lparr>u_password_hash := password_hash,
     u_password_changed_at := now, u_must_change_password := must_change,
     u_failed_login_count := 0, u_locked_until := None\<rparr>"

definition change_password ::
  "lib \<Rightarrow> ustr \<Rightarrow> time \<Rightarrow> nat \<Rightarrow> session_draw \<Rightarrow> uuid \<Rightarrow> ustr \<Rightarrow> ustr \<Rightarrow> db
   \<Rightarrow> completed_login result \<times> db" where
  "change_password L secret now salt dr user_id current_password new_password db =
     (case get_user db user_id of
        None \<Rightarrow> (Inl (LoginFailure None ''INVALID_CREDENTIALS''), db)
      | Some user \<Rightarrow>
        if u_status user \<noteq> USER_ACTIVE then (Inl (LoginFailure None ''INVALID_CREDENTIALS''), db)
        else if \<not> pv_valid (verify_password L (u_password_hash user) current_password)
        then (Inl (LoginFailure (Some (u_id user)) ''INVALID_CREDENTIALS''), db)
        else if pv_valid (verify_password L (u_password_hash user) new_password)
        then (Inl password_reuse_forbidden_error, db)
        else (case hash_password L salt new_password of
            Inl e \<Rightarrow> (Inl e, db)
          | Inr new_hash \<Rightarrow>
            (let user1 = set_password now new_hash False user;
                 db1 = revoke_all_for_user (u_id user) now
                   (put_user (u_id user) (set_password now new_hash False) db) in
             case issue_session L secret dr user1 db1 of
               (Inl e, db2) \<Rightarrow> (Inl e, db2)
             | (Inr pair, db2) \<Rightarrow> (Inr \<lparr>cl_pair = pair, cl_user = user1\<rparr>, db2))))"

section \<open>Refresh, authentication, logout\<close>

definition rotate_refresh_token ::
  "lib \<Rightarrow> ustr \<Rightarrow> time \<Rightarrow> session_draw \<Rightarrow> ustr \<Rightarrow> db \<Rightarrow> session_pair result \<times> db" where
  "rotate_refresh_token L secret now dr raw_token db =
     (case hash_token L raw_token of
        None \<Rightarrow> (Inl (PyError ''UnicodeEncodeError''), db)
      | Some h \<Rightarrow> (case session_by_refresh_hash db h of
          None \<Rightarrow> (Inl InvalidSession, db)
        | Some current \<Rightarrow>
          if s_kind current \<noteq> SESSION_USER \<or> s_revoked_at current \<noteq> None
             \<or> s_refresh_used_at current \<noteq> None \<or> s_refresh_expires_at current \<le> now
          then (Inl InvalidSession, db)
          else (let db1 = put_session (s_id current)
                  (\<lambda>s. s\<lparr>s_refresh_used_at := Some now, s_revoked_at := Some now\<rparr>) db in
            case (case s_user_id current of None \<Rightarrow> None | Some i \<Rightarrow> get_user db1 i) of
              None \<Rightarrow> (Inl InvalidSession, db1)
            | Some user \<Rightarrow>
              if u_status user \<noteq> USER_ACTIVE then (Inl InvalidSession, db1)
              else issue_session L secret dr user db1)))"

definition authenticate_access_token ::
  "lib \<Rightarrow> ustr \<Rightarrow> time \<Rightarrow> ustr \<Rightarrow> db \<Rightarrow> user result" where
  "authenticate_access_token L secret now raw_token db =
     (case decode_access_token L now secret raw_token of
        Inl e \<Rightarrow> Inl InvalidSession
      | Inr claims \<Rightarrow>
        (case (claim_uuid L claims ''session_id'', claim_uuid L claims ''sub'',
               claim_text claims ''role'', claim_text claims ''jti'') of
          (Some session_id, Some user_id, Some token_role, Some jti) \<Rightarrow>
            (case get_session db session_id of
               None \<Rightarrow> Inl InvalidSession
             | Some auth_session \<Rightarrow>
               if s_kind auth_session \<noteq> SESSION_USER \<or> s_revoked_at auth_session \<noteq> None
                  \<or> s_access_expires_at auth_session \<le> now
                  \<or> s_access_jti auth_session \<noteq> jti
                  \<or> s_user_id auth_session \<noteq> Some user_id
               then Inl InvalidSession
               else (case get_user db user_id of
                   None \<Rightarrow> Inl InvalidSession
                 | Some user \<Rightarrow>
                   if u_status user \<noteq> USER_ACTIVE \<or> u (role_text (u_role user)) \<noteq> token_role
                   then Inl InvalidSession
                   else Inr user))
        | _ \<Rightarrow> Inl InvalidSession))"

definition revoke_session :: "time \<Rightarrow> uuid \<Rightarrow> db \<Rightarrow> db" where
  "revoke_session now i = put_session i (\<lambda>s. s\<lparr>s_revoked_at := Some now\<rparr>)"

definition logout_records ::
  "lib \<Rightarrow> ustr \<Rightarrow> time \<Rightarrow> ustr option \<Rightarrow> ustr option \<Rightarrow> db \<Rightarrow> uuid list result" where
  "logout_records L secret now access_token refresh_token db =
     (case (case refresh_token of
              None \<Rightarrow> Inr []
            | Some r \<Rightarrow> if r = [] then Inr []
                else (case hash_token L r of
                    None \<Rightarrow> Inl (PyError ''UnicodeEncodeError'')
                  | Some h \<Rightarrow> Inr (case session_by_refresh_hash db h of
                      None \<Rightarrow> [] | Some found \<Rightarrow> [s_id found]))) of
        Inl e \<Rightarrow> Inl e
      | Inr records \<Rightarrow> Inr (records @
          (case access_token of
             None \<Rightarrow> []
           | Some a \<Rightarrow> if a = [] then []
               else (case decode_access_token L now secret a of
                   Inl e \<Rightarrow> []
                 | Inr claims \<Rightarrow> (case claim_uuid L claims ''session_id'' of
                     None \<Rightarrow> []
                   | Some i \<Rightarrow> (case get_session db i of None \<Rightarrow> [] | Some found \<Rightarrow> [s_id found]))))))"

definition logout ::
  "lib \<Rightarrow> ustr \<Rightarrow> time \<Rightarrow> ustr option \<Rightarrow> ustr option \<Rightarrow> db \<Rightarrow> unit result \<times> db" where
  "logout L secret now access_token refresh_token db =
     (case logout_records L secret now access_token refresh_token db of
        Inl e \<Rightarrow> (Inl e, db)
      | Inr records \<Rightarrow> (Inr (), fold (revoke_session now) records db))"

section \<open>Routes (auth/router.py)\<close>

text \<open>\<open>_stage_auth_audit\<close>: the event is added to the request's own transaction.\<close>

definition stage_auth_audit :: "lib \<Rightarrow> uuid \<Rightarrow> audit_event \<Rightarrow> db \<Rightarrow> db result" where
  "stage_auth_audit L aid ev db = (case audit_row L aid ev of
       Inl e \<Rightarrow> Inl e
     | Inr row \<Rightarrow> insert_audit row db)"

definition SYSTEM_ACTOR_ID :: uuid where "SYSTEM_ACTOR_ID = 0"

definition user_actor :: "user \<Rightarrow> actor" where
  "user_actor user = \<lparr>actor_kind = ''user'', actor_subject = u_id user,
     actor_role = Some (u_role user), actor_projects = [], actor_scopes = []\<rparr>"

definition failure_actor :: "uuid option \<Rightarrow> db \<Rightarrow> actor" where
  "failure_actor who db = (case (case who of None \<Rightarrow> None | Some i \<Rightarrow> get_user db i) of
       None \<Rightarrow> \<lparr>actor_kind = ''system'', actor_subject = SYSTEM_ACTOR_ID, actor_role = None,
          actor_projects = [], actor_scopes = []\<rparr>
     | Some user \<Rightarrow> user_actor user)"

definition auth_event :: "actor \<Rightarrow> string \<Rightarrow> uuid option \<Rightarrow> string \<Rightarrow> uuid \<Rightarrow> json \<Rightarrow> audit_event" where
  "auth_event a action object_id outcome request_id metadata = \<lparr>ev_actor = a, ev_action = action,
     ev_object_type = ''user'', ev_object_id = object_id, ev_project_id = None,
     ev_outcome = outcome, ev_request_id = request_id, ev_event_key = None,
     ev_metadata = metadata\<rparr>"

definition reason_json :: "string \<Rightarrow> json" where
  "reason_json reason = JObj [(u ''reason'', JStr (u reason))]"

text \<open>What the routes of login and password change share: the audit event of the outcome,
  a commit, and the public error.\<close>

definition finish_login ::
  "lib \<Rightarrow> uuid \<Rightarrow> uuid \<Rightarrow> string \<Rightarrow> db \<Rightarrow> completed_login result \<times> db \<Rightarrow> session_pair result \<times> db" where
  "finish_login L aid request_id action db outcome = (case outcome of
       (Inr completed, db1) \<Rightarrow>
         (case stage_auth_audit L aid (auth_event (user_actor (cl_user completed)) action
                 (Some (u_id (cl_user completed))) ''SUCCESS'' request_id (JObj [])) db1 of
            Inl e \<Rightarrow> (Inl e, db)
          | Inr db2 \<Rightarrow> (Inr (cl_pair completed), db2))
     | (Inl (LoginFailure who reason), db1) \<Rightarrow>
         (case stage_auth_audit L aid (auth_event (failure_actor who db1) action who ''DENIED''
                 request_id (reason_json reason)) db1 of
            Inl e \<Rightarrow> (Inl e, db)
          | Inr db2 \<Rightarrow> (Inl authentication_failed_error, db2))
     | (Inl InvalidSession, db1) \<Rightarrow> (Inl unauthenticated_error, db)
     | (Inl e, db1) \<Rightarrow> (Inl e, db))"

definition login_route ::
  "lib \<Rightarrow> ustr \<Rightarrow> time \<Rightarrow> nat \<Rightarrow> session_draw \<Rightarrow> uuid \<Rightarrow> uuid \<Rightarrow> ustr \<Rightarrow> ustr \<Rightarrow> db
   \<Rightarrow> session_pair result \<times> db" where
  "login_route L secret now salt dr aid request_id username password db =
     finish_login L aid request_id ''auth.login'' db
       (login L secret now salt dr username password db)"

definition refresh_route ::
  "lib \<Rightarrow> ustr \<Rightarrow> time \<Rightarrow> session_draw \<Rightarrow> ustr option \<Rightarrow> db \<Rightarrow> session_pair result \<times> db" where
  "refresh_route L secret now dr cookie db =
     (case rotate_refresh_token L secret now dr (case cookie of None \<Rightarrow> [] | Some t \<Rightarrow> t) db of
        (Inl InvalidSession, db1) \<Rightarrow> (Inl unauthenticated_error, db)
      | (Inl e, db1) \<Rightarrow> (Inl e, db)
      | (Inr pair, db1) \<Rightarrow> (Inr pair, db1))"

definition change_password_route ::
  "lib \<Rightarrow> ustr \<Rightarrow> time \<Rightarrow> nat \<Rightarrow> session_draw \<Rightarrow> uuid \<Rightarrow> uuid \<Rightarrow> ustr option \<Rightarrow> ustr \<Rightarrow> ustr \<Rightarrow> db
   \<Rightarrow> session_pair result \<times> db" where
  "change_password_route L secret now salt dr aid request_id token current_password new_password db =
     (case token of
        None \<Rightarrow> (Inl unauthenticated_error, db)
      | Some t \<Rightarrow> finish_login L aid request_id ''auth.password.change'' db
          (case authenticate_access_token L secret now t db of
             Inl e \<Rightarrow> (Inl e, db)
           | Inr current \<Rightarrow>
               change_password L secret now salt dr (u_id current) current_password new_password db))"

definition bearer_or_cookie :: "ustr \<Rightarrow> ustr option \<Rightarrow> ustr option" where
  "bearer_or_cookie authorization cookie =
     (if take 7 authorization = u ''Bearer '' then Some (drop 7 authorization) else cookie)"

definition logout_route ::
  "lib \<Rightarrow> ustr \<Rightarrow> time \<Rightarrow> ustr \<Rightarrow> ustr option \<Rightarrow> ustr option \<Rightarrow> db \<Rightarrow> unit result \<times> db" where
  "logout_route L secret now authorization access_cookie refresh_cookie db =
     (case logout L secret now (bearer_or_cookie authorization access_cookie) refresh_cookie db of
        (Inl e, db1) \<Rightarrow> (Inl e, db)
      | (Inr _, db1) \<Rightarrow> (Inr (), db1))"

definition me_route :: "lib \<Rightarrow> ustr \<Rightarrow> time \<Rightarrow> ustr \<Rightarrow> ustr option \<Rightarrow> db \<Rightarrow> user result" where
  "me_route L secret now authorization access_cookie db =
     (case bearer_or_cookie authorization access_cookie of
        None \<Rightarrow> Inl unauthenticated_error
      | Some token \<Rightarrow> (case authenticate_access_token L secret now token db of
          Inl InvalidSession \<Rightarrow> Inl unauthenticated_error
        | r \<Rightarrow> r))"

end
