(* ===== verification/Projects.thy ===== *)
theory Projects
  imports Audit_Log
begin

text \<open>
  \<open>modules/projects\<close>: the project name schema, creation under the case-insensitive
  unique index, and the role-dependent listing and reading of projects.  A
  denial is committed by the audit service on its own; success evidence is committed
  after the business transaction.
\<close>

section \<open>Schema (projects/schemas.py)\<close>

definition canonical_project_name :: "ustr \<Rightarrow> ustr result" where
  "canonical_project_name value =
     (let normalized = strip_chars edge_whitespace value in
      if \<not> (1 \<le> length normalized \<and> length normalized \<le> 255) then Inl (PyError ''ValueError'')
      else Inr normalized)"

record project_create =
  pcr_name :: ustr
  pcr_is_test :: bool

definition project_create_schema :: "ustr \<Rightarrow> bool \<Rightarrow> project_create result" where
  "project_create_schema name is_test = (case canonical_project_name name of
       Inl e \<Rightarrow> Inl e
     | Inr n \<Rightarrow> Inr \<lparr>pcr_name = n, pcr_is_test = is_test\<rparr>)"

section \<open>Service (projects/service.py)\<close>

definition project_record ::
  "lib \<Rightarrow> uuid \<Rightarrow> actor \<Rightarrow> string \<Rightarrow> string \<Rightarrow> uuid \<Rightarrow> uuid option \<Rightarrow> db \<Rightarrow> uuid result \<times> db" where
  "project_record L aid a action outcome request_id project_id =
     audit_record L id aid \<lparr>ev_actor = a, ev_action = action, ev_object_type = ''project'',
       ev_object_id = project_id, ev_project_id = project_id, ev_outcome = outcome,
       ev_request_id = request_id, ev_event_key = None, ev_metadata = JObj []\<rparr>"

text \<open>The denial that precedes re-raising a policy's error.\<close>

definition project_denied ::
  "lib \<Rightarrow> uuid \<Rightarrow> actor \<Rightarrow> string \<Rightarrow> uuid \<Rightarrow> uuid option \<Rightarrow> exn \<Rightarrow> db \<Rightarrow> 'a result \<times> db" where
  "project_denied L aid a action request_id project_id e db =
     (case project_record L aid a action ''DENIED'' request_id project_id db of
        (Inl e', db') \<Rightarrow> (Inl e', db')
      | (Inr _, db') \<Rightarrow> (Inl e, db'))"

text \<open>The insert of a row under the constraints of the table.\<close>

definition insert_project :: "lib \<Rightarrow> project \<Rightarrow> db \<Rightarrow> db result" where
  "insert_project L row db =
     (if list_ex (\<lambda>p. p_id p = p_id row) (projects db) then Inl (Integrity ''projects_pkey'')
      else if list_ex (\<lambda>p. pg_lower L (p_name p) = pg_lower L (p_name row)) (projects db)
      then Inl (Integrity ''uq_projects_name_ci'')
      else if strip_chars edge_whitespace (p_name row) \<noteq> p_name row
      then Inl (Integrity ''ck_projects_name_trimmed'')
      else if \<not> (1 \<le> length (p_name row) \<and> length (p_name row) \<le> 255)
      then Inl (Integrity ''ck_projects_name_length'')
      else Inr (db\<lparr>projects := projects db @ [row]\<rparr>))"

definition create_project ::
  "lib \<Rightarrow> uuid \<Rightarrow> uuid \<Rightarrow> actor \<Rightarrow> project_create \<Rightarrow> uuid \<Rightarrow> db \<Rightarrow> project result \<times> db" where
  "create_project L aid new_id a command request_id db =
     (case require_owner a of
        Inl e \<Rightarrow> project_denied L aid a ''project.create'' request_id None e db
      | Inr _ \<Rightarrow>
        (let project = \<lparr>p_id = new_id, p_name = pcr_name command, p_is_test = pcr_is_test command,
               p_status = PROJECT_ACTIVE\<rparr> in
         case insert_project L project db of
           Inl _ \<Rightarrow> (Inl project_name_conflict, db)
         | Inr db' \<Rightarrow> (Inr project, db')))"

definition is_member :: "db \<Rightarrow> uuid \<Rightarrow> uuid \<Rightarrow> bool" where
  "is_member db project_id user_id \<longleftrightarrow>
     list_ex (\<lambda>m. pm_project_id m = project_id \<and> pm_user_id m = user_id) (members db)"

definition list_projects ::
  "lib \<Rightarrow> uuid \<Rightarrow> actor \<Rightarrow> uuid \<Rightarrow> db \<Rightarrow> project list result \<times> db" where
  "list_projects L aid a request_id db =
     (case require_project_actor a of
        Inl e \<Rightarrow> project_denied L aid a ''project.list'' request_id None e db
      | Inr _ \<Rightarrow>
        (Inr (sort_key (\<lambda>p. collate_key L (p_name p))
           (if actor_role a = Some OWNER then projects db
            else filter (\<lambda>p. is_member db (p_id p) (actor_subject a)) (projects db))), db))"

definition read_project ::
  "lib \<Rightarrow> uuid \<Rightarrow> actor \<Rightarrow> uuid \<Rightarrow> uuid \<Rightarrow> db \<Rightarrow> project result \<times> db" where
  "read_project L aid a project_id request_id db =
     (case require_project_actor a of
        Inl e \<Rightarrow> project_denied L aid a ''project.read'' request_id (Some project_id) e db
      | Inr _ \<Rightarrow>
        (case get_project db project_id of
           None \<Rightarrow> (Inl project_not_found, db)
         | Some project \<Rightarrow>
           (case require_project_access a project_id of
              Inl e \<Rightarrow> project_denied L aid a ''project.read'' request_id (Some project_id) e db
            | Inr _ \<Rightarrow> (Inr project, db))))"

text \<open>The routes: the operation, its commit, then the success event.\<close>

definition project_success ::
  "lib \<Rightarrow> uuid \<Rightarrow> actor \<Rightarrow> string \<Rightarrow> uuid \<Rightarrow> ('a \<Rightarrow> uuid option) \<Rightarrow> 'a result \<times> db \<Rightarrow> 'a result \<times> db" where
  "project_success L aid a action request_id project_of outcome = (case outcome of
       (Inl e, db) \<Rightarrow> (Inl e, db)
     | (Inr x, db) \<Rightarrow> (case project_record L aid a action ''SUCCESS'' request_id (project_of x) db of
         (Inl e, db') \<Rightarrow> (Inl e, db')
       | (Inr _, db') \<Rightarrow> (Inr x, db')))"

definition create_project_route ::
  "lib \<Rightarrow> uuid \<Rightarrow> uuid \<Rightarrow> actor \<Rightarrow> project_create \<Rightarrow> uuid \<Rightarrow> db \<Rightarrow> project result \<times> db" where
  "create_project_route L aid new_id a command request_id db =
     project_success L aid a ''project.create'' request_id (\<lambda>p. Some (p_id p))
       (create_project L aid new_id a command request_id db)"

definition list_projects_route ::
  "lib \<Rightarrow> uuid \<Rightarrow> actor \<Rightarrow> uuid \<Rightarrow> db \<Rightarrow> project list result \<times> db" where
  "list_projects_route L aid a request_id db =
     project_success L aid a ''project.list'' request_id (\<lambda>_. None)
       (list_projects L aid a request_id db)"

definition get_project_route ::
  "lib \<Rightarrow> uuid \<Rightarrow> actor \<Rightarrow> uuid \<Rightarrow> uuid \<Rightarrow> db \<Rightarrow> project result \<times> db" where
  "get_project_route L aid a project_id request_id db =
     project_success L aid a ''project.read'' request_id (\<lambda>_. Some project_id)
       (read_project L aid a project_id request_id db)"

section \<open>Correctness\<close>

lemma project_record_frame:
  "project_record L aid a action outcome rid p db = (r, db') \<Longrightarrow> only_log db db'"
  using audit_service.only_logs [of db L "(aid, \<lparr>ev_actor = a, ev_action = action,
    ev_object_type = ''project'', ev_object_id = p, ev_project_id = p, ev_outcome = outcome,
    ev_request_id = rid, ev_event_key = None, ev_metadata = JObj []\<rparr>)"]
  by (simp add: project_record_def)

lemma project_record_commits:
  "\<exists>row. project_record L aid a action outcome rid p db
      = (Inr (al_id row), db\<lparr>audit_logs := audit_logs db @ [row]\<rparr>)
    \<and> al_outcome row = outcome \<and> al_action row = action \<and> al_actor_id row = Some (actor_subject a)"
  unfolding project_record_def
  using audit_record_flat [of "\<lparr>ev_actor = a, ev_action = action,
    ev_object_type = ''project'', ev_object_id = p, ev_project_id = p, ev_outcome = outcome,
    ev_request_id = rid, ev_event_key = None, ev_metadata = JObj []\<rparr>" "[]" L aid db]
  by (auto simp: flat_ascii_def)

lemma project_denied_frame:
  "project_denied L aid a action rid p e db = (r, db') \<Longrightarrow> only_log db db' \<and> isl r"
  by (auto simp: project_denied_def dest: project_record_frame split: prod.splits sum.splits)

lemma project_denied_commits:
  "\<exists>row. project_denied L aid a action rid p e db = (Inl e, db\<lparr>audit_logs := audit_logs db @ [row]\<rparr>)
    \<and> al_outcome row = ''DENIED'' \<and> al_action row = action \<and> al_actor_id row = Some (actor_subject a)"
  using project_record_commits [of L aid a action "''DENIED''" rid p db]
  by (auto simp: project_denied_def)

lemma project_success_frame:
  "project_success L aid a action rid f (r, db) = (r', db') \<Longrightarrow> only_log db db'
    \<and> (\<forall>x. r' = Inr x \<longrightarrow> r = Inr x)"
  by (auto simp: project_success_def dest: project_record_frame split: sum.splits prod.splits)

text \<open>The invariant of the table: canonical names, unique up to case, unique keys.\<close>

definition projects_ok :: "lib \<Rightarrow> db \<Rightarrow> bool" where
  "projects_ok L db \<longleftrightarrow> distinct (map (\<lambda>p. pg_lower L (p_name p)) (projects db))
     \<and> list_all (\<lambda>p. strip_chars edge_whitespace (p_name p) = p_name p
         \<and> 1 \<le> length (p_name p) \<and> length (p_name p) \<le> 255) (projects db)"

lemma insert_project_ok:
  "projects_ok L db \<Longrightarrow> insert_project L row db = Inr db' \<Longrightarrow> projects_ok L db'"
  by (auto simp: projects_ok_def insert_project_def list_ex_iff image_iff split: if_splits) metis

lemma projects_ok_log: "only_log db db' \<Longrightarrow> projects_ok L db' = projects_ok L db"
  by (auto simp: only_log_def projects_ok_def)

lemma create_project_cases:
  assumes "create_project L aid new_id a command rid db = (r, db')"
  obtains "isl r" "only_log db db'"
  | p where "r = Inr p" "insert_project L p db = Inr db'" "actor_kind a = ''user''"
    "actor_role a = Some OWNER" "p_name p = pcr_name command" "p_id p = new_id" "p_status p = PROJECT_ACTIVE"
proof (cases "require_owner a")
  case (Inl e)
  with assms that(1) show ?thesis by (auto simp: create_project_def dest: project_denied_frame)
next
  case (Inr x)
  then have o: "actor_kind a = ''user''" "actor_role a = Some OWNER" by (simp_all add: require_owner_iff)
  let ?p = "\<lparr>p_id = new_id, p_name = pcr_name command, p_is_test = pcr_is_test command,
    p_status = PROJECT_ACTIVE\<rparr>"
  show ?thesis
  proof (cases "insert_project L ?p db")
    case (Inl e)
    with \<open>require_owner a = Inr x\<close> assms have "r = Inl project_name_conflict" "db' = db"
      by (simp_all add: create_project_def Let_def)
    with that(1) show ?thesis by simp
  next
    case (Inr db2)
    with \<open>require_owner a = Inr x\<close> assms have "r = Inr ?p" "db' = db2"
      by (simp_all add: create_project_def Let_def)
    with Inr o that(2) [of ?p] show ?thesis by simp
  qed
qed

lemma create_project_route_ok:
  assumes "projects_ok L db" "create_project_route L aid new_id a command rid db = (r, db')"
  shows "projects_ok L db'"
proof -
  obtain r1 db1 where c: "create_project L aid new_id a command rid db = (r1, db1)" by fastforce
  from c have "projects_ok L db1"
    using assms(1) insert_project_ok projects_ok_log by (cases rule: create_project_cases) blast+
  moreover from assms(2) c have "only_log db1 db'"
    by (auto simp: create_project_route_def dest: project_success_frame)
  ultimately show ?thesis by (simp add: projects_ok_log)
qed

lemma list_projects_Inr:
  assumes "list_projects L aid a rid db = (Inr ps, db')"
  shows "set ps = {p \<in> set (projects db). actor_role a = Some OWNER
      \<or> is_member db (p_id p) (actor_subject a)} \<and> db' = db
    \<and> actor_kind a = ''user'' \<and> actor_role a \<in> {Some OWNER, Some STAFF}
    \<and> sorted (map (\<lambda>p. collate_key L (p_name p)) ps)"
proof (cases "require_project_actor a")
  case (Inl e)
  with assms show ?thesis by (auto simp: list_projects_def dest: project_denied_frame)
next
  case (Inr x)
  then have "actor_kind a = ''user''" "actor_role a \<in> {Some OWNER, Some STAFF}"
    by (auto simp: require_project_actor_def split: if_splits)
  moreover from Inr assms have "ps = sort_key (\<lambda>p. collate_key L (p_name p))
      (if actor_role a = Some OWNER then projects db
       else filter (\<lambda>p. is_member db (p_id p) (actor_subject a)) (projects db))" "db' = db"
    by (simp_all add: list_projects_def)
  ultimately show ?thesis by (cases "actor_role a = Some OWNER") auto
qed

lemma read_project_iff:
  "(\<exists>db'. read_project L aid a p rid db = (Inr q, db')) \<longleftrightarrow>
     get_project db p = Some q \<and> may_access_project a p"
proof -
  have a: "require_project_actor a = Inr ()" if "may_access_project a p"
    using that by (auto simp: may_access_project_def require_project_actor_def)
  have den: "project_denied L aid a x rid i e db \<noteq> (Inr q, db')" for x i e db'
    using project_denied_frame [of L aid a x rid i e db "Inr q" db'] by auto
  show ?thesis
  proof (cases "require_project_actor a")
    case (Inl e)
    with a have "\<not> may_access_project a p" by auto
    with Inl den show ?thesis by (simp add: read_project_def)
  next
    case (Inr x)
    then have "read_project L aid a p rid db = (case get_project db p of
        None \<Rightarrow> (Inl project_not_found, db)
      | Some q \<Rightarrow> if may_access_project a p then (Inr q, db)
          else project_denied L aid a ''project.read'' rid (Some p) project_forbidden db)"
      by (simp add: read_project_def require_project_access_iff split: option.split)
    with den show ?thesis by (cases "get_project db p"; cases "may_access_project a p") auto
  qed
qed

end
