(* ===== verification/Users.thy ===== *)
theory Users
  imports Auth Projects "HOL-Library.Product_Lexorder"
begin

text \<open>
  \<open>modules/users\<close> and \<open>modules/auth/admin.py\<close>: the OWNER's management of STAFF
  accounts and the local bootstrap and reset of the OWNER.  The routes commit the
  mutation and its success event in one transaction; a denial is committed by the
  audit service on its own.
\<close>

section \<open>Schemas (users/schemas.py, auth/schemas.py)\<close>

text \<open>\<open>USERNAME_PATTERN\<close>: \<open>^[a-z][a-z0-9._-]{2,31}$\<close>.\<close>

definition username_char :: "nat \<Rightarrow> bool" where
  "username_char c \<longleftrightarrow> 97 \<le> c \<and> c \<le> 122 \<or> 48 \<le> c \<and> c \<le> 57 \<or> c \<in> {46, 95, 45}"

fun username_ok :: "ustr \<Rightarrow> bool" where
  "username_ok [] = False"
| "username_ok (c # cs) \<longleftrightarrow> 97 \<le> c \<and> c \<le> 122 \<and> list_all username_char cs
     \<and> 2 \<le> length cs \<and> length cs \<le> 31"

record staff_create =
  sc_username :: ustr
  sc_display_name :: ustr
  sc_project_ids :: "uuid list"

record staff_update =
  su_display_name :: "ustr option"
  su_status :: "user_status option"

definition staff_create_schema :: "staff_create \<Rightarrow> bool" where
  "staff_create_schema c \<longleftrightarrow> username_ok (sc_username c)
     \<and> 1 \<le> length (sc_display_name c) \<and> length (sc_display_name c) \<le> 255
     \<and> length (sc_project_ids c) \<le> 1000 \<and> distinct (sc_project_ids c)"

definition staff_update_schema :: "staff_update \<Rightarrow> bool" where
  "staff_update_schema c \<longleftrightarrow> (case su_display_name c of
       None \<Rightarrow> True | Some n \<Rightarrow> 1 \<le> length n \<and> length n \<le> 255)"

definition project_assignments_schema :: "uuid list \<Rightarrow> bool" where
  "project_assignments_schema ids \<longleftrightarrow> length ids \<le> 1000 \<and> distinct ids"

record owner_user_view =
  ov_id :: uuid
  ov_username :: ustr
  ov_display_name :: ustr
  ov_role :: role
  ov_status :: user_status
  ov_last_login_at :: "time option"
  ov_projects :: "project list"

record staff_credential_result =
  scr_user :: owner_user_view
  scr_temporary_password :: ustr

section \<open>Service (users/service.py)\<close>

definition user_record ::
  "lib \<Rightarrow> uuid \<Rightarrow> actor \<Rightarrow> string \<Rightarrow> string \<Rightarrow> uuid \<Rightarrow> uuid option \<Rightarrow> string option \<Rightarrow> db
   \<Rightarrow> uuid result \<times> db" where
  "user_record L aid a action outcome request_id user_id reason =
     audit_record L id aid \<lparr>ev_actor = a, ev_action = action, ev_object_type = ''user'',
       ev_object_id = user_id, ev_project_id = None, ev_outcome = outcome,
       ev_request_id = request_id, ev_event_key = None,
       ev_metadata = JObj (case reason of None \<Rightarrow> [] | Some r \<Rightarrow> [(u ''reason'', JStr (u r))])\<rparr>"

definition user_denied ::
  "lib \<Rightarrow> uuid \<Rightarrow> actor \<Rightarrow> string \<Rightarrow> uuid \<Rightarrow> uuid option \<Rightarrow> string \<Rightarrow> exn \<Rightarrow> db \<Rightarrow> 'a result \<times> db" where
  "user_denied L aid a action request_id user_id reason e db =
     (case user_record L aid a action ''DENIED'' request_id user_id (Some reason) db of
        (Inl e', db') \<Rightarrow> (Inl e', db')
      | (Inr _, db') \<Rightarrow> (Inl e, db'))"

definition is_owner :: "actor \<Rightarrow> bool" where
  "is_owner a \<longleftrightarrow> actor_kind a = ''user'' \<and> actor_role a = Some OWNER"

definition owner_required :: exn where
  "owner_required = forbidden_error ''OWNER_REQUIRED'' ''Owner access required''"

text \<open>\<open>_staff_for_update\<close>: \<open>Inl\<close> the outcome of a refusal, \<open>Inr\<close> the locked row.\<close>

definition staff_for_update ::
  "lib \<Rightarrow> uuid \<Rightarrow> actor \<Rightarrow> string \<Rightarrow> uuid \<Rightarrow> uuid \<Rightarrow> db \<Rightarrow> ('a result \<times> db) + user" where
  "staff_for_update L aid a action user_id request_id db =
     (if \<not> is_owner a
      then Inl (user_denied L aid a action request_id (Some user_id) ''OWNER_REQUIRED'' owner_required db)
      else (case get_user db user_id of
          None \<Rightarrow> Inl (user_denied L aid a action request_id (Some user_id) ''USER_NOT_FOUND''
            (not_found_error ''USER_NOT_FOUND'' ''User not found'') db)
        | Some user \<Rightarrow>
          if u_role user = OWNER
          then Inl (user_denied L aid a action request_id (Some user_id) ''OWNER_PROTECTED''
            (conflict_error ''OWNER_PROTECTED'' ''The OWNER account is protected'') db)
          else Inr user))"

definition projects_for_user :: "lib \<Rightarrow> db \<Rightarrow> uuid \<Rightarrow> project list" where
  "projects_for_user L db user_id =
     sort_key (\<lambda>p. (collate_key L (p_name p), p_id p))
       (filter (\<lambda>p. is_member db (p_id p) user_id) (projects db))"

definition projects_for_update :: "db \<Rightarrow> uuid list \<Rightarrow> project list" where
  "projects_for_update db ids = (if ids = [] then []
     else sort_key p_id (filter (\<lambda>p. p_id p \<in> set ids) (projects db)))"

definition replace_project_memberships :: "uuid \<Rightarrow> uuid list \<Rightarrow> db \<Rightarrow> db" where
  "replace_project_memberships user_id ids db = db\<lparr>members :=
     filter (\<lambda>m. pm_user_id m \<noteq> user_id) (members db)
     @ map (\<lambda>i. \<lparr>pm_project_id = i, pm_user_id = user_id\<rparr>) ids\<rparr>"

definition owner_view :: "user \<Rightarrow> project list \<Rightarrow> owner_user_view" where
  "owner_view user ps = \<lparr>ov_id = u_id user, ov_username = u_username user,
     ov_display_name = u_display_name user, ov_role = u_role user, ov_status = u_status user,
     ov_last_login_at = u_last_login_at user, ov_projects = ps\<rparr>"

definition list_users :: "lib \<Rightarrow> uuid \<Rightarrow> actor \<Rightarrow> uuid \<Rightarrow> db \<Rightarrow> owner_user_view list result \<times> db" where
  "list_users L aid a request_id db =
     (if \<not> is_owner a
      then user_denied L aid a ''user.list'' request_id None ''OWNER_REQUIRED'' owner_required db
      else (Inr (map (\<lambda>x. owner_view x (projects_for_user L db (u_id x)))
              (sort_key (\<lambda>x. collate_key L (u_username x)) (users db))), db))"

text \<open>The insert of a user under its primary key, \<open>uq_users_username\<close>, \<open>uq_users_single_owner\<close> and
  \<open>ck_users_username\<close>.\<close>

definition insert_user :: "user \<Rightarrow> db \<Rightarrow> db result" where
  "insert_user row db =
     (if list_ex (\<lambda>x. u_id x = u_id row) (users db) then Inl (Integrity ''users_pkey'')
      else if list_ex (\<lambda>x. u_username x = u_username row) (users db)
      then Inl (Integrity ''uq_users_username'')
      else if u_role row = OWNER \<and> list_ex (\<lambda>x. u_role x = OWNER) (users db)
      then Inl (Integrity ''uq_users_single_owner'')
      else if \<not> username_ok (u_username row) then Inl (Integrity ''ck_users_username'')
      else if take 10 (u_password_hash row) \<noteq> u ''$argon2id$'' then Inl (Integrity ''ck_users_password_hash'')
      else if u_failed_login_count row > 32767 then Inl (Integrity ''ck_users_failed_login_count'')
      else Inr (db\<lparr>users := users db @ [row]\<rparr>))"

definition create_staff ::
  "lib \<Rightarrow> time \<Rightarrow> nat \<Rightarrow> ustr \<Rightarrow> uuid \<Rightarrow> uuid \<Rightarrow> actor \<Rightarrow> staff_create \<Rightarrow> uuid \<Rightarrow> db
   \<Rightarrow> staff_credential_result result \<times> db" where
  "create_staff L now salt temporary_password new_id aid a command request_id db =
     (if \<not> is_owner a
      then user_denied L aid a ''user.create'' request_id None ''OWNER_REQUIRED'' owner_required db
      else (let project_ids = sort (sc_project_ids command);
                found = projects_for_update db project_ids in
        if length found \<noteq> length project_ids
        then user_denied L aid a ''user.create'' request_id None ''PROJECT_NOT_FOUND'' project_not_found db
        else (case hash_password L salt temporary_password of
            Inl e \<Rightarrow> (Inl e, db)
          | Inr h \<Rightarrow>
            (let user = \<lparr>u_id = new_id, u_username = sc_username command,
                   u_display_name = sc_display_name command, u_password_hash = h,
                   u_must_change_password = True, u_password_changed_at = now,
                   u_failed_login_count = 0, u_locked_until = None, u_role = STAFF,
                   u_status = USER_ACTIVE, u_last_login_at = None\<rparr> in
             case insert_user user db of
               Inl _ \<Rightarrow> user_denied L aid a ''user.create'' request_id None ''USERNAME_CONFLICT''
                 (conflict_error ''USERNAME_CONFLICT'' ''Username already exists'') db
             | Inr db1 \<Rightarrow>
               (Inr \<lparr>scr_user = owner_view user found, scr_temporary_password = temporary_password\<rparr>,
                replace_project_memberships new_id project_ids db1)))))"

definition update_staff ::
  "lib \<Rightarrow> time \<Rightarrow> uuid \<Rightarrow> actor \<Rightarrow> uuid \<Rightarrow> staff_update \<Rightarrow> uuid \<Rightarrow> db
   \<Rightarrow> owner_user_view result \<times> db" where
  "update_staff L now aid a user_id command request_id db =
     (case staff_for_update L aid a ''user.update'' user_id request_id db of
        Inl refusal \<Rightarrow> refusal
      | Inr user \<Rightarrow>
        if su_display_name command = None \<and> su_status command = None
        then user_denied L aid a ''user.update'' request_id (Some user_id) ''EMPTY_UPDATE''
          (DomainError ''VALIDATION_ERROR'' ''Request validation failed'' 422) db
        else (let
            rename = (\<lambda>x. case su_display_name command of
                None \<Rightarrow> x | Some n \<Rightarrow> x\<lparr>u_display_name := n\<rparr>);
            restate = (\<lambda>x. case su_status command of
                None \<Rightarrow> x | Some s \<Rightarrow> x\<lparr>u_status := s\<rparr>);
            db1 = put_user user_id (\<lambda>x. restate (rename x)) db;
            db2 = (if su_status command = Some USER_DISABLED
              then revoke_all_for_user user_id now db1 else db1) in
          (Inr (owner_view (restate (rename user)) (projects_for_user L db2 user_id)), db2)))"

definition replace_projects ::
  "lib \<Rightarrow> uuid \<Rightarrow> actor \<Rightarrow> uuid \<Rightarrow> uuid list \<Rightarrow> uuid \<Rightarrow> db \<Rightarrow> owner_user_view result \<times> db" where
  "replace_projects L aid a user_id ids request_id db =
     (case staff_for_update L aid a ''user.projects.replace'' user_id request_id db of
        Inl refusal \<Rightarrow> refusal
      | Inr user \<Rightarrow>
        (let project_ids = sort ids; found = projects_for_update db project_ids in
         if length found \<noteq> length project_ids
         then user_denied L aid a ''user.projects.replace'' request_id (Some user_id)
           ''PROJECT_NOT_FOUND'' project_not_found db
         else (Inr (owner_view user found), replace_project_memberships user_id project_ids db)))"

definition reset_password :: "time \<Rightarrow> ustr \<Rightarrow> bool \<Rightarrow> user \<Rightarrow> user" where
  "reset_password now h must_change user = user\<lparr>u_password_hash := h, u_password_changed_at := now,
     u_must_change_password := must_change, u_failed_login_count := 0, u_locked_until := None\<rparr>"

definition reset_staff_password ::
  "lib \<Rightarrow> time \<Rightarrow> nat \<Rightarrow> ustr \<Rightarrow> uuid \<Rightarrow> actor \<Rightarrow> uuid \<Rightarrow> uuid \<Rightarrow> db \<Rightarrow> ustr result \<times> db" where
  "reset_staff_password L now salt temporary_password aid a user_id request_id db =
     (case staff_for_update L aid a ''user.password.reset'' user_id request_id db of
        Inl refusal \<Rightarrow> refusal
      | Inr user \<Rightarrow>
        (case hash_password L salt temporary_password of
           Inl e \<Rightarrow> (Inl e, db)
         | Inr h \<Rightarrow> (Inr temporary_password, revoke_all_for_user user_id now
             (put_user user_id (reset_password now h True) db))))"

section \<open>Routes (users/router.py)\<close>

text \<open>\<open>commit_and_record_success\<close>: the success event joins the business transaction.\<close>

definition user_success ::
  "uuid \<Rightarrow> actor \<Rightarrow> string \<Rightarrow> uuid \<Rightarrow> ('a \<Rightarrow> uuid) \<Rightarrow> db \<Rightarrow> 'a result \<times> db \<Rightarrow> 'a result \<times> db" where
  "user_success aid a action request_id user_of start outcome = (case outcome of
       (Inl e, db) \<Rightarrow> (Inl e, db)
     | (Inr x, db) \<Rightarrow> (case insert_audit \<lparr>al_id = aid, al_actor_kind = actor_kind a,
           al_actor_id = Some (actor_subject a), al_action = action, al_object_type = ''user'',
           al_object_id = Some (user_of x), al_project_id = None, al_outcome = ''SUCCESS'',
           al_metadata = [(u ''actor_role'', role_json (actor_role a))],
           al_request_id = Some request_id, al_event_key = None\<rparr> db of
         Inl e \<Rightarrow> (Inl e, start)
       | Inr db' \<Rightarrow> (Inr x, db')))"

definition create_staff_route ::
  "lib \<Rightarrow> time \<Rightarrow> nat \<Rightarrow> ustr \<Rightarrow> uuid \<Rightarrow> uuid \<Rightarrow> actor \<Rightarrow> staff_create \<Rightarrow> uuid \<Rightarrow> db
   \<Rightarrow> staff_credential_result result \<times> db" where
  "create_staff_route L now salt temporary_password new_id aid a command request_id db =
     user_success aid a ''user.create'' request_id (\<lambda>r. ov_id (scr_user r)) db
       (create_staff L now salt temporary_password new_id aid a command request_id db)"

definition update_staff_route ::
  "lib \<Rightarrow> time \<Rightarrow> uuid \<Rightarrow> actor \<Rightarrow> uuid \<Rightarrow> staff_update \<Rightarrow> uuid \<Rightarrow> db
   \<Rightarrow> owner_user_view result \<times> db" where
  "update_staff_route L now aid a user_id command request_id db =
     user_success aid a ''user.update'' request_id ov_id db
       (update_staff L now aid a user_id command request_id db)"

definition replace_projects_route ::
  "lib \<Rightarrow> uuid \<Rightarrow> actor \<Rightarrow> uuid \<Rightarrow> uuid list \<Rightarrow> uuid \<Rightarrow> db \<Rightarrow> owner_user_view result \<times> db" where
  "replace_projects_route L aid a user_id ids request_id db =
     user_success aid a ''user.projects.replace'' request_id ov_id db
       (replace_projects L aid a user_id ids request_id db)"

definition reset_staff_password_route ::
  "lib \<Rightarrow> time \<Rightarrow> nat \<Rightarrow> ustr \<Rightarrow> uuid \<Rightarrow> actor \<Rightarrow> uuid \<Rightarrow> uuid \<Rightarrow> db \<Rightarrow> ustr result \<times> db" where
  "reset_staff_password_route L now salt temporary_password aid a user_id request_id db =
     user_success aid a ''user.password.reset'' request_id (\<lambda>_. user_id) db
       (reset_staff_password L now salt temporary_password aid a user_id request_id db)"

section \<open>The local OWNER (auth/admin.py)\<close>

definition read_confirmed_password :: "lib \<Rightarrow> ustr \<Rightarrow> ustr \<Rightarrow> ustr result" where
  "read_confirmed_password L password confirmation =
     (if password \<noteq> confirmation
      then Inl (LocalAdminError ''Password confirmation does not match.'')
      else (case validate_password L password of
          Inl _ \<Rightarrow> Inl (LocalAdminError ''Password does not meet the local policy.'')
        | Inr _ \<Rightarrow> Inr password))"

definition owner_audit :: "uuid \<Rightarrow> uuid \<Rightarrow> uuid \<Rightarrow> string \<Rightarrow> audit_log" where
  "owner_audit aid request_id owner_id action = \<lparr>al_id = aid, al_actor_kind = ''user'',
     al_actor_id = Some owner_id, al_action = action, al_object_type = ''user'',
     al_object_id = Some owner_id, al_project_id = None, al_outcome = ''SUCCESS'',
     al_metadata = [(u ''actor_role'', JStr (u ''OWNER''))], al_request_id = Some request_id,
     al_event_key = None\<rparr>"

text \<open>\<open>race\<close>: what another bootstrap commits between the emptiness check, which locks no
  row of an empty table, and the insert.\<close>

definition bootstrap_owner ::
  "lib \<Rightarrow> time \<Rightarrow> nat \<Rightarrow> uuid \<Rightarrow> uuid \<Rightarrow> uuid \<Rightarrow> (db \<Rightarrow> db) \<Rightarrow> ustr \<Rightarrow> ustr \<Rightarrow> ustr \<Rightarrow> ustr \<Rightarrow> db
   \<Rightarrow> uuid result \<times> db" where
  "bootstrap_owner L now salt new_id aid request_id race username display_name password confirmation db =
     (if \<not> username_ok username then (Inl (LocalAdminError ''Username is invalid.''), db)
      else if display_name = [] \<or> display_name \<noteq> strip_chars (isspace L) display_name
           \<or> length display_name > 255
      then (Inl (LocalAdminError ''Display name is invalid.''), db)
      else (case read_confirmed_password L password confirmation of
          Inl e \<Rightarrow> (Inl e, db)
        | Inr pw \<Rightarrow>
          if users db \<noteq> [] then (Inl (LocalAdminError ''A local identity already exists.''), db)
          else (case hash_password L salt pw of
              Inl e \<Rightarrow> (Inl e, race db)
            | Inr h \<Rightarrow>
              (case insert_user \<lparr>u_id = new_id, u_username = username, u_display_name = display_name,
                      u_password_hash = h, u_must_change_password = False, u_password_changed_at = now,
                      u_failed_login_count = 0, u_locked_until = None, u_role = OWNER,
                      u_status = USER_ACTIVE, u_last_login_at = None\<rparr> (race db) of
                 Inl _ \<Rightarrow> (Inl (LocalAdminError ''A local identity already exists.''), race db)
               | Inr db1 \<Rightarrow>
                 (case insert_audit (owner_audit aid request_id new_id ''auth.owner.bootstrap'') db1 of
                    Inl _ \<Rightarrow> (Inl (LocalAdminError ''A local identity already exists.''), race db)
                  | Inr db2 \<Rightarrow> (Inr new_id, db2))))))"

definition reset_owner_password ::
  "lib \<Rightarrow> time \<Rightarrow> nat \<Rightarrow> uuid \<Rightarrow> uuid \<Rightarrow> ustr \<Rightarrow> ustr \<Rightarrow> db \<Rightarrow> uuid result \<times> db" where
  "reset_owner_password L now salt aid request_id password confirmation db =
     (case read_confirmed_password L password confirmation of
        Inl e \<Rightarrow> (Inl e, db)
      | Inr pw \<Rightarrow>
        (case find (\<lambda>x. u_role x = OWNER) (users db) of
           None \<Rightarrow> (Inl (LocalAdminError ''The local OWNER does not exist.''), db)
         | Some owner \<Rightarrow>
           (case hash_password L salt pw of
              Inl e \<Rightarrow> (Inl e, db)
            | Inr h \<Rightarrow>
              (case insert_audit (owner_audit aid request_id (u_id owner) ''auth.owner.reset'')
                      (revoke_all_for_user (u_id owner) now
                        (put_user (u_id owner) (reset_password now h False) db)) of
                 Inl e \<Rightarrow> (Inl e, db)
               | Inr db1 \<Rightarrow> (Inr (u_id owner), db1)))))"

end
