(* ===== verification/Auth_Proofs.thy ===== *)
theory Auth_Proofs
  imports Auth
begin

text \<open>
  Correctness of browser authentication: the lockout, the single use of a refresh
  token, the exact conditions under which an access token authenticates, and the
  revocation of sessions by a password change and by logout.  The exchange of a
  one-time credential is an interface of its own (\<open>one_time_credential\<close>), which the
  device refresh provides as well.
\<close>

section \<open>User rows\<close>

lemma user_updates_id [simp]:
  "u_id (clear_lock x) = u_id x" "u_id (count_failure now x) = u_id x"
  "u_id (accept_login now h x) = u_id x" "u_id (set_password now h m x) = u_id x"
  by (simp_all add: clear_lock_def count_failure_def accept_login_def set_password_def Let_def)

lemma user_updates_username [simp]:
  "u_username (clear_lock x) = u_username x" "u_username (count_failure now x) = u_username x"
  "u_username (accept_login now h x) = u_username x" "u_username (set_password now h m x) = u_username x"
  by (simp_all add: clear_lock_def count_failure_def accept_login_def set_password_def Let_def)

lemma user_updates_other [simp]:
  "u_password_hash (clear_lock x) = u_password_hash x" "u_status (clear_lock x) = u_status x"
  "u_password_hash (count_failure now x) = u_password_hash x"
  "u_status (count_failure now x) = u_status x" "u_role (clear_lock x) = u_role x"
  "u_role (count_failure now x) = u_role x"
  by (simp_all add: clear_lock_def count_failure_def Let_def)

lemma user_by_username_put:
  assumes "\<And>r. u_username (f r) = u_username r" "\<And>r. u_id (f r) = u_id r"
  shows "user_by_username (put_user i f db) n
    = map_option (\<lambda>r. if u_id r = i then f r else r) (user_by_username db n)"
  using assms by (simp add: user_by_username_def put_user_def find_update_rows)

lemma user_by_username_frame [simp]:
  "user_by_username (db\<lparr>sessions := ss\<rparr>) n = user_by_username db n"
  "user_by_username (db\<lparr>audit_logs := al\<rparr>) n = user_by_username db n"
  by (simp_all add: user_by_username_def)

lemma count_failure_facts:
  assumes "u_failed_login_count x \<le> MAX_LOGIN_FAILURES"
  shows "u_failed_login_count (count_failure now x) = min (u_failed_login_count x + 1) MAX_LOGIN_FAILURES"
    and "u_locked_until (count_failure now x) =
      (if u_failed_login_count x + 1 \<ge> MAX_LOGIN_FAILURES then Some (now + LOGIN_LOCK_DURATION)
       else u_locked_until x)"
  using assms by (auto simp: count_failure_def Let_def MAX_LOGIN_FAILURES_def)

section \<open>Routes and the state they commit\<close>

lemma stage_auth_audit_Inr:
  "stage_auth_audit L aid ev db = Inr db' \<Longrightarrow> only_log db db'"
  by (auto simp: stage_auth_audit_def dest: insert_audit_Inr split: sum.splits)

lemma only_log_users: "only_log db db' \<Longrightarrow> user_by_username db' n = user_by_username db n"
  by (auto simp: only_log_def)

lemma only_log_gets:
  assumes "only_log db db'"
  shows "get_user db' i = get_user db i" "get_session db' i = get_session db i"
    "session_by_refresh_hash db' h = session_by_refresh_hash db h" "users db' = users db"
    "sessions db' = sessions db"
  using assms by (auto simp: only_log_def)

text \<open>A committed login failure is the service's failure state plus log rows, or nothing.\<close>

lemma login_route_failure:
  assumes "login L secret now salt dr n pw db = (Inl (LoginFailure who reason), db1)"
  shows "\<exists>e db'. login_route L secret now salt dr aid rid n pw db = (Inl e, db')
    \<and> (db' = db \<or> only_log db1 db' \<and> e = authentication_failed_error)"
  using assms by (auto simp: login_route_def finish_login_def dest: stage_auth_audit_Inr
      split: sum.splits)

section \<open>Lockout\<close>

lemma login_locked:
  assumes "user_by_username db n = Some user" "locked now user"
  shows "login L secret now salt dr n pw db = (Inl (LoginFailure (Some (u_id user)) ''LOCKED''), db)"
  using assms by (simp add: login_def)

lemma login_wrong_password:
  assumes "user_by_username db n = Some user" "\<not> locked now user"
    and "\<not> pv_valid (verify_password L (u_password_hash user) pw)"
  shows "login L secret now salt dr n pw db =
    (Inl (LoginFailure (Some (u_id user)) ''INVALID_CREDENTIALS''),
     put_user (u_id user) (count_failure now) (put_user (u_id user) clear_lock db))"
  using assms by (simp add: login_def Let_def)

text \<open>A series of attempts with wrong passwords, each committed by its route.\<close>

record attempt =
  at_now :: time
  at_salt :: nat
  at_draw :: session_draw
  at_aid :: uuid
  at_rid :: uuid
  at_password :: ustr

primrec attempts :: "lib \<Rightarrow> ustr \<Rightarrow> ustr \<Rightarrow> attempt list \<Rightarrow> db \<Rightarrow> db" where
  "attempts L secret n [] db = db"
| "attempts L secret n (a # as) db = attempts L secret n as
     (snd (login_route L secret (at_now a) (at_salt a) (at_draw a) (at_aid a) (at_rid a) n
        (at_password a) db))"

lemma reason_flat: "reason \<in> {''LOCKED'', ''INVALID_CREDENTIALS''} \<Longrightarrow>
    flat_ascii [(u ''reason'', JStr (u reason))]"
  by (auto simp: flat_ascii_def ascii_def u_def)

lemma stage_denied:
  assumes "reason \<in> {''LOCKED'', ''INVALID_CREDENTIALS''}"
  shows "\<exists>db'. stage_auth_audit L aid (auth_event a action who outcome rid (reason_json reason)) db
    = Inr db' \<and> only_log db db'"
proof -
  have "\<exists>row. audit_row L aid (auth_event a action who outcome rid (reason_json reason)) = Inr row
      \<and> al_event_key row = None"
    using audit_row_flat [OF _ reason_flat [OF assms], of "auth_event a action who outcome rid (reason_json reason)" L aid]
    by (auto simp: auth_event_def reason_json_def)
  then show ?thesis by (auto simp: stage_auth_audit_def insert_audit_def)
qed

lemma login_route_wrong_password:
  assumes "user_by_username db n = Some user" "\<not> locked now user"
    and "\<not> pv_valid (verify_password L (u_password_hash user) pw)"
  shows "\<exists>db'. login_route L secret now salt dr aid rid n pw db = (Inl authentication_failed_error, db')
    \<and> user_by_username db' n = Some (count_failure now (clear_lock user))"
proof -
  let ?db1 = "put_user (u_id user) (count_failure now) (put_user (u_id user) clear_lock db)"
  have l: "login L secret now salt dr n pw db =
      (Inl (LoginFailure (Some (u_id user)) ''INVALID_CREDENTIALS''), ?db1)"
    by (rule login_wrong_password [OF assms])
  have u: "user_by_username ?db1 n = Some (count_failure now (clear_lock user))"
    using assms(1) by (simp add: user_by_username_put)
  obtain db2 where "stage_auth_audit L aid (auth_event (failure_actor (Some (u_id user)) ?db1)
      ''auth.login'' (Some (u_id user)) ''DENIED'' rid (reason_json ''INVALID_CREDENTIALS'')) ?db1 = Inr db2"
    and "only_log ?db1 db2"
    using stage_denied [of "''INVALID_CREDENTIALS''" L] by blast
  with l u only_log_users show ?thesis by (auto simp: login_route_def finish_login_def)
qed

lemma attempts_until_lock:
  assumes "user_by_username db n = Some user" "u_locked_until user = None"
    and "u_failed_login_count user + length as = MAX_LOGIN_FAILURES" "as \<noteq> []"
    and "\<forall>a \<in> set as. \<not> pv_valid (verify_password L (u_password_hash user) (at_password a))"
  shows "\<exists>user'. user_by_username (attempts L secret n as db) n = Some user'
    \<and> u_locked_until user' = Some (at_now (last as) + LOGIN_LOCK_DURATION)
    \<and> u_failed_login_count user' = MAX_LOGIN_FAILURES"
  using assms
proof (induction as arbitrary: db user)
  case (Cons a as)
  from Cons.prems(1,2,5) obtain db1 where
    r: "login_route L secret (at_now a) (at_salt a) (at_draw a) (at_aid a) (at_rid a) n (at_password a) db
      = (Inl authentication_failed_error, db1)"
    and u1: "user_by_username db1 n = Some (count_failure (at_now a) user)"
    using login_route_wrong_password [of db n user "at_now a" L "at_password a"]
    by (fastforce simp: locked_def clear_lock_def)
  from Cons.prems(3) have le: "u_failed_login_count user \<le> MAX_LOGIN_FAILURES" by simp
  note cf = count_failure_facts [OF le, of "at_now a"]
  show ?case
  proof (cases "as = []")
    case True
    with Cons.prems(3) have "u_failed_login_count user + 1 = MAX_LOGIN_FAILURES" by simp
    with True r u1 cf show ?thesis by simp
  next
    case False
    with Cons.prems(2,3) cf have
      "u_locked_until (count_failure (at_now a) user) = None"
      "u_failed_login_count (count_failure (at_now a) user) + length as = MAX_LOGIN_FAILURES"
      by (cases as; simp)+
    with Cons.IH [OF u1] Cons.prems(5) False r show ?thesis by simp
  qed
qed simp

lemma login_route_locked:
  assumes "user_by_username db n = Some user" "locked now user"
  shows "\<exists>db'. login_route L secret now salt dr aid rid n pw db = (Inl authentication_failed_error, db')
    \<and> only_log db db'"
proof -
  obtain db2 where "stage_auth_audit L aid (auth_event (failure_actor (Some (u_id user)) db)
      ''auth.login'' (Some (u_id user)) ''DENIED'' rid (reason_json ''LOCKED'')) db = Inr db2"
    and "only_log db db2"
    using stage_denied [of "''LOCKED''" L] by blast
  with login_locked [OF assms] show ?thesis by (auto simp: login_route_def finish_login_def)
qed

section \<open>Failure counts stay within the column\<close>

definition login_counts_ok :: "db \<Rightarrow> bool" where
  "login_counts_ok db \<longleftrightarrow> (\<forall>x \<in> set (users db). u_failed_login_count x \<le> MAX_LOGIN_FAILURES)"

lemma login_counts_put:
  assumes "login_counts_ok db"
    "\<And>x. u_failed_login_count x \<le> MAX_LOGIN_FAILURES \<Longrightarrow> u_failed_login_count (f x) \<le> MAX_LOGIN_FAILURES"
  shows "login_counts_ok (put_user i f db)"
  using assms by (auto simp: login_counts_ok_def put_user_def set_update_rows)

lemma login_counts_updates:
  "u_failed_login_count x \<le> MAX_LOGIN_FAILURES \<Longrightarrow> u_failed_login_count (clear_lock x) \<le> MAX_LOGIN_FAILURES"
  "u_failed_login_count (count_failure now x) \<le> MAX_LOGIN_FAILURES"
  "u_failed_login_count (accept_login now h x) \<le> MAX_LOGIN_FAILURES"
  "u_failed_login_count (set_password now h m x) \<le> MAX_LOGIN_FAILURES"
  by (simp_all add: clear_lock_def count_failure_def accept_login_def set_password_def Let_def)

lemma issue_session_frame:
  "issue_session L secret dr user db = (r, db') \<Longrightarrow> users db' = users db
     \<and> audit_logs db' = audit_logs db \<and> devices db' = devices db
     \<and> (\<exists>new. sessions db' = sessions db @ new \<and> length new \<le> 1)"
  by (auto simp: issue_session_def Let_def split: option.splits sum.splits prod.splits)

lemma issue_session_Inr:
  "issue_session L secret dr user db = (Inr pair, db') \<Longrightarrow> sessions db' = sessions db @ [last (sessions db')]
     \<and> s_id (last (sessions db')) = sd_session_id dr \<and> s_revoked_at (last (sessions db')) = None
     \<and> hash_token L (sp_refresh_token pair) = Some (s_refresh_token_hash (last (sessions db')))"
  by (auto simp: issue_session_def Let_def split: option.splits sum.splits prod.splits)

lemma login_counts_users: "users db' = users db \<Longrightarrow> login_counts_ok db' = login_counts_ok db"
  by (simp add: login_counts_ok_def)

lemma login_counts_login:
  assumes "login_counts_ok db" "login L secret now salt dr n pw db = (r, db')"
  shows "login_counts_ok db'"
proof -
  let ?db1 = "\<lambda>i. put_user i clear_lock db"
  have c1: "login_counts_ok (?db1 i)" for i
    using assms(1) by (rule login_counts_put) (rule login_counts_updates)
  have c2: "login_counts_ok (put_user i (count_failure now) (?db1 i))" for i
    by (rule login_counts_put [OF c1]) (rule login_counts_updates)
  have c3: "login_counts_ok (put_user i (accept_login now h) (?db1 i))" for i h
    by (rule login_counts_put [OF c1]) (rule login_counts_updates)
  have c4: "login_counts_ok db3"
    if "issue_session L secret dr x (put_user i (accept_login now h) (?db1 i)) = (q, db3)" for x i h q db3
    using issue_session_frame [OF that] c3 [of i h] by (simp add: login_counts_ok_def)
  from assms c1 c2 c4 show ?thesis
    by (auto simp: login_def Let_def split: option.splits if_splits sum.splits prod.splits)
qed

section \<open>One-time credentials\<close>

text \<open>
  The contract of exchanging a rotating credential: success spends it, a spent one is
  refused, and no other exchange restores it.  In any sequence of exchanges, each
  credential then succeeds at most once.
\<close>

text \<open>How often a sequence of exchanges succeeds with one credential.\<close>

primrec exchange_successes ::
  "('x \<Rightarrow> ustr \<Rightarrow> db \<Rightarrow> 'p result \<times> db) \<Rightarrow> ustr \<Rightarrow> ('x \<times> ustr) list \<Rightarrow> db \<Rightarrow> nat" where
  "exchange_successes ex raw [] db = 0"
| "exchange_successes ex raw (c # cs) db =
     (let (r, db') = ex (fst c) (snd c) db in
      (if snd c = raw \<and> \<not> isl r then 1 else 0) + exchange_successes ex raw cs db')"

locale one_time_credential =
  fixes exchange :: "'x \<Rightarrow> ustr \<Rightarrow> db \<Rightarrow> 'p result \<times> db"
    and spent :: "ustr \<Rightarrow> db \<Rightarrow> bool"
  assumes spends: "exchange x raw db = (Inr p, db') \<Longrightarrow> spent raw db'"
    and refused: "spent raw db \<Longrightarrow> exchange x raw db = (r, db') \<Longrightarrow> isl r"
    and stays: "spent raw db \<Longrightarrow> exchange x raw' db = (r, db') \<Longrightarrow> spent raw db'"
begin

lemma spent_never_succeeds: "spent raw db \<Longrightarrow> exchange_successes exchange raw cs db = 0"
proof (induction cs arbitrary: db)
  case (Cons c cs)
  obtain r db' where e: "exchange (fst c) (snd c) db = (r, db')" by fastforce
  from Cons.prems e have "spent raw db'" by (rule stays)
  then have "exchange_successes exchange raw cs db' = 0" by (rule Cons.IH)
  moreover have "snd c = raw \<Longrightarrow> isl r" using refused [OF Cons.prems, of "fst c"] e by simp
  ultimately show ?case using e by auto
qed simp

lemma at_most_once: "exchange_successes exchange raw cs db \<le> 1"
proof (induction cs arbitrary: db)
  case (Cons c cs)
  obtain r db' where e: "exchange (fst c) (snd c) db = (r, db')" by fastforce
  show ?case
  proof (cases "snd c = raw \<and> \<not> isl r")
    case True
    then obtain p where "r = Inr p" by (cases r) auto
    with e True have "spent raw db'" using spends by blast
    then have "exchange_successes exchange raw cs db' = 0" by (rule spent_never_succeeds)
    with e show ?thesis by simp
  next
    case False
    with e Cons.IH [of db'] show ?thesis by auto
  qed
qed simp

end

lemma session_by_hash_put:
  assumes "\<And>s. s_refresh_token_hash (f s) = s_refresh_token_hash s"
  shows "session_by_refresh_hash (put_session i f db) h
    = map_option (\<lambda>s. if s_id s = i then f s else s) (session_by_refresh_hash db h)"
  using assms by (simp add: session_by_refresh_hash_def put_session_def find_update_rows)

lemma session_by_hash_append:
  assumes "sessions db' = sessions db @ new" "session_by_refresh_hash db h = Some s"
  shows "session_by_refresh_hash db' h = Some s"
  using assms by (simp add: session_by_refresh_hash_def find_append)

definition refresh_spent :: "lib \<Rightarrow> ustr \<Rightarrow> db \<Rightarrow> bool" where
  "refresh_spent L raw db \<longleftrightarrow> (case hash_token L raw of
       None \<Rightarrow> True
     | Some h \<Rightarrow> (case session_by_refresh_hash db h of
         None \<Rightarrow> False | Some s \<Rightarrow> s_revoked_at s \<noteq> None))"

lemma refresh_spent_step:
  assumes "refresh_spent L raw db" "sessions db' = sessions (put_session i f db) @ new"
    and "\<And>s. s_refresh_token_hash (f s) = s_refresh_token_hash s"
    and "\<And>s. s_revoked_at s \<noteq> None \<Longrightarrow> s_revoked_at (f s) \<noteq> None"
  shows "refresh_spent L raw db'"
proof (cases "hash_token L raw")
  case (Some h)
  with assms(1) obtain s where s: "session_by_refresh_hash db h = Some s" "s_revoked_at s \<noteq> None"
    by (auto simp: refresh_spent_def split: option.splits)
  then have "session_by_refresh_hash (put_session i f db) h = Some (if s_id s = i then f s else s)"
    using assms(3) by (simp add: session_by_hash_put)
  from session_by_hash_append [OF assms(2) this] s(2) assms(4) Some show ?thesis
    by (simp add: refresh_spent_def)
qed (simp add: refresh_spent_def)

lemma rotate_cases:
  assumes "rotate_refresh_token L secret now dr raw db = (r, db')"
  obtains "isl r" "sessions db' = sessions db"
  | h current db1 new where "hash_token L raw = Some h"
    "session_by_refresh_hash db h = Some current" "s_revoked_at current = None"
    "s_kind current = SESSION_USER" "now < s_refresh_expires_at current"
    "db1 = put_session (s_id current)
       (\<lambda>s. s\<lparr>s_refresh_used_at := Some now, s_revoked_at := Some now\<rparr>) db"
    "sessions db' = sessions db1 @ new"
  using assms issue_session_frame
  by (fastforce simp: rotate_refresh_token_def Let_def split: option.splits if_splits)

interpretation browser_refresh: one_time_credential
  "\<lambda>x raw. refresh_route L secret (fst x) (snd x) (Some raw)" "refresh_spent L" for L secret
proof
  fix x :: "time \<times> session_draw" and raw raw' :: ustr and db db' :: db
    and p :: session_pair and r :: "session_pair result"
  show "refresh_spent L raw db'"
    if "refresh_route L secret (fst x) (snd x) (Some raw) db = (Inr p, db')"
  proof -
    from that have rot: "rotate_refresh_token L secret (fst x) (snd x) raw db = (Inr p, db')"
      by (auto simp: refresh_route_def split: prod.splits sum.splits exn.splits)
    from rot show ?thesis
    proof (cases rule: rotate_cases)
      case (2 h current db1 new)
      have "session_by_refresh_hash db1 h = Some (current\<lparr>s_refresh_used_at := Some (fst x),
          s_revoked_at := Some (fst x)\<rparr>)"
        using 2 by (simp add: session_by_hash_put)
      from session_by_hash_append [OF 2(7) this] 2(1) show ?thesis by (simp add: refresh_spent_def)
    qed simp
  qed
  show "isl r" if "refresh_spent L raw db"
    "refresh_route L secret (fst x) (snd x) (Some raw) db = (r, db')"
    using that by (auto simp: refresh_route_def rotate_refresh_token_def refresh_spent_def
        split: option.splits prod.splits sum.splits exn.splits if_splits)
  show "refresh_spent L raw db'" if s: "refresh_spent L raw db"
    and e: "refresh_route L secret (fst x) (snd x) (Some raw') db = (r, db')"
  proof (cases r)
    case (Inl err)
    with e have "db' = db"
      by (auto simp: refresh_route_def split: prod.splits sum.splits exn.splits)
    with s show ?thesis by simp
  next
    case (Inr p)
    with e have rot: "rotate_refresh_token L secret (fst x) (snd x) raw' db = (Inr p, db')"
      by (auto simp: refresh_route_def split: prod.splits sum.splits exn.splits)
    from rot show ?thesis
    proof (cases rule: rotate_cases)
      case (2 h current db1 new)
      from 2(7) [unfolded 2(6)] show ?thesis
        by (rule refresh_spent_step [OF s]) simp_all
    qed simp
  qed
qed

section \<open>Access tokens\<close>

lemma authenticate_Inr:
  assumes "authenticate_access_token L secret now token db = Inr user"
  obtains claims i s where "decode_access_token L now secret token = Inr claims"
    "claim_uuid L claims ''session_id'' = Some i" "get_session db i = Some s"
    "s_kind s = SESSION_USER" "s_revoked_at s = None" "now < s_access_expires_at s"
    "s_user_id s = Some (u_id user)" "get_user db (u_id user) = Some user"
    "u_status user = USER_ACTIVE"
  using assms
  by (auto simp: authenticate_access_token_def split: sum.splits option.splits if_splits)
    (metis get_rows_id(1) not_le)

lemma authenticate_revoked:
  assumes "decode_access_token L now secret token = Inr claims"
    and "claim_uuid L claims ''session_id'' = Some i"
    and "get_session db i = Some s" "s_revoked_at s \<noteq> None"
  shows "authenticate_access_token L secret now token db = Inl InvalidSession"
  using assms by (auto simp: authenticate_access_token_def split: option.splits)

lemma revoke_all_sessions:
  "s \<in> set (sessions (revoke_all_for_user i at db)) \<Longrightarrow> s_user_id s = Some i \<Longrightarrow> s_revoked_at s \<noteq> None"
  by (auto simp: revoke_all_for_user_def set_update_rows split: if_splits)

text \<open>After a password change only the session it issued is alive for the user.\<close>

lemma change_password_revokes:
  assumes "change_password L secret now salt dr i pw new_pw db = (Inr c, db')"
    and "s \<in> set (sessions db')" "s_user_id s = Some i" "s_revoked_at s = None"
  shows "s = last (sessions db') \<and> s_id s = sd_session_id dr
    \<and> hash_token L (sp_refresh_token (cl_pair c)) = Some (s_refresh_token_hash s)"
proof -
  from assms(1) obtain x h pair where x: "get_user db i = Some x"
    and iss: "issue_session L secret dr (set_password now h False x)
      (revoke_all_for_user (u_id x) now (put_user (u_id x) (set_password now h False) db)) = (Inr pair, db')"
    and c: "cl_pair c = pair"
    by (auto simp: change_password_def Let_def split: option.splits if_splits sum.splits prod.splits)
  let ?old = "sessions (revoke_all_for_user (u_id x) now (put_user (u_id x) (set_password now h False) db))"
  from x have ux: "u_id x = i" by (rule get_rows_id)
  note new = issue_session_Inr [OF iss]
  have "s \<notin> set ?old" using revoke_all_sessions [of s i now] assms(3,4) ux by auto
  with assms(2) new have "s = last (sessions db')"
    by (metis Un_iff empty_iff insert_iff list.set(1) list.set(2) set_append)
  with new c show ?thesis by simp
qed

lemma put_session_revoked:
  assumes "get_session db i = Some s" "s_revoked_at s \<noteq> None"
  shows "\<exists>s'. get_session (revoke_session now j db) i = Some s' \<and> s_revoked_at s' \<noteq> None"
  using assms by (simp add: revoke_session_def row_simps)

lemma fold_revoke:
  "i \<in> set is \<or> (\<exists>s. get_session db i = Some s \<and> s_revoked_at s \<noteq> None) \<Longrightarrow>
   get_session db i \<noteq> None \<Longrightarrow>
   \<exists>s. get_session (fold (revoke_session now) is db) i = Some s \<and> s_revoked_at s \<noteq> None"
proof (induction "is" arbitrary: db)
  case (Cons j "is")
  from Cons.prems(2) obtain y where y: "get_session db i = Some y" by blast
  then have g: "get_session (revoke_session now j db) i
      = Some (if i = j then y\<lparr>s_revoked_at := Some now\<rparr> else y)"
    by (simp add: revoke_session_def row_simps)
  then have ne: "get_session (revoke_session now j db) i \<noteq> None" by simp
  have "i \<in> set is \<or> (\<exists>s. get_session (revoke_session now j db) i = Some s \<and> s_revoked_at s \<noteq> None)"
    using Cons.prems(1) g y by (cases "i = j") auto
  from Cons.IH [OF this ne] show ?case by simp
qed auto

section \<open>Logout\<close>

lemma logout_Inr:
  assumes "logout L secret now access ref db = (Inr x, db')"
  obtains ids where "logout_records L secret now access ref db = Inr ids" "db' = fold (revoke_session now) ids db"
  using assms by (auto simp: logout_def split: sum.splits)

lemma logout_records_refresh:
  assumes "logout_records L secret now access (Some raw) db = Inr ids" "raw \<noteq> []"
    and "hash_token L raw = Some h" "session_by_refresh_hash db h = Some s"
  shows "s_id s \<in> set ids"
  using assms by (auto simp: logout_records_def)

lemma logout_records_access:
  assumes "logout_records L secret now (Some tok) ref db = Inr ids" "tok \<noteq> []"
    and "decode_access_token L now secret tok = Inr claims" "claim_uuid L claims ''session_id'' = Some i"
    and "get_session db i = Some s"
  shows "s_id s \<in> set ids"
  using assms by (auto simp: logout_records_def split: sum.splits)

lemma fold_revoke_by_hash:
  assumes "session_by_refresh_hash db h = Some s" "s_id s \<in> set ids \<or> s_revoked_at s \<noteq> None"
  shows "\<exists>s'. session_by_refresh_hash (fold (revoke_session now) ids db) h = Some s' \<and> s_revoked_at s' \<noteq> None"
  using assms
proof (induction ids arbitrary: db s)
  case (Cons j ids)
  let ?s = "if s_id s = j then s\<lparr>s_revoked_at := Some now\<rparr> else s"
  have "session_by_refresh_hash (revoke_session now j db) h = Some ?s"
    using Cons.prems(1) by (simp add: revoke_session_def session_by_hash_put)
  moreover have "s_id ?s \<in> set ids \<or> s_revoked_at ?s \<noteq> None" using Cons.prems(2) by auto
  ultimately show ?case using Cons.IH by simp
qed auto

end
