(* ===== verification/Users_Proofs.thy ===== *)
theory Users_Proofs
  imports Users Auth_Proofs
begin

text \<open>
  Correctness of account management: identifiers and names stay unique, there is never
  more than one OWNER, STAFF management never touches the OWNER's row and only the
  OWNER performs it, and disabling or resetting an account ends its browser sessions.
\<close>

section \<open>Denials\<close>

definition known_reason :: "string \<Rightarrow> bool" where
  "known_reason r \<longleftrightarrow> r \<in> {''OWNER_REQUIRED'', ''USER_NOT_FOUND'', ''OWNER_PROTECTED'',
     ''PROJECT_NOT_FOUND'', ''USERNAME_CONFLICT'', ''EMPTY_UPDATE''}"

lemma known_reason_ascii: "known_reason r \<Longrightarrow> ascii (u r)"
  by (auto simp: known_reason_def ascii_def u_def)

lemma user_denied_commits:
  assumes "known_reason reason"
  shows "\<exists>row. user_denied L aid a action rid i reason e db
      = (Inl e, db\<lparr>audit_logs := audit_logs db @ [row]\<rparr>)
    \<and> al_outcome row = ''DENIED'' \<and> al_action row = action \<and> al_actor_id row = Some (actor_subject a)"
proof -
  let ?ev = "\<lparr>ev_actor = a, ev_action = action, ev_object_type = ''user'', ev_object_id = i,
    ev_project_id = None, ev_outcome = ''DENIED'', ev_request_id = rid, ev_event_key = None,
    ev_metadata = JObj [(u ''reason'', JStr (u reason))]\<rparr>"
  have "flat_ascii [(u ''reason'', JStr (u reason))]"
    using known_reason_ascii [OF assms] by (auto simp: flat_ascii_def ascii_def u_def)
  from audit_record_flat [OF _ this, of ?ev L aid db] show ?thesis
    by (auto simp: user_denied_def user_record_def)
qed

lemma user_denied_frame:
  "user_denied L aid a action rid i reason e db = (r, db') \<Longrightarrow> only_log db db' \<and> isl r"
  using audit_service.only_logs [of db L "(aid, \<lparr>ev_actor = a, ev_action = action,
    ev_object_type = ''user'', ev_object_id = i, ev_project_id = None, ev_outcome = ''DENIED'',
    ev_request_id = rid, ev_event_key = None, ev_metadata = JObj [(u ''reason'', JStr (u reason))]\<rparr>)"]
  by (auto simp: user_denied_def user_record_def split: prod.splits sum.splits)

text \<open>A refusal of \<open>_staff_for_update\<close> only logs; what it returns is a STAFF row.\<close>

lemma staff_for_update_Inl:
  assumes "staff_for_update L aid a action i rid db = Inl (r, db')"
  shows "only_log db db' \<and> isl r"
proof -
  have "\<exists>reason e. user_denied L aid a action rid (Some i) reason e db = (r, db')"
    using assms by (auto simp: staff_for_update_def split: if_splits option.splits)
  then show ?thesis by (auto dest: user_denied_frame)
qed

lemma staff_for_update_Inr:
  "staff_for_update L aid a action i rid db = Inr x \<Longrightarrow>
     is_owner a \<and> get_user db i = Some x \<and> u_role x = STAFF"
  by (auto simp: staff_for_update_def split: if_splits option.splits) (metis role.exhaust)

section \<open>The account invariant\<close>

definition account_key :: "user \<Rightarrow> uuid \<times> ustr \<times> role" where
  "account_key x = (u_id x, u_username x, u_role x)"

definition accounts_ok :: "db \<Rightarrow> bool" where
  "accounts_ok db \<longleftrightarrow> distinct (map u_id (users db)) \<and> distinct (map u_username (users db))
     \<and> length (filter (\<lambda>x. u_role x = OWNER) (users db)) \<le> 1
     \<and> list_all (\<lambda>x. username_ok (u_username x)) (users db)"

definition same_accounts :: "db \<Rightarrow> db \<Rightarrow> bool" where
  "same_accounts db db' \<longleftrightarrow> map account_key (users db') = map account_key (users db)"

lemma same_accounts_refl [simp, intro]: "same_accounts db db"
  by (simp add: same_accounts_def)

lemma same_accounts_trans: "same_accounts a b \<Longrightarrow> same_accounts b c \<Longrightarrow> same_accounts a c"
  by (simp add: same_accounts_def)

lemma same_accounts_users: "users db' = users db \<Longrightarrow> same_accounts db db'"
  by (simp add: same_accounts_def)

lemma same_accounts_log: "only_log db db' \<Longrightarrow> same_accounts db db'"
  by (auto simp: only_log_def intro: same_accounts_users)

lemma same_accounts_put:
  assumes "\<And>x. account_key (f x) = account_key x"
  shows "same_accounts db (put_user i f db)"
  using assms by (simp add: same_accounts_def put_user_def map_update_rows_same)

lemma same_accounts_ok:
  assumes "same_accounts db db'"
  shows "accounts_ok db' = accounts_ok db"
proof -
  have k: "map account_key (users db') = map account_key (users db)"
    using assms by (simp add: same_accounts_def)
  have "map fst (map account_key us) = map u_id us"
    "map (fst \<circ> snd) (map account_key us) = map u_username us"
    "length (filter (\<lambda>x. snd (snd x) = OWNER) (map account_key us))
      = length (filter (\<lambda>x. u_role x = OWNER) us)"
    "list_all (\<lambda>x. username_ok (fst (snd x))) (map account_key us)
      = list_all (\<lambda>x. username_ok (u_username x)) us" for us
    by (induction us) (simp_all add: account_key_def)
  with k show ?thesis unfolding accounts_ok_def by metis
qed

lemma insert_user_Inr:
  "insert_user row db = Inr db' \<Longrightarrow> db' = db\<lparr>users := users db @ [row]\<rparr>"
  by (auto simp: insert_user_def split: if_splits)

lemma insert_user_ok:
  assumes "accounts_ok db" "insert_user row db = Inr db'"
  shows "accounts_ok db'"
proof -
  have "filter (\<lambda>x. u_role x = OWNER) (users db) = []" if "u_role row = OWNER"
    using assms(2) that by (auto simp: insert_user_def list_ex_iff filter_empty_conv split: if_splits)
  moreover have "u_id row \<notin> u_id ` set (users db)" "u_username row \<notin> u_username ` set (users db)"
    using assms(2) by (force simp: insert_user_def list_ex_iff split: if_splits)+
  moreover have "username_ok (u_username row)" using assms(2) by (simp add: insert_user_def split: if_splits)
  moreover have "users db' = users db @ [row]" using insert_user_Inr [OF assms(2)] by simp
  ultimately show ?thesis using assms(1) by (simp add: accounts_ok_def)
qed

lemma insert_second_owner:
  "\<exists>x \<in> set (users db). u_role x = OWNER \<Longrightarrow> u_role row = OWNER \<Longrightarrow> \<exists>e. insert_user row db = Inl e"
  by (auto simp: insert_user_def list_ex_iff)

lemma account_key_updates [simp]:
  "account_key (clear_lock x) = account_key x" "account_key (count_failure now x) = account_key x"
  "account_key (accept_login now h x) = account_key x"
  "account_key (set_password now h m x) = account_key x"
  "account_key (reset_password now h m x) = account_key x"
  "account_key (x\<lparr>u_display_name := n\<rparr>) = account_key x"
  "account_key (x\<lparr>u_status := st\<rparr>) = account_key x"
  by (simp_all add: account_key_def clear_lock_def count_failure_def accept_login_def
      set_password_def reset_password_def Let_def)

lemma revoke_all_users [simp]: "users (revoke_all_for_user i at db) = users db"
  by (simp add: revoke_all_for_user_def)

lemma replace_memberships_users [simp]: "users (replace_project_memberships i ids db) = users db"
  by (simp add: replace_project_memberships_def)

section \<open>Frames of the operations\<close>

lemma create_staff_users:
  assumes "create_staff L now salt pw new_id aid a c rid db = (r, db')"
  shows "only_log db db' \<and> isl r \<or> is_owner a \<and> (\<exists>row db1. u_role row = STAFF \<and> u_id row = new_id
    \<and> u_username row = sc_username c \<and> u_must_change_password row
    \<and> insert_user row db = Inr db1 \<and> users db' = users db1)"
proof (cases "is_owner a")
  case False
  with assms show ?thesis by (auto simp: create_staff_def dest: user_denied_frame)
next
  case owner: True
  let ?ids = "sort (sc_project_ids c)"
  show ?thesis
  proof (cases "length (projects_for_update db ?ids) = length ?ids")
    case False
    with assms owner show ?thesis by (auto simp: create_staff_def Let_def dest: user_denied_frame)
  next
    case found: True
    show ?thesis
    proof (cases "hash_password L salt pw")
      case (Inl e)
      with assms owner found show ?thesis by (auto simp: create_staff_def Let_def)
    next
      case (Inr h)
      let ?row = "\<lparr>u_id = new_id, u_username = sc_username c, u_display_name = sc_display_name c,
        u_password_hash = h, u_must_change_password = True, u_password_changed_at = now,
        u_failed_login_count = 0, u_locked_until = None, u_role = STAFF, u_status = USER_ACTIVE,
        u_last_login_at = None\<rparr>"
      show ?thesis
      proof (cases "insert_user ?row db")
        case Inl
        with assms owner found Inr show ?thesis
          by (auto simp: create_staff_def Let_def dest: user_denied_frame)
      next
        case (Inr db1)
        with assms owner found \<open>hash_password L salt pw = Inr h\<close> have "users db' = users db1"
          by (auto simp: create_staff_def Let_def)
        with Inr owner show ?thesis by (intro disjI2 conjI exI [of _ ?row] exI [of _ db1]) simp_all
      qed
    qed
  qed
qed

lemma update_staff_cases:
  assumes "update_staff L now aid a i c rid db = (r, db')"
  obtains "isl r" "only_log db db'"
  | x f where "is_owner a" "get_user db i = Some x" "u_role x = STAFF"
    "\<And>y. account_key (f y) = account_key y" "users db' = users (put_user i f db)"
    "su_status c = Some USER_DISABLED \<longrightarrow> (\<forall>s \<in> set (sessions db').
       s_user_id s = Some i \<longrightarrow> s_revoked_at s \<noteq> None)"
    "\<And>y. su_status c = Some USER_DISABLED \<Longrightarrow> u_status (f y) = USER_DISABLED"
proof (cases "staff_for_update L aid a ''user.update'' i rid db :: (owner_user_view result \<times> db) + user")
  case (Inl p)
  with assms have "staff_for_update L aid a ''user.update'' i rid db = Inl (r, db')"
    by (simp add: update_staff_def)
  then show ?thesis using that(1) staff_for_update_Inl by blast
next
  case (Inr x)
  let ?f = "\<lambda>x. (\<lambda>x. case su_status c of None \<Rightarrow> x | Some s \<Rightarrow> x\<lparr>u_status := s\<rparr>)
    ((\<lambda>x. case su_display_name c of None \<Rightarrow> x | Some n \<Rightarrow> x\<lparr>u_display_name := n\<rparr>) x)"
  show ?thesis
  proof (cases "su_display_name c = None \<and> su_status c = None")
    case True
    with Inr assms have "user_denied L aid a ''user.update'' rid (Some i) ''EMPTY_UPDATE''
        (DomainError ''VALIDATION_ERROR'' ''Request validation failed'' 422) db = (r, db')"
      by (simp add: update_staff_def)
    then show ?thesis using that(1) user_denied_frame by blast
  next
    case False
    with Inr assms have d: "db' = (if su_status c = Some USER_DISABLED
        then revoke_all_for_user i now (put_user i ?f db) else put_user i ?f db)"
      by (simp add: update_staff_def Let_def)
    have k: "account_key (?f y) = account_key y" for y
      by (simp split: option.split)
    from d have us: "users db' = users (put_user i ?f db)" by simp
    have rv: "su_status c = Some USER_DISABLED \<longrightarrow> (\<forall>s \<in> set (sessions db').
       s_user_id s = Some i \<longrightarrow> s_revoked_at s \<noteq> None)"
      using d revoke_all_sessions by simp
    from staff_for_update_Inr [OF Inr] that(2) [OF _ _ _ k us rv] show ?thesis by simp
  qed
qed

lemma replace_projects_users:
  assumes "replace_projects L aid a i ids rid db = (r, db')"
  shows "users db' = users db \<and> (is_owner a \<or> only_log db db' \<and> isl r)"
proof (cases "staff_for_update L aid a ''user.projects.replace'' i rid db
    :: (owner_user_view result \<times> db) + user")
  case (Inl p)
  with assms have "staff_for_update L aid a ''user.projects.replace'' i rid db = Inl (r, db')"
    by (simp add: replace_projects_def)
  from staff_for_update_Inl [OF this] show ?thesis by (auto simp: only_log_gets)
next
  case (Inr x)
  have "users db' = users db"
  proof (cases "length (projects_for_update db (sort ids)) = length ids")
    case False
    with Inr assms have "user_denied L aid a ''user.projects.replace'' rid (Some i)
        ''PROJECT_NOT_FOUND'' project_not_found db = (r, db')"
      by (simp add: replace_projects_def Let_def)
    then show ?thesis using user_denied_frame only_log_gets(4) by blast
  next
    case True
    with Inr assms show ?thesis by (auto simp: replace_projects_def Let_def)
  qed
  with staff_for_update_Inr [OF Inr] show ?thesis by simp
qed

lemma reset_staff_cases:
  assumes "reset_staff_password L now salt pw aid a i rid db = (r, db')"
  obtains "isl r" "only_log db db'"
  | x h where "is_owner a" "get_user db i = Some x" "u_role x = STAFF" "r = Inr pw"
    "db' = revoke_all_for_user i now (put_user i (reset_password now h True) db)"
proof (cases "staff_for_update L aid a ''user.password.reset'' i rid db :: (ustr result \<times> db) + user")
  case (Inl p)
  with assms have "staff_for_update L aid a ''user.password.reset'' i rid db = Inl (r, db')"
    by (simp add: reset_staff_password_def)
  then show ?thesis using that(1) staff_for_update_Inl by blast
next
  case (Inr x)
  show ?thesis
  proof (cases "hash_password L salt pw")
    case (Inl e)
    with \<open>staff_for_update L aid a ''user.password.reset'' i rid db = Inr x\<close> assms
    have "r = Inl e" "db' = db" by (auto simp: reset_staff_password_def)
    then show ?thesis using that(1) by simp
  next
    case h: (Inr h)
    with Inr assms that(2) [of x h] staff_for_update_Inr [OF Inr] show ?thesis
      by (simp add: reset_staff_password_def)
  qed
qed

lemma user_success_frame:
  assumes "user_success aid a action rid f start (r, db1) = (r', db')"
  shows "only_log db1 db'"
  using assms by (auto simp: user_success_def insert_audit_def split: sum.splits)

section \<open>Steps\<close>

text \<open>Every operation that writes the user table, with the values it draws.\<close>

datatype account_op =
    CreateStaff time nat ustr uuid uuid actor staff_create uuid
  | UpdateStaff time uuid actor uuid staff_update uuid
  | ReplaceProjects uuid actor uuid "uuid list" uuid
  | ResetStaff time nat ustr uuid actor uuid uuid
  | Bootstrap time nat uuid uuid uuid ustr ustr ustr ustr
  | ResetOwner time nat uuid uuid ustr ustr
  | Login time nat session_draw uuid uuid ustr ustr
  | ChangePassword time nat session_draw uuid uuid "ustr option" ustr ustr

fun account_step :: "lib \<Rightarrow> ustr \<Rightarrow> account_op \<Rightarrow> db \<Rightarrow> db" where
  "account_step L secret (CreateStaff now salt pw new_id aid a c rid) db =
     snd (create_staff_route L now salt pw new_id aid a c rid db)"
| "account_step L secret (UpdateStaff now aid a i c rid) db =
     snd (update_staff_route L now aid a i c rid db)"
| "account_step L secret (ReplaceProjects aid a i ids rid) db =
     snd (replace_projects_route L aid a i ids rid db)"
| "account_step L secret (ResetStaff now salt pw aid a i rid) db =
     snd (reset_staff_password_route L now salt pw aid a i rid db)"
| "account_step L secret (Bootstrap now salt new_id aid rid n d pw pw2) db =
     snd (bootstrap_owner L now salt new_id aid rid id n d pw pw2 db)"
| "account_step L secret (ResetOwner now salt aid rid pw pw2) db =
     snd (reset_owner_password L now salt aid rid pw pw2 db)"
| "account_step L secret (Login now salt dr aid rid n pw) db =
     snd (login_route L secret now salt dr aid rid n pw db)"
| "account_step L secret (ChangePassword now salt dr aid rid t pw new_pw) db =
     snd (change_password_route L secret now salt dr aid rid t pw new_pw db)"

lemma bootstrap_owner_ok:
  assumes "\<And>d. accounts_ok d \<Longrightarrow> accounts_ok (race d)" "accounts_ok db"
    and "bootstrap_owner L now salt new_id aid rid race n d pw pw2 db = (r, db')"
  shows "accounts_ok db'"
proof -
  have ra: "accounts_ok (race db)" using assms(1,2) by blast
  have "db' = db \<or> db' = race db \<or> (\<exists>row db1. insert_user row (race db) = Inr db1 \<and> only_log db1 db')"
    using assms(3) by (auto simp: bootstrap_owner_def dest: insert_audit_Inr
        split: if_splits sum.splits)
  with assms(2) ra show ?thesis
    using insert_user_ok same_accounts_log same_accounts_ok by metis
qed

lemma reset_owner_accounts:
  assumes "reset_owner_password L now salt aid rid pw pw2 db = (r, db')"
  shows "same_accounts db db'"
proof -
  have "db' = db \<or> (\<exists>i h. only_log (revoke_all_for_user i now (put_user i (reset_password now h False) db)) db')"
    using assms by (auto simp: reset_owner_password_def dest: insert_audit_Inr
        split: sum.splits option.splits)
  moreover have "same_accounts db (revoke_all_for_user i now (put_user i (reset_password now h False) db))"
    for i h
    by (rule same_accounts_trans [OF same_accounts_put same_accounts_users]) simp_all
  ultimately show ?thesis using same_accounts_log same_accounts_trans same_accounts_refl by metis
qed

lemma login_accounts:
  assumes "login L secret now salt dr n pw db = (r, db')"
  shows "same_accounts db db'"
proof -
  have a: "same_accounts db (put_user i clear_lock db)" for i
    by (rule same_accounts_put) simp
  have b: "same_accounts db (put_user i (count_failure now) (put_user i clear_lock db))" for i
    by (rule same_accounts_trans [OF a same_accounts_put]) simp
  have c: "same_accounts db (put_user i (accept_login now h) (put_user i clear_lock db))" for i h
    by (rule same_accounts_trans [OF a same_accounts_put]) simp
  have d: "same_accounts db db3"
    if "issue_session L secret dr x (put_user i (accept_login now h) (put_user i clear_lock db)) = (q, db3)"
    for x i h q db3
    using issue_session_frame [OF that] c same_accounts_users same_accounts_trans by metis
  from assms a b d show ?thesis
    by (auto simp: login_def Let_def split: option.splits if_splits sum.splits prod.splits)
qed

lemma change_password_accounts:
  assumes "change_password L secret now salt dr i pw new_pw db = (r, db')"
  shows "same_accounts db db'"
proof -
  have a: "same_accounts db (revoke_all_for_user k now (put_user k (set_password now h False) db))" for k h
    by (rule same_accounts_trans [OF same_accounts_put same_accounts_users]) simp_all
  have d: "same_accounts db db3"
    if "issue_session L secret dr x (revoke_all_for_user k now (put_user k (set_password now h False) db))
      = (q, db3)" for x k h q db3
    using issue_session_frame [OF that] a same_accounts_users same_accounts_trans by metis
  from assms d show ?thesis
    by (auto simp: change_password_def Let_def split: option.splits if_splits sum.splits prod.splits)
qed

lemma finish_login_frame:
  assumes "finish_login L aid rid action db (r, db1) = (r', db')"
  shows "db' = db \<or> only_log db1 db'"
  using assms by (auto simp: finish_login_def dest: stage_auth_audit_Inr split: sum.splits exn.splits)

lemma finish_login_accounts:
  assumes "same_accounts db db1" "finish_login L aid rid action db (r, db1) = (r', db')"
  shows "same_accounts db db'"
  using finish_login_frame [OF assms(2)] assms(1) same_accounts_log same_accounts_trans by blast

section \<open>Routes\<close>

lemma create_staff_route_users:
  assumes "create_staff_route L now salt pw new_id aid a c rid db = (r, db')"
  shows "only_log db db' \<or> is_owner a \<and> (\<exists>row db1. u_role row = STAFF
    \<and> insert_user row db = Inr db1 \<and> users db' = users db1)"
proof -
  obtain r1 db1 where c: "create_staff L now salt pw new_id aid a c rid db = (r1, db1)" by fastforce
  with assms have l: "only_log db1 db'" by (auto simp: create_staff_route_def dest: user_success_frame)
  then have "users db' = users db1" by (rule only_log_gets)
  with create_staff_users [OF c] l show ?thesis using only_log_trans by metis
qed

text \<open>What a STAFF-management operation may write: nothing, or one STAFF row, as the OWNER.\<close>

definition staff_write :: "actor \<Rightarrow> uuid \<Rightarrow> db \<Rightarrow> db \<Rightarrow> bool" where
  "staff_write a i db db' \<longleftrightarrow> users db' = users db \<or> is_owner a \<and> (\<exists>x f. get_user db i = Some x \<and> u_role x = STAFF
    \<and> (\<forall>y. account_key (f y) = account_key y) \<and> users db' = users (put_user i f db))"

lemma staff_routes_users:
  assumes "db' = snd (update_staff_route L now aid a i c rid db)
    \<or> db' = snd (replace_projects_route L aid a i ids rid db)
    \<or> db' = snd (reset_staff_password_route L now salt pw aid a i rid db)"
  shows "staff_write a i db db'"
proof -
  obtain r1 db1 where 1: "update_staff L now aid a i c rid db = (r1, db1)" by fastforce
  obtain r2 db2 where 2: "replace_projects L aid a i ids rid db = (r2, db2)" by fastforce
  obtain r3 db3 where 3: "reset_staff_password L now salt pw aid a i rid db = (r3, db3)" by fastforce
  have p1: "staff_write a i db db1" using 1 unfolding staff_write_def
    by (cases rule: update_staff_cases) (use only_log_gets(4) in blast)+
  have p2: "staff_write a i db db2" using replace_projects_users [OF 2] by (simp add: staff_write_def)
  have p3: "staff_write a i db db3" using 3
  proof (cases rule: reset_staff_cases)
    case (2 x h)
    then have "users db3 = users (put_user i (reset_password now h True) db)" by simp
    with 2 show ?thesis unfolding staff_write_def using account_key_updates(5) by blast
  qed (simp add: staff_write_def only_log_gets(4))
  have fr: "users (snd (user_success aid a action rid f db (r, d))) = users d" for action f r d
    using user_success_frame [of aid a action rid f db r d] only_log_gets(4) by (metis prod.collapse)
  have q: "staff_write a i db (snd (user_success aid a action rid f db (r, d)))"
    if "staff_write a i db d" for action f r d
    using that by (simp add: staff_write_def fr)
  from assms show ?thesis
    using q [OF p1] q [OF p2] q [OF p3]
    by (elim disjE) (simp_all add: update_staff_route_def replace_projects_route_def
        reset_staff_password_route_def 1 2 3)
qed

lemma staff_routes_accounts:
  assumes "db' = snd (update_staff_route L now aid a i c rid db)
    \<or> db' = snd (replace_projects_route L aid a i ids rid db)
    \<or> db' = snd (reset_staff_password_route L now salt pw aid a i rid db)"
  shows "same_accounts db db'"
proof -
  have put: "same_accounts db db'" if "\<forall>y. account_key (f y) = account_key y"
    "users db' = users (put_user i f db)" for f
    using same_accounts_put [of f db i] that by (simp add: same_accounts_def)
  from staff_routes_users [OF assms] show ?thesis
    unfolding staff_write_def using put same_accounts_users by blast
qed

lemma account_step_ok:
  assumes "accounts_ok db"
  shows "accounts_ok (account_step L secret op db)"
proof (cases op)
  case (CreateStaff now salt pw new_id aid a c rid)
  obtain r db' where e: "create_staff_route L now salt pw new_id aid a c rid db = (r, db')" by fastforce
  from create_staff_route_users [OF e] have "accounts_ok db'"
  proof (elim disjE conjE exE)
    fix row db1 assume "insert_user row db = Inr db1" "users db' = users db1"
    with insert_user_ok [OF assms] same_accounts_ok [OF same_accounts_users] show ?thesis by blast
  qed (use assms same_accounts_log same_accounts_ok in blast)
  with e CreateStaff show ?thesis by simp
next
  case (Bootstrap now salt new_id aid rid n d pw pw2)
  with bootstrap_owner_ok [of id db L now salt new_id aid rid n d pw pw2] assms show ?thesis
    by (metis account_step.simps(5) id_apply prod.collapse)
next
  case (ResetOwner now salt aid rid pw pw2)
  with reset_owner_accounts same_accounts_ok assms show ?thesis
    by (metis account_step.simps(6) prod.collapse)
next
  case (Login now salt dr aid rid n pw)
  obtain r1 db1 where l: "login L secret now salt dr n pw db = (r1, db1)" by fastforce
  obtain r db' where e: "login_route L secret now salt dr aid rid n pw db = (r, db')" by fastforce
  with l have "finish_login L aid rid ''auth.login'' db (r1, db1) = (r, db')" by (simp add: login_route_def)
  from finish_login_accounts [OF login_accounts [OF l] this] assms e Login show ?thesis
    using same_accounts_ok by simp
next
  case (ChangePassword now salt dr aid rid t pw new_pw)
  have "same_accounts db (snd (change_password_route L secret now salt dr aid rid t pw new_pw db))"
  proof (cases t)
    case (Some tok)
    let ?o = "case authenticate_access_token L secret now tok db of Inl e \<Rightarrow> (Inl e, db)
      | Inr current \<Rightarrow> change_password L secret now salt dr (u_id current) pw new_pw db"
    obtain r1 db1 where l: "?o = (r1, db1)" by fastforce
    then have "same_accounts db db1"
      by (auto split: sum.splits dest: change_password_accounts)
    with finish_login_accounts [of db db1 L aid rid "''auth.password.change''" r1] l Some show ?thesis
      by (metis change_password_route_def option.simps(5) prod.collapse)
  qed (simp add: change_password_route_def)
  with ChangePassword same_accounts_ok assms show ?thesis by simp
next
  case UpdateStaff
  with staff_routes_accounts same_accounts_ok assms show ?thesis by (metis account_step.simps(2))
next
  case ReplaceProjects
  with staff_routes_accounts same_accounts_ok assms show ?thesis by (metis account_step.simps(3))
next
  case ResetStaff
  with staff_routes_accounts same_accounts_ok assms show ?thesis by (metis account_step.simps(4))
qed

lemma account_run_ok: "accounts_ok db \<Longrightarrow> accounts_ok (fold (account_step L secret) ops db)"
  by (induction ops arbitrary: db) (simp_all add: account_step_ok)

section \<open>The OWNER is protected\<close>

lemma put_staff_keeps_owner:
  assumes "distinct (map u_id (users db))" "get_user db i = Some x" "u_role x = STAFF"
    and "\<forall>y. account_key (f y) = account_key y"
  shows "filter (\<lambda>y. u_role y = OWNER) (users (put_user i f db))
    = filter (\<lambda>y. u_role y = OWNER) (users db)"
proof -
  have role: "u_role (f y) = u_role y" for y using assms(4) by (simp add: account_key_def)
  have "u_id y \<noteq> i" if "y \<in> set (users db)" "u_role y = OWNER" for y
  proof
    assume "u_id y = i"
    with user_table.get_of_member [OF assms(1) that(1)] assms(2,3) that(2) show False by simp
  qed
  then have "update_rows (\<lambda>y. u_id y = i) f (filter (\<lambda>y. u_role y = OWNER) (users db))
      = filter (\<lambda>y. u_role y = OWNER) (users db)"
    by (auto simp: update_rows_def intro: map_idI)
  with role show ?thesis by (simp add: put_user_def filter_update_rows_same)
qed

section \<open>Disabled accounts and reset passwords\<close>

lemma update_staff_disables:
  assumes "update_staff L now aid a i c rid db = (Inr v, db')" "su_status c = Some USER_DISABLED"
  shows "(\<exists>x. get_user db' i = Some x \<and> u_status x = USER_DISABLED)
    \<and> (\<forall>s \<in> set (sessions db'). s_user_id s = Some i \<longrightarrow> s_revoked_at s \<noteq> None)"
  using assms(1)
proof (cases rule: update_staff_cases)
  case (2 x f)
  have "u_id (f y) = u_id y" for y using 2(4) [of y] by (simp add: account_key_def)
  then have "get_user (put_user i f db) i = Some (f x)"
    using 2(2) by (simp add: user_table.get_put)
  moreover from 2(5) have "get_user db' i = get_user (put_user i f db) i" by (simp add: get_user_def)
  ultimately show ?thesis using 2(6,7) assms(2) by simp
qed simp

lemma reset_staff_revokes:
  assumes "reset_staff_password L now salt pw aid a i rid db = (Inr v, db')"
  shows "v = pw \<and> (\<exists>x. get_user db' i = Some x \<and> u_must_change_password x)
    \<and> (\<forall>s \<in> set (sessions db'). s_user_id s = Some i \<longrightarrow> s_revoked_at s \<noteq> None)"
  using assms
proof (cases rule: reset_staff_cases)
  case (2 x h)
  have "u_id (reset_password now h True y) = u_id y" for y by (simp add: reset_password_def)
  then have "get_user (put_user i (reset_password now h True) db) i = Some (reset_password now h True x)"
    using 2(2) by (simp add: user_table.get_put)
  with 2 revoke_all_sessions show ?thesis
    by (auto simp: get_user_def reset_password_def)
qed simp

lemma no_live_session_no_login:
  assumes "\<forall>s \<in> set (sessions db). s_user_id s = Some i \<longrightarrow> s_revoked_at s \<noteq> None"
    and "authenticate_access_token L secret now t db = Inr x"
  shows "u_id x \<noteq> i"
  using assms(2)
proof (cases rule: authenticate_Inr)
  case (1 claims k s)
  with assms(1) session_table.get_member [OF 1(3)] show ?thesis by auto
qed

end
