(* ===== verification/Devices.thy ===== *)
theory Devices
  imports Security Audit_Log "HOL-Library.Product_Lexorder"
begin

text \<open>
  \<open>modules/devices\<close>: pairing with a one-time code, the rotating device session, live
  authorization of a device access token, revocation and the views.  Each operation
  is one transaction: an error returns the database it started from, plus the denial
  that \<open>_denied\<close> commits on its own.  \<open>race\<close> is what other transactions commit
  between the unlocked and the locked read of \<open>refresh\<close>.
\<close>

record pairing_code_issue =
  pci_raw_code :: ustr
  pci_expires_at :: time

record device_token_pair =
  dtp_device_id :: uuid
  dtp_access_token :: ustr
  dtp_refresh_token :: ustr
  dtp_expires_at :: time
  dtp_refresh_expires_at :: time

record device_project_view =
  dpv_id :: uuid
  dpv_name :: ustr

record device_view =
  dv_id :: uuid
  dv_name :: ustr
  dv_paired_at :: time
  dv_last_used_at :: "time option"
  dv_revoked_at :: "time option"
  dv_scopes :: "string list"
  dv_projects :: "device_project_view list"

text \<open>What a new device session draws: opaque token, session id, token id.\<close>

record device_draw =
  dd_raw_refresh :: ustr
  dd_session_id :: uuid
  dd_access_jti :: uuid

definition normalize_device_name :: "lib \<Rightarrow> ustr \<Rightarrow> ustr result" where
  "normalize_device_name L value =
     (let normalized = strip_chars edge_whitespace (nfkc L value) in
      if \<not> (1 \<le> length normalized \<and> length normalized \<le> 128) \<or> list_ex (category_C L) normalized
      then Inl InvalidDeviceGrant else Inr normalized)"

definition credential_hash :: "lib \<Rightarrow> ustr \<Rightarrow> ustr option" where
  "credential_hash L raw_credential =
     (if 32 \<le> length raw_credential \<and> length raw_credential \<le> 512 then hash_token L raw_credential
      else None)"

definition event_key :: "lib \<Rightarrow> string \<Rightarrow> uuid \<Rightarrow> uuid" where
  "event_key L kind object_id = uuid5_url L (u ''superboss:'' @ u kind @ u '':'' @ uuid_str object_id)"

definition device_audit_row ::
  "uuid \<Rightarrow> string \<Rightarrow> uuid option \<Rightarrow> role option \<Rightarrow> string \<Rightarrow> string \<Rightarrow> uuid option \<Rightarrow> string \<Rightarrow> uuid
   \<Rightarrow> (ustr \<times> json) list \<Rightarrow> uuid option \<Rightarrow> audit_log" where
  "device_audit_row aid kind actor_id role action object_type object_id outcome request_id metadata key =
     \<lparr>al_id = aid, al_actor_kind = kind, al_actor_id = actor_id, al_action = action,
      al_object_type = object_type, al_object_id = object_id, al_project_id = None,
      al_outcome = outcome, al_metadata = obj_set (u ''actor_role'') (role_json role) metadata,
      al_request_id = Some request_id, al_event_key = key\<rparr>"

definition denied :: "uuid \<Rightarrow> string \<Rightarrow> uuid \<Rightarrow> uuid option \<Rightarrow> string \<Rightarrow> db \<Rightarrow> db" where
  "denied aid action request_id object_id reason db =
     snd (write_audit id (device_audit_row aid ''system'' None None action ''device'' object_id
       ''DENIED'' request_id [(u ''reason'', JStr (u reason))] None) db)"

definition active_owner :: "user option \<Rightarrow> bool" where
  "active_owner owner \<longleftrightarrow>
     (case owner of None \<Rightarrow> False | Some x \<Rightarrow> u_role x = OWNER \<and> u_status x = USER_ACTIVE)"

section \<open>Pairing codes\<close>

definition create_pairing_code ::
  "lib \<Rightarrow> time \<Rightarrow> ustr \<Rightarrow> uuid \<Rightarrow> uuid \<Rightarrow> uuid \<Rightarrow> uuid list \<Rightarrow> uuid \<Rightarrow> db
   \<Rightarrow> pairing_code_issue result \<times> db" where
  "create_pairing_code L now raw_code pairing_id aid owner_id selected request_id db =
     (if selected = [] \<or> \<not> distinct selected then (Inl InvalidDeviceGrant, db)
      else (let expires_at = now + 10 * minute in
        if \<not> active_owner (get_user db owner_id) then (Inl InvalidDeviceGrant, db)
        else (let found = filter (\<lambda>p. p_id p \<in> set selected) (projects db) in
          if length found \<noteq> length selected \<or> list_ex (\<lambda>p. p_status p \<noteq> PROJECT_ACTIVE) found
          then (Inl InvalidDeviceGrant, db)
          else (case hash_token L raw_code of
              None \<Rightarrow> (Inl (PyError ''UnicodeEncodeError''), db)
            | Some h \<Rightarrow>
              (let pairing = \<lparr>pc_id = pairing_id, pc_owner_id = owner_id, pc_code_hash = h,
                     pc_expires_at = expires_at, pc_used_at = None, pc_created_at = now\<rparr>;
                   db1 = db\<lparr>pairing_codes := pairing_codes db @ [pairing],
                     pairing_projects := pairing_projects db @
                       map (\<lambda>i. \<lparr>pp_pairing_code_id = pairing_id, pp_project_id = i\<rparr>) selected\<rparr> in
               case write_audit id (device_audit_row aid ''user'' (Some owner_id) (Some OWNER)
                      ''device.pairing_code.create'' ''device_pairing_code'' (Some pairing_id) ''SUCCESS''
                      request_id [(u ''project_count'', JInt (int (length selected)))]
                      (Some (event_key L ''device-pairing-code-create'' pairing_id))) db1 of
                 (Inl e, _) \<Rightarrow> (Inl e, db)
               | (Inr _, db2) \<Rightarrow>
                   (Inr \<lparr>pci_raw_code = raw_code, pci_expires_at = expires_at\<rparr>, db2))))))"

section \<open>Device sessions\<close>

definition new_session ::
  "lib \<Rightarrow> ustr \<Rightarrow> device_draw \<Rightarrow> device_connection \<Rightarrow> time \<Rightarrow> db
   \<Rightarrow> device_token_pair result \<times> db" where
  "new_session L secret dr device now db =
     (let token_issued_at = whole_seconds now in
      case issue_device_access_token L secret (d_id device) (d_owner_id device) (dd_session_id dr)
             (dd_access_jti dr) token_issued_at of
        Inl e \<Rightarrow> (Inl e, db)
      | Inr (access_token, access_expires_at) \<Rightarrow>
        (let refresh_expires_at = token_issued_at + 14 * day in
         case hash_token L (dd_raw_refresh dr) of
           None \<Rightarrow> (Inl (PyError ''UnicodeEncodeError''), db)
         | Some h \<Rightarrow>
           (Inr \<lparr>dtp_device_id = d_id device, dtp_access_token = access_token,
              dtp_refresh_token = dd_raw_refresh dr, dtp_expires_at = access_expires_at,
              dtp_refresh_expires_at = refresh_expires_at\<rparr>,
            db\<lparr>sessions := sessions db @ [\<lparr>s_id = dd_session_id dr, s_kind = SESSION_DEVICE,
              s_user_id = None, s_device_id = Some (d_id device),
              s_access_jti = uuid_str (dd_access_jti dr), s_refresh_token_hash = h,
              s_access_expires_at = access_expires_at, s_refresh_expires_at = refresh_expires_at,
              s_refresh_used_at = None, s_revoked_at = None, s_created_at = token_issued_at\<rparr>]\<rparr>)))"

definition pairing_by_hash :: "db \<Rightarrow> ustr \<Rightarrow> device_pairing_code option" where
  "pairing_by_hash db h = find (\<lambda>x. pc_code_hash x = h) (pairing_codes db)"

definition paired_projects :: "db \<Rightarrow> uuid \<Rightarrow> project list" where
  "paired_projects db pairing_id = filter (\<lambda>p. list_ex (\<lambda>pp. pp_pairing_code_id pp = pairing_id
     \<and> pp_project_id pp = p_id p) (pairing_projects db)) (projects db)"

definition use_pairing_code :: "uuid \<Rightarrow> time \<Rightarrow> db \<Rightarrow> db" where
  "use_pairing_code i now db = db\<lparr>pairing_codes :=
     update_rows (\<lambda>x. pc_id x = i) (\<lambda>x. x\<lparr>pc_used_at := Some now\<rparr>) (pairing_codes db)\<rparr>"

text \<open>The transaction of \<open>pair\<close>: \<open>Inl None\<close> with an object is a rejected credential,
  \<open>Inl (Some e)\<close> any other exception.\<close>

definition pair_transaction ::
  "lib \<Rightarrow> ustr \<Rightarrow> time \<Rightarrow> uuid \<Rightarrow> device_draw \<Rightarrow> uuid \<Rightarrow> ustr option \<Rightarrow> ustr \<Rightarrow> uuid \<Rightarrow> db
   \<Rightarrow> (exn option \<times> uuid option + device_token_pair \<times> db)" where
  "pair_transaction L secret now device_id dr aid hash normalized_name request_id db =
     (case (case hash of None \<Rightarrow> None | Some h \<Rightarrow> pairing_by_hash db h) of
        None \<Rightarrow> Inl (None, None)
      | Some pairing \<Rightarrow>
        if pc_used_at pairing \<noteq> None \<or> now \<ge> pc_expires_at pairing then Inl (None, Some (pc_id pairing))
        else if \<not> active_owner (get_user db (pc_owner_id pairing)) then Inl (None, Some (pc_id pairing))
        else (let found = paired_projects db (pc_id pairing) in
          if found = [] \<or> list_ex (\<lambda>p. p_status p \<noteq> PROJECT_ACTIVE) found
          then Inl (None, Some (pc_id pairing))
          else (let device = \<lparr>d_id = device_id, d_owner_id = pc_owner_id pairing,
                  d_name = normalized_name, d_paired_at = now, d_last_used_at = None,
                  d_revoked_at = None\<rparr>;
                db0 = use_pairing_code (pc_id pairing) now db;
                db1 = db0\<lparr>devices := devices db0 @ [device],
                  project_grants := project_grants db0 @
                    map (\<lambda>p. \<lparr>dpg_device_id = device_id, dpg_project_id = p_id p\<rparr>) found,
                  scope_grants := scope_grants db0 @
                    map (\<lambda>s. \<lparr>dsg_device_id = device_id, dsg_scope = s\<rparr>) DEVICE_ACCESS_SCOPES\<rparr> in
            case new_session L secret dr device now db1 of
              (Inl e, _) \<Rightarrow> Inl (Some e, None)
            | (Inr token_pair, db2) \<Rightarrow>
              (case write_audit id (device_audit_row aid ''device'' (Some device_id) None ''device.pair''
                      ''device'' (Some device_id) ''SUCCESS'' request_id
                      [(u ''state'', JStr (u ''ACTIVE'')),
                       (u ''project_count'', JInt (int (length found)))]
                      (Some (event_key L ''device-pair'' (pc_id pairing)))) db2 of
                 (Inl e, _) \<Rightarrow> Inl (Some e, None)
               | (Inr _, db3) \<Rightarrow> Inr (token_pair, db3)))))"

definition pair ::
  "lib \<Rightarrow> ustr \<Rightarrow> time \<Rightarrow> uuid \<Rightarrow> device_draw \<Rightarrow> uuid \<Rightarrow> ustr \<Rightarrow> ustr \<Rightarrow> uuid \<Rightarrow> db
   \<Rightarrow> device_token_pair result \<times> db" where
  "pair L secret now device_id dr aid raw_code device_name request_id db =
     (case normalize_device_name L device_name of
        Inl e \<Rightarrow> (Inl e, denied aid ''device.pair'' request_id None ''INVALID_REQUEST'' db)
      | Inr normalized_name \<Rightarrow>
        (case pair_transaction L secret now device_id dr aid (credential_hash L raw_code)
                normalized_name request_id db of
           Inl (None, object_id) \<Rightarrow>
             (Inl InvalidDeviceCredential,
              denied aid ''device.pair'' request_id object_id ''INVALID_CREDENTIAL'' db)
         | Inl (Some e, _) \<Rightarrow> (Inl e, db)
         | Inr (token_pair, db') \<Rightarrow> (Inr token_pair, db')))"

definition spend_session :: "time \<Rightarrow> auth_session \<Rightarrow> auth_session" where
  "spend_session now s = s\<lparr>s_refresh_used_at := Some now, s_revoked_at := Some now\<rparr>"

definition refresh_transaction ::
  "lib \<Rightarrow> ustr \<Rightarrow> time \<Rightarrow> device_draw \<Rightarrow> uuid \<Rightarrow> (db \<Rightarrow> db) \<Rightarrow> ustr option \<Rightarrow> uuid \<Rightarrow> db
   \<Rightarrow> (exn option \<times> uuid option + device_token_pair \<times> db)" where
  "refresh_transaction L secret now dr aid race hash request_id db =
     (case (case hash of None \<Rightarrow> None | Some h \<Rightarrow> session_by_refresh_hash db h) of
        None \<Rightarrow> Inl (None, None)
      | Some locator \<Rightarrow>
        (case (case s_device_id locator of None \<Rightarrow> None | Some i \<Rightarrow> get_device_row db i) of
           None \<Rightarrow> Inl (None, s_device_id locator)
         | Some device_locator \<Rightarrow>
           (let db1 = race db;
                owner = get_user db1 (d_owner_id device_locator);
                device = get_device_row db1 (d_id device_locator);
                current = (case hash of None \<Rightarrow> None | Some h \<Rightarrow> session_by_refresh_hash db1 h) in
            case (owner, device, current) of
              (Some ow, Some dv, Some cur) \<Rightarrow>
                if \<not> active_owner owner \<or> d_owner_id dv \<noteq> u_id ow \<or> d_revoked_at dv \<noteq> None
                   \<or> s_kind cur \<noteq> SESSION_DEVICE \<or> s_id cur \<noteq> s_id locator
                   \<or> s_device_id cur \<noteq> Some (d_id dv) \<or> s_refresh_used_at cur \<noteq> None
                   \<or> s_revoked_at cur \<noteq> None \<or> now \<ge> s_refresh_expires_at cur
                then Inl (None, s_device_id locator)
                else (let db2 = put_session (s_id cur) (spend_session now) db1 in
                  case new_session L secret dr dv now db2 of
                    (Inl e, _) \<Rightarrow> Inl (Some e, None)
                  | (Inr token_pair, db3) \<Rightarrow>
                    (case write_audit id (device_audit_row aid ''device'' (Some (d_id dv)) None
                            ''device.refresh'' ''device'' (Some (d_id dv)) ''SUCCESS'' request_id
                            [(u ''state'', JStr (u ''ACTIVE''))]
                            (Some (event_key L ''device-refresh'' (s_id cur)))) db3 of
                       (Inl e, _) \<Rightarrow> Inl (Some e, None)
                     | (Inr _, db4) \<Rightarrow> Inr (token_pair, db4)))
            | _ \<Rightarrow> Inl (None, s_device_id locator))))"

definition refresh ::
  "lib \<Rightarrow> ustr \<Rightarrow> time \<Rightarrow> device_draw \<Rightarrow> uuid \<Rightarrow> (db \<Rightarrow> db) \<Rightarrow> ustr \<Rightarrow> uuid \<Rightarrow> db
   \<Rightarrow> device_token_pair result \<times> db" where
  "refresh L secret now dr aid race raw_refresh request_id db =
     (case refresh_transaction L secret now dr aid race (credential_hash L raw_refresh) request_id db of
        Inl (None, object_id) \<Rightarrow>
          (Inl InvalidDeviceCredential,
           denied aid ''device.refresh'' request_id object_id ''INVALID_CREDENTIAL'' (race db))
      | Inl (Some e, _) \<Rightarrow> (Inl e, race db)
      | Inr (token_pair, db') \<Rightarrow> (Inr token_pair, db'))"

section \<open>Live authorization\<close>

definition granted_projects :: "db \<Rightarrow> uuid \<Rightarrow> uuid list" where
  "granted_projects db device_id = map dpg_project_id
     (filter (\<lambda>g. dpg_device_id g = device_id \<and>
        list_ex (\<lambda>p. p_id p = dpg_project_id g \<and> p_status p = PROJECT_ACTIVE) (projects db))
      (project_grants db))"

definition granted_scopes :: "db \<Rightarrow> uuid \<Rightarrow> string list" where
  "granted_scopes db device_id = map dsg_scope (filter (\<lambda>g. dsg_device_id g = device_id) (scope_grants db))"

definition touch_device :: "time \<Rightarrow> device_connection \<Rightarrow> device_connection" where
  "touch_device now d =
     (if (case d_last_used_at d of None \<Rightarrow> True | Some t \<Rightarrow> now > t)
      then d\<lparr>d_last_used_at := Some now\<rparr> else d)"

definition device_authenticate ::
  "lib \<Rightarrow> ustr \<Rightarrow> time \<Rightarrow> ustr \<Rightarrow> db \<Rightarrow> actor result \<times> db" where
  "device_authenticate L secret now raw_access db =
     (case decode_device_access_token L now secret raw_access of
        Inl e \<Rightarrow> (Inl InvalidDeviceCredential, db)
      | Inr claims \<Rightarrow>
        (case (claim_uuid L claims ''device_id'', claim_uuid L claims ''owner_id'',
               claim_uuid L claims ''session_id'', claim_uuid L claims ''jti'',
               claim_int claims ''iat'', claim_int claims ''exp'') of
          (Some device_id, Some owner_id, Some session_id, Some access_jti, Some iat, Some ex) \<Rightarrow>
            (let issued_at = iat * second; expires_at = ex * second in
             case (get_user db owner_id, get_device_row db device_id, get_session db session_id) of
               (Some owner, Some device, Some device_session) \<Rightarrow>
                 if \<not> active_owner (Some owner)
                    \<or> d_owner_id device \<noteq> owner_id \<or> d_revoked_at device \<noteq> None
                    \<or> s_kind device_session \<noteq> SESSION_DEVICE
                    \<or> s_device_id device_session \<noteq> Some device_id
                    \<or> s_access_jti device_session \<noteq> uuid_str access_jti
                    \<or> s_revoked_at device_session \<noteq> None
                    \<or> s_created_at device_session \<noteq> issued_at
                    \<or> s_access_expires_at device_session \<noteq> expires_at
                    \<or> now \<ge> s_access_expires_at device_session
                    \<or> now < issued_at \<or> now \<ge> expires_at
                 then (Inl InvalidDeviceCredential, db)
                 else (Inr \<lparr>actor_kind = ''device'', actor_subject = d_id device, actor_role = None,
                         actor_projects = granted_projects db (d_id device),
                         actor_scopes = filter (\<lambda>s. s \<in> set DEVICE_ACCESS_SCOPES)
                           (granted_scopes db (d_id device))\<rparr>,
                       put_device (d_id device) (touch_device now) db)
             | _ \<Rightarrow> (Inl InvalidDeviceCredential, db))
        | _ \<Rightarrow> (Inl InvalidDeviceCredential, db)))"

section \<open>Revocation\<close>

definition revoke_device_sessions :: "uuid \<Rightarrow> time \<Rightarrow> db \<Rightarrow> db" where
  "revoke_device_sessions device_id now db = db\<lparr>sessions :=
     update_rows (\<lambda>s. s_device_id s = Some device_id \<and> s_revoked_at s = None)
       (\<lambda>s. s\<lparr>s_revoked_at := Some now\<rparr>) (sessions db)\<rparr>"

definition revoke ::
  "lib \<Rightarrow> time \<Rightarrow> uuid \<Rightarrow> uuid \<Rightarrow> uuid \<Rightarrow> uuid \<Rightarrow> db \<Rightarrow> unit result \<times> db" where
  "revoke L now aid owner_id device_id request_id db =
     (if \<not> active_owner (get_user db owner_id) then (Inl InvalidDeviceGrant, db)
      else (case find (\<lambda>d. d_id d = device_id \<and> d_owner_id d = owner_id) (devices db) of
          None \<Rightarrow> (Inl InvalidDeviceGrant, db)
        | Some device \<Rightarrow>
          if d_revoked_at device \<noteq> None then (Inr (), db)
          else (let db1 = revoke_device_sessions device_id now
                  (put_device device_id (\<lambda>d. d\<lparr>d_revoked_at := Some now\<rparr>) db) in
            case write_audit id (device_audit_row aid ''user'' (Some owner_id) (Some OWNER)
                   ''device.revoke'' ''device'' (Some device_id) ''SUCCESS'' request_id
                   [(u ''state'', JStr (u ''REVOKED''))]
                   (Some (event_key L ''device-revoke'' device_id))) db1 of
              (Inl e, _) \<Rightarrow> (Inl e, db)
            | (Inr _, db2) \<Rightarrow> (Inr (), db2))))"

section \<open>Views\<close>

definition project_views :: "lib \<Rightarrow> bool \<Rightarrow> db \<Rightarrow> uuid \<Rightarrow> device_project_view list" where
  "project_views L active_only db device_id =
     sort_key (\<lambda>v. (casefold L (dpv_name v), uuid_str (dpv_id v)))
       (concat (map (\<lambda>g. map (\<lambda>p. \<lparr>dpv_id = p_id p, dpv_name = p_name p\<rparr>)
            (filter (\<lambda>p. p_id p = dpg_project_id g
               \<and> (active_only \<longrightarrow> p_status p = PROJECT_ACTIVE)) (projects db)))
          (filter (\<lambda>g. dpg_device_id g = device_id) (project_grants db))))"

definition list_devices :: "lib \<Rightarrow> uuid \<Rightarrow> db \<Rightarrow> device_view list" where
  "list_devices L owner_id db =
     map (\<lambda>d. \<lparr>dv_id = d_id d, dv_name = d_name d, dv_paired_at = d_paired_at d,
        dv_last_used_at = d_last_used_at d, dv_revoked_at = d_revoked_at d, dv_scopes = [],
        dv_projects = project_views L False db (d_id d)\<rparr>)
      (sort_key (\<lambda>d. (- d_paired_at d, d_id d)) (filter (\<lambda>d. d_owner_id d = owner_id) (devices db)))"

definition get_device :: "lib \<Rightarrow> uuid \<Rightarrow> db \<Rightarrow> device_view result" where
  "get_device L device_id db =
     (case get_device_row db device_id of
        None \<Rightarrow> Inl InvalidDeviceCredential
      | Some d \<Rightarrow> if d_revoked_at d \<noteq> None then Inl InvalidDeviceCredential
          else Inr \<lparr>dv_id = d_id d, dv_name = d_name d, dv_paired_at = d_paired_at d,
            dv_last_used_at = d_last_used_at d, dv_revoked_at = d_revoked_at d,
            dv_scopes = filter (\<lambda>s. s \<in> set (granted_scopes db (d_id d))) DEVICE_ACCESS_SCOPES,
            dv_projects = project_views L True db (d_id d)\<rparr>)"

section \<open>Routes (devices/router.py)\<close>

definition validation_error :: exn where
  "validation_error = DomainError ''VALIDATION_ERROR'' ''Request validation failed'' 422"

definition require_owner_route ::
  "lib \<Rightarrow> uuid \<Rightarrow> actor \<Rightarrow> string \<Rightarrow> string \<Rightarrow> uuid option \<Rightarrow> uuid \<Rightarrow> db \<Rightarrow> unit result \<times> db" where
  "require_owner_route L aid a action object_type object_id request_id db =
     (if actor_kind a = ''user'' \<and> actor_role a = Some OWNER then (Inr (), db)
      else (case audit_record L id aid \<lparr>ev_actor = a, ev_action = action,
              ev_object_type = object_type, ev_object_id = object_id, ev_project_id = None,
              ev_outcome = ''DENIED'', ev_request_id = request_id, ev_event_key = None,
              ev_metadata = JObj [(u ''reason'', JStr (u ''OWNER_REQUIRED''))]\<rparr> db of
          (Inl e, db') \<Rightarrow> (Inl e, db')
        | (Inr _, db') \<Rightarrow> (Inl (forbidden_error ''OWNER_REQUIRED'' ''Owner access required''), db')))"

definition grant_error :: "'a result \<Rightarrow> 'a result" where
  "grant_error r = (case r of
       Inl InvalidDeviceCredential \<Rightarrow> Inl unauthenticated_error
     | Inl InvalidDeviceGrant \<Rightarrow> Inl validation_error
     | r \<Rightarrow> r)"

definition create_pairing_code_route ::
  "lib \<Rightarrow> time \<Rightarrow> ustr \<Rightarrow> uuid \<Rightarrow> uuid \<Rightarrow> actor \<Rightarrow> uuid list \<Rightarrow> uuid \<Rightarrow> db
   \<Rightarrow> pairing_code_issue result \<times> db" where
  "create_pairing_code_route L now raw_code pairing_id aid a project_ids request_id db =
     (case require_owner_route L aid a ''device.pairing_code.create'' ''device_pairing_code'' None
             request_id db of
        (Inl e, db') \<Rightarrow> (Inl e, db')
      | (Inr _, db') \<Rightarrow> (case create_pairing_code L now raw_code pairing_id aid (actor_subject a)
             project_ids request_id db' of (r, db2) \<Rightarrow> (grant_error r, db2)))"

definition revoke_device_route ::
  "lib \<Rightarrow> time \<Rightarrow> uuid \<Rightarrow> actor \<Rightarrow> uuid \<Rightarrow> uuid \<Rightarrow> db \<Rightarrow> unit result \<times> db" where
  "revoke_device_route L now aid a device_id request_id db =
     (case require_owner_route L aid a ''device.revoke'' ''device'' (Some device_id) request_id db of
        (Inl e, db') \<Rightarrow> (Inl e, db')
      | (Inr _, db') \<Rightarrow> (case revoke L now aid (actor_subject a) device_id request_id db' of
          (r, db2) \<Rightarrow> (grant_error r, db2)))"

definition pair_device_route ::
  "lib \<Rightarrow> ustr \<Rightarrow> time \<Rightarrow> uuid \<Rightarrow> device_draw \<Rightarrow> uuid \<Rightarrow> ustr \<Rightarrow> ustr \<Rightarrow> uuid \<Rightarrow> db
   \<Rightarrow> device_token_pair result \<times> db" where
  "pair_device_route L secret now device_id dr aid code name request_id db =
     (case pair L secret now device_id dr aid code name request_id db of (r, db') \<Rightarrow> (grant_error r, db'))"

definition refresh_device_route ::
  "lib \<Rightarrow> ustr \<Rightarrow> time \<Rightarrow> device_draw \<Rightarrow> uuid \<Rightarrow> (db \<Rightarrow> db) \<Rightarrow> ustr \<Rightarrow> uuid \<Rightarrow> db
   \<Rightarrow> device_token_pair result \<times> db" where
  "refresh_device_route L secret now dr aid race token request_id db =
     (case refresh L secret now dr aid race token request_id db of
        (Inl InvalidDeviceCredential, db') \<Rightarrow> (Inl unauthenticated_error, db')
      | (r, db') \<Rightarrow> (r, db'))"

end
