(* ===== verification/Devices_Proofs.thy ===== *)
theory Devices_Proofs
  imports Devices Auth_Proofs
begin

text \<open>
  Correctness of device credentials: pairing codes and device refresh tokens are
  one-time credentials, an access token authenticates only a live session of a live
  device of an active OWNER and carries no more than the granted rights, and a
  revoked device never authenticates again, whatever operations follow.
\<close>

lemma denied_only_log [simp]: "only_log db (denied aid action rid i reason db)"
  by (simp add: denied_def audit_writer.only_logs)

lemma denied_tables [simp]:
  "sessions (denied aid action rid i reason db) = sessions db"
  "devices (denied aid action rid i reason db) = devices db"
  "pairing_codes (denied aid action rid i reason db) = pairing_codes db"
  "users (denied aid action rid i reason db) = users db"
  by (simp_all add: denied_def audit_writer.sink_tables)

lemma denied_records:
  "\<exists>row \<in> set (audit_logs (denied aid action rid i reason db)).
     al_id row = aid \<and> al_action row = action \<and> al_outcome row = ''DENIED'' \<and> al_object_id row = i"
  by (simp add: denied_def write_audit_def insert_audit_def device_audit_row_def)

lemma write_audit_snd:
  assumes "write_audit id row db = (r, db')"
  shows "only_log db db'"
  using audit_writer.only_logs [of db row] assms by simp

lemma only_log_tables:
  assumes "only_log db db'"
  shows "devices db' = devices db" "sessions db' = sessions db" "pairing_codes db' = pairing_codes db"
    "project_grants db' = project_grants db" "scope_grants db' = scope_grants db"
    "projects db' = projects db" "users db' = users db" "files db' = files db" "jobs db' = jobs db"
    "attachments db' = attachments db" "members db' = members db"
  using assms by (auto simp: only_log_def)

section \<open>Device sessions\<close>

lemma new_session_Inr:
  assumes "new_session L secret dr d now db = (Inr p, db')"
  shows "\<exists>s h. db' = db\<lparr>sessions := sessions db @ [s]\<rparr> \<and> hash_token L (dtp_refresh_token p) = Some h
    \<and> s_refresh_token_hash s = h \<and> s_id s = dd_session_id dr \<and> s_kind s = SESSION_DEVICE
    \<and> s_device_id s = Some (d_id d) \<and> s_revoked_at s = None \<and> s_refresh_used_at s = None
    \<and> s_created_at s = whole_seconds now \<and> s_access_expires_at s = whole_seconds now + 2 * hour
    \<and> s_refresh_expires_at s = whole_seconds now + 14 * day
    \<and> dtp_device_id p = d_id d \<and> dtp_expires_at p = s_access_expires_at s
    \<and> dtp_refresh_expires_at p = s_refresh_expires_at s"
  using assms
  by (auto simp: new_session_def issue_device_access_token_def Let_def
      split: if_splits option.splits sum.splits prod.splits)

lemma refresh_Inr:
  assumes "refresh L secret now dr aid id raw rid db = (Inr p, db')"
  obtains h cur d owner new db1 where
    "credential_hash L raw = Some h" "session_by_refresh_hash db h = Some cur"
    "s_kind cur = SESSION_DEVICE" "s_device_id cur = Some (d_id d)" "s_revoked_at cur = None"
    "s_refresh_used_at cur = None" "now < s_refresh_expires_at cur"
    "get_device_row db (d_id d) = Some d" "d_revoked_at d = None"
    "get_user db (d_owner_id d) = Some owner" "u_role owner = OWNER" "u_status owner = USER_ACTIVE"
    "db1 = put_session (s_id cur) (spend_session now) db"
    "only_log (db1\<lparr>sessions := sessions db1 @ [new]\<rparr>) db'"
    "s_id new = dd_session_id dr" "s_device_id new = Some (d_id d)"
proof -
  let ?h = "credential_hash L raw"
  from assms obtain loc dl ow cur d where
    loc: "(case ?h of None \<Rightarrow> None | Some h \<Rightarrow> session_by_refresh_hash db h) = Some loc"
    and dl: "s_device_id loc \<noteq> None" "get_device_row db (the (s_device_id loc)) = Some dl"
    and ow: "get_user db (d_owner_id dl) = Some ow" and d: "get_device_row db (d_id dl) = Some d"
    and cur: "(case ?h of None \<Rightarrow> None | Some h \<Rightarrow> session_by_refresh_hash db h) = Some cur"
    and ok: "active_owner (Some ow)" "d_owner_id d = u_id ow" "d_revoked_at d = None"
      "s_kind cur = SESSION_DEVICE" "s_device_id cur = Some (d_id d)" "s_refresh_used_at cur = None"
      "s_revoked_at cur = None" "now < s_refresh_expires_at cur"
    and rest: "\<exists>db3 i. new_session L secret dr d now (put_session (s_id cur) (spend_session now) db)
        = (Inr p, db3) \<and> only_log db3 db'"
    by (fastforce simp: refresh_def refresh_transaction_def Let_def dest: write_audit_snd
        split: option.splits sum.splits prod.splits if_splits)
  from cur obtain h where h: "?h = Some h" "session_by_refresh_hash db h = Some cur"
    by (auto split: option.splits)
  have "d_id dl = d_id d" using d by (auto dest: get_rows_id)
  from rest obtain db3 where ns: "new_session L secret dr d now (put_session (s_id cur) (spend_session now) db)
      = (Inr p, db3)" and lg: "only_log db3 db'" by blast
  from new_session_Inr [OF ns] lg obtain new where new:
    "only_log ((put_session (s_id cur) (spend_session now) db)
      \<lparr>sessions := sessions (put_session (s_id cur) (spend_session now) db) @ [new]\<rparr>) db'"
    "s_id new = dd_session_id dr" "s_device_id new = Some (d_id d)" by auto
  show ?thesis
  proof (rule that [OF h ok(4,5,7,6,8) _ ok(3) _ _ _ refl new])
    show "get_device_row db (d_id d) = Some d" using d \<open>d_id dl = d_id d\<close> by simp
    show "get_user db (d_owner_id d) = Some ow" using ow ok(2) get_rows_id(1) [OF ow] by simp
    show "u_role ow = OWNER" "u_status ow = USER_ACTIVE" using ok(1) by (simp_all add: active_owner_def)
  qed
qed

lemma refresh_Inl:
  "refresh L secret now dr aid id raw rid db = (Inl e, db') \<Longrightarrow> only_log db db'"
  by (auto simp: refresh_def split: sum.splits option.splits prod.splits)

definition device_refresh_spent :: "lib \<Rightarrow> ustr \<Rightarrow> db \<Rightarrow> bool" where
  "device_refresh_spent L raw db \<longleftrightarrow> (case credential_hash L raw of
       None \<Rightarrow> True
     | Some h \<Rightarrow> (case session_by_refresh_hash db h of
         None \<Rightarrow> False | Some s \<Rightarrow> s_revoked_at s \<noteq> None))"

lemma spend_session_fields [simp]:
  "s_id (spend_session now s) = s_id s"
  "s_refresh_token_hash (spend_session now s) = s_refresh_token_hash s"
  "s_revoked_at (spend_session now s) = Some now"
  "s_device_id (spend_session now s) = s_device_id s"
  by (simp_all add: spend_session_def)

lemma only_log_by_hash: "only_log db db' \<Longrightarrow> session_by_refresh_hash db' h = session_by_refresh_hash db h"
  by (auto simp: only_log_def)

lemma spent_after_rotation:
  assumes "session_by_refresh_hash db h = Some s" "s_revoked_at s \<noteq> None \<or> s_id s = i"
    and "only_log ((put_session i (spend_session now) db)\<lparr>sessions :=
      sessions (put_session i (spend_session now) db) @ [new]\<rparr>) db'"
  shows "\<exists>s'. session_by_refresh_hash db' h = Some s' \<and> s_revoked_at s' \<noteq> None"
proof -
  let ?s = "if s_id s = i then spend_session now s else s"
  have "session_by_refresh_hash (put_session i (spend_session now) db) h = Some ?s"
    using assms(1) by (simp add: session_by_hash_put)
  then have "session_by_refresh_hash ((put_session i (spend_session now) db)\<lparr>sessions :=
      sessions (put_session i (spend_session now) db) @ [new]\<rparr>) h = Some ?s"
    by (rule session_by_hash_append [rotated]) simp
  with only_log_by_hash [OF assms(3)] assms(2) show ?thesis by auto
qed

interpretation device_refresh: one_time_credential
  "\<lambda>x raw. refresh L secret (fst x) (fst (snd x)) (fst (snd (snd x))) id raw (snd (snd (snd x)))"
  "device_refresh_spent L" for L secret
proof
  fix x :: "time \<times> device_draw \<times> uuid \<times> uuid" and raw raw' :: ustr and db db' :: db
    and p :: device_token_pair and r :: "device_token_pair result"
  let ?ex = "\<lambda>raw. refresh L secret (fst x) (fst (snd x)) (fst (snd (snd x))) id raw (snd (snd (snd x)))"
  show "device_refresh_spent L raw db'" if "?ex raw db = (Inr p, db')"
    using that
  proof (cases rule: refresh_Inr)
    case (1 h cur d owner new db1)
    from spent_after_rotation [OF 1(2), of "s_id cur" "fst x" new db'] 1 show ?thesis
      by (auto simp: device_refresh_spent_def)
  qed
  show "isl r" if s: "device_refresh_spent L raw db" and e: "?ex raw db = (r, db')"
  proof (cases r)
    case (Inr q)
    with e have "?ex raw db = (Inr q, db')" by simp
    then show ?thesis
    proof (cases rule: refresh_Inr)
      case 1
      with s show ?thesis by (simp add: device_refresh_spent_def)
    qed
  qed simp
  show "device_refresh_spent L raw db'" if s: "device_refresh_spent L raw db" and e: "?ex raw' db = (r, db')"
  proof (cases r)
    case (Inl err)
    with e refresh_Inl have "only_log db db'" by blast
    then have "session_by_refresh_hash db' h = session_by_refresh_hash db h" for h
      by (rule only_log_by_hash)
    with s show ?thesis by (auto simp: device_refresh_spent_def split: option.splits)
  next
    case (Inr q)
    with e have "?ex raw' db = (Inr q, db')" by simp
    then show ?thesis
    proof (cases rule: refresh_Inr)
      case (1 h cur d owner new db1)
      show ?thesis
      proof (cases "credential_hash L raw")
        case (Some k)
        with s obtain t where t: "session_by_refresh_hash db k = Some t" "s_revoked_at t \<noteq> None"
          by (auto simp: device_refresh_spent_def split: option.splits)
        from spent_after_rotation [OF t(1), of "s_id cur" "fst x" new db'] t(2) 1 Some show ?thesis
          by (auto simp: device_refresh_spent_def)
      qed (simp add: device_refresh_spent_def)
    qed
  qed
qed

section \<open>Pairing codes\<close>

lemma pair_Inr:
  assumes "pair L secret now i dr aid raw name rid db = (Inr p, db')"
  obtains h pc nm db0 ss lg where
    "credential_hash L raw = Some h" "pairing_by_hash db h = Some pc" "pc_used_at pc = None"
    "now < pc_expires_at pc" "active_owner (get_user db (pc_owner_id pc))"
    "normalize_device_name L name = Inr nm"
    "paired_projects db (pc_id pc) \<noteq> []"
    "list_all (\<lambda>q. p_status q = PROJECT_ACTIVE) (paired_projects db (pc_id pc))"
    "db0 = use_pairing_code (pc_id pc) now db"
    "s_device_id ss = Some i" "s_id ss = dd_session_id dr"
    "db' = db0\<lparr>devices := devices db0 @ [\<lparr>d_id = i, d_owner_id = pc_owner_id pc, d_name = nm,
        d_paired_at = now, d_last_used_at = None, d_revoked_at = None\<rparr>],
      project_grants := project_grants db0 @
        map (\<lambda>q. \<lparr>dpg_device_id = i, dpg_project_id = p_id q\<rparr>) (paired_projects db (pc_id pc)),
      scope_grants := scope_grants db0 @
        map (\<lambda>s. \<lparr>dsg_device_id = i, dsg_scope = s\<rparr>) DEVICE_ACCESS_SCOPES,
      sessions := sessions db0 @ [ss], audit_logs := audit_logs db0 @ lg\<rparr>"
proof -
  from assms obtain nm where nm: "normalize_device_name L name = Inr nm"
    and tr: "pair_transaction L secret now i dr aid (credential_hash L raw) nm rid db = Inr (p, db')"
    by (auto simp: pair_def split: sum.splits option.splits prod.splits)
  let ?dev = "\<lambda>pc. \<lparr>d_id = i, d_owner_id = pc_owner_id pc, d_name = nm, d_paired_at = now,
      d_last_used_at = None, d_revoked_at = None\<rparr>"
  let ?db0 = "\<lambda>pc. use_pairing_code (pc_id pc) now db"
  let ?db1 = "\<lambda>pc. (?db0 pc)\<lparr>devices := devices (?db0 pc) @ [?dev pc],
      project_grants := project_grants (?db0 pc) @
        map (\<lambda>q. \<lparr>dpg_device_id = i, dpg_project_id = p_id q\<rparr>) (paired_projects db (pc_id pc)),
      scope_grants := scope_grants (?db0 pc) @
        map (\<lambda>s. \<lparr>dsg_device_id = i, dsg_scope = s\<rparr>) DEVICE_ACCESS_SCOPES\<rparr>"
  let ?loc = "case credential_hash L raw of None \<Rightarrow> None | Some h \<Rightarrow> pairing_by_hash db h"
  from tr obtain pc where pc: "?loc = Some pc"
    by (cases ?loc) (simp_all add: pair_transaction_def)
  then obtain h where hh: "credential_hash L raw = Some h" "pairing_by_hash db h = Some pc"
    by (auto split: option.splits)
  from tr pc have ok: "pc_used_at pc = None" "now < pc_expires_at pc"
    "active_owner (get_user db (pc_owner_id pc))" "paired_projects db (pc_id pc) \<noteq> []"
    "\<not> list_ex (\<lambda>q. p_status q \<noteq> PROJECT_ACTIVE) (paired_projects db (pc_id pc))"
    by (simp_all add: pair_transaction_def Let_def not_le split: if_splits)
  note h = hh ok
  have "\<exists>db2. new_session L secret dr (?dev pc) now (?db1 pc) = (Inr p, db2) \<and> only_log db2 db'"
  proof (cases "new_session L secret dr (?dev pc) now (?db1 pc)")
    case (Pair r db2)
    with tr pc ok show ?thesis
      by (auto simp: pair_transaction_def Let_def dest: write_audit_snd split: sum.splits prod.splits)
  qed
  then obtain db2 where ns: "new_session L secret dr (?dev pc) now (?db1 pc) = (Inr p, db2)"
    and lg: "only_log db2 db'" by blast
  from new_session_Inr [OF ns] obtain ss where ss: "s_device_id ss = Some i" "s_id ss = dd_session_id dr"
    and db2: "db2 = (?db1 pc)\<lparr>sessions := sessions (?db1 pc) @ [ss]\<rparr>" by auto
  from lg db2 obtain rows where db': "db' = (?db1 pc)\<lparr>sessions := sessions (?db0 pc) @ [ss], audit_logs := audit_logs (?db0 pc) @ rows\<rparr>"
    by (auto simp: only_log_def)
  have act: "list_all (\<lambda>q. p_status q = PROJECT_ACTIVE) (paired_projects db (pc_id pc))"
    using h(7) by (auto simp: list_ex_iff list_all_iff)
  show ?thesis by (rule that [OF h(1-5) nm h(6) act refl ss db'])
qed

lemma pair_Inl: "pair L secret now i dr aid raw name rid db = (Inl e, db') \<Longrightarrow> only_log db db'"
  by (auto simp: pair_def split: sum.splits option.splits prod.splits)

definition pairing_spent :: "lib \<Rightarrow> ustr \<Rightarrow> db \<Rightarrow> bool" where
  "pairing_spent L raw db \<longleftrightarrow> (case credential_hash L raw of
       None \<Rightarrow> True
     | Some h \<Rightarrow> (case pairing_by_hash db h of None \<Rightarrow> False | Some pc \<Rightarrow> pc_used_at pc \<noteq> None))"

lemma pairing_by_hash_use:
  "pairing_by_hash (use_pairing_code i now db) h
    = map_option (\<lambda>x. if pc_id x = i then x\<lparr>pc_used_at := Some now\<rparr> else x) (pairing_by_hash db h)"
  by (simp add: pairing_by_hash_def use_pairing_code_def find_update_rows)

lemma pairing_by_hash_tables: "pairing_codes db' = pairing_codes db \<Longrightarrow> pairing_by_hash db' h = pairing_by_hash db h"
  by (simp add: pairing_by_hash_def)

interpretation pairing_code: one_time_credential
  "\<lambda>x raw. pair L secret (fst x) (fst (snd x)) (fst (snd (snd x))) (fst (snd (snd (snd x)))) raw
     (fst (snd (snd (snd (snd x))))) (snd (snd (snd (snd (snd x)))))"
  "pairing_spent L" for L secret
proof
  fix x :: "time \<times> uuid \<times> device_draw \<times> uuid \<times> ustr \<times> uuid" and raw raw' :: ustr and db db' :: db
    and p :: device_token_pair and r :: "device_token_pair result"
  let ?ex = "\<lambda>raw. pair L secret (fst x) (fst (snd x)) (fst (snd (snd x))) (fst (snd (snd (snd x)))) raw
     (fst (snd (snd (snd (snd x))))) (snd (snd (snd (snd (snd x)))))"
  have by_hash: "pairing_by_hash db' k = map_option (\<lambda>y. if pc_id y = pc_id pc
      then y\<lparr>pc_used_at := Some (fst x)\<rparr> else y) (pairing_by_hash db k)"
    if "pairing_codes db' = pairing_codes (use_pairing_code (pc_id pc) (fst x) db)" for pc k
    using pairing_by_hash_tables [OF that] by (simp add: pairing_by_hash_use)
  show "pairing_spent L raw db'" if "?ex raw db = (Inr p, db')"
    using that
  proof (cases rule: pair_Inr)
    case (1 h pc nm db0 ss lg)
    then have "pairing_codes db' = pairing_codes (use_pairing_code (pc_id pc) (fst x) db)" by simp
    from by_hash [OF this] 1 show ?thesis by (simp add: pairing_spent_def)
  qed
  show "isl r" if s: "pairing_spent L raw db" and e: "?ex raw db = (r, db')"
  proof (cases r)
    case (Inr q)
    with e have "?ex raw db = (Inr q, db')" by simp
    then show ?thesis
    proof (cases rule: pair_Inr)
      case 1
      with s show ?thesis by (simp add: pairing_spent_def)
    qed
  qed simp
  show "pairing_spent L raw db'" if s: "pairing_spent L raw db" and e: "?ex raw' db = (r, db')"
  proof (cases r)
    case (Inl err)
    with e pair_Inl have "only_log db db'" by blast
    then have "pairing_by_hash db' k = pairing_by_hash db k" for k
      by (intro pairing_by_hash_tables only_log_tables(3))
    with s show ?thesis by (auto simp: pairing_spent_def split: option.splits)
  next
    case (Inr q)
    with e have "?ex raw' db = (Inr q, db')" by simp
    then show ?thesis
    proof (cases rule: pair_Inr)
      case (1 h pc nm db0 ss lg)
      then have "pairing_codes db' = pairing_codes (use_pairing_code (pc_id pc) (fst x) db)" by simp
      from by_hash [OF this] s show ?thesis
        by (auto simp: pairing_spent_def split: option.splits)
    qed
  qed
qed

section \<open>Live authorization\<close>

lemma device_authenticate_Inr:
  assumes "device_authenticate L secret now raw db = (Inr a, db')"
  obtains d s owner where
    "actor_kind a = ''device''" "actor_role a = None" "actor_subject a = d_id d"
    "get_device_row db (d_id d) = Some d" "d_revoked_at d = None"
    "get_user db (d_owner_id d) = Some owner" "u_role owner = OWNER" "u_status owner = USER_ACTIVE"
    "s \<in> set (sessions db)" "s_kind s = SESSION_DEVICE" "s_device_id s = Some (d_id d)"
    "s_revoked_at s = None" "now < s_access_expires_at s" "s_created_at s \<le> now"
    "actor_projects a = granted_projects db (d_id d)"
    "actor_scopes a = filter (\<lambda>s. s \<in> set DEVICE_ACCESS_SCOPES) (granted_scopes db (d_id d))"
    "db' = put_device (d_id d) (touch_device now) db"
proof -
  from assms obtain i oi si d s owner where
    g: "get_user db oi = Some owner" "get_device_row db i = Some d" "get_session db si = Some s"
    and ok: "active_owner (Some owner)" "d_owner_id d = oi" "d_revoked_at d = None"
      "s_kind s = SESSION_DEVICE" "s_device_id s = Some i" "s_revoked_at s = None"
      "now < s_access_expires_at s" "s_created_at s \<le> now"
    and a: "a = \<lparr>actor_kind = ''device'', actor_subject = d_id d, actor_role = None,
        actor_projects = granted_projects db (d_id d),
        actor_scopes = filter (\<lambda>s. s \<in> set DEVICE_ACCESS_SCOPES) (granted_scopes db (d_id d))\<rparr>"
    and db': "db' = put_device (d_id d) (touch_device now) db"
    by (auto simp: device_authenticate_def Let_def not_le split: sum.splits option.splits if_splits)
  from g(2) have di: "d_id d = i" by (rule get_rows_id)
  from g(3) have "s \<in> set (sessions db)" by (rule session_table.get_member)
  with that [of d owner s] a db' g ok di show ?thesis by (auto simp: active_owner_def)
qed

lemma granted_projects_active:
  "p \<in> set (granted_projects db i) \<Longrightarrow>
     (\<exists>g \<in> set (project_grants db). dpg_device_id g = i \<and> dpg_project_id g = p)
     \<and> (\<exists>q \<in> set (projects db). p_id q = p \<and> p_status q = PROJECT_ACTIVE)"
  by (auto simp: granted_projects_def list_ex_iff)

section \<open>Revocation\<close>

definition device_revoked :: "uuid \<Rightarrow> db \<Rightarrow> bool" where
  "device_revoked i db \<longleftrightarrow> (\<exists>d. get_device_row db i = Some d \<and> d_revoked_at d \<noteq> None)"

text \<open>The operations of the device service, as events with their drawn values.\<close>

datatype device_op =
    CreateCode time ustr uuid uuid uuid "uuid list" uuid
  | Pair time uuid device_draw uuid ustr ustr uuid
  | Refresh time device_draw uuid ustr uuid
  | Authenticate time ustr
  | Revoke time uuid uuid uuid uuid

fun device_step :: "lib \<Rightarrow> ustr \<Rightarrow> device_op \<Rightarrow> db \<Rightarrow> db" where
  "device_step L secret (CreateCode now code pid aid owner ps rid) db =
     snd (create_pairing_code L now code pid aid owner ps rid db)"
| "device_step L secret (Pair now i dr aid code name rid) db =
     snd (pair L secret now i dr aid code name rid db)"
| "device_step L secret (Refresh now dr aid raw rid) db = snd (refresh L secret now dr aid id raw rid db)"
| "device_step L secret (Authenticate now raw) db = snd (device_authenticate L secret now raw db)"
| "device_step L secret (Revoke now aid owner i rid) db = snd (revoke L now aid owner i rid db)"

lemma device_revoked_devices:
  assumes "device_revoked i db" "devices db' = devices db"
  shows "device_revoked i db'"
  using assms by (simp add: device_revoked_def get_device_row_def)

lemma device_revoked_append:
  assumes "device_revoked i db" "devices db' = devices db @ new"
  shows "device_revoked i db'"
  using assms by (auto simp: device_revoked_def get_device_row_def find_append)

lemma device_revoked_put:
  assumes "device_revoked i db" "\<And>d. d_id (f d) = d_id d"
    "\<And>d. d_revoked_at d \<noteq> None \<Longrightarrow> d_revoked_at (f d) \<noteq> None" "devices db' = devices (put_device j f db)"
  shows "device_revoked i db'"
proof -
  have "device_revoked i (put_device j f db)"
  proof -
    from assms(1) obtain d where d: "get_device_row db i = Some d" "d_revoked_at d \<noteq> None"
      by (auto simp: device_revoked_def)
    then have "get_device_row (put_device j f db) i = Some (if i = j then f d else d)"
      by (simp add: device_table.get_put [OF assms(2)])
    with d assms(3) show ?thesis by (simp add: device_revoked_def)
  qed
  then show ?thesis using assms(4) by (rule device_revoked_devices)
qed

lemma touch_device_fields [simp]:
  "d_id (touch_device now d) = d_id d" "d_revoked_at (touch_device now d) = d_revoked_at d"
  by (simp_all add: touch_device_def)

lemma create_pairing_code_devices:
  "devices (snd (create_pairing_code L now code pid aid owner ps rid db)) = devices db"
  by (auto simp: create_pairing_code_def Let_def dest!: write_audit_snd simp: only_log_tables
      split: option.splits sum.splits prod.splits)

lemma revoke_cases:
  assumes "revoke L now aid owner i rid db = (r, db')"
  obtains "db' = db"
  | db1 where "db1 = revoke_device_sessions i now (put_device i (\<lambda>d. d\<lparr>d_revoked_at := Some now\<rparr>) db)"
    "only_log db1 db'" "r = Inr ()"
  using assms
  by (auto simp: revoke_def Let_def dest: write_audit_snd split: option.splits sum.splits prod.splits if_splits)

lemma device_step_revoked:
  assumes "device_revoked i db"
  shows "device_revoked i (device_step L secret op db)"
proof (cases op)
  case (CreateCode now code pid aid owner ps rid)
  with assms create_pairing_code_devices show ?thesis by (auto intro: device_revoked_devices)
next
  case (Pair now j dr aid code name rid)
  obtain r db' where e: "pair L secret now j dr aid code name rid db = (r, db')" by fastforce
  show ?thesis
  proof (cases r)
    case (Inl x)
    with e Pair assms show ?thesis
      by (auto dest!: pair_Inl intro: device_revoked_devices simp: only_log_tables)
  next
    case (Inr p)
    with e have "pair L secret now j dr aid code name rid db = (Inr p, db')" by simp
    then show ?thesis
    proof (cases rule: pair_Inr)
      case (1 h pc nm db0 ss lg)
      then have "devices db' = devices db @ [\<lparr>d_id = j, d_owner_id = pc_owner_id pc, d_name = nm,
          d_paired_at = now, d_last_used_at = None, d_revoked_at = None\<rparr>]"
        by (simp add: use_pairing_code_def)
      with assms Pair e show ?thesis by (auto intro: device_revoked_append)
    qed
  qed
next
  case (Refresh now dr aid raw rid)
  obtain r db' where e: "refresh L secret now dr aid id raw rid db = (r, db')" by fastforce
  show ?thesis
  proof (cases r)
    case (Inl x)
    with e Refresh assms show ?thesis
      by (auto dest!: refresh_Inl intro: device_revoked_devices simp: only_log_tables)
  next
    case (Inr p)
    with e have "refresh L secret now dr aid id raw rid db = (Inr p, db')" by simp
    then show ?thesis
    proof (cases rule: refresh_Inr)
      case (1 h cur d owner new db1)
      then have "devices db' = devices db" by (simp add: only_log_tables put_session_def)
      with assms Refresh e show ?thesis by (auto intro: device_revoked_devices)
    qed
  qed
next
  case (Authenticate now raw)
  obtain r db' where e: "device_authenticate L secret now raw db = (r, db')" by fastforce
  have "db' = db \<or> (\<exists>j. db' = put_device j (touch_device now) db)"
    using e by (auto simp: device_authenticate_def Let_def split: sum.splits option.splits if_splits)
  with assms have "device_revoked i db'"
    by (elim disjE exE) (simp, rule device_revoked_put [where f = "touch_device now"], simp_all)
  with e Authenticate show ?thesis by simp
next
  case (Revoke now aid owner j rid)
  obtain r db' where e: "revoke L now aid owner j rid db = (r, db')" by fastforce
  from e have "device_revoked i db'"
  proof (cases rule: revoke_cases)
    case 1
    with assms show ?thesis by simp
  next
    case (2 db1)
    then have dd: "devices db' = devices (put_device j (\<lambda>d. d\<lparr>d_revoked_at := Some now\<rparr>) db)"
      by (simp add: only_log_tables revoke_device_sessions_def)
    show ?thesis by (rule device_revoked_put [OF assms _ _ dd]) simp_all
  qed
  with e Revoke show ?thesis by simp
qed

lemma device_run_revoked:
  "device_revoked i db \<Longrightarrow> device_revoked i (fold (device_step L secret) ops db)"
  by (induction ops arbitrary: db) (simp_all add: device_step_revoked)

lemma revoked_never_authenticates:
  assumes "device_revoked i db" "device_authenticate L secret now raw db = (Inr a, db')"
  shows "actor_subject a \<noteq> i"
  using assms(2)
proof (cases rule: device_authenticate_Inr)
  case (1 d s owner)
  with assms(1) show ?thesis by (auto simp: device_revoked_def)
qed

lemma revoke_marks:
  assumes "revoke L now aid owner i rid db = (Inr (), db')"
    and "distinct (map d_id (devices db))"
  shows "device_revoked i db'"
  using assms(1)
proof (cases rule: revoke_cases)
  case 1
  from assms(1) obtain d where d: "find (\<lambda>d. d_id d = i \<and> d_owner_id d = owner) (devices db) = Some d"
    and r: "d_revoked_at d \<noteq> None \<or> db' \<noteq> db \<or> True" by (auto simp: revoke_def split: option.splits if_splits)
  from d have di: "d_id d = i" "d \<in> set (devices db)" by (auto dest: find_SomeD)
  from device_table.get_of_member [OF assms(2) di(2)] di have g: "get_device_row db i = Some d" by simp
  show ?thesis
  proof (cases "d_revoked_at d")
    case None
    with assms(1) d obtain db1 where
      "db1 = revoke_device_sessions i now (put_device i (\<lambda>d. d\<lparr>d_revoked_at := Some now\<rparr>) db)"
      "only_log db1 db'"
      by (auto simp: revoke_def Let_def dest: write_audit_snd split: if_splits sum.splits prod.splits)
    then have "devices db' = devices (put_device i (\<lambda>d. d\<lparr>d_revoked_at := Some now\<rparr>) db)"
      by (simp add: only_log_tables revoke_device_sessions_def)
    then have "get_device_row db' i = get_device_row (put_device i (\<lambda>d. d\<lparr>d_revoked_at := Some now\<rparr>) db) i"
      by (simp add: get_device_row_def)
    with g show ?thesis by (simp add: device_revoked_def row_simps)
  next
    case (Some t)
    with g 1 show ?thesis by (simp add: device_revoked_def)
  qed
next
  case (2 db1)
  from assms(1) obtain d where "find (\<lambda>d. d_id d = i \<and> d_owner_id d = owner) (devices db) = Some d"
    by (auto simp: revoke_def split: option.splits if_splits)
  then have di: "d_id d = i" "d \<in> set (devices db)" by (auto dest: find_SomeD)
  from device_table.get_of_member [OF assms(2) di(2)] di have g: "get_device_row db i = Some d" by simp
  from 2 have "devices db' = devices (put_device i (\<lambda>d. d\<lparr>d_revoked_at := Some now\<rparr>) db)"
    by (simp add: only_log_tables revoke_device_sessions_def)
  then have "get_device_row db' i = get_device_row (put_device i (\<lambda>d. d\<lparr>d_revoked_at := Some now\<rparr>) db) i"
    by (simp add: get_device_row_def)
  with g show ?thesis by (simp add: device_revoked_def row_simps)
qed

end
