(* ===== verification/Access_Properties.thy ===== *)
theory Access_Properties
  imports Users_Proofs Devices_Proofs Examples
begin

text \<open>
  The properties of the access layer: audit evidence, browser sign-in and sessions,
  accounts, projects and devices, each with the run that shows its hypotheses can hold.
\<close>

section \<open>Browser sign-in\<close>

text \<open>C31. Five wrong passwords in a row lock the account: every further login attempt in the 15
  minutes after the last one fails with the same public error as a wrong password, creates no
  session and changes no account, even with the right password.\<close>

theorem five_failures_lock:
  assumes "user_by_username db n = Some user" "u_locked_until user = None"
    and "u_failed_login_count user = 0" "length as = 5"
    and "\<forall>a \<in> set as. \<not> pv_valid (verify_password L (u_password_hash user) (at_password a))"
    and "now < at_now (last as) + 15 * minute"
  shows "\<exists>db'. login_route L secret now salt dr aid rid n pw (attempts L secret n as db)
      = (Inl authentication_failed_error, db')
    \<and> sessions db' = sessions (attempts L secret n as db)
    \<and> users db' = users (attempts L secret n as db)"
proof -
  from assms(4) have "as \<noteq> []" by auto
  from attempts_until_lock [OF assms(1,2) _ this assms(5)] assms(3,4) obtain user' where
    u: "user_by_username (attempts L secret n as db) n = Some user'"
    "u_locked_until user' = Some (at_now (last as) + LOGIN_LOCK_DURATION)"
    by (auto simp: MAX_LOGIN_FAILURES_def)
  from u(2) assms(6) have "locked now user'" by (simp add: locked_def LOGIN_LOCK_DURATION_def)
  from login_route_locked [OF u(1) this] obtain db' where
    "login_route L secret now salt dr aid rid n pw (attempts L secret n as db)
      = (Inl authentication_failed_error, db')" "only_log (attempts L secret n as db) db'" by blast
  with only_log_gets(4,5) show ?thesis by blast
qed

definition sample_draw :: session_draw where
  "sample_draw = \<lparr>sd_now = 0, sd_raw_refresh = u ''raw-refresh'', sd_session_id = 40, sd_jti = 41\<rparr>"

definition wrong_attempt :: "time \<Rightarrow> attempt" where
  "wrong_attempt t = \<lparr>at_now = t, at_salt = 0, at_draw = sample_draw, at_aid = 50, at_rid = 51,
     at_password = u ''wrong''\<rparr>"

lemma sample_user: "user_by_username sample_db (u ''boss'') = Some owner_row"
  by (simp add: user_by_username_def sample_db_def owner_row_def)

lemma five_failures_lock_witness:
  "\<exists>db'. login_route sample_lib (u ''secret'') 9 0 sample_draw 60 61 (u ''boss'') (u ''correct-horse-1'')
      (attempts sample_lib (u ''secret'') (u ''boss'') (map wrong_attempt [1, 2, 3, 4, 5]) sample_db)
    = (Inl authentication_failed_error, db')"
  using five_failures_lock [OF sample_user, of "map wrong_attempt [1, 2, 3, 4, 5]" sample_lib 9
      "u ''secret''" 0 sample_draw 60 61 "u ''correct-horse-1''"]
  by (auto simp: wrong_attempt_def owner_row_def verify_password_def validate_password_def
      MIN_PASSWORD_CODEPOINTS_def u_def)

text \<open>A browser refresh token is a one-time credential: in any sequence of refresh requests,
  each token is exchanged at most once.\<close>

theorem browser_refresh_once:
  "exchange_successes (\<lambda>x raw. refresh_route L secret (fst x) (snd x) (Some raw)) raw cs db \<le> 1"
  by (rule browser_refresh.at_most_once)

text \<open>An access token authenticates a user only through a session that is the user's own, of
  the browser kind, neither revoked nor expired, and only an ACTIVE account; changing the account
  or revoking the session takes effect on the next request.\<close>

theorem authenticate_needs_live_session:
  assumes "authenticate_access_token L secret now token db = Inr user"
  shows "\<exists>s. s \<in> set (sessions db) \<and> s_kind s = SESSION_USER \<and> s_user_id s = Some (u_id user)
    \<and> s_revoked_at s = None \<and> now < s_access_expires_at s
    \<and> get_user db (u_id user) = Some user \<and> u_status user = USER_ACTIVE"
  using assms
proof (cases rule: authenticate_Inr)
  case (1 claims i s)
  with session_table.get_member [OF 1(3)] show ?thesis by blast
qed

text \<open>A library whose tokens all decode to the claims of session 40 of the OWNER.\<close>

definition sample_claims :: "(ustr \<times> json) list" where
  "sample_claims = [(u ''sub'', JStr (u ''1'')), (u ''role'', JStr (u ''OWNER'')),
     (u ''session_id'', JStr (u ''40'')), (u ''iat'', JInt 0), (u ''exp'', JInt 7200),
     (u ''jti'', JStr (u ''41''))]"

definition token_lib :: lib where
  "token_lib = sample_lib\<lparr>jwt_decode := (\<lambda>now verify secret token. Some sample_claims),
     uuid_parse := (\<lambda>s. if s = u ''1'' then Some 11 else if s = u ''40'' then Some 40 else None)\<rparr>"

lemma token_lib_decode: "decode_access_token token_lib now (u ''secret'') t = Inr sample_claims"
  by (simp add: decode_access_token_def token_lib_def sample_claims_def exact_claims_def
      ACCESS_CLAIMS_def claim_text_def claim_int_def u_def)

definition sample_session :: auth_session where
  "sample_session = \<lparr>s_id = 40, s_kind = SESSION_USER, s_user_id = Some 11, s_device_id = None,
     s_access_jti = u ''41'', s_refresh_token_hash = toy_digest (u ''raw-refresh''),
     s_access_expires_at = 2 * hour, s_refresh_expires_at = 14 * day, s_refresh_used_at = None,
     s_revoked_at = None, s_created_at = 0\<rparr>"

definition session_db :: db where
  "session_db = sample_db\<lparr>sessions := [sample_session]\<rparr>"

lemma token_lib_claims:
  "claim_uuid token_lib sample_claims ''session_id'' = Some 40"
  "claim_uuid token_lib sample_claims ''sub'' = Some 11"
  "claim_text sample_claims ''role'' = Some (u ''OWNER'')" "claim_text sample_claims ''jti'' = Some (u ''41'')"
  by (simp_all add: claim_uuid_def claim_text_def sample_claims_def token_lib_def)

lemma session_db_authenticates:
  "authenticate_access_token token_lib (u ''secret'') 5 (u ''t'') session_db = Inr owner_row"
  by (simp add: authenticate_access_token_def token_lib_decode token_lib_claims get_session_def
      get_user_def session_db_def sample_session_def sample_db_def owner_row_def)

lemma authenticate_needs_live_session_witness:
  "\<exists>s. s \<in> set (sessions session_db) \<and> s_user_id s = Some (u_id owner_row) \<and> s_revoked_at s = None"
  using authenticate_needs_live_session [OF session_db_authenticates] by blast

text \<open>C37. A successful password change ends every other session of the account: the only live
  session left is the one just issued, whose refresh token is the one returned.\<close>

theorem password_change_ends_sessions:
  assumes "change_password L secret now salt dr i pw new_pw db = (Inr c, db')"
    and "s \<in> set (sessions db')" "s_user_id s = Some i" "s_revoked_at s = None"
  shows "s_id s = sd_session_id dr
    \<and> hash_token L (sp_refresh_token (cl_pair c)) = Some (s_refresh_token_hash s)"
  using change_password_revokes [OF assms] by blast

lemma password_change_runs:
  "\<exists>c db'. change_password token_lib (u ''secret'') 5 0 (sample_draw\<lparr>sd_session_id := 42\<rparr>) 11
      (u ''correct-horse-1'') (u ''better-horse-22'') session_db = (Inr c, db')
    \<and> (\<exists>s \<in> set (sessions db'). s_user_id s = Some 11 \<and> s_revoked_at s = None)"
proof -
  have v: "verify_password token_lib (u ''$argon2id$correct-horse-1'') (u ''correct-horse-1'')
      = \<lparr>pv_valid = True, pv_needs_rehash = False\<rparr>"
    "verify_password token_lib (u ''$argon2id$correct-horse-1'') (u ''better-horse-22'')
      = \<lparr>pv_valid = False, pv_needs_rehash = False\<rparr>"
    "\<exists>h. hash_password token_lib 0 (u ''better-horse-22'') = Inr h"
    by (simp_all add: verify_password_def hash_password_def validate_password_def u_def token_lib_def
        MIN_PASSWORD_CODEPOINTS_def MAX_PASSWORD_CODEPOINTS_def MAX_PASSWORD_UTF8_BYTES_def
        utf8_encode_def utf8_char_def surrogate_def)
  have g: "get_user session_db 11 = Some owner_row"
    by (simp add: get_user_def session_db_def sample_db_def owner_row_def)
  have h: "\<exists>h. hash_token token_lib (u ''raw-refresh'') = Some h"
    by (simp add: hash_token_def utf8_encode_def u_def surrogate_def)
  have d: "\<exists>p db'. issue_session token_lib (u ''secret'') (sample_draw\<lparr>sd_session_id := 42\<rparr>) x d = (Inr p, db')
      \<and> (\<exists>s \<in> set (sessions db'). s_user_id s = Some (u_id x) \<and> s_revoked_at s = None)" for x d
    using h by (auto simp: issue_session_def Let_def sample_draw_def issue_access_token_def
        token_lib_decode)
  from v(3) obtain nh where nh: "hash_password token_lib 0 (u ''better-horse-22'') = Inr nh" by blast
  let ?x = "set_password 5 nh False owner_row"
  let ?d = "revoke_all_for_user 11 5 (put_user 11 (set_password 5 nh False) session_db)"
  have o: "u_id owner_row = 11" "u_status owner_row = USER_ACTIVE" "u_id ?x = 11"
    "u_password_hash owner_row = u ''$argon2id$correct-horse-1''"
    by (simp_all add: owner_row_def set_password_def)
  from d [of ?x ?d] obtain p db' where p: "issue_session token_lib (u ''secret'')
      (sample_draw\<lparr>sd_session_id := 42\<rparr>) ?x ?d = (Inr p, db')"
    "\<exists>s \<in> set (sessions db'). s_user_id s = Some 11 \<and> s_revoked_at s = None"
    unfolding o(3) by blast
  have "change_password token_lib (u ''secret'') 5 0 (sample_draw\<lparr>sd_session_id := 42\<rparr>) 11
      (u ''correct-horse-1'') (u ''better-horse-22'') session_db
      = (Inr \<lparr>cl_pair = p, cl_user = ?x\<rparr>, db')"
    by (simp add: change_password_def g v nh Let_def o(1,2,4) p(1))
  with p(2) show ?thesis by blast
qed

lemma password_change_ends_sessions_witness:
  "\<exists>c db' s. change_password token_lib (u ''secret'') 5 0 (sample_draw\<lparr>sd_session_id := 42\<rparr>) 11
      (u ''correct-horse-1'') (u ''better-horse-22'') session_db = (Inr c, db')
    \<and> s \<in> set (sessions db') \<and> s_id s = 42"
proof -
  obtain c db' s where e: "change_password token_lib (u ''secret'') 5 0 (sample_draw\<lparr>sd_session_id := 42\<rparr>) 11
      (u ''correct-horse-1'') (u ''better-horse-22'') session_db = (Inr c, db')"
    "s \<in> set (sessions db')" "s_user_id s = Some 11" "s_revoked_at s = None"
    using password_change_runs by blast
  from password_change_ends_sessions [OF e] have "s_id s = 42" by (simp add: sample_draw_def)
  with e(1,2) show ?thesis by blast
qed

text \<open>Logout with both cookies ends both credentials: the refresh token is refused from then
  on, and the session of the access token is revoked.\<close>

theorem logout_ends_credentials:
  assumes "logout_route L secret now authorization access (Some raw) db = (Inr x, db')"
    and "raw \<noteq> []" "hash_token L raw = Some h" "session_by_refresh_hash db h = Some s"
  shows "refresh_route L secret later dr (Some raw) db' = (Inl unauthenticated_error, db')"
proof -
  from assms(1) obtain y where "logout L secret now (bearer_or_cookie authorization access) (Some raw) db
      = (Inr y, db')" by (auto simp: logout_route_def split: prod.splits sum.splits)
  then obtain ids where ids: "logout_records L secret now (bearer_or_cookie authorization access)
      (Some raw) db = Inr ids" "db' = fold (revoke_session now) ids db" by (rule logout_Inr)
  from logout_records_refresh [OF ids(1) assms(2-4)] fold_revoke_by_hash [OF assms(4)] ids(2)
  obtain s' where "session_by_refresh_hash db' h = Some s'" "s_revoked_at s' \<noteq> None" by blast
  with assms(3) show ?thesis by (simp add: refresh_route_def rotate_refresh_token_def)
qed

lemma sample_refresh_hash: "hash_token sample_lib (u ''raw-refresh'') = Some (toy_digest (u ''raw-refresh''))"
  by (simp add: hash_token_def utf8_ascii u_def)

lemma logout_ends_credentials_witness:
  "\<exists>x db'. logout_route sample_lib (u ''secret'') 5 [] None (Some (u ''raw-refresh'')) session_db = (Inr x, db')
    \<and> refresh_route sample_lib (u ''secret'') 6 sample_draw (Some (u ''raw-refresh'')) db'
      = (Inl unauthenticated_error, db')"
proof -
  have s: "session_by_refresh_hash session_db (toy_digest (u ''raw-refresh'')) = Some sample_session"
    by (simp add: session_by_refresh_hash_def session_db_def sample_session_def)
  have "\<exists>x db'. logout_route sample_lib (u ''secret'') 5 [] None (Some (u ''raw-refresh'')) session_db = (Inr x, db')"
    by (simp add: logout_route_def logout_def logout_records_def bearer_or_cookie_def sample_refresh_hash s)
  then obtain x db' where e: "logout_route sample_lib (u ''secret'') 5 [] None (Some (u ''raw-refresh'')) session_db
      = (Inr x, db')" by blast
  from logout_ends_credentials [OF e _ sample_refresh_hash s] e show ?thesis by auto
qed

section \<open>Devices\<close>

text \<open>C32. A pairing code pairs at most one device: in any sequence of pairing requests each code
  succeeds at most once.\<close>

theorem pairing_code_once:
  "exchange_successes (\<lambda>x raw. pair L secret (fst x) (fst (snd x)) (fst (snd (snd x)))
     (fst (snd (snd (snd x)))) raw (fst (snd (snd (snd (snd x))))) (snd (snd (snd (snd (snd x))))))
   raw cs db \<le> 1"
  by (rule pairing_code.at_most_once)

text \<open>A device refresh token is a one-time credential: in any sequence of refreshes each token
  is exchanged at most once.\<close>

theorem device_refresh_once:
  "exchange_successes (\<lambda>x raw. refresh L secret (fst x) (fst (snd x)) (fst (snd (snd x))) id raw
     (snd (snd (snd x)))) raw cs db \<le> 1"
  by (rule device_refresh.at_most_once)

text \<open>A device access token yields a device actor only for an unrevoked device of an ACTIVE
  OWNER through a live session of that device, and the actor has no role, only projects that are
  granted to the device and ACTIVE now, and only scopes granted to it.\<close>

theorem device_actor_bounded:
  assumes "device_authenticate L secret now raw db = (Inr a, db')"
  shows "actor_kind a = ''device'' \<and> actor_role a = None
    \<and> (\<exists>d owner s. get_device_row db (actor_subject a) = Some d \<and> d_revoked_at d = None
        \<and> get_user db (d_owner_id d) = Some owner \<and> u_role owner = OWNER \<and> u_status owner = USER_ACTIVE
        \<and> s \<in> set (sessions db) \<and> s_device_id s = Some (actor_subject a) \<and> s_revoked_at s = None
        \<and> now < s_access_expires_at s)
    \<and> (\<forall>p \<in> set (actor_projects a).
        (\<exists>g \<in> set (project_grants db). dpg_device_id g = actor_subject a \<and> dpg_project_id g = p)
        \<and> (\<exists>q \<in> set (projects db). p_id q = p \<and> p_status q = PROJECT_ACTIVE))
    \<and> (\<forall>sc \<in> set (actor_scopes a). sc \<in> set DEVICE_ACCESS_SCOPES
        \<and> (\<exists>g \<in> set (scope_grants db). dsg_device_id g = actor_subject a \<and> dsg_scope g = sc))"
  using assms
proof (cases rule: device_authenticate_Inr)
  case (1 d s owner)
  have "\<forall>p \<in> set (actor_projects a).
      (\<exists>g \<in> set (project_grants db). dpg_device_id g = actor_subject a \<and> dpg_project_id g = p)
      \<and> (\<exists>q \<in> set (projects db). p_id q = p \<and> p_status q = PROJECT_ACTIVE)"
    using granted_projects_active 1(3,15) by simp
  moreover have "\<forall>sc \<in> set (actor_scopes a). sc \<in> set DEVICE_ACCESS_SCOPES
      \<and> (\<exists>g \<in> set (scope_grants db). dsg_device_id g = actor_subject a \<and> dsg_scope g = sc)"
    using 1(3,16) by (auto simp: granted_scopes_def)
  ultimately show ?thesis using 1(1-13) by auto
qed

definition device_row :: device_connection where
  "device_row = \<lparr>d_id = 20, d_owner_id = 11, d_name = u ''Laptop'', d_paired_at = 0,
     d_last_used_at = None, d_revoked_at = None\<rparr>"

definition device_db :: db where
  "device_db = sample_db\<lparr>devices := [device_row], sessions := [sample_session\<lparr>s_kind := SESSION_DEVICE,
       s_user_id := None, s_device_id := Some 20, s_access_jti := uuid_str 41\<rparr>],
     project_grants := [\<lparr>dpg_device_id = 20, dpg_project_id = 10\<rparr>],
     scope_grants := map (\<lambda>s. \<lparr>dsg_device_id = 20, dsg_scope = s\<rparr>) DEVICE_ACCESS_SCOPES\<rparr>"

definition device_claims :: "(ustr \<times> json) list" where
  "device_claims = [(u ''sub'', JStr (u ''20'')), (u ''device_id'', JStr (u ''20'')),
     (u ''owner_id'', JStr (u ''11'')), (u ''scopes'', scopes_json), (u ''session_id'', JStr (u ''40'')),
     (u ''iat'', JInt 0), (u ''exp'', JInt 7200), (u ''jti'', JStr (u ''41''))]"

definition device_lib :: lib where
  "device_lib = sample_lib\<lparr>jwt_decode := (\<lambda>now verify secret token. Some device_claims),
     uuid_parse := (\<lambda>s. if s = u ''20'' then Some 20 else if s = u ''11'' then Some 11
       else if s = u ''40'' then Some 40 else if s = u ''41'' then Some 41 else None)\<rparr>"

lemma device_lib_claims:
  "claim_uuid device_lib device_claims ''device_id'' = Some 20"
  "claim_uuid device_lib device_claims ''owner_id'' = Some 11"
  "claim_uuid device_lib device_claims ''session_id'' = Some 40"
  "claim_uuid device_lib device_claims ''sub'' = Some 20"
  "claim_uuid device_lib device_claims ''jti'' = Some 41"
  "claim_int device_claims ''iat'' = Some 0" "claim_int device_claims ''exp'' = Some 7200"
  "map_of device_claims (u ''scopes'') = Some scopes_json"
  by (simp_all add: claim_uuid_def claim_int_def device_claims_def device_lib_def)

lemma device_lib_decode: "decode_device_access_token device_lib now (u ''secret'') t = Inr device_claims"
proof -
  have "exact_claims device_claims DEVICE_ACCESS_CLAIMS"
    by (auto simp: exact_claims_def device_claims_def DEVICE_ACCESS_CLAIMS_def)
  moreover have "jwt_decode device_lib now False (u ''secret'') t = Some device_claims"
    by (simp add: device_lib_def)
  ultimately show ?thesis by (simp add: decode_device_access_token_def device_lib_claims)
qed

lemma device_db_lookups:
  "get_user device_db 11 = Some owner_row" "get_device_row device_db 20 = Some device_row"
  "get_session device_db 40 = Some (sample_session\<lparr>s_kind := SESSION_DEVICE, s_user_id := None,
     s_device_id := Some 20, s_access_jti := uuid_str 41\<rparr>)"
  by (simp_all add: get_user_def get_device_row_def get_session_def device_db_def sample_db_def
      owner_row_def device_row_def sample_session_def)

lemma device_db_authenticates:
  "\<exists>a db'. device_authenticate device_lib (u ''secret'') 5 (u ''t'') device_db = (Inr a, db')
    \<and> actor_subject a = 20"
  by (simp add: device_authenticate_def device_lib_decode device_lib_claims device_db_lookups
      Let_def active_owner_def)
    (simp add: owner_row_def device_row_def sample_session_def)

lemma device_actor_bounded_witness:
  "\<exists>a db'. device_authenticate device_lib (u ''secret'') 5 (u ''t'') device_db = (Inr a, db')
    \<and> actor_kind a = ''device''"
proof -
  obtain a db' where e: "device_authenticate device_lib (u ''secret'') 5 (u ''t'') device_db = (Inr a, db')"
    using device_db_authenticates by blast
  from device_actor_bounded [OF e] e show ?thesis by blast
qed

text \<open>C33. Revocation is final: once the OWNER's revocation of a device succeeds, no later pairing,
  refresh, authentication or revocation, in any number and order, makes a token of that device
  authenticate again.\<close>

theorem revocation_is_final:
  assumes "revoke L now aid owner i rid db = (Inr x, db')" "distinct (map d_id (devices db))"
    and "device_authenticate L secret later raw (fold (device_step L secret) ops db') = (Inr a, db2)"
  shows "actor_subject a \<noteq> i"
proof -
  have "revoke L now aid owner i rid db = (Inr (), db')" using assms(1) by simp
  from device_run_revoked [OF revoke_marks [OF this assms(2)]] have
    "device_revoked i (fold (device_step L secret) ops db')" .
  from revoked_never_authenticates [OF this assms(3)] show ?thesis .
qed

definition two_devices :: db where
  "two_devices = device_db\<lparr>devices := [device_row\<lparr>d_id := 21\<rparr>, device_row]\<rparr>"

lemma revocation_is_final_witness:
  "\<exists>x db' a db2. revoke device_lib 5 70 11 21 71 two_devices = (Inr x, db')
    \<and> device_authenticate device_lib (u ''secret'') 6 (u ''t'')
        (fold (device_step device_lib (u ''secret'')) [] db') = (Inr a, db2) \<and> actor_subject a \<noteq> 21"
proof -
  have f: "active_owner (get_user two_devices 11)"
    "find (\<lambda>d. d_id d = 21 \<and> d_owner_id d = 11) (devices two_devices) = Some (device_row\<lparr>d_id := 21\<rparr>)"
    by (simp_all add: active_owner_def get_user_def two_devices_def device_db_def sample_db_def
        owner_row_def device_row_def)
  let ?d1 = "revoke_device_sessions 21 5 (put_device 21 (\<lambda>d. d\<lparr>d_revoked_at := Some 5\<rparr>) two_devices)"
  have logs: "audit_logs ?d1 = []"
    by (simp add: revoke_device_sessions_def put_device_def two_devices_def device_db_def sample_db_def
        empty_db_def)
  have w: "\<exists>i. write_audit id row ?d1 = (Inr i, ?d1\<lparr>audit_logs := audit_logs ?d1 @ [row]\<rparr>)" for row
    using logs by (simp add: write_audit_def insert_audit_def event_by_key_def split: option.split)
  have "\<exists>db'. revoke device_lib 5 70 11 21 71 two_devices = (Inr (), db') \<and> only_log ?d1 db'"
    using f w [of "device_audit_row 70 ''user'' (Some 11) (Some OWNER) ''device.revoke'' ''device'' (Some 21)
      ''SUCCESS'' 71 [(u ''state'', JStr (u ''REVOKED''))] (Some (event_key device_lib ''device-revoke'' 21))"]
    by (auto simp: revoke_def device_row_def Let_def simp del: One_nat_def)
  then obtain db' where r: "revoke device_lib 5 70 11 21 71 two_devices = (Inr (), db')" "only_log ?d1 db'"
    by blast
  have g: "get_user db' 11 = Some owner_row" "get_device_row db' 20 = Some device_row"
    "get_session db' 40 = Some (sample_session\<lparr>s_kind := SESSION_DEVICE, s_user_id := None,
       s_device_id := Some 20, s_access_jti := uuid_str 41\<rparr>)"
    using only_log_tables [OF r(2)]
    by (simp_all add: get_user_def get_device_row_def get_session_def revoke_device_sessions_def
        put_device_def two_devices_def device_db_def sample_db_def owner_row_def device_row_def
        sample_session_def)
  have "\<exists>a db2. device_authenticate device_lib (u ''secret'') 6 (u ''t'') db' = (Inr a, db2)"
    by (simp add: device_authenticate_def device_lib_decode device_lib_claims g Let_def active_owner_def)
      (simp add: owner_row_def device_row_def sample_session_def)
  then obtain a db2 where a: "device_authenticate device_lib (u ''secret'') 6 (u ''t'')
      (fold (device_step device_lib (u ''secret'')) [] db') = (Inr a, db2)" by auto
  have "distinct (map d_id (devices two_devices))" by (simp add: two_devices_def device_row_def)
  from revocation_is_final [OF r(1) this a] r(1) a show ?thesis by blast
qed

end
