(* ===== verification/Account_Properties.thy ===== *)
theory Account_Properties
  imports Access_Properties
begin

text \<open>
  The properties of accounts, projects, credentials and audit evidence.
\<close>

section \<open>Accounts\<close>

text \<open>C38. Whatever sign-ins, password changes, account management and local administration
  happen, identifiers and usernames stay unique, every username has the canonical form and there
  is never more than one OWNER.\<close>

theorem accounts_stay_consistent:
  assumes "accounts_ok db"
  shows "accounts_ok (fold (account_step L secret) ops db)"
  by (rule account_run_ok [OF assms])

lemma accounts_ok_sample: "accounts_ok sample_db"
  by (simp add: accounts_ok_def sample_db_def owner_row_def staff_row_def u_def username_char_def)

lemma accounts_stay_consistent_witness:
  "accounts_ok (fold (account_step sample_lib (u ''secret''))
     [Login 5 0 sample_draw 60 61 (u ''boss'') (u ''wrong''),
      ResetStaff 6 0 (u ''temporary-secret'') 62 owner_actor 12 63] sample_db)"
  by (rule accounts_stay_consistent [OF accounts_ok_sample])

text \<open>The local bootstrap creates at most one OWNER even when it races with another: the
  check that no account exists locks nothing, but the single-OWNER index refuses the second insert,
  which is reported as an existing identity.\<close>

theorem bootstrap_race_safe:
  assumes "\<exists>x \<in> set (users (race db)). u_role x = OWNER"
    and "users db = []" "username_ok n" "d \<noteq> []" "d = strip_chars (isspace L) d" "length d \<le> 255"
    and "validate_password L pw = Inr ()"
  shows "bootstrap_owner L now salt new_id aid rid race n d pw pw db
    = (Inl (LocalAdminError ''A local identity already exists.''), race db)"
proof -
  let ?row = "\<lparr>u_id = new_id, u_username = n, u_display_name = d,
      u_password_hash = argon2_hash L salt pw, u_must_change_password = False,
      u_password_changed_at = now, u_failed_login_count = 0, u_locked_until = None, u_role = OWNER,
      u_status = USER_ACTIVE, u_last_login_at = None\<rparr>"
  obtain e where e: "insert_user ?row (race db) = Inl e"
    using insert_second_owner [OF assms(1), of ?row] by auto
  have "\<not> (d = [] \<or> d \<noteq> strip_chars (isspace L) d \<or> length d > 255)" using assms(4-6) by simp
  with assms(2,3,7) e show ?thesis
    by (simp add: bootstrap_owner_def read_confirmed_password_def hash_password_def)
qed

lemma bootstrap_race_safe_witness:
  "bootstrap_owner sample_lib 5 0 77 78 79 (\<lambda>_. sample_db) (u ''chief'') (u ''Chief'')
      (u ''correct-horse-1'') (u ''correct-horse-1'') empty_db
    = (Inl (LocalAdminError ''A local identity already exists.''), sample_db)"
proof -
  have "validate_password sample_lib (u ''correct-horse-1'') = Inr ()"
    by (simp add: validate_password_iff u_def surrogate_def)
  then show ?thesis
    by (intro bootstrap_race_safe)
      (simp_all add: sample_db_def owner_row_def empty_db_def u_def username_char_def strip_chars_def)
qed

text \<open>STAFF management never touches an OWNER: in a consistent database the OWNER rows are the
  same before and after every create, update, project replacement and password reset, and only the
  OWNER changes any account by them.\<close>

theorem owner_row_protected:
  assumes "accounts_ok db"
    and "db' \<in> {snd (create_staff_route L now salt pw new_id aid a c rid db),
      snd (update_staff_route L now aid a i upd rid db),
      snd (replace_projects_route L aid a i ids rid db),
      snd (reset_staff_password_route L now salt pw aid a i rid db)}"
  shows "filter (\<lambda>x. u_role x = OWNER) (users db') = filter (\<lambda>x. u_role x = OWNER) (users db)
    \<and> (users db' \<noteq> users db \<longrightarrow> is_owner a)"
proof (cases "db' = snd (create_staff_route L now salt pw new_id aid a c rid db)")
  case True
  obtain r d where e: "create_staff_route L now salt pw new_id aid a c rid db = (r, d)" by fastforce
  from create_staff_route_users [OF e] True e show ?thesis
    by (auto simp: only_log_gets dest!: insert_user_Inr)
next
  case False
  with assms(2) have "db' = snd (update_staff_route L now aid a i upd rid db)
    \<or> db' = snd (replace_projects_route L aid a i ids rid db)
    \<or> db' = snd (reset_staff_password_route L now salt pw aid a i rid db)" by simp
  from staff_routes_users [OF this] show ?thesis
  proof (unfold staff_write_def, elim disjE conjE exE)
    fix x f
    assume a: "is_owner a" "get_user db i = Some x" "u_role x = STAFF"
      "\<forall>y. account_key (f y) = account_key y" "users db' = users (put_user i f db)"
    have "distinct (map u_id (users db))" using assms(1) by (simp add: accounts_ok_def)
    from put_staff_keeps_owner [OF this a(2-4)] a(1,5) show ?thesis by simp
  qed simp
qed

lemma owner_row_protected_witness:
  "filter (\<lambda>x. u_role x = OWNER)
      (users (snd (reset_staff_password_route sample_lib 5 0 (u ''temporary-secret'') 60 owner_actor 11 61 sample_db)))
    = [owner_row]"
proof -
  have "filter (\<lambda>x. u_role x = OWNER) (users sample_db) = [owner_row]"
    by (simp add: sample_db_def owner_row_def staff_row_def)
  with owner_row_protected [OF accounts_ok_sample, of "snd (reset_staff_password_route sample_lib 5 0
      (u ''temporary-secret'') 60 owner_actor 11 61 sample_db)" sample_lib 5 0 "u ''temporary-secret''" 0 60
      owner_actor undefined 61 11 undefined "[]"]
  show ?thesis by simp
qed

text \<open>Disabling a STAFF account takes effect at once: no access token authenticates the account
  any more, because every browser session of it is revoked and the account is not ACTIVE.\<close>

theorem disabled_account_locked_out:
  assumes "update_staff L now aid a i c rid db = (Inr v, db')" "su_status c = Some USER_DISABLED"
    and "authenticate_access_token L secret later token db' = Inr x"
  shows "u_id x \<noteq> i"
  using no_live_session_no_login [OF _ assms(3)] update_staff_disables [OF assms(1,2)] by blast

definition disable :: staff_update where
  "disable = \<lparr>su_display_name = None, su_status = Some USER_DISABLED\<rparr>"

lemma disabled_account_locked_out_witness:
  "\<exists>v db' x. update_staff token_lib 5 60 owner_actor 12 disable 61 session_db = (Inr v, db')
    \<and> authenticate_access_token token_lib (u ''secret'') 6 (u ''t'') db' = Inr x \<and> u_id x \<noteq> 12"
proof -
  have g: "get_user session_db 12 = Some staff_row"
    by (simp add: get_user_def session_db_def sample_db_def owner_row_def staff_row_def)
  have s: "(staff_for_update token_lib 60 owner_actor ''user.update'' 12 61 session_db
      :: (owner_user_view result \<times> db) + user) = Inr staff_row"
    by (simp add: staff_for_update_def is_owner_def owner_actor_def g staff_row_def)
  then obtain v db' where u: "update_staff token_lib 5 60 owner_actor 12 disable 61 session_db = (Inr v, db')"
    and d: "db' = revoke_all_for_user 12 5 (put_user 12 (\<lambda>x. x\<lparr>u_status := USER_DISABLED\<rparr>) session_db)"
    by (simp add: update_staff_def disable_def Let_def)
  have "get_user db' 11 = Some owner_row" "get_session db' 40 = Some sample_session"
    by (simp_all add: d get_user_def get_session_def revoke_all_for_user_def put_user_def session_db_def
        sample_db_def owner_row_def staff_row_def sample_session_def)
  then have a: "authenticate_access_token token_lib (u ''secret'') 6 (u ''t'') db' = Inr owner_row"
    by (simp add: authenticate_access_token_def token_lib_decode token_lib_claims)
      (simp add: sample_session_def owner_row_def)
  from disabled_account_locked_out [OF u _ a] u a show ?thesis by (auto simp: disable_def)
qed

section \<open>Projects\<close>

text \<open>Project names stay canonical and unique up to case through every creation, whoever
  asks: the outcome of a creation is the new project, or a refusal that leaves the table alone.\<close>

theorem project_names_consistent:
  assumes "projects_ok L db" "create_project_route L aid new_id a command rid db = (r, db')"
  shows "projects_ok L db'"
  by (rule create_project_route_ok [OF assms])

lemma project_names_consistent_witness:
  "\<exists>r db'. create_project_route sample_lib 60 13 owner_actor \<lparr>pcr_name = u ''Beta'', pcr_is_test = False\<rparr>
      61 sample_db = (r, db') \<and> projects_ok sample_lib db'"
proof -
  obtain r db' where e: "create_project_route sample_lib 60 13 owner_actor
      \<lparr>pcr_name = u ''Beta'', pcr_is_test = False\<rparr> 61 sample_db = (r, db')" by fastforce
  have "projects_ok sample_lib sample_db"
    by (simp add: projects_ok_def sample_db_def project_row_def u_def strip_chars_def edge_whitespace_def)
  from project_names_consistent [OF this e] e show ?thesis by blast
qed

text \<open>Listing shows exactly what the caller may see: all projects to the OWNER, those with a
  membership to a STAFF member, in the database's name order, and to nobody else anything.\<close>

theorem project_list_exact:
  assumes "list_projects L aid a rid db = (Inr ps, db')"
  shows "set ps = {p \<in> set (projects db). actor_role a = Some OWNER
      \<or> is_member db (p_id p) (actor_subject a)}
    \<and> actor_kind a = ''user'' \<and> actor_role a \<in> {Some OWNER, Some STAFF}
    \<and> sorted (map (\<lambda>p. collate_key L (p_name p)) ps)"
  using list_projects_Inr [OF assms] by blast

lemma project_list_exact_witness:
  "\<exists>ps db'. list_projects sample_lib 60 staff_actor 61 sample_db = (Inr ps, db') \<and> project_row \<in> set ps"
proof -
  have "require_project_actor staff_actor = Inr ()"
    by (simp add: require_project_actor_def staff_actor_def)
  then obtain ps db' where e: "list_projects sample_lib 60 staff_actor 61 sample_db = (Inr ps, db')"
    by (simp add: list_projects_def)
  have "project_row \<in> set ps"
    using project_list_exact [OF e]
    by (simp add: is_member_def sample_db_def project_row_def staff_actor_def)
  with e show ?thesis by blast
qed

section \<open>Credentials\<close>

text \<open>The password policy accepts exactly the texts of 12 to 128 code points without control
  characters and surrogates; its limit of 512 UTF-8 bytes never decides.\<close>

theorem password_policy_exact:
  "validate_password L raw = Inr () \<longleftrightarrow> 12 \<le> length raw \<and> length raw \<le> 128
     \<and> list_all (\<lambda>c. \<not> category_Cc L c) raw \<and> list_all (\<lambda>c. \<not> surrogate c) raw"
  by (rule validate_password_iff)

text \<open>The two kinds of access token cannot stand in for each other: no payload is accepted by
  both decoders, whatever the signing library returns.\<close>

theorem token_kinds_disjoint:
  "\<not> (decode_access_token L now secret token = Inr payload
      \<and> decode_device_access_token L now' secret' token' = Inr payload)"
  using claim_sets_differ [of payload]
  by (auto simp: decode_access_token_def elim!: decode_device_access_token_Inr
      split: if_splits option.splits)

section \<open>Audit\<close>

text \<open>C39. Sanitized metadata is bounded and redacted: an accepted value is an object of at most
  1000 nodes, 64 KiB of text and 32 levels, and in what is stored every forbidden key, at any depth
  and in any spelling that folds to it, has the placeholder instead of its value.\<close>

theorem metadata_bounded_and_redacted:
  assumes "sanitize_metadata L v = Inr r"
  shows "node_count v \<le> 1000 \<and> text_size v \<le> 65536 \<and> nested_within 32 v
    \<and> redacted L (JObj r) \<and> (\<exists>kvs. v = JObj kvs \<and> map fst r = map fst kvs)"
proof -
  from sanitize_Inr [OF assms] obtain kvs b where v: "v = JObj kvs" "JObj r = copy_sanitized L v"
    "validate_value 0 v \<lparr>b_nodes = 0, b_text_bytes = 0\<rparr> = Inr b" by blast
  from validate_spends(1) [OF v(3)] have
    "node_count v \<le> 1000" "text_size v \<le> 65536" "nested_within 32 v"
    by (auto simp: within_budget_def audit_limits)
  moreover have "redacted L (JObj r)" using redacted_copy [of L v] v(2) by simp
  ultimately show ?thesis using v(1,2) by (auto simp: comp_def)
qed

lemma metadata_bounded_and_redacted_witness:
  "\<exists>r. sanitize_metadata sample_lib (JObj [(u ''Cookie'', JStr (u ''abc''))]) = Inr r
    \<and> redacted sample_lib (JObj r)"
proof -
  have "flat_ascii [(u ''Cookie'', JStr (u ''abc''))]" by (simp add: flat_ascii_def ascii_def u_def)
  from sanitize_flat [OF this, of sample_lib] obtain r where
    r: "sanitize_metadata sample_lib (JObj [(u ''Cookie'', JStr (u ''abc''))]) = Inr r" by blast
  from metadata_bounded_and_redacted [OF r] r show ?thesis by blast
qed

text \<open>C40. Recording an event, also when it races with other recorders. Metadata the sanitizer
  refuses is a validation error without an effect. A key that is already in the log, or that a
  racing recorder commits first, returns the identifier of the stored row when that row
  states this very event, and is a RuntimeError when it states another; nothing is added in
  either case. Otherwise exactly one row that states the event is added, under the new
  identifier. The log only grows, and its event keys stay unique.\<close>

theorem audit_append_only:
  assumes "event_keys_unique (race db)" "only_log db (race db)"
    and "audit_record L race aid ev db = (r, db')"
  shows "(case sanitize_metadata L (ev_metadata ev) of
      Inl e \<Rightarrow> r = Inl (PyError ''ValidationError'') \<and> db' = db
    | Inr md \<Rightarrow>
       (let stored = (\<lambda>d x. x \<in> set (audit_logs d) \<and> ev_event_key ev \<noteq> None \<and> al_event_key x = ev_event_key ev);
            reused = (\<lambda>x. if states_event ev md x then Inr (al_id x) else Inl (PyError ''RuntimeError''))
        in (\<forall>x. stored db x \<longrightarrow> r = reused x \<and> db' = db)
         \<and> (\<forall>x. (\<nexists>y. stored db y) \<and> stored (race db) x \<longrightarrow> r = reused x \<and> db' = race db)
         \<and> ((\<nexists>y. stored (race db) y) \<longrightarrow> r = Inr aid \<and>
             (\<exists>row. db' = (race db)\<lparr>audit_logs := audit_logs (race db) @ [row]\<rparr> \<and> al_id row = aid
               \<and> al_event_key row = ev_event_key ev \<and> states_event ev md row))))
    \<and> only_log db db' \<and> (event_keys_unique db \<longrightarrow> event_keys_unique db')
    \<and> (\<forall>row \<in> set (audit_logs db). row \<in> set (audit_logs db'))"
proof -
  have u: "db' = db \<or> db' = race db \<or> (\<exists>row. insert_audit row (race db) = Inr db')"
    using assms(3)
    by (auto simp: audit_record_def write_audit_def split: sum.splits option.splits if_splits exn.splits)
  have l: "only_log db db'"
    using u assms(2) only_log_trans [OF assms(2)] by (auto dest!: insert_audit_Inr)
  moreover have "event_keys_unique db \<longrightarrow> event_keys_unique db'"
    using u assms(1) insert_audit_unique by blast
  moreover have "case sanitize_metadata L (ev_metadata ev) of
      Inl e \<Rightarrow> r = Inl (PyError ''ValidationError'') \<and> db' = db
    | Inr md \<Rightarrow>
       (let stored = (\<lambda>d x. x \<in> set (audit_logs d) \<and> ev_event_key ev \<noteq> None \<and> al_event_key x = ev_event_key ev);
            reused = (\<lambda>x. if states_event ev md x then Inr (al_id x) else Inl (PyError ''RuntimeError''))
        in (\<forall>x. stored db x \<longrightarrow> r = reused x \<and> db' = db)
         \<and> (\<forall>x. (\<nexists>y. stored db y) \<and> stored (race db) x \<longrightarrow> r = reused x \<and> db' = race db)
         \<and> ((\<nexists>y. stored (race db) y) \<longrightarrow> r = Inr aid \<and>
             (\<exists>row. db' = (race db)\<lparr>audit_logs := audit_logs (race db) @ [row]\<rparr> \<and> al_id row = aid
               \<and> al_event_key row = ev_event_key ev \<and> states_event ev md row)))"
  proof (cases "sanitize_metadata L (ev_metadata ev)")
    case (Inl e)
    with assms(3) show ?thesis by (simp add: audit_record_def audit_row_def)
  next
    case (Inr md)
    note o = audit_record_outcomes [where race = race and db = db and aid = aid, OF Inr assms(1,2), unfolded assms(3)]
    let ?reused = "\<lambda>x. if states_event ev md x then Inr (al_id x) else Inl (PyError ''RuntimeError'')"
    let ?stored = "\<lambda>d x. x \<in> set (audit_logs d) \<and> ev_event_key ev \<noteq> None \<and> al_event_key x = ev_event_key ev"
    have "r = ?reused x \<and> db' = db" if "?stored db x" for x
      using o(1) [of x] that by (cases "ev_event_key ev") simp_all
    moreover have "r = ?reused x \<and> db' = race db" if "\<nexists>y. ?stored db y" "?stored (race db) x" for x
    proof -
      from that(2) obtain k where k: "ev_event_key ev = Some k" "al_event_key x = Some k" by (cases "ev_event_key ev") auto
      with that(1) have "\<forall>y \<in> set (audit_logs db). al_event_key y \<noteq> Some k" by auto
      from o(2) [OF this _ k(2,1)] that(2) show ?thesis by simp
    qed
    moreover have "r = Inr aid \<and> (\<exists>row. db' = (race db)\<lparr>audit_logs := audit_logs (race db) @ [row]\<rparr>
        \<and> al_id row = aid \<and> al_event_key row = ev_event_key ev \<and> states_event ev md row)"
      if "\<nexists>y. ?stored (race db) y"
    proof -
      from that have "\<forall>y \<in> set (audit_logs (race db)). ev_event_key ev = None \<or> al_event_key y \<noteq> ev_event_key ev"
        by blast
      from o(3) [OF this] show ?thesis by blast
    qed
    ultimately show ?thesis unfolding Inr sum.case Let_def by blast
  qed
  ultimately show ?thesis by (auto simp: only_log_def)
qed

lemma audit_append_only_witness:
  "let ev = \<lparr>ev_actor = owner_actor, ev_action = ''project.list'',
        ev_object_type = ''project'', ev_object_id = None, ev_project_id = None, ev_outcome = ''SUCCESS'',
        ev_request_id = 61, ev_event_key = Some 62, ev_metadata = JObj []\<rparr>;
      race = (\<lambda>db. snd (audit_record sample_lib id 59 ev db))
   in audit_record sample_lib race 60 ev sample_db = (Inr 59, race sample_db)
     \<and> map al_id (audit_logs (race sample_db)) = [59]"
proof -
  define ev where "ev = \<lparr>ev_actor = owner_actor, ev_action = ''project.list'',
      ev_object_type = ''project'', ev_object_id = None, ev_project_id = None, ev_outcome = ''SUCCESS'',
      ev_request_id = 61, ev_event_key = Some (62 :: uuid), ev_metadata = JObj []\<rparr>"
  define race where "race = (\<lambda>db. snd (audit_record sample_lib id 59 ev db))"
  have logs: "audit_logs sample_db = []" by (simp add: sample_db_def empty_db_def)
  obtain md where md: "sanitize_metadata sample_lib (ev_metadata ev) = Inr md"
    using sanitize_flat [of "[]" sample_lib] by (auto simp: ev_def flat_ascii_def)
  have uniq: "event_keys_unique (id sample_db)" "only_log sample_db (id sample_db)"
    by (simp_all add: event_keys_unique_def event_keys_def logs map_filter_def)
  from audit_record_outcomes(3) [where race = id and db = sample_db and aid = 59, OF md uniq] obtain row where
    row: "race sample_db = sample_db\<lparr>audit_logs := [row]\<rparr>" "al_id row = 59" "al_event_key row = Some 62"
      "states_event ev md row" by (auto simp: race_def logs ev_def)
  have r: "event_keys_unique (race sample_db)" "only_log sample_db (race sample_db)"
    using row by (auto simp: event_keys_unique_def event_keys_def map_filter_def only_log_def logs intro: exI [of _ "[row]"])
  obtain q db' where q: "audit_record sample_lib race 60 ev sample_db = (q, db')" by fastforce
  from audit_append_only [OF r q] md row have "q = Inr 59 \<and> db' = race sample_db"
    by (auto simp: Let_def logs ev_def)
  with q row have "audit_record sample_lib race 60 ev sample_db = (Inr 59, race sample_db)
      \<and> map al_id (audit_logs (race sample_db)) = [59]" by simp
  then show ?thesis unfolding Let_def race_def ev_def .
qed

end
