(* ===== verification/Manifest.thy ===== *)
theory Manifest
  imports Schema Json
begin

text \<open>
  \<open>modules/imports/schemas.py\<close>: the normalized manifest of an import job.  Reading JSON
  into typed fields is pydantic's; the functions here are the module's own limits,
  normalization and validators, applied to the typed record, and the canonical JSON the
  fingerprint is taken of.  Every failing validator ends in one \<open>ValidationError\<close>.
\<close>

record utc_datetime =
  dt_date :: date
  dt_hour :: nat
  dt_minute :: nat
  dt_second :: nat
  dt_micro :: nat

record attachment_declaration =
  ad_kind :: attachment_kind
  ad_filename :: ustr
  ad_size_bytes :: int
  ad_sha256 :: ustr
  ad_content_type :: ustr

record k3_result =
  k_model_label :: ustr
  k_processed_at :: "utc_datetime option"  \<comment> \<open>in UTC; \<open>None\<close> without a timezone\<close>
  k_modification_details :: "ustr list"
  k_knowledge_points :: "ustr list"
  k_risks :: "ustr list"
  k_suggested_title :: "ustr option"
  k_suggested_tags :: "ustr list"

record manifest =
  m_project_id :: uuid
  m_local_task_id :: ustr
  m_external_reference :: "ustr option"
  m_base_sha256 :: "ustr option"
  m_k3_result :: k3_result
  m_attachments :: "attachment_declaration list"

definition validation_failed :: exn where
  "validation_failed = PyError ''ValidationError''"

section \<open>Text\<close>

text \<open>\<open>replace("\r\n", "\n").replace("\r", "\n")\<close>\<close>

fun newlines :: "ustr \<Rightarrow> ustr" where
  "newlines [] = []"
| "newlines [c] = [if c = 13 then 10 else c]"
| "newlines (c # d # cs) = (if c = 13 \<and> d = 10 then 10 # newlines cs
     else (if c = 13 then 10 else c) # newlines (d # cs))"

definition normalize_text :: "lib \<Rightarrow> bool \<Rightarrow> ustr \<Rightarrow> ustr" where
  "normalize_text L document s = (let n = nfc L s in if document then newlines n else n)"

definition reject_controls :: "bool \<Rightarrow> ustr \<Rightarrow> bool" where
  "reject_controls document s \<longleftrightarrow>
     list_all (\<lambda>c. \<not> (c = 127 \<or> c < 32 \<and> \<not> (document \<and> c = 10))) s"

text \<open>A text field: normalized, stripped, measured, searched for control characters.\<close>

definition text_field :: "lib \<Rightarrow> bool \<Rightarrow> nat \<Rightarrow> ustr \<Rightarrow> ustr result" where
  "text_field L document limit s =
     (let t = strip_chars (white_space L) (normalize_text L document s) in
      if \<not> (1 \<le> length t \<and> length t \<le> limit) \<or> \<not> reject_controls document t
      then Inl validation_failed else Inr t)"

definition optional_field :: "('a \<Rightarrow> 'a result) \<Rightarrow> 'a option \<Rightarrow> 'a option result" where
  "optional_field f v = (case v of None \<Rightarrow> Inr None
     | Some s \<Rightarrow> (case f s of Inl e \<Rightarrow> Inl e | Inr t \<Rightarrow> Inr (Some t)))"

fun list_field :: "('a \<Rightarrow> 'b result) \<Rightarrow> 'a list \<Rightarrow> 'b list result" where
  "list_field f [] = Inr []"
| "list_field f (s # ss) = (case f s of
       Inl e \<Rightarrow> Inl e
     | Inr t \<Rightarrow> (case list_field f ss of Inl e \<Rightarrow> Inl e | Inr ts \<Rightarrow> Inr (t # ts)))"

text \<open>A field that only has to match after stripping: digests and content types.\<close>

definition match_field :: "lib \<Rightarrow> (ustr \<Rightarrow> bool) \<Rightarrow> ustr \<Rightarrow> ustr result" where
  "match_field L ok s = (let t = strip_chars (white_space L) s in
     if ok t then Inr t else Inl validation_failed)"

section \<open>Validators\<close>

definition attachment_schema :: "lib \<Rightarrow> attachment_declaration \<Rightarrow> attachment_declaration result" where
  "attachment_schema L a =
     (case (text_field L False 1024 (ad_filename a), match_field L sha256_text (ad_sha256 a),
            match_field L (\<lambda>t. length t \<le> 255 \<and> mime_type t) (ad_content_type a)) of
        (Inr n, Inr h, Inr ct) \<Rightarrow>
          if 1 \<le> ad_size_bytes a \<and> ad_size_bytes a \<le> 100 * 1024 * 1024
          then Inr (a\<lparr>ad_filename := n, ad_sha256 := h, ad_content_type := ct\<rparr>)
          else Inl validation_failed
      | _ \<Rightarrow> Inl validation_failed)"

definition k3_result_schema :: "lib \<Rightarrow> k3_result \<Rightarrow> k3_result result" where
  "k3_result_schema L k =
     (case (text_field L False 128 (k_model_label k),
            list_field (text_field L True 4096) (k_modification_details k),
            list_field (text_field L True 4096) (k_knowledge_points k),
            list_field (text_field L True 4096) (k_risks k),
            optional_field (text_field L False 1024) (k_suggested_title k),
            list_field (text_field L False 128) (k_suggested_tags k)) of
        (Inr label, Inr details, Inr points, Inr risks, Inr title, Inr tags) \<Rightarrow>
          if length details \<le> 100 \<and> length points \<le> 100 \<and> length risks \<le> 100 \<and> length tags \<le> 64
             \<and> distinct tags \<and> k_processed_at k \<noteq> None
          then Inr (k\<lparr>k_model_label := label, k_modification_details := details,
            k_knowledge_points := points, k_risks := risks, k_suggested_title := title,
            k_suggested_tags := sort tags\<rparr>)
          else Inl validation_failed
      | _ \<Rightarrow> Inl validation_failed)"

fun attachment_order :: "attachment_kind \<Rightarrow> nat" where
  "attachment_order ORIGINAL = 0"
| "attachment_order REVISED = 1"
| "attachment_order K3_RAW = 2"

section \<open>The canonical JSON\<close>

definition datetime_text :: "utc_datetime \<Rightarrow> ustr" where
  "datetime_text d = iso_date (dt_date d) @ u ''T'' @ dec_pad 2 (dt_hour d) @ u '':''
     @ dec_pad 2 (dt_minute d) @ u '':'' @ dec_pad 2 (dt_second d)
     @ (if dt_micro d = 0 then [] else u ''.'' @ dec_pad 6 (dt_micro d)) @ u ''Z''"

definition attachment_json :: "attachment_declaration \<Rightarrow> json" where
  "attachment_json a = JObj [(u ''kind'', JStr (u (attachment_kind_text (ad_kind a)))),
     (u ''filename'', JStr (ad_filename a)), (u ''size_bytes'', JInt (ad_size_bytes a)),
     (u ''sha256'', JStr (ad_sha256 a)), (u ''content_type'', JStr (ad_content_type a))]"

definition text_list_json :: "ustr list \<Rightarrow> json" where
  "text_list_json ts = JList (map JStr ts)"

definition k3_result_json :: "k3_result \<Rightarrow> json" where
  "k3_result_json k = JObj [(u ''model_label'', JStr (k_model_label k)),
     (u ''processed_at'', jopt (\<lambda>d. JStr (datetime_text d)) (k_processed_at k)),
     (u ''modification_details'', text_list_json (k_modification_details k)),
     (u ''knowledge_points'', text_list_json (k_knowledge_points k)),
     (u ''risks'', text_list_json (k_risks k)),
     (u ''suggested_title'', jopt JStr (k_suggested_title k)),
     (u ''suggested_tags'', text_list_json (k_suggested_tags k))]"

text \<open>\<open>model_dump(mode="json")\<close>\<close>

definition manifest_json :: "manifest \<Rightarrow> json" where
  "manifest_json m = JObj [(u ''project_id'', JStr (uuid_str (m_project_id m))),
     (u ''local_task_id'', JStr (m_local_task_id m)),
     (u ''external_document_reference'', jopt JStr (m_external_reference m)),
     (u ''base_sha256'', jopt JStr (m_base_sha256 m)),
     (u ''k3_result'', k3_result_json (m_k3_result m)),
     (u ''attachments'', JList (map attachment_json (m_attachments m)))]"

definition manifest_bytes :: "lib \<Rightarrow> ustr \<Rightarrow> ustr \<Rightarrow> manifest \<Rightarrow> bytes result" where
  "manifest_bytes L isep ksep m = json_bytes L isep ksep (sort_json (manifest_json m))"

definition canonical_manifest_bytes :: "lib \<Rightarrow> manifest \<Rightarrow> bytes result" where
  "canonical_manifest_bytes L m = manifest_bytes L (u '','') (u '':'') m"

definition MANIFEST_MAX_UTF8_BYTES :: nat where "MANIFEST_MAX_UTF8_BYTES = 65536"

text \<open>\<open>ImportJobCreate.normalize_and_validate_manifest\<close>, after the fields.\<close>

definition normalize_manifest :: "lib \<Rightarrow> manifest \<Rightarrow> manifest result" where
  "normalize_manifest L m =
     (let kinds = map ad_kind (m_attachments m) in
      if \<not> distinct kinds then Inl validation_failed
      else if count_list kinds K3_RAW \<noteq> 1 then Inl validation_failed
      else if m_base_sha256 m \<noteq> None \<and> ORIGINAL \<notin> set kinds then Inl validation_failed
      else (let m' = m\<lparr>m_attachments := sort_key (\<lambda>a. attachment_order (ad_kind a)) (m_attachments m)\<rparr> in
        case (manifest_bytes L (u '','') (u '':'') m', manifest_bytes L (u '', '') (u '': '') m') of
          (Inr compact, Inr postgres) \<Rightarrow>
            if max (length compact) (length postgres) > MANIFEST_MAX_UTF8_BYTES
            then Inl validation_failed else Inr m'
        | _ \<Rightarrow> Inl validation_failed))"

definition import_job_create :: "lib \<Rightarrow> manifest \<Rightarrow> manifest result" where
  "import_job_create L m =
     (case (text_field L False 255 (m_local_task_id m),
            optional_field (text_field L False 1024) (m_external_reference m),
            optional_field (match_field L sha256_text) (m_base_sha256 m),
            k3_result_schema L (m_k3_result m),
            list_field (attachment_schema L) (m_attachments m)) of
        (Inr task, Inr ref, Inr base, Inr k3, Inr as) \<Rightarrow>
          if 1 \<le> length as \<and> length as \<le> 3
          then normalize_manifest L (m\<lparr>m_local_task_id := task, m_external_reference := ref,
            m_base_sha256 := base, m_k3_result := k3, m_attachments := as\<rparr>)
          else Inl validation_failed
      | _ \<Rightarrow> Inl validation_failed)"

section \<open>What a validated manifest satisfies\<close>

lemma list_field_Inr:
  "list_field f xs = Inr ys \<Longrightarrow> length ys = length xs \<and> (\<forall>y \<in> set ys. \<exists>x \<in> set xs. f x = Inr y)"
proof (induction xs arbitrary: ys)
  case (Cons x xs)
  then obtain t ts where "f x = Inr t" "list_field f xs = Inr ts" "ys = t # ts"
    by (auto split: sum.splits)
  with Cons.IH show ?case by auto
qed simp

lemma list_field_fixed:
  "\<forall>y \<in> set ys. f y = Inr y \<Longrightarrow> list_field f ys = Inr ys"
  by (induction ys) auto

lemma newlines_no_cr: "13 \<notin> set (newlines s)"
  by (induction s rule: newlines.induct) auto

lemma newlines_fixed: "13 \<notin> set s \<Longrightarrow> newlines s = s"
  by (induction s rule: newlines.induct) auto

text \<open>A validated text is a fixed point of its validator, once it is in normal form.\<close>

lemma text_field_fixed:
  assumes "text_field L d n s = Inr t" "nfc L t = t"
  shows "text_field L d n t = Inr t"
proof -
  let ?n = "normalize_text L d s"
  from assms(1) have t: "t = strip_chars (white_space L) ?n"
    and ok: "1 \<le> length t" "length t \<le> n" "reject_controls d t"
    by (auto simp: text_field_def Let_def split: if_splits)
  have "13 \<notin> set t" if d
    using that t strip_chars_subset [of "white_space L" ?n] newlines_no_cr
    by (auto simp: normalize_text_def Let_def)
  then have "normalize_text L d t = t"
    using assms(2) by (auto simp: normalize_text_def Let_def newlines_fixed)
  then show ?thesis using t ok by (simp add: text_field_def Let_def strip_chars_idem)
qed

lemma match_field_fixed: "match_field L ok s = Inr t \<Longrightarrow> match_field L ok t = Inr t"
  by (auto simp: match_field_def Let_def strip_chars_idem split: if_splits)

lemma match_field_ok: "match_field L ok s = Inr t \<Longrightarrow> ok t"
  by (auto simp: match_field_def Let_def split: if_splits)

lemma sort_key_again: "sort_key f (sort_key f xs) = sort_key f xs"
  by (rule sort_key_id_if_sorted) simp

text \<open>The texts that were normalized to NFC.\<close>

definition normalized_texts :: "manifest \<Rightarrow> ustr set" where
  "normalized_texts m = {m_local_task_id m} \<union> set_option (m_external_reference m)
     \<union> {k_model_label (m_k3_result m)} \<union> set_option (k_suggested_title (m_k3_result m))
     \<union> set (k_modification_details (m_k3_result m)) \<union> set (k_knowledge_points (m_k3_result m))
     \<union> set (k_risks (m_k3_result m)) \<union> set (k_suggested_tags (m_k3_result m))
     \<union> ad_filename ` set (m_attachments m)"

lemma attachment_schema_fixed:
  assumes "attachment_schema L a = Inr b" "nfc L (ad_filename b) = ad_filename b"
  shows "attachment_schema L b = Inr b"
proof -
  from assms(1) obtain n h ct where f: "text_field L False 1024 (ad_filename a) = Inr n"
    "match_field L sha256_text (ad_sha256 a) = Inr h"
    "match_field L (\<lambda>t. length t \<le> 255 \<and> mime_type t) (ad_content_type a) = Inr ct"
    and b: "b = a\<lparr>ad_filename := n, ad_sha256 := h, ad_content_type := ct\<rparr>"
    and s: "1 \<le> ad_size_bytes a" "ad_size_bytes a \<le> 100 * 1024 * 1024"
    by (auto simp: attachment_schema_def split: sum.splits if_splits)
  from text_field_fixed [OF f(1)] assms(2) b have "text_field L False 1024 n = Inr n" by simp
  with match_field_fixed [OF f(2)] match_field_fixed [OF f(3)] b s show ?thesis
    by (simp add: attachment_schema_def)
qed

lemma optional_field_fixed:
  assumes "optional_field f v = Inr w" "\<And>s t. f s = Inr t \<Longrightarrow> t \<in> set_option w \<Longrightarrow> f t = Inr t"
  shows "optional_field f w = Inr w"
  using assms by (auto simp: optional_field_def split: option.splits sum.splits)

lemma list_field_again:
  assumes "list_field f xs = Inr ys" "\<And>s t. f s = Inr t \<Longrightarrow> t \<in> set ys \<Longrightarrow> f t = Inr t"
    and "set zs \<subseteq> set ys"
  shows "list_field f zs = Inr zs"
  using list_field_Inr [OF assms(1)] assms(2,3) by (intro list_field_fixed) blast

lemma k3_result_schema_fixed:
  assumes "k3_result_schema L k = Inr r"
    and "\<forall>t \<in> {k_model_label r} \<union> set_option (k_suggested_title r) \<union> set (k_modification_details r)
      \<union> set (k_knowledge_points r) \<union> set (k_risks r) \<union> set (k_suggested_tags r). nfc L t = t"
  shows "k3_result_schema L r = Inr r"
proof -
  from assms(1) obtain label details points risks title tags where
    f: "text_field L False 128 (k_model_label k) = Inr label"
      "list_field (text_field L True 4096) (k_modification_details k) = Inr details"
      "list_field (text_field L True 4096) (k_knowledge_points k) = Inr points"
      "list_field (text_field L True 4096) (k_risks k) = Inr risks"
      "optional_field (text_field L False 1024) (k_suggested_title k) = Inr title"
      "list_field (text_field L False 128) (k_suggested_tags k) = Inr tags"
    and ok: "length details \<le> 100" "length points \<le> 100" "length risks \<le> 100" "length tags \<le> 64"
      "distinct tags" "k_processed_at k \<noteq> None"
    and r: "r = k\<lparr>k_model_label := label, k_modification_details := details,
      k_knowledge_points := points, k_risks := risks, k_suggested_title := title,
      k_suggested_tags := sort tags\<rparr>"
    by (auto simp: k3_result_schema_def split: sum.splits if_splits)
  have "text_field L False 128 label = Inr label"
    using text_field_fixed [OF f(1)] assms(2) r by simp
  moreover have "list_field (text_field L True 4096) details = Inr details"
    by (rule list_field_again [OF f(2) _ subset_refl]) (use assms(2) r text_field_fixed in auto)
  moreover have "list_field (text_field L True 4096) points = Inr points"
    by (rule list_field_again [OF f(3) _ subset_refl]) (use assms(2) r text_field_fixed in auto)
  moreover have "list_field (text_field L True 4096) risks = Inr risks"
    by (rule list_field_again [OF f(4) _ subset_refl]) (use assms(2) r text_field_fixed in auto)
  moreover have "optional_field (text_field L False 1024) title = Inr title"
    by (rule optional_field_fixed [OF f(5)]) (use assms(2) r text_field_fixed in auto)
  moreover have "list_field (text_field L False 128) (sort tags) = Inr (sort tags)"
    by (rule list_field_again [OF f(6)]) (use assms(2) r text_field_fixed in auto)
  moreover have "sort (sort tags) = sort tags" by (rule sort_key_again)
  ultimately show ?thesis using r ok by (simp add: k3_result_schema_def)
qed

lemma normalize_manifest_Inr:
  assumes "normalize_manifest L m = Inr r"
  shows "r = m\<lparr>m_attachments := sort_key (\<lambda>a. attachment_order (ad_kind a)) (m_attachments m)\<rparr>
    \<and> normalize_manifest L r = Inr r \<and> distinct (map ad_kind (m_attachments r))
    \<and> K3_RAW \<in> set (map ad_kind (m_attachments r))
    \<and> (m_base_sha256 r \<noteq> None \<longrightarrow> ORIGINAL \<in> set (map ad_kind (m_attachments r)))
    \<and> sorted (map (\<lambda>a. attachment_order (ad_kind a)) (m_attachments r))
    \<and> (\<exists>b. canonical_manifest_bytes L r = Inr b \<and> length b \<le> MANIFEST_MAX_UTF8_BYTES)"
proof -
  let ?s = "sort_key (\<lambda>a. attachment_order (ad_kind a)) (m_attachments m)"
  have s: "sort_key (\<lambda>a. attachment_order (ad_kind a)) ?s = ?s" by (rule sort_key_again)
  have c: "count_list (map ad_kind ?s) K3_RAW = count_list (map ad_kind (m_attachments m)) K3_RAW"
    by (simp add: count_mset [symmetric])
  have d: "distinct (map ad_kind ?s) = distinct (map ad_kind (m_attachments m))"
    by (rule distinct_map_sort_key)
  have n: "count_list xs y \<noteq> 0 \<longleftrightarrow> y \<in> set xs" for xs and y :: attachment_kind
    by (simp add: count_list_0_iff)
  from assms obtain b1 b2 where r: "r = m\<lparr>m_attachments := ?s\<rparr>"
    and h: "distinct (map ad_kind (m_attachments m))" "count_list (map ad_kind (m_attachments m)) K3_RAW = 1"
      "m_base_sha256 m \<noteq> None \<longrightarrow> ORIGINAL \<in> set (map ad_kind (m_attachments m))"
    and b: "manifest_bytes L (u '','') (u '':'') r = Inr b1" "manifest_bytes L (u '', '') (u '': '') r = Inr b2"
      "length b1 \<le> MANIFEST_MAX_UTF8_BYTES" "length b2 \<le> MANIFEST_MAX_UTF8_BYTES"
    by (auto simp: normalize_manifest_def Let_def split: if_splits sum.splits)
  have ra: "m_attachments r = ?s" "m_base_sha256 r = m_base_sha256 m"
    and rr: "r\<lparr>m_attachments := ?s\<rparr> = r" by (simp_all add: r)
  have k: "set (map ad_kind ?s) = set (map ad_kind (m_attachments m))" by simp
  have "distinct (map ad_kind ?s)" "count_list (map ad_kind ?s) K3_RAW = 1"
    "\<not> (m_base_sha256 m \<noteq> None \<and> ORIGINAL \<notin> set (map ad_kind ?s))"
    using h c d k by metis+
  moreover have "K3_RAW \<in> set (map ad_kind ?s)" using h(2) n [of "map ad_kind (m_attachments m)"] k
    by (metis zero_neq_one)
  moreover have "max (length b1) (length b2) \<le> MANIFEST_MAX_UTF8_BYTES" using b by simp
  moreover have "canonical_manifest_bytes L r = Inr b1" using b(1) by (simp add: canonical_manifest_bytes_def)
  ultimately show ?thesis using b(3)
    by (simp only: normalize_manifest_def Let_def ra s rr b(1,2) r [symmetric]) auto
qed

text \<open>Validating a validated manifest again gives it back: what \<open>view_job\<close> relies on.\<close>

lemma import_job_create_fixed:
  assumes "import_job_create L m = Inr r" "\<forall>t \<in> normalized_texts r. nfc L t = t"
  shows "import_job_create L r = Inr r"
proof -
  from assms(1) obtain task ref base k3 atts where
    f: "text_field L False 255 (m_local_task_id m) = Inr task"
      "optional_field (text_field L False 1024) (m_external_reference m) = Inr ref"
      "optional_field (match_field L sha256_text) (m_base_sha256 m) = Inr base"
      "k3_result_schema L (m_k3_result m) = Inr k3"
      "list_field (attachment_schema L) (m_attachments m) = Inr atts"
    and len: "1 \<le> length atts" "length atts \<le> 3"
    and nm: "normalize_manifest L (m\<lparr>m_local_task_id := task, m_external_reference := ref,
      m_base_sha256 := base, m_k3_result := k3, m_attachments := atts\<rparr>) = Inr r"
    by (auto simp: import_job_create_def split: sum.splits if_splits)
  note nr = normalize_manifest_Inr [OF nm]
  then have r: "m_local_task_id r = task" "m_external_reference r = ref" "m_base_sha256 r = base"
    "m_k3_result r = k3" "m_attachments r = sort_key (\<lambda>a. attachment_order (ad_kind a)) atts"
    "normalize_manifest L r = Inr r" by auto
  have "text_field L False 255 task = Inr task"
    using text_field_fixed [OF f(1)] assms(2) r by (simp add: normalized_texts_def)
  moreover have "optional_field (text_field L False 1024) ref = Inr ref"
    by (rule optional_field_fixed [OF f(2)])
      (use assms(2) r text_field_fixed in \<open>auto simp: normalized_texts_def\<close>)
  moreover have "optional_field (match_field L sha256_text) base = Inr base"
    by (rule optional_field_fixed [OF f(3)]) (rule match_field_fixed)
  moreover have "k3_result_schema L k3 = Inr k3"
    using k3_result_schema_fixed [OF f(4)] assms(2) r by (simp add: normalized_texts_def)
  moreover have "list_field (attachment_schema L) (m_attachments r) = Inr (m_attachments r)"
    by (rule list_field_again [OF f(5)])
      (use assms(2) r attachment_schema_fixed in \<open>auto simp: normalized_texts_def\<close>)
  moreover have "r\<lparr>m_local_task_id := task, m_external_reference := ref, m_base_sha256 := base,
      m_k3_result := k3, m_attachments := sort_key (\<lambda>a. attachment_order (ad_kind a)) atts\<rparr> = r"
    by (cases r) (use r in simp)
  then have "r\<lparr>m_local_task_id := task, m_external_reference := ref, m_base_sha256 := base,
      m_k3_result := k3, m_attachments := m_attachments r\<rparr> = r" using r(5) by metis
  moreover have "1 \<le> length (m_attachments r)" "length (m_attachments r) \<le> 3" using r(5) len by simp_all
  ultimately show ?thesis using r(6) by (simp only: import_job_create_def r(1-4) simp_thms if_True) simp
qed

end
