(* ===== verification/Imports.thy ===== *)
theory Imports
  imports Scans Manifest "HOL-Library.Product_Lexorder"
begin

text \<open>
  \<open>modules/imports/service.py\<close> and its router: import jobs a paired device creates around
  the upload lifecycle of \<open>Files\<close>.  A job is created from a normalized manifest, its
  attachments are uploaded, it is submitted, and its status follows the states of
  its files.  Every operation is a function on the database; \<open>race\<close> arguments are what
  other transactions commit between two transactions of one operation.  Reading a stored
  manifest back into its typed record is pydantic's and the parameter \<open>rd\<close>.
\<close>

section \<open>Results and views\<close>

record import_attachment_result =
  ar_id :: uuid
  ar_file_id :: uuid
  ar_upload_id :: uuid
  ar_kind :: attachment_kind

record import_job_result =
  r_id :: uuid
  r_status :: import_status
  r_result_code :: "string option"
  r_submitted_at :: "time option"
  r_updated_at :: time
  r_attachments :: "import_attachment_result list"

record attachment_upload_target =
  aut_project_id :: uuid
  aut_upload_id :: uuid

record file_observation =
  fo_kind :: attachment_kind
  fo_state :: file_state
  fo_sha256 :: ustr

record import_evaluation =
  ie_status :: import_status
  ie_result_code :: "string option"

record import_attachment_view =
  av_id :: uuid
  av_file_id :: uuid
  av_upload_id :: uuid
  av_kind :: attachment_kind
  av_file_state :: file_state

record import_job_view =
  v_id :: uuid
  v_project_id :: uuid
  v_local_task_id :: ustr
  v_external_reference :: "ustr option"
  v_base_sha256 :: "ustr option"
  v_status :: import_status
  v_result_code :: "string option"
  v_k3_result :: k3_result
  v_submitted_at :: "time option"
  v_created_at :: time
  v_updated_at :: time
  v_attachments :: "import_attachment_view list"

record owner_import_job_view =
  ov_id :: uuid
  ov_project_id :: uuid
  ov_local_task_id :: ustr
  ov_external_reference :: "ustr option"
  ov_model_label :: ustr
  ov_status :: import_status
  ov_result_code :: "string option"
  ov_submitted_at :: "time option"
  ov_created_at :: time
  ov_updated_at :: time
  ov_attachments :: "import_attachment_view list"

section \<open>Tables\<close>

text \<open>\<open>ORDER BY kind, id\<close>: the kind is stored as text.\<close>

definition attachments_of :: "lib \<Rightarrow> db \<Rightarrow> uuid \<Rightarrow> import_attachment list" where
  "attachments_of L db job_id =
     sort_key (\<lambda>a. (collate_key L (u (attachment_kind_text (a_kind a))), a_id a))
       (filter (\<lambda>a. a_job_id a = job_id) (attachments db))"

definition attachment_result :: "import_attachment \<Rightarrow> import_attachment_result" where
  "attachment_result a = \<lparr>ar_id = a_id a, ar_file_id = a_file_id a, ar_upload_id = a_upload_id a,
     ar_kind = a_kind a\<rparr>"

definition job_result :: "lib \<Rightarrow> db \<Rightarrow> import_job \<Rightarrow> import_job_result" where
  "job_result L db j = \<lparr>r_id = j_id j, r_status = j_status j, r_result_code = j_result_code j,
     r_submitted_at = j_submitted_at j, r_updated_at = j_updated_at j,
     r_attachments = map attachment_result (attachments_of L db (j_id j))\<rparr>"

definition job_by_key :: "db \<Rightarrow> uuid \<Rightarrow> ustr \<Rightarrow> import_job option" where
  "job_by_key db device_id key =
     find (\<lambda>j. j_device_id j = device_id \<and> j_idempotency_key j = key) (jobs db)"

text \<open>The CHECK constraints of \<open>import_jobs\<close>.\<close>

definition submission_state :: "import_job \<Rightarrow> bool" where
  "submission_state j \<longleftrightarrow> (j_status j = IMPORT_UPLOADING) = (j_submitted_at j = None)"

definition result_state :: "import_job \<Rightarrow> bool" where
  "result_state j \<longleftrightarrow> (j_status j \<in> {IMPORT_REJECTED, IMPORT_CONFLICT}) = (j_result_code j \<noteq> None)"

definition job_time_order :: "import_job \<Rightarrow> bool" where
  "job_time_order j \<longleftrightarrow> j_created_at j \<le> j_updated_at j
     \<and> (case j_submitted_at j of None \<Rightarrow> True
        | Some s \<Rightarrow> j_created_at j \<le> s \<and> s \<le> j_updated_at j)"

definition manifest_object :: "lib \<Rightarrow> json \<Rightarrow> bool" where
  "manifest_object L m \<longleftrightarrow> (case m of JObj kvs \<Rightarrow>
       (case json_bytes L (u '', '') (u '': '') m of Inl e \<Rightarrow> False
        | Inr b \<Rightarrow> length b \<le> MANIFEST_MAX_UTF8_BYTES) | _ \<Rightarrow> False)"

definition import_job_checks :: "lib \<Rightarrow> import_job \<Rightarrow> bool" where
  "import_job_checks L j \<longleftrightarrow> manifest_object L (j_canonical_manifest j)
     \<and> sha256_text (j_manifest_fingerprint j)
     \<and> (case j_base_sha256 j of None \<Rightarrow> True | Some h \<Rightarrow> sha256_text h)
     \<and> j_idempotency_key j \<noteq> [] \<and> j_local_task_id j \<noteq> [] \<and> j_external_document_reference j \<noteq> Some []
     \<and> (case j_result_code j of None \<Rightarrow> True | Some c \<Rightarrow> result_code_text (u c))
     \<and> submission_state j \<and> result_state j \<and> job_time_order j"

definition insert_job :: "lib \<Rightarrow> import_job \<Rightarrow> db \<Rightarrow> db result" where
  "insert_job L j db =
     (if \<not> import_job_checks L j then Inl (Integrity ''ck_import_jobs'')
      else if get_job db (j_id j) \<noteq> None then Inl (Integrity ''import_jobs_pkey'')
      else if job_by_key db (j_device_id j) (j_idempotency_key j) \<noteq> None
      then Inl (Integrity ''uq_import_jobs_device_idempotency'')
      else if get_device_row db (j_device_id j) = None
      then Inl (Integrity ''import_jobs_device_id_fkey'')
      else if get_project db (j_project_id j) = None
      then Inl (Integrity ''import_jobs_project_id_fkey'')
      else Inr (db\<lparr>jobs := jobs db @ [j]\<rparr>))"

definition insert_attachment :: "import_attachment \<Rightarrow> db \<Rightarrow> db result" where
  "insert_attachment a db =
     (if a_upload_id a \<noteq> a_file_id a then Inl (Integrity ''ck_import_attachments_upload_matches_file'')
      else if list_ex (\<lambda>b. a_id b = a_id a) (attachments db)
      then Inl (Integrity ''import_attachments_pkey'')
      else if list_ex (\<lambda>b. a_job_id b = a_job_id a \<and> a_kind b = a_kind a) (attachments db)
      then Inl (Integrity ''uq_import_attachments_job_kind'')
      else if list_ex (\<lambda>b. a_file_id b = a_file_id a) (attachments db)
      then Inl (Integrity ''uq_import_attachments_file'')
      else if list_ex (\<lambda>b. a_upload_id b = a_upload_id a) (attachments db)
      then Inl (Integrity ''uq_import_attachments_upload'')
      else if map_option j_project_id (get_job db (a_job_id a)) \<noteq> Some (a_project_id a)
      then Inl (Integrity ''fk_import_attachments_job_project'')
      else if map_option f_project_id (get_file db (a_file_id a)) \<noteq> Some (a_project_id a)
      then Inl (Integrity ''fk_import_attachments_file_project'')
      else Inr (db\<lparr>attachments := attachments db @ [a]\<rparr>))"

fun insert_attachments :: "import_attachment list \<Rightarrow> db \<Rightarrow> db result" where
  "insert_attachments [] db = Inr db"
| "insert_attachments (a # as) db = (case insert_attachment a db of
       Inl e \<Rightarrow> Inl e | Inr db' \<Rightarrow> insert_attachments as db')"

section \<open>Denials\<close>

text \<open>A refusal is recorded in a transaction of its own before it is raised; an error of
  the recording is raised in its place.\<close>

definition refuse :: "lib \<Rightarrow> uuid \<Rightarrow> audit_event \<Rightarrow> exn \<Rightarrow> db \<Rightarrow> 'a result \<times> db" where
  "refuse L aid ev e db = (case audit_record L id aid ev db of
       (Inl e', db') \<Rightarrow> (Inl e', db') | (Inr _, db') \<Rightarrow> (Inl e, db'))"

definition import_create_forbidden :: exn where
  "import_create_forbidden =
     forbidden_error ''IMPORT_CREATE_FORBIDDEN'' ''Import creation is not permitted''"
definition import_idempotency_conflict :: exn where
  "import_idempotency_conflict = conflict_error ''IMPORT_IDEMPOTENCY_CONFLICT''
     ''Idempotency key is already bound to another import manifest''"
definition import_job_not_found :: exn where
  "import_job_not_found = not_found_error ''IMPORT_JOB_NOT_FOUND'' ''Import job not found''"
definition import_read_forbidden :: exn where
  "import_read_forbidden = forbidden_error ''IMPORT_READ_FORBIDDEN'' ''Import read is not permitted''"
definition import_upload_forbidden :: exn where
  "import_upload_forbidden =
     forbidden_error ''IMPORT_UPLOAD_FORBIDDEN'' ''Import upload is not permitted''"
definition import_attachment_not_found :: exn where
  "import_attachment_not_found =
     not_found_error ''IMPORT_ATTACHMENT_NOT_FOUND'' ''Import attachment not found''"
definition import_submit_forbidden :: exn where
  "import_submit_forbidden =
     forbidden_error ''IMPORT_SUBMIT_FORBIDDEN'' ''Import submission is not permitted''"
definition import_attachments_incomplete :: exn where
  "import_attachments_incomplete =
     conflict_error ''IMPORT_ATTACHMENTS_INCOMPLETE'' ''Import attachments are incomplete''"
definition import_owner_required :: exn where
  "import_owner_required = forbidden_error ''OWNER_REQUIRED'' ''Owner access required''"

lemmas import_errors = import_create_forbidden_def import_idempotency_conflict_def
  import_job_not_found_def import_read_forbidden_def import_upload_forbidden_def
  import_attachment_not_found_def import_submit_forbidden_def import_attachments_incomplete_def
  import_owner_required_def

definition job_denial :: "actor \<Rightarrow> string \<Rightarrow> uuid \<Rightarrow> uuid option \<Rightarrow> uuid \<Rightarrow> exn \<Rightarrow> audit_event" where
  "job_denial a action job_id project_id request_id e = \<lparr>ev_actor = a, ev_action = action,
     ev_object_type = ''import_job'', ev_object_id = Some job_id, ev_project_id = project_id,
     ev_outcome = ''DENIED'', ev_request_id = request_id, ev_event_key = None,
     ev_metadata = JObj [(u ''error_code'', JStr (u (error_code e))),
       (u ''job_id'', JStr (uuid_str job_id))]\<rparr>"

definition record_submit_denial ::
  "lib \<Rightarrow> uuid \<Rightarrow> actor \<Rightarrow> uuid \<Rightarrow> uuid option \<Rightarrow> uuid \<Rightarrow> exn \<Rightarrow> db \<Rightarrow> 'a result \<times> db" where
  "record_submit_denial L aid a job_id project_id request_id e =
     refuse L aid (job_denial a ''import.submit'' job_id project_id request_id e) e"

definition record_read_denial ::
  "lib \<Rightarrow> uuid \<Rightarrow> actor \<Rightarrow> uuid \<Rightarrow> uuid option \<Rightarrow> uuid \<Rightarrow> exn \<Rightarrow> db \<Rightarrow> 'a result \<times> db" where
  "record_read_denial L aid a job_id project_id request_id e =
     refuse L aid (job_denial a ''import.read'' job_id project_id request_id e) e"

definition record_attachment_denial ::
  "lib \<Rightarrow> uuid \<Rightarrow> actor \<Rightarrow> uuid \<Rightarrow> uuid \<Rightarrow> uuid option \<Rightarrow> string \<Rightarrow> uuid \<Rightarrow> exn \<Rightarrow> db
   \<Rightarrow> 'a result \<times> db" where
  "record_attachment_denial L aid a job_id attachment_id project_id action request_id e =
     refuse L aid \<lparr>ev_actor = a, ev_action = action, ev_object_type = ''import_attachment'',
       ev_object_id = Some attachment_id, ev_project_id = project_id, ev_outcome = ''DENIED'',
       ev_request_id = request_id, ev_event_key = None,
       ev_metadata = JObj [(u ''error_code'', JStr (u (error_code e))),
         (u ''job_id'', JStr (uuid_str job_id)),
         (u ''attachment_id'', JStr (uuid_str attachment_id))]\<rparr> e"

definition record_create_denial ::
  "lib \<Rightarrow> uuid \<Rightarrow> actor \<Rightarrow> uuid option \<Rightarrow> uuid \<Rightarrow> db \<Rightarrow> 'a result \<times> db" where
  "record_create_denial L aid a project_id request_id =
     refuse L aid \<lparr>ev_actor = a, ev_action = ''import.create'', ev_object_type = ''import_job'',
       ev_object_id = None, ev_project_id = project_id, ev_outcome = ''DENIED'',
       ev_request_id = request_id, ev_event_key = None,
       ev_metadata = JObj [(u ''reason'', JStr (u ''IMPORT_CREATE_FORBIDDEN''))]\<rparr>
       import_create_forbidden"

section \<open>Creation\<close>

definition can_create :: "actor \<Rightarrow> uuid \<Rightarrow> bool" where
  "can_create a project_id \<longleftrightarrow> actor_kind a = ''device'' \<and> actor_role a = None
     \<and> project_id \<in> set (actor_projects a) \<and> ''imports:create'' \<in> set (actor_scopes a)"

definition matching_result :: "lib \<Rightarrow> ustr \<Rightarrow> import_job \<Rightarrow> db \<Rightarrow> import_job_result result" where
  "matching_result L fp j db =
     (if j_manifest_fingerprint j \<noteq> fp then Inl import_idempotency_conflict
      else Inr (job_result L db j))"

definition child_idempotency_key :: "lib \<Rightarrow> uuid \<Rightarrow> ustr \<Rightarrow> attachment_kind \<Rightarrow> ustr option" where
  "child_idempotency_key L device_id key kind =
     map_option (\<lambda>b. u ''import-'' @ sha256_hex L b)
       (utf8_encode (uuid_str device_id @ [31] @ key @ [31] @ u (attachment_kind_text kind)))"

text \<open>The upload of one declared attachment; \<open>None\<close> is a manifest without a processing
  time or a declaration \<open>UploadStart\<close> refuses.\<close>

definition upload_command :: "lib \<Rightarrow> manifest \<Rightarrow> attachment_declaration \<Rightarrow> upload_start option" where
  "upload_command L m d = (case k_processed_at (m_k3_result m) of
       None \<Rightarrow> None
     | Some t \<Rightarrow>
       (let c = \<lparr>us_project_id = m_project_id m, us_filename = ad_filename d,
              us_size_bytes = ad_size_bytes d, us_sha256 = ad_sha256 d,
              us_category = u ''kimi-imports'', us_file_date = dt_date t,
              us_content_type = ad_content_type d\<rparr> in
        if upload_start_schema L c then Some c else None))"

record upload_draws =
  dr_file_id :: "attachment_kind \<Rightarrow> uuid"
  dr_race :: "attachment_kind \<Rightarrow> db \<Rightarrow> db"
  dr_race2 :: "attachment_kind \<Rightarrow> db \<Rightarrow> db"

fun start_uploads ::
  "lib \<Rightarrow> storage \<Rightarrow> time \<Rightarrow> upload_draws \<Rightarrow> actor \<Rightarrow> manifest \<Rightarrow> ustr \<Rightarrow> attachment_declaration list
   \<Rightarrow> db \<Rightarrow> file_row list result \<times> db \<times> call list" where
  "start_uploads L st now w a m key [] db = (Inr [], db, [])"
| "start_uploads L st now w a m key (d # ds) db =
     (case (upload_command L m d, child_idempotency_key L (actor_subject a) key (ad_kind d)) of
        (Some c, Some child) \<Rightarrow>
          (case start_import_upload L st now (dr_file_id w (ad_kind d)) (dr_race w (ad_kind d))
              (dr_race2 w (ad_kind d)) a c child db of
             (Inl e, db1, calls) \<Rightarrow>
               (Inl (if e = upload_conflict then import_idempotency_conflict else e), db1, calls)
           | (Inr f, db1, calls) \<Rightarrow>
               (case start_uploads L st now w a m key ds db1 of
                  (Inl e, db2, calls2) \<Rightarrow> (Inl e, db2, calls @ calls2)
                | (Inr fs, db2, calls2) \<Rightarrow> (Inr (f # fs), db2, calls @ calls2)))
      | _ \<Rightarrow> (Inl validation_failed, db, []))"

definition create_event_key :: "lib \<Rightarrow> uuid \<Rightarrow> uuid" where
  "create_event_key L job_id = uuid5_url L (u ''superboss:import-create:'' @ uuid_str job_id)"

definition new_job :: "time \<Rightarrow> uuid \<Rightarrow> actor \<Rightarrow> manifest \<Rightarrow> ustr \<Rightarrow> ustr \<Rightarrow> import_job" where
  "new_job now job_id a m key fp = \<lparr>j_id = job_id, j_device_id = actor_subject a,
     j_project_id = m_project_id m, j_idempotency_key = key, j_local_task_id = m_local_task_id m,
     j_external_document_reference = m_external_reference m, j_base_sha256 = m_base_sha256 m,
     j_canonical_manifest = manifest_json m, j_manifest_fingerprint = fp,
     j_status = IMPORT_UPLOADING, j_result_code = None, j_submitted_at = None,
     j_created_at = now, j_updated_at = now\<rparr>"

definition attachment_rows ::
  "(attachment_kind \<Rightarrow> uuid) \<Rightarrow> import_job \<Rightarrow> manifest \<Rightarrow> file_row list \<Rightarrow> import_attachment list" where
  "attachment_rows ids j m uploads = map (\<lambda>(d, f). \<lparr>a_id = ids (ad_kind d), a_job_id = j_id j,
       a_project_id = j_project_id j, a_file_id = f_id f, a_upload_id = f_id f, a_kind = ad_kind d\<rparr>)
     (zip (m_attachments m) uploads)"

definition create_audit ::
  "lib \<Rightarrow> uuid \<Rightarrow> actor \<Rightarrow> uuid \<Rightarrow> import_job \<Rightarrow> import_attachment list \<Rightarrow> audit_log" where
  "create_audit L aid a request_id j rows = \<lparr>al_id = aid, al_actor_kind = actor_kind a,
     al_actor_id = Some (actor_subject a), al_action = ''import.create'',
     al_object_type = ''import_job'', al_object_id = Some (j_id j),
     al_project_id = Some (j_project_id j), al_outcome = ''SUCCESS'',
     al_metadata = [(u ''actor_role'', JNull), (u ''attachment_count'', JInt (int (length rows))),
       (u ''attachment_kinds'', JList (map (\<lambda>r. JStr (u (attachment_kind_text (a_kind r)))) rows)),
       (u ''manifest_fingerprint'', JStr (j_manifest_fingerprint j)),
       (u ''status'', JStr (u (import_status_text IMPORT_UPLOADING)))],
     al_request_id = Some request_id, al_event_key = Some (create_event_key L (j_id j))\<rparr>"

text \<open>One transaction; \<open>race\<close> commits between its SELECT and its INSERT.\<close>

definition persist_job ::
  "lib \<Rightarrow> time \<Rightarrow> uuid \<Rightarrow> (attachment_kind \<Rightarrow> uuid) \<Rightarrow> uuid \<Rightarrow> (db \<Rightarrow> db) \<Rightarrow> actor \<Rightarrow> manifest \<Rightarrow> ustr
   \<Rightarrow> ustr \<Rightarrow> file_row list \<Rightarrow> uuid \<Rightarrow> db \<Rightarrow> import_job_result result \<times> db" where
  "persist_job L now job_id ids aid race a m key fp uploads request_id db =
     (case job_by_key db (actor_subject a) key of
        Some existing \<Rightarrow> (matching_result L fp existing db, db)
      | None \<Rightarrow>
        (let j = new_job now job_id a m key fp; db1 = race db in
         case insert_job L j db1 of
           Inl e \<Rightarrow>
             if e \<noteq> Integrity ''uq_import_jobs_device_idempotency'' then (Inl e, db1)
             else (case job_by_key db1 (actor_subject a) key of
                 None \<Rightarrow> (Inl e, db1)
               | Some winner \<Rightarrow> (matching_result L fp winner db1, db1))
         | Inr db2 \<Rightarrow>
             if length (m_attachments m) \<noteq> length uploads then (Inl (PyError ''ValueError''), db1)
             else (let rows = attachment_rows ids j m uploads in
               case insert_attachments rows db2 of
                 Inl e \<Rightarrow> (Inl e, db1)
               | Inr db3 \<Rightarrow> (case insert_audit (create_audit L aid a request_id j rows) db3 of
                   Inl e \<Rightarrow> (Inl e, db1)
                 | Inr db4 \<Rightarrow> (Inr \<lparr>r_id = j_id j, r_status = j_status j,
                     r_result_code = j_result_code j, r_submitted_at = j_submitted_at j,
                     r_updated_at = j_updated_at j, r_attachments = map attachment_result rows\<rparr>,
                     db4)))))"

record create_draws = upload_draws +
  dr_job_id :: uuid
  dr_attachment_id :: "attachment_kind \<Rightarrow> uuid"
  dr_audit_id :: uuid
  dr_before_persist :: "db \<Rightarrow> db"
  dr_before_insert :: "db \<Rightarrow> db"

definition manifest_fingerprint :: "lib \<Rightarrow> manifest \<Rightarrow> ustr result" where
  "manifest_fingerprint L m = map_sum id (sha256_hex L) (canonical_manifest_bytes L m)"

definition create_job ::
  "lib \<Rightarrow> storage \<Rightarrow> time \<Rightarrow> create_draws \<Rightarrow> actor \<Rightarrow> manifest \<Rightarrow> ustr \<Rightarrow> uuid \<Rightarrow> db
   \<Rightarrow> import_job_result result \<times> db \<times> call list" where
  "create_job L st now w a m key request_id db =
     (if \<not> idempotency_key_ok key then (Inl (PyError ''ValueError''), db, [])
      else if \<not> can_create a (m_project_id m)
      then (case record_create_denial L (dr_audit_id w) a
                (map_option p_id (get_project db (m_project_id m))) request_id db of
              (r, db') \<Rightarrow> (r, db', []))
      else (case manifest_fingerprint L m of
          Inl e \<Rightarrow> (Inl e, db, [])
        | Inr fp \<Rightarrow>
          (case job_by_key db (actor_subject a) key of
             Some existing \<Rightarrow> (matching_result L fp existing db, db, [])
           | None \<Rightarrow>
             (case start_uploads L st now (upload_draws.truncate w) a m key (m_attachments m) db of
                (Inl e, db1, calls) \<Rightarrow> (Inl e, db1, calls)
              | (Inr uploads, db1, calls) \<Rightarrow>
                (case persist_job L now (dr_job_id w) (dr_attachment_id w) (dr_audit_id w)
                    (dr_before_insert w) a m key fp uploads request_id (dr_before_persist w db1) of
                   (r, db2) \<Rightarrow> (r, db2, calls))))))"

section \<open>Attachment uploads\<close>

text \<open>The join of the job, the attachment and its file in one project.\<close>

definition attachment_target :: "db \<Rightarrow> uuid \<Rightarrow> uuid \<Rightarrow> (uuid \<times> attachment_upload_target) option" where
  "attachment_target db job_id attachment_id =
     (case get_job db job_id of
        None \<Rightarrow> None
      | Some j \<Rightarrow> (case find (\<lambda>a. a_id a = attachment_id \<and> a_job_id a = job_id
            \<and> a_project_id a = j_project_id j) (attachments db) of
          None \<Rightarrow> None
        | Some a \<Rightarrow> (case get_file db (a_file_id a) of
            None \<Rightarrow> None
          | Some f \<Rightarrow>
              if f_project_id f = a_project_id a \<and> f_id f = a_upload_id a
              then Some (j_device_id j, \<lparr>aut_project_id = j_project_id j, aut_upload_id = a_upload_id a\<rparr>)
              else None)))"

definition resolve_attachment_upload ::
  "lib \<Rightarrow> uuid \<Rightarrow> actor \<Rightarrow> uuid \<Rightarrow> uuid \<Rightarrow> string \<Rightarrow> uuid \<Rightarrow> db
   \<Rightarrow> attachment_upload_target result \<times> db" where
  "resolve_attachment_upload L aid a job_id attachment_id action request_id db =
     (let deny = record_attachment_denial L aid a job_id attachment_id in
      if actor_kind a \<noteq> ''device'' \<or> actor_role a \<noteq> None \<or> ''imports:upload'' \<notin> set (actor_scopes a)
      then deny None action request_id import_upload_forbidden db
      else (case attachment_target db job_id attachment_id of
          None \<Rightarrow> deny None action request_id import_attachment_not_found db
        | Some (device_id, target) \<Rightarrow>
            if device_id \<noteq> actor_subject a
            then deny None action request_id import_attachment_not_found db
            else if aut_project_id target \<notin> set (actor_projects a)
            then deny (Some (aut_project_id target)) action request_id import_upload_forbidden db
            else (Inr target, db)))"

definition presign_import_part ::
  "lib \<Rightarrow> storage \<Rightarrow> uuid \<Rightarrow> actor \<Rightarrow> uuid \<Rightarrow> uuid \<Rightarrow> int \<Rightarrow> uuid \<Rightarrow> db \<Rightarrow> ustr result \<times> db" where
  "presign_import_part L st aid a job_id attachment_id part_number request_id db =
     (case resolve_attachment_upload L aid a job_id attachment_id ''import.attachment.part_url''
         request_id db of
        (Inl e, db1) \<Rightarrow> (Inl e, db1)
      | (Inr target, db1) \<Rightarrow> (presign_part st True a (aut_upload_id target) part_number db1, db1))"

definition complete_attachment ::
  "lib \<Rightarrow> storage \<Rightarrow> time \<Rightarrow> uuid \<Rightarrow> actor \<Rightarrow> uuid \<Rightarrow> uuid \<Rightarrow> completed_part list \<Rightarrow> uuid \<Rightarrow> db
   \<Rightarrow> file_row result \<times> db \<times> call list" where
  "complete_attachment L st now aid a job_id attachment_id parts request_id db =
     (case resolve_attachment_upload L aid a job_id attachment_id ''import.attachment.complete''
         request_id db of
        (Inl e, db1) \<Rightarrow> (Inl e, db1, [])
      | (Inr target, db1) \<Rightarrow>
          complete_upload st True now aid a (aut_upload_id target) parts (Some request_id) db1)"

section \<open>Evaluation and transitions\<close>

definition file_observations :: "lib \<Rightarrow> db \<Rightarrow> uuid \<Rightarrow> file_observation list" where
  "file_observations L db job_id = List.map_filter (\<lambda>a. case get_file db (a_file_id a) of
       None \<Rightarrow> None
     | Some f \<Rightarrow> if f_project_id f = a_project_id a
         then Some \<lparr>fo_kind = a_kind a, fo_state = f_state f, fo_sha256 = f_sha256 f\<rparr> else None)
     (attachments_of L db job_id)"

definition evaluate_files :: "import_job \<Rightarrow> file_observation list \<Rightarrow> import_evaluation" where
  "evaluate_files j observations =
     (let states = map fo_state observations in
      if FILE_INFECTED \<in> set states
      then \<lparr>ie_status = IMPORT_REJECTED, ie_result_code = Some ''ATTACHMENT_INFECTED''\<rparr>
      else if FILE_FAILED \<in> set states
      then \<lparr>ie_status = IMPORT_REJECTED, ie_result_code = Some ''ATTACHMENT_SCAN_FAILED''\<rparr>
      else if observations = [] \<or> set states \<noteq> {FILE_CLEAN}
      then \<lparr>ie_status = IMPORT_SCANNING, ie_result_code = None\<rparr>
      else (case (j_base_sha256 j, find (\<lambda>ob. fo_kind ob = ORIGINAL) observations) of
          (Some base, Some original) \<Rightarrow>
            if fo_sha256 original \<noteq> base
            then \<lparr>ie_status = IMPORT_CONFLICT, ie_result_code = Some ''BASE_SHA256_MISMATCH''\<rparr>
            else \<lparr>ie_status = IMPORT_RECEIVED, ie_result_code = None\<rparr>
        | _ \<Rightarrow> \<lparr>ie_status = IMPORT_RECEIVED, ie_result_code = None\<rparr>))"

definition move_job :: "time \<Rightarrow> import_evaluation \<Rightarrow> import_job \<Rightarrow> import_job" where
  "move_job now ev j = j\<lparr>j_status := ie_status ev, j_result_code := ie_result_code ev,
     j_submitted_at := Some (case j_submitted_at j of None \<Rightarrow> now | Some t \<Rightarrow> t), j_updated_at := now\<rparr>"

definition transition_event_key :: "lib \<Rightarrow> string \<Rightarrow> uuid \<Rightarrow> import_evaluation \<Rightarrow> uuid" where
  "transition_event_key L action job_id ev = uuid5_url L (u ''superboss:'' @ u action @ u '':''
     @ uuid_str job_id @ u '':'' @ u (import_status_text (ie_status ev)) @ u '':''
     @ u (case ie_result_code ev of None \<Rightarrow> [] | Some c \<Rightarrow> c))"

definition transition_audit ::
  "lib \<Rightarrow> uuid \<Rightarrow> string \<Rightarrow> string \<Rightarrow> uuid option \<Rightarrow> uuid \<Rightarrow> import_evaluation \<Rightarrow> import_job \<Rightarrow> audit_log" where
  "transition_audit L aid action kind actor_id request_id ev j = \<lparr>al_id = aid,
     al_actor_kind = kind, al_actor_id = actor_id, al_action = action,
     al_object_type = ''import_job'', al_object_id = Some (j_id j),
     al_project_id = Some (j_project_id j), al_outcome = ''SUCCESS'',
     al_metadata = [(u ''actor_role'', JNull),
       (u ''status'', JStr (u (import_status_text (ie_status ev)))),
       (u ''result_code'', jopt (\<lambda>c. JStr (u c)) (ie_result_code ev))],
     al_request_id = Some request_id,
     al_event_key = Some (transition_event_key L action (j_id j) ev)\<rparr>"

text \<open>The new row and its evidence are flushed together; a constraint either violates
  aborts the transaction.\<close>

definition apply_transition ::
  "lib \<Rightarrow> time \<Rightarrow> uuid \<Rightarrow> import_job \<Rightarrow> import_evaluation \<Rightarrow> string \<Rightarrow> string \<Rightarrow> uuid option \<Rightarrow> uuid
   \<Rightarrow> db \<Rightarrow> db result" where
  "apply_transition L now aid j ev action kind actor_id request_id db =
     (if \<not> import_job_checks L (move_job now ev j) then Inl (Integrity ''ck_import_jobs'')
      else insert_audit (transition_audit L aid action kind actor_id request_id ev j)
        (put_job (j_id j) (move_job now ev) db))"

section \<open>Submission\<close>

definition preflight_submit ::
  "lib \<Rightarrow> uuid \<Rightarrow> actor \<Rightarrow> uuid \<Rightarrow> uuid \<Rightarrow> db \<Rightarrow> uuid result \<times> db" where
  "preflight_submit L aid a job_id request_id db =
     (if actor_kind a \<noteq> ''device'' \<or> actor_role a \<noteq> None \<or> ''imports:submit'' \<notin> set (actor_scopes a)
      then record_submit_denial L aid a job_id None request_id import_submit_forbidden db
      else (case get_job db job_id of
          None \<Rightarrow> record_submit_denial L aid a job_id None request_id import_job_not_found db
        | Some j \<Rightarrow>
            if j_device_id j \<noteq> actor_subject a
            then record_submit_denial L aid a job_id None request_id import_job_not_found db
            else if j_project_id j \<notin> set (actor_projects a)
            then record_submit_denial L aid a job_id (Some (j_project_id j)) request_id
              import_submit_forbidden db
            else (Inr (j_project_id j), db)))"

definition import_terminal :: "import_status \<Rightarrow> bool" where
  "import_terminal s \<longleftrightarrow> s \<in> {IMPORT_RECEIVED, IMPORT_REJECTED, IMPORT_CONFLICT}"

text \<open>The branches of the second transaction for a job the actor may submit.\<close>

definition submit_locked ::
  "lib \<Rightarrow> time \<Rightarrow> uuid \<Rightarrow> actor \<Rightarrow> uuid \<Rightarrow> import_job \<Rightarrow> db \<Rightarrow> import_job_result result \<times> db" where
  "submit_locked L now aid a request_id j db =
     (if import_terminal (j_status j) then (Inr (job_result L db j), db)
      else (let observations = file_observations L db (j_id j) in
        if j_status j = IMPORT_UPLOADING
          \<and> list_ex (\<lambda>ob. fo_state ob = FILE_UPLOADING) observations
        then record_submit_denial L aid a (j_id j) (Some (j_project_id j)) request_id
          import_attachments_incomplete db
        else (let ev = evaluate_files j observations in
          if j_status j = IMPORT_SCANNING \<and> ie_status ev = IMPORT_SCANNING
          then (Inr (job_result L db j), db)
          else (case apply_transition L now aid j ev ''import.submit'' ''device''
              (Some (actor_subject a)) request_id db of
              Inl e \<Rightarrow> (Inl e, db)
            | Inr db2 \<Rightarrow> (Inr (job_result L db2 (move_job now ev j)), db2)))))"

definition submit ::
  "lib \<Rightarrow> time \<Rightarrow> uuid \<Rightarrow> (db \<Rightarrow> db) \<Rightarrow> actor \<Rightarrow> uuid \<Rightarrow> uuid \<Rightarrow> db \<Rightarrow> import_job_result result \<times> db" where
  "submit L now aid race a job_id request_id db =
     (case preflight_submit L aid a job_id request_id db of
        (Inl e, db1) \<Rightarrow> (Inl e, db1)
      | (Inr target, db0) \<Rightarrow>
        (let db1 = race db0; deny = record_submit_denial L aid a job_id in
         case get_job db1 job_id of
           None \<Rightarrow> deny None request_id import_job_not_found db1
         | Some j \<Rightarrow>
           if j_device_id j \<noteq> actor_subject a then deny None request_id import_job_not_found db1
           else if j_project_id j \<noteq> target \<or> j_project_id j \<notin> set (actor_projects a)
           then deny (Some (j_project_id j)) request_id import_submit_forbidden db1
           else submit_locked L now aid a request_id j db1))"

section \<open>Reconciliation\<close>

fun reconcile_jobs ::
  "lib \<Rightarrow> time \<Rightarrow> (uuid \<Rightarrow> uuid) \<Rightarrow> import_job list \<Rightarrow> db \<Rightarrow> db result" where
  "reconcile_jobs L now aids [] db = Inr db"
| "reconcile_jobs L now aids (j # js) db =
     (if j_status j \<noteq> IMPORT_SCANNING then reconcile_jobs L now aids js db
      else (let ev = evaluate_files j (file_observations L db (j_id j)) in
        if ie_status ev = IMPORT_SCANNING then reconcile_jobs L now aids js db
        else (case apply_transition L now (aids (j_id j)) j ev ''import.reconcile'' ''system'' None
            (transition_event_key L ''import.reconcile'' (j_id j) ev) db of
            Inl e \<Rightarrow> Inl e
          | Inr db' \<Rightarrow> reconcile_jobs L now aids js db')))"

definition reconcile_file ::
  "lib \<Rightarrow> time \<Rightarrow> (uuid \<Rightarrow> uuid) \<Rightarrow> uuid \<Rightarrow> db \<Rightarrow> unit result \<times> db" where
  "reconcile_file L now aids file_id db =
     (let job_ids = map a_job_id (filter (\<lambda>a. a_file_id a = file_id) (attachments db)) in
      case reconcile_jobs L now aids
          (sort_key j_id (filter (\<lambda>j. j_id j \<in> set job_ids) (jobs db))) db of
        Inl e \<Rightarrow> (Inl e, db)
      | Inr db' \<Rightarrow> (Inr (), db'))"

fun reconcile_files ::
  "lib \<Rightarrow> time \<Rightarrow> (uuid \<Rightarrow> uuid) \<Rightarrow> uuid list \<Rightarrow> db \<Rightarrow> unit result \<times> db" where
  "reconcile_files L now aids [] db = (Inr (), db)"
| "reconcile_files L now aids (i # ids) db = (case reconcile_file L now aids i db of
       (Inl e, db') \<Rightarrow> (Inl e, db')
     | (Inr _, db') \<Rightarrow> reconcile_files L now aids ids db')"

section \<open>Views and reads\<close>

definition attachment_view :: "import_attachment \<Rightarrow> file_state \<Rightarrow> import_attachment_view" where
  "attachment_view a s = \<lparr>av_id = a_id a, av_file_id = a_file_id a, av_upload_id = a_upload_id a,
     av_kind = a_kind a, av_file_state = s\<rparr>"

definition attachment_views :: "lib \<Rightarrow> db \<Rightarrow> uuid \<Rightarrow> import_attachment_view list result" where
  "attachment_views L db job_id = list_field (\<lambda>a. case get_file db (a_file_id a) of
       None \<Rightarrow> Inl (PyError ''RuntimeError'') | Some f \<Rightarrow> Inr (attachment_view a (f_state f)))
     (attachments_of L db job_id)"

text \<open>\<open>ImportJobCreate.model_validate\<close> of the stored manifest.\<close>

definition stored_manifest :: "lib \<Rightarrow> (json \<Rightarrow> manifest option) \<Rightarrow> import_job \<Rightarrow> manifest result" where
  "stored_manifest L rd j = (case rd (j_canonical_manifest j) of
       None \<Rightarrow> Inl validation_failed | Some m \<Rightarrow> import_job_create L m)"

definition render_job :: "import_job \<Rightarrow> k3_result \<Rightarrow> import_attachment_view list \<Rightarrow> import_job_view" where
  "render_job j k views = \<lparr>v_id = j_id j, v_project_id = j_project_id j,
     v_local_task_id = j_local_task_id j,
     v_external_reference = j_external_document_reference j, v_base_sha256 = j_base_sha256 j,
     v_status = j_status j, v_result_code = j_result_code j, v_k3_result = k,
     v_submitted_at = j_submitted_at j, v_created_at = j_created_at j,
     v_updated_at = j_updated_at j, v_attachments = views\<rparr>"

text \<open>All attachments are looked up before the first manifest is read.\<close>

definition job_views ::
  "lib \<Rightarrow> (json \<Rightarrow> manifest option) \<Rightarrow> db \<Rightarrow> import_job list \<Rightarrow> import_job_view list result" where
  "job_views L rd db js = (case list_field (\<lambda>j. attachment_views L db (j_id j)) js of
       Inl e \<Rightarrow> Inl e
     | Inr views \<Rightarrow> list_field (\<lambda>(j, vs). case stored_manifest L rd j of
         Inl e \<Rightarrow> Inl e | Inr m \<Rightarrow> Inr (render_job j (m_k3_result m) vs)) (zip js views))"

definition job_view ::
  "lib \<Rightarrow> (json \<Rightarrow> manifest option) \<Rightarrow> db \<Rightarrow> import_job \<Rightarrow> import_job_view result" where
  "job_view L rd db j = (case job_views L rd db [j] of
       Inl e \<Rightarrow> Inl e | Inr [] \<Rightarrow> Inl import_job_not_found | Inr (v # vs) \<Rightarrow> Inr v)"

definition view_job ::
  "lib \<Rightarrow> (json \<Rightarrow> manifest option) \<Rightarrow> db \<Rightarrow> uuid \<Rightarrow> import_job_view result" where
  "view_job L rd db job_id = (case get_job db job_id of
       None \<Rightarrow> Inl import_job_not_found | Some j \<Rightarrow> job_view L rd db j)"

definition view_attachment :: "db \<Rightarrow> uuid \<Rightarrow> uuid \<Rightarrow> import_attachment_view result" where
  "view_attachment db job_id attachment_id =
     (case find (\<lambda>a. a_job_id a = job_id \<and> a_id a = attachment_id) (attachments db) of
        None \<Rightarrow> Inl import_attachment_not_found
      | Some a \<Rightarrow> (case get_file db (a_file_id a) of
          None \<Rightarrow> Inl import_attachment_not_found
        | Some f \<Rightarrow> if f_project_id f = a_project_id a then Inr (attachment_view a (f_state f))
            else Inl import_attachment_not_found))"

text \<open>Who may read a job: the check of the first transaction of \<open>read\<close>.\<close>

definition read_denial :: "actor \<Rightarrow> import_job option \<Rightarrow> (exn \<times> uuid option) option" where
  "read_denial a job = (case job of
       None \<Rightarrow> Some (import_job_not_found, None)
     | Some j \<Rightarrow> if j_device_id j \<noteq> actor_subject a then Some (import_job_not_found, None)
         else if j_project_id j \<notin> set (actor_projects a)
         then Some (import_read_forbidden, Some (j_project_id j)) else None)"

definition read_job ::
  "lib \<Rightarrow> (json \<Rightarrow> manifest option) \<Rightarrow> time \<Rightarrow> uuid \<Rightarrow> (uuid \<Rightarrow> uuid) \<Rightarrow> (db \<Rightarrow> db) \<Rightarrow> actor \<Rightarrow> uuid \<Rightarrow> uuid
   \<Rightarrow> db \<Rightarrow> import_job_view result \<times> db" where
  "read_job L rd now aid aids race a job_id request_id db =
     (let deny = record_read_denial L aid a job_id in
      if actor_kind a \<noteq> ''device'' \<or> actor_role a \<noteq> None \<or> ''imports:read-own'' \<notin> set (actor_scopes a)
      then deny None request_id import_read_forbidden db
      else (case read_denial a (get_job db job_id) of
          Some (e, project_id) \<Rightarrow> deny project_id request_id e db
        | None \<Rightarrow>
          (let project_id = map_option j_project_id (get_job db job_id);
               file_ids = sort (map a_file_id (filter (\<lambda>a. a_job_id a = job_id) (attachments db))) in
           case reconcile_files L now aids file_ids db of
             (Inl e, db1) \<Rightarrow> (Inl e, db1)
           | (Inr _, db1) \<Rightarrow>
             (let db2 = race db1 in
              case get_job db2 job_id of
                None \<Rightarrow> deny project_id request_id import_job_not_found db2
              | Some j \<Rightarrow>
                if j_device_id j \<noteq> actor_subject a \<or> Some (j_project_id j) \<noteq> project_id
                then deny project_id request_id import_job_not_found db2
                else if j_project_id j \<notin> set (actor_projects a)
                then deny project_id request_id import_read_forbidden db2
                else (job_view L rd db2 j, db2)))))"

definition owner_view_of :: "import_job_view \<Rightarrow> owner_import_job_view" where
  "owner_view_of v = \<lparr>ov_id = v_id v, ov_project_id = v_project_id v,
     ov_local_task_id = v_local_task_id v, ov_external_reference = v_external_reference v,
     ov_model_label = k_model_label (v_k3_result v), ov_status = v_status v,
     ov_result_code = v_result_code v, ov_submitted_at = v_submitted_at v,
     ov_created_at = v_created_at v, ov_updated_at = v_updated_at v,
     ov_attachments = v_attachments v\<rparr>"

text \<open>\<open>ORDER BY created_at DESC, id DESC LIMIT\<close>\<close>

definition recent_jobs :: "nat \<Rightarrow> db \<Rightarrow> import_job list" where
  "recent_jobs limit db = take limit (sort_key (\<lambda>j. (- j_created_at j, - int (j_id j))) (jobs db))"

definition list_owner ::
  "lib \<Rightarrow> (json \<Rightarrow> manifest option) \<Rightarrow> uuid \<Rightarrow> actor \<Rightarrow> int \<Rightarrow> uuid \<Rightarrow> db
   \<Rightarrow> owner_import_job_view list result \<times> db" where
  "list_owner L rd aid a limit request_id db =
     (if actor_kind a \<noteq> ''user'' \<or> actor_role a \<noteq> Some OWNER
      then refuse L aid \<lparr>ev_actor = a, ev_action = ''import.list'', ev_object_type = ''import_job'',
        ev_object_id = None, ev_project_id = None, ev_outcome = ''DENIED'',
        ev_request_id = request_id, ev_event_key = None,
        ev_metadata = JObj [(u ''reason'', JStr (u ''OWNER_REQUIRED''))]\<rparr> import_owner_required db
      else if \<not> (1 \<le> limit \<and> limit \<le> 100) then (Inl (PyError ''ValueError''), db)
      else (map_sum id (map owner_view_of) (job_views L rd db (recent_jobs (nat limit) db)), db))"

section \<open>Routes (imports/router.py)\<close>

definition request_invalid :: exn where
  "request_invalid = PyError ''RequestValidationError''"

definition create_import_route ::
  "lib \<Rightarrow> storage \<Rightarrow> (json \<Rightarrow> manifest option) \<Rightarrow> time \<Rightarrow> create_draws \<Rightarrow> actor \<Rightarrow> manifest \<Rightarrow> ustr \<Rightarrow> uuid
   \<Rightarrow> db \<Rightarrow> import_job_view result \<times> db \<times> call list" where
  "create_import_route L st rd now w a body key request_id db =
     (case import_job_create L body of
        Inl e \<Rightarrow> (Inl request_invalid, db, [])
      | Inr command \<Rightarrow>
        if \<not> idempotency_key_ok key then (Inl request_invalid, db, [])
        else (case create_job L st now w a command key request_id db of
            (Inl e, db1, calls) \<Rightarrow> (Inl e, db1, calls)
          | (Inr r, db1, calls) \<Rightarrow> (view_job L rd db1 (r_id r), db1, calls)))"

definition presign_import_part_route ::
  "lib \<Rightarrow> storage \<Rightarrow> uuid \<Rightarrow> actor \<Rightarrow> uuid \<Rightarrow> uuid \<Rightarrow> int \<Rightarrow> uuid \<Rightarrow> db \<Rightarrow> ustr result \<times> db" where
  "presign_import_part_route L st aid a job_id attachment_id part_number request_id db =
     (if \<not> (1 \<le> part_number \<and> part_number \<le> 10000) then (Inl request_invalid, db)
      else presign_import_part L st aid a job_id attachment_id part_number request_id db)"

definition complete_import_attachment_route ::
  "lib \<Rightarrow> storage \<Rightarrow> time \<Rightarrow> uuid \<Rightarrow> actor \<Rightarrow> uuid \<Rightarrow> uuid \<Rightarrow> completed_part list \<Rightarrow> uuid \<Rightarrow> db
   \<Rightarrow> import_attachment_view result \<times> db \<times> call list" where
  "complete_import_attachment_route L st now aid a job_id attachment_id body request_id db =
     (case upload_complete_schema L body of
        Inl e \<Rightarrow> (Inl request_invalid, db, [])
      | Inr parts \<Rightarrow>
        (case complete_attachment L st now aid a job_id attachment_id parts request_id db of
           (Inl e, db1, calls) \<Rightarrow> (Inl e, db1, calls)
         | (Inr _, db1, calls) \<Rightarrow> (view_attachment db1 job_id attachment_id, db1, calls)))"

definition list_owner_imports_route ::
  "lib \<Rightarrow> (json \<Rightarrow> manifest option) \<Rightarrow> uuid \<Rightarrow> actor \<Rightarrow> int \<Rightarrow> uuid \<Rightarrow> db
   \<Rightarrow> owner_import_job_view list result \<times> db" where
  "list_owner_imports_route L rd aid a limit request_id db =
     (if \<not> (1 \<le> limit \<and> limit \<le> 100) then (Inl request_invalid, db)
      else list_owner L rd aid a limit request_id db)"

section \<open>A scan delivery (files/tasks.py)\<close>

text \<open>\<open>execute_file_scan\<close>: the scan and then the reconciliation of the jobs the file belongs to;
  a scan that is interrupted after its claim does not come back to reconcile.\<close>

definition execute_file_scan ::
  "lib \<Rightarrow> time \<Rightarrow> time \<Rightarrow> time \<Rightarrow> scan_run \<Rightarrow> (db \<Rightarrow> db) \<Rightarrow> (uuid \<Rightarrow> uuid) \<Rightarrow> uuid \<Rightarrow> db
   \<Rightarrow> unit result \<times> db \<times> call list" where
  "execute_file_scan L now later settle run race aids i db =
     (case scan_file L now later run race i db of
        (db1, calls) \<Rightarrow>
          if fst (claim_scan now i db) \<noteq> None \<and> run = ScanInterrupted
          then (Inl (PyError ''CancelledError''), db1, calls)
          else (case reconcile_file L settle aids i db1 of (r, db2) \<Rightarrow> (r, db2, calls)))"

end
