(* ===== verification/File_Clients.thy ===== *)
theory File_Clients
  imports Imports Files_Proofs
begin

text \<open>
  What a component that uses the upload lifecycle may rely on: every operation of
  \<open>Files\<close> and \<open>Scans\<close> writes only file rows and the log and lets files evolve
  (\<open>files_step\<close>), and any reflexive and transitive relation that contains \<open>files_step\<close>
  holds across them, also when interleaved transactions stay within the relation.
\<close>

section \<open>Operations on files\<close>

definition only_files :: "db \<Rightarrow> db \<Rightarrow> bool" where
  "only_files db db' \<longleftrightarrow> db' = db\<lparr>files := files db', audit_logs := audit_logs db'\<rparr>"

lemma only_files_refl [simp, intro]: "only_files db db"
  by (simp add: only_files_def)

lemma only_files_trans: "only_files a b \<Longrightarrow> only_files b c \<Longrightarrow> only_files a c"
  unfolding only_files_def by (metis db.update_convs(10,13) db.surjective db.ext_inject)

lemma only_files_log: "only_log db db' \<Longrightarrow> only_files db db'"
  by (auto simp: only_log_def only_files_def)

lemma only_files_tables:
  assumes "only_files db db'"
  shows "jobs db' = jobs db" "attachments db' = attachments db"
proof -
  from assms have d: "db' = db\<lparr>files := files db', audit_logs := audit_logs db'\<rparr>"
    by (simp add: only_files_def)
  show "jobs db' = jobs db" by (subst d) simp
  show "attachments db' = attachments db" by (subst d) simp
qed

definition files_step :: "db \<Rightarrow> db \<Rightarrow> bool" where
  "files_step db db' \<longleftrightarrow> only_files db db' \<and> files_evolve db db'"

lemma files_step_refl [simp, intro]: "files_step db db"
  by (simp add: files_step_def)

lemma files_step_trans: "files_step a b \<Longrightarrow> files_step b c \<Longrightarrow> files_step a c"
  by (auto simp: files_step_def intro: only_files_trans files_evolve_trans)

lemma files_step_log: "only_log db db' \<Longrightarrow> files_step db db'"
  by (simp add: files_step_def only_files_log files_evolve_log)

lemma write_file_only: "only_files db (write_file now i g db)"
  by (simp add: only_files_def write_file_def put_file_def)

lemma provision_step:
  assumes "provision_upload st now i db = (r, db', calls)"
  shows "files_step db db'"
  using assms provision_evolves [OF assms]
  by (cases rule: provision_cases) (auto simp: files_step_def write_file_only)

lemma insert_file_step: "insert_file f db = Inr db' \<Longrightarrow> files_step db db'"
  using insert_file_Inr [of f db db']
  by (auto simp: files_step_def only_files_def intro: files_evolve_append [of _ _ "[f]"])

lemma complete_step:
  assumes "complete_upload st dev now aid a i parts rid db = (r, db', calls)"
  shows "files_step db db'"
proof -
  have "only_files db db'"
    using assms
  proof (cases rule: complete_cases)
    case (4 f m)
    from only_files_log [OF 4(8)] write_file_only only_files_trans show ?thesis by blast
  qed (auto simp: write_file_only)
  with complete_evolves [OF assms] show ?thesis by (simp add: files_step_def)
qed

lemma claim_step: "claim_scan now i db = (c, db') \<Longrightarrow> files_step db db'"
  using claim_evolves [of now i db c db']
  by (auto simp: files_step_def write_file_only elim: claim_cases)

lemma finish_step:
  "finish_scan now i key (scan_result_of L ex run) db = (db', calls) \<Longrightarrow> files_step db db'"
  using finish_evolves [of now i key L ex run db db' calls]
  by (auto simp: files_step_def write_file_only elim: finish_cases)

lemma expire_one_step: "expire_one now cutoff i db = (d, db', calls) \<Longrightarrow> files_step db db'"
  using expire_one_evolves [of now cutoff i db d db' calls]
  by (auto simp: files_step_def write_file_only elim: expire_one_cases)

lemma expire_all_step: "expire_all now cutoff ids db = (n, db', calls) \<Longrightarrow> files_step db db'"
proof (induction ids arbitrary: db n db' calls)
  case (Cons i ids)
  obtain d db1 c1 where e: "expire_one now cutoff i db = (d, db1, c1)" by (metis prod_cases3)
  obtain m db2 c2 where a: "expire_all now cutoff ids db1 = (m, db2, c2)" by (metis prod_cases3)
  from Cons.prems e a have "db' = db2" by simp
  with Cons.IH [OF a] expire_one_step [OF e] files_step_trans show ?case by blast
qed simp

lemma recover_step:
  assumes "recover_stale_uploads now reference limit db = (r, db', calls)"
  shows "files_step db db'"
  using assms expire_all_step
  by (auto simp: recover_stale_uploads_def Let_def split: if_splits prod.splits)

section \<open>Denials only log\<close>

lemma refuse_log: "only_log db (snd (refuse L aid ev e db))"
  using audit_service.only_logs [of db L "(aid, ev)"]
  by (auto simp: refuse_def split: prod.splits sum.splits)

lemma record_denials_log [simp]:
  "only_log db (snd (record_submit_denial L aid a i p rid e db))"
  "only_log db (snd (record_read_denial L aid a i p rid e db))"
  "only_log db (snd (record_attachment_denial L aid a i k p action rid e db))"
  "only_log db (snd (record_create_denial L aid a p rid db))"
  by (simp_all add: record_submit_denial_def record_read_denial_def record_attachment_denial_def
      record_create_denial_def refuse_log)

lemma resolve_log:
  assumes "resolve_attachment_upload L aid a i k action rid db = (r, db')"
  shows "only_log db db'"
proof -
  have "only_log db (snd (resolve_attachment_upload L aid a i k action rid db))"
    by (simp add: resolve_attachment_upload_def Let_def split: option.splits prod.splits)
  with assms show ?thesis by simp
qed

lemma complete_attachment_step:
  assumes "complete_attachment L st now aid a i k parts rid db = (r, db', calls)"
  shows "files_step db db'"
proof -
  obtain q d where q: "resolve_attachment_upload L aid a i k ''import.attachment.complete'' rid db = (q, d)"
    by fastforce
  note l = files_step_log [OF resolve_log [OF q]]
  show ?thesis
  proof (cases q)
    case (Inl e)
    with assms q l show ?thesis by (simp add: complete_attachment_def)
  next
    case (Inr t)
    with assms q have "complete_upload st True now aid a (aut_upload_id t) parts (Some rid) d = (r, db', calls)"
      by (simp add: complete_attachment_def)
    from complete_step [OF this] l files_step_trans show ?thesis by blast
  qed
qed

section \<open>The interface\<close>

text \<open>A relation on databases a client of the file operations keeps.\<close>

locale file_client =
  fixes R :: "db \<Rightarrow> db \<Rightarrow> bool"
  assumes R_files: "files_step db db' \<Longrightarrow> R db db'"
    and R_trans: "R a b \<Longrightarrow> R b c \<Longrightarrow> R a c"
begin

lemma R_refl [simp, intro]: "R db db"
  by (rule R_files) simp

lemma R_log: "only_log db db' \<Longrightarrow> R db db'"
  by (rule R_files) (rule files_step_log)

lemma refuse_R: "refuse L aid ev e db = (r, db') \<Longrightarrow> R db db'"
  using R_log [OF refuse_log [of db L aid ev e]] by (metis snd_conv)

lemma start_row:
  assumes "start_upload_row L st now i race race2 a c key db = (r, db', calls)"
    and "\<And>d. R d (race d)" "\<And>d. R d (race2 d)"
  shows "R db db'"
proof -
  have prov: "R d d'" if "provision_upload st now k (race2 d) = (r', d', cs)" for d k r' d' cs
    using R_files [OF provision_step [OF that]] assms(3) R_trans by blast
  have ins: "R d d'" if "insert_file f d = Inr d'" for f d d'
    using R_files [OF insert_file_step [OF that]] .
  show ?thesis
    using assms(1,2) prov ins
    by (auto simp: start_upload_row_def Let_def split: if_splits option.splits sum.splits)
      (meson R_trans)+
qed

lemma scan:
  assumes "scan_file L now later run race i db = (db', calls)" "\<And>d. R d (race d)"
  shows "R db db'"
proof -
  obtain c db1 where c: "claim_scan now i db = (c, db1)" by fastforce
  note e1 = R_files [OF claim_step [OF c]]
  show ?thesis
  proof (cases c)
    case None
    with c assms(1) e1 show ?thesis by (auto simp: scan_file_def)
  next
    case (Some ke)
    obtain key ex where ke: "ke = (key, ex)" by fastforce
    have e2: "R db (race db1)" using e1 assms(2) R_trans by blast
    show ?thesis
    proof (cases "run = ScanInterrupted")
      case True
      with c Some ke assms(1) e2 show ?thesis by (auto simp: scan_file_def)
    next
      case False
      with c Some ke assms(1) have "finish_scan later i key (scan_result_of L ex run) (race db1) = (db', calls)"
        by (simp add: scan_file_def)
      from R_files [OF finish_step [OF this]] e2 R_trans show ?thesis by blast
    qed
  qed
qed

lemma start_import:
  assumes "start_import_upload L st now i race race2 a c key db = (r, db', calls)"
    and "\<And>d. R d (race d)" "\<And>d. R d (race2 d)"
  shows "R db db'"
  using assms start_row [of L st now i race race2 a c key db r db' calls]
  by (auto simp: start_import_upload_def split: if_splits)

lemma start_uploads_R:
  assumes "start_uploads L st now w a m key ds db = (r, db', calls)"
    and "\<And>k d. R d (dr_race w k d)" "\<And>k d. R d (dr_race2 w k d)"
  shows "R db db'"
  using assms(1)
proof (induction ds arbitrary: db r db' calls)
  case (Cons d ds)
  show ?case
  proof (cases "\<exists>c child. upload_command L m d = Some c
      \<and> child_idempotency_key L (actor_subject a) key (ad_kind d) = Some child")
    case False
    with Cons.prems show ?thesis by (auto split: option.splits)
  next
    case True
    then obtain c child where c: "upload_command L m d = Some c"
      "child_idempotency_key L (actor_subject a) key (ad_kind d) = Some child" by blast
    obtain q db1 c1 where q: "start_import_upload L st now (dr_file_id w (ad_kind d))
        (dr_race w (ad_kind d)) (dr_race2 w (ad_kind d)) a c child db = (q, db1, c1)"
      by (metis prod_cases3)
    note e1 = start_import [OF q assms(2,3)]
    show ?thesis
    proof (cases q)
      case (Inl e)
      with Cons.prems c q e1 show ?thesis by simp
    next
      case (Inr f)
      obtain q2 db2 c2 where q2: "start_uploads L st now w a m key ds db1 = (q2, db2, c2)"
        by (metis prod_cases3)
      with Cons.prems c q Inr have "db' = db2" by (auto split: sum.splits)
      with Cons.IH [OF q2] e1 R_trans show ?thesis by blast
    qed
  qed
qed simp

lemma file_step_R: "R db (file_step L op db)"
proof (cases op)
  case (StartUpload st now i a c key)
  obtain r d cs where q: "start_upload_row L st now i id id a c key db = (r, d, cs)" by (metis prod_cases3)
  have "R db d" using start_row [OF q] by simp
  with StartUpload q show ?thesis by (auto simp: start_upload_def split: sum.splits)
next
  case (StartImportUpload st now i a c key)
  obtain r d cs where q: "start_import_upload L st now i id id a c key db = (r, d, cs)" by (metis prod_cases3)
  have "R db d" using start_import [OF q] by simp
  with StartImportUpload q show ?thesis by simp
next
  case (CompleteUpload st dev now aid a i parts rid)
  obtain r d cs where q: "complete_upload st dev now aid a i parts rid db = (r, d, cs)" by (metis prod_cases3)
  with CompleteUpload R_files [OF complete_step [OF q]] show ?thesis by simp
next
  case (ScanFile now later run i)
  obtain d cs where q: "scan_file L now later run id i db = (d, cs)" by fastforce
  with ScanFile scan [OF q] show ?thesis by simp
next
  case (RecoverStale now reference limit)
  obtain r d cs where q: "recover_stale_uploads now reference limit db = (r, d, cs)" by (metis prod_cases3)
  with RecoverStale R_files [OF recover_step [OF q]] show ?thesis by simp
qed

end

end
