(* ===== verification/Imports_Proofs.thy ===== *)
theory Imports_Proofs
  imports File_Clients
begin

text \<open>
  Proofs about import jobs: the status machine, the invariant that ties jobs, attachments
  and files together, and that every operation preserves it.  The invariant spans two
  components: a job is RECEIVED only while all its files are CLEAN, and stays so
  because \<open>Files_Proofs\<close> shows that CLEAN is final.
\<close>

section \<open>The status machine\<close>

inductive import_edge :: "import_status \<Rightarrow> import_status \<Rightarrow> bool" where
  submitted: "t \<noteq> IMPORT_UPLOADING \<Longrightarrow> import_edge IMPORT_UPLOADING t"
| decided: "import_terminal t \<Longrightarrow> import_edge IMPORT_SCANNING t"

inductive_cases import_edge_from: "import_edge s t"

lemma import_edge_terminal: "import_edge s t \<Longrightarrow> \<not> import_terminal s"
  by (auto simp: import_terminal_def elim: import_edge_from)

lemma not_uploading_back: "import_edge s t \<Longrightarrow> t \<noteq> IMPORT_UPLOADING"
  by (auto simp: import_terminal_def elim: import_edge_from)

lemma evaluate_not_uploading: "ie_status (evaluate_files j obs) \<noteq> IMPORT_UPLOADING"
  by (simp add: evaluate_files_def Let_def split: option.splits)

lemma evaluate_edge:
  assumes "\<not> import_terminal (j_status j)"
    and "j_status j = IMPORT_SCANNING \<Longrightarrow> ie_status (evaluate_files j obs) \<noteq> IMPORT_SCANNING"
  shows "import_edge (j_status j) (ie_status (evaluate_files j obs))"
  using assms evaluate_not_uploading [of j obs]
  by (cases "j_status j"; cases "ie_status (evaluate_files j obs)")
    (auto simp: import_terminal_def intro: import_edge.intros)

text \<open>One legal move of a job row, and the rows reachable by such moves.\<close>

inductive job_moves :: "lib \<Rightarrow> import_job \<Rightarrow> import_job \<Rightarrow> bool" for L where
  "import_edge (j_status j) (ie_status ev) \<Longrightarrow> import_job_checks L (move_job now ev j)
   \<Longrightarrow> job_moves L j (move_job now ev j)"

inductive_cases job_movesE: "job_moves L j g"

lemma move_job_fields [simp]:
  "j_id (move_job now ev j) = j_id j" "j_device_id (move_job now ev j) = j_device_id j"
  "j_project_id (move_job now ev j) = j_project_id j"
  "j_idempotency_key (move_job now ev j) = j_idempotency_key j"
  "j_base_sha256 (move_job now ev j) = j_base_sha256 j"
  "j_canonical_manifest (move_job now ev j) = j_canonical_manifest j"
  "j_manifest_fingerprint (move_job now ev j) = j_manifest_fingerprint j"
  "j_local_task_id (move_job now ev j) = j_local_task_id j"
  "j_created_at (move_job now ev j) = j_created_at j"
  "j_status (move_job now ev j) = ie_status ev"
  "j_result_code (move_job now ev j) = ie_result_code ev"
  by (simp_all add: move_job_def)

abbreviation job_evolves :: "lib \<Rightarrow> import_job \<Rightarrow> import_job \<Rightarrow> bool" where
  "job_evolves L \<equiv> (job_moves L)\<^sup>*\<^sup>*"

lemma job_evolves_identity:
  assumes "job_evolves L j g"
  shows "j_id g = j_id j \<and> j_device_id g = j_device_id j \<and> j_project_id g = j_project_id j
    \<and> j_idempotency_key g = j_idempotency_key j \<and> j_base_sha256 g = j_base_sha256 j
    \<and> j_canonical_manifest g = j_canonical_manifest j
    \<and> j_manifest_fingerprint g = j_manifest_fingerprint j"
  using assms by induction (auto elim: job_movesE)

lemma job_evolves_terminal: "job_evolves L j g \<Longrightarrow> import_terminal (j_status j) \<Longrightarrow> g = j"
  by (induction rule: converse_rtranclp_induct) (auto elim: job_movesE dest: import_edge_terminal)

lemma job_evolves_submitted:
  assumes "job_evolves L j g" "j_submitted_at j = Some t"
  shows "j_submitted_at g = Some t"
  using assms by induction (auto elim!: job_movesE simp: move_job_def)

definition jobs_evolve :: "lib \<Rightarrow> db \<Rightarrow> db \<Rightarrow> bool" where
  "jobs_evolve L db db' \<longleftrightarrow>
     (\<forall>i j. get_job db i = Some j \<longrightarrow> (\<exists>g. get_job db' i = Some g \<and> job_evolves L j g))"

lemma jobs_evolve_same: "jobs db' = jobs db \<Longrightarrow> jobs_evolve L db db'"
  by (auto simp: jobs_evolve_def get_job_def)

lemma jobs_evolve_trans: "jobs_evolve L a b \<Longrightarrow> jobs_evolve L b c \<Longrightarrow> jobs_evolve L a c"
  unfolding jobs_evolve_def by (meson rtranclp_trans)

section \<open>The invariant\<close>

definition imports_ok :: "lib \<Rightarrow> db \<Rightarrow> bool" where
  "imports_ok L db \<longleftrightarrow> distinct (map j_id (jobs db))
     \<and> distinct (map (\<lambda>j. (j_device_id j, j_idempotency_key j)) (jobs db))
     \<and> list_all (import_job_checks L) (jobs db)
     \<and> distinct (map a_id (attachments db))
     \<and> distinct (map (\<lambda>a. (a_job_id a, a_kind a)) (attachments db))
     \<and> distinct (map a_file_id (attachments db))
     \<and> list_all (\<lambda>a. a_upload_id a = a_file_id a
         \<and> map_option j_project_id (get_job db (a_job_id a)) = Some (a_project_id a)
         \<and> map_option f_project_id (get_file db (a_file_id a)) = Some (a_project_id a)) (attachments db)"

text \<open>What RECEIVED promises of a job's files.\<close>

definition files_received :: "db \<Rightarrow> import_job \<Rightarrow> bool" where
  "files_received db j \<longleftrightarrow> (\<exists>a \<in> set (attachments db). a_job_id a = j_id j)
     \<and> (\<forall>a \<in> set (attachments db). a_job_id a = j_id j \<longrightarrow>
          (\<exists>f. get_file db (a_file_id a) = Some f \<and> f_state f = FILE_CLEAN
             \<and> (a_kind a = ORIGINAL \<longrightarrow> j_base_sha256 j = None \<or> j_base_sha256 j = Some (f_sha256 f))))"

definition received_ok :: "db \<Rightarrow> bool" where
  "received_ok db \<longleftrightarrow> (\<forall>j \<in> set (jobs db). j_status j = IMPORT_RECEIVED \<longrightarrow> files_received db j)"

definition import_inv :: "lib \<Rightarrow> db \<Rightarrow> bool" where
  "import_inv L db \<longleftrightarrow> imports_ok L db \<and> received_ok db"

lemma empty_inv: "import_inv L empty_db"
  by (simp add: import_inv_def imports_ok_def received_ok_def empty_db_def)

text \<open>The relation every operation satisfies; it is a preorder, so interleaved transactions
  compose.\<close>

definition import_evolves :: "lib \<Rightarrow> db \<Rightarrow> db \<Rightarrow> bool" where
  "import_evolves L db db' \<longleftrightarrow> (import_inv L db \<longrightarrow> import_inv L db' \<and> jobs_evolve L db db')"

lemma import_evolves_refl [simp, intro]: "import_evolves L db db"
  by (simp add: import_evolves_def jobs_evolve_same)

lemma import_evolves_trans:
  "import_evolves L a b \<Longrightarrow> import_evolves L b c \<Longrightarrow> import_evolves L a c"
  by (auto simp: import_evolves_def intro: jobs_evolve_trans)

lemma get_job_member:
  assumes "imports_ok L db"
  shows "get_job db i = Some j \<longleftrightarrow> j \<in> set (jobs db) \<and> j_id j = i"
  using assms job_table.get_of_member [of db j] job_table.get_member job_table.get_key
  by (fastforce simp: imports_ok_def)

lemma files_received_step:
  assumes "files_evolve db db'" "attachments db' = attachments db" "files_received db j"
  shows "files_received db' j"
proof -
  have "\<exists>g. get_file db' i = Some g \<and> f_state g = FILE_CLEAN \<and> f_sha256 g = f_sha256 f"
    if "get_file db i = Some f" "f_state f = FILE_CLEAN" for i f
  proof -
    from assms(1) that(1) obtain g where g: "get_file db' i = Some g" "row_evolves f g"
      unfolding files_evolve_def by blast
    then have "f_state g = FILE_CLEAN"
      using terminal_absorbing [of "f_state f" "f_state g"] that(2)
      by (simp add: row_evolves_def file_terminal_def)
    moreover have "f_sha256 g = f_sha256 f" using g(2) identity_fields [of g f] by (simp add: row_evolves_def)
    ultimately show ?thesis using g(1) by blast
  qed
  with assms(2,3) show ?thesis unfolding files_received_def by metis
qed

lemma file_project_step:
  assumes "files_evolve db db'" "map_option f_project_id (get_file db i) = Some p"
  shows "map_option f_project_id (get_file db' i) = Some p"
proof -
  from assms(2) obtain f where f: "get_file db i = Some f" "f_project_id f = p" by auto
  with assms(1) obtain g where "get_file db' i = Some g" "row_evolves f g"
    unfolding files_evolve_def by blast
  with f identity_fields [of g f] show ?thesis by (simp add: row_evolves_def)
qed

lemma inv_files_step:
  assumes "import_inv L db" "files_step db db'"
  shows "import_inv L db'"
proof -
  from assms(2) have s: "jobs db' = jobs db" "attachments db' = attachments db" "files_evolve db db'"
    by (auto simp: files_step_def only_files_tables)
  have g: "get_job db' i = get_job db i" for i using s(1) by (simp add: get_job_def)
  have "imports_ok L db'"
    using assms(1) s g file_project_step [OF s(3)]
    by (simp add: import_inv_def imports_ok_def list_all_iff)
  moreover have "received_ok db'"
    using assms(1) s files_received_step [OF s(3,2)] by (simp add: import_inv_def received_ok_def)
  ultimately show ?thesis by (simp add: import_inv_def)
qed

lemma evolves_files_step: "files_step db db' \<Longrightarrow> import_evolves L db db'"
  using inv_files_step jobs_evolve_same only_files_tables(1)
  by (auto simp: import_evolves_def files_step_def)

interpretation evo: file_client "import_evolves L" for L
  by unfold_locales (fact evolves_files_step, fact import_evolves_trans)

lemmas evolves_log = evo.R_log

section \<open>Creation\<close>

lemma insert_job_Inr:
  assumes "insert_job L j db = Inr db'"
  shows "db' = db\<lparr>jobs := jobs db @ [j]\<rparr>" "import_job_checks L j" "get_job db (j_id j) = None"
    "job_by_key db (j_device_id j) (j_idempotency_key j) = None"
  using assms by (auto simp: insert_job_def split: if_splits)

lemma get_job_append:
  "get_job (db\<lparr>jobs := jobs db @ [j]\<rparr>) i
     = (case get_job db i of None \<Rightarrow> if j_id j = i then Some j else None | Some g \<Rightarrow> Some g)"
  by (auto simp: get_job_def find_append split: option.splits)

lemma insert_job_inv:
  assumes "import_inv L db" "insert_job L j db = Inr db'" "j_status j = IMPORT_UPLOADING"
  shows "import_inv L db'" "jobs_evolve L db db'" "get_job db' (j_id j) = Some j"
proof -
  note i = insert_job_Inr [OF assms(2)]
  have new: "j_id j \<notin> j_id ` set (jobs db)"
    using i(3) by (auto simp: get_job_def find_None_iff_all)
  have key: "(j_device_id j, j_idempotency_key j)
      \<notin> (\<lambda>j. (j_device_id j, j_idempotency_key j)) ` set (jobs db)"
    using i(4) by (auto simp: job_by_key_def find_None_iff_all)
  have old: "map_option j_project_id (get_job db' k) = Some p"
    if "map_option j_project_id (get_job db k) = Some p" for k p
    using that by (auto simp: i(1) get_job_append)
  have "imports_ok L db'"
    using assms(1) i(2) new key old
    by (auto simp: import_inv_def imports_ok_def list_all_iff i(1))
  moreover have "received_ok db'"
    using assms(1,3) by (auto simp: import_inv_def received_ok_def files_received_def i(1))
  ultimately show "import_inv L db'" by (simp add: import_inv_def)
  show "jobs_evolve L db db'" by (auto simp: jobs_evolve_def i(1) get_job_append)
  show "get_job db' (j_id j) = Some j" using i(3) by (simp add: i(1) get_job_append)
qed

lemma insert_attachment_Inr:
  assumes "insert_attachment a db = Inr db'"
  shows "db' = db\<lparr>attachments := attachments db @ [a]\<rparr>" "a_upload_id a = a_file_id a"
    "a_id a \<notin> a_id ` set (attachments db)"
    "(a_job_id a, a_kind a) \<notin> (\<lambda>a. (a_job_id a, a_kind a)) ` set (attachments db)"
    "a_file_id a \<notin> a_file_id ` set (attachments db)"
    "map_option j_project_id (get_job db (a_job_id a)) = Some (a_project_id a)"
    "map_option f_project_id (get_file db (a_file_id a)) = Some (a_project_id a)"
  using assms by (auto simp: insert_attachment_def list_ex_iff split: if_splits)

lemma insert_attachment_inv:
  assumes "import_inv L db" "insert_attachment a db = Inr db'"
    and "get_job db (a_job_id a) = Some j" "j_status j = IMPORT_UPLOADING"
  shows "import_inv L db'" "jobs db' = jobs db"
proof -
  note i = insert_attachment_Inr [OF assms(2)]
  have "imports_ok L db'"
    using assms(1) i(2-7) by (auto simp: import_inv_def imports_ok_def i(1))
  moreover have "received_ok db'"
    unfolding received_ok_def
  proof (intro ballI impI)
    fix g assume g: "g \<in> set (jobs db')" "j_status g = IMPORT_RECEIVED"
    have gm: "get_job db (j_id g) = Some g"
      using assms(1) g(1) get_job_member [of L db] by (simp add: import_inv_def i(1))
    with g(2) assms(3,4) have "a_job_id a \<noteq> j_id g" by auto
    moreover have "files_received db g"
      using assms(1) g by (simp add: import_inv_def received_ok_def i(1))
    ultimately show "files_received db' g" by (simp add: files_received_def i(1))
  qed
  ultimately show "import_inv L db'" by (simp add: import_inv_def)
  show "jobs db' = jobs db" by (simp add: i(1))
qed

lemma insert_attachments_inv:
  assumes "import_inv L db" "insert_attachments rows db = Inr db'"
    and "\<forall>a \<in> set rows. a_job_id a = i" "get_job db i = Some j" "j_status j = IMPORT_UPLOADING"
  shows "import_inv L db' \<and> jobs db' = jobs db \<and> attachments db' = attachments db @ rows
    \<and> files db' = files db"
  using assms
proof (induction rows arbitrary: db)
  case (Cons a rows)
  from Cons.prems(2) obtain d where d: "insert_attachment a db = Inr d" "insert_attachments rows d = Inr db'"
    by (auto split: sum.splits)
  have inv: "import_inv L d" "jobs d = jobs db"
    using insert_attachment_inv [OF Cons.prems(1) d(1)] Cons.prems(3-5) by auto
  from inv(2) Cons.prems(4) have "get_job d i = Some j" by (simp add: get_job_def)
  with Cons.IH [OF inv(1) d(2) _ _ Cons.prems(5)] Cons.prems(3) inv(2) insert_attachment_Inr(1) [OF d(1)]
  show ?case by auto
qed simp

lemma evolvesI:
  assumes "\<And>x. import_inv L db \<Longrightarrow> import_inv L db' \<and> jobs_evolve L db db'"
  shows "import_evolves L db db'"
  using assms by (simp add: import_evolves_def)

text \<open>A job that is created: the row, its attachments and its evidence.\<close>

lemma persist_created:
  assumes "insert_job L (new_job now i a m key fp) db = Inr d2"
    "insert_attachments (attachment_rows ids (new_job now i a m key fp) m uploads) d2 = Inr d3"
    "insert_audit row d3 = Inr d4"
  shows "import_evolves L db d4"
proof (rule evolvesI)
  assume inv: "import_inv L db"
  let ?j = "new_job now i a m key fp"
  have u: "j_status ?j = IMPORT_UPLOADING" by (simp add: new_job_def)
  note j = insert_job_inv [OF inv assms(1) u]
  have at: "\<forall>x \<in> set (attachment_rows ids ?j m uploads). a_job_id x = j_id ?j"
    by (auto simp: attachment_rows_def)
  note at2 = insert_attachments_inv [OF j(1) assms(2) at j(3) u]
  have "only_log d3 d4" using insert_audit_Inr [OF assms(3)] by auto
  from evolves_log [OF this, of L] at2 have "import_inv L d4" "jobs_evolve L d3 d4"
    by (auto simp: import_evolves_def)
  moreover have "jobs_evolve L d2 d3" using at2 by (intro jobs_evolve_same) simp
  ultimately show "import_inv L d4 \<and> jobs_evolve L db d4"
    using j(2) jobs_evolve_trans by blast
qed

lemma persist_evolves:
  assumes "persist_job L now i ids aid race a m key fp uploads rid db = (r, db')"
    and "\<And>d. import_evolves L d (race d)"
  shows "import_evolves L db db'"
proof (cases "job_by_key db (actor_subject a) key")
  case None
  let ?j = "new_job now i a m key fp"
  show ?thesis
  proof (cases "insert_job L ?j (race db)")
    case (Inl e)
    with assms None have "db' = race db"
      by (auto simp: persist_job_def Let_def split: if_splits option.splits)
    with assms(2) show ?thesis by simp
  next
    case (Inr d2)
    let ?rows = "attachment_rows ids ?j m uploads"
    consider "db' = race db"
      | d3 d4 where "insert_attachments ?rows d2 = Inr d3"
        "insert_audit (create_audit L aid a rid ?j ?rows) d3 = Inr d4" "db' = d4"
      using assms(1) None Inr by (auto simp: persist_job_def Let_def split: if_splits sum.splits)
    then show ?thesis
    proof cases
      case 2
      with persist_created [OF Inr 2(1,2)] assms(2) import_evolves_trans show ?thesis by blast
    qed (use assms(2) in simp)
  qed
qed (use assms in \<open>simp add: persist_job_def\<close>)

text \<open>The interleavings of a creation are sound when every interleaved transaction is.\<close>

definition draws_evolve :: "lib \<Rightarrow> create_draws \<Rightarrow> bool" where
  "draws_evolve L w \<longleftrightarrow> (\<forall>k d. import_evolves L d (dr_race w k d) \<and> import_evolves L d (dr_race2 w k d))
     \<and> (\<forall>d. import_evolves L d (dr_before_persist w d) \<and> import_evolves L d (dr_before_insert w d))"

lemma create_job_evolves:
  assumes "create_job L st now w a m key rid db = (r, db', calls)" "draws_evolve L w"
  shows "import_evolves L db db'"
proof -
  have races: "import_evolves L d (dr_race (upload_draws.truncate w) k d)"
    "import_evolves L d (dr_race2 (upload_draws.truncate w) k d)"
    "import_evolves L d (dr_before_persist w d)" "import_evolves L d (dr_before_insert w d)" for d k
    using assms(2) by (auto simp: draws_evolve_def upload_draws.truncate_def)
  show ?thesis
  proof (cases "idempotency_key_ok key \<and> can_create a (m_project_id m)")
    case False
    with assms(1) evo.refuse_R [of L _ _ _ db] show ?thesis
      by (auto simp: create_job_def record_create_denial_def split: if_splits prod.splits)
  next
    case True
    show ?thesis
    proof (cases "manifest_fingerprint L m")
      case (Inl e)
      with True assms(1) show ?thesis by (simp add: create_job_def)
    next
      case fp: (Inr fp)
      show ?thesis
      proof (cases "job_by_key db (actor_subject a) key")
        case (Some j)
        with True fp assms(1) show ?thesis by (simp add: create_job_def)
      next
        case None
        obtain q db1 c1 where q: "start_uploads L st now (upload_draws.truncate w) a m key
            (m_attachments m) db = (q, db1, c1)" by (metis prod_cases3)
        note e1 = evo.start_uploads_R [OF q races(1,2)]
        show ?thesis
        proof (cases q)
          case (Inl e)
          with True fp None q assms(1) e1 show ?thesis by (simp add: create_job_def)
        next
          case (Inr uploads)
          obtain q2 db2 where q2: "persist_job L now (dr_job_id w) (dr_attachment_id w) (dr_audit_id w)
            (dr_before_insert w) a m key fp uploads rid (dr_before_persist w db1) = (q2, db2)" by fastforce
          with True fp None q Inr assms(1) have "db' = db2" by (simp add: create_job_def)
          with e1 races(3) persist_evolves [OF q2 races(4)] import_evolves_trans show ?thesis by blast
        qed
      qed
    qed
  qed
qed

section \<open>Transitions\<close>

lemma attachments_of_set: "set (attachments_of L db i) = {a \<in> set (attachments db). a_job_id a = i}"
  by (auto simp: attachments_of_def)

definition observation :: "import_attachment \<Rightarrow> file_row \<Rightarrow> file_observation" where
  "observation a f = \<lparr>fo_kind = a_kind a, fo_state = f_state f, fo_sha256 = f_sha256 f\<rparr>"

lemma set_map_filter_iff: "y \<in> set (List.map_filter f xs) \<longleftrightarrow> (\<exists>x \<in> set xs. f x = Some y)"
  by (induction xs) (auto simp: map_filter_simps split: option.splits)

lemma observations_set:
  assumes "imports_ok M db"
  shows "set (file_observations L db i) = {observation a f | a f. a \<in> set (attachments db)
    \<and> a_job_id a = i \<and> get_file db (a_file_id a) = Some f}"
proof -
  have "f_project_id f = a_project_id a"
    if "a \<in> set (attachments db)" "get_file db (a_file_id a) = Some f" for a f
    using assms that by (auto simp: imports_ok_def list_all_iff)
  then have pick: "(case get_file db (a_file_id a) of None \<Rightarrow> None
      | Some f \<Rightarrow> if f_project_id f = a_project_id a
          then Some \<lparr>fo_kind = a_kind a, fo_state = f_state f, fo_sha256 = f_sha256 f\<rparr> else None) = Some ob
      \<longleftrightarrow> (\<exists>f. get_file db (a_file_id a) = Some f \<and> ob = observation a f)"
    if "a \<in> set (attachments db)" for a ob
    using that by (auto simp: observation_def split: option.splits)
  show ?thesis
    unfolding file_observations_def set_eq_iff set_map_filter_iff attachments_of_set mem_Collect_eq
    using pick by blast
qed

lemma attachment_has_file:
  assumes "imports_ok M db" "a \<in> set (attachments db)"
  obtains f where "get_file db (a_file_id a) = Some f"
  using assms by (auto simp: imports_ok_def list_all_iff)

text \<open>The decision, case by case.\<close>

lemma evaluate_alt:
  "evaluate_files j obs =
     (if \<exists>ob \<in> set obs. fo_state ob = FILE_INFECTED
      then \<lparr>ie_status = IMPORT_REJECTED, ie_result_code = Some ''ATTACHMENT_INFECTED''\<rparr>
      else if \<exists>ob \<in> set obs. fo_state ob = FILE_FAILED
      then \<lparr>ie_status = IMPORT_REJECTED, ie_result_code = Some ''ATTACHMENT_SCAN_FAILED''\<rparr>
      else if obs = [] \<or> (\<exists>ob \<in> set obs. fo_state ob \<noteq> FILE_CLEAN)
      then \<lparr>ie_status = IMPORT_SCANNING, ie_result_code = None\<rparr>
      else (case (j_base_sha256 j, find (\<lambda>ob. fo_kind ob = ORIGINAL) obs) of
          (Some base, Some original) \<Rightarrow>
            if fo_sha256 original \<noteq> base
            then \<lparr>ie_status = IMPORT_CONFLICT, ie_result_code = Some ''BASE_SHA256_MISMATCH''\<rparr>
            else \<lparr>ie_status = IMPORT_RECEIVED, ie_result_code = None\<rparr>
        | _ \<Rightarrow> \<lparr>ie_status = IMPORT_RECEIVED, ie_result_code = None\<rparr>))"
proof -
  have m: "s \<in> set (map fo_state obs) \<longleftrightarrow> (\<exists>ob \<in> set obs. fo_state ob = s)" for s by auto
  have c: "obs = [] \<or> set (map fo_state obs) \<noteq> {FILE_CLEAN}
      \<longleftrightarrow> obs = [] \<or> (\<exists>ob \<in> set obs. fo_state ob \<noteq> FILE_CLEAN)"
    by (cases obs) auto
  show ?thesis unfolding evaluate_files_def Let_def m c ..
qed

lemma evaluate_cases:
  obtains "\<exists>ob \<in> set obs. fo_state ob = FILE_INFECTED"
      "evaluate_files j obs = \<lparr>ie_status = IMPORT_REJECTED, ie_result_code = Some ''ATTACHMENT_INFECTED''\<rparr>"
  | "\<forall>ob \<in> set obs. fo_state ob \<noteq> FILE_INFECTED" "\<exists>ob \<in> set obs. fo_state ob = FILE_FAILED"
      "evaluate_files j obs = \<lparr>ie_status = IMPORT_REJECTED, ie_result_code = Some ''ATTACHMENT_SCAN_FAILED''\<rparr>"
  | "\<forall>ob \<in> set obs. fo_state ob \<noteq> FILE_INFECTED \<and> fo_state ob \<noteq> FILE_FAILED"
      "obs = [] \<or> (\<exists>ob \<in> set obs. fo_state ob \<noteq> FILE_CLEAN)"
      "evaluate_files j obs = \<lparr>ie_status = IMPORT_SCANNING, ie_result_code = None\<rparr>"
  | b ob where "obs \<noteq> []" "\<forall>ob \<in> set obs. fo_state ob = FILE_CLEAN" "j_base_sha256 j = Some b"
      "find (\<lambda>ob. fo_kind ob = ORIGINAL) obs = Some ob" "fo_sha256 ob \<noteq> b"
      "evaluate_files j obs = \<lparr>ie_status = IMPORT_CONFLICT, ie_result_code = Some ''BASE_SHA256_MISMATCH''\<rparr>"
  | "obs \<noteq> []" "\<forall>ob \<in> set obs. fo_state ob = FILE_CLEAN"
      "\<forall>ob. find (\<lambda>ob. fo_kind ob = ORIGINAL) obs = Some ob \<longrightarrow>
         j_base_sha256 j = None \<or> j_base_sha256 j = Some (fo_sha256 ob)"
      "evaluate_files j obs = \<lparr>ie_status = IMPORT_RECEIVED, ie_result_code = None\<rparr>"
proof (cases "(\<exists>ob \<in> set obs. fo_state ob = FILE_INFECTED) \<or> (\<exists>ob \<in> set obs. fo_state ob = FILE_FAILED)
    \<or> obs = [] \<or> (\<exists>ob \<in> set obs. fo_state ob \<noteq> FILE_CLEAN)")
  case True
  with that(1-3) show ?thesis unfolding evaluate_alt [of j obs] by (smt (verit))
next
  case clean: False
  show ?thesis
  proof (cases "\<exists>b ob. j_base_sha256 j = Some b
      \<and> find (\<lambda>ob. fo_kind ob = ORIGINAL) obs = Some ob \<and> fo_sha256 ob \<noteq> b")
    case True
    then obtain b ob where "j_base_sha256 j = Some b" "find (\<lambda>ob. fo_kind ob = ORIGINAL) obs = Some ob"
      "fo_sha256 ob \<noteq> b" by blast
    with clean show ?thesis by (intro that(4)) (simp_all add: evaluate_alt)
  next
    case False
    have o1: "\<forall>ob. find (\<lambda>ob. fo_kind ob = ORIGINAL) obs = Some ob \<longrightarrow>
        j_base_sha256 j = None \<or> j_base_sha256 j = Some (fo_sha256 ob)"
      using False by (metis not_Some_eq)
    have "evaluate_files j obs = \<lparr>ie_status = IMPORT_RECEIVED, ie_result_code = None\<rparr>"
    proof (cases "j_base_sha256 j")
      case None
      with clean show ?thesis by (simp add: evaluate_alt)
    next
      case (Some b)
      with False have "fo_sha256 ob = b" if "find (\<lambda>ob. fo_kind ob = ORIGINAL) obs = Some ob" for ob
        using that by blast
      with clean Some show ?thesis
        by (cases "find (\<lambda>ob. fo_kind ob = ORIGINAL) obs") (simp_all add: evaluate_alt)
    qed
    moreover from clean have "obs \<noteq> []" "\<forall>ob \<in> set obs. fo_state ob = FILE_CLEAN" by blast+
    ultimately show ?thesis using that(5) o1 by blast
  qed
qed

lemma evaluate_received:
  assumes "imports_ok M db" "ie_status (evaluate_files j (file_observations L db (j_id j))) = IMPORT_RECEIVED"
  shows "files_received db j"
proof -
  let ?obs = "file_observations L db (j_id j)"
  note os = observations_set [OF assms(1), of L "j_id j"]
  from assms(2) have c: "?obs \<noteq> []" "\<forall>ob \<in> set ?obs. fo_state ob = FILE_CLEAN"
    and b: "\<forall>ob. find (\<lambda>ob. fo_kind ob = ORIGINAL) ?obs = Some ob \<longrightarrow>
         j_base_sha256 j = None \<or> j_base_sha256 j = Some (fo_sha256 ob)"
    by (cases rule: evaluate_cases [of ?obs j]; simp)+
  from c(1) obtain ob where "ob \<in> set ?obs" by (cases ?obs) auto
  then have ex: "\<exists>a \<in> set (attachments db). a_job_id a = j_id j" using os by auto
  have "\<exists>f. get_file db (a_file_id a) = Some f \<and> f_state f = FILE_CLEAN
      \<and> (a_kind a = ORIGINAL \<longrightarrow> j_base_sha256 j = None \<or> j_base_sha256 j = Some (f_sha256 f))"
    if a: "a \<in> set (attachments db)" "a_job_id a = j_id j" for a
  proof -
    obtain f where f: "get_file db (a_file_id a) = Some f" using attachment_has_file [OF assms(1) a(1)] .
    have m: "observation a f \<in> set ?obs" using a f os by auto
    have "j_base_sha256 j = None \<or> j_base_sha256 j = Some (f_sha256 f)" if k: "a_kind a = ORIGINAL"
    proof -
      have "find (\<lambda>ob. fo_kind ob = ORIGINAL) ?obs \<noteq> None"
        using m k unfolding find_None_iff_all by (auto simp: observation_def intro: bexI [of _ "observation a f"])
      then obtain ob where ob: "find (\<lambda>ob. fo_kind ob = ORIGINAL) ?obs = Some ob" by auto
      from find_SomeD [OF this] os obtain a' f' where a': "ob = observation a' f'" "a_kind a' = ORIGINAL"
        "a' \<in> set (attachments db)" "a_job_id a' = j_id j" "get_file db (a_file_id a') = Some f'"
        by (auto simp: observation_def)
      have "inj_on (\<lambda>a. (a_job_id a, a_kind a)) (set (attachments db))"
        using assms(1) by (simp add: imports_ok_def distinct_map)
      from inj_onD [OF this, of a' a] a a' k have "a' = a" by auto
      with a' f ob b show ?thesis by (auto simp: observation_def)
    qed
    with f m c(2) show ?thesis by (auto simp: observation_def)
  qed
  with ex show ?thesis unfolding files_received_def by blast
qed

lemma apply_transition_Inr:
  assumes "apply_transition L now aid j ev action kind actor rid db = Inr db'"
  obtains row where "db' = (put_job (j_id j) (move_job now ev) db)\<lparr>audit_logs := audit_logs db @ [row]\<rparr>"
    "import_job_checks L (move_job now ev j)"
proof -
  let ?row = "transition_audit L aid action kind actor rid ev j"
  from assms have c: "import_job_checks L (move_job now ev j)"
    and i: "insert_audit ?row (put_job (j_id j) (move_job now ev) db) = Inr db'"
    by (simp_all add: apply_transition_def split: if_splits)
  from insert_audit_Inr [OF i] that [of ?row] c show ?thesis by (simp add: put_job_def)
qed

lemma transition_evolves:
  assumes "import_inv L db" "get_job db (j_id j) = Some j" "\<not> import_terminal (j_status j)"
    and "j_status j = IMPORT_SCANNING \<Longrightarrow> ie_status ev \<noteq> IMPORT_SCANNING"
    and "ev = evaluate_files j (file_observations L db (j_id j))"
    and "apply_transition L now aid j ev action kind actor rid db = Inr db'"
  shows "import_inv L db'" "jobs_evolve L db db'" "get_job db' (j_id j) = Some (move_job now ev j)"
proof -
  from apply_transition_Inr [OF assms(6)] obtain row where
    d: "db' = (put_job (j_id j) (move_job now ev) db)\<lparr>audit_logs := audit_logs db @ [row]\<rparr>"
    and ck: "import_job_checks L (move_job now ev j)" .
  have ok: "imports_ok L db" "received_ok db" using assms(1) by (simp_all add: import_inv_def)
  have step: "job_moves L j (move_job now ev j)"
    using evaluate_edge [of j] assms(3-5) ck by (auto intro: job_moves.intros)
  have get: "get_job db' k = map_option (\<lambda>g. if k = j_id j then move_job now ev g else g) (get_job db k)" for k
    by (simp add: d job_table.get_put)
  have same: "g = j" if "g \<in> set (jobs db)" "j_id g = j_id j" for g
    using that get_job_member [OF ok(1), of "j_id j"] assms(2) by (metis option.inject)
  have rows: "set (jobs db') = (\<lambda>g. if j_id g = j_id j then move_job now ev g else g) ` set (jobs db)"
    by (simp add: d put_job_def set_update_rows)
  have attached: "attachments db' = attachments db" "files db' = files db" by (simp_all add: d put_job_def)
  then have fr: "files_received db' g = files_received db g" for g
    by (simp add: files_received_def get_file_def)
  have fr2: "files_received db (move_job now ev g) = files_received db g" for g
    by (simp add: files_received_def)
  have ids: "map j_id (jobs db') = map j_id (jobs db)"
    "map (\<lambda>j. (j_device_id j, j_idempotency_key j)) (jobs db')
       = map (\<lambda>j. (j_device_id j, j_idempotency_key j)) (jobs db)"
    by (simp_all add: d put_job_def map_update_rows_same)
  have proj: "map_option j_project_id (get_job db' k) = map_option j_project_id (get_job db k)" for k
    by (cases "get_job db k") (auto simp: get)
  have gf: "get_file db' k = get_file db k" for k using attached by (simp add: get_file_def)
  have checks: "list_all (import_job_checks L) (jobs db')"
    using ok(1) ck same by (auto simp: list_all_iff rows imports_ok_def)
  have "imports_ok L db'"
    using ok(1) checks unfolding imports_ok_def ids proj attached(1) gf by blast
  moreover have "received_ok db'"
    unfolding received_ok_def
  proof (intro ballI impI)
    fix g assume g: "g \<in> set (jobs db')" "j_status g = IMPORT_RECEIVED"
    then consider "g \<in> set (jobs db)" | "g = move_job now ev j" using same by (auto simp: rows split: if_splits)
    then show "files_received db' g"
    proof cases
      case 1
      with ok(2) g(2) show ?thesis by (simp add: received_ok_def fr)
    next
      case 2
      with g(2) assms(5) have "ie_status (evaluate_files j (file_observations L db (j_id j))) = IMPORT_RECEIVED"
        by simp
      from evaluate_received [OF ok(1) this] 2 fr fr2 show ?thesis by blast
    qed
  qed
  ultimately show "import_inv L db'" by (simp add: import_inv_def)
  show "jobs_evolve L db db'"
    using assms(2) step by (auto simp: jobs_evolve_def get)
  show "get_job db' (j_id j) = Some (move_job now ev j)" using assms(2) by (simp add: get)
qed

section \<open>Submission, reconciliation, reads\<close>

lemma submit_denial_cases:
  assumes "(record_submit_denial L aid a i p rid e db :: 'a result \<times> db) = (r, db')"
  shows "isl r \<and> only_log db db'"
proof -
  have "isl (fst (record_submit_denial L aid a i p rid e db :: 'a result \<times> db))"
    by (auto simp: record_submit_denial_def refuse_def split: prod.splits sum.splits)
  moreover have "only_log db (snd (record_submit_denial L aid a i p rid e db :: 'a result \<times> db))"
    by (rule record_denials_log)
  ultimately show ?thesis using assms by simp
qed

lemma preflight_cases:
  assumes "preflight_submit L aid a i rid db = (r, db')"
  obtains (denied) "isl r" "only_log db db'"
  | (passed) j where "get_job db i = Some j" "j_device_id j = actor_subject a" "device_may ''imports:submit'' a (j_project_id j)"
      "r = Inr (j_project_id j)" "db' = db"
proof -
  have d: "thesis" if "record_submit_denial L aid a i p rid e db = (r, db')" for p e
    using submit_denial_cases [OF that] denied by blast
  show ?thesis
  proof (cases "actor_kind a \<noteq> ''device'' \<or> actor_role a \<noteq> None \<or> ''imports:submit'' \<notin> set (actor_scopes a)")
    case True
    with assms have "record_submit_denial L aid a i None rid import_submit_forbidden db = (r, db')"
      by (simp add: preflight_submit_def)
    then show ?thesis by (rule d)
  next
    case dev: False
    show ?thesis
    proof (cases "get_job db i")
      case None
      with dev assms have "record_submit_denial L aid a i None rid import_job_not_found db = (r, db')"
        by (simp add: preflight_submit_def)
      then show ?thesis by (rule d)
    next
      case (Some j)
      with dev assms have b: "(if j_device_id j \<noteq> actor_subject a
          then record_submit_denial L aid a i None rid import_job_not_found db
          else if j_project_id j \<notin> set (actor_projects a)
          then record_submit_denial L aid a i (Some (j_project_id j)) rid import_submit_forbidden db
          else (Inr (j_project_id j), db)) = (r, db')"
        by (simp add: preflight_submit_def)
      consider "j_device_id j \<noteq> actor_subject a" | "j_device_id j = actor_subject a" "j_project_id j \<notin> set (actor_projects a)"
        | "j_device_id j = actor_subject a" "j_project_id j \<in> set (actor_projects a)" by blast
      then show ?thesis
      proof cases
        case 1
        with b d [of None import_job_not_found] show ?thesis by simp
      next
        case 2
        with b d [of "Some (j_project_id j)" import_submit_forbidden] show ?thesis by simp
      next
        case 3
        with b have "r = Inr (j_project_id j)" "db' = db" by simp_all
        moreover from 3 dev have "device_may ''imports:submit'' a (j_project_id j)" by (simp add: device_may_def)
        ultimately show ?thesis using passed Some 3(1) by blast
      qed
    qed
  qed
qed

text \<open>The second transaction of \<open>submit\<close> on the job it locks.\<close>

lemma submit_locked_cases:
  assumes "submit_locked L now aid a rid j db = (r, db')"
  obtains (denied) "only_log db db'" "isl r"
  | (kept) "import_terminal (j_status j) \<or> j_status j = IMPORT_SCANNING
        \<and> ie_status (evaluate_files j (file_observations L db (j_id j))) = IMPORT_SCANNING"
      "db' = db" "r = Inr (job_result L db j)"
  | (moved) "\<not> import_terminal (j_status j)"
      "j_status j = IMPORT_SCANNING \<Longrightarrow>
        ie_status (evaluate_files j (file_observations L db (j_id j))) \<noteq> IMPORT_SCANNING"
      "j_status j = IMPORT_UPLOADING \<Longrightarrow>
        \<forall>ob \<in> set (file_observations L db (j_id j)). fo_state ob \<noteq> FILE_UPLOADING"
      "apply_transition L now aid j (evaluate_files j (file_observations L db (j_id j))) ''import.submit''
         ''device'' (Some (actor_subject a)) rid db = Inr db'"
      "r = Inr (job_result L db' (move_job now (evaluate_files j (file_observations L db (j_id j))) j))"
proof (cases "import_terminal (j_status j)")
  case True
  with assms have "db' = db" "r = Inr (job_result L db j)" by (auto simp: submit_locked_def)
  with True kept show ?thesis by blast
next
  case nt: False
  let ?obs = "file_observations L db (j_id j)"
  let ?ev = "evaluate_files j ?obs"
  show ?thesis
  proof (cases "j_status j = IMPORT_UPLOADING \<and> list_ex (\<lambda>ob. fo_state ob = FILE_UPLOADING) ?obs")
    case True
    with assms nt have "record_submit_denial L aid a (j_id j) (Some (j_project_id j)) rid
        import_attachments_incomplete db = (r, db')" by (simp add: submit_locked_def)
    from submit_denial_cases [OF this] denied show ?thesis by blast
  next
    case c: False
    show ?thesis
    proof (cases "j_status j = IMPORT_SCANNING \<and> ie_status ?ev = IMPORT_SCANNING")
      case True
      with assms nt c have "db' = db" "r = Inr (job_result L db j)" by (auto simp: submit_locked_def)
      with True kept show ?thesis by blast
    next
      case go: False
      let ?t = "apply_transition L now aid j ?ev ''import.submit'' ''device''
         (Some (actor_subject a)) rid db"
      have body: "submit_locked L now aid a rid j db = (case ?t of
           Inl e \<Rightarrow> (Inl e, db) | Inr db2 \<Rightarrow> (Inr (job_result L db2 (move_job now ?ev j)), db2))"
        unfolding submit_locked_def Let_def using nt c go by (simp only: if_False)
      show ?thesis
      proof (cases ?t)
        case (Inl e)
        with body assms show ?thesis by (intro denied) auto
      next
        case (Inr db2)
        with body assms have r: "r = Inr (job_result L db2 (move_job now ?ev j))" "db' = db2"
          by simp_all
        from c have "\<forall>ob \<in> set ?obs. fo_state ob \<noteq> FILE_UPLOADING" if "j_status j = IMPORT_UPLOADING"
          using that by (auto simp: list_ex_iff)
        with moved nt go Inr r show ?thesis by blast
      qed
    qed
  qed
qed

lemma submit_cases:
  assumes "submit L now aid race a i rid db = (r, db')"
  obtains (denied) d where "d = db \<or> d = race db" "only_log d db'" "isl r"
  | (locked) j where "get_job (race db) i = Some j" "j_id j = i" "j_device_id j = actor_subject a"
      "device_may ''imports:submit'' a (j_project_id j)"
      "submit_locked L now aid a rid j (race db) = (r, db')"
proof -
  obtain q d0 where p: "preflight_submit L aid a i rid db = (q, d0)" by fastforce
  then show ?thesis
  proof (cases rule: preflight_cases)
    case denied
    then obtain e where "q = Inl e" by (cases q) auto
    with assms p have "isl r" "db' = d0" by (auto simp: submit_def)
    with denied(2) that(1) show ?thesis by blast
  next
    case (passed j0)
    note 2 = passed
    have deny: "thesis" if "record_submit_denial L aid a i p rid e (race db) = (r, db')" for p e
      using submit_denial_cases [OF that] denied by blast
    show ?thesis
    proof (cases "get_job (race db) i")
      case None
      with assms p 2 deny show ?thesis by (auto simp: submit_def Let_def)
    next
      case (Some j)
      show ?thesis
      proof (cases "j_device_id j = actor_subject a \<and> j_project_id j = j_project_id j0
          \<and> j_project_id j \<in> set (actor_projects a)")
        case False
        with assms p 2 Some deny show ?thesis by (auto simp: submit_def Let_def split: if_splits)
      next
        case True
        with 2 have "device_may ''imports:submit'' a (j_project_id j)" by (simp add: device_may_def)
        moreover have "submit_locked L now aid a rid j (race db) = (r, db')"
          using assms p 2 Some True by (auto simp: submit_def Let_def)
        moreover have "j_id j = i" using Some get_rows_id(6) by blast
        ultimately show ?thesis using locked Some True by blast
      qed
    qed
  qed
qed

lemma submit_locked_evolves:
  assumes "submit_locked L now aid a rid j db = (r, db')" "get_job db (j_id j) = Some j"
  shows "import_evolves L db db'"
  using assms(1)
proof (cases rule: submit_locked_cases)
  case moved
  show ?thesis
  proof (rule evolvesI)
    assume "import_inv L db"
    from transition_evolves [OF this assms(2) moved(1,2) refl moved(4)]
    show "import_inv L db' \<and> jobs_evolve L db db'" by blast
  qed
qed (auto intro: evolves_log)

lemma submit_evolves:
  assumes "submit L now aid race a i rid db = (r, db')" "\<And>d. import_evolves L d (race d)"
  shows "import_evolves L db db'"
  using assms(1)
proof (cases rule: submit_cases)
  case (denied d)
  with assms(2) evolves_log [OF denied(2), of L] import_evolves_trans show ?thesis by blast
next
  case (locked j)
  with assms(2) submit_locked_evolves [OF locked(5)] import_evolves_trans show ?thesis by blast
qed

lemma file_observations_cong:
  assumes "files d = files db" "attachments d = attachments db"
  shows "file_observations L d i = file_observations L db i"
  using assms by (simp add: file_observations_def attachments_of_def get_file_def)

text \<open>What one reconciliation makes of a job.\<close>

definition reconciled :: "lib \<Rightarrow> time \<Rightarrow> db \<Rightarrow> import_job \<Rightarrow> import_job" where
  "reconciled L now db j = (let ev = evaluate_files j (file_observations L db (j_id j)) in
     if j_status j = IMPORT_SCANNING \<and> ie_status ev \<noteq> IMPORT_SCANNING then move_job now ev j else j)"

lemma reconciled_id [simp]: "j_id (reconciled L now db j) = j_id j"
  by (simp add: reconciled_def Let_def)

lemma transition_frame:
  assumes "apply_transition L now aid j ev action kind actor rid db = Inr db'"
  shows "files db' = files db" "attachments db' = attachments db"
    "k \<noteq> j_id j \<Longrightarrow> get_job db' k = get_job db k"
proof -
  from apply_transition_Inr [OF assms] obtain row where
    d: "db' = (put_job (j_id j) (move_job now ev) db)\<lparr>audit_logs := audit_logs db @ [row]\<rparr>" .
  show "files db' = files db" "attachments db' = attachments db" by (simp_all add: d put_job_def)
  show "get_job db' k = get_job db k" if "k \<noteq> j_id j"
    using that by (simp add: d job_table.get_put_other)
qed

lemma reconcile_jobs_Inr:
  assumes "reconcile_jobs L now aids js db = Inr db'" "import_inv L db"
    and "distinct (map j_id js)" "\<forall>j \<in> set js. get_job db (j_id j) = Some j"
  shows "import_inv L db' \<and> jobs_evolve L db db' \<and> files db' = files db \<and> attachments db' = attachments db
    \<and> (\<forall>j \<in> set js. get_job db' (j_id j) = Some (reconciled L now db j))
    \<and> (\<forall>k. k \<notin> j_id ` set js \<longrightarrow> get_job db' k = get_job db k)"
  using assms
proof (induction js arbitrary: db)
  case Nil
  then show ?case by (auto intro: jobs_evolve_same)
next
  case (Cons j js)
  let ?ev = "evaluate_files j (file_observations L db (j_id j))"
  have ids: "distinct (map j_id js)" "j_id j \<notin> j_id ` set js" using Cons.prems(3) by auto
  show ?case
  proof (cases "j_status j = IMPORT_SCANNING \<and> ie_status ?ev \<noteq> IMPORT_SCANNING")
    case False
    then have r: "reconciled L now db j = j" by (auto simp: reconciled_def Let_def)
    from False Cons.prems(1) have "reconcile_jobs L now aids js db = Inr db'"
      by (auto simp: Let_def split: if_splits)
    with Cons.IH [OF _ Cons.prems(2) ids(1)] Cons.prems(4) r ids(2) show ?thesis by auto
  next
    case True
    then have r: "reconciled L now db j = move_job now ?ev j" by (simp add: reconciled_def Let_def)
    from True Cons.prems(1) obtain d where d: "apply_transition L now (aids (j_id j)) j ?ev
        ''import.reconcile'' ''system'' None (transition_event_key L ''import.reconcile'' (j_id j) ?ev) db = Inr d"
      "reconcile_jobs L now aids js d = Inr db'"
      by (auto simp: Let_def split: sum.splits)
    have gj: "get_job db (j_id j) = Some j" using Cons.prems(4) by simp
    have nt: "\<not> import_terminal (j_status j)" using True by (simp add: import_terminal_def)
    note t = transition_evolves [OF Cons.prems(2) gj nt _ refl d(1)]
    have inv: "import_inv L d" "jobs_evolve L db d" "get_job d (j_id j) = Some (move_job now ?ev j)"
      using t True by blast+
    note fr = transition_frame [OF d(1)]
    have others: "\<forall>g \<in> set js. get_job d (j_id g) = Some g"
      using Cons.prems(4) fr(3) ids(2) by (metis imageI list.set_intros(2))
    have same: "reconciled L now d g = reconciled L now db g" for g
      using file_observations_cong [OF fr(1,2)] by (simp add: reconciled_def)
    from Cons.IH [OF d(2) inv(1) ids(1) others]
    have ih: "import_inv L db'" "jobs_evolve L d db'" "files db' = files db" "attachments db' = attachments db"
      "\<forall>g \<in> set js. get_job db' (j_id g) = Some (reconciled L now db g)"
      "\<And>k. k \<notin> j_id ` set js \<Longrightarrow> get_job db' k = get_job d k"
      using fr same by auto
    have "get_job db' (j_id j) = Some (reconciled L now db j)" using ih(6) ids(2) inv(3) r by metis
    moreover have "get_job db' k = get_job db k" if "k \<notin> j_id ` set (j # js)" for k
      using that ih(6) [of k] fr(3) [of k] by simp
    ultimately show ?thesis using ih(1-5) inv(2) jobs_evolve_trans by (metis set_ConsD)
  qed
qed

definition jobs_with_file :: "db \<Rightarrow> uuid \<Rightarrow> import_job list" where
  "jobs_with_file db i = sort_key j_id (filter (\<lambda>j. j_id j \<in> set (map a_job_id
     (filter (\<lambda>a. a_file_id a = i) (attachments db)))) (jobs db))"

lemma jobs_with_file_ok:
  assumes "import_inv L db"
  shows "distinct (map j_id (jobs_with_file db i))" "\<forall>j \<in> set (jobs_with_file db i). get_job db (j_id j) = Some j"
proof -
  have d: "distinct (map j_id (jobs db))" using assms by (simp add: import_inv_def imports_ok_def)
  then show "distinct (map j_id (jobs_with_file db i))"
    unfolding jobs_with_file_def distinct_map_sort_key by (rule distinct_map_filter)
  show "\<forall>j \<in> set (jobs_with_file db i). get_job db (j_id j) = Some j"
    using assms get_job_member [of L db] by (auto simp: jobs_with_file_def import_inv_def)
qed

lemma reconcile_file_cases:
  assumes "reconcile_file L now aids i db = (r, db')" "import_inv L db"
  obtains (failed) "isl r" "db' = db"
  | (ok) "r = Inr ()" "import_inv L db'" "jobs_evolve L db db'" "files db' = files db"
      "attachments db' = attachments db"
      "\<forall>j \<in> set (jobs_with_file db i). get_job db' (j_id j) = Some (reconciled L now db j)"
      "\<forall>k. k \<notin> j_id ` set (jobs_with_file db i) \<longrightarrow> get_job db' k = get_job db k"
proof (cases "reconcile_jobs L now aids (jobs_with_file db i) db")
  case (Inl e)
  with assms(1) have "isl r" "db' = db" by (auto simp: reconcile_file_def jobs_with_file_def)
  then show ?thesis by (rule failed)
next
  case (Inr d)
  with assms(1) have r: "r = Inr ()" "db' = d" by (auto simp: reconcile_file_def jobs_with_file_def)
  from reconcile_jobs_Inr [OF Inr assms(2) jobs_with_file_ok [OF assms(2)]] r show ?thesis
    by (intro ok) simp_all
qed

lemma reconcile_file_evolves:
  assumes "reconcile_file L now aids i db = (r, db')"
  shows "import_evolves L db db'"
proof (rule evolvesI)
  assume "import_inv L db"
  from reconcile_file_cases [OF assms this] \<open>import_inv L db\<close> jobs_evolve_same
  show "import_inv L db' \<and> jobs_evolve L db db'" by metis
qed

lemma reconcile_files_evolves:
  "reconcile_files L now aids ids db = (r, db') \<Longrightarrow> import_evolves L db db'"
proof (induction ids arbitrary: db)
  case (Cons i ids)
  obtain q d where q: "reconcile_file L now aids i db = (q, d)" by fastforce
  note e = reconcile_file_evolves [OF q]
  show ?case
  proof (cases q)
    case (Inl x)
    with Cons.prems q e show ?thesis by simp
  next
    case (Inr x)
    with Cons.prems q have "reconcile_files L now aids ids d = (r, db')" by simp
    from Cons.IH [OF this] e import_evolves_trans show ?thesis by blast
  qed
qed simp

lemma read_denial_cases:
  assumes "(record_read_denial L aid a i p rid e db :: 'a result \<times> db) = (r, db')"
  shows "isl r \<and> only_log db db'"
proof -
  have "isl (fst (record_read_denial L aid a i p rid e db :: 'a result \<times> db))"
    by (auto simp: record_read_denial_def refuse_def split: prod.splits sum.splits)
  moreover have "only_log db (snd (record_read_denial L aid a i p rid e db :: 'a result \<times> db))"
    by (rule record_denials_log)
  ultimately show ?thesis using assms by simp
qed

definition job_files :: "db \<Rightarrow> uuid \<Rightarrow> uuid list" where
  "job_files db i = sort (map a_file_id (filter (\<lambda>a. a_job_id a = i) (attachments db)))"

text \<open>A read is refused and logged, fails in reconciliation, or shows the reader's own job.\<close>

lemma read_cases:
  assumes "read_job L rd now aid aids race a i rid db = (r, db')"
  obtains (denied) "isl r" "only_log db db'"
  | (failed) q where "isl r" "reconcile_files L now aids (job_files db i) db = (q, db')"
  | (lost) d q where "isl r" "reconcile_files L now aids (job_files db i) db = (q, d)"
      "only_log (race d) db'"
  | (shown) d j where "reconcile_files L now aids (job_files db i) db = (Inr (), d)"
      "get_job (race d) i = Some j" "j_device_id j = actor_subject a"
      "device_may ''imports:read-own'' a (j_project_id j)" "db' = race d" "r = job_view L rd (race d) j"
proof (cases "actor_kind a \<noteq> ''device'' \<or> actor_role a \<noteq> None \<or> ''imports:read-own'' \<notin> set (actor_scopes a)")
  case True
  with assms have "record_read_denial L aid a i None rid import_read_forbidden db = (r, db')"
    by (simp add: read_job_def)
  from read_denial_cases [OF this] denied show ?thesis by blast
next
  case dev: False
  show ?thesis
  proof (cases "read_denial a (get_job db i)")
    case (Some ep)
    with assms dev have "record_read_denial L aid a i (snd ep) rid (fst ep) db = (r, db')"
      by (cases ep) (simp add: read_job_def)
    from read_denial_cases [OF this] denied show ?thesis by blast
  next
    case None
    obtain q d where q: "reconcile_files L now aids (job_files db i) db = (q, d)" by fastforce
    show ?thesis
    proof (cases q)
      case (Inl e)
      with assms dev None q have "isl r" "db' = d" by (auto simp: read_job_def job_files_def)
      with q failed show ?thesis by blast
    next
      case (Inr x)
      let ?p = "map_option j_project_id (get_job db i)"
      have body: "(case get_job (race d) i of
          None \<Rightarrow> record_read_denial L aid a i ?p rid import_job_not_found (race d)
        | Some j \<Rightarrow>
            if j_device_id j \<noteq> actor_subject a \<or> Some (j_project_id j) \<noteq> ?p
            then record_read_denial L aid a i ?p rid import_job_not_found (race d)
            else if j_project_id j \<notin> set (actor_projects a)
            then record_read_denial L aid a i ?p rid import_read_forbidden (race d)
            else (job_view L rd (race d) j, race d)) = (r, db')"
        using assms dev None q Inr by (simp add: read_job_def job_files_def Let_def)
      have deny: "thesis" if "record_read_denial L aid a i p rid e (race d) = (r, db')" for p e
        using read_denial_cases [OF that] lost q by blast
      show ?thesis
      proof (cases "get_job (race d) i")
        case None
        with body deny show ?thesis by simp
      next
        case (Some j)
        consider "j_device_id j \<noteq> actor_subject a \<or> Some (j_project_id j) \<noteq> ?p"
          | "\<not> (j_device_id j \<noteq> actor_subject a \<or> Some (j_project_id j) \<noteq> ?p)"
            "j_project_id j \<notin> set (actor_projects a)"
          | "\<not> (j_device_id j \<noteq> actor_subject a \<or> Some (j_project_id j) \<noteq> ?p)"
            "j_project_id j \<in> set (actor_projects a)" by blast
        then show ?thesis
        proof cases
          case 1
          with body Some have "record_read_denial L aid a i ?p rid import_job_not_found (race d) = (r, db')"
            by auto
          then show ?thesis by (rule deny)
        next
          case 2
          with body Some have "record_read_denial L aid a i ?p rid import_read_forbidden (race d) = (r, db')"
            by auto
          then show ?thesis by (rule deny)
        next
          case 3
          with body Some have "r = job_view L rd (race d) j" "db' = race d" by auto
          moreover have "device_may ''imports:read-own'' a (j_project_id j)"
            using dev 3(2) by (simp add: device_may_def)
          moreover have "j_device_id j = actor_subject a" using 3(1) by blast
          moreover have "reconcile_files L now aids (job_files db i) db = (Inr (), d)" using q Inr by simp
          ultimately show ?thesis using shown Some by blast
        qed
      qed
    qed
  qed
qed

lemma read_evolves:
  assumes "read_job L rd now aid aids race a i rid db = (r, db')" "\<And>d. import_evolves L d (race d)"
  shows "import_evolves L db db'"
  using assms(1)
proof (cases rule: read_cases)
  case denied
  then show ?thesis by (intro evolves_log)
next
  case (failed q)
  from reconcile_files_evolves [OF failed(2)] show ?thesis .
next
  case (lost d q)
  from reconcile_files_evolves [OF lost(2)] assms(2) evolves_log [OF lost(3), of L] import_evolves_trans
  show ?thesis by blast
next
  case (shown d j)
  from reconcile_files_evolves [OF shown(1)] assms(2) shown(5) import_evolves_trans show ?thesis by blast
qed

section \<open>Runs\<close>

text \<open>Every operation on jobs and files.  Interleavings inside an operation are the \<open>race\<close>
  arguments of the lemmas above; here each operation runs alone.\<close>

datatype import_op =
    OnFiles file_op
  | CreateJob storage time create_draws actor manifest ustr uuid
  | CompleteAttachment storage time uuid actor uuid uuid "completed_part list" uuid
  | Submit time uuid actor uuid uuid
  | Read "json \<Rightarrow> manifest option" time uuid "uuid \<Rightarrow> uuid" actor uuid uuid
  | Reconcile time "uuid \<Rightarrow> uuid" uuid
  | ListOwner "json \<Rightarrow> manifest option" uuid actor int uuid

definition alone :: "create_draws \<Rightarrow> create_draws" where
  "alone w = w\<lparr>dr_race := \<lambda>k. id, dr_race2 := \<lambda>k. id, dr_before_persist := id, dr_before_insert := id\<rparr>"

fun import_step :: "lib \<Rightarrow> import_op \<Rightarrow> db \<Rightarrow> db" where
  "import_step L (OnFiles op) db = file_step L op db"
| "import_step L (CreateJob st now w a m key rid) db =
     fst (snd (create_job L st now (alone w) a m key rid db))"
| "import_step L (CompleteAttachment st now aid a i k parts rid) db =
     fst (snd (complete_import_attachment_route L st now aid a i k parts rid db))"
| "import_step L (Submit now aid a i rid) db = snd (submit L now aid id a i rid db)"
| "import_step L (Read rd now aid aids a i rid) db = snd (read_job L rd now aid aids id a i rid db)"
| "import_step L (Reconcile now aids i) db = snd (reconcile_file L now aids i db)"
| "import_step L (ListOwner rd aid a limit rid) db =
     snd (list_owner_imports_route L rd aid a limit rid db)"

lemma alone_evolves: "draws_evolve L (alone w)"
  by (simp add: draws_evolve_def alone_def)

lemma import_step_evolves: "import_evolves L db (import_step L op db)"
proof (cases op)
  case (OnFiles fop)
  then show ?thesis by (simp add: evo.file_step_R)
next
  case (CreateJob st now w a m key rid)
  obtain r d cs where q: "create_job L st now (alone w) a m key rid db = (r, d, cs)" by (metis prod_cases3)
  with CreateJob create_job_evolves [OF q alone_evolves] show ?thesis by simp
next
  case (CompleteAttachment st now aid a i k parts rid)
  show ?thesis
  proof (cases "upload_complete_schema L parts")
    case (Inl e)
    with CompleteAttachment show ?thesis by (simp add: complete_import_attachment_route_def)
  next
    case (Inr ps)
    obtain r d cs where q: "complete_attachment L st now aid a i k ps rid db = (r, d, cs)" by (metis prod_cases3)
    have "import_step L op db = d"
      using CompleteAttachment Inr q by (cases r) (simp_all add: complete_import_attachment_route_def)
    with evolves_files_step [OF complete_attachment_step [OF q]] show ?thesis by simp
  qed
next
  case (Submit now aid a i rid)
  obtain r d where q: "submit L now aid id a i rid db = (r, d)" by fastforce
  with Submit submit_evolves [OF q] show ?thesis by simp
next
  case (Read rd now aid aids a i rid)
  obtain r d where q: "read_job L rd now aid aids id a i rid db = (r, d)" by fastforce
  with Read read_evolves [OF q] show ?thesis by simp
next
  case (Reconcile now aids i)
  obtain r d where q: "reconcile_file L now aids i db = (r, d)" by fastforce
  with Reconcile reconcile_file_evolves [OF q] show ?thesis by simp
next
  case (ListOwner rd aid a limit rid)
  have "only_log db (snd (list_owner L rd aid a limit rid db))"
    by (simp add: list_owner_def refuse_log)
  with ListOwner evolves_log show ?thesis by (simp add: list_owner_imports_route_def)
qed

lemma import_run_evolves: "import_evolves L db (fold (import_step L) ops db)"
proof (induction ops arbitrary: db)
  case (Cons op ops)
  from import_step_evolves Cons.IH [of "import_step L op db"] import_evolves_trans show ?case by fastforce
qed simp

section \<open>The ledger of creations\<close>

lemma job_by_key_member:
  assumes "imports_ok L db"
  shows "job_by_key db d k = Some j \<longleftrightarrow> j \<in> set (jobs db) \<and> j_device_id j = d \<and> j_idempotency_key j = k"
proof
  assume r: "j \<in> set (jobs db) \<and> j_device_id j = d \<and> j_idempotency_key j = k"
  have "distinct (map (\<lambda>j. (j_device_id j, j_idempotency_key j)) (jobs db))"
    using assms by (simp add: imports_ok_def)
  from find_key_unique [OF this, of j] r show "job_by_key db d k = Some j" by (auto simp: job_by_key_def)
qed (auto simp: job_by_key_def dest: find_SomeD)

lemma job_by_key_evolves:
  assumes "import_inv L db" "import_evolves L db db'" "job_by_key db d k = Some j"
  obtains g where "job_by_key db' d k = Some g" "job_evolves L j g"
proof -
  have ok: "imports_ok L db" "imports_ok L db'" "jobs_evolve L db db'"
    using assms(1,2) by (simp_all add: import_evolves_def import_inv_def)
  from assms(3) have j: "j \<in> set (jobs db)" "j_device_id j = d" "j_idempotency_key j = k"
    using job_by_key_member [OF ok(1)] by auto
  then have "get_job db (j_id j) = Some j" using get_job_member [OF ok(1)] by simp
  with ok(3) obtain g where g: "get_job db' (j_id j) = Some g" "job_evolves L j g"
    unfolding jobs_evolve_def by blast
  then have "g \<in> set (jobs db')" using get_job_member [OF ok(2)] by auto
  with g(2) j job_evolves_identity [OF g(2)] have "job_by_key db' d k = Some g"
    using job_by_key_member [OF ok(2)] by simp
  with g(2) that show ?thesis by blast
qed

lemma matching_Inr:
  "matching_result L fp j db = Inr r \<longleftrightarrow> j_manifest_fingerprint j = fp \<and> r = job_result L db j"
  by (auto simp: matching_result_def)

text \<open>A creation that succeeds leaves its key bound to the job it returns.\<close>

lemma persist_Inr:
  assumes "persist_job L now i ids aid race a m key fp uploads rid db = (Inr r, db')"
  obtains j where "job_by_key db' (actor_subject a) key = Some j" "j_id j = r_id r"
    "j_manifest_fingerprint j = fp"
proof (cases "job_by_key db (actor_subject a) key")
  case (Some j)
  with assms have "matching_result L fp j db = Inr r" "db' = db" by (auto simp: persist_job_def)
  with Some that show ?thesis by (auto simp: matching_Inr job_result_def)
next
  case None
  let ?j = "new_job now i a m key fp"
  let ?rows = "attachment_rows ids ?j m uploads"
  show ?thesis
  proof (cases "insert_job L ?j (race db)")
    case (Inl e)
    with assms None have b: "(if e \<noteq> Integrity ''uq_import_jobs_device_idempotency'' then (Inl e, race db)
        else (case job_by_key (race db) (actor_subject a) key of
            None \<Rightarrow> (Inl e, race db)
          | Some w \<Rightarrow> (matching_result L fp w (race db), race db))) = (Inr r, db')"
      by (simp add: persist_job_def Let_def)
    then have e: "e = Integrity ''uq_import_jobs_device_idempotency''" by (cases "e = Integrity ''uq_import_jobs_device_idempotency''") auto
    show ?thesis
    proof (cases "job_by_key (race db) (actor_subject a) key")
      case (Some w)
      with b e have "matching_result L fp w (race db) = Inr r" "db' = race db" by auto
      with Some that show ?thesis by (auto simp: matching_Inr job_result_def)
    qed (use b e in simp)
  next
    case (Inr d2)
    with assms None obtain d3 where d3: "insert_attachments ?rows d2 = Inr d3"
      "insert_audit (create_audit L aid a rid ?j ?rows) d3 = Inr db'" "r_id r = i"
      by (auto simp: persist_job_def Let_def new_job_def split: if_splits sum.splits)
    note j = insert_job_Inr [OF Inr]
    have "jobs d3 = jobs d2 \<and> files d3 = files d2" if "insert_attachments rows d2 = Inr d3" for rows d2 d3
      using that by (induction rows arbitrary: d2)
        (auto dest: insert_attachment_Inr(1) split: sum.splits)
    with d3 insert_audit_Inr [OF d3(2)] have "jobs db' = jobs d2" by simp
    with j(1) have "jobs db' = jobs (race db) @ [?j]" by simp
    moreover from j(4) have "job_by_key (race db) (actor_subject a) key = None" by (simp add: new_job_def)
    ultimately have "job_by_key db' (actor_subject a) key = Some ?j"
      by (simp add: job_by_key_def find_append new_job_def)
    with that d3(3) show ?thesis by (simp add: new_job_def)
  qed
qed

lemma create_Inr:
  assumes "create_job L st now w a m key rid db = (Inr r, db', calls)"
  obtains fp j where "idempotency_key_ok key" "can_create a (m_project_id m)"
    "manifest_fingerprint L m = Inr fp" "job_by_key db' (actor_subject a) key = Some j"
    "j_id j = r_id r" "j_manifest_fingerprint j = fp"
proof -
  have no: "fst (record_create_denial L aid a p rid d) \<noteq> Inr (x :: import_job_result)" for aid p d x
    by (auto simp: record_create_denial_def refuse_def split: prod.splits sum.splits)
  have k: "idempotency_key_ok key" "can_create a (m_project_id m)"
    using assms no by (auto simp: create_job_def split: if_splits prod.splits) (metis fst_conv)
  from k assms obtain fp where fp: "manifest_fingerprint L m = Inr fp"
    by (auto simp: create_job_def split: sum.splits)
  show ?thesis
  proof (cases "job_by_key db (actor_subject a) key")
    case (Some j)
    with assms k fp have "matching_result L fp j db = Inr r" "db' = db" by (auto simp: create_job_def)
    with that k fp Some show ?thesis by (auto simp: matching_Inr job_result_def)
  next
    case None
    with assms k fp obtain d1 uploads where "persist_job L now (dr_job_id w) (dr_attachment_id w)
        (dr_audit_id w) (dr_before_insert w) a m key fp uploads rid (dr_before_persist w d1) = (Inr r, db')"
      by (auto simp: create_job_def split: prod.splits sum.splits)
    from persist_Inr [OF this] that k fp show ?thesis by blast
  qed
qed

lemma create_bound:
  assumes "idempotency_key_ok key" "can_create a (m_project_id m)" "manifest_fingerprint L m = Inr fp"
    and "job_by_key db (actor_subject a) key = Some j"
  shows "create_job L st now w a m key rid db = (matching_result L fp j db, db, [])"
  using assms by (simp add: create_job_def)

text \<open>The abstract specification of the creations: a write-once ledger from device and
  idempotency key to the manifest's fingerprint and the status of the job.\<close>

type_synonym ledger = "uuid \<times> ustr \<Rightarrow> (ustr \<times> import_status) option"

definition ledger_of :: "db \<Rightarrow> ledger" where
  "ledger_of db = (\<lambda>(d, k). map_option (\<lambda>j. (j_manifest_fingerprint j, j_status j)) (job_by_key db d k))"

definition ledger_step :: "ledger \<Rightarrow> ledger \<Rightarrow> bool" where
  "ledger_step l l' \<longleftrightarrow> (\<forall>k fp s. l k = Some (fp, s) \<longrightarrow> (\<exists>t. l' k = Some (fp, t) \<and> import_edge\<^sup>*\<^sup>* s t))"

lemma job_evolves_status: "job_evolves L j g \<Longrightarrow> import_edge\<^sup>*\<^sup>* (j_status j) (j_status g)"
  by (induction rule: rtranclp_induct) (auto elim!: job_movesE intro: rtranclp.rtrancl_into_rtrancl)

lemma ledger_evolves:
  assumes "import_inv L db" "import_evolves L db db'"
  shows "ledger_step (ledger_of db) (ledger_of db')"
  unfolding ledger_step_def
proof (intro allI impI)
  fix k fp s
  assume "ledger_of db k = Some (fp, s)"
  then obtain j where j: "job_by_key db (fst k) (snd k) = Some j" "fp = j_manifest_fingerprint j" "s = j_status j"
    by (auto simp: ledger_of_def split: prod.splits)
  from job_by_key_evolves [OF assms j(1)] obtain g where
    g: "job_by_key db' (fst k) (snd k) = Some g" "job_evolves L j g" .
  then have "ledger_of db' k = Some (fp, j_status g)"
    using job_evolves_identity [OF g(2)] j by (cases k) (simp add: ledger_of_def)
  with job_evolves_status [OF g(2)] j(3) show "\<exists>t. ledger_of db' k = Some (fp, t) \<and> import_edge\<^sup>*\<^sup>* s t"
    by blast
qed

section \<open>The verdict, without order or iteration\<close>

text \<open>The files attached to a job, and what they say about it: the specification that
  \<open>_file_observations\<close> and \<open>_evaluate_files\<close> compute together.\<close>

definition attached :: "db \<Rightarrow> uuid \<Rightarrow> (attachment_kind \<times> file_row) set" where
  "attached db i = {(a_kind a, f) | a f. a \<in> set (attachments db) \<and> a_job_id a = i
     \<and> get_file db (a_file_id a) = Some f}"

definition verdict :: "ustr option \<Rightarrow> (attachment_kind \<times> file_row) set \<Rightarrow> import_evaluation" where
  "verdict base S =
     (if \<exists>(k, f) \<in> S. f_state f = FILE_INFECTED
      then \<lparr>ie_status = IMPORT_REJECTED, ie_result_code = Some ''ATTACHMENT_INFECTED''\<rparr>
      else if \<exists>(k, f) \<in> S. f_state f = FILE_FAILED
      then \<lparr>ie_status = IMPORT_REJECTED, ie_result_code = Some ''ATTACHMENT_SCAN_FAILED''\<rparr>
      else if S = {} \<or> (\<exists>(k, f) \<in> S. f_state f \<noteq> FILE_CLEAN)
      then \<lparr>ie_status = IMPORT_SCANNING, ie_result_code = None\<rparr>
      else if base \<noteq> None \<and> (\<exists>(k, f) \<in> S. k = ORIGINAL \<and> base \<noteq> Some (f_sha256 f))
      then \<lparr>ie_status = IMPORT_CONFLICT, ie_result_code = Some ''BASE_SHA256_MISMATCH''\<rparr>
      else \<lparr>ie_status = IMPORT_RECEIVED, ie_result_code = None\<rparr>)"

lemma observations_attached:
  assumes "imports_ok M db"
  shows "set (file_observations L db i)
    = (\<lambda>(k, f). \<lparr>fo_kind = k, fo_state = f_state f, fo_sha256 = f_sha256 f\<rparr>) ` attached db i"
  using observations_set [OF assms, of L i]
  by (auto simp: attached_def observation_def image_iff) blast+

lemma attached_original_unique:
  assumes "imports_ok M db" "(ORIGINAL, f) \<in> attached db i" "(ORIGINAL, g) \<in> attached db i"
  shows "f = g"
proof -
  from assms(2,3) obtain a b where ab: "a \<in> set (attachments db)" "a_job_id a = i" "a_kind a = ORIGINAL"
    "get_file db (a_file_id a) = Some f" "b \<in> set (attachments db)" "a_job_id b = i" "a_kind b = ORIGINAL"
    "get_file db (a_file_id b) = Some g" by (auto simp: attached_def)
  have "inj_on (\<lambda>a. (a_job_id a, a_kind a)) (set (attachments db))"
    using assms(1) by (simp add: imports_ok_def distinct_map)
  from inj_onD [OF this, of a b] ab have "a = b" by auto
  with ab show ?thesis by simp
qed

lemma evaluate_verdict:
  assumes "imports_ok M db"
  shows "evaluate_files j (file_observations L db (j_id j)) = verdict (j_base_sha256 j) (attached db (j_id j))"
proof -
  let ?S = "attached db (j_id j)" and ?obs = "file_observations L db (j_id j)"
  note os = observations_attached [OF assms, of L "j_id j"]
  have ex: "(\<exists>ob \<in> set ?obs. fo_state ob = s) \<longleftrightarrow> (\<exists>(k, f) \<in> ?S. f_state f = s)"
    "(\<exists>ob \<in> set ?obs. fo_state ob \<noteq> s) \<longleftrightarrow> (\<exists>(k, f) \<in> ?S. f_state f \<noteq> s)" for s
    by (simp_all add: os split_def)
  have nil: "?obs = [] \<longleftrightarrow> ?S = {}"
  proof -
    have "set ?obs = {} \<longleftrightarrow> ?S = {}" unfolding os by (rule image_is_empty)
    then show ?thesis unfolding set_empty .
  qed
  have orig: "(\<exists>ob. find (\<lambda>ob. fo_kind ob = ORIGINAL) ?obs = Some ob \<and> b \<noteq> fo_sha256 ob)
      \<longleftrightarrow> (\<exists>(k, f) \<in> ?S. k = ORIGINAL \<and> b \<noteq> f_sha256 f)" for b
  proof
    assume "\<exists>ob. find (\<lambda>ob. fo_kind ob = ORIGINAL) ?obs = Some ob \<and> b \<noteq> fo_sha256 ob"
    then obtain ob where ob: "find (\<lambda>ob. fo_kind ob = ORIGINAL) ?obs = Some ob" "b \<noteq> fo_sha256 ob" by blast
    from find_SomeD [OF ob(1)] ob(2) show "\<exists>(k, f) \<in> ?S. k = ORIGINAL \<and> b \<noteq> f_sha256 f" unfolding os by force
  next
    assume "\<exists>(k, f) \<in> ?S. k = ORIGINAL \<and> b \<noteq> f_sha256 f"
    then obtain f where f: "(ORIGINAL, f) \<in> ?S" "b \<noteq> f_sha256 f" by auto
    then have "\<exists>ob \<in> set ?obs. fo_kind ob = ORIGINAL" unfolding os by force
    then have "find (\<lambda>ob. fo_kind ob = ORIGINAL) ?obs \<noteq> None" unfolding find_None_iff_all by blast
    then obtain ob where ob: "find (\<lambda>ob. fo_kind ob = ORIGINAL) ?obs = Some ob" by blast
    from find_SomeD [OF this] obtain g where g: "(ORIGINAL, g) \<in> ?S" "fo_sha256 ob = f_sha256 g"
      by (auto simp: os)
    with attached_original_unique [OF assms f(1) g(1)] f(2) ob
    show "\<exists>ob. find (\<lambda>ob. fo_kind ob = ORIGINAL) ?obs = Some ob \<and> b \<noteq> fo_sha256 ob" by auto
  qed
  show ?thesis
  proof (cases "j_base_sha256 j")
    case None
    then show ?thesis by (simp add: evaluate_alt verdict_def ex nil)
  next
    case (Some b)
    from orig [of b] Some show ?thesis
      by (cases "find (\<lambda>ob. fo_kind ob = ORIGINAL) ?obs") (auto simp: evaluate_alt verdict_def ex nil)
  qed
qed

text \<open>The constraints of the new row hold once the clock is not behind the row.\<close>

lemma verdict_shape:
  "ie_status (verdict b S) \<noteq> IMPORT_UPLOADING \<and>
   ((ie_status (verdict b S) \<in> {IMPORT_REJECTED, IMPORT_CONFLICT}) = (ie_result_code (verdict b S) \<noteq> None)) \<and>
   (case ie_result_code (verdict b S) of None \<Rightarrow> True | Some c \<Rightarrow> result_code_text (u c))"
  by (auto simp: verdict_def result_code_text_def result_code_char_def u_def)

lemma move_job_checks:
  assumes "import_job_checks L j" "j_updated_at j \<le> now" "ev = verdict b S"
  shows "import_job_checks L (move_job now ev j)"
proof -
  from assms(1) have t: "job_time_order j" by (simp add: import_job_checks_def)
  have "job_time_order (move_job now ev j)"
    using t assms(2) by (auto simp: job_time_order_def move_job_def split: option.splits)
  moreover have "submission_state (move_job now ev j)" "result_state (move_job now ev j)"
    using verdict_shape [of b S] assms(3) by (auto simp: submission_state_def result_state_def move_job_def)
  moreover have "case j_result_code (move_job now ev j) of None \<Rightarrow> True | Some c \<Rightarrow> result_code_text (u c)"
    using verdict_shape [of b S] assms(3) by (auto split: option.splits)
  ultimately show ?thesis
    using assms(1) by (simp add: import_job_checks_def move_job_def)
qed

lemma apply_transition_succeeds:
  assumes "import_job_checks L (move_job now ev j)"
    and "event_by_key db (transition_event_key L action (j_id j) ev) = None"
  shows "\<exists>db'. apply_transition L now aid j ev action kind actor rid db = Inr db'"
  using assms
  by (simp add: apply_transition_def insert_audit_def transition_audit_def event_by_key_def put_job_def)

section \<open>Only creations add jobs\<close>

definition job_keys :: "db \<Rightarrow> (uuid \<times> uuid \<times> ustr \<times> ustr) list" where
  "job_keys db = map (\<lambda>j. (j_id j, j_device_id j, j_idempotency_key j, j_manifest_fingerprint j)) (jobs db)"

definition keeps_keys :: "db \<Rightarrow> db \<Rightarrow> bool" where
  "keeps_keys db db' \<longleftrightarrow> job_keys db' = job_keys db"

interpretation keys: file_client keeps_keys
  by unfold_locales (auto simp: keeps_keys_def job_keys_def files_step_def dest: only_files_tables(1))

lemma transition_keys:
  assumes "apply_transition L now aid j ev action kind actor rid db = Inr db'"
  shows "keeps_keys db db'"
proof -
  from apply_transition_Inr [OF assms] obtain row where
    "db' = (put_job (j_id j) (move_job now ev) db)\<lparr>audit_logs := audit_logs db @ [row]\<rparr>" .
  then show ?thesis by (simp add: keeps_keys_def job_keys_def put_job_def map_update_rows_same)
qed

lemma reconcile_jobs_keys: "reconcile_jobs L now aids js db = Inr db' \<Longrightarrow> keeps_keys db db'"
proof (induction js arbitrary: db)
  case (Cons j js)
  let ?ev = "evaluate_files j (file_observations L db (j_id j))"
  show ?case
  proof (cases "j_status j = IMPORT_SCANNING \<and> ie_status ?ev \<noteq> IMPORT_SCANNING")
    case False
    with Cons show ?thesis by (auto simp: Let_def split: if_splits)
  next
    case True
    with Cons.prems obtain d where "apply_transition L now (aids (j_id j)) j ?ev
        ''import.reconcile'' ''system'' None (transition_event_key L ''import.reconcile'' (j_id j) ?ev) db = Inr d"
      "reconcile_jobs L now aids js d = Inr db'"
      by (auto simp: Let_def split: sum.splits)
    with Cons.IH transition_keys keys.R_trans show ?thesis by blast
  qed
qed simp

lemma reconcile_file_keys: "reconcile_file L now aids i db = (r, db') \<Longrightarrow> keeps_keys db db'"
  using reconcile_jobs_keys by (auto simp: reconcile_file_def Let_def split: sum.splits)

lemma reconcile_files_keys: "reconcile_files L now aids ids db = (r, db') \<Longrightarrow> keeps_keys db db'"
proof (induction ids arbitrary: db)
  case (Cons i ids)
  obtain q d where q: "reconcile_file L now aids i db = (q, d)" by fastforce
  note k = reconcile_file_keys [OF q]
  show ?case
  proof (cases q)
    case (Inl x)
    with Cons.prems q k show ?thesis by simp
  next
    case (Inr x)
    with Cons.prems q have "reconcile_files L now aids ids d = (r, db')" by simp
    from Cons.IH [OF this] k keys.R_trans show ?thesis by blast
  qed
qed simp

lemma submit_keys:
  assumes "submit L now aid id a i rid db = (r, db')"
  shows "keeps_keys db db'"
  using assms
proof (cases rule: submit_cases)
  case (denied d)
  then show ?thesis by (auto intro: keys.R_log)
next
  case (locked j)
  from locked(5) show ?thesis
  proof (cases rule: submit_locked_cases)
    case moved
    from transition_keys [OF moved(4)] show ?thesis by simp
  qed (auto intro: keys.R_log)
qed

lemma read_keys:
  assumes "read_job L rd now aid aids id a i rid db = (r, db')"
  shows "keeps_keys db db'"
  using assms
proof (cases rule: read_cases)
  case (lost d q)
  from reconcile_files_keys [OF lost(2)] keys.R_log [OF lost(3)] keys.R_trans show ?thesis unfolding id_apply by blast
next
  case (shown d j)
  from reconcile_files_keys [OF shown(1)] shown(5) show ?thesis by simp
qed (auto intro: keys.R_log reconcile_files_keys)

lemma insert_attachments_jobs: "insert_attachments rows d = Inr d' \<Longrightarrow> jobs d' = jobs d"
  by (induction rows arbitrary: d) (auto dest: insert_attachment_Inr(1) split: sum.splits)

lemma persist_keys:
  assumes "persist_job L now i ids aid id a m key fp uploads rid db = (r, db')"
  shows "keeps_keys db db' \<or> job_by_key db (actor_subject a) key = None
    \<and> jobs db' = jobs db @ [new_job now i a m key fp]"
proof (cases "job_by_key db (actor_subject a) key")
  case None
  let ?j = "new_job now i a m key fp"
  let ?rows = "attachment_rows ids ?j m uploads"
  show ?thesis
  proof (cases "insert_job L ?j db")
    case (Inl e)
    with assms None have "db' = db" by (auto simp: persist_job_def Let_def split: if_splits)
    then show ?thesis by simp
  next
    case (Inr d2)
    consider "db' = db" | d3 where "insert_attachments ?rows d2 = Inr d3"
        "insert_audit (create_audit L aid a rid ?j ?rows) d3 = Inr db'"
      using assms None Inr by (auto simp: persist_job_def Let_def split: if_splits sum.splits)
    then show ?thesis
    proof cases
      case 2
      from insert_audit_Inr [OF 2(2)] insert_attachments_jobs [OF 2(1)] insert_job_Inr(1) [OF Inr] None
      show ?thesis by simp
    qed simp
  qed
qed (use assms in \<open>simp add: persist_job_def\<close>)

lemma create_keys:
  assumes "create_job L st now (alone w) a m key rid db = (r, db', calls)"
  shows "keeps_keys db db' \<or> job_by_key db (actor_subject a) key = None
    \<and> (\<exists>fp j. manifest_fingerprint L m = Inr fp \<and> j = new_job now (dr_job_id w) a m key fp
        \<and> can_create a (m_project_id m) \<and> (\<exists>d. keeps_keys db d \<and> jobs db' = jobs d @ [j]))"
proof (cases "idempotency_key_ok key \<and> can_create a (m_project_id m)")
  case False
  with assms keys.refuse_R [of L _ _ _ db] show ?thesis
    by (auto simp: create_job_def record_create_denial_def split: if_splits prod.splits)
next
  case True
  show ?thesis
  proof (cases "\<exists>fp. manifest_fingerprint L m = Inr fp \<and> job_by_key db (actor_subject a) key = None")
    case False
    with True assms have "db' = db" by (auto simp: create_job_def split: sum.splits option.splits)
    then show ?thesis by simp
  next
    case free: True
    then obtain fp where fp: "manifest_fingerprint L m = Inr fp" "job_by_key db (actor_subject a) key = None"
      by blast
    let ?w = "upload_draws.truncate (alone w)"
    have al: "dr_race ?w k = id" "dr_race2 ?w k = id" "dr_job_id (alone w) = dr_job_id w"
      "dr_before_persist (alone w) = id" "dr_before_insert (alone w) = id" for k
      by (simp_all add: alone_def upload_draws.truncate_def)
    obtain q d1 c1 where q: "start_uploads L st now ?w a m key (m_attachments m) db = (q, d1, c1)"
      by (metis prod_cases3)
    have k1: "keeps_keys db d1" using keys.start_uploads_R [OF q] al by simp
    show ?thesis
    proof (cases q)
      case (Inl e)
      with True fp q assms k1 show ?thesis by (simp add: create_job_def)
    next
      case (Inr uploads)
      obtain q2 d2 where q2: "persist_job L now (dr_job_id w) (dr_attachment_id (alone w)) (dr_audit_id (alone w))
        id a m key fp uploads rid d1 = (q2, d2)" by fastforce
      with True fp q Inr assms al have "db' = d2" by (simp add: create_job_def)
      with persist_keys [OF q2] k1 True fp keys.R_trans show ?thesis by blast
    qed
  qed
qed

lemma job_by_key_keys:
  assumes "keeps_keys db db'"
  shows "job_by_key db' d k = None \<longleftrightarrow> job_by_key db d k = None"
proof -
  have "(d, k) \<in> (\<lambda>j. (j_device_id j, j_idempotency_key j)) ` set (jobs x)
      \<longleftrightarrow> (d, k) \<in> (\<lambda>(i, e, k, fp). (e, k)) ` set (job_keys x)" for x
    by (auto simp: job_keys_def image_iff)
  moreover have "job_by_key x d k = None \<longleftrightarrow> (d, k) \<notin> (\<lambda>j. (j_device_id j, j_idempotency_key j)) ` set (jobs x)" for x
    by (auto simp: job_by_key_def find_None_iff_all image_iff)
  ultimately show ?thesis using assms by (simp add: keeps_keys_def)
qed

text \<open>The abstract operations: a creation may bind its own free key, every other operation
  binds nothing.\<close>

definition creates :: "lib \<Rightarrow> import_op \<Rightarrow> uuid \<times> ustr \<Rightarrow> ustr \<Rightarrow> bool" where
  "creates L op k fp \<longleftrightarrow> (\<exists>st now w a m key rid. op = CreateJob st now w a m key rid
     \<and> k = (actor_subject a, key) \<and> can_create a (m_project_id m) \<and> manifest_fingerprint L m = Inr fp)"

lemma step_binds:
  assumes "ledger_of db k = None" "ledger_of (import_step L op db) k = Some (fp, s)"
  shows "creates L op k fp \<and> s = IMPORT_UPLOADING"
proof -
  obtain d key where k: "k = (d, key)" by (cases k)
  from assms k have n: "job_by_key db d key = None" "job_by_key (import_step L op db) d key \<noteq> None"
    by (auto simp: ledger_of_def)
  have no: "\<not> keeps_keys db (import_step L op db)" using n job_by_key_keys [of db "import_step L op db" d key] by auto
  show ?thesis
  proof (cases op)
    case (CreateJob st now w a m key' rid)
    obtain r db' calls where q: "create_job L st now (alone w) a m key' rid db = (r, db', calls)"
      by (metis prod_cases3)
    with CreateJob have s: "import_step L op db = db'" by simp
    from create_keys [OF q] no s obtain g x where g: "manifest_fingerprint L m = Inr g"
      "can_create a (m_project_id m)" "keeps_keys db x"
      "jobs db' = jobs x @ [new_job now (dr_job_id w) a m key' g]" by auto
    have "job_by_key x d key = None" using n(1) job_by_key_keys [OF g(3)] by simp
    then have "job_by_key db' d key = (if actor_subject a = d \<and> key' = key
        then Some (new_job now (dr_job_id w) a m key' g) else None)"
      using g(4) by (simp add: job_by_key_def find_append new_job_def)
    with assms(2) k s have "d = actor_subject a" "key = key'" "fp = g" "s = IMPORT_UPLOADING"
      by (auto simp: ledger_of_def new_job_def split: if_splits)
    with k CreateJob g show ?thesis by (auto simp: creates_def)
  next
    case (OnFiles fop)
    with no keys.file_step_R show ?thesis by simp
  next
    case (CompleteAttachment st now aid a i k' parts rid)
    have "keeps_keys db (import_step L op db)"
    proof (cases "upload_complete_schema L parts")
      case (Inl e)
      with CompleteAttachment show ?thesis by (simp add: complete_import_attachment_route_def)
    next
      case (Inr ps)
      obtain r x cs where q: "complete_attachment L st now aid a i k' ps rid db = (r, x, cs)" by (metis prod_cases3)
      have "import_step L op db = x"
        using CompleteAttachment Inr q by (cases r) (simp_all add: complete_import_attachment_route_def)
      with keys.R_files [OF complete_attachment_step [OF q]] show ?thesis by simp
    qed
    with no show ?thesis by simp
  next
    case (Submit now aid a i rid)
    with no submit_keys show ?thesis by (metis import_step.simps(4) prod.collapse)
  next
    case (Read rd now aid aids a i rid)
    with no read_keys show ?thesis by (metis import_step.simps(5) prod.collapse)
  next
    case (Reconcile now aids i)
    with no reconcile_file_keys show ?thesis by (metis import_step.simps(6) prod.collapse)
  next
    case (ListOwner rd aid a limit rid)
    have "only_log db (snd (list_owner L rd aid a limit rid db))" by (simp add: list_owner_def refuse_log)
    with ListOwner no keys.R_log show ?thesis by (simp add: list_owner_imports_route_def split: if_splits)
  qed
qed

section \<open>Decisions\<close>

lemma jobs_with_file_one:
  assumes "imports_ok L db" "a \<in> set (attachments db)" "get_job db (a_job_id a) = Some j"
  shows "jobs_with_file db (a_file_id a) = [j]"
proof -
  have "inj_on a_file_id (set (attachments db))" "distinct (attachments db)"
    using assms(1) by (simp_all add: imports_ok_def distinct_map)
  then have "filter (\<lambda>b. a_file_id b = a_file_id a) (attachments db) = [a]"
    using assms(2)
  proof (induction "attachments db" arbitrary: db)
    case (Cons x xs)
    have "filter (\<lambda>b. a_file_id b = a_file_id a) ys = (if a \<in> set ys then [a] else [])"
      if "inj_on a_file_id (insert a (set ys))" "distinct ys" for ys
      using that
    proof (induction ys)
      case (Cons y ys)
      have "inj_on a_file_id (insert a (set ys))" using Cons.prems(1) by (rule inj_on_subset) auto
      with Cons have "filter (\<lambda>b. a_file_id b = a_file_id a) ys = (if a \<in> set ys then [a] else [])" by auto
      moreover have "a_file_id y = a_file_id a \<longleftrightarrow> y = a"
        using inj_onD [OF Cons.prems(1), of y a] by auto
      ultimately show ?case using Cons.prems(2) by auto
    qed simp
    from this [of "attachments db"] Cons.prems show ?case by (simp add: insert_absorb)
  qed simp
  then have f: "jobs_with_file db (a_file_id a) = sort_key j_id (filter (\<lambda>g. j_id g = a_job_id a) (jobs db))"
    by (simp add: jobs_with_file_def)
  have "filter (\<lambda>g. j_id g = a_job_id a) (jobs db) = [j]"
  proof -
    have "distinct (map j_id xs) \<Longrightarrow> find (\<lambda>g. j_id g = k) xs = Some j
        \<Longrightarrow> filter (\<lambda>g. j_id g = k) xs = [j]" for xs k
    proof (induction xs)
      case (Cons x xs)
      show ?case
      proof (cases "j_id x = k")
        case True
        from True Cons.prems(2) have "x = j" by simp
        moreover have "\<forall>y \<in> set xs. j_id y \<noteq> k"
        proof (intro ballI notI)
          fix y assume "y \<in> set xs" "j_id y = k"
          then have "k \<in> j_id ` set xs" by blast
          with Cons.prems(1) True show False by simp
        qed
        ultimately show ?thesis using True by (simp add: filter_empty_conv)
      qed (use Cons in simp)
    qed simp
    with assms(1,3) show ?thesis by (simp add: imports_ok_def get_job_def)
  qed
  with f show ?thesis by simp
qed

lemma verdict_terminal:
  "ie_status (verdict b S) \<noteq> IMPORT_SCANNING \<Longrightarrow> import_terminal (ie_status (verdict b S))"
  using verdict_shape [of b S] by (cases "ie_status (verdict b S)") (auto simp: import_terminal_def)

text \<open>What one attached file and the files of the other attachments say together.\<close>

lemma verdict_insert:
  "verdict base (insert (k, f) S) =
     (if f_state f = FILE_INFECTED \<or> (\<exists>(l, h) \<in> S. f_state h = FILE_INFECTED)
      then \<lparr>ie_status = IMPORT_REJECTED, ie_result_code = Some ''ATTACHMENT_INFECTED''\<rparr>
      else if f_state f = FILE_FAILED \<or> (\<exists>(l, h) \<in> S. f_state h = FILE_FAILED)
      then \<lparr>ie_status = IMPORT_REJECTED, ie_result_code = Some ''ATTACHMENT_SCAN_FAILED''\<rparr>
      else if f_state f \<noteq> FILE_CLEAN \<or> (\<exists>(l, h) \<in> S. f_state h \<noteq> FILE_CLEAN)
      then \<lparr>ie_status = IMPORT_SCANNING, ie_result_code = None\<rparr>
      else if base \<noteq> None \<and> (\<exists>(l, h) \<in> insert (k, f) S. l = ORIGINAL \<and> base \<noteq> Some (f_sha256 h))
      then \<lparr>ie_status = IMPORT_CONFLICT, ie_result_code = Some ''BASE_SHA256_MISMATCH''\<rparr>
      else \<lparr>ie_status = IMPORT_RECEIVED, ie_result_code = None\<rparr>)"
  unfolding verdict_def by simp

text \<open>What a decision makes of a row.\<close>

definition decided_row :: "time \<Rightarrow> db \<Rightarrow> import_job \<Rightarrow> import_job" where
  "decided_row now db j = move_job now (verdict (j_base_sha256 j) (attached db (j_id j))) j"

lemma member_checks: "import_inv L db \<Longrightarrow> get_job db i = Some j \<Longrightarrow> import_job_checks L j"
  using job_table.get_member [of db i j] by (auto simp: import_inv_def imports_ok_def list_all_iff)

lemma scanning_no_code:
  "import_inv L db \<Longrightarrow> get_job db i = Some j \<Longrightarrow> j_status j = IMPORT_SCANNING \<Longrightarrow> j_result_code j = None"
  using member_checks [of L db i j] by (auto simp: import_job_checks_def result_state_def)

text \<open>When only one file changes, the files attached to its job are the new row and the
  rows of the job's other attachments.\<close>

lemma attached_after:
  assumes "import_inv L db" "a \<in> set (attachments db)"
    and "attachments db1 = attachments db" "get_file db1 (a_file_id a) = Some g"
    and "\<And>k. k \<noteq> a_file_id a \<Longrightarrow> get_file db1 k = get_file db k"
  shows "attached db1 (a_job_id a) = insert (a_kind a, g) {(a_kind b, h) | b h.
    (b, h) \<in> {(b, h). b \<in> set (attachments db) \<and> a_job_id b = a_job_id a
      \<and> get_file db (a_file_id b) = Some h} \<and> b \<noteq> a}"
proof -
  have inj: "inj_on a_file_id (set (attachments db))"
    using assms(1) by (simp add: import_inv_def imports_ok_def distinct_map)
  have other: "get_file db1 (a_file_id b) = get_file db (a_file_id b)"
    if "b \<in> set (attachments db)" "b \<noteq> a" for b
    by (rule assms(5)) (use inj_onD [OF inj _ that(1) assms(2)] that(2) in blast)
  have mem: "x \<in> attached db1 (a_job_id a) \<longleftrightarrow> (\<exists>b h. x = (a_kind b, h) \<and> b \<in> set (attachments db)
      \<and> a_job_id b = a_job_id a \<and> get_file db1 (a_file_id b) = Some h)" for x
    by (auto simp: attached_def assms(3))
  show ?thesis
  proof (intro set_eqI iffI)
    fix x assume "x \<in> attached db1 (a_job_id a)"
    then obtain b h where b: "x = (a_kind b, h)" "b \<in> set (attachments db)" "a_job_id b = a_job_id a"
      "get_file db1 (a_file_id b) = Some h" using mem by blast
    show "x \<in> insert (a_kind a, g) {(a_kind b, h) | b h. (b, h) \<in> {(b, h). b \<in> set (attachments db)
        \<and> a_job_id b = a_job_id a \<and> get_file db (a_file_id b) = Some h} \<and> b \<noteq> a}"
      using b other [OF b(2)] assms(4) by (cases "b = a") auto
  next
    fix x assume "x \<in> insert (a_kind a, g) {(a_kind b, h) | b h. (b, h) \<in> {(b, h). b \<in> set (attachments db)
        \<and> a_job_id b = a_job_id a \<and> get_file db (a_file_id b) = Some h} \<and> b \<noteq> a}"
    then consider "x = (a_kind a, g)" | b h where "x = (a_kind b, h)" "b \<in> set (attachments db)"
        "a_job_id b = a_job_id a" "get_file db (a_file_id b) = Some h" "b \<noteq> a" by auto
    then show "x \<in> attached db1 (a_job_id a)"
      by cases (use mem other assms(2,4) in \<open>metis+\<close>)
  qed
qed

lemma reconcile_one:
  assumes "import_inv L db" "a \<in> set (attachments db)" "get_job db (a_job_id a) = Some j"
    and "j_updated_at j \<le> now"
    and "event_by_key db (transition_event_key L ''import.reconcile'' (j_id j)
      (verdict (j_base_sha256 j) (attached db (j_id j)))) = None"
  shows "\<exists>db'. reconcile_file L now aids (a_file_id a) db = (Inr (), db') \<and> files db' = files db
    \<and> attachments db' = attachments db \<and> import_inv L db'
    \<and> get_job db' (j_id j) = Some (if j_status j = IMPORT_SCANNING
         \<and> ie_status (verdict (j_base_sha256 j) (attached db (j_id j))) \<noteq> IMPORT_SCANNING
       then decided_row now db j else j)
    \<and> (\<forall>k. k \<noteq> j_id j \<longrightarrow> get_job db' k = get_job db k)"
proof -
  have ok: "imports_ok L db" using assms(1) by (simp add: import_inv_def)
  note ev = evaluate_verdict [OF ok, of j L]
  note one = jobs_with_file_one [OF ok assms(2,3)]
  obtain r db' where q: "reconcile_file L now aids (a_file_id a) db = (r, db')" by fastforce
  have "\<exists>d. reconcile_jobs L now aids [j] db = Inr d"
    using apply_transition_succeeds [OF move_job_checks [OF member_checks [OF assms(1,3)] assms(4) refl] assms(5)]
    by (auto simp: ev Let_def split: sum.splits) (metis Inl_Inr_False)
  then obtain d where "reconcile_jobs L now aids (jobs_with_file db (a_file_id a)) db = Inr d" by (auto simp: one)
  with q have "r = Inr ()" by (auto simp: reconcile_file_def jobs_with_file_def)
  from reconcile_file_cases [OF q assms(1)] this q show ?thesis
    by (cases rule: reconcile_file_cases [OF q assms(1)])
      (auto simp: one reconciled_def Let_def ev decided_row_def)
qed

text \<open>A refused submission: the error is the one that was meant, and the log has one more
  row, which names the actor, the job and the project the refusal may reveal.\<close>

definition refused_submission ::
  "actor \<Rightarrow> uuid \<Rightarrow> uuid option \<Rightarrow> exn \<Rightarrow> db \<Rightarrow> 'a result \<times> db \<Rightarrow> bool" where
  "refused_submission a i p e db outcome \<longleftrightarrow>
     (\<exists>row. outcome = (Inl e, db\<lparr>audit_logs := audit_logs db @ [row]\<rparr>)
       \<and> al_outcome row = ''DENIED'' \<and> al_action row = ''import.submit''
       \<and> al_actor_id row = Some (actor_subject a) \<and> al_object_id row = Some i \<and> al_project_id row = p)"

lemma submit_denial_flat:
  assumes "ascii (u (error_code e))"
  shows "refused_submission a i p e db (record_submit_denial L aid a i p rid e db)"
proof -
  let ?ev = "job_denial a ''import.submit'' i p rid e"
  have fl: "flat_ascii [(u ''error_code'', JStr (u (error_code e))), (u ''job_id'', JStr (uuid_str i))]"
    using assms uuid_str_ascii [of i] by (auto simp: flat_ascii_def) (auto simp: ascii_def u_def)
  have md: "ev_metadata ?ev = JObj [(u ''error_code'', JStr (u (error_code e))), (u ''job_id'', JStr (uuid_str i))]"
    "ev_event_key ?ev = None" by (simp_all add: job_denial_def)
  from audit_record_flat [OF md(1) fl md(2), of L aid db] obtain row where
    "audit_record L id aid ?ev db = (Inr (al_id row), db\<lparr>audit_logs := audit_logs db @ [row]\<rparr>)"
    "al_outcome row = ev_outcome ?ev" "al_action row = ev_action ?ev"
    "al_actor_id row = Some (actor_subject (ev_actor ?ev))" "al_object_id row = ev_object_id ?ev"
    "al_project_id row = ev_project_id ?ev" by blast
  then show ?thesis by (auto simp: record_submit_denial_def refuse_def job_denial_def refused_submission_def)
qed

lemma submit_error_codes:
  "ascii (u (error_code import_submit_forbidden))" "ascii (u (error_code import_job_not_found))"
  "ascii (u (error_code import_attachments_incomplete))"
  by (simp_all add: import_submit_forbidden_def import_job_not_found_def import_attachments_incomplete_def
    forbidden_error_def not_found_error_def conflict_error_def ascii_def u_def)

lemma submit_refusals:
  "refused_submission a i p import_submit_forbidden db (record_submit_denial L aid a i p rid import_submit_forbidden db)"
  "refused_submission a i p import_job_not_found db (record_submit_denial L aid a i p rid import_job_not_found db)"
  "refused_submission a i p import_attachments_incomplete db
    (record_submit_denial L aid a i p rid import_attachments_incomplete db)"
  by (rule submit_denial_flat, rule submit_error_codes)+

text \<open>The row of a transition passes the checks of its table exactly when the clock is not
  behind the creation or the first submission of the job.\<close>

lemma move_job_checks_iff:
  assumes "import_job_checks L j"
  shows "import_job_checks L (move_job now (verdict b S) j)
    \<longleftrightarrow> j_created_at j \<le> now \<and> (case j_submitted_at j of None \<Rightarrow> True | Some t \<Rightarrow> t \<le> now)"
proof -
  let ?m = "move_job now (verdict b S) j"
  have "submission_state ?m" "result_state ?m"
    using verdict_shape [of b S] by (auto simp: submission_state_def result_state_def move_job_def)
  moreover have "case j_result_code ?m of None \<Rightarrow> True | Some c \<Rightarrow> result_code_text (u c)"
    using verdict_shape [of b S] by (auto simp: move_job_def split: option.splits)
  moreover have "job_time_order ?m
    \<longleftrightarrow> j_created_at j \<le> now \<and> (case j_submitted_at j of None \<Rightarrow> True | Some t \<Rightarrow> t \<le> now)"
    using assms by (auto simp: import_job_checks_def job_time_order_def move_job_def split: option.splits)
  ultimately show ?thesis using assms by (simp add: import_job_checks_def) (simp add: move_job_def)
qed

text \<open>Every outcome of the locked transaction.\<close>

lemma submit_locked_decides:
  assumes "import_inv L db" "get_job db (j_id j) = Some j"
  shows "if import_terminal (j_status j) \<or> j_status j = IMPORT_SCANNING
        \<and> ie_status (verdict (j_base_sha256 j) (attached db (j_id j))) = IMPORT_SCANNING
      then submit_locked L now aid a rid j db = (Inr (job_result L db j), db)
      else if j_status j = IMPORT_UPLOADING \<and> (\<exists>(k, f) \<in> attached db (j_id j). f_state f = FILE_UPLOADING)
      then refused_submission a (j_id j) (Some (j_project_id j)) import_attachments_incomplete db
        (submit_locked L now aid a rid j db)
      else if now < j_created_at j \<or> (\<exists>t. j_submitted_at j = Some t \<and> now < t)
      then submit_locked L now aid a rid j db = (Inl (Integrity ''ck_import_jobs''), db)
      else if event_by_key db (transition_event_key L ''import.submit'' (j_id j)
        (verdict (j_base_sha256 j) (attached db (j_id j)))) \<noteq> None
      then submit_locked L now aid a rid j db = (Inl (Integrity ''uq_audit_logs_event_key''), db)
      else \<exists>db' row. submit_locked L now aid a rid j db = (Inr (job_result L db' (decided_row now db j)), db')
          \<and> get_job db' (j_id j) = Some (decided_row now db j) \<and> files db' = files db
          \<and> attachments db' = attachments db \<and> (\<forall>k. k \<noteq> j_id j \<longrightarrow> get_job db' k = get_job db k)
          \<and> audit_logs db' = audit_logs db @ [row] \<and> al_outcome row = ''SUCCESS''
          \<and> al_action row = ''import.submit'' \<and> al_actor_id row = Some (actor_subject a)
          \<and> al_object_id row = Some (j_id j)"
proof -
  have ok: "imports_ok L db" using assms(1) by (simp add: import_inv_def)
  note ev = evaluate_verdict [OF ok, of j L]
  let ?V = "verdict (j_base_sha256 j) (attached db (j_id j))"
  let ?t = "apply_transition L now aid j ?V ''import.submit'' ''device'' (Some (actor_subject a)) rid db"
  let ?row = "transition_audit L aid ''import.submit'' ''device'' (Some (actor_subject a)) rid ?V j"
  let ?db' = "(put_job (j_id j) (move_job now ?V) db)\<lparr>audit_logs := audit_logs db @ [?row]\<rparr>"
  have up: "list_ex (\<lambda>ob. fo_state ob = FILE_UPLOADING) (file_observations L db (j_id j))
      \<longleftrightarrow> (\<exists>(k, f) \<in> attached db (j_id j). f_state f = FILE_UPLOADING)"
    by (simp add: list_ex_iff observations_attached [OF ok] split_def)
  note checks = move_job_checks_iff [OF member_checks [OF assms], of now "j_base_sha256 j" "attached db (j_id j)"]
  have t: "?t = (if now < j_created_at j \<or> (\<exists>t. j_submitted_at j = Some t \<and> now < t)
      then Inl (Integrity ''ck_import_jobs'')
      else if event_by_key db (transition_event_key L ''import.submit'' (j_id j) ?V) \<noteq> None
      then Inl (Integrity ''uq_audit_logs_event_key'') else Inr ?db')"
    unfolding apply_transition_def checks
    by (auto simp: insert_audit_def transition_audit_def event_by_key_def put_job_def not_less split: option.splits)
  consider (t) "import_terminal (j_status j)" | (s) "j_status j = IMPORT_SCANNING" "ie_status ?V = IMPORT_SCANNING"
    | (u) "j_status j = IMPORT_UPLOADING" "\<exists>(k, f) \<in> attached db (j_id j). f_state f = FILE_UPLOADING"
    | (m) "\<not> import_terminal (j_status j)" "\<not> (j_status j = IMPORT_SCANNING \<and> ie_status ?V = IMPORT_SCANNING)"
      "\<not> (j_status j = IMPORT_UPLOADING \<and> (\<exists>(k, f) \<in> attached db (j_id j). f_state f = FILE_UPLOADING))"
    by blast
  then show ?thesis
  proof cases
    case t
    then show ?thesis by (simp add: submit_locked_def)
  next
    case s
    then show ?thesis by (simp add: submit_locked_def Let_def ev import_terminal_def)
  next
    case u
    then have "submit_locked L now aid a rid j db = record_submit_denial L aid a (j_id j) (Some (j_project_id j))
        rid import_attachments_incomplete db"
      by (simp add: submit_locked_def Let_def up import_terminal_def)
    with submit_refusals(3) u show ?thesis by (auto simp: import_terminal_def)
  next
    case m
    then have r: "submit_locked L now aid a rid j db = (case ?t of Inl e \<Rightarrow> (Inl e, db)
        | Inr db2 \<Rightarrow> (Inr (job_result L db2 (move_job now ?V j)), db2))"
      unfolding submit_locked_def Let_def up ev by (simp only: if_False)
    have none: "(import_terminal (j_status j) \<or> j_status j = IMPORT_SCANNING \<and> ie_status ?V = IMPORT_SCANNING) = False"
      "(j_status j = IMPORT_UPLOADING \<and> (\<exists>(k, f) \<in> attached db (j_id j). f_state f = FILE_UPLOADING)) = False"
      using m by simp_all
    show ?thesis
    proof (cases "?t = Inr ?db'")
      case True
      have "get_job ?db' (j_id j) = Some (decided_row now db j)"
        using transition_evolves(3) [OF assms m(1) _ ev [symmetric] True] m(2) by (auto simp: decided_row_def)
      moreover have "al_outcome ?row = ''SUCCESS'' \<and> al_action ?row = ''import.submit''
          \<and> al_actor_id ?row = Some (actor_subject a) \<and> al_object_id ?row = Some (j_id j)"
        by (simp add: transition_audit_def)
      moreover have "submit_locked L now aid a rid j db = (Inr (job_result L ?db' (decided_row now db j)), ?db')"
        unfolding r True decided_row_def by simp
      moreover have "audit_logs ?db' = audit_logs db @ [?row]" by simp
      ultimately have "submit_locked L now aid a rid j db = (Inr (job_result L ?db' (decided_row now db j)), ?db')
          \<and> get_job ?db' (j_id j) = Some (decided_row now db j) \<and> files ?db' = files db
          \<and> attachments ?db' = attachments db \<and> (\<forall>k. k \<noteq> j_id j \<longrightarrow> get_job ?db' k = get_job db k)
          \<and> audit_logs ?db' = audit_logs db @ [?row] \<and> al_outcome ?row = ''SUCCESS''
          \<and> al_action ?row = ''import.submit'' \<and> al_actor_id ?row = Some (actor_subject a)
          \<and> al_object_id ?row = Some (j_id j)"
        using transition_frame [OF True] by blast
      moreover from True t have "(now < j_created_at j \<or> (\<exists>t. j_submitted_at j = Some t \<and> now < t)) = False"
        "(event_by_key db (transition_event_key L ''import.submit'' (j_id j) ?V) \<noteq> None) = False"
        by (auto split: if_splits)
      ultimately show ?thesis unfolding none if_False by (simp only: if_False) blast
    next
      case False
      with t r show ?thesis unfolding none if_False by (auto split: if_splits)
    qed
  qed
qed

lemma attachment_denial_Inl:
  "isl (fst (record_attachment_denial L aid a i k p action rid e db))"
  by (auto simp: record_attachment_denial_def refuse_def split: prod.splits sum.splits)

text \<open>What the join of job, attachment and file has found.\<close>

definition upload_target_of ::
  "db \<Rightarrow> import_job \<Rightarrow> uuid \<Rightarrow> attachment_upload_target \<Rightarrow> bool" where
  "upload_target_of db j k t \<longleftrightarrow>
     (\<exists>x f. x \<in> set (attachments db) \<and> a_id x = k \<and> a_job_id x = j_id j \<and> a_project_id x = j_project_id j
       \<and> get_file db (a_file_id x) = Some f \<and> f_id f = a_upload_id x \<and> f_project_id f = j_project_id j
       \<and> t = \<lparr>aut_project_id = j_project_id j, aut_upload_id = a_upload_id x\<rparr>)"

lemma attachment_target_Some:
  assumes "attachment_target db i k = Some (d, t)"
  shows "\<exists>j. get_job db i = Some j \<and> d = j_device_id j \<and> upload_target_of db j k t"
proof -
  from assms obtain j x f where j: "get_job db i = Some j"
    and x: "find (\<lambda>a. a_id a = k \<and> a_job_id a = i \<and> a_project_id a = j_project_id j) (attachments db) = Some x"
    and f: "get_file db (a_file_id x) = Some f" "f_project_id f = a_project_id x" "f_id f = a_upload_id x"
    and dt: "d = j_device_id j" "t = \<lparr>aut_project_id = j_project_id j, aut_upload_id = a_upload_id x\<rparr>"
    by (auto simp: attachment_target_def split: option.splits if_splits)
  from find_SomeD [OF x] get_rows_id(6) [OF j] f dt j show ?thesis
    unfolding upload_target_of_def by auto
qed

lemma resolve_isolated:
  "case resolve_attachment_upload L aid a i k action rid db of
      (Inr t, db') \<Rightarrow> db' = db \<and> (\<exists>j. get_job db i = Some j \<and> j_device_id j = actor_subject a
        \<and> device_may ''imports:upload'' a (j_project_id j) \<and> upload_target_of db j k t)
    | (Inl e, db') \<Rightarrow> only_log db db'"
proof -
  let ?r = "resolve_attachment_upload L aid a i k action rid db"
  have log: "only_log db (snd ?r)" using resolve_log by (metis prod.collapse)
  show ?thesis
  proof (cases "fst ?r")
    case (Inl e)
    with log show ?thesis by (cases ?r) simp
  next
    case (Inr t)
    have no: "fst (record_attachment_denial L aid a i k p action rid e db) \<noteq> Inr t" for p e
      using attachment_denial_Inl [of L aid a i k p action rid e db]
      by (metis Inr_Inl_False sum.disc(2))
    have dev: "\<not> (actor_kind a \<noteq> ''device'' \<or> actor_role a \<noteq> None \<or> ''imports:upload'' \<notin> set (actor_scopes a))"
      using Inr no by (auto simp: resolve_attachment_upload_def Let_def split: if_splits)
    show ?thesis
    proof (cases "attachment_target db i k")
      case None
      with dev Inr no show ?thesis by (simp add: resolve_attachment_upload_def Let_def)
    next
      case (Some dt)
      obtain d x where dt: "dt = (d, x)" by (cases dt)
      with Some attachment_target_Some obtain j where j: "get_job db i = Some j" "d = j_device_id j"
        "upload_target_of db j k x" by blast
      then have p: "aut_project_id x = j_project_id j" by (auto simp: upload_target_of_def)
      have r: "?r = (if d \<noteq> actor_subject a
            then record_attachment_denial L aid a i k None action rid import_attachment_not_found db
            else if aut_project_id x \<notin> set (actor_projects a)
            then record_attachment_denial L aid a i k (Some (aut_project_id x)) action rid import_upload_forbidden db
            else (Inr x, db))"
        using dev Some dt by (simp add: resolve_attachment_upload_def Let_def)
      with Inr no have "d = actor_subject a" "aut_project_id x \<in> set (actor_projects a)"
        by (metis)+
      with r j p dev show ?thesis by (auto simp: device_may_def)
    qed
  qed
qed

section \<open>What a creation shows\<close>

lemma list_field_all: "(\<And>x. x \<in> set xs \<Longrightarrow> f x = Inr (g x)) \<Longrightarrow> list_field f xs = Inr (map g xs)"
  by (induction xs) auto

lemma persist_fresh:
  assumes "persist_job L now i ids aid id a m key fp uploads rid db = (Inr r, db')"
    and "job_by_key db (actor_subject a) key = None"
  shows "r_id r = i" "get_job db i = None" "get_job db' i = Some (new_job now i a m key fp)"
    "attachments db' = attachments db @ attachment_rows ids (new_job now i a m key fp) m uploads"
    "length uploads = length (m_attachments m)"
proof -
  let ?j = "new_job now i a m key fp"
  let ?rows = "attachment_rows ids ?j m uploads"
  have "\<exists>d2. insert_job L ?j db = Inr d2"
  proof (cases "insert_job L ?j db")
    case (Inl e)
    with assms show ?thesis by (simp add: persist_job_def Let_def split: if_splits)
  qed blast
  then obtain d2 where d2: "insert_job L ?j db = Inr d2" by blast
  have len: "length uploads = length (m_attachments m)"
  proof (rule ccontr)
    assume "length uploads \<noteq> length (m_attachments m)"
    with assms d2 show False by (simp add: persist_job_def Let_def)
  qed
  have "\<exists>d3. insert_attachments ?rows d2 = Inr d3"
  proof (cases "insert_attachments ?rows d2")
    case (Inl e)
    with assms d2 len show ?thesis by (simp add: persist_job_def Let_def)
  qed blast
  then obtain d3 where d3a: "insert_attachments ?rows d2 = Inr d3" by blast
  have d3: "insert_attachments ?rows d2 = Inr d3"
      "insert_audit (create_audit L aid a rid ?j ?rows) d3 = Inr db'" "r_id r = i"
    using assms d2 len d3a by (auto simp: persist_job_def Let_def new_job_def split: sum.splits)
  have at: "attachments x = attachments y @ rows" if "insert_attachments rows y = Inr x" for rows x y
    using that by (induction rows arbitrary: y) (auto dest: insert_attachment_Inr(1) split: sum.splits)
  note j = insert_job_Inr [OF d2]
  show "r_id r = i" "length uploads = length (m_attachments m)" using d3(3) len by auto
  show n: "get_job db i = None" using j(3) by (simp add: new_job_def)
  have "jobs db' = jobs db @ [?j]"
    using insert_audit_Inr [OF d3(2)] insert_attachments_jobs [OF d3(1)] j(1) by simp
  with n show "get_job db' i = Some ?j" by (simp add: get_job_def find_append new_job_def)
  show "attachments db' = attachments db @ ?rows"
    using insert_audit_Inr [OF d3(2)] at [OF d3(1)] j(1) by simp
qed

lemma views_of_ok:
  assumes "imports_ok M db"
  shows "attachment_views L db i = Inr (map (\<lambda>a. attachment_view a (f_state (the (get_file db (a_file_id a)))))
    (attachments_of L db i))"
  unfolding attachment_views_def
proof (rule list_field_all)
  fix a assume "a \<in> set (attachments_of L db i)"
  then have "a \<in> set (attachments db)" by (simp add: attachments_of_set)
  from attachment_has_file [OF assms this] obtain f where "get_file db (a_file_id a) = Some f" .
  then show "(case get_file db (a_file_id a) of None \<Rightarrow> Inl (PyError ''RuntimeError'')
      | Some f \<Rightarrow> Inr (attachment_view a (f_state f)))
    = Inr (attachment_view a (f_state (the (get_file db (a_file_id a)))))" by simp
qed

lemma job_view_ok:
  assumes "imports_ok M db" "stored_manifest L rd j = Inr m"
  shows "job_view L rd db j = Inr (render_job j (m_k3_result m)
    (map (\<lambda>a. attachment_view a (f_state (the (get_file db (a_file_id a))))) (attachments_of L db (j_id j))))"
  using assms(2) by (simp add: job_view_def job_views_def views_of_ok [OF assms(1)])

lemma new_attachment_kinds:
  assumes "imports_ok M db" "get_job db i = None" "attachments db' = attachments db @ attachment_rows ids j m uploads"
    and "length uploads = length (m_attachments m)" "j_id j = i"
  shows "mset (map a_kind (attachments_of L db' i)) = mset (map ad_kind (m_attachments m))"
proof -
  have old: "filter (\<lambda>a. a_job_id a = i) (attachments db) = []"
    using assms(1,2) by (auto simp: filter_empty_conv imports_ok_def list_all_iff)
  have new: "filter (\<lambda>a. a_job_id a = i) (attachment_rows ids j m uploads) = attachment_rows ids j m uploads"
    using assms(5) by (auto simp: attachment_rows_def filter_id_conv)
  have "map a_kind (attachment_rows ids j m uploads) = map ad_kind (map fst (zip (m_attachments m) uploads))"
    by (simp add: attachment_rows_def split_def comp_def)
  also have "map fst (zip (m_attachments m) uploads) = m_attachments m" using assms(4) by simp
  finally have "map a_kind (attachment_rows ids j m uploads) = map ad_kind (m_attachments m)" .
  moreover have "mset (map a_kind (attachments_of L db' i)) = mset (map a_kind (attachment_rows ids j m uploads))"
    by (simp only: attachments_of_def assms(3) filter_append old new append_Nil mset_map mset_sort)
  ultimately show ?thesis by simp
qed

lemma stored_object:
  assumes "ascii_json (JObj kvs)" "v = JObj kvs" "json_size (JObj kvs) \<le> MANIFEST_MAX_UTF8_BYTES"
  shows "manifest_object L v"
proof -
  have "list_all (\<lambda>c. c < 128) (u '', '')" "length (u '', '') \<le> 2" "list_all (\<lambda>c. c < 128) (u '': '')"
    "length (u '': '') \<le> 2" by (simp_all add: u_def)
  from json_text_size [OF assms(1) this, of L] have
    "list_all (\<lambda>c. c < 128) (json_text L (u '', '') (u '': '') (JObj kvs))"
    "length (json_text L (u '', '') (u '': '') (JObj kvs)) \<le> json_size (JObj kvs)" by auto
  with utf8_ascii [OF this(1)] ascii_finite [OF assms(1)] assms(3) show ?thesis
    by (simp add: manifest_object_def assms(2) json_bytes_def del: json_text.simps finite_numbers.simps json_size.simps)
qed

lemma scan_frame:
  assumes "scan_file L now later run id i db = (db1, calls)"
  shows "jobs db1 = jobs db" "attachments db1 = attachments db" "audit_logs db1 = audit_logs db"
    "k \<noteq> i \<Longrightarrow> get_file db1 k = get_file db k"
proof -
  have w: "jobs (write_file t i (\<lambda>f. f\<lparr>f_state := s\<rparr>) d) = jobs d
      \<and> attachments (write_file t i (\<lambda>f. f\<lparr>f_state := s\<rparr>) d) = attachments d
      \<and> audit_logs (write_file t i (\<lambda>f. f\<lparr>f_state := s\<rparr>) d) = audit_logs d
      \<and> (k \<noteq> i \<longrightarrow> get_file (write_file t i (\<lambda>f. f\<lparr>f_state := s\<rparr>) d) k = get_file d k)" for t s d
    by (simp add: get_write_other) (simp add: write_file_def put_file_def)
  have w2: "jobs (write_file t i (\<lambda>f. f\<lparr>f_state := s, f_scan_result := x\<rparr>) d) = jobs d
      \<and> attachments (write_file t i (\<lambda>f. f\<lparr>f_state := s, f_scan_result := x\<rparr>) d) = attachments d
      \<and> audit_logs (write_file t i (\<lambda>f. f\<lparr>f_state := s, f_scan_result := x\<rparr>) d) = audit_logs d
      \<and> (k \<noteq> i \<longrightarrow> get_file (write_file t i (\<lambda>f. f\<lparr>f_state := s, f_scan_result := x\<rparr>) d) k = get_file d k)"
    for t s x d
    by (simp add: get_write_other) (simp add: write_file_def put_file_def)
  obtain c d where c: "claim_scan now i db = (c, d)" by fastforce
  have cf: "jobs d = jobs db \<and> attachments d = attachments db \<and> audit_logs d = audit_logs db
      \<and> (k \<noteq> i \<longrightarrow> get_file d k = get_file db k)"
    using c w by (cases rule: claim_cases) simp_all
  have "jobs db1 = jobs d \<and> attachments db1 = attachments d \<and> audit_logs db1 = audit_logs d
      \<and> (k \<noteq> i \<longrightarrow> get_file db1 k = get_file d k)"
  proof (cases "c = None \<or> run = ScanInterrupted")
    case True
    with assms c show ?thesis by (auto simp: scan_file_def split: option.splits prod.splits)
  next
    case False
    then obtain key ex where "c = Some (key, ex)" by auto
    with False assms c have "finish_scan later i key (scan_result_of L ex run) d = (db1, calls)"
      by (simp add: scan_file_def)
    then show ?thesis using w2 by (cases rule: finish_cases) simp_all
  qed
  with cf show "jobs db1 = jobs db" "attachments db1 = attachments db" "audit_logs db1 = audit_logs db"
    "k \<noteq> i \<Longrightarrow> get_file db1 k = get_file db k" by auto
qed

section \<open>Who may submit\<close>

lemma submit_refused_before:
  shows "\<not> (actor_kind a = ''device'' \<and> actor_role a = None \<and> ''imports:submit'' \<in> set (actor_scopes a)) \<Longrightarrow>
      refused_submission a i None import_submit_forbidden db (submit L now aid race a i rid db)"
    and "\<lbrakk>actor_kind a = ''device'' \<and> actor_role a = None \<and> ''imports:submit'' \<in> set (actor_scopes a);
       \<nexists>j. get_job db i = Some j \<and> j_device_id j = actor_subject a\<rbrakk> \<Longrightarrow>
      refused_submission a i None import_job_not_found db (submit L now aid race a i rid db)"
    and "\<lbrakk>actor_kind a = ''device'' \<and> actor_role a = None \<and> ''imports:submit'' \<in> set (actor_scopes a);
       \<exists>j. get_job db i = Some j \<and> j_device_id j = actor_subject a;
       map_option j_project_id (get_job db i) \<notin> Some ` set (actor_projects a)\<rbrakk> \<Longrightarrow>
      refused_submission a i (map_option j_project_id (get_job db i)) import_submit_forbidden db
        (submit L now aid race a i rid db)"
proof -
  let ?d = "\<lambda>p e. record_submit_denial L aid a i p rid e db :: uuid result \<times> db"
  have lift: "refused_submission a i p e db (submit L now aid race a i rid db)"
    if "preflight_submit L aid a i rid db = ?d p e" "refused_submission a i p e db (?d p e)" for p e
    using that by (auto simp: submit_def refused_submission_def)
  show "refused_submission a i None import_submit_forbidden db (submit L now aid race a i rid db)"
    if "\<not> (actor_kind a = ''device'' \<and> actor_role a = None \<and> ''imports:submit'' \<in> set (actor_scopes a))"
    by (rule lift [OF _ submit_refusals(1)]) (use that in \<open>auto simp: preflight_submit_def\<close>)
  show "refused_submission a i None import_job_not_found db (submit L now aid race a i rid db)"
    if "actor_kind a = ''device'' \<and> actor_role a = None \<and> ''imports:submit'' \<in> set (actor_scopes a)"
      "\<nexists>j. get_job db i = Some j \<and> j_device_id j = actor_subject a"
    by (rule lift [OF _ submit_refusals(2)])
      (use that in \<open>auto simp: preflight_submit_def split: option.splits\<close>)
  show "refused_submission a i (map_option j_project_id (get_job db i)) import_submit_forbidden db
        (submit L now aid race a i rid db)"
    if "actor_kind a = ''device'' \<and> actor_role a = None \<and> ''imports:submit'' \<in> set (actor_scopes a)"
      "\<exists>j. get_job db i = Some j \<and> j_device_id j = actor_subject a"
      "map_option j_project_id (get_job db i) \<notin> Some ` set (actor_projects a)"
    by (rule lift [OF _ submit_refusals(1)])
      (use that in \<open>auto simp: preflight_submit_def split: option.splits\<close>)
qed

lemma submit_preflight_ok:
  assumes "actor_kind a = ''device'' \<and> actor_role a = None \<and> ''imports:submit'' \<in> set (actor_scopes a)"
    and "\<exists>j. get_job db i = Some j \<and> j_device_id j = actor_subject a"
    and "map_option j_project_id (get_job db i) \<in> Some ` set (actor_projects a)"
  shows "\<exists>p. map_option j_project_id (get_job db i) = Some p \<and> p \<in> set (actor_projects a)
    \<and> preflight_submit L aid a i rid db = (Inr p, db)"
  using assms by (auto simp: preflight_submit_def)

lemma submit_refused_locked:
  assumes "actor_kind a = ''device'' \<and> actor_role a = None \<and> ''imports:submit'' \<in> set (actor_scopes a)"
    and "\<exists>j. get_job db i = Some j \<and> j_device_id j = actor_subject a"
    and "map_option j_project_id (get_job db i) \<in> Some ` set (actor_projects a)"
  shows "\<nexists>j. get_job (race db) i = Some j \<and> j_device_id j = actor_subject a \<Longrightarrow>
      refused_submission a i None import_job_not_found (race db) (submit L now aid race a i rid db)"
    and "\<lbrakk>\<exists>j. get_job (race db) i = Some j \<and> j_device_id j = actor_subject a;
       map_option j_project_id (get_job (race db) i) \<noteq> map_option j_project_id (get_job db i)\<rbrakk> \<Longrightarrow>
      refused_submission a i (map_option j_project_id (get_job (race db) i)) import_submit_forbidden (race db)
        (submit L now aid race a i rid db)"
    and "\<lbrakk>\<exists>j. get_job (race db) i = Some j \<and> j_device_id j = actor_subject a;
       map_option j_project_id (get_job (race db) i) = map_option j_project_id (get_job db i)\<rbrakk> \<Longrightarrow>
      \<exists>j. get_job (race db) i = Some j
        \<and> submit L now aid race a i rid db = submit_locked L now aid a rid j (race db)"
proof -
  from submit_preflight_ok [OF assms, of L aid rid] obtain p where
    p: "map_option j_project_id (get_job db i) = Some p" "p \<in> set (actor_projects a)"
    and pre: "preflight_submit L aid a i rid db = (Inr p, db)" by blast
  show "refused_submission a i None import_job_not_found (race db) (submit L now aid race a i rid db)"
    if "\<nexists>j. get_job (race db) i = Some j \<and> j_device_id j = actor_subject a"
    using that submit_refusals(2) by (cases "get_job (race db) i") (simp_all add: submit_def pre Let_def)
  show "refused_submission a i (map_option j_project_id (get_job (race db) i)) import_submit_forbidden (race db)
        (submit L now aid race a i rid db)"
    if "\<exists>j. get_job (race db) i = Some j \<and> j_device_id j = actor_subject a"
      "map_option j_project_id (get_job (race db) i) \<noteq> map_option j_project_id (get_job db i)"
    using that p(1) submit_refusals(1) by (auto simp: submit_def pre Let_def)
  show "\<exists>j. get_job (race db) i = Some j
        \<and> submit L now aid race a i rid db = submit_locked L now aid a rid j (race db)"
    if "\<exists>j. get_job (race db) i = Some j \<and> j_device_id j = actor_subject a"
      "map_option j_project_id (get_job (race db) i) = map_option j_project_id (get_job db i)"
    using that p by (auto simp: submit_def pre Let_def)
qed

lemmas submit_entitled = submit_refused_locked(3)

text \<open>The state a delivered scan gives the file.\<close>

lemma scan_result_state:
  assumes "run \<noteq> ScanInterrupted"
  shows "fst (scan_result_of L expected run) = (case run of
       Scanned pulled answer \<Rightarrow>
         if sha256_hex L pulled \<noteq> expected then FILE_FAILED
         else (case answer of VERDICT_CLEAN \<Rightarrow> FILE_CLEAN | VERDICT_INFECTED s \<Rightarrow> FILE_INFECTED
           | VERDICT_ERROR \<Rightarrow> FILE_FAILED)
     | _ \<Rightarrow> FILE_FAILED)"
  using assms by (auto simp: scan_result_of_def split: scan_run.splits scan_verdict.splits)

lemma bex_pair_split:
  assumes "\<And>h. (a, h) \<in> J \<longleftrightarrow> h = f"
  shows "(\<exists>(b, h) \<in> J. P b h) \<longleftrightarrow> P a f \<or> (\<exists>b h. ((b, h) \<in> J \<and> b \<noteq> a) \<and> P b h)"
proof
  assume "\<exists>(b, h) \<in> J. P b h"
  then obtain b h where "(b, h) \<in> J" "P b h" by blast
  with assms show "P a f \<or> (\<exists>b h. ((b, h) \<in> J \<and> b \<noteq> a) \<and> P b h)" by (cases "b = a") auto
qed (use assms in blast)

lemma bex_insert_others:
  assumes "\<And>h. (a, h) \<in> J \<longleftrightarrow> h = f" "Q (k a) g = Q (k a) f"
  shows "(\<exists>(l, h) \<in> insert (k a, g) {(k b, h) | b h. (b, h) \<in> J \<and> b \<noteq> a}. Q l h) \<longleftrightarrow> (\<exists>(b, h) \<in> J. Q (k b) h)"
proof -
  have "(\<exists>(l, h) \<in> insert (k a, g) {(k b, h) | b h. (b, h) \<in> J \<and> b \<noteq> a}. Q l h)
      \<longleftrightarrow> Q (k a) f \<or> (\<exists>b h. ((b, h) \<in> J \<and> b \<noteq> a) \<and> Q (k b) h)"
    using assms(2) by blast
  with bex_pair_split [of a J f "\<lambda>b. Q (k b)", OF assms(1)] show ?thesis by simp
qed

lemma verdict_outcome:
  assumes "f_state f \<in> {FILE_INFECTED, FILE_FAILED, FILE_CLEAN}"
    and "(\<exists>(l, h) \<in> S. f_state h = FILE_INFECTED) \<longleftrightarrow> P" "(\<exists>(l, h) \<in> S. f_state h = FILE_FAILED) \<longleftrightarrow> Q"
    and "(\<exists>(l, h) \<in> S. f_state h \<noteq> FILE_CLEAN) \<longleftrightarrow> R"
    and "\<And>b. (\<exists>(l, h) \<in> insert (k, f) S. l = ORIGINAL \<and> f_sha256 h \<noteq> b) \<longleftrightarrow> D b"
  shows "(ie_status (verdict base (insert (k, f) S)), ie_result_code (verdict base (insert (k, f) S)))
    = (if f_state f = FILE_INFECTED \<or> P then (IMPORT_REJECTED, Some ''ATTACHMENT_INFECTED'')
       else if f_state f = FILE_FAILED \<or> Q then (IMPORT_REJECTED, Some ''ATTACHMENT_SCAN_FAILED'')
       else if R then (IMPORT_SCANNING, None)
       else if \<exists>b. base = Some b \<and> D b then (IMPORT_CONFLICT, Some ''BASE_SHA256_MISMATCH'')
       else (IMPORT_RECEIVED, None))"
proof -
  have "base \<noteq> None \<and> (\<exists>(l, h) \<in> insert (k, f) S. l = ORIGINAL \<and> base \<noteq> Some (f_sha256 h))
      \<longleftrightarrow> (\<exists>b. base = Some b \<and> D b)"
    unfolding assms(5) [symmetric] by (cases base) (auto simp: eq_commute)
  note conflict = this
  show ?thesis unfolding verdict_insert conflict assms(2-4) using assms(1) by auto
qed

end
