(* ===== verification/Imports_Properties.thy ===== *)
theory Imports_Properties
  imports Imports_Proofs Files_Properties
begin

text \<open>
  The properties of import jobs, stated over the operations, each with a
  concrete database on which its hypotheses hold.
\<close>

section \<open>A database with a job\<close>

definition k3_file :: "file_state \<Rightarrow> file_row" where
  "k3_file s = (sample_file s)\<lparr>f_uploader_id := 20, f_uploader_kind := ''device''\<rparr>"

definition sample_job :: "import_status \<Rightarrow> time option \<Rightarrow> ustr \<Rightarrow> import_job" where
  "sample_job s t fp = \<lparr>j_id = 40, j_device_id = 20, j_project_id = 10, j_idempotency_key = u ''task-7'',
     j_local_task_id = u ''t7'', j_external_document_reference = None, j_base_sha256 = None,
     j_canonical_manifest = JObj [], j_manifest_fingerprint = fp, j_status = s,
     j_result_code = None, j_submitted_at = t, j_created_at = 1, j_updated_at = 2\<rparr>"

definition job_db :: "file_state \<Rightarrow> import_status \<Rightarrow> time option \<Rightarrow> ustr \<Rightarrow> db" where
  "job_db fs s t fp = sample_db\<lparr>files := [k3_file fs], jobs := [sample_job s t fp],
     attachments := [\<lparr>a_id = 50, a_job_id = 40, a_project_id = 10, a_file_id = 30, a_upload_id = 30,
       a_kind = K3_RAW\<rparr>]\<rparr>"

lemma job_db_rows [simp]:
  "get_job (job_db fs s t fp) 40 = Some (sample_job s t fp)"
  "get_file (job_db fs s t fp) 30 = Some (k3_file fs)"
  "f_state (k3_file fs) = fs" "f_project_id (k3_file fs) = 10" "f_sha256 (k3_file fs) = toy_digest [1, 2, 3]"
  by (simp_all add: job_db_def get_job_def get_file_def sample_job_def k3_file_def sample_file_def)

lemma sample_job_fields [simp]:
  "j_id (sample_job s t fp) = 40" "j_device_id (sample_job s t fp) = 20"
  "j_project_id (sample_job s t fp) = 10" "j_status (sample_job s t fp) = s"
  "j_submitted_at (sample_job s t fp) = t" "j_base_sha256 (sample_job s t fp) = None"
  "j_result_code (sample_job s t fp) = None" "j_manifest_fingerprint (sample_job s t fp) = fp"
  "j_created_at (sample_job s t fp) = 1" "j_updated_at (sample_job s t fp) = 2" "j_idempotency_key (sample_job s t fp) = u ''task-7''"
  by (simp_all add: sample_job_def)

lemma job_db_attached: "attached (job_db fs s t fp) 40 = {(K3_RAW, k3_file fs)}"
  by (auto simp: attached_def job_db_def get_file_def k3_file_def sample_file_def)

lemma job_db_inv:
  assumes "s = IMPORT_UPLOADING \<and> t = None \<or> s = IMPORT_SCANNING \<and> t = Some 2" "sha256_text fp"
  shows "import_inv sample_lib (job_db fs s t fp)"
proof -
  have m: "manifest_object sample_lib (JObj [])"
    by (simp add: manifest_object_def json_bytes_def utf8_encode_def surrogate_def utf8_char_def u_def
        MANIFEST_MAX_UTF8_BYTES_def)
  have j: "import_job_checks sample_lib (sample_job s t fp)"
    using assms m by (auto simp: import_job_checks_def sample_job_def submission_state_def result_state_def
        job_time_order_def)
  from assms(1) have "s \<noteq> IMPORT_RECEIVED" by auto
  with j show ?thesis
    by (simp add: import_inv_def imports_ok_def received_ok_def job_db_def get_job_def get_file_def
        sample_job_fields k3_file_def sample_file_def)
qed

lemma job_db_attachment: "\<lparr>a_id = 50, a_job_id = 40, a_project_id = 10, a_file_id = 30, a_upload_id = 30,
    a_kind = K3_RAW\<rparr> \<in> set (attachments (job_db fs s t fp))"
  by (simp add: job_db_def)

lemma job_db_no_events [simp]: "event_by_key (job_db fs s t fp) k = None"
  by (simp add: event_by_key_def job_db_def sample_db_def empty_db_def)

lemma job_db_received:
  "\<exists>j. get_job (import_step sample_lib (Reconcile 9 id 30)
     (job_db FILE_CLEAN IMPORT_SCANNING (Some 2) (toy_digest []))) 40 = Some j \<and> j_status j = IMPORT_RECEIVED"
proof -
  let ?db = "job_db FILE_CLEAN IMPORT_SCANNING (Some 2) (toy_digest [])"
  have inv: "import_inv sample_lib ?db" using job_db_inv toy_digest_sha256 by simp
  have "ie_status (verdict None {(K3_RAW, k3_file FILE_CLEAN)}) = IMPORT_RECEIVED"
    by (simp add: verdict_def)
  then show ?thesis
    using reconcile_one [OF inv job_db_attachment, of "sample_job IMPORT_SCANNING (Some 2) (toy_digest [])" 9 id]
    by (auto simp: job_db_attached decided_row_def)
qed

section \<open>The lifecycle of a job\<close>

text \<open>C1. In every state any sequence of uploads, completions, scans, maintenance runs,
  creations, submissions, reads and reconciliations leads to, a job that is RECEIVED has
  attachments, the file of each exists and is CLEAN, and the ORIGINAL has the digest the
  manifest named as its base.\<close>

theorem received_jobs_are_clean:
  assumes "import_inv L db" "get_job (fold (import_step L) ops db) i = Some j"
    "j_status j = IMPORT_RECEIVED"
  shows "(\<exists>a \<in> set (attachments (fold (import_step L) ops db)). a_job_id a = i)
    \<and> (\<forall>a \<in> set (attachments (fold (import_step L) ops db)). a_job_id a = i \<longrightarrow>
        (\<exists>f. get_file (fold (import_step L) ops db) (a_file_id a) = Some f \<and> f_state f = FILE_CLEAN
          \<and> (a_kind a = ORIGINAL \<longrightarrow> j_base_sha256 j \<in> {None, Some (f_sha256 f)})))"
proof -
  from import_run_evolves [of L db ops] assms(1) have inv: "import_inv L (fold (import_step L) ops db)"
    by (simp add: import_evolves_def)
  from assms(2) have "j_id j = i" "j \<in> set (jobs (fold (import_step L) ops db))"
    using get_rows_id(6) job_table.get_member by blast+
  with inv assms(3) show ?thesis
    by (auto simp: import_inv_def received_ok_def files_received_def)
qed

lemma received_jobs_are_clean_witness:
  "\<exists>a \<in> set (attachments (fold (import_step sample_lib) [Reconcile 9 id 30]
      (job_db FILE_CLEAN IMPORT_SCANNING (Some 2) (toy_digest [])))). a_job_id a = 40"
proof -
  let ?db = "job_db FILE_CLEAN IMPORT_SCANNING (Some 2) (toy_digest [])"
  have inv: "import_inv sample_lib ?db" using job_db_inv toy_digest_sha256 by simp
  obtain j where "get_job (import_step sample_lib (Reconcile 9 id 30) ?db) 40 = Some j"
    "j_status j = IMPORT_RECEIVED" using job_db_received by auto
  then show ?thesis using received_jobs_are_clean [OF inv, of "[Reconcile 9 id 30]" 40 j] by simp
qed

text \<open>C7. Whatever happens later, a job that was RECEIVED, REJECTED or put in CONFLICT is the
  same row, and a submitted job keeps the time of its submission.\<close>

theorem decided_jobs_final:
  assumes "import_inv L db" "get_job db i = Some j"
  shows "\<exists>g. get_job (fold (import_step L) ops db) i = Some g \<and> (import_terminal (j_status j) \<longrightarrow> g = j)
    \<and> (j_submitted_at j \<noteq> None \<longrightarrow> j_submitted_at g = j_submitted_at j)
    \<and> j_canonical_manifest g = j_canonical_manifest j \<and> j_project_id g = j_project_id j
    \<and> j_device_id g = j_device_id j"
proof -
  from import_run_evolves [of L db ops] assms obtain g where
    g: "get_job (fold (import_step L) ops db) i = Some g" "job_evolves L j g"
    by (auto simp: import_evolves_def jobs_evolve_def)
  with job_evolves_terminal [OF g(2)] job_evolves_submitted [OF g(2)] job_evolves_identity [OF g(2)]
  show ?thesis by auto
qed

lemma decided_jobs_final_witness:
  "\<exists>g. get_job (fold (import_step sample_lib) [Submit 9 60 device_actor 40 61, Reconcile 9 id 30]
      (job_db FILE_INFECTED IMPORT_SCANNING (Some 2) (toy_digest []))) 40 = Some g
    \<and> j_submitted_at g = Some 2"
  using decided_jobs_final [OF job_db_inv [of IMPORT_SCANNING "Some 2" "toy_digest []" FILE_INFECTED] job_db_rows(1),
    of "[Submit 9 60 device_actor 40 61, Reconcile 9 id 30]"] toy_digest_sha256 by auto

text \<open>C3. The import service refines a write-once ledger from device and idempotency key to
  the manifest fingerprint and the job status: a bound entry keeps its fingerprint and moves
  its status along the edges UPLOADING to any other status and SCANNING to a decision,
  and only a permitted creation with that key and fingerprint binds a free one, as UPLOADING.\<close>

theorem imports_refine_ledger:
  assumes "import_inv L db"
  shows "ledger_step (ledger_of db) (ledger_of (import_step L op db))
    \<and> (\<forall>k fp s. ledger_of db k = None \<longrightarrow> ledger_of (import_step L op db) k = Some (fp, s)
        \<longrightarrow> creates L op k fp \<and> s = IMPORT_UPLOADING)"
  using ledger_evolves [OF assms import_step_evolves] step_binds by blast

lemma imports_refine_ledger_witness:
  "ledger_step (ledger_of (job_db FILE_CLEAN IMPORT_SCANNING (Some 2) (toy_digest [])))
    (ledger_of (import_step sample_lib (Reconcile 9 id 30)
      (job_db FILE_CLEAN IMPORT_SCANNING (Some 2) (toy_digest []))))"
  using imports_refine_ledger [OF job_db_inv [of IMPORT_SCANNING "Some 2" "toy_digest []" FILE_CLEAN]]
    toy_digest_sha256 by blast

section \<open>Creation\<close>

text \<open>C4. Once a creation has answered, every later creation by the same device with the same
  key changes nothing and calls nothing: with a manifest of the same fingerprint it answers
  with the same job, with any other it is an idempotency conflict.\<close>

theorem create_idempotent:
  assumes "import_inv L db" "create_job L st now w a m key rid db = (Inr r, db1, calls)" "draws_evolve L w"
    and "can_create a (m_project_id m2)" "manifest_fingerprint L m2 = Inr fp2"
  shows "\<exists>q. create_job L st2 now2 w2 a m2 key rid2 (fold (import_step L) ops db1)
      = (q, fold (import_step L) ops db1, [])
    \<and> (if manifest_fingerprint L m = Inr fp2 then \<exists>r2. q = Inr r2 \<and> r_id r2 = r_id r
       else q = Inl import_idempotency_conflict)"
proof -
  from create_Inr [OF assms(2)] obtain fp j where c: "idempotency_key_ok key"
    "manifest_fingerprint L m = Inr fp" "job_by_key db1 (actor_subject a) key = Some j"
    "j_id j = r_id r" "j_manifest_fingerprint j = fp" by metis
  have inv: "import_inv L db1"
    using create_job_evolves [OF assms(2,3)] assms(1) by (simp add: import_evolves_def)
  from job_by_key_evolves [OF inv import_run_evolves c(3)] obtain g where
    g: "job_by_key (fold (import_step L) ops db1) (actor_subject a) key = Some g" "job_evolves L j g" .
  then have same: "j_id g = r_id r" "j_manifest_fingerprint g = fp"
    using job_evolves_identity [OF g(2)] c(4,5) by auto
  show ?thesis
    using create_bound [OF c(1) assms(4,5) g(1)] same c(2) by (auto simp: matching_result_def job_result_def)
qed

definition sample_manifest :: manifest where
  "sample_manifest = \<lparr>m_project_id = 10, m_local_task_id = u ''t7'', m_external_reference = None,
     m_base_sha256 = None, m_k3_result = \<lparr>k_model_label = u ''K3'',
       k_processed_at = Some \<lparr>dt_date = (2026, 7, 1), dt_hour = 8, dt_minute = 0, dt_second = 0, dt_micro = 0\<rparr>,
       k_modification_details = [], k_knowledge_points = [], k_risks = [], k_suggested_title = None,
       k_suggested_tags = []\<rparr>,
     m_attachments = [\<lparr>ad_kind = K3_RAW, ad_filename = u ''raw.json'', ad_size_bytes = 3,
       ad_sha256 = toy_digest [1, 2, 3], ad_content_type = u ''application/json''\<rparr>]\<rparr>"

section \<open>Decisions\<close>

text \<open>C5. Every outcome of submitting a job, whatever another transaction commits between the
  two transactions of the call. Without the submit scope, or for a project that is not (or no
  longer) granted, the refusal is IMPORT_SUBMIT_FORBIDDEN; for a job that does not exist, or is
  another device's, it is IMPORT_JOB_NOT_FOUND; each refusal adds one DENIED row to the log
  and changes nothing else. For the device's own job: a decided job, and a submitted one still
  being scanned, is returned as it is; an upload that is not complete is refused as
  IMPORT_ATTACHMENTS_INCOMPLETE; a clock behind the row or an event that is already logged
  fails without an effect; otherwise the job takes the verdict of its attached files, one
  SUCCESS row is logged and nothing else changes.\<close>

theorem submit_decides:
  assumes "import_inv L (race db)"
  shows "let locked = race db;
      outcome = submit L now aid race a i rid db;
      scoped = (actor_kind a = ''device'' \<and> actor_role a = None \<and> ''imports:submit'' \<in> set (actor_scopes a));
      own = (\<lambda>x. \<exists>j. get_job x i = Some j \<and> j_device_id j = actor_subject a);
      project = (\<lambda>x. map_option j_project_id (get_job x i));
      granted = (project db \<in> Some ` set (actor_projects a))
    in (\<not> scoped \<longrightarrow> refused_submission a i None import_submit_forbidden db outcome)
     \<and> (scoped \<and> \<not> own db \<longrightarrow> refused_submission a i None import_job_not_found db outcome)
     \<and> (scoped \<and> own db \<and> \<not> granted \<longrightarrow>
         refused_submission a i (project db) import_submit_forbidden db outcome)
     \<and> (scoped \<and> own db \<and> granted \<and> \<not> own locked \<longrightarrow>
         refused_submission a i None import_job_not_found locked outcome)
     \<and> (scoped \<and> own db \<and> granted \<and> own locked \<and> project locked \<noteq> project db \<longrightarrow>
         refused_submission a i (project locked) import_submit_forbidden locked outcome)
     \<and> (scoped \<and> own db \<and> granted \<and> own locked \<and> project locked = project db \<longrightarrow>
         (\<exists>j. get_job locked i = Some j \<and>
          (let files_verdict = verdict (j_base_sha256 j) (attached locked i) in
           if import_terminal (j_status j) \<or> j_status j = IMPORT_SCANNING \<and> ie_status files_verdict = IMPORT_SCANNING
           then outcome = (Inr (job_result L locked j), locked)
           else if j_status j = IMPORT_UPLOADING \<and> (\<exists>(k, f) \<in> attached locked i. f_state f = FILE_UPLOADING)
           then refused_submission a i (Some (j_project_id j)) import_attachments_incomplete locked outcome
           else if now < j_created_at j \<or> (\<exists>t. j_submitted_at j = Some t \<and> now < t)
           then outcome = (Inl (Integrity ''ck_import_jobs''), locked)
           else if event_by_key locked (transition_event_key L ''import.submit'' i files_verdict) \<noteq> None
           then outcome = (Inl (Integrity ''uq_audit_logs_event_key''), locked)
           else \<exists>db' row. outcome = (Inr (job_result L db' (decided_row now locked j)), db')
             \<and> get_job db' i = Some (decided_row now locked j) \<and> files db' = files locked
             \<and> attachments db' = attachments locked \<and> (\<forall>k. k \<noteq> i \<longrightarrow> get_job db' k = get_job locked k)
             \<and> audit_logs db' = audit_logs locked @ [row] \<and> al_outcome row = ''SUCCESS''
             \<and> al_action row = ''import.submit'' \<and> al_actor_id row = Some (actor_subject a)
             \<and> al_object_id row = Some i)))"
proof -
  let ?scoped = "actor_kind a = ''device'' \<and> actor_role a = None \<and> ''imports:submit'' \<in> set (actor_scopes a)"
  let ?own = "\<lambda>x. \<exists>j. get_job x i = Some j \<and> j_device_id j = actor_subject a"
  let ?project = "\<lambda>x. map_option j_project_id (get_job x i)"
  let ?granted = "?project db \<in> Some ` set (actor_projects a)"
  note before = submit_refused_before [where a = a and i = i and db = db and L = L and now = now
      and aid = aid and race = race and rid = rid]
  note locked = submit_refused_locked [where a = a and i = i and db = db and L = L and now = now
      and aid = aid and race = race and rid = rid]
  have decided: "\<exists>j. get_job (race db) i = Some j
      \<and> submit L now aid race a i rid db = submit_locked L now aid a rid j (race db) \<and> j_id j = i"
    if "?scoped" "?own db" "?granted" "?own (race db)" "?project (race db) = ?project db"
    using submit_entitled [where a = a and i = i and db = db and L = L and now = now and aid = aid
      and race = race and rid = rid] that get_rows_id(6) by blast
  show ?thesis
    unfolding Let_def
  proof (intro conjI impI, goal_cases)
    case 1 then show ?case by (rule before(1))
  next
    case 2 then show ?case by (intro before(2)) blast+
  next
    case 3 then show ?case by (intro before(3)) blast+
  next
    case 4 then show ?case by (intro locked(1)) blast+
  next
    case 5 then show ?case by (intro locked(2)) blast+
  next
    case 6
    then obtain j where j: "get_job (race db) i = Some j" "j_id j = i"
      "submit L now aid race a i rid db = submit_locked L now aid a rid j (race db)" using decided by blast
    then have g: "get_job (race db) (j_id j) = Some j" by simp
    show ?case
      by (rule exI [of _ j], rule conjI, rule j(1),
        rule submit_locked_decides [OF assms g, of now aid a rid, unfolded j(2), folded j(3)])
  qed
qed

lemma submit_decides_witness:
  "(\<exists>db'. submit sample_lib 9 60 id device_actor 40 61 (job_db FILE_CLEAN IMPORT_UPLOADING None (toy_digest []))
      = (Inr (job_result sample_lib db' (decided_row 9 (job_db FILE_CLEAN IMPORT_UPLOADING None (toy_digest []))
          (sample_job IMPORT_UPLOADING None (toy_digest [])))), db')
      \<and> get_job db' 40 = Some (decided_row 9 (job_db FILE_CLEAN IMPORT_UPLOADING None (toy_digest []))
          (sample_job IMPORT_UPLOADING None (toy_digest []))))
    \<and> refused_submission (device_actor\<lparr>actor_subject := 99\<rparr>) 40 None import_job_not_found
      (job_db FILE_CLEAN IMPORT_UPLOADING None (toy_digest []))
      (submit sample_lib 9 60 id (device_actor\<lparr>actor_subject := 99\<rparr>) 40 61
        (job_db FILE_CLEAN IMPORT_UPLOADING None (toy_digest [])))"
proof -
  let ?db = "job_db FILE_CLEAN IMPORT_UPLOADING None (toy_digest [])"
  have inv: "import_inv sample_lib (id ?db)" using job_db_inv toy_digest_sha256 by simp
  have da: "actor_kind device_actor = ''device''" "actor_role device_actor = None"
    "''imports:submit'' \<in> set (actor_scopes device_actor)" "actor_subject device_actor = 20"
    "actor_projects device_actor = [10]" by (simp_all add: device_actor_def)
  note d = submit_decides [where race = id and db = ?db and L = sample_lib and i = 40 and now = 9
      and aid = 60 and rid = 61, OF inv]
  from d [of device_actor]
  have "\<exists>db'. submit sample_lib 9 60 id device_actor 40 61 ?db
      = (Inr (job_result sample_lib db' (decided_row 9 ?db (sample_job IMPORT_UPLOADING None (toy_digest [])))), db')
    \<and> get_job db' 40 = Some (decided_row 9 ?db (sample_job IMPORT_UPLOADING None (toy_digest [])))"
    by (simp add: Let_def da job_db_attached import_terminal_def) blast
  moreover from d [of "device_actor\<lparr>actor_subject := 99\<rparr>"]
  have "refused_submission (device_actor\<lparr>actor_subject := 99\<rparr>) 40 None import_job_not_found ?db
      (submit sample_lib 9 60 id (device_actor\<lparr>actor_subject := 99\<rparr>) 40 61 ?db)"
    by (simp add: Let_def da)
  ultimately show ?thesis by blast
qed

text \<open>Reconciling a file decides the job it is attached to exactly when that job is
  submitted and its files give a verdict: the row then carries the verdict, no other job and
  no file changes.\<close>

theorem reconcile_decides:
  assumes "import_inv L db" "a \<in> set (attachments db)" "get_job db (a_job_id a) = Some j"
    and "j_updated_at j \<le> now"
    and "event_by_key db (transition_event_key L ''import.reconcile'' (j_id j)
      (verdict (j_base_sha256 j) (attached db (j_id j)))) = None"
  shows "\<exists>db'. reconcile_file L now aids (a_file_id a) db = (Inr (), db') \<and> files db' = files db
    \<and> get_job db' (j_id j) = Some (if j_status j = IMPORT_SCANNING
         \<and> ie_status (verdict (j_base_sha256 j) (attached db (j_id j))) \<noteq> IMPORT_SCANNING
       then decided_row now db j else j)
    \<and> (\<forall>k. k \<noteq> j_id j \<longrightarrow> get_job db' k = get_job db k)"
  using reconcile_one [OF assms] by blast

lemma reconcile_decides_witness:
  "\<exists>db'. reconcile_file sample_lib 9 id 30 (job_db FILE_INFECTED IMPORT_SCANNING (Some 2) (toy_digest [])) = (Inr (), db')
    \<and> (\<exists>j. get_job db' 40 = Some j \<and> j_status j = IMPORT_REJECTED)"
proof -
  have inv: "import_inv sample_lib (job_db FILE_INFECTED IMPORT_SCANNING (Some 2) (toy_digest []))"
    using job_db_inv toy_digest_sha256 by simp
  show ?thesis
    using reconcile_decides [OF inv job_db_attachment, of "sample_job IMPORT_SCANNING (Some 2) (toy_digest [])" 9 id]
    by (auto simp: job_db_attached decided_row_def verdict_def)
qed

section \<open>Isolation\<close>

text \<open>C8. Whatever a device is shown, submits or uploads to is a job of its own, in a project it
  is entitled to, under the scope of the operation, and the file it uploads to is the one
  of the named attachment of that very job; a refused submission or upload only writes
  the log, and a refused read adds or removes no job.\<close>

theorem device_jobs_isolated:
  "(case read_job L rd now aid aids id a i rid db of
      (Inr v, db') \<Rightarrow> \<exists>j. get_job db' i = Some j \<and> j_device_id j = actor_subject a
        \<and> device_may ''imports:read-own'' a (j_project_id j) \<and> job_view L rd db' j = Inr v
    | (Inl e, db') \<Rightarrow> keeps_keys db db')
    \<and> (case submit L now aid id a i rid db of
      (Inr r, db') \<Rightarrow> \<exists>j. get_job db i = Some j \<and> j_device_id j = actor_subject a
        \<and> device_may ''imports:submit'' a (j_project_id j) \<and> r_id r = i
    | (Inl e, db') \<Rightarrow> only_log db db')
    \<and> (case resolve_attachment_upload L aid a i k action rid db of
      (Inr t, db') \<Rightarrow> db' = db \<and> (\<exists>j. get_job db i = Some j \<and> j_device_id j = actor_subject a
        \<and> device_may ''imports:upload'' a (j_project_id j) \<and> upload_target_of db j k t)
    | (Inl e, db') \<Rightarrow> only_log db db')"
proof -
  have 1: "case read_job L rd now aid aids id a i rid db of
      (Inr v, db') \<Rightarrow> \<exists>j. get_job db' i = Some j \<and> j_device_id j = actor_subject a
        \<and> device_may ''imports:read-own'' a (j_project_id j) \<and> job_view L rd db' j = Inr v
    | (Inl e, db') \<Rightarrow> keeps_keys db db'"
  proof -
    obtain r db' where q: "read_job L rd now aid aids id a i rid db = (r, db')" by fastforce
    note k = read_keys [OF q]
    from q show ?thesis
    proof (cases rule: read_cases)
      case (shown d j)
      with q k show ?thesis by (cases "job_view L rd d j") simp_all
    qed (use q k in \<open>auto split: sum.splits\<close>)
  qed
  have 2: "case submit L now aid id a i rid db of
      (Inr r, db') \<Rightarrow> \<exists>j. get_job db i = Some j \<and> j_device_id j = actor_subject a
        \<and> device_may ''imports:submit'' a (j_project_id j) \<and> r_id r = i
    | (Inl e, db') \<Rightarrow> only_log db db'"
  proof -
    obtain r db' where q: "submit L now aid id a i rid db = (r, db')" by fastforce
    then show ?thesis
    proof (cases rule: submit_cases)
      case (denied d)
      with q show ?thesis by (cases r) auto
    next
      case (locked j)
      from locked(5) show ?thesis
      proof (cases rule: submit_locked_cases)
        case denied
        with q show ?thesis by (cases r) auto
      next
        case kept
        with q locked show ?thesis by (auto simp: job_result_def)
      next
        case moved
        with q locked show ?thesis by (auto simp: job_result_def)
      qed
    qed
  qed
  have 3: "case resolve_attachment_upload L aid a i k action rid db of
      (Inr t, db') \<Rightarrow> db' = db \<and> (\<exists>j. get_job db i = Some j \<and> j_device_id j = actor_subject a
        \<and> device_may ''imports:upload'' a (j_project_id j) \<and> upload_target_of db j k t)
    | (Inl e, db') \<Rightarrow> only_log db db'"
    by (rule resolve_isolated)
  from 1 2 3 show ?thesis by blast
qed

lemma device_jobs_isolated_witness:
  "\<exists>t db'. resolve_attachment_upload sample_lib 60 device_actor 40 50 ''import.attachment.part_url'' 61
      (job_db FILE_UPLOADING IMPORT_UPLOADING None (toy_digest [])) = (Inr t, db')
    \<and> db' = job_db FILE_UPLOADING IMPORT_UPLOADING None (toy_digest [])
    \<and> upload_target_of db' (sample_job IMPORT_UPLOADING None (toy_digest [])) 50 t"
proof -
  let ?db = "job_db FILE_UPLOADING IMPORT_UPLOADING None (toy_digest [])"
  have "resolve_attachment_upload sample_lib 60 device_actor 40 50 ''import.attachment.part_url'' 61 ?db
      = (Inr \<lparr>aut_project_id = 10, aut_upload_id = 30\<rparr>, ?db)"
    by (simp add: resolve_attachment_upload_def attachment_target_def job_db_def device_actor_def
        get_job_def get_file_def sample_job_def k3_file_def sample_file_def)
  with device_jobs_isolated [where L = sample_lib and aid = 60 and a = device_actor and i = 40 and rid = 61
      and db = ?db and k = 50 and action = "''import.attachment.part_url''"]
  show ?thesis by auto
qed

section \<open>A concrete creation\<close>

lemma sample_manifest_ascii: "ascii_json (manifest_json sample_manifest)"
  using hex_digits_ascii [of 4] dec_digits uuid_str_ascii [of 10]
  by (auto simp: manifest_json_def sample_manifest_def k3_result_json_def attachment_json_def jopt_def
      text_list_json_def u_def toy_digest_def datetime_text_def iso_date_def dec_pad_def Let_def ascii_def
      list_all_iff) fastforce+

lemma sample_manifest_size: "json_size (manifest_json sample_manifest) \<le> MANIFEST_MAX_UTF8_BYTES"
  by (simp add: manifest_json_def sample_manifest_def k3_result_json_def attachment_json_def jopt_def
      text_list_json_def u_def toy_digest_def datetime_text_def iso_date_def dec_pad_def Let_def
      uuid_str_def MANIFEST_MAX_UTF8_BYTES_def int_text_def dec.simps)

lemma sample_bytes:
  "\<exists>b. manifest_bytes sample_lib (u '','') (u '':'') sample_manifest = Inr b \<and> length b \<le> MANIFEST_MAX_UTF8_BYTES"
  "\<exists>b. manifest_bytes sample_lib (u '', '') (u '': '') sample_manifest = Inr b \<and> length b \<le> MANIFEST_MAX_UTF8_BYTES"
  unfolding manifest_bytes_def
  by (rule exE [OF json_bytes_ascii [OF sample_manifest_ascii, of "u '',''" "u '':''" sample_lib]],
      simp_all add: u_def, use sample_manifest_size in force,
      rule exE [OF json_bytes_ascii [OF sample_manifest_ascii, of "u '', ''" "u '': ''" sample_lib]],
      simp_all add: u_def, use sample_manifest_size in force)

lemma sample_manifest_fingerprint:
  "\<exists>fp. manifest_fingerprint sample_lib sample_manifest = Inr fp \<and> sha256_text fp"
  using sample_bytes(1) toy_digest_sha256
  by (auto simp: manifest_fingerprint_def canonical_manifest_bytes_def)

lemma strip_chars_clean: "list_all (\<lambda>c. \<not> P c) s \<Longrightarrow> strip_chars P s = s"
proof -
  have d: "dropWhile P t = t" if "list_all (\<lambda>c. \<not> P c) t" for t
    using that by (cases t) simp_all
  assume s: "list_all (\<lambda>c. \<not> P c) s"
  then have "list_all (\<lambda>c. \<not> P c) (rev s)" by (simp add: list_all_iff)
  with s d show ?thesis by (simp add: strip_chars_def)
qed

lemma toy_digest_strip: "strip_chars (white_space sample_lib) (toy_digest bs) = toy_digest bs"
proof (rule strip_chars_clean)
  have "list_all lower_hex (toy_digest bs)" using toy_digest_sha256 by (simp add: sha256_text_def)
  then show "list_all (\<lambda>c. \<not> white_space sample_lib c) (toy_digest bs)"
    by (auto simp: list_all_iff lower_hex_def sample_lib_def)
qed

lemma sample_manifest_valid: "import_job_create sample_lib sample_manifest = Inr sample_manifest"
proof -
  obtain b1 b2 where b: "manifest_bytes sample_lib (u '','') (u '':'') sample_manifest = Inr b1"
    "length b1 \<le> MANIFEST_MAX_UTF8_BYTES"
    "manifest_bytes sample_lib (u '', '') (u '': '') sample_manifest = Inr b2" "length b2 \<le> MANIFEST_MAX_UTF8_BYTES"
    using sample_bytes by blast
  have n: "normalize_manifest sample_lib sample_manifest = Inr sample_manifest"
    using b by (simp add: normalize_manifest_def sample_manifest_def)
  have t: "text_field sample_lib False n s = Inr s"
    if "list_all (\<lambda>c. 32 < c \<and> c < 127) s" "1 \<le> length s" "length s \<le> n" for n s
  proof -
    have "list_all (\<lambda>c. \<not> white_space sample_lib c) s" "reject_controls False s"
      using that(1) by (auto simp: list_all_iff sample_lib_def reject_controls_def)
    with that strip_chars_clean [OF this(1)] show ?thesis
      by (simp add: text_field_def normalize_text_def sample_lib_def Let_def)
  qed
  have task: "text_field sample_lib False 255 (u ''t7'') = Inr (u ''t7'')"
    "text_field sample_lib False 128 (u ''K3'') = Inr (u ''K3'')"
    "text_field sample_lib False 1024 (u ''raw.json'') = Inr (u ''raw.json'')"
    by (rule t; simp add: u_def)+
  have sha: "match_field sample_lib sha256_text (toy_digest bs) = Inr (toy_digest bs)" for bs
    using toy_digest_strip toy_digest_sha256 by (simp add: match_field_def Let_def)
  have "strip_chars (white_space sample_lib) (u ''application/json'') = u ''application/json''"
    by (rule strip_chars_clean) (simp add: u_def sample_lib_def)
  then have mime: "match_field sample_lib (\<lambda>t. length t \<le> 255 \<and> mime_type t) (u ''application/json'')
      = Inr (u ''application/json'')"
    by (simp add: match_field_def Let_def) (simp add: u_def mime_type_def mime_char_def)
  show ?thesis
    using n by (simp add: import_job_create_def sample_manifest_def optional_field_def k3_result_schema_def
        attachment_schema_def sha task mime)
qed

definition device_row :: device_connection where
  "device_row = \<lparr>d_id = 20, d_owner_id = 11, d_name = u ''Desk'', d_paired_at = 0, d_last_used_at = None,
     d_revoked_at = None\<rparr>"

definition device_db :: db where
  "device_db = sample_db\<lparr>devices := [device_row]\<rparr>"

definition sample_draws :: create_draws where
  "sample_draws = \<lparr>dr_file_id = \<lambda>k. 31, dr_race = \<lambda>k. id, dr_race2 = \<lambda>k. id, dr_job_id = 40,
     dr_attachment_id = \<lambda>k. 50, dr_audit_id = 60, dr_before_persist = id, dr_before_insert = id\<rparr>"

abbreviation sample_creation where
  "sample_creation \<equiv> create_job sample_lib sample_storage 5 (alone sample_draws) device_actor sample_manifest
     (u ''task-7'') 61 device_db"

lemma device_db_inv: "import_inv sample_lib device_db"
  by (simp add: import_inv_def imports_ok_def received_ok_def device_db_def sample_db_def empty_db_def)

text \<open>The upload of its attachment, and the rows of its creation.\<close>

definition sample_upload :: upload_start where
  "sample_upload = \<lparr>us_project_id = 10, us_filename = u ''raw.json'', us_size_bytes = 3,
     us_sha256 = toy_digest [1, 2, 3], us_category = u ''kimi-imports'', us_file_date = (2026, 7, 1),
     us_content_type = u ''application/json''\<rparr>"

lemma sample_upload_command: "upload_command sample_lib sample_manifest (hd (m_attachments sample_manifest)) = Some sample_upload"
proof -
  have "mime_type (u ''application/json'')" by (simp add: u_def mime_type_def mime_char_def)
  moreover have "nonblank_text sample_lib (u ''raw.json'')" "nonblank_text sample_lib (u ''kimi-imports'')"
    by (simp_all add: nonblank_text_def u_def strip_chars_def control_def)
  ultimately show ?thesis
    using toy_digest_sha256
    by (simp add: upload_command_def sample_manifest_def sample_upload_def upload_start_schema_def Let_def)
      (simp add: u_def)
qed

lemma sample_upload_fingerprint: "\<exists>fp. fingerprint sample_lib sample_upload = Some fp \<and> sha256_text fp"
proof -
  have "\<not> list_ex surrogate (fingerprint_material sample_upload)"
    using dec_digits hex_digits_ascii [of 4]
    by (auto simp: list_all_iff fingerprint_material_def sample_upload_def toy_digest_def u_def surrogate_def
        iso_date_def dec_pad_def int_text_def list_ex_iff hex_char_def Let_def) fastforce+
  then show ?thesis
    using toy_digest_sha256 by (auto simp: fingerprint_def utf8_encode_def)
qed

lemma sample_child_key: "\<exists>k. child_idempotency_key sample_lib 20 (u ''task-7'') K3_RAW = Some k
    \<and> idempotency_key_ok k"
proof -
  have "list_all (\<lambda>c. c < 128) (uuid_str 20 @ [31] @ u ''task-7'' @ [31] @ u ''K3_RAW'')"
    using uuid_str_ascii [of 20] by (simp add: ascii_def u_def)
  then have e: "utf8_encode (uuid_str 20 @ [31] @ u ''task-7'' @ [31] @ u ''K3_RAW'')
      = Some (uuid_str 20 @ [31] @ u ''task-7'' @ [31] @ u ''K3_RAW'')" by (rule utf8_ascii)
  have "idempotency_key_ok (u ''import-'' @ toy_digest bs)" for bs
    using toy_digest_sha256 [of bs]
    by (auto simp: idempotency_key_ok_def sha256_text_def printable_def lower_hex_def list_all_iff u_def)
  with e show ?thesis by (simp add: child_idempotency_key_def)
qed

lemma sample_upload_starts:
  "\<exists>f calls d. start_import_upload sample_lib sample_storage 5 31 id id device_actor sample_upload k device_db
     = (Inr f, d, calls) \<and> d = device_db\<lparr>files := [f\<lparr>f_updated_at := 5\<rparr>]\<rparr> \<and> f_id f = 31 \<and> f_project_id f = 10"
  if k: "idempotency_key_ok k" for k
proof -
  obtain fp where fp: "fingerprint sample_lib sample_upload = Some fp" "sha256_text fp"
    using sample_upload_fingerprint by blast
  have key: "object_key sample_lib sample_upload 31 \<noteq> []" by (simp add: object_key_def u_def)
  have "k \<noteq> []" using k by (auto simp: idempotency_key_ok_def)
  then show ?thesis
    using fp key k toy_digest_sha256
    by (simp add: start_import_upload_def device_actor_def
        start_upload_row_def Let_def file_by_idempotency_def device_db_def sample_db_def empty_db_def
        insert_file_def file_checks_def get_file_def get_project_def project_row_def
        provision_upload_def sample_storage_def write_file_def put_file_def sample_upload_def)
qed

lemma sample_creation_runs: "\<exists>r db1 calls. sample_creation = (Inr r, db1, calls)"
proof -
  obtain fp where fp: "manifest_fingerprint sample_lib sample_manifest = Inr fp" "sha256_text fp"
    using sample_manifest_fingerprint by blast
  obtain k where k: "child_idempotency_key sample_lib 20 (u ''task-7'') K3_RAW = Some k" "idempotency_key_ok k"
    using sample_child_key by blast
  obtain f calls d where up: "start_import_upload sample_lib sample_storage 5 31 id id device_actor sample_upload k device_db
     = (Inr f, d, calls)" "d = device_db\<lparr>files := [f\<lparr>f_updated_at := 5\<rparr>]\<rparr>" "f_id f = 31" "f_project_id f = 10"
    using sample_upload_starts [OF k(2)] by blast
  have att: "m_attachments sample_manifest = [hd (m_attachments sample_manifest)]"
    "ad_kind (hd (m_attachments sample_manifest)) = K3_RAW" by (simp_all add: sample_manifest_def)
  have al: "dr_race (upload_draws.truncate (alone sample_draws)) x = id"
    "dr_race2 (upload_draws.truncate (alone sample_draws)) x = id"
    "dr_file_id (upload_draws.truncate (alone sample_draws)) x = 31"
    "dr_job_id (alone sample_draws) = 40" "dr_attachment_id (alone sample_draws) x = 50"
    "dr_before_persist (alone sample_draws) = id" "dr_before_insert (alone sample_draws) = id" for x
    by (simp_all add: alone_def upload_draws.truncate_def sample_draws_def)
  have sub: "actor_subject device_actor = 20" by (simp add: device_actor_def)
  have ups: "start_uploads sample_lib sample_storage 5 (upload_draws.truncate (alone sample_draws)) device_actor
      sample_manifest (u ''task-7'') (m_attachments sample_manifest) device_db = (Inr [f], d, calls)"
    by (subst att(1)) (simp add: att(2) al sub sample_upload_command k(1) up(1))
  let ?j = "new_job 5 40 device_actor sample_manifest (u ''task-7'') fp"
  obtain b where b: "manifest_bytes sample_lib (u '', '') (u '': '') sample_manifest = Inr b"
    "length b \<le> MANIFEST_MAX_UTF8_BYTES" using sample_bytes by blast
  have m: "manifest_object sample_lib (manifest_json sample_manifest)"
    using sample_manifest_ascii sample_manifest_size unfolding manifest_json_def by (intro stored_object [OF _ refl])
  have checks: "import_job_checks sample_lib ?j"
    using m fp(2) by (simp add: import_job_checks_def new_job_def sample_manifest_def submission_state_def
        result_state_def job_time_order_def)
  have ins: "insert_job sample_lib ?j d = Inr (d\<lparr>jobs := [?j]\<rparr>)"
    using checks by (simp add: insert_job_def up(2) device_db_def sample_db_def empty_db_def get_job_def
        job_by_key_def get_device_row_def get_project_def device_row_def project_row_def new_job_def
        device_actor_def sample_manifest_def)
  have rows: "attachment_rows (dr_attachment_id (alone sample_draws)) ?j sample_manifest [f]
      = [\<lparr>a_id = 50, a_job_id = 40, a_project_id = 10, a_file_id = 31, a_upload_id = 31, a_kind = K3_RAW\<rparr>]"
    by (subst attachment_rows_def, subst att(1)) (simp add: al att(2) up(3) new_job_def sample_manifest_def)
  have fine: "\<exists>d3. insert_attachments [\<lparr>a_id = 50, a_job_id = 40, a_project_id = 10, a_file_id = 31,
      a_upload_id = 31, a_kind = K3_RAW\<rparr>] (d\<lparr>jobs := [?j]\<rparr>) = Inr d3 \<and> audit_logs d3 = []"
    by (simp add: insert_attachment_def up(2-4) device_db_def sample_db_def empty_db_def get_job_def
        get_file_def new_job_def sample_manifest_def)
  then obtain d3 where d3: "insert_attachments [\<lparr>a_id = 50, a_job_id = 40, a_project_id = 10, a_file_id = 31,
      a_upload_id = 31, a_kind = K3_RAW\<rparr>] (d\<lparr>jobs := [?j]\<rparr>) = Inr d3" "audit_logs d3 = []" by blast
  have aud: "\<exists>x. insert_audit row d3 = Inr x" for row
    using d3(2) by (simp add: insert_audit_def event_by_key_def split: option.splits)
  have none: "job_by_key d 20 (u ''task-7'') = None" "job_by_key device_db 20 (u ''task-7'') = None"
    by (simp_all add: up(2) job_by_key_def device_db_def sample_db_def empty_db_def)
  have len: "length (m_attachments sample_manifest) = length [f]" by (simp add: sample_manifest_def)
  have "\<exists>r db1. persist_job sample_lib 5 40 (dr_attachment_id (alone sample_draws)) (dr_audit_id (alone sample_draws))
      id device_actor sample_manifest (u ''task-7'') fp [f] 61 d = (Inr r, db1)"
    using aud [of "create_audit sample_lib (dr_audit_id (alone sample_draws)) device_actor 61 ?j
        (attachment_rows (dr_attachment_id (alone sample_draws)) ?j sample_manifest [f])"]
    unfolding persist_job_def Let_def id_apply sub none(1) ins option.case sum.case rows d3(1) len
    by (elim exE) (simp only: not_True_eq_False if_False simp_thms sum.case, blast)
  moreover have "idempotency_key_ok (u ''task-7'')" by (simp add: idempotency_key_ok_def printable_def u_def)
  moreover have "can_create device_actor (m_project_id sample_manifest)"
    by (simp add: can_create_def device_actor_def sample_manifest_def)
  ultimately show ?thesis using fp(1) none(2) ups by (auto simp: create_job_def al sub)
qed

section \<open>Round trip of the manifest\<close>

text \<open>C6. A created job shows the manifest it was created from: the view that reads the stored JSON
  back has the normalized K3 result, the project, identifiers and base digest of the
  request, is UPLOADING, and has one attachment of every declared kind.  Normalization is
  stable under a second NFC pass, and reading back inverts the JSON of a manifest.\<close>

theorem created_job_shows_manifest:
  assumes "import_inv L db" "import_job_create L body = Inr m" "\<forall>t \<in> normalized_texts m. nfc L t = t"
    and "rd (manifest_json m) = Some m" "job_by_key db (actor_subject a) key = None"
    and "create_job L st now (alone w) a m key rid db = (Inr r, db', calls)"
  shows "\<exists>v. view_job L rd db' (r_id r) = Inr v \<and> v_k3_result v = m_k3_result m
    \<and> v_project_id v = m_project_id m \<and> v_local_task_id v = m_local_task_id m
    \<and> v_external_reference v = m_external_reference m \<and> v_base_sha256 v = m_base_sha256 m
    \<and> v_status v = IMPORT_UPLOADING \<and> v_result_code v = None
    \<and> mset (map av_kind (v_attachments v)) = mset (map ad_kind (m_attachments m))"
proof -
  from create_Inr [OF assms(6)] obtain fp where c: "idempotency_key_ok key" "can_create a (m_project_id m)"
    "manifest_fingerprint L m = Inr fp" by metis
  let ?w = "upload_draws.truncate (alone w)"
  have al: "dr_race ?w k = id" "dr_race2 ?w k = id" "dr_before_persist (alone w) = id"
    "dr_before_insert (alone w) = id" for k
    by (simp_all add: alone_def upload_draws.truncate_def)
  obtain q d1 c1 where q: "start_uploads L st now ?w a m key (m_attachments m) db = (q, d1, c1)"
    by (metis prod_cases3)
  with assms(5,6) c al obtain uploads where q2: "q = Inr uploads"
    "persist_job L now (dr_job_id (alone w)) (dr_attachment_id (alone w)) (dr_audit_id (alone w)) id a m key
       fp uploads rid d1 = (Inr r, db')"
    by (cases q) (auto simp: create_job_def split: prod.splits)
  have inv1: "import_inv L d1" using evo.start_uploads_R [OF q, of L] al assms(1) by (simp add: import_evolves_def)
  have free: "job_by_key d1 (actor_subject a) key = None"
    using keys.start_uploads_R [OF q] al job_by_key_keys [of db d1] assms(5) by simp
  have inv: "import_inv L db'"
    using persist_evolves [OF q2(2), of] inv1 by (simp add: import_evolves_def)
  note f = persist_fresh [OF q2(2) free]
  let ?j = "new_job now (dr_job_id (alone w)) a m key fp"
  have sm: "stored_manifest L rd ?j = Inr m"
    using assms(4) import_job_create_fixed [OF assms(2,3)] by (simp add: stored_manifest_def new_job_def)
  have ok: "imports_ok L db'" "imports_ok L d1" using inv inv1 by (simp_all add: import_inv_def)
  have kinds: "mset (map a_kind (attachments_of L db' (dr_job_id (alone w)))) = mset (map ad_kind (m_attachments m))"
    using new_attachment_kinds [OF ok(2) f(2,4,5)] by (simp add: new_job_def)
  have id: "j_id ?j = dr_job_id (alone w)" by (simp add: new_job_def)
  have "view_job L rd db' (r_id r) = job_view L rd db' ?j" using f(1,3) by (simp add: view_job_def)
  also note job_view_ok [OF ok(1) sm]
  finally have v: "view_job L rd db' (r_id r) = Inr (render_job ?j (m_k3_result m)
      (map (\<lambda>x. attachment_view x (f_state (the (get_file db' (a_file_id x)))))
        (attachments_of L db' (dr_job_id (alone w)))))" by (simp add: id)
  have k: "map av_kind (map (\<lambda>x. attachment_view x (g x)) xs) = map a_kind xs" for g xs
    by (simp add: attachment_view_def comp_def)
  show ?thesis
    by (rule exI, rule conjI, rule v) (simp add: render_job_def k kinds [unfolded mset_map] new_job_def del: map_map)
qed

lemma created_job_shows_manifest_witness:
  "\<exists>r db1 calls v. sample_creation = (Inr r, db1, calls)
    \<and> view_job sample_lib (\<lambda>v. Some sample_manifest) db1 (r_id r) = Inr v
    \<and> v_k3_result v = m_k3_result sample_manifest \<and> map av_kind (v_attachments v) = [K3_RAW]"
proof -
  obtain r db1 calls where c: "sample_creation = (Inr r, db1, calls)" using sample_creation_runs by blast
  have n: "\<forall>t \<in> normalized_texts sample_manifest. nfc sample_lib t = t" by (simp add: sample_lib_def)
  have k: "job_by_key device_db (actor_subject device_actor) (u ''task-7'') = None"
    by (simp add: job_by_key_def device_db_def sample_db_def empty_db_def)
  from created_job_shows_manifest [OF device_db_inv sample_manifest_valid n refl k c] obtain v where
    v: "view_job sample_lib (\<lambda>v. Some sample_manifest) db1 (r_id r) = Inr v"
    "v_k3_result v = m_k3_result sample_manifest"
    "mset (map av_kind (v_attachments v)) = mset (map ad_kind (m_attachments sample_manifest))" by blast
  have "mset (map av_kind (v_attachments v)) = {#K3_RAW#}" using v(3) by (simp add: sample_manifest_def)
  then have "map av_kind (v_attachments v) = [K3_RAW]" by (metis mset_single_iff)
  with c v(1,2) show ?thesis by (intro exI conjI)
qed

lemma create_idempotent_witness:
  "\<exists>r db1 calls q. sample_creation = (Inr r, db1, calls)
    \<and> create_job sample_lib sample_storage 9 sample_draws device_actor sample_manifest (u ''task-7'') 62
        (fold (import_step sample_lib) [OnFiles (RecoverStale 8 (3 * day) 10)] db1)
      = (q, fold (import_step sample_lib) [OnFiles (RecoverStale 8 (3 * day) 10)] db1, [])
    \<and> (\<exists>r2. q = Inr r2 \<and> r_id r2 = r_id r)"
proof -
  obtain r db1 calls where c: "sample_creation = (Inr r, db1, calls)" using sample_creation_runs by blast
  obtain fp where fp: "manifest_fingerprint sample_lib sample_manifest = Inr fp"
    using sample_manifest_fingerprint by blast
  have may: "can_create device_actor (m_project_id sample_manifest)"
    by (simp add: can_create_def device_actor_def sample_manifest_def)
  from create_idempotent [OF device_db_inv c alone_evolves may fp, of sample_storage 9 sample_draws 62
      "[OnFiles (RecoverStale 8 (3 * day) 10)]"] fp c
  show ?thesis by auto
qed

section \<open>From the scanner to the job\<close>

text \<open>The job a delivered scan leaves carries the verdict of the scanned row and the rows of
  the job's other attachments.\<close>

lemma scan_delivery:
  assumes "import_inv L db" "get_file db (a_file_id a) = Some f" "f_state f = FILE_QUARANTINED"
    and "a \<in> set (attachments db)" "get_job db (a_job_id a) = Some j" "j_status j = IMPORT_SCANNING"
    and "run \<noteq> ScanInterrupted" "j_updated_at j \<le> settle"
    and "\<And>ev. event_by_key db (transition_event_key L ''import.reconcile'' (j_id j) ev) = None"
  shows "\<exists>db2 calls g. execute_file_scan L now later settle run id aids (a_file_id a) db = (Inr (), db2, calls)
    \<and> get_job db2 (a_job_id a) = Some g
    \<and> (let o1 = scan_result_of L (f_sha256 f) run;
           all = verdict (j_base_sha256 j) (insert
             (a_kind a, f\<lparr>f_state := fst o1, f_updated_at := later, f_scan_result := Some (snd o1)\<rparr>)
             {(a_kind b, h) | b h. (b, h) \<in> {(b, h). b \<in> set (attachments db) \<and> a_job_id b = a_job_id a
               \<and> get_file db (a_file_id b) = Some h} \<and> b \<noteq> a})
       in (j_status g, j_result_code g) = (ie_status all, ie_result_code all))"
proof -
  let ?i = "a_file_id a" and ?o = "scan_result_of L (f_sha256 f) run"
  let ?job_files = "{(b, h). b \<in> set (attachments db) \<and> a_job_id b = a_job_id a
    \<and> get_file db (a_file_id b) = Some h}"
  let ?O = "{(a_kind b, h) | b h. (b, h) \<in> ?job_files \<and> b \<noteq> a}"
  let ?f = "f\<lparr>f_state := fst ?o, f_updated_at := later, f_scan_result := Some (snd ?o)\<rparr>"
  obtain db1 calls where s: "scan_file L now later run id ?i db = (db1, calls)" by fastforce
  have f': "get_file db1 ?i = Some ?f" using scan_outcome(1) [OF assms(2,3,7), of L now later] s by simp
  note fr = scan_frame [OF s]
  have inv: "import_inv L db1" using evo.scan [OF s, of L] assms(1) by (simp add: import_evolves_def)
  have mem: "a \<in> set (attachments db1)" and job: "get_job db1 (a_job_id a) = Some j"
    and ids: "j_id j = a_job_id a"
    using assms(4,5) fr get_rows_id(6) [OF assms(5)] by (simp_all add: get_job_def)
  let ?V = "verdict (j_base_sha256 j) (attached db1 (j_id j))"
  have ev: "event_by_key db1 (transition_event_key L ''import.reconcile'' (j_id j) ?V) = None"
    using assms(9) fr by (simp add: event_by_key_def)
  from reconcile_one [OF inv mem job assms(8) ev, of aids] obtain db2 where
    r: "reconcile_file L settle aids ?i db1 = (Inr (), db2)"
      "get_job db2 (j_id j) = Some (if ie_status ?V \<noteq> IMPORT_SCANNING then decided_row settle db1 j else j)"
    using assms(6) by auto
  have run: "execute_file_scan L now later settle run id aids ?i db = (Inr (), db2, calls)"
    using assms(7) s r(1) by (simp add: execute_file_scan_def)
  let ?g = "if ie_status ?V \<noteq> IMPORT_SCANNING then decided_row settle db1 j else j"
  have g: "(j_status ?g, j_result_code ?g) = (ie_status ?V, ie_result_code ?V)"
    using scanning_no_code [OF assms(1,5,6)] assms(6) verdict_shape [of "j_base_sha256 j" "attached db1 (j_id j)"]
    by (auto simp: decided_row_def move_job_def)
  have V: "?V = verdict (j_base_sha256 j) (insert (a_kind a, ?f) ?O)"
    using attached_after [OF assms(1,4), of db1 ?f] f' fr ids by (auto simp: attached_def)
  have "get_job db2 (a_job_id a) = Some ?g" using r(2) ids by simp
  with run g show ?thesis unfolding Let_def V [symmetric] by blast
qed

text \<open>C2. Delivering the scan of a quarantined file of a submitted job leaves the job in
  exactly this state: rejected as ATTACHMENT_INFECTED when this file or another file of
  the job is infected; otherwise rejected as ATTACHMENT_SCAN_FAILED when this scan failed
  (digest mismatch, scanner error or exception) or another file has; otherwise still
  SCANNING while another file is not clean; otherwise, every file clean, in conflict as
  BASE_SHA256_MISMATCH when the job names a base digest that its original file does not
  have, and received when it does or names none. Infected bytes count only under the
  declared digest.\<close>

theorem scan_settles_import:
  assumes "import_inv L db" "get_file db (a_file_id a) = Some f" "f_state f = FILE_QUARANTINED"
    and "a \<in> set (attachments db)" "get_job db (a_job_id a) = Some j" "j_status j = IMPORT_SCANNING"
    and "run \<noteq> ScanInterrupted" "j_updated_at j \<le> settle"
    and "\<And>ev. event_by_key db (transition_event_key L ''import.reconcile'' (j_id j) ev) = None"
  shows "\<exists>db2 calls g. execute_file_scan L now later settle run id aids (a_file_id a) db = (Inr (), db2, calls)
    \<and> get_job db2 (a_job_id a) = Some g
    \<and> (let scanned = (case run of
             Scanned pulled answer \<Rightarrow>
               if sha256_hex L pulled \<noteq> f_sha256 f then FILE_FAILED
               else (case answer of VERDICT_CLEAN \<Rightarrow> FILE_CLEAN | VERDICT_INFECTED s \<Rightarrow> FILE_INFECTED
                 | VERDICT_ERROR \<Rightarrow> FILE_FAILED)
           | _ \<Rightarrow> FILE_FAILED);
           job_files = {(b, h). b \<in> set (attachments db) \<and> a_job_id b = a_job_id a
             \<and> get_file db (a_file_id b) = Some h};
           other_states = {f_state h | b h. (b, h) \<in> job_files \<and> b \<noteq> a}
       in (j_status g, j_result_code g) =
           (if scanned = FILE_INFECTED \<or> FILE_INFECTED \<in> other_states
            then (IMPORT_REJECTED, Some ''ATTACHMENT_INFECTED'')
            else if scanned = FILE_FAILED \<or> FILE_FAILED \<in> other_states
            then (IMPORT_REJECTED, Some ''ATTACHMENT_SCAN_FAILED'')
            else if \<exists>s \<in> other_states. s \<noteq> FILE_CLEAN
            then (IMPORT_SCANNING, None)
            else if \<exists>base. j_base_sha256 j = Some base
              \<and> (\<exists>(b, h) \<in> job_files. a_kind b = ORIGINAL \<and> f_sha256 h \<noteq> base)
            then (IMPORT_CONFLICT, Some ''BASE_SHA256_MISMATCH'')
            else (IMPORT_RECEIVED, None)))"
proof -
  let ?o = "scan_result_of L (f_sha256 f) run"
  let ?job_files = "{(b, h). b \<in> set (attachments db) \<and> a_job_id b = a_job_id a
    \<and> get_file db (a_file_id b) = Some h}"
  let ?others = "{f_state h | b h. (b, h) \<in> ?job_files \<and> b \<noteq> a}"
  let ?O = "{(a_kind b, h) | b h. (b, h) \<in> ?job_files \<and> b \<noteq> a}"
  let ?f = "f\<lparr>f_state := fst ?o, f_updated_at := later, f_scan_result := Some (snd ?o)\<rparr>"
  let ?all = "verdict (j_base_sha256 j) (insert (a_kind a, ?f) ?O)"
  have sts: "(\<exists>(l, h) \<in> ?O. f_state h = s) \<longleftrightarrow> s \<in> ?others"
    "(\<exists>(l, h) \<in> ?O. f_state h \<noteq> s) \<longleftrightarrow> (\<exists>t \<in> ?others. t \<noteq> s)" for s by auto
  have base: "(\<exists>(l, h) \<in> insert (a_kind a, ?f) ?O. l = ORIGINAL \<and> f_sha256 h \<noteq> base)
     \<longleftrightarrow> (\<exists>(b, h) \<in> ?job_files. a_kind b = ORIGINAL \<and> f_sha256 h \<noteq> base)" for base
  proof -
    have one: "(a, h) \<in> ?job_files \<longleftrightarrow> h = f" for h using assms(2,4) by auto
    show ?thesis
      by (rule bex_insert_others [where Q = "\<lambda>l h. l = ORIGINAL \<and> f_sha256 h \<noteq> base" and k = a_kind, OF one]) simp
  qed
  have "(ie_status ?all, ie_result_code ?all) = (if fst ?o = FILE_INFECTED \<or> FILE_INFECTED \<in> ?others
            then (IMPORT_REJECTED, Some ''ATTACHMENT_INFECTED'')
            else if fst ?o = FILE_FAILED \<or> FILE_FAILED \<in> ?others
            then (IMPORT_REJECTED, Some ''ATTACHMENT_SCAN_FAILED'')
            else if \<exists>s \<in> ?others. s \<noteq> FILE_CLEAN
            then (IMPORT_SCANNING, None)
            else if \<exists>base. j_base_sha256 j = Some base
              \<and> (\<exists>(b, h) \<in> ?job_files. a_kind b = ORIGINAL \<and> f_sha256 h \<noteq> base)
            then (IMPORT_CONFLICT, Some ''BASE_SHA256_MISMATCH'')
            else (IMPORT_RECEIVED, None))"
  proof -
    have t: "f_state ?f \<in> {FILE_INFECTED, FILE_FAILED, FILE_CLEAN}" and st: "f_state ?f = fst ?o"
      using scan_result_terminal [of L "f_sha256 f" run] by (auto simp: file_terminal_def)
    from verdict_outcome [where D = "\<lambda>base. \<exists>(b, h) \<in> ?job_files. a_kind b = ORIGINAL \<and> f_sha256 h \<noteq> base",
        OF t sts(1) sts(1) sts(2) base, of "j_base_sha256 j"]
    show ?thesis unfolding st .
  qed
  with scan_delivery [OF assms, of now later aids] show ?thesis
    unfolding Let_def scan_result_state [OF assms(7), of L "f_sha256 f", symmetric] by (simp only:)
qed

lemma scan_settles_import_witness:
  "\<exists>db2 calls g. execute_file_scan sample_lib 5 6 7 (Scanned [1, 2, 3] (VERDICT_INFECTED (Some (u ''Eicar'')))) id id 30
      (job_db FILE_QUARANTINED IMPORT_SCANNING (Some 2) (toy_digest [])) = (Inr (), db2, calls)
    \<and> get_job db2 40 = Some g \<and> j_status g = IMPORT_REJECTED"
proof -
  have inv: "import_inv sample_lib (job_db FILE_QUARANTINED IMPORT_SCANNING (Some 2) (toy_digest []))"
    using job_db_inv toy_digest_sha256 by simp
  show ?thesis
    using scan_settles_import [OF inv _ _ job_db_attachment, of "k3_file FILE_QUARANTINED"
        "sample_job IMPORT_SCANNING (Some 2) (toy_digest [])"
        "Scanned [1, 2, 3] (VERDICT_INFECTED (Some (u ''Eicar'')))" 7 5 6 id] by auto
qed

end
