(* ===== verification/Connector.thy ===== *)
theory Connector
  imports Manifest
begin

text \<open>
  The connector (\<open>superboss_connector\<close>): its data, the record \<open>world\<close> of the answers it
  gets from outside, the record \<open>conn\<close> of what it keeps (the state files of one origin, the
  keyring entry, the lines printed, the requests sent, the packaged executable and its two
  neighbours), and commands over that state.

  Every call that leaves the process asks \<open>world\<close> for the answer of its number and counts up
  \<open>c_tick\<close>, so two calls never share an answer and a theorem over all worlds covers every file
  system, network and server, also the world in which everything fails from some call on (a
  crash).  Reading JSON into typed fields is pydantic's; \<open>conn_lib\<close> holds these readers and
  the library functions the connector calls.
\<close>

section \<open>Errors\<close>

datatype cerror = ConnectorError nat string | Uncaught string
type_synonym 'a cresult = "cerror + 'a"

definition INVALID_INPUT :: string where "INVALID_INPUT = ''Input validation failed.''"
definition OUTBOX_BUSY :: string where
  "OUTBOX_BUSY = ''Another operation is active; retry this command shortly.''"
definition OUTBOX_CONFLICT :: string where
  "OUTBOX_CONFLICT = ''An unfinished operation exists; run retry first.''"
definition OUTBOX_INVALID :: string where "OUTBOX_INVALID = ''Local recovery state is invalid.''"
definition PAIR_INCOMPLETE :: string where
  "PAIR_INCOMPLETE = ''Pairing is incomplete; locally rerun superboss pair --server <ORIGIN> --code <ONE_TIME_CODE> --name <DEVICE_NAME> with a valid one-time code.''"
definition PAIR_TEMPORARY_FAILURE :: string where
  "PAIR_TEMPORARY_FAILURE = ''Pairing did not finish; locally rerun superboss pair --server <ORIGIN> --code <ONE_TIME_CODE> --name <DEVICE_NAME> with a valid one-time code.''"
definition CREDENTIAL_ERROR :: string where
  "CREDENTIAL_ERROR = ''Device credentials are unavailable or invalid.''"
definition FILE_CHANGED :: string where
  "FILE_CHANGED = ''A local attachment changed; submit a new result package.''"
definition SERVER_REJECTED :: string where "SERVER_REJECTED = ''The server rejected the operation.''"
definition TEMPORARY_FAILURE :: string where
  "TEMPORARY_FAILURE = ''The operation could not finish; run retry.''"

section \<open>The local envelope\<close>

type_synonym path = "ustr list"  \<comment> \<open>the parts of a resolved absolute path\<close>

record local_attachment =
  la_kind :: attachment_kind
  la_path :: ustr
  la_content_type :: "ustr option"

record local_manifest =
  lm_idempotency_key :: ustr
  lm_project_id :: uuid
  lm_local_task_id :: ustr
  lm_external_reference :: "ustr option"
  lm_base_sha256 :: "ustr option"
  lm_k3_result :: k3_result
  lm_attachments :: "local_attachment list"

record prepared_attachment =
  pa_kind :: attachment_kind
  pa_path :: path
  pa_filename :: ustr
  pa_size_bytes :: nat
  pa_sha256 :: ustr
  pa_part_sha256s :: "ustr list"
  pa_content_type :: ustr

record prepared_manifest =
  pr_path :: path
  pr_idempotency_key :: ustr
  pr_server :: manifest
  pr_attachments :: "prepared_attachment list"
  pr_fingerprint :: ustr

section \<open>The recovery state\<close>

datatype phase = PHASE_CREATE | PHASE_UPLOAD | PHASE_SUBMIT | PHASE_EVIDENCE

record completed_part =
  cp_part_number :: nat
  cp_etag :: ustr

record attachment_state =
  as_kind :: attachment_kind
  as_path :: ustr
  as_filename :: ustr
  as_size_bytes :: nat
  as_sha256 :: ustr
  as_part_sha256s :: "ustr list"
  as_content_type :: ustr
  as_part_size :: nat
  as_attachment_id :: "uuid option"
  as_file_id :: "uuid option"
  as_upload_id :: "uuid option"
  as_completed_parts :: "completed_part list"
  as_completed :: bool

record evidence_state =
  ev_job_id :: uuid
  ev_status :: import_status
  ev_result_code :: "ustr option"
  ev_submitted_at :: "time option"  \<comment> \<open>\<open>None\<close>: no timezone\<close>
  ev_updated_at :: "time option"

record outbox_entry =
  o_normalized_origin :: ustr
  o_idempotency_key :: ustr
  o_manifest_path :: ustr
  o_manifest_fingerprint :: ustr
  o_job_id :: "uuid option"
  o_phase :: phase
  o_attachments :: "attachment_state list"
  o_evidence :: "evidence_state option"
  o_updated_at :: "time option"

datatype credential_state = PRESENT | MISSING

record replacement_marker =
  rm_normalized_origin :: ustr
  rm_old_credential_state :: credential_state
  rm_old_refresh_sha256 :: "ustr option"
  rm_old_outbox_filename :: ustr

record pair_completion_marker =
  pcm_normalized_origin :: ustr
  pcm_old_credential_state :: credential_state
  pcm_old_refresh_sha256 :: "ustr option"

text \<open>
  A state file: its size in bytes and the typed document its bytes read as, \<open>None\<close> where they
  are not JSON or have missing, extra or ill-typed fields.
\<close>

datatype 'a state_file = State_File nat "'a option"

section \<open>HTTP\<close>

record http_request =
  rq_method :: string
  rq_path :: ustr
  rq_token :: "ustr option"
  rq_body :: "json option"
  rq_headers :: "(string \<times> ustr) list"

datatype chunk = Chunk bytes | Broken  \<comment> \<open>\<open>Broken\<close>: a transport error while reading\<close>

record http_response =
  hr_status :: nat
  hr_content_encoding :: "ustr option"
  hr_content_length :: "ustr option"
  hr_chunks :: "chunk list"

record put_response =
  ur_status :: nat
  ur_etag :: "ustr option"

record token_response =
  tk_access_token :: ustr
  tk_refresh_token :: ustr
  tk_expires_at :: "time option"
  tk_refresh_expires_at :: "time option"

record attachment_response =
  at_id :: uuid
  at_file_id :: uuid
  at_upload_id :: uuid
  at_kind :: attachment_kind
  at_file_state :: file_state

record job_response =
  jr_id :: uuid
  jr_project_id :: uuid
  jr_local_task_id :: ustr
  jr_external_reference :: "ustr option"
  jr_base_sha256 :: "ustr option"
  jr_status :: import_status
  jr_result_code :: "ustr option"
  jr_k3_result :: k3_result
  jr_submitted_at :: "time option option"  \<comment> \<open>absent, or a timestamp with or without a timezone\<close>
  jr_created_at :: "time option"
  jr_updated_at :: "time option"
  jr_attachments :: "attachment_response list"

record submit_response =
  sr_id :: uuid
  sr_status :: import_status
  sr_result_code :: "ustr option"
  sr_submitted_at :: "time option"
  sr_updated_at :: "time option"

section \<open>The library and the world\<close>

record release_asset =
  ra_name :: ustr
  ra_size :: nat
  ra_url :: ustr

record release =
  rl_tag_name :: ustr
  rl_html_url :: ustr
  rl_prerelease :: bool
  rl_assets :: "release_asset list"

record update_response =
  up_status :: nat
  up_location :: "ustr option"
  up_content_length :: "ustr option"
  up_chunks :: "chunk list"

record url_parts =
  url_scheme :: ustr
  url_hostname :: "ustr option"
  url_port :: "nat option option"  \<comment> \<open>\<open>None\<close>: reading it raises \<open>ValueError\<close>\<close>
  url_username :: "ustr option"
  url_password :: "ustr option"
  url_path :: ustr
  url_query :: ustr
  url_fragment :: ustr

record ip_addr =
  ip_number :: nat
  ip_version :: nat
  ip_is_global :: bool
  ip_is_loopback :: bool
  ip_is_link_local :: bool
  ip_is_multicast :: bool
  ip_is_unspecified :: bool
  ip_is_reserved :: bool
  ip_is_private :: bool

text \<open>
  \<open>read_*\<close> are \<open>json.loads\<close> with pydantic's typed fields, \<open>url_split\<close> is \<open>urlsplit\<close>
  (\<open>None\<close>: \<open>ValueError\<close>), \<open>idna\<close> is \<open>encode("idna").decode("ascii")\<close>,
  \<open>time_text\<close> pydantic's rendering of a timestamp, \<open>py_lower\<close> is \<open>str.lower\<close>, \<open>url_join\<close> is
  \<open>urljoin\<close> and \<open>decimal_digit\<close> the value of a character that is \<open>isdecimal\<close>.
\<close>

record conn_lib =
  read_local_manifest :: "bytes \<Rightarrow> local_manifest option"
  read_token :: "bytes \<Rightarrow> token_response option"
  read_job_response :: "bytes \<Rightarrow> job_response option"
  read_attachment_response :: "bytes \<Rightarrow> attachment_response option"
  read_submit_response :: "bytes \<Rightarrow> submit_response option"
  read_part_url :: "bytes \<Rightarrow> ustr option"
  path_str :: "path \<Rightarrow> ustr"
  path_of :: "ustr \<Rightarrow> path"
  path_is_absolute :: "ustr \<Rightarrow> bool"
  guess_type :: "ustr \<Rightarrow> ustr option"
  time_text :: "time \<Rightarrow> ustr"
  parse_int :: "ustr \<Rightarrow> int option"
  url_split :: "ustr \<Rightarrow> url_parts option"
  ip_parse :: "ustr \<Rightarrow> ip_addr option"
  ip_compressed :: "ip_addr \<Rightarrow> ustr"
  idna :: "ustr \<Rightarrow> ustr option"
  py_lower :: "ustr \<Rightarrow> ustr"
  read_release :: "bytes \<Rightarrow> release option"
  url_join :: "ustr \<Rightarrow> ustr \<Rightarrow> ustr option"
  decimal_digit :: "nat \<Rightarrow> nat option"

record fstat =
  st_size :: nat
  st_mtime_ns :: int
  st_mode :: nat

datatype resolver = Records "ustr list" | Resolver_Failed | Resolver_Timeout

record world =
  w_now :: "nat \<Rightarrow> time"
  w_stat :: "nat \<Rightarrow> path \<Rightarrow> fstat option"
  w_read :: "nat \<Rightarrow> path \<Rightarrow> bytes option"
  w_resolve :: "nat \<Rightarrow> path \<Rightarrow> path option"
  w_is_symlink :: "nat \<Rightarrow> path \<Rightarrow> ustr \<Rightarrow> bool option"
  w_resolve_under :: "nat \<Rightarrow> path \<Rightarrow> ustr \<Rightarrow> path option"
  w_http :: "nat \<Rightarrow> http_request \<Rightarrow> http_response option"
  w_put :: "nat \<Rightarrow> ustr \<Rightarrow> bytes \<Rightarrow> put_response option"
  w_getaddrinfo :: "nat \<Rightarrow> ustr \<Rightarrow> nat \<Rightarrow> resolver"
  w_state_read :: "nat \<Rightarrow> bool"
  w_write :: "nat \<Rightarrow> bool"
  w_unlink :: "nat \<Rightarrow> bool"
  w_keyring :: "nat \<Rightarrow> bool"
  w_echo :: "nat \<Rightarrow> bool"
  w_lock :: "nat \<Rightarrow> bool"
  w_get :: "nat \<Rightarrow> ustr \<Rightarrow> update_response option"
  w_write_bytes :: "nat \<Rightarrow> bool \<times> bytes option"  \<comment> \<open>success, or what a failed write leaves\<close>
  w_rename :: "nat \<Rightarrow> bool"

section \<open>The state and commands over it\<close>

record conn =
  c_tick :: nat
  c_documents :: "(ustr \<times> outbox_entry state_file) list"
  c_marker :: "replacement_marker state_file option"
  c_pair_marker :: "pair_completion_marker state_file option"
  c_refresh :: "ustr option"
  c_printed :: "ustr list"
  c_requests :: "http_request list"
  c_puts :: "(ustr \<times> bytes) list"
  c_gets :: "ustr list"
  c_target :: "bytes option"
  c_incoming :: "bytes option"
  c_previous :: "bytes option"

type_synonym 'a cmd = "conn \<Rightarrow> 'a cresult \<times> conn"

definition return :: "'a \<Rightarrow> 'a cmd" where
  "return x = (\<lambda>c. (Inr x, c))"

definition fail :: "cerror \<Rightarrow> 'a cmd" where
  "fail e = (\<lambda>c. (Inl e, c))"

definition bindc :: "'a cmd \<Rightarrow> ('a \<Rightarrow> 'b cmd) \<Rightarrow> 'b cmd" where
  "bindc m f = (\<lambda>c. case m c of (Inl e, c') \<Rightarrow> (Inl e, c') | (Inr x, c') \<Rightarrow> f x c')"

text \<open>\<open>except ConnectorError as error\<close>\<close>

definition catch :: "'a cmd \<Rightarrow> (cerror \<Rightarrow> 'a cmd) \<Rightarrow> 'a cmd" where
  "catch m h = (\<lambda>c. case m c of
       (Inl (ConnectorError n s), c') \<Rightarrow> h (ConnectorError n s) c'
     | r \<Rightarrow> r)"

definition get :: "(conn \<Rightarrow> 'a) \<Rightarrow> 'a cmd" where
  "get f = (\<lambda>c. (Inr (f c), c))"

definition modify :: "(conn \<Rightarrow> conn) \<Rightarrow> unit cmd" where
  "modify f = (\<lambda>c. (Inr (), f c))"

text \<open>One question to the world.\<close>

definition ask :: "(nat \<Rightarrow> 'a) \<Rightarrow> 'a cmd" where
  "ask f = (\<lambda>c. (Inr (f (c_tick c)), c\<lparr>c_tick := Suc (c_tick c)\<rparr>))"

abbreviation refuse_if :: "bool \<Rightarrow> cerror \<Rightarrow> unit cmd" where
  "refuse_if b e \<equiv> (if b then fail e else return ())"

definition of_option :: "cerror \<Rightarrow> 'a option \<Rightarrow> 'a cmd" where
  "of_option e v = (case v of None \<Rightarrow> fail e | Some x \<Rightarrow> return x)"

section \<open>Reasoning about commands\<close>

text \<open>\<open>wp m Q E c\<close>: run from \<open>c\<close>, a value ends in \<open>Q\<close> and an error in \<open>E\<close>.\<close>

definition wp :: "'a cmd \<Rightarrow> ('a \<Rightarrow> conn \<Rightarrow> bool) \<Rightarrow> (cerror \<Rightarrow> conn \<Rightarrow> bool) \<Rightarrow> conn \<Rightarrow> bool" where
  "wp m Q E c = (case m c of (Inl e, c') \<Rightarrow> E e c' | (Inr x, c') \<Rightarrow> Q x c')"

named_theorems wp_simps \<open>weakest preconditions of the command combinators\<close>

lemma wp_return [wp_simps]: "wp (return x) Q E c = Q x c"
  by (simp add: wp_def return_def)

lemma wp_fail [wp_simps]: "wp (fail e) Q E c = E e c"
  by (simp add: wp_def fail_def)

lemma wp_bindc [wp_simps]: "wp (bindc m f) Q E c = wp m (\<lambda>x. wp (f x) Q E) E c"
  by (simp add: wp_def bindc_def split: prod.split sum.split)

lemma wp_get [wp_simps]: "wp (get f) Q E c = Q (f c) c"
  by (simp add: wp_def get_def)

lemma wp_modify [wp_simps]: "wp (modify f) Q E c = Q () (f c)"
  by (simp add: wp_def modify_def)

lemma wp_ask [wp_simps]: "wp (ask f) Q E c = Q (f (c_tick c)) (c\<lparr>c_tick := Suc (c_tick c)\<rparr>)"
  by (simp add: wp_def ask_def)

lemma wp_if [wp_simps]: "wp (if b then m else n) Q E c = (if b then wp m Q E c else wp n Q E c)"
  by simp

lemma wp_of_option [wp_simps]:
  "wp (of_option e v) Q E c = (case v of None \<Rightarrow> E e c | Some x \<Rightarrow> Q x c)"
  by (simp add: of_option_def wp_simps split: option.split)

lemma wp_catch [wp_simps]:
  "wp (catch m h) Q E c = wp m Q (\<lambda>e c'. case e of
     ConnectorError n s \<Rightarrow> wp (h (ConnectorError n s)) Q E c' | Uncaught s \<Rightarrow> E (Uncaught s) c') c"
  by (simp add: wp_def catch_def split: prod.split sum.split cerror.split)

lemma wp_mono:
  assumes "wp m Q E c" "\<And>x c'. Q x c' \<Longrightarrow> Q' x c'" "\<And>e c'. E e c' \<Longrightarrow> E' e c'"
  shows "wp m Q' E' c"
  using assms by (auto simp: wp_def split: prod.splits sum.splits)

lemma wp_conj:
  assumes "wp m Q E c" "wp m Q' E' c"
  shows "wp m (\<lambda>x c'. Q x c' \<and> Q' x c') (\<lambda>e c'. E e c' \<and> E' e c') c"
  using assms by (auto simp: wp_def split: prod.splits sum.splits)

lemma wp_Inr: "wp m Q E c \<Longrightarrow> m c = (Inr x, c') \<Longrightarrow> Q x c'"
  by (simp add: wp_def)

lemma wp_Inl: "wp m Q E c \<Longrightarrow> m c = (Inl e, c') \<Longrightarrow> E e c'"
  by (simp add: wp_def)

lemma wp_run: "wp m (\<lambda>_ c'. P c') (\<lambda>_ c'. P c') c \<longleftrightarrow> P (snd (m c))"
  by (simp add: wp_def split: prod.split sum.split)

lemma wp_self: "wp m (\<lambda>x c'. m c = (Inr x, c')) (\<lambda>e c'. m c = (Inl e, c')) c"
  by (auto simp: wp_def split: prod.split sum.split)

end
