(* ===== verification/Blocks.thy ===== *)
theory Blocks
  imports Prelude
begin

text \<open>
  A byte string in blocks of at most \<open>k\<close> bytes, as the code reads files
  (\<open>iter(lambda: stream.read(k), b"")\<close>) and slices chunks (\<open>range(0, len(chunk), k)\<close>).
\<close>

function blocks :: "nat \<Rightarrow> bytes \<Rightarrow> bytes list" where
  "blocks k bs = (if k = 0 \<or> bs = [] then [] else take k bs # blocks k (drop k bs))"
  by auto
termination by (relation "measure (length \<circ> snd)") auto

declare blocks.simps [simp del]

lemma blocks_Nil [simp]: "blocks k [] = []"
  by (simp add: blocks.simps)

lemma concat_blocks: "0 < k \<Longrightarrow> concat (blocks k bs) = bs"
proof (induction k bs rule: blocks.induct)
  case (1 k bs)
  then show ?case by (cases "bs = []") (simp_all add: blocks.simps [of k bs])
qed

lemma length_blocks: "0 < k \<Longrightarrow> length (blocks k bs) = (length bs + k - 1) div k"
proof (induction k bs rule: blocks.induct)
  case (1 k bs)
  show ?case
  proof (cases "bs = []")
    case True
    with 1 show ?thesis by (simp add: blocks.simps [of k bs])
  next
    case False
    with 1 have ih: "length (blocks k (drop k bs)) = (length bs - k + k - 1) div k"
      and b: "length (blocks k bs) = Suc (length (blocks k (drop k bs)))" by (simp_all add: blocks.simps [of k bs])
    show ?thesis
    proof (cases "length bs \<le> k")
      case True
      from \<open>bs \<noteq> []\<close> have "1 \<le> length bs" by (simp add: Suc_le_eq)
      with True \<open>0 < k\<close> have "k * 1 \<le> length bs + k - 1" "length bs + k - 1 < k + k" by linarith+
      then have "(length bs + k - 1) div k = 1" by (intro div_nat_eqI) (simp_all only: mult_Suc_right One_nat_def mult_0_right)
      moreover from True \<open>0 < k\<close> have "(length bs - k + k - 1) div k = 0" by simp
      ultimately show ?thesis unfolding b ih by (simp only:)
    next
      case False
      then have e: "length bs + k - 1 = (length bs - 1) + k" "length bs - k + k - 1 = length bs - 1" by simp_all
      have "((length bs - 1) + k) div k = Suc ((length bs - 1) div k)"
        by (metis Suc_eq_plus1 \<open>0 < k\<close> div_add_self2 less_numeral_extra(3))
      then show ?thesis unfolding b ih e ..
    qed
  qed
qed

lemma nth_blocks: "i < length (blocks k bs) \<Longrightarrow> blocks k bs ! i = take k (drop (i * k) bs)"
proof (induction k bs arbitrary: i rule: blocks.induct)
  case (1 k bs)
  show ?case
  proof (cases "k = 0 \<or> bs = []")
    case True
    with 1 show ?thesis by (simp add: blocks.simps [of k bs])
  next
    case False
    then have b: "blocks k bs = take k bs # blocks k (drop k bs)" by (simp add: blocks.simps [of k bs])
    show ?thesis
    proof (cases i)
      case (Suc j)
      with 1 False b show ?thesis by (simp add: ac_simps)
    qed (simp add: b)
  qed
qed

lemma blocks_bounded: "0 < k \<Longrightarrow> b \<in> set (blocks k bs) \<Longrightarrow> b \<noteq> [] \<and> length b \<le> k"
proof (induction k bs rule: blocks.induct)
  case (1 k bs)
  then show ?case by (cases "bs = []") (auto simp: blocks.simps [of k bs])
qed

end
