(* ===== verification/Connector_Manifest.thy ===== *)
theory Connector_Manifest
  imports Connector Blocks
begin

text \<open>
  \<open>manifest.py\<close>: validating the local envelope and its attachments, and deriving the
  manifest the server receives.  The server manifest has the server's own record
  (\<open>Manifest.manifest\<close>), so that what the two sides accept can be compared.
\<close>

definition PART_SIZE :: nat where "PART_SIZE = 8 * 1024 * 1024"
definition ATTACHMENT_MAX_BYTES :: nat where "ATTACHMENT_MAX_BYTES = 100 * 1024 * 1024"
definition MANIFEST_INPUT_MAX_BYTES :: nat where "MANIFEST_INPUT_MAX_BYTES = 256 * 1024"

definition invalid_input :: cerror where
  "invalid_input = ConnectorError 2 INVALID_INPUT"

definition file_changed :: cerror where
  "file_changed = ConnectorError 4 FILE_CHANGED"

abbreviation ask_or :: "cerror \<Rightarrow> (nat \<Rightarrow> 'a option) \<Rightarrow> 'a cmd" where
  "ask_or e f \<equiv> bindc (ask f) (of_option e)"

definition of_result :: "cerror \<Rightarrow> 'a result \<Rightarrow> 'a cmd" where
  "of_result e r = (case r of Inl _ \<Rightarrow> fail e | Inr x \<Rightarrow> return x)"

lemma wp_of_result [wp_simps]:
  "wp (of_result e r) Q E c = (case r of Inl _ \<Rightarrow> E e c | Inr x \<Rightarrow> Q x c)"
  by (simp add: of_result_def wp_simps split: sum.split)

section \<open>The envelope\<close>

definition safe_text :: "bool \<Rightarrow> ustr \<Rightarrow> bool" where
  "safe_text document s \<longleftrightarrow> utf8_encode s \<noteq> None \<and> reject_controls document s"

text \<open>A text that is normalized before it is stripped and measured.\<close>

definition safe_field :: "lib \<Rightarrow> bool \<Rightarrow> nat \<Rightarrow> ustr \<Rightarrow> ustr result" where
  "safe_field L document limit s =
     (let t = strip_chars (white_space L) (normalize_text L document s) in
      if 1 \<le> length t \<and> length t \<le> limit \<and> safe_text document t
      then Inr t else Inl validation_failed)"

definition local_k3_result :: "lib \<Rightarrow> k3_result \<Rightarrow> k3_result result" where
  "local_k3_result L k =
     (case (safe_field L False 128 (k_model_label k),
            list_field (safe_field L True 4096) (k_modification_details k),
            list_field (safe_field L True 4096) (k_knowledge_points k),
            list_field (safe_field L True 4096) (k_risks k),
            optional_field (safe_field L False 1024) (k_suggested_title k),
            list_field (safe_field L False 128) (k_suggested_tags k)) of
        (Inr label, Inr details, Inr points, Inr risks, Inr title, Inr tags) \<Rightarrow>
          if length details \<le> 100 \<and> length points \<le> 100 \<and> length risks \<le> 100 \<and> length tags \<le> 64
             \<and> distinct tags \<and> k_processed_at k \<noteq> None
          then Inr (k\<lparr>k_model_label := label, k_modification_details := details,
            k_knowledge_points := points, k_risks := risks, k_suggested_title := title,
            k_suggested_tags := sort tags\<rparr>)
          else Inl validation_failed
      | _ \<Rightarrow> Inl validation_failed)"

definition content_type_ok :: "ustr \<Rightarrow> bool" where
  "content_type_ok t \<longleftrightarrow> length t \<le> 255 \<and> mime_type t"

definition local_attachment_schema :: "lib \<Rightarrow> local_attachment \<Rightarrow> local_attachment result" where
  "local_attachment_schema L a =
     (case (safe_field L False 4096 (la_path a),
            optional_field (match_field L content_type_ok) (la_content_type a)) of
        (Inr p, Inr ct) \<Rightarrow> Inr (a\<lparr>la_path := p, la_content_type := ct\<rparr>)
      | _ \<Rightarrow> Inl validation_failed)"

text \<open>\<open>LocalManifest.validate_attachment_kinds\<close>\<close>

definition attachment_kinds_ok :: "local_manifest \<Rightarrow> bool" where
  "attachment_kinds_ok m \<longleftrightarrow> (let kinds = map la_kind (lm_attachments m) in
     distinct kinds \<and> count_list kinds K3_RAW = 1
     \<and> (lm_base_sha256 m \<noteq> None \<longrightarrow> ORIGINAL \<in> set kinds))"

definition local_manifest_schema :: "lib \<Rightarrow> local_manifest \<Rightarrow> local_manifest result" where
  "local_manifest_schema L m =
     (case (safe_field L False 255 (lm_local_task_id m),
            optional_field (safe_field L False 1024) (lm_external_reference m),
            optional_field (match_field L sha256_text) (lm_base_sha256 m),
            local_k3_result L (lm_k3_result m),
            list_field (local_attachment_schema L) (lm_attachments m)) of
        (Inr task, Inr ref, Inr base, Inr k3, Inr as) \<Rightarrow>
          (let m' = m\<lparr>lm_local_task_id := task, lm_external_reference := ref,
             lm_base_sha256 := base, lm_k3_result := k3, lm_attachments := as\<rparr> in
           if idempotency_key_ok (lm_idempotency_key m) \<and> 1 \<le> length as \<and> length as \<le> 3
              \<and> attachment_kinds_ok m'
           then Inr m' else Inl validation_failed)
      | _ \<Rightarrow> Inl validation_failed)"

section \<open>The server manifest\<close>

text \<open>A text that is only stripped and measured.\<close>

definition plain_field :: "lib \<Rightarrow> (ustr \<Rightarrow> bool) \<Rightarrow> nat \<Rightarrow> ustr \<Rightarrow> ustr result" where
  "plain_field L ok limit s = (let t = strip_chars (white_space L) s in
     if 1 \<le> length t \<and> length t \<le> limit \<and> ok t then Inr t else Inl validation_failed)"

definition server_attachment :: "lib \<Rightarrow> attachment_declaration \<Rightarrow> attachment_declaration result" where
  "server_attachment L a =
     (case (plain_field L (safe_text False) 1024 (ad_filename a), match_field L sha256_text (ad_sha256 a),
            match_field L content_type_ok (ad_content_type a)) of
        (Inr n, Inr h, Inr ct) \<Rightarrow>
          if 1 \<le> ad_size_bytes a \<and> ad_size_bytes a \<le> int ATTACHMENT_MAX_BYTES
          then Inr (a\<lparr>ad_filename := n, ad_sha256 := h, ad_content_type := ct\<rparr>)
          else Inl validation_failed
      | _ \<Rightarrow> Inl validation_failed)"

text \<open>\<open>ServerManifest.validate_size_budget\<close>\<close>

definition size_budget :: "lib \<Rightarrow> manifest \<Rightarrow> bool" where
  "size_budget L m \<longleftrightarrow>
     (case (manifest_bytes L (u '','') (u '':'') m, manifest_bytes L (u '', '') (u '': '') m) of
        (Inr compact, Inr postgres) \<Rightarrow>
          \<not> max (length compact) (length postgres) > MANIFEST_MAX_UTF8_BYTES
      | _ \<Rightarrow> False)"

text \<open>The nested models are instances already, which pydantic takes as they are.\<close>

definition server_manifest :: "lib \<Rightarrow> manifest \<Rightarrow> manifest result" where
  "server_manifest L m =
     (case (plain_field L (\<lambda>_. True) 255 (m_local_task_id m),
            optional_field (plain_field L (\<lambda>_. True) 1024) (m_external_reference m)) of
        (Inr task, Inr ref) \<Rightarrow>
          (let m' = m\<lparr>m_local_task_id := task, m_external_reference := ref,
             m_base_sha256 := map_option (strip_chars (white_space L)) (m_base_sha256 m)\<rparr> in
           if 1 \<le> length (m_attachments m) \<and> length (m_attachments m) \<le> 3 \<and> size_budget L m'
           then Inr m' else Inl validation_failed)
      | _ \<Rightarrow> Inl validation_failed)"

section \<open>Attachment bytes\<close>

definition regular_file :: "fstat \<Rightarrow> bool" where
  "regular_file s \<longleftrightarrow> st_mode s div 4096 mod 16 = 8"  \<comment> \<open>\<open>stat.S_ISREG\<close>\<close>

definition hash_regular_file :: "lib \<Rightarrow> world \<Rightarrow> path \<Rightarrow> (nat \<times> ustr \<times> ustr list) cmd" where
  "hash_regular_file L W p =
     bindc (ask_or invalid_input (\<lambda>n. w_stat W n p)) (\<lambda>stat0.
     bindc (refuse_if (\<not> regular_file stat0 \<or> st_size stat0 < 1
        \<or> st_size stat0 > ATTACHMENT_MAX_BYTES) invalid_input) (\<lambda>_.
     bindc (ask_or invalid_input (\<lambda>n. w_read W n p)) (\<lambda>content.
     bindc (ask_or invalid_input (\<lambda>n. w_stat W n p)) (\<lambda>stat1.
     bindc (refuse_if ((st_size stat0, st_mtime_ns stat0, st_mode stat0)
        \<noteq> (st_size stat1, st_mtime_ns stat1, st_mode stat1)) invalid_input) (\<lambda>_.
     return (st_size stat0, sha256_hex L content,
       map (sha256_hex L) (blocks PART_SIZE content)))))))"

definition path_name :: "path \<Rightarrow> ustr" where
  "path_name p = (if p = [] then [] else last p)"

definition relative_to :: "path \<Rightarrow> path \<Rightarrow> bool" where
  "relative_to p base \<longleftrightarrow> take (length base) p = base"

definition prepare_attachment ::
  "lib \<Rightarrow> conn_lib \<Rightarrow> world \<Rightarrow> path \<Rightarrow> path list \<Rightarrow> local_attachment \<Rightarrow> prepared_attachment cmd" where
  "prepare_attachment L X W base seen d =
     bindc (refuse_if (path_is_absolute X (la_path d)) invalid_input) (\<lambda>_.
     bindc (ask_or invalid_input (\<lambda>n. w_is_symlink W n base (la_path d))) (\<lambda>symlink.
     bindc (refuse_if symlink invalid_input) (\<lambda>_.
     bindc (ask_or invalid_input (\<lambda>n. w_resolve_under W n base (la_path d))) (\<lambda>resolved.
     bindc (refuse_if (\<not> relative_to resolved base \<or> resolved \<in> set seen) invalid_input) (\<lambda>_.
     bindc (hash_regular_file L W resolved) (\<lambda>(size, digest, parts).
     let ct = (case la_content_type d of Some t \<Rightarrow> t
       | None \<Rightarrow> (case guess_type X (path_name resolved) of Some t \<Rightarrow> t
                  | None \<Rightarrow> u ''application/octet-stream'')) in
     bindc (of_result invalid_input (server_attachment L \<lparr>ad_kind = la_kind d,
        ad_filename = nfc L (path_name resolved), ad_size_bytes = int size, ad_sha256 = digest,
        ad_content_type = ct\<rparr>)) (\<lambda>a.
     return \<lparr>pa_kind = la_kind d, pa_path = resolved, pa_filename = ad_filename a,
        pa_size_bytes = size, pa_sha256 = digest, pa_part_sha256s = parts,
        pa_content_type = ct\<rparr>)))))))"

fun prepare_attachments ::
  "lib \<Rightarrow> conn_lib \<Rightarrow> world \<Rightarrow> path \<Rightarrow> path list \<Rightarrow> local_attachment list
   \<Rightarrow> prepared_attachment list cmd" where
  "prepare_attachments L X W base seen [] = return []"
| "prepare_attachments L X W base seen (d # ds) =
     bindc (prepare_attachment L X W base seen d) (\<lambda>a.
     bindc (prepare_attachments L X W base (pa_path a # seen) ds) (\<lambda>as.
     return (a # as)))"

definition declared :: "prepared_attachment \<Rightarrow> attachment_declaration" where
  "declared a = \<lparr>ad_kind = pa_kind a, ad_filename = pa_filename a,
     ad_size_bytes = int (pa_size_bytes a), ad_sha256 = pa_sha256 a,
     ad_content_type = pa_content_type a\<rparr>"

definition derive_server_manifest ::
  "lib \<Rightarrow> local_manifest \<Rightarrow> prepared_attachment list \<Rightarrow> manifest result" where
  "derive_server_manifest L m prepared =
     (case list_field (server_attachment L) (map declared prepared) of
        Inl e \<Rightarrow> Inl e
      | Inr as \<Rightarrow> server_manifest L \<lparr>m_project_id = lm_project_id m,
          m_local_task_id = lm_local_task_id m, m_external_reference = lm_external_reference m,
          m_base_sha256 = lm_base_sha256 m, m_k3_result = lm_k3_result m, m_attachments = as\<rparr>)"

definition prepare_manifest :: "lib \<Rightarrow> conn_lib \<Rightarrow> world \<Rightarrow> path \<Rightarrow> prepared_manifest cmd" where
  "prepare_manifest L X W p =
     bindc (ask_or invalid_input (\<lambda>n. w_resolve W n p)) (\<lambda>manifest_path.
     bindc (ask_or invalid_input (\<lambda>n. w_stat W n manifest_path)) (\<lambda>metadata.
     bindc (refuse_if (\<not> regular_file metadata \<or> st_size metadata < 1
        \<or> st_size metadata > MANIFEST_INPUT_MAX_BYTES) invalid_input) (\<lambda>_.
     bindc (ask_or invalid_input (\<lambda>n. w_read W n manifest_path)) (\<lambda>content.
     let serialized = take (MANIFEST_INPUT_MAX_BYTES + 1) content in
     bindc (refuse_if (serialized = [] \<or> length serialized > MANIFEST_INPUT_MAX_BYTES)
        invalid_input) (\<lambda>_.
     bindc (of_option invalid_input (read_local_manifest X serialized)) (\<lambda>raw.
     bindc (of_result invalid_input (local_manifest_schema L raw)) (\<lambda>local.
     bindc (prepare_attachments L X W (butlast manifest_path) [] (lm_attachments local)) (\<lambda>items.
     let prepared = sort_key (\<lambda>a. attachment_order (pa_kind a)) items in
     bindc (of_result invalid_input (derive_server_manifest L local prepared)) (\<lambda>server.
     bindc (of_result (Uncaught ''ValueError'') (canonical_manifest_bytes L server)) (\<lambda>canonical.
     return \<lparr>pr_path = manifest_path, pr_idempotency_key = lm_idempotency_key local,
        pr_server = server, pr_attachments = prepared,
        pr_fingerprint = sha256_hex L canonical\<rparr>))))))))))"

definition verify_attachment :: "lib \<Rightarrow> world \<Rightarrow> path \<Rightarrow> nat \<Rightarrow> ustr \<Rightarrow> unit cmd" where
  "verify_attachment L W p expected_size expected_sha256 =
     bindc (catch (hash_regular_file L W p) (\<lambda>_. fail file_changed)) (\<lambda>(size, digest, _).
     refuse_if (size \<noteq> expected_size \<or> digest \<noteq> expected_sha256) file_changed)"

text \<open>\<open>server_payload\<close>\<close>

definition server_payload :: "manifest \<Rightarrow> json" where
  "server_payload m = manifest_json m"

section \<open>What a prepared manifest satisfies\<close>

lemma safe_field_text: "safe_field L d n s = Inr t \<Longrightarrow> text_field L d n s = Inr t"
  by (auto simp: safe_field_def text_field_def safe_text_def Let_def split: if_splits)

lemma list_field_mono:
  assumes "list_field f xs = Inr ys" "\<And>s t. f s = Inr t \<Longrightarrow> g s = Inr t"
  shows "list_field g xs = Inr ys"
  using assms(1)
proof (induction xs arbitrary: ys)
  case (Cons x xs)
  then obtain t ts where "f x = Inr t" "list_field f xs = Inr ts" "ys = t # ts"
    by (auto split: sum.splits)
  with Cons.IH assms(2) show ?case by simp
qed simp

lemma optional_field_mono:
  assumes "optional_field f v = Inr w" "\<And>s t. f s = Inr t \<Longrightarrow> g s = Inr t"
  shows "optional_field g v = Inr w"
  using assms by (auto simp: optional_field_def split: option.splits sum.splits)

lemma local_k3_result_schema:
  assumes "local_k3_result L k = Inr r"
  shows "k3_result_schema L k = Inr r"
proof -
  from assms obtain label details points risks title tags where
    f: "safe_field L False 128 (k_model_label k) = Inr label"
      "list_field (safe_field L True 4096) (k_modification_details k) = Inr details"
      "list_field (safe_field L True 4096) (k_knowledge_points k) = Inr points"
      "list_field (safe_field L True 4096) (k_risks k) = Inr risks"
      "optional_field (safe_field L False 1024) (k_suggested_title k) = Inr title"
      "list_field (safe_field L False 128) (k_suggested_tags k) = Inr tags"
    by (auto simp: local_k3_result_def split: sum.splits)
  note g = safe_field_text [OF f(1)] list_field_mono [OF f(2) safe_field_text]
    list_field_mono [OF f(3) safe_field_text] list_field_mono [OF f(4) safe_field_text]
    optional_field_mono [OF f(5) safe_field_text] list_field_mono [OF f(6) safe_field_text]
  from assms show ?thesis by (simp add: local_k3_result_def k3_result_schema_def f g)
qed

lemma server_attachment_accepted:
  assumes "server_attachment L a = Inr b" "nfc L (ad_filename b) = ad_filename b"
  shows "attachment_schema L b = Inr b" "ad_kind b = ad_kind a"
proof -
  from assms(1) obtain n h ct where
    f: "plain_field L (safe_text False) 1024 (ad_filename a) = Inr n"
      "match_field L sha256_text (ad_sha256 a) = Inr h"
      "match_field L content_type_ok (ad_content_type a) = Inr ct"
    and s: "1 \<le> ad_size_bytes a" "ad_size_bytes a \<le> int ATTACHMENT_MAX_BYTES"
    and b: "b = a\<lparr>ad_filename := n, ad_sha256 := h, ad_content_type := ct\<rparr>"
    by (auto simp: server_attachment_def split: sum.splits if_splits)
  from f(1) have n: "strip_chars (white_space L) n = n" "1 \<le> length n" "length n \<le> 1024" "reject_controls False n"
    by (auto simp: plain_field_def safe_text_def Let_def strip_chars_idem split: if_splits)
  have "text_field L False 1024 n = Inr n"
    using n assms(2) b by (simp add: text_field_def normalize_text_def Let_def)
  moreover have "match_field L (\<lambda>t. length t \<le> 255 \<and> mime_type t) ct = Inr ct"
    using match_field_fixed [OF f(3)] by (simp add: match_field_def content_type_ok_def Let_def)
  ultimately show "attachment_schema L b = Inr b" "ad_kind b = ad_kind a"
    using b s match_field_fixed [OF f(2)] by (simp_all add: attachment_schema_def ATTACHMENT_MAX_BYTES_def)
qed

lemma server_attachments_kinds:
  "list_field (server_attachment L) xs = Inr ys \<Longrightarrow> map ad_kind ys = map ad_kind xs"
proof (induction xs arbitrary: ys)
  case (Cons x xs)
  then obtain t ts where "server_attachment L x = Inr t" "list_field (server_attachment L) xs = Inr ts" "ys = t # ts"
    by (auto split: sum.splits)
  moreover from this have "ad_kind t = ad_kind x"
    by (auto simp: server_attachment_def split: sum.splits if_splits)
  ultimately show ?case using Cons.IH by simp
qed simp

lemma prepared_kinds:
  "wp (prepare_attachments L X W base seen ds) (\<lambda>as _. map pa_kind as = map la_kind ds) (\<lambda>_ _. True) c"
proof (induction ds arbitrary: seen c)
  case (Cons d ds seen c)
  have one: "wp (prepare_attachment L X W base seen d) (\<lambda>a _. pa_kind a = la_kind d) (\<lambda>_ _. True) c"
    unfolding prepare_attachment_def hash_regular_file_def
    by (simp add: wp_simps Let_def split: option.split sum.split prod.split)
  show ?case
    unfolding prepare_attachments.simps wp_bindc
    by (rule wp_mono [OF one]) (rule wp_mono [OF Cons.IH], simp_all add: wp_simps)
qed (simp add: wp_simps)

lemma map_sort_key: "(\<And>x. g (f x) = k x) \<Longrightarrow> map f (sort_key k xs) = sort_key g (map f xs)"
proof -
  assume k: "\<And>x. g (f x) = k x"
  have "map f (insort_key k x ys) = insort_key g (f x) (map f ys)" for x ys
    by (induction ys) (simp_all add: k)
  then show ?thesis by (induction xs) simp_all
qed

lemma kinds_counted:
  assumes "map f xs = kinds" "mset ys = mset xs"
  shows "mset (map f ys) = mset kinds"
  using assms by (metis mset_map)

text \<open>The server manifest as the connector builds it, against the server's validator.\<close>

lemma derived_manifest_accepted:
  assumes "derive_server_manifest L m prepared = Inr r"
    and "local_manifest_schema L raw = Inr m"
    and "mset (map pa_kind prepared) = mset (map la_kind (lm_attachments m))"
    and "sorted (map (\<lambda>a. attachment_order (pa_kind a)) prepared)"
    and nfc: "\<forall>t \<in> normalized_texts r. nfc L t = t"
  shows "import_job_create L r = Inr r"
proof -
  from assms(2) obtain task ref base k3 atts where
    l: "safe_field L False 255 (lm_local_task_id raw) = Inr task"
      "optional_field (safe_field L False 1024) (lm_external_reference raw) = Inr ref"
      "optional_field (match_field L sha256_text) (lm_base_sha256 raw) = Inr base"
      "local_k3_result L (lm_k3_result raw) = Inr k3"
    and m: "m = raw\<lparr>lm_local_task_id := task, lm_external_reference := ref,
       lm_base_sha256 := base, lm_k3_result := k3, lm_attachments := atts\<rparr>"
    and kinds: "attachment_kinds_ok m"
    by (auto simp: local_manifest_schema_def Let_def split: sum.splits if_splits)
  from assms(1) obtain ds task2 ref2 where
    ds: "list_field (server_attachment L) (map declared prepared) = Inr ds"
    and s: "plain_field L (\<lambda>_. True) 255 task = Inr task2"
      "optional_field (plain_field L (\<lambda>_. True) 1024) ref = Inr ref2"
    and r: "r = \<lparr>m_project_id = lm_project_id m, m_local_task_id = task2, m_external_reference = ref2,
       m_base_sha256 = map_option (strip_chars (white_space L)) base, m_k3_result = k3, m_attachments = ds\<rparr>"
    and len: "1 \<le> length ds" "length ds \<le> 3" and size: "size_budget L r"
    by (auto simp: derive_server_manifest_def server_manifest_def Let_def m split: sum.splits if_splits)
  have strip: "strip_chars (white_space L) t = t" if "text_field L d n w = Inr t" for d n w t
    using that by (auto simp: text_field_def Let_def strip_chars_idem split: if_splits)
  note task = safe_field_text [OF l(1)]
  have "task2 = task" using s(1) strip [OF task] by (auto simp: plain_field_def Let_def split: if_splits)
  moreover have "ref2 = ref"
  proof (cases ref)
    case (Some t)
    with l(2) obtain w where "safe_field L False 1024 w = Inr t"
      by (auto simp: optional_field_def split: option.splits sum.splits)
    from strip [OF safe_field_text [OF this]] Some s(2) show ?thesis
      by (auto simp: optional_field_def plain_field_def Let_def split: sum.splits if_splits)
  qed (use s(2) in \<open>simp add: optional_field_def\<close>)
  moreover have "map_option (strip_chars (white_space L)) base = base"
    using l(3) by (auto simp: optional_field_def match_field_def Let_def strip_chars_idem split: option.splits sum.splits if_splits)
  ultimately have r': "r = \<lparr>m_project_id = lm_project_id m, m_local_task_id = task, m_external_reference = ref,
       m_base_sha256 = base, m_k3_result = k3, m_attachments = ds\<rparr>" using r by simp
  have kd: "map ad_kind ds = map pa_kind prepared"
    using server_attachments_kinds [OF ds] by (simp add: declared_def comp_def)
  have ms: "mset (map ad_kind ds) = mset (map la_kind (lm_attachments m))" using kd assms(3) by simp
  have k: "distinct (map ad_kind ds)" "count_list (map ad_kind ds) K3_RAW = 1"
    "m_base_sha256 r \<noteq> None \<longrightarrow> ORIGINAL \<in> set (map ad_kind ds)"
  proof -
    have "count_list (map ad_kind ds) K3_RAW = count_list (map la_kind (lm_attachments m)) K3_RAW"
      using arg_cong [OF ms, of "\<lambda>M. count M K3_RAW"] by (simp only: count_mset)
    moreover have b: "m_base_sha256 r = lm_base_sha256 m" by (simp add: r' m)
    ultimately show "distinct (map ad_kind ds)" "count_list (map ad_kind ds) K3_RAW = 1"
      "m_base_sha256 r \<noteq> None \<longrightarrow> ORIGINAL \<in> set (map ad_kind ds)"
      using kinds unfolding attachment_kinds_ok_def Let_def
      by (simp_all only: mset_eq_imp_distinct_iff [OF ms] mset_eq_setD [OF ms] b) blast+
  qed
  have "sorted (map (\<lambda>a. attachment_order (ad_kind a)) ds)"
    using assms(4) arg_cong [OF kd, of "map attachment_order"] by (simp add: comp_def)
  then have rr: "r\<lparr>m_attachments := sort_key (\<lambda>a. attachment_order (ad_kind a)) (m_attachments r)\<rparr> = r"
    by (simp add: r' sort_key_id_if_sorted)
  have nm: "normalize_manifest L r = Inr r"
  proof -
    have a: "map ad_kind (m_attachments r) = map ad_kind ds" by (simp add: r')
    from size obtain b1 b2 where b: "manifest_bytes L (u '','') (u '':'') r = Inr b1"
      "manifest_bytes L (u '', '') (u '': '') r = Inr b2" "\<not> max (length b1) (length b2) > MANIFEST_MAX_UTF8_BYTES"
      by (auto simp: size_budget_def split: sum.splits)
    have base: "\<not> (m_base_sha256 r \<noteq> None \<and> ORIGINAL \<notin> set (map ad_kind ds))" using k(3) by blast
    show ?thesis
      unfolding normalize_manifest_def Let_def rr a b(1,2) sum.case prod.case
      using k(1,2) b(3) base by (simp only: if_True if_False simp_thms)
  qed
  have "text_field L False 255 task = Inr task"
    using text_field_fixed [OF task] nfc r' by (simp add: normalized_texts_def)
  moreover have "optional_field (text_field L False 1024) ref = Inr ref"
    by (rule optional_field_fixed [OF optional_field_mono [OF l(2) safe_field_text]])
      (use nfc r' text_field_fixed in \<open>auto simp: normalized_texts_def\<close>)
  moreover have "optional_field (match_field L sha256_text) base = Inr base"
    by (rule optional_field_fixed [OF l(3)]) (rule match_field_fixed)
  moreover have "k3_result_schema L k3 = Inr k3"
    using k3_result_schema_fixed [OF local_k3_result_schema [OF l(4)]] nfc r' by (simp add: normalized_texts_def)
  moreover have "list_field (attachment_schema L) ds = Inr ds"
    using list_field_Inr [OF ds] server_attachment_accepted(1) nfc r'
    by (intro list_field_fixed) (fastforce simp: normalized_texts_def)
  moreover have "r\<lparr>m_local_task_id := task, m_external_reference := ref, m_base_sha256 := base,
      m_k3_result := k3, m_attachments := ds\<rparr> = r" by (simp add: r')
  ultimately show ?thesis using nm len unfolding import_job_create_def by (simp add: r')
qed

lemma prepare_manifest_ok:
  "wp (prepare_manifest L X W p) (\<lambda>r _. \<exists>raw m. local_manifest_schema L raw = Inr m
     \<and> pr_idempotency_key r = lm_idempotency_key m
     \<and> mset (map pa_kind (pr_attachments r)) = mset (map la_kind (lm_attachments m))
     \<and> sorted (map (\<lambda>a. attachment_order (pa_kind a)) (pr_attachments r))
     \<and> derive_server_manifest L m (pr_attachments r) = Inr (pr_server r)
     \<and> map_sum id (sha256_hex L) (canonical_manifest_bytes L (pr_server r)) = Inr (pr_fingerprint r))
   (\<lambda>_ _. True) c"
proof -
  have *: "wp (prepare_attachments L X W base seen ds) Q (\<lambda>_ _. True) c"
    if "\<And>as c'. map pa_kind as = map la_kind ds \<Longrightarrow> Q as c'" for base seen ds Q c
    by (rule wp_mono [OF prepared_kinds]) (use that in auto)
  have ms: "image_mset pa_kind (mset as) = image_mset la_kind (mset ds)" if "map pa_kind as = map la_kind ds" for as ds
    using that by (metis mset_map)
  show ?thesis
    unfolding prepare_manifest_def
    by (simp add: wp_simps Let_def split: option.split sum.split)
      (intro allI impI conjI *, auto simp: wp_simps split: sum.split intro: ms)
qed

end
