(* ===== verification/Connector_Outbox.thy ===== *)
theory Connector_Outbox
  imports Connector_Manifest
begin

text \<open>
  \<open>outbox.py\<close> and \<open>credentials.py\<close>: the validated recovery document, the two markers of an
  unfinished pairing, the store that reads and writes them atomically, and the refresh
  credential in the keyring.
\<close>

definition LOCAL_STATE_MAX_BYTES :: nat where "LOCAL_STATE_MAX_BYTES = 256 * 1024"
definition ETAG_MAX_CHARS :: nat where "ETAG_MAX_CHARS = 1024"

definition outbox_invalid :: cerror where
  "outbox_invalid = ConnectorError 2 OUTBOX_INVALID"

text \<open>\<open>any(ord(c) < 32 or ord(c) == 127)\<close> is refused.\<close>

definition state_text :: "nat \<Rightarrow> ustr \<Rightarrow> bool" where
  "state_text limit s \<longleftrightarrow> 1 \<le> length s \<and> length s \<le> limit \<and> list_all (\<lambda>c. \<not> control c) s"

section \<open>Validators\<close>

definition completed_part_schema :: "lib \<Rightarrow> completed_part \<Rightarrow> completed_part option" where
  "completed_part_schema L p =
     (let t = strip_chars (isspace L) (cp_etag p) in
      if 1 \<le> cp_part_number p \<and> cp_part_number p \<le> 10000
         \<and> 1 \<le> length (cp_etag p) \<and> length (cp_etag p) \<le> ETAG_MAX_CHARS
         \<and> t \<noteq> [] \<and> list_all (\<lambda>c. \<not> control c) t
      then Some (p\<lparr>cp_etag := t\<rparr>) else None)"

fun all_valid :: "('a \<Rightarrow> 'b option) \<Rightarrow> 'a list \<Rightarrow> 'b list option" where
  "all_valid f [] = Some []"
| "all_valid f (x # xs) = (case (f x, all_valid f xs) of
     (Some y, Some ys) \<Rightarrow> Some (y # ys) | _ \<Rightarrow> None)"

definition total_parts :: "attachment_state \<Rightarrow> nat" where
  "total_parts a = (as_size_bytes a + as_part_size a - 1) div as_part_size a"

definition part_numbers :: "attachment_state \<Rightarrow> nat list" where
  "part_numbers a = map cp_part_number (as_completed_parts a)"

text \<open>\<open>AttachmentState.consistent_progress\<close>\<close>

definition consistent_progress :: "attachment_state \<Rightarrow> bool" where
  "consistent_progress a \<longleftrightarrow>
     (let missing = [as_attachment_id a = None, as_file_id a = None, as_upload_id a = None] in
      list_ex id missing = list_all id missing)
     \<and> distinct (part_numbers a) \<and> sorted (part_numbers a)
     \<and> list_all (\<lambda>n. n \<le> total_parts a) (part_numbers a)
     \<and> length (as_part_sha256s a) = total_parts a
     \<and> (as_completed a \<longrightarrow> length (part_numbers a) = total_parts a)"

definition attachment_state_schema :: "lib \<Rightarrow> attachment_state \<Rightarrow> attachment_state option" where
  "attachment_state_schema L a =
     (case all_valid (completed_part_schema L) (as_completed_parts a) of
        None \<Rightarrow> None
      | Some parts \<Rightarrow>
          let a' = a\<lparr>as_completed_parts := parts\<rparr> in
          if state_text 32767 (as_path a) \<and> state_text 1024 (as_filename a)
             \<and> 1 \<le> as_size_bytes a \<and> as_size_bytes a \<le> 100 * 1024 * 1024
             \<and> sha256_text (as_sha256 a)
             \<and> 1 \<le> length (as_part_sha256s a) \<and> length (as_part_sha256s a) \<le> 13
             \<and> list_all sha256_text (as_part_sha256s a)
             \<and> state_text 255 (as_content_type a) \<and> as_part_size a = 8388608
             \<and> consistent_progress a'
          then Some a' else None)"

definition rejected_status :: "import_status \<Rightarrow> bool" where
  "rejected_status s \<longleftrightarrow> s \<in> {IMPORT_REJECTED, IMPORT_CONFLICT}"

definition evidence_ok :: "evidence_state \<Rightarrow> bool" where
  "evidence_ok v \<longleftrightarrow> ev_status v \<noteq> IMPORT_UPLOADING
     \<and> (case ev_result_code v of None \<Rightarrow> True | Some c \<Rightarrow> result_code_text c)
     \<and> rejected_status (ev_status v) = (ev_result_code v \<noteq> None)
     \<and> (case (ev_submitted_at v, ev_updated_at v) of
          (Some s, Some t) \<Rightarrow> s \<le> t | _ \<Rightarrow> False)"

text \<open>\<open>OutboxEntry.consistent_phase\<close>\<close>

definition consistent_phase :: "outbox_entry \<Rightarrow> bool" where
  "consistent_phase e \<longleftrightarrow> distinct (map as_kind (o_attachments e))
     \<and> (if o_phase e = PHASE_CREATE
        then o_job_id e = None \<and> list_all (\<lambda>a. as_attachment_id a = None) (o_attachments e)
          \<and> list_all (\<lambda>a. as_completed_parts a = [] \<and> \<not> as_completed a) (o_attachments e)
        else o_job_id e \<noteq> None \<and> list_all (\<lambda>a. as_attachment_id a \<noteq> None) (o_attachments e))
     \<and> (o_phase e \<in> {PHASE_SUBMIT, PHASE_EVIDENCE} \<longrightarrow> list_all as_completed (o_attachments e))
     \<and> (if o_phase e = PHASE_EVIDENCE
        then (case o_evidence e of None \<Rightarrow> False | Some v \<Rightarrow> o_job_id e = Some (ev_job_id v))
        else o_evidence e = None)"

definition outbox_entry_schema :: "lib \<Rightarrow> outbox_entry \<Rightarrow> outbox_entry option" where
  "outbox_entry_schema L e =
     (case all_valid (attachment_state_schema L) (o_attachments e) of
        None \<Rightarrow> None
      | Some as \<Rightarrow>
          let e' = e\<lparr>o_attachments := as\<rparr> in
          if state_text 4096 (o_normalized_origin e) \<and> idempotency_key_ok (o_idempotency_key e)
             \<and> state_text 32767 (o_manifest_path e) \<and> sha256_text (o_manifest_fingerprint e)
             \<and> 1 \<le> length as \<and> length as \<le> 3
             \<and> (case o_evidence e of None \<Rightarrow> True | Some v \<Rightarrow> evidence_ok v)
             \<and> o_updated_at e \<noteq> None \<and> consistent_phase e'
          then Some e' else None)"

definition credential_state_ok :: "credential_state \<Rightarrow> ustr option \<Rightarrow> bool" where
  "credential_state_ok s h \<longleftrightarrow> (case h of None \<Rightarrow> True | Some d \<Rightarrow> sha256_text d)
     \<and> (s = PRESENT) = (h \<noteq> None)"

text \<open>\<open>^[0-9a-f]{64}\.json$\<close>\<close>

definition outbox_filename :: "ustr \<Rightarrow> bool" where
  "outbox_filename s \<longleftrightarrow> sha256_text (take 64 s) \<and> drop 64 s = u ''.json''"

definition replacement_marker_ok :: "replacement_marker \<Rightarrow> bool" where
  "replacement_marker_ok m \<longleftrightarrow> 1 \<le> length (rm_normalized_origin m)
     \<and> length (rm_normalized_origin m) \<le> 4096
     \<and> credential_state_ok (rm_old_credential_state m) (rm_old_refresh_sha256 m)
     \<and> outbox_filename (rm_old_outbox_filename m)"

definition pair_completion_marker_ok :: "pair_completion_marker \<Rightarrow> bool" where
  "pair_completion_marker_ok m \<longleftrightarrow> 1 \<le> length (pcm_normalized_origin m)
     \<and> length (pcm_normalized_origin m) \<le> 4096
     \<and> credential_state_ok (pcm_old_credential_state m) (pcm_old_refresh_sha256 m)"

section \<open>The documents as JSON\<close>

definition uuid_json :: "uuid \<Rightarrow> json" where
  "uuid_json i = JStr (uuid_str i)"

definition completed_part_json :: "completed_part \<Rightarrow> json" where
  "completed_part_json p = JObj [(u ''part_number'', JInt (int (cp_part_number p))),
     (u ''etag'', JStr (cp_etag p))]"

definition attachment_state_json :: "attachment_state \<Rightarrow> json" where
  "attachment_state_json a = JObj [(u ''kind'', JStr (u (attachment_kind_text (as_kind a)))),
     (u ''path'', JStr (as_path a)), (u ''filename'', JStr (as_filename a)),
     (u ''size_bytes'', JInt (int (as_size_bytes a))), (u ''sha256'', JStr (as_sha256 a)),
     (u ''part_sha256s'', text_list_json (as_part_sha256s a)),
     (u ''content_type'', JStr (as_content_type a)), (u ''part_size'', JInt (int (as_part_size a))),
     (u ''attachment_id'', jopt uuid_json (as_attachment_id a)),
     (u ''file_id'', jopt uuid_json (as_file_id a)),
     (u ''upload_id'', jopt uuid_json (as_upload_id a)),
     (u ''completed_parts'', JList (map completed_part_json (as_completed_parts a))),
     (u ''completed'', JBool (as_completed a))]"

fun phase_text :: "phase \<Rightarrow> string" where
  "phase_text PHASE_CREATE = ''CREATE''"
| "phase_text PHASE_UPLOAD = ''UPLOAD''"
| "phase_text PHASE_SUBMIT = ''SUBMIT''"
| "phase_text PHASE_EVIDENCE = ''EVIDENCE''"

definition timestamp_json :: "conn_lib \<Rightarrow> time option \<Rightarrow> json" where
  "timestamp_json X t = jopt (\<lambda>i. JStr (time_text X i)) t"

definition evidence_json :: "conn_lib \<Rightarrow> evidence_state \<Rightarrow> json" where
  "evidence_json X v = JObj [(u ''job_id'', uuid_json (ev_job_id v)),
     (u ''status'', JStr (u (import_status_text (ev_status v)))),
     (u ''result_code'', jopt JStr (ev_result_code v)),
     (u ''submitted_at'', timestamp_json X (ev_submitted_at v)),
     (u ''updated_at'', timestamp_json X (ev_updated_at v))]"

definition outbox_entry_json :: "conn_lib \<Rightarrow> outbox_entry \<Rightarrow> json" where
  "outbox_entry_json X e = JObj [(u ''normalized_origin'', JStr (o_normalized_origin e)),
     (u ''idempotency_key'', JStr (o_idempotency_key e)),
     (u ''manifest_path'', JStr (o_manifest_path e)),
     (u ''manifest_fingerprint'', JStr (o_manifest_fingerprint e)),
     (u ''job_id'', jopt uuid_json (o_job_id e)),
     (u ''phase'', JStr (u (phase_text (o_phase e)))),
     (u ''attachments'', JList (map attachment_state_json (o_attachments e))),
     (u ''evidence'', jopt (evidence_json X) (o_evidence e)),
     (u ''updated_at'', timestamp_json X (o_updated_at e))]"

fun credential_state_text :: "credential_state \<Rightarrow> string" where
  "credential_state_text PRESENT = ''PRESENT''"
| "credential_state_text MISSING = ''MISSING''"

definition replacement_marker_json :: "replacement_marker \<Rightarrow> json" where
  "replacement_marker_json m = JObj [(u ''version'', JInt 1),
     (u ''normalized_origin'', JStr (rm_normalized_origin m)),
     (u ''old_credential_state'', JStr (u (credential_state_text (rm_old_credential_state m)))),
     (u ''old_refresh_sha256'', jopt JStr (rm_old_refresh_sha256 m)),
     (u ''old_outbox_filename'', JStr (rm_old_outbox_filename m))]"

definition pair_completion_marker_json :: "pair_completion_marker \<Rightarrow> json" where
  "pair_completion_marker_json m = JObj [(u ''version'', JInt 1),
     (u ''normalized_origin'', JStr (pcm_normalized_origin m)),
     (u ''old_credential_state'', JStr (u (credential_state_text (pcm_old_credential_state m)))),
     (u ''old_refresh_sha256'', jopt JStr (pcm_old_refresh_sha256 m))]"

text \<open>\<open>ensure_ascii=True\<close>: what is not printable ASCII is written \<open>\uXXXX\<close>, beyond the basic plane
  as a surrogate pair.\<close>

definition u_escape :: "nat \<Rightarrow> ustr" where
  "u_escape c = [92, 117] @ hex_digits 4 c"

definition ascii_char :: "nat \<Rightarrow> ustr" where
  "ascii_char c = (if c < 127 then [c]
     else if c < 65536 then u_escape c
     else u_escape (55296 + (c - 65536) div 1024) @ u_escape (56320 + (c - 65536) mod 1024))"

definition marker_bytes :: "lib \<Rightarrow> json \<Rightarrow> bytes" where
  "marker_bytes L v = concat (map ascii_char (json_text L (u '','') (u '':'') (sort_json v)))"

section \<open>The store\<close>

text \<open>\<open>_read_json\<close> with the typed reading of the document\<close>

definition read_json :: "world \<Rightarrow> 'a state_file \<Rightarrow> 'a cmd" where
  "read_json W f = (case f of State_File bytes_read doc \<Rightarrow>
     bindc (ask (w_state_read W)) (\<lambda>ok.
     if \<not> ok \<or> bytes_read < 1 \<or> bytes_read > LOCAL_STATE_MAX_BYTES then fail outbox_invalid
     else of_option outbox_invalid doc))"

definition atomic_write :: "world \<Rightarrow> (conn \<Rightarrow> conn) \<Rightarrow> unit cmd" where
  "atomic_write W f = bindc (ask (w_write W)) (\<lambda>ok. if ok then modify f else fail outbox_invalid)"

text \<open>\<open>delete\<close>: unlinking a file that is not there fails too.\<close>

definition unlink :: "world \<Rightarrow> bool \<Rightarrow> (conn \<Rightarrow> conn) \<Rightarrow> unit cmd" where
  "unlink W present f =
     bindc (ask (w_unlink W)) (\<lambda>ok. if ok \<and> present then modify f else fail outbox_invalid)"

definition has_document :: "ustr \<Rightarrow> conn \<Rightarrow> bool" where
  "has_document p c \<longleftrightarrow> p \<in> fst ` set (c_documents c)"

definition delete_document :: "world \<Rightarrow> ustr \<Rightarrow> unit cmd" where
  "delete_document W p = bindc (get (has_document p)) (\<lambda>present.
     unlink W present (\<lambda>c. c\<lparr>c_documents := filter (\<lambda>d. fst d \<noteq> p) (c_documents c)\<rparr>))"

definition delete_replacement_marker :: "world \<Rightarrow> unit cmd" where
  "delete_replacement_marker W = bindc (get c_marker) (\<lambda>m.
     unlink W (m \<noteq> None) (\<lambda>c. c\<lparr>c_marker := None\<rparr>))"

definition delete_pair_completion_marker :: "world \<Rightarrow> unit cmd" where
  "delete_pair_completion_marker W = bindc (get c_pair_marker) (\<lambda>m.
     unlink W (m \<noteq> None) (\<lambda>c. c\<lparr>c_pair_marker := None\<rparr>))"

definition path_for :: "lib \<Rightarrow> ustr \<Rightarrow> ustr" where
  "path_for L key = sha256_hex L (concat (map utf8_char key)) @ u ''.json''"

fun read_documents ::
  "lib \<Rightarrow> world \<Rightarrow> (ustr \<times> outbox_entry state_file) list \<Rightarrow> (ustr \<times> outbox_entry) list cmd" where
  "read_documents L W [] = return []"
| "read_documents L W ((p, f) # ds) =
     bindc (read_json W f) (\<lambda>raw.
     bindc (of_option outbox_invalid (outbox_entry_schema L raw)) (\<lambda>e.
     bindc (read_documents L W ds) (\<lambda>es. return ((p, e) # es))))"

definition all_documents :: "lib \<Rightarrow> world \<Rightarrow> (ustr \<times> outbox_entry) list cmd" where
  "all_documents L W = bindc (get c_documents) (\<lambda>ds. read_documents L W (sort_key fst ds))"

definition load_optional :: "lib \<Rightarrow> world \<Rightarrow> ustr \<Rightarrow> (ustr \<times> outbox_entry) option cmd" where
  "load_optional L W origin =
     bindc (all_documents L W) (\<lambda>documents.
     case documents of
       [] \<Rightarrow> return None
     | [(p, e)] \<Rightarrow>
         if o_normalized_origin e \<noteq> origin then fail outbox_invalid
         else if p \<noteq> path_for L (o_idempotency_key e) then fail outbox_invalid
         else return (Some (p, e))
     | _ \<Rightarrow> fail outbox_invalid)"

definition load_entry :: "lib \<Rightarrow> world \<Rightarrow> ustr \<Rightarrow> (ustr \<times> outbox_entry) cmd" where
  "load_entry L W origin = bindc (load_optional L W origin) (of_option outbox_invalid)"

definition ensure_available :: "lib \<Rightarrow> world \<Rightarrow> ustr \<Rightarrow> unit cmd" where
  "ensure_available L W origin = bindc (load_optional L W origin) (\<lambda>r.
     refuse_if (r \<noteq> None) (ConnectorError 2 OUTBOX_CONFLICT))"

definition put_document :: "ustr \<Rightarrow> outbox_entry state_file \<Rightarrow> conn \<Rightarrow> conn" where
  "put_document p f c = c\<lparr>c_documents := (p, f) # filter (\<lambda>d. fst d \<noteq> p) (c_documents c)\<rparr>"

text \<open>\<open>save\<close> sets the time of the entry it is given, which the caller goes on with.\<close>

definition save :: "lib \<Rightarrow> conn_lib \<Rightarrow> world \<Rightarrow> ustr \<Rightarrow> outbox_entry \<Rightarrow> outbox_entry cmd" where
  "save L X W p e =
     bindc (ask (w_now W)) (\<lambda>now.
     let e' = e\<lparr>o_updated_at := Some now\<rparr> in
     bindc (of_option outbox_invalid (outbox_entry_schema L e')) (\<lambda>validated.
     bindc (of_result outbox_invalid (json_bytes L (u '','') (u '':'') (sort_json (outbox_entry_json X validated))))
       (\<lambda>serialized.
     bindc (atomic_write W (put_document p (State_File (length serialized) (Some validated)))) (\<lambda>_.
     return e'))))"

definition save_replacement_marker :: "lib \<Rightarrow> world \<Rightarrow> ustr \<Rightarrow> ustr option \<Rightarrow> ustr \<Rightarrow> unit cmd" where
  "save_replacement_marker L W origin old_refresh_sha256 old_outbox =
     (let m = \<lparr>rm_normalized_origin = origin,
        rm_old_credential_state = (if old_refresh_sha256 \<noteq> None then PRESENT else MISSING),
        rm_old_refresh_sha256 = old_refresh_sha256, rm_old_outbox_filename = old_outbox\<rparr> in
      if \<not> replacement_marker_ok m then fail outbox_invalid
      else atomic_write W (\<lambda>c. c\<lparr>c_marker :=
        Some (State_File (length (marker_bytes L (replacement_marker_json m))) (Some m))\<rparr>))"

definition save_pair_completion_marker :: "lib \<Rightarrow> world \<Rightarrow> ustr \<Rightarrow> ustr option \<Rightarrow> unit cmd" where
  "save_pair_completion_marker L W origin old_refresh_sha256 =
     (let m = \<lparr>pcm_normalized_origin = origin,
        pcm_old_credential_state = (if old_refresh_sha256 \<noteq> None then PRESENT else MISSING),
        pcm_old_refresh_sha256 = old_refresh_sha256\<rparr> in
      if \<not> pair_completion_marker_ok m then fail outbox_invalid
      else atomic_write W (\<lambda>c. c\<lparr>c_pair_marker :=
        Some (State_File (length (marker_bytes L (pair_completion_marker_json m))) (Some m))\<rparr>))"

definition load_replacement_marker :: "world \<Rightarrow> ustr \<Rightarrow> replacement_marker option cmd" where
  "load_replacement_marker W origin = bindc (get c_marker) (\<lambda>f.
     case f of None \<Rightarrow> return None
     | Some file \<Rightarrow>
         bindc (read_json W file) (\<lambda>m.
         if \<not> replacement_marker_ok m \<or> rm_normalized_origin m \<noteq> origin then fail outbox_invalid
         else return (Some m)))"

definition load_pair_completion_marker :: "world \<Rightarrow> ustr \<Rightarrow> pair_completion_marker option cmd" where
  "load_pair_completion_marker W origin = bindc (get c_pair_marker) (\<lambda>f.
     case f of None \<Rightarrow> return None
     | Some file \<Rightarrow>
         bindc (read_json W file) (\<lambda>m.
         if \<not> pair_completion_marker_ok m \<or> pcm_normalized_origin m \<noteq> origin
         then fail outbox_invalid else return (Some m)))"

definition initial_attachment :: "conn_lib \<Rightarrow> prepared_attachment \<Rightarrow> attachment_state" where
  "initial_attachment X a = \<lparr>as_kind = pa_kind a, as_path = path_str X (pa_path a),
     as_filename = pa_filename a, as_size_bytes = pa_size_bytes a, as_sha256 = pa_sha256 a,
     as_part_sha256s = pa_part_sha256s a, as_content_type = pa_content_type a,
     as_part_size = 8388608, as_attachment_id = None, as_file_id = None, as_upload_id = None,
     as_completed_parts = [], as_completed = False\<rparr>"

text \<open>The constructors raise a \<open>ValidationError\<close> no caller catches.\<close>

definition initial_entry ::
  "lib \<Rightarrow> conn_lib \<Rightarrow> world \<Rightarrow> ustr \<Rightarrow> prepared_manifest \<Rightarrow> outbox_entry cmd" where
  "initial_entry L X W origin m =
     bindc (ask (w_now W)) (\<lambda>now.
     of_option (Uncaught ''ValidationError'') (outbox_entry_schema L
       \<lparr>o_normalized_origin = origin, o_idempotency_key = pr_idempotency_key m,
        o_manifest_path = path_str X (pr_path m), o_manifest_fingerprint = pr_fingerprint m,
        o_job_id = None, o_phase = PHASE_CREATE,
        o_attachments = map (initial_attachment X) (pr_attachments m), o_evidence = None,
        o_updated_at = Some now\<rparr>))"

definition store_lock :: "world \<Rightarrow> 'a cmd \<Rightarrow> 'a cmd" where
  "store_lock W body =
     bindc (ask (w_lock W)) (\<lambda>ok. if ok then body else fail (ConnectorError 2 OUTBOX_BUSY))"

section \<open>The credential\<close>

definition credential_error :: cerror where
  "credential_error = ConnectorError 3 CREDENTIAL_ERROR"

text \<open>\<open>value or None\<close>: an empty entry is no entry.\<close>

definition load_refresh_optional :: "world \<Rightarrow> ustr option cmd" where
  "load_refresh_optional W =
     bindc (ask (w_keyring W)) (\<lambda>ok.
     if ok then get (\<lambda>c. if c_refresh c = Some [] then None else c_refresh c)
     else fail credential_error)"

definition load_refresh :: "world \<Rightarrow> ustr cmd" where
  "load_refresh W = bindc (load_refresh_optional W) (of_option credential_error)"

definition save_refresh :: "world \<Rightarrow> ustr \<Rightarrow> unit cmd" where
  "save_refresh W v =
     bindc (ask (w_keyring W)) (\<lambda>ok.
     if ok then modify (\<lambda>c. c\<lparr>c_refresh := Some v\<rparr>) else fail credential_error)"

end
