(* ===== verification/Connector_Client.thy ===== *)
theory Connector_Client
  imports Connector_Outbox
begin

text \<open>
  \<open>client.py\<close>: the requests the connector sends, the limits on what it reads back, the
  validators of the typed responses, and the checks each call makes of its response.
\<close>

definition RESPONSE_MAX_BYTES :: nat where "RESPONSE_MAX_BYTES = 128 * 1024"
definition TOKEN_MAX_CHARS :: nat where "TOKEN_MAX_CHARS = 4096"

definition server_rejected :: cerror where
  "server_rejected = ConnectorError 5 SERVER_REJECTED"

definition temporary_failure :: cerror where
  "temporary_failure = ConnectorError 6 TEMPORARY_FAILURE"

section \<open>Response validators\<close>

definition safe_token :: "ustr \<Rightarrow> bool" where
  "safe_token s \<longleftrightarrow> 1 \<le> length s \<and> length s \<le> TOKEN_MAX_CHARS \<and> utf8_encode s \<noteq> None
     \<and> list_all (\<lambda>c. \<not> control c) s"

definition token_response_ok :: "token_response \<Rightarrow> bool" where
  "token_response_ok t \<longleftrightarrow> safe_token (tk_access_token t) \<and> safe_token (tk_refresh_token t)
     \<and> tk_expires_at t \<noteq> None \<and> tk_refresh_expires_at t \<noteq> None"

definition result_code_ok :: "ustr option \<Rightarrow> bool" where
  "result_code_ok r \<longleftrightarrow> (case r of None \<Rightarrow> True | Some c \<Rightarrow> result_code_text c)"

text \<open>\<open>JobResponse.consistent_status\<close>\<close>

definition job_status_consistent ::
  "import_status \<Rightarrow> ustr option \<Rightarrow> time option \<Rightarrow> time \<Rightarrow> time \<Rightarrow> bool" where
  "job_status_consistent status code submitted created updated \<longleftrightarrow>
     \<not> updated < created
     \<and> (case submitted of None \<Rightarrow> True | Some s \<Rightarrow> created \<le> s \<and> s \<le> updated)
     \<and> \<not> (status = IMPORT_UPLOADING \<and> submitted \<noteq> None)
     \<and> \<not> (status \<noteq> IMPORT_UPLOADING \<and> submitted = None)
     \<and> rejected_status status = (code \<noteq> None)"

text \<open>The nested \<open>k3_result\<close> is validated like the local one.\<close>

definition job_response_schema :: "lib \<Rightarrow> job_response \<Rightarrow> job_response option" where
  "job_response_schema L j =
     (case (local_k3_result L (jr_k3_result j), jr_created_at j, jr_updated_at j) of
        (Inr k3, Some created, Some updated) \<Rightarrow>
          if 1 \<le> length (jr_local_task_id j) \<and> length (jr_local_task_id j) \<le> 255
             \<and> (case jr_external_reference j of None \<Rightarrow> True | Some r \<Rightarrow> 1 \<le> length r \<and> length r \<le> 1024)
             \<and> (case jr_base_sha256 j of None \<Rightarrow> True | Some h \<Rightarrow> sha256_text h)
             \<and> result_code_ok (jr_result_code j) \<and> jr_submitted_at j \<noteq> Some None
             \<and> 1 \<le> length (jr_attachments j) \<and> length (jr_attachments j) \<le> 3
             \<and> job_status_consistent (jr_status j) (jr_result_code j)
                 (Option.bind (jr_submitted_at j) id) created updated
          then Some (j\<lparr>jr_k3_result := k3\<rparr>) else None
      | _ \<Rightarrow> None)"

definition submit_response_ok :: "submit_response \<Rightarrow> bool" where
  "submit_response_ok r \<longleftrightarrow> sr_status r \<noteq> IMPORT_UPLOADING \<and> result_code_ok (sr_result_code r)
     \<and> rejected_status (sr_status r) = (sr_result_code r \<noteq> None)
     \<and> (case (sr_submitted_at r, sr_updated_at r) of
          (Some s, Some t) \<Rightarrow> \<not> t < s | _ \<Rightarrow> False)"

definition https_authority :: "url_parts \<Rightarrow> bool" where
  "https_authority p \<longleftrightarrow> url_scheme p = u ''https'' \<and> url_hostname p \<notin> {None, Some []}
     \<and> url_username p \<in> {None, Some []} \<and> url_password p \<in> {None, Some []}
     \<and> url_fragment p = [] \<and> url_port p \<notin> {None, Some (Some 0)}"

definition part_url_ok :: "conn_lib \<Rightarrow> ustr \<Rightarrow> bool" where
  "part_url_ok X v \<longleftrightarrow> state_text 4096 v
     \<and> (case url_split X v of None \<Rightarrow> False | Some p \<Rightarrow> https_authority p)"

section \<open>Requests\<close>

text \<open>
  Reading the body: \<open>iter_raw\<close> gives chunks of at most \<open>RESPONSE_MAX_BYTES + 1\<close> bytes, and
  the loop stops at the first byte beyond the limit.
\<close>

fun read_body :: "cerror \<Rightarrow> bytes \<Rightarrow> chunk list \<Rightarrow> cerror + bytes" where
  "read_body e payload [] = Inr payload"
| "read_body e payload (Broken # cs) = Inl temporary_failure"
| "read_body e payload (Chunk b # cs) =
     (let remaining = RESPONSE_MAX_BYTES + 1 - length payload;
          payload' = payload @ take remaining b in
      if length payload' > RESPONSE_MAX_BYTES \<or> length b > remaining then Inl e
      else read_body e payload' cs)"

definition identity_encoding :: "lib \<Rightarrow> conn_lib \<Rightarrow> ustr option \<Rightarrow> bool" where
  "identity_encoding L X h \<longleftrightarrow> (case h of None \<Rightarrow> True
     | Some v \<Rightarrow> py_lower X (strip_chars (isspace L) v) = u ''identity'')"

definition content_length_ok :: "conn_lib \<Rightarrow> ustr option \<Rightarrow> bool" where
  "content_length_ok X h \<longleftrightarrow> (case h of None \<Rightarrow> True
     | Some v \<Rightarrow> (case parse_int X v of None \<Rightarrow> False
         | Some n \<Rightarrow> \<not> (n < 0 \<or> n > int RESPONSE_MAX_BYTES)))"

definition read_response :: "lib \<Rightarrow> conn_lib \<Rightarrow> bool \<Rightarrow> http_response \<Rightarrow> cerror + bytes" where
  "read_response L X auth_failure r =
     (let refusal = (if auth_failure then credential_error else server_rejected) in
      if hr_status r = 429 \<or> hr_status r \<ge> 500 then Inl temporary_failure
      else if \<not> (200 \<le> hr_status r \<and> hr_status r < 300) then Inl refusal
      else if \<not> identity_encoding L X (hr_content_encoding r) then Inl refusal
      else if \<not> content_length_ok X (hr_content_length r) then Inl refusal
      else read_body refusal [] (hr_chunks r))"

definition send :: "lib \<Rightarrow> conn_lib \<Rightarrow> world \<Rightarrow> bool \<Rightarrow> http_request \<Rightarrow> bytes cmd" where
  "send L X W auth_failure rq =
     bindc (modify (\<lambda>c. c\<lparr>c_requests := c_requests c @ [rq]\<rparr>)) (\<lambda>_.
     bindc (ask (\<lambda>n. w_http W n rq)) (\<lambda>r.
     case r of None \<Rightarrow> fail temporary_failure
     | Some resp \<Rightarrow> (case read_response L X auth_failure resp of
         Inl e \<Rightarrow> fail e | Inr b \<Rightarrow> return b)))"

definition request :: "string \<Rightarrow> ustr \<Rightarrow> ustr option \<Rightarrow> json option \<Rightarrow> http_request" where
  "request m p token body =
     \<lparr>rq_method = m, rq_path = p, rq_token = token, rq_body = body, rq_headers = []\<rparr>"

definition pair_request :: "lib \<Rightarrow> conn_lib \<Rightarrow> world \<Rightarrow> ustr \<Rightarrow> ustr \<Rightarrow> unit cmd" where
  "pair_request L X W code name =
     bindc (send L X W True (request ''POST'' (u ''/api/v1/device-auth/pair'') None
       (Some (JObj [(u ''pairing_code'', JStr code), (u ''device_name'', JStr name)])))) (\<lambda>payload.
     bindc (of_option credential_error (read_token X payload)) (\<lambda>token.
     bindc (refuse_if (\<not> token_response_ok token) credential_error) (\<lambda>_.
     save_refresh W (tk_refresh_token token))))"

definition refresh_request :: "lib \<Rightarrow> conn_lib \<Rightarrow> world \<Rightarrow> ustr cmd" where
  "refresh_request L X W =
     bindc (load_refresh W) (\<lambda>refresh_token.
     bindc (send L X W True (request ''POST'' (u ''/api/v1/device-auth/refresh'') None
       (Some (JObj [(u ''refresh_token'', JStr refresh_token)])))) (\<lambda>payload.
     bindc (of_option credential_error (read_token X payload)) (\<lambda>token.
     bindc (refuse_if (\<not> token_response_ok token) credential_error) (\<lambda>_.
     bindc (save_refresh W (tk_refresh_token token)) (\<lambda>_.
     return (tk_access_token token))))))"

text \<open>The checks \<open>create_job\<close> makes of the job it gets back.\<close>

definition created_fields_agree :: "manifest \<Rightarrow> job_response \<Rightarrow> bool" where
  "created_fields_agree m j \<longleftrightarrow> uuid_str (jr_project_id j) = uuid_str (m_project_id m)
     \<and> jr_local_task_id j = m_local_task_id m
     \<and> jr_external_reference j = m_external_reference m
     \<and> jr_base_sha256 j = m_base_sha256 m
     \<and> k3_result_json (jr_k3_result j) = k3_result_json (m_k3_result m)"

definition created_job_ok :: "manifest \<Rightarrow> job_response \<Rightarrow> bool" where
  "created_job_ok m j \<longleftrightarrow> created_fields_agree m j
     \<and> (let expected = map ad_kind (m_attachments m); actual = map at_kind (jr_attachments j) in
        \<not> (actual \<noteq> expected \<or> \<not> distinct actual))
     \<and> jr_status j = IMPORT_UPLOADING \<and> jr_submitted_at j = None \<and> jr_result_code j = None
     \<and> list_all (\<lambda>a. at_file_state a = FILE_UPLOADING) (jr_attachments j)
     \<and> distinct (map at_id (jr_attachments j)) \<and> distinct (map at_file_id (jr_attachments j))
     \<and> distinct (map at_upload_id (jr_attachments j))"

definition create_job_request ::
  "lib \<Rightarrow> conn_lib \<Rightarrow> world \<Rightarrow> manifest \<Rightarrow> ustr \<Rightarrow> ustr \<Rightarrow> job_response cmd" where
  "create_job_request L X W m key token =
     bindc (send L X W False ((request ''POST'' (u ''/api/v1/device/import-jobs'') (Some token)
       (Some (server_payload m)))\<lparr>rq_headers := [(''Idempotency-Key'', key)]\<rparr>)) (\<lambda>payload.
     bindc (of_option server_rejected (Option.bind (read_job_response X payload) (job_response_schema L)))
       (\<lambda>parsed.
     bindc (refuse_if (\<not> created_job_ok m parsed) server_rejected) (\<lambda>_.
     return parsed)))"

definition job_path :: "uuid \<Rightarrow> ustr" where
  "job_path job = u ''/api/v1/device/import-jobs/'' @ uuid_str job"

definition attachment_path :: "uuid \<Rightarrow> uuid \<Rightarrow> ustr" where
  "attachment_path job attachment = job_path job @ u ''/attachments/'' @ uuid_str attachment"

definition part_url_request ::
  "lib \<Rightarrow> conn_lib \<Rightarrow> world \<Rightarrow> uuid \<Rightarrow> uuid \<Rightarrow> nat \<Rightarrow> ustr \<Rightarrow> ustr cmd" where
  "part_url_request L X W job attachment n token =
     bindc (send L X W False (request ''POST'' (attachment_path job attachment @ u ''/parts/'' @ dec n)
       (Some token) None)) (\<lambda>payload.
     bindc (of_option server_rejected (read_part_url X payload)) (\<lambda>url.
     bindc (refuse_if (\<not> part_url_ok X url) server_rejected) (\<lambda>_.
     return url)))"

section \<open>Uploads\<close>

definition unsafe_address :: "ip_addr \<Rightarrow> bool" where
  "unsafe_address a \<longleftrightarrow> \<not> ip_is_global a \<or> ip_is_loopback a \<or> ip_is_link_local a
     \<or> ip_is_multicast a \<or> ip_is_unspecified a \<or> ip_is_reserved a \<or> ip_is_private a"

definition numeric_host :: "ustr \<Rightarrow> bool" where
  "numeric_host h \<longleftrightarrow> h \<noteq> [] \<and> list_all (\<lambda>c. 48 \<le> c \<and> c \<le> 57 \<or> c = 46) h"

definition resolve_upload_host :: "world \<Rightarrow> ustr \<Rightarrow> nat \<Rightarrow> ustr list cmd" where
  "resolve_upload_host W host port =
     bindc (ask (\<lambda>n. w_getaddrinfo W n host port)) (\<lambda>r.
     case r of Records rs \<Rightarrow> return rs
     | Resolver_Failed \<Rightarrow> fail temporary_failure
     | Resolver_Timeout \<Rightarrow> fail temporary_failure)"

text \<open>The host a URL names with the addresses it stands for; any failure but one of the
  resolver is a rejected destination.\<close>

definition upload_addresses ::
  "conn_lib \<Rightarrow> world \<Rightarrow> ustr \<Rightarrow> nat \<Rightarrow> (ustr \<times> ip_addr list) cmd" where
  "upload_addresses X W host port =
     (case ip_parse X host of
        Some a \<Rightarrow> return (host, [a])
      | None \<Rightarrow>
          if numeric_host host then fail server_rejected
          else (case idna X host of
             None \<Rightarrow> fail server_rejected
           | Some h \<Rightarrow>
               bindc (resolve_upload_host W (py_lower X h) port) (\<lambda>rs.
               bindc (of_option server_rejected (all_valid (ip_parse X) rs)) (\<lambda>as.
               return (py_lower X h, as)))))"

definition validate_upload_destination ::
  "conn_lib \<Rightarrow> world \<Rightarrow> ustr \<Rightarrow> (ustr \<times> ip_addr list) cmd" where
  "validate_upload_destination X W url =
     (case url_split X url of
        None \<Rightarrow> fail server_rejected
      | Some p \<Rightarrow> (case url_hostname p of
          None \<Rightarrow> fail server_rejected
        | Some host \<Rightarrow>
            if url_scheme p \<noteq> u ''https'' \<or> py_lower X host = u ''localhost''
               \<or> url_username p \<noteq> None \<or> url_password p \<noteq> None \<or> url_fragment p \<noteq> []
               \<or> url_port p = None
            then fail server_rejected
            else
              bindc (upload_addresses X W host
                (case the (url_port p) of None \<Rightarrow> 443 | Some n \<Rightarrow> if n = 0 then 443 else n)) (\<lambda>(h, as).
              bindc (refuse_if (as = [] \<or> list_ex unsafe_address as) server_rejected) (\<lambda>_.
              return (h, rev (remdups (rev as)))))))"

definition put_part :: "lib \<Rightarrow> conn_lib \<Rightarrow> world \<Rightarrow> ustr \<Rightarrow> bytes \<Rightarrow> ustr cmd" where
  "put_part L X W url content =
     bindc (validate_upload_destination X W url) (\<lambda>_.
     bindc (modify (\<lambda>c. c\<lparr>c_puts := c_puts c @ [(url, content)]\<rparr>)) (\<lambda>_.
     bindc (ask (\<lambda>n. w_put W n url content)) (\<lambda>r.
     case r of None \<Rightarrow> fail temporary_failure
     | Some resp \<Rightarrow>
         if ur_status resp = 429 \<or> ur_status resp \<ge> 500 then fail temporary_failure
         else if \<not> (200 \<le> ur_status resp \<and> ur_status resp < 300) then fail server_rejected
         else
           let etag = (case ur_etag resp of None \<Rightarrow> [] | Some t \<Rightarrow> strip_chars (isspace L) t) in
           bindc (refuse_if (\<not> (1 \<le> length etag \<and> length etag \<le> ETAG_MAX_CHARS)
             \<or> list_ex control etag) server_rejected) (\<lambda>_.
           return etag))))"

definition complete_attachment_request ::
  "lib \<Rightarrow> conn_lib \<Rightarrow> world \<Rightarrow> uuid \<Rightarrow> attachment_response \<Rightarrow> completed_part list \<Rightarrow> ustr
   \<Rightarrow> attachment_response cmd" where
  "complete_attachment_request L X W job expected parts token =
     bindc (send L X W False (request ''POST'' (attachment_path job (at_id expected) @ u ''/complete'')
       (Some token) (Some (JObj [(u ''parts'', JList (map completed_part_json parts))])))) (\<lambda>payload.
     bindc (of_option server_rejected (read_attachment_response X payload)) (\<lambda>parsed.
     bindc (refuse_if (at_id parsed \<noteq> at_id expected \<or> at_file_id parsed \<noteq> at_file_id expected
        \<or> at_upload_id parsed \<noteq> at_upload_id expected \<or> at_kind parsed \<noteq> at_kind expected
        \<or> at_file_state parsed = FILE_UPLOADING) server_rejected) (\<lambda>_.
     return parsed)))"

definition submit_job_request :: "lib \<Rightarrow> conn_lib \<Rightarrow> world \<Rightarrow> uuid \<Rightarrow> ustr \<Rightarrow> submit_response cmd" where
  "submit_job_request L X W job token =
     bindc (send L X W False (request ''POST'' (job_path job @ u ''/submit'') (Some token) None)) (\<lambda>payload.
     bindc (of_option server_rejected (read_submit_response X payload)) (\<lambda>parsed.
     bindc (refuse_if (\<not> submit_response_ok parsed) server_rejected) (\<lambda>_.
     bindc (refuse_if (sr_id parsed \<noteq> job) server_rejected) (\<lambda>_.
     return parsed))))"

definition status_request :: "lib \<Rightarrow> conn_lib \<Rightarrow> world \<Rightarrow> uuid \<Rightarrow> ustr \<Rightarrow> job_response cmd" where
  "status_request L X W job token =
     bindc (send L X W False (request ''GET'' (job_path job) (Some token) None)) (\<lambda>payload.
     bindc (of_option server_rejected (Option.bind (read_job_response X payload) (job_response_schema L)))
       (\<lambda>parsed.
     bindc (refuse_if (jr_id parsed \<noteq> job) server_rejected) (\<lambda>_.
     return parsed)))"

end
