(* ===== verification/Connector_Cli.thy ===== *)
theory Connector_Cli
  imports Connector_Client
begin

text \<open>
  \<open>cli.py\<close>: the commands \<open>pair\<close>, \<open>submit\<close>, \<open>status\<close> and \<open>retry\<close> with the recovery they start
  with.  The commands take the normalized origin; \<open>L\<close>, \<open>X\<close> and \<open>W\<close> are the library, the
  readers and the world.  A Python object that is updated in place (the entry) is returned
  updated.
\<close>

definition safe_echo :: "world \<Rightarrow> ustr \<Rightarrow> unit cmd" where
  "safe_echo W message = bindc (ask (w_echo W)) (\<lambda>ok.
     if ok then modify (\<lambda>c. c\<lparr>c_printed := c_printed c @ [message]\<rparr>) else fail outbox_invalid)"

definition safe_argument :: "lib \<Rightarrow> nat \<Rightarrow> ustr \<Rightarrow> bool" where
  "safe_argument L maximum v \<longleftrightarrow> utf8_encode v \<noteq> None \<and> 1 \<le> length v \<and> length v \<le> maximum
     \<and> strip_chars (isspace L) v \<noteq> [] \<and> list_all (\<lambda>c. \<not> control c) v"

definition result_line :: "uuid \<Rightarrow> import_status \<Rightarrow> ustr option \<Rightarrow> ustr" where
  "result_line job status code = join (u '' '')
     ([uuid_str job, u (import_status_text status)] @ (case code of None \<Rightarrow> [] | Some r \<Rightarrow> [r]))"

definition print_result_and_delete ::
  "world \<Rightarrow> uuid \<Rightarrow> import_status \<Rightarrow> ustr option \<Rightarrow> ustr \<Rightarrow> unit cmd" where
  "print_result_and_delete W job status code p =
     bindc (safe_echo W (result_line job status code)) (\<lambda>_. delete_document W p)"

definition report_replacement :: "world \<Rightarrow> unit cmd" where
  "report_replacement W =
     safe_echo W (u ''Device paired. Old operation abandoned; create a new manifest and UUID.'')"

section \<open>Recovery of a pairing\<close>

definition refresh_fingerprint :: "lib \<Rightarrow> ustr option \<Rightarrow> ustr option" where
  "refresh_fingerprint L v = map_option (\<lambda>s. sha256_hex L (concat (map utf8_char s))) v"

definition credential_was_replaced ::
  "lib \<Rightarrow> credential_state \<Rightarrow> ustr option \<Rightarrow> ustr option \<Rightarrow> bool" where
  "credential_was_replaced L old_credential_state old_refresh_sha256 current_refresh \<longleftrightarrow>
     (old_credential_state = MISSING \<and> current_refresh \<noteq> None)
     \<or> (old_credential_state = PRESENT \<and> current_refresh \<noteq> None
        \<and> refresh_fingerprint L current_refresh \<noteq> old_refresh_sha256)"

definition recover_replacement :: "lib \<Rightarrow> world \<Rightarrow> ustr \<Rightarrow> bool \<Rightarrow> bool cmd" where
  "recover_replacement L W origin retain_completed_marker =
     bindc (load_replacement_marker W origin) (\<lambda>loaded.
     case loaded of None \<Rightarrow> return False
     | Some m \<Rightarrow>
         bindc (load_refresh_optional W) (\<lambda>current_refresh.
         let replaced = credential_was_replaced L (rm_old_credential_state m)
           (rm_old_refresh_sha256 m) current_refresh in
         bindc (get (has_document (rm_old_outbox_filename m))) (\<lambda>present.
         bindc (if replaced \<and> present then delete_document W (rm_old_outbox_filename m)
                else return ()) (\<lambda>_.
         if replaced \<and> retain_completed_marker then return True
         else bindc (delete_replacement_marker W) (\<lambda>_. return replaced)))))"

definition recover_initial_pair :: "lib \<Rightarrow> world \<Rightarrow> ustr \<Rightarrow> bool cmd" where
  "recover_initial_pair L W origin =
     bindc (load_pair_completion_marker W origin) (\<lambda>loaded.
     case loaded of None \<Rightarrow> return False
     | Some m \<Rightarrow>
         bindc (load_refresh_optional W) (\<lambda>current_refresh.
         if credential_was_replaced L (pcm_old_credential_state m) (pcm_old_refresh_sha256 m)
           current_refresh
         then return True
         else bindc (delete_pair_completion_marker W) (\<lambda>_. return False)))"

definition reject_pending_initial_pair :: "world \<Rightarrow> ustr \<Rightarrow> unit cmd" where
  "reject_pending_initial_pair W origin =
     bindc (load_pair_completion_marker W origin) (\<lambda>m.
     refuse_if (m \<noteq> None) (ConnectorError 2 PAIR_INCOMPLETE))"

section \<open>Resuming an operation\<close>

fun same_attachments ::
  "conn_lib \<Rightarrow> prepared_attachment list \<Rightarrow> attachment_state list \<Rightarrow> unit cmd" where
  "same_attachments X (p # ps) (s # ss) =
     (if pa_sha256 p = as_sha256 s \<and> pa_part_sha256s p \<noteq> as_part_sha256s s then fail outbox_invalid
      else if pa_kind p \<noteq> as_kind s \<or> path_str X (pa_path p) \<noteq> as_path s
        \<or> pa_filename p \<noteq> as_filename s \<or> pa_size_bytes p \<noteq> as_size_bytes s
        \<or> pa_sha256 p \<noteq> as_sha256 s \<or> pa_part_sha256s p \<noteq> as_part_sha256s s
        \<or> pa_content_type p \<noteq> as_content_type s
      then fail file_changed
      else same_attachments X ps ss)"
| "same_attachments X ps ss = return ()"

definition prepared_for_retry ::
  "lib \<Rightarrow> conn_lib \<Rightarrow> world \<Rightarrow> outbox_entry \<Rightarrow> prepared_manifest cmd" where
  "prepared_for_retry L X W e =
     bindc (catch (prepare_manifest L X W (path_of X (o_manifest_path e))) (\<lambda>_. fail file_changed)) (\<lambda>m.
     bindc (refuse_if (pr_idempotency_key m \<noteq> o_idempotency_key e
        \<or> pr_fingerprint m \<noteq> o_manifest_fingerprint e
        \<or> length (pr_attachments m) \<noteq> length (o_attachments e)) file_changed) (\<lambda>_.
     bindc (same_attachments X (pr_attachments m) (o_attachments e)) (\<lambda>_.
     return m)))"

text \<open>The last attachment of a kind is the one a dict built from the list holds.\<close>

definition received_by_kind :: "job_response \<Rightarrow> attachment_kind \<Rightarrow> attachment_response option" where
  "received_by_kind r k = find (\<lambda>a. at_kind a = k) (rev (jr_attachments r))"

fun bind_attachments ::
  "job_response \<Rightarrow> attachment_state list \<Rightarrow> prepared_attachment list
   \<Rightarrow> cerror + attachment_state list" where
  "bind_attachments r (s # ss) (p # ps) =
     (case received_by_kind r (pa_kind p) of
        None \<Rightarrow> Inl server_rejected
      | Some a \<Rightarrow> (case bind_attachments r ss ps of
          Inl e \<Rightarrow> Inl e
        | Inr rest \<Rightarrow> Inr (s\<lparr>as_attachment_id := Some (at_id a), as_file_id := Some (at_file_id a),
            as_upload_id := Some (at_upload_id a)\<rparr> # rest)))"
| "bind_attachments r [] [] = Inr []"
| "bind_attachments r ss ps = Inl (Uncaught ''ValueError'')"  \<comment> \<open>\<open>zip(..., strict=True)\<close>\<close>

definition bind_created_job ::
  "outbox_entry \<Rightarrow> prepared_manifest \<Rightarrow> job_response \<Rightarrow> cerror + outbox_entry" where
  "bind_created_job e m r =
     (if length (remdups (map at_kind (jr_attachments r))) \<noteq> length (o_attachments e)
      then Inl server_rejected
      else (case bind_attachments r (o_attachments e) (pr_attachments m) of
          Inl x \<Rightarrow> Inl x
        | Inr as \<Rightarrow> Inr (e\<lparr>o_job_id := Some (jr_id r), o_attachments := as, o_phase := PHASE_UPLOAD\<rparr>)))"

definition of_sum :: "cerror + 'a \<Rightarrow> 'a cmd" where
  "of_sum r = (case r of Inl e \<Rightarrow> fail e | Inr x \<Rightarrow> return x)"

lemma wp_of_sum [wp_simps]: "wp (of_sum r) Q E c = (case r of Inl e \<Rightarrow> E e c | Inr x \<Rightarrow> Q x c)"
  by (simp add: of_sum_def wp_simps split: sum.split)

definition read_part :: "lib \<Rightarrow> world \<Rightarrow> path \<Rightarrow> nat \<Rightarrow> nat \<Rightarrow> nat \<Rightarrow> ustr \<Rightarrow> bytes cmd" where
  "read_part L W p part_number part_size total_size expected_sha256 =
     (let offset = (part_number - 1) * part_size;
          expected_length = min (int part_size) (int total_size - int offset) in
      bindc (ask_or file_changed (\<lambda>n. w_read W n p)) (\<lambda>file.
      let content = take part_size (drop offset file) in
      bindc (refuse_if (int (length content) \<noteq> expected_length
         \<or> sha256_hex L content \<noteq> expected_sha256) file_changed) (\<lambda>_.
      return content)))"

definition verify_state :: "lib \<Rightarrow> conn_lib \<Rightarrow> world \<Rightarrow> attachment_state \<Rightarrow> unit cmd" where
  "verify_state L X W a = verify_attachment L W (path_of X (as_path a)) (as_size_bytes a) (as_sha256 a)"

definition set_attachment :: "nat \<Rightarrow> attachment_state \<Rightarrow> outbox_entry \<Rightarrow> outbox_entry" where
  "set_attachment i a e = e\<lparr>o_attachments := (o_attachments e)[i := a]\<rparr>"

definition add_part :: "completed_part \<Rightarrow> attachment_state \<Rightarrow> attachment_state" where
  "add_part p a = a\<lparr>as_completed_parts := sort_key cp_part_number (as_completed_parts a @ [p])\<rparr>"

definition upload_part ::
  "lib \<Rightarrow> conn_lib \<Rightarrow> world \<Rightarrow> ustr \<Rightarrow> ustr \<Rightarrow> uuid \<Rightarrow> uuid \<Rightarrow> nat \<Rightarrow> nat \<Rightarrow> outbox_entry
   \<Rightarrow> outbox_entry cmd" where
  "upload_part L X W token p job attachment_id i n e =
     (let a = o_attachments e ! i in
      bindc (part_url_request L X W job attachment_id n token) (\<lambda>url.
      bindc (verify_state L X W a) (\<lambda>_.
      bindc (read_part L W (path_of X (as_path a)) n (as_part_size a) (as_size_bytes a)
        (as_part_sha256s a ! (n - 1))) (\<lambda>content.
      bindc (put_part L X W url content) (\<lambda>etag.
      bindc (of_option (Uncaught ''ValidationError'')
        (completed_part_schema L \<lparr>cp_part_number = n, cp_etag = etag\<rparr>)) (\<lambda>part.
      save L X W p (set_attachment i (add_part part a) e)))))))"

fun upload_parts ::
  "lib \<Rightarrow> conn_lib \<Rightarrow> world \<Rightarrow> ustr \<Rightarrow> ustr \<Rightarrow> uuid \<Rightarrow> uuid \<Rightarrow> nat \<Rightarrow> nat list \<Rightarrow> nat list
   \<Rightarrow> outbox_entry \<Rightarrow> outbox_entry cmd" where
  "upload_parts L X W token p job attachment_id i completed [] e = return e"
| "upload_parts L X W token p job attachment_id i completed (n # ns) e =
     (if n \<in> set completed then upload_parts L X W token p job attachment_id i completed ns e
      else bindc (upload_part L X W token p job attachment_id i n e)
        (upload_parts L X W token p job attachment_id i completed ns))"

definition finish_attachment ::
  "lib \<Rightarrow> conn_lib \<Rightarrow> world \<Rightarrow> ustr \<Rightarrow> ustr \<Rightarrow> uuid \<Rightarrow> uuid \<times> uuid \<times> uuid \<Rightarrow> nat \<Rightarrow> outbox_entry
   \<Rightarrow> outbox_entry cmd" where
  "finish_attachment L X W token p job ids i e =
     (let a = o_attachments e ! i in
      if as_completed a then return e
      else
        bindc (verify_state L X W a) (\<lambda>_.
        bindc (complete_attachment_request L X W job
          \<lparr>at_id = fst ids, at_file_id = fst (snd ids), at_upload_id = snd (snd ids),
           at_kind = as_kind a, at_file_state = FILE_UPLOADING\<rparr>
          (as_completed_parts a) token) (\<lambda>_.
        save L X W p (set_attachment i (a\<lparr>as_completed := True\<rparr>) e))))"

definition upload_attachment ::
  "lib \<Rightarrow> conn_lib \<Rightarrow> world \<Rightarrow> ustr \<Rightarrow> ustr \<Rightarrow> uuid \<Rightarrow> nat \<Rightarrow> outbox_entry \<Rightarrow> outbox_entry cmd" where
  "upload_attachment L X W token p job i e =
     (let a = o_attachments e ! i in
      bindc (verify_state L X W a) (\<lambda>_.
      case (as_attachment_id a, as_file_id a, as_upload_id a) of
        (Some attachment_id, Some file_id, Some upload_id) \<Rightarrow>
          bindc (refuse_if (\<not> distinct (part_numbers a)
             \<or> list_ex (\<lambda>n. n > total_parts a) (part_numbers a)) outbox_invalid) (\<lambda>_.
          bindc (upload_parts L X W token p job attachment_id i (part_numbers a)
             [1..<total_parts a + 1] e)
            (finish_attachment L X W token p job (attachment_id, file_id, upload_id) i))
      | _ \<Rightarrow> fail outbox_invalid))"

fun upload_attachments ::
  "lib \<Rightarrow> conn_lib \<Rightarrow> world \<Rightarrow> ustr \<Rightarrow> ustr \<Rightarrow> uuid \<Rightarrow> nat list \<Rightarrow> outbox_entry \<Rightarrow> outbox_entry cmd" where
  "upload_attachments L X W token p job [] e = return e"
| "upload_attachments L X W token p job (i # is) e =
     bindc (upload_attachment L X W token p job i e) (upload_attachments L X W token p job is)"

definition create_phase ::
  "lib \<Rightarrow> conn_lib \<Rightarrow> world \<Rightarrow> ustr \<Rightarrow> ustr \<Rightarrow> prepared_manifest \<Rightarrow> outbox_entry \<Rightarrow> outbox_entry cmd" where
  "create_phase L X W token p m e =
     (if o_phase e = PHASE_CREATE
      then bindc (create_job_request L X W (pr_server m) (o_idempotency_key e) token) (\<lambda>created.
        bindc (of_sum (bind_created_job e m created)) (save L X W p))
      else return e)"

definition upload_phase ::
  "lib \<Rightarrow> conn_lib \<Rightarrow> world \<Rightarrow> ustr \<Rightarrow> ustr \<Rightarrow> uuid \<Rightarrow> outbox_entry \<Rightarrow> outbox_entry cmd" where
  "upload_phase L X W token p job e =
     (if o_phase e = PHASE_UPLOAD
      then bindc (upload_attachments L X W token p job [0..<length (o_attachments e)] e) (\<lambda>e.
        save L X W p (e\<lparr>o_phase := PHASE_SUBMIT\<rparr>))
      else return e)"

definition evidence_of :: "submit_response \<Rightarrow> evidence_state" where
  "evidence_of r = \<lparr>ev_job_id = sr_id r, ev_status = sr_status r, ev_result_code = sr_result_code r,
     ev_submitted_at = sr_submitted_at r, ev_updated_at = sr_updated_at r\<rparr>"

definition submit_phase ::
  "lib \<Rightarrow> conn_lib \<Rightarrow> world \<Rightarrow> ustr \<Rightarrow> ustr \<Rightarrow> uuid \<Rightarrow> outbox_entry \<Rightarrow> submit_response cmd" where
  "submit_phase L X W token p job e =
     bindc (submit_job_request L X W job token) (\<lambda>r.
     bindc (refuse_if (\<not> evidence_ok (evidence_of r)) (Uncaught ''ValidationError'')) (\<lambda>_.
     bindc (save L X W p (e\<lparr>o_phase := PHASE_EVIDENCE, o_evidence := Some (evidence_of r)\<rparr>)) (\<lambda>_.
     return r)))"

definition resume ::
  "lib \<Rightarrow> conn_lib \<Rightarrow> world \<Rightarrow> ustr \<Rightarrow> ustr \<Rightarrow> outbox_entry \<Rightarrow> prepared_manifest \<Rightarrow> submit_response cmd" where
  "resume L X W token p e m =
     bindc (create_phase L X W token p m e) (\<lambda>e.
     case o_job_id e of None \<Rightarrow> fail outbox_invalid
     | Some job \<Rightarrow>
         bindc (upload_phase L X W token p job e) (submit_phase L X W token p job))"

section \<open>The commands\<close>

fun exits_with :: "nat \<Rightarrow> cerror \<Rightarrow> bool" where
  "exits_with k (ConnectorError n s) \<longleftrightarrow> n = k"
| "exits_with k (Uncaught s) \<longleftrightarrow> False"

text \<open>\<open>_discard_on_file_change\<close>\<close>

definition discarding_on_file_change :: "world \<Rightarrow> ustr \<Rightarrow> 'a cmd \<Rightarrow> 'a cmd" where
  "discarding_on_file_change W p m = catch m (\<lambda>e.
     bindc (if exits_with 4 e then delete_document W p else return ())
       (\<lambda>_. fail e))"

text \<open>The request of \<open>pair\<close>, with the message of its temporary failures.\<close>

definition pair_with_server :: "lib \<Rightarrow> conn_lib \<Rightarrow> world \<Rightarrow> ustr \<Rightarrow> ustr \<Rightarrow> unit cmd" where
  "pair_with_server L X W code name = catch (pair_request L X W code name) (\<lambda>e.
     fail (if exits_with 6 e then ConnectorError 6 PAIR_TEMPORARY_FAILURE else e))"

definition pair_replacing ::
  "lib \<Rightarrow> conn_lib \<Rightarrow> world \<Rightarrow> ustr \<Rightarrow> ustr \<Rightarrow> ustr \<Rightarrow> ustr \<Rightarrow> unit cmd" where
  "pair_replacing L X W origin p code name =
     bindc (load_refresh_optional W) (\<lambda>old_refresh.
     bindc (save_replacement_marker L W origin (refresh_fingerprint L old_refresh) p) (\<lambda>_.
     bindc (pair_with_server L X W code name) (\<lambda>_.
     bindc (delete_document W p) (\<lambda>_.
     bindc (report_replacement W) (\<lambda>_.
     delete_replacement_marker W)))))"

definition pair_first ::
  "lib \<Rightarrow> conn_lib \<Rightarrow> world \<Rightarrow> ustr \<Rightarrow> ustr \<Rightarrow> ustr \<Rightarrow> unit cmd" where
  "pair_first L X W origin code name =
     bindc (load_refresh_optional W) (\<lambda>old_refresh.
     bindc (save_pair_completion_marker L W origin (refresh_fingerprint L old_refresh)) (\<lambda>_.
     bindc (pair_with_server L X W code name) (\<lambda>_.
     bindc (safe_echo W (u ''Device paired.'')) (\<lambda>_.
     delete_pair_completion_marker W))))"

text \<open>\<open>pair\<close> once earlier pairings are settled, and the body of its lock.\<close>

definition pair_operation ::
  "lib \<Rightarrow> conn_lib \<Rightarrow> world \<Rightarrow> ustr \<Rightarrow> ustr \<Rightarrow> ustr \<Rightarrow> unit cmd" where
  "pair_operation L X W origin code name =
     bindc (load_optional L W origin) (\<lambda>existing.
     case existing of
       None \<Rightarrow> pair_first L X W origin code name
     | Some (p, e) \<Rightarrow>
         if o_phase e = PHASE_EVIDENCE then fail (ConnectorError 2 OUTBOX_CONFLICT)
         else pair_replacing L X W origin p code name)"

definition pair_locked ::
  "lib \<Rightarrow> conn_lib \<Rightarrow> world \<Rightarrow> ustr \<Rightarrow> ustr \<Rightarrow> ustr \<Rightarrow> unit cmd" where
  "pair_locked L X W origin code name =
     bindc (recover_replacement L W origin True) (\<lambda>recovered.
     if recovered then bindc (report_replacement W) (\<lambda>_. delete_replacement_marker W)
     else bindc (recover_initial_pair L W origin) (\<lambda>paired.
     if paired then bindc (safe_echo W (u ''Device paired.'')) (\<lambda>_. delete_pair_completion_marker W)
     else pair_operation L X W origin code name))"

definition pair_command ::
  "lib \<Rightarrow> conn_lib \<Rightarrow> world \<Rightarrow> ustr \<Rightarrow> ustr \<Rightarrow> ustr \<Rightarrow> unit cmd" where
  "pair_command L X W origin code name =
     bindc (refuse_if (\<not> safe_argument L 255 code) invalid_input) (\<lambda>_.
     bindc (refuse_if (\<not> safe_argument L 255 name) invalid_input) (\<lambda>_.
     store_lock W (pair_locked L X W origin code name)))"

definition start_command :: "lib \<Rightarrow> world \<Rightarrow> ustr \<Rightarrow> bool cmd" where
  "start_command L W origin =
     bindc (reject_pending_initial_pair W origin) (\<lambda>_. recover_replacement L W origin False)"

definition run_operation ::
  "lib \<Rightarrow> conn_lib \<Rightarrow> world \<Rightarrow> ustr \<Rightarrow> outbox_entry \<Rightarrow> prepared_manifest cmd \<Rightarrow> unit cmd" where
  "run_operation L X W p e prepared =
     bindc (discarding_on_file_change W p (
       bindc prepared (\<lambda>m.
       bindc (refresh_request L X W) (\<lambda>access_token.
       resume L X W access_token p e m)))) (\<lambda>r.
     print_result_and_delete W (sr_id r) (sr_status r) (sr_result_code r) p)"

text \<open>\<open>submit\<close> once earlier pairings are settled.\<close>

definition submit_prepared ::
  "lib \<Rightarrow> conn_lib \<Rightarrow> world \<Rightarrow> ustr \<Rightarrow> prepared_manifest \<Rightarrow> unit cmd" where
  "submit_prepared L X W origin prepared =
     bindc (ensure_available L W origin) (\<lambda>_.
     bindc (initial_entry L X W origin prepared) (\<lambda>e.
     let p = path_for L (pr_idempotency_key prepared) in
     bindc (save L X W p e) (\<lambda>e.
     run_operation L X W p e (return prepared))))"

definition submit_command :: "lib \<Rightarrow> conn_lib \<Rightarrow> world \<Rightarrow> ustr \<Rightarrow> path \<Rightarrow> unit cmd" where
  "submit_command L X W origin manifest_path =
     bindc (prepare_manifest L X W manifest_path) (\<lambda>prepared.
     store_lock W (
       bindc (start_command L W origin) (\<lambda>_. submit_prepared L X W origin prepared)))"

definition status_command :: "lib \<Rightarrow> conn_lib \<Rightarrow> world \<Rightarrow> ustr \<Rightarrow> uuid \<Rightarrow> unit cmd" where
  "status_command L X W origin job =
     store_lock W (
       bindc (start_command L W origin) (\<lambda>_.
       bindc (refresh_request L X W) (\<lambda>access_token.
       bindc (status_request L X W job access_token) (\<lambda>r.
       safe_echo W (result_line (jr_id r) (jr_status r) (jr_result_code r))))))"

text \<open>\<open>retry\<close> once the document is loaded.\<close>

definition retry_entry ::
  "lib \<Rightarrow> conn_lib \<Rightarrow> world \<Rightarrow> ustr \<Rightarrow> outbox_entry \<Rightarrow> unit cmd" where
  "retry_entry L X W p e =
     (if o_phase e = PHASE_EVIDENCE
      then (case o_evidence e of None \<Rightarrow> fail outbox_invalid
        | Some v \<Rightarrow> print_result_and_delete W (ev_job_id v) (ev_status v) (ev_result_code v) p)
      else run_operation L X W p e (prepared_for_retry L X W e))"

definition retry_command :: "lib \<Rightarrow> conn_lib \<Rightarrow> world \<Rightarrow> ustr \<Rightarrow> unit cmd" where
  "retry_command L X W origin =
     store_lock W (
       bindc (start_command L W origin) (\<lambda>_.
       bindc (load_entry L W origin) (\<lambda>(p, e). retry_entry L X W p e)))"

text \<open>\<open>_command\<close>: the process exit code, with the message on standard error.\<close>

definition exit_code :: "world \<Rightarrow> 'a cmd \<Rightarrow> conn \<Rightarrow> nat \<times> conn" where
  "exit_code W m c = (case m c of
     (Inr _, c') \<Rightarrow> (0, c')
   | (Inl (ConnectorError n s), c') \<Rightarrow> (n, snd (safe_echo W (u s) c'))
   | (Inl (Uncaught s), c') \<Rightarrow> (1, c'))"

end
