(* ===== verification/Connector_Frames.thy ===== *)
theory Connector_Frames
  imports Connector_Cli
begin

text \<open>
  What the commands leave alone.  \<open>frame R m\<close> says that every run of \<open>m\<close>, whether it ends in
  a value or an error, relates the state before to the state after by \<open>R\<close>.  The locales state
  what \<open>R\<close> has to allow for the commands that only read, that also send, and that also store
  the credential; their interpretations give the state files, the uploads and the credential
  that such commands keep.
\<close>

definition frame :: "(conn \<Rightarrow> conn \<Rightarrow> bool) \<Rightarrow> 'a cmd \<Rightarrow> bool" where
  "frame R m \<longleftrightarrow> (\<forall>c. R c (snd (m c)))"

lemma frame_wp: "frame R m \<Longrightarrow> wp m (\<lambda>_ c'. R c c') (\<lambda>_ c'. R c c') c"
  by (simp add: frame_def wp_run)

lemma frameI: "(\<And>c. wp m (\<lambda>_ c'. R c c') (\<lambda>_ c'. R c c') c) \<Longrightarrow> frame R m"
  by (simp add: frame_def wp_run)

text \<open>A framed command inside a proof about what follows it.\<close>

lemma frame_strengthen:
  assumes "frame R m" "\<And>x c'. R c c' \<Longrightarrow> Q x c'" "\<And>e c'. R c c' \<Longrightarrow> E e c'"
  shows "wp m Q E c"
  by (rule wp_mono [OF frame_wp [OF assms(1)]]) (rule assms; assumption)+

locale reader =
  fixes R :: "conn \<Rightarrow> conn \<Rightarrow> bool"
  assumes R_refl: "R c c"
    and R_trans: "R a b \<Longrightarrow> R b c \<Longrightarrow> R a c"
    and R_tick: "R c (c\<lparr>c_tick := n\<rparr>)"
begin

lemma frame_after: "frame R m \<Longrightarrow> R a c \<Longrightarrow> wp m (\<lambda>_ c'. R a c') (\<lambda>_ c'. R a c') c"
  unfolding frame_def wp_run by (blast intro: R_trans)

lemma frame_bindc: "frame R m \<Longrightarrow> (\<And>x. frame R (f x)) \<Longrightarrow> frame R (bindc m f)"
  by (rule frameI, unfold wp_bindc, rule frame_strengthen, assumption) (rule frame_after; simp)+

lemma frame_return: "frame R (return x)"
  by (simp add: frame_def return_def R_refl)

lemma frame_fail: "frame R (fail e)"
  by (simp add: frame_def fail_def R_refl)

lemma frame_get: "frame R (get f)"
  by (simp add: frame_def get_def R_refl)

lemma frame_ask: "frame R (ask f)"
  by (simp add: frame_def ask_def R_tick)

lemma frame_of_option: "frame R (of_option e v)"
  by (simp add: of_option_def frame_return frame_fail split: option.split)

lemma frame_of_result: "frame R (of_result e v)"
  by (simp add: of_result_def frame_return frame_fail split: sum.split)

lemma frame_of_sum: "frame R (of_sum v)"
  by (simp add: of_sum_def frame_return frame_fail split: sum.split)

lemma frame_if: "(b \<Longrightarrow> frame R m) \<Longrightarrow> (\<not> b \<Longrightarrow> frame R n) \<Longrightarrow> frame R (if b then m else n)"
  by simp

lemma frame_option: "(\<And>x. v = Some x \<Longrightarrow> frame R (f x)) \<Longrightarrow> (v = None \<Longrightarrow> frame R m)
    \<Longrightarrow> frame R (case v of None \<Rightarrow> m | Some x \<Rightarrow> f x)"
  by (simp split: option.split)

lemma frame_sum: "(\<And>x. v = Inl x \<Longrightarrow> frame R (f x)) \<Longrightarrow> (\<And>x. v = Inr x \<Longrightarrow> frame R (g x))
    \<Longrightarrow> frame R (case v of Inl x \<Rightarrow> f x | Inr x \<Rightarrow> g x)"
  by (simp split: sum.split)

lemma frame_prod: "(\<And>a b. frame R (f a b)) \<Longrightarrow> frame R (case v of (a, b) \<Rightarrow> f a b)"
  by (simp split: prod.split)

lemma frame_Let: "frame R (f v) \<Longrightarrow> frame R (let x = v in f x)"
  by simp

lemma frame_catch: "frame R m \<Longrightarrow> (\<And>e. frame R (h e)) \<Longrightarrow> frame R (catch m h)"
  by (rule frameI, unfold wp_catch, rule frame_strengthen, assumption)
    (auto intro: frame_after split: cerror.split)

lemmas frame_intros = frame_bindc frame_return frame_fail frame_get frame_ask frame_of_option
  frame_of_result frame_of_sum frame_if frame_option frame_sum frame_prod frame_Let frame_catch

lemma frame_hash: "frame R (hash_regular_file L W p)"
  unfolding hash_regular_file_def by (intro frame_intros)

lemma frame_prepare_attachment: "frame R (prepare_attachment L X W base seen d)"
  unfolding prepare_attachment_def by (intro frame_intros frame_hash)

lemma frame_prepare_attachments: "frame R (prepare_attachments L X W base seen ds)"
  by (induction ds arbitrary: seen) (auto intro!: frame_intros frame_prepare_attachment)

lemma frame_prepare: "frame R (prepare_manifest L X W p)"
  unfolding prepare_manifest_def by (intro frame_intros frame_prepare_attachments)

lemma frame_verify: "frame R (verify_attachment L W p n h)"
  unfolding verify_attachment_def by (intro frame_intros frame_hash)

lemma frame_verify_state: "frame R (verify_state L X W a)"
  unfolding verify_state_def by (rule frame_verify)

lemma frame_read_part: "frame R (read_part L W p n k t h)"
  unfolding read_part_def by (intro frame_intros)

lemma frame_read_json: "frame R (read_json W f)"
  unfolding read_json_def by (cases f) (auto intro!: frame_intros)

lemma frame_read_documents: "frame R (read_documents L W ds)"
  by (induction ds) (auto intro!: frame_intros frame_read_json)

lemma frame_load_optional: "frame R (load_optional L W origin)"
  unfolding load_optional_def all_documents_def
  by (intro frame_bindc frame_get frame_read_documents)
    (auto intro!: frame_return frame_fail split: list.split)

lemma frame_load_entry: "frame R (load_entry L W origin)"
  unfolding load_entry_def by (intro frame_intros frame_load_optional)

lemma frame_ensure_available: "frame R (ensure_available L W origin)"
  unfolding ensure_available_def by (intro frame_intros frame_load_optional)

lemma frame_load_marker: "frame R (load_replacement_marker W origin)"
  unfolding load_replacement_marker_def by (intro frame_intros frame_read_json)

lemma frame_load_pair_marker: "frame R (load_pair_completion_marker W origin)"
  unfolding load_pair_completion_marker_def by (intro frame_intros frame_read_json)

lemma frame_initial_entry: "frame R (initial_entry L X W origin m)"
  unfolding initial_entry_def by (intro frame_intros)

lemma frame_load_refresh: "frame R (load_refresh_optional W)" "frame R (load_refresh W)"
  unfolding load_refresh_def load_refresh_optional_def by (intro frame_intros)+

lemma frame_same_attachments: "frame R (same_attachments X ps ss)"
  by (induction X ps ss rule: same_attachments.induct) (auto intro!: frame_intros)

lemma frame_prepared_for_retry: "frame R (prepared_for_retry L X W e)"
  unfolding prepared_for_retry_def by (intro frame_intros frame_prepare frame_same_attachments)

lemma frame_reject_pending: "frame R (reject_pending_initial_pair W origin)"
  unfolding reject_pending_initial_pair_def by (intro frame_intros frame_load_pair_marker)

lemma frame_destination: "frame R (validate_upload_destination X W url)"
  unfolding validate_upload_destination_def upload_addresses_def resolve_upload_host_def
  by (intro frame_intros) (auto intro!: frame_intros split: resolver.split)

end

text \<open>Commands that also send requests.\<close>

locale sender = reader +
  assumes R_request: "R c (c\<lparr>c_requests := rs\<rparr>)"
begin

lemma frame_send: "frame R (send L X W auth rq)"
  unfolding send_def
  by (intro frame_bindc frame_ask frame_option frame_fail frame_sum frame_return)
    (simp add: frame_def modify_def R_request)

lemma frame_create_job: "frame R (create_job_request L X W m k t)"
  unfolding create_job_request_def by (intro frame_intros frame_send)

lemma frame_part_url: "frame R (part_url_request L X W j a n t)"
  unfolding part_url_request_def by (intro frame_intros frame_send)

lemma frame_complete: "frame R (complete_attachment_request L X W j x ps t)"
  unfolding complete_attachment_request_def by (intro frame_intros frame_send)

lemma frame_submit_job: "frame R (submit_job_request L X W j t)"
  unfolding submit_job_request_def by (intro frame_intros frame_send)

lemma frame_status: "frame R (status_request L X W j t)"
  unfolding status_request_def by (intro frame_intros frame_send)

end

text \<open>Commands that also put parts.\<close>

locale uploader = sender +
  assumes R_put: "R c (c\<lparr>c_puts := ps\<rparr>)"
begin

lemma frame_put: "frame R (put_part L X W url content)"
  unfolding put_part_def
  by (intro frame_intros frame_destination) (simp add: frame_def modify_def R_put)

end

text \<open>Commands that also replace the credential.\<close>

locale credential_user = sender +
  assumes R_refresh: "R c (c\<lparr>c_refresh := v\<rparr>)"
begin

lemma frame_save_refresh: "frame R (save_refresh W v)"
  unfolding save_refresh_def
  by (intro frame_intros) (simp add: frame_def modify_def R_refresh)

lemma frame_refresh: "frame R (refresh_request L X W)"
  unfolding refresh_request_def by (intro frame_intros frame_load_refresh frame_send frame_save_refresh)

lemma frame_pair: "frame R (pair_request L X W code name)"
  unfolding pair_request_def by (intro frame_intros frame_send frame_save_refresh)

lemma frame_pair_with_server: "frame R (pair_with_server L X W code name)"
  unfolding pair_with_server_def by (intro frame_catch frame_pair frame_fail)

end

section \<open>Instances\<close>

text \<open>The state files stay.\<close>

definition same_files :: "conn \<Rightarrow> conn \<Rightarrow> bool" where
  "same_files c c' \<longleftrightarrow> c_documents c' = c_documents c \<and> c_marker c' = c_marker c
     \<and> c_pair_marker c' = c_pair_marker c"

interpretation files: uploader same_files
  by unfold_locales (simp_all add: same_files_def)

interpretation files_kept: credential_user same_files
  by unfold_locales (simp_all add: same_files_def)

text \<open>Nothing is uploaded.\<close>

definition same_puts :: "conn \<Rightarrow> conn \<Rightarrow> bool" where
  "same_puts c c' \<longleftrightarrow> c_puts c' = c_puts c"

interpretation puts: credential_user same_puts
  by unfold_locales (simp_all add: same_puts_def)

text \<open>The credential stays.\<close>

definition same_credential :: "conn \<Rightarrow> conn \<Rightarrow> bool" where
  "same_credential c c' \<longleftrightarrow> c_refresh c' = c_refresh c"

interpretation credential: uploader same_credential
  by unfold_locales (simp_all add: same_credential_def)

text \<open>Nothing but the number of answers asked changes.\<close>

definition only_ticks :: "conn \<Rightarrow> conn \<Rightarrow> bool" where
  "only_ticks c c' \<longleftrightarrow> (\<exists>n. c' = c\<lparr>c_tick := n\<rparr>)"

interpretation ticks: reader only_ticks
proof
  show "only_ticks c c" for c
    by (cases c) (auto simp: only_ticks_def intro!: exI [of _ "c_tick c"])
qed (auto simp: only_ticks_def)

text \<open>The state files stay and nothing is uploaded: all of a run but its saves and puts.\<close>

definition quiet :: "conn \<Rightarrow> conn \<Rightarrow> bool" where
  "quiet c c' \<longleftrightarrow> same_files c c' \<and> same_puts c c'"

interpretation quiet: credential_user quiet
  by unfold_locales (simp_all add: quiet_def same_files_def same_puts_def)

end
