(* ===== verification/Connector_Proofs.thy ===== *)
theory Connector_Proofs
  imports Connector_Frames "HOL-Library.Sublist"
begin

text \<open>
  The proofs about the connector: what validation does to a document, the state of the outbox
  that every command keeps, and the account of which parts a run uploads.
\<close>

section \<open>Validation\<close>

lemma all_valid_iff: "all_valid f xs = Some ys \<longleftrightarrow> list_all2 (\<lambda>x y. f x = Some y) xs ys"
proof (induction xs arbitrary: ys)
  case (Cons x xs)
  show ?case
  proof (cases "all_valid f xs")
    case None
    with Cons.IH show ?thesis by (auto simp: list_all2_Cons1 split: option.split)
  next
    case (Some zs)
    with Cons.IH have "list_all2 (\<lambda>x y. f x = Some y) xs ws \<longleftrightarrow> zs = ws" for ws by auto
    with Some show ?thesis by (auto simp: list_all2_Cons1 split: option.split)
  qed
qed auto

lemma all_valid_fixed: "(\<And>y. y \<in> set ys \<Longrightarrow> f y = Some y) \<Longrightarrow> all_valid f ys = Some ys"
  by (induction ys) auto

text \<open>The same attachment, its parts validated.\<close>

definition same_attachment :: "attachment_state \<Rightarrow> attachment_state \<Rightarrow> bool" where
  "same_attachment a b \<longleftrightarrow> (\<exists>ps. b = a\<lparr>as_completed_parts := ps\<rparr> \<and> map cp_part_number ps = part_numbers a)"

lemma completed_part_valid:
  assumes "completed_part_schema L p = Some q"
  shows "cp_part_number q = cp_part_number p" "completed_part_schema L q = Some q"
proof -
  have len: "length (strip_chars P s) \<le> length s" for P and s :: ustr
    unfolding strip_chars_def using length_dropWhile_le [of P "rev (dropWhile P s)"] length_dropWhile_le [of P s]
    by simp
  from assms show "cp_part_number q = cp_part_number p" "completed_part_schema L q = Some q"
    using len [of "isspace L" "cp_etag p"]
    by (auto simp: completed_part_schema_def Let_def strip_chars_idem Suc_le_eq split: if_splits)
qed

lemma parts_valid:
  assumes "all_valid (completed_part_schema L) ps = Some qs"
  shows "map cp_part_number qs = map cp_part_number ps" "all_valid (completed_part_schema L) qs = Some qs"
proof -
  from assms have l: "list_all2 (\<lambda>p q. completed_part_schema L p = Some q) ps qs"
    by (simp add: all_valid_iff)
  then show "map cp_part_number qs = map cp_part_number ps"
    by (induction rule: list_all2_induct) (simp_all add: completed_part_valid)
  from l have "\<forall>q \<in> set qs. completed_part_schema L q = Some q"
    by (induction rule: list_all2_induct) (auto simp: completed_part_valid)
  then show "all_valid (completed_part_schema L) qs = Some qs"
    by (intro all_valid_fixed) simp
qed

lemma attachment_state_valid:
  assumes "attachment_state_schema L a = Some b"
  shows "same_attachment a b" "attachment_state_schema L b = Some b" "consistent_progress b"
    "as_part_size b = 8388608"
proof -
  from assms obtain ps where ps: "all_valid (completed_part_schema L) (as_completed_parts a) = Some ps"
    and b: "b = a\<lparr>as_completed_parts := ps\<rparr>" and c: "consistent_progress b" "as_part_size a = 8388608"
    by (auto simp: attachment_state_schema_def Let_def split: option.splits if_splits)
  show "same_attachment a b"
    using parts_valid(1) [OF ps] b by (auto simp: same_attachment_def part_numbers_def)
  have "as_completed_parts b = ps" "b\<lparr>as_completed_parts := ps\<rparr> = b" by (simp_all add: b)
  then show "attachment_state_schema L b = Some b"
    using assms parts_valid(2) [OF ps] by (simp add: attachment_state_schema_def Let_def ps b split: if_splits)
  show "consistent_progress b" "as_part_size b = 8388608" using c b by simp_all
qed

lemma outbox_entry_valid:
  assumes "outbox_entry_schema L e = Some v"
  obtains as where "v = e\<lparr>o_attachments := as\<rparr>" "list_all2 same_attachment (o_attachments e) as"
    "outbox_entry_schema L v = Some v" "consistent_phase v"
    "\<forall>a \<in> set as. consistent_progress a \<and> as_part_size a = 8388608"
proof -
  from assms obtain as where as: "all_valid (attachment_state_schema L) (o_attachments e) = Some as"
    and v: "v = e\<lparr>o_attachments := as\<rparr>" and c: "consistent_phase v"
    by (auto simp: outbox_entry_schema_def Let_def split: option.splits if_splits)
  from as have l: "list_all2 (\<lambda>x y. attachment_state_schema L x = Some y) (o_attachments e) as"
    by (simp add: all_valid_iff)
  then have 1: "list_all2 same_attachment (o_attachments e) as"
    by (rule list_all2_mono) (rule attachment_state_valid)
  from l have 2: "\<forall>a \<in> set as. attachment_state_schema L a = Some a \<and> consistent_progress a \<and> as_part_size a = 8388608"
    by (induction rule: list_all2_induct) (auto simp: attachment_state_valid)
  then have "all_valid (attachment_state_schema L) as = Some as" by (intro all_valid_fixed) simp
  moreover have "o_attachments v = as" "v\<lparr>o_attachments := as\<rparr> = v" by (simp_all add: v)
  ultimately have "outbox_entry_schema L v = Some v"
    using assms by (simp add: outbox_entry_schema_def Let_def as v split: if_splits)
  with 1 2 v c show thesis by (intro that) auto
qed

section \<open>The outbox a command finds and leaves\<close>

text \<open>At most one document, valid, of this origin and named after its key; valid markers; no
  document beside the marker of a first pairing.\<close>

fun own_document :: "lib \<Rightarrow> ustr \<Rightarrow> ustr \<times> outbox_entry state_file \<Rightarrow> bool" where
  "own_document L origin (p, State_File n (Some e)) \<longleftrightarrow> outbox_entry_schema L e = Some e
     \<and> o_normalized_origin e = origin \<and> p = path_for L (o_idempotency_key e)"
| "own_document L origin (p, State_File n None) \<longleftrightarrow> False"

fun own_marker :: "ustr \<Rightarrow> replacement_marker state_file \<Rightarrow> bool" where
  "own_marker origin (State_File n (Some m)) \<longleftrightarrow> replacement_marker_ok m \<and> rm_normalized_origin m = origin"
| "own_marker origin (State_File n None) \<longleftrightarrow> False"

fun own_pair_marker :: "ustr \<Rightarrow> pair_completion_marker state_file \<Rightarrow> bool" where
  "own_pair_marker origin (State_File n (Some m)) \<longleftrightarrow>
     pair_completion_marker_ok m \<and> pcm_normalized_origin m = origin"
| "own_pair_marker origin (State_File n None) \<longleftrightarrow> False"

definition outbox_ok :: "lib \<Rightarrow> ustr \<Rightarrow> conn \<Rightarrow> bool" where
  "outbox_ok L origin c \<longleftrightarrow> length (c_documents c) \<le> 1
     \<and> list_all (own_document L origin) (c_documents c)
     \<and> pred_option (own_marker origin) (c_marker c)
     \<and> pred_option (own_pair_marker origin) (c_pair_marker c)
     \<and> (c_pair_marker c \<noteq> None \<longrightarrow> c_documents c = [])"

lemma outbox_ok_same_files: "same_files c c' \<Longrightarrow> outbox_ok L origin c' = outbox_ok L origin c"
  by (simp add: outbox_ok_def same_files_def)

text \<open>An operation works on an entry whose document, if there is one, is the only one.\<close>

definition working :: "lib \<Rightarrow> ustr \<Rightarrow> ustr \<Rightarrow> outbox_entry \<Rightarrow> conn \<Rightarrow> bool" where
  "working L origin p e c \<longleftrightarrow> outbox_ok L origin c \<and> c_pair_marker c = None
     \<and> list_all (\<lambda>d. fst d = p) (c_documents c)
     \<and> o_normalized_origin e = origin \<and> p = path_for L (o_idempotency_key e)"

lemma working_same_files: "same_files c c' \<Longrightarrow> working L origin p e c' = working L origin p e c"
  using outbox_ok_same_files [of c c' L origin] by (simp add: working_def same_files_def)

lemma working_entry:
  assumes "o_normalized_origin e' = o_normalized_origin e" "o_idempotency_key e' = o_idempotency_key e"
  shows "working L origin p e' c = working L origin p e c"
  using assms by (simp add: working_def)

lemma working_put:
  assumes "working L origin p e c" "outbox_entry_schema L v = Some v"
    "o_normalized_origin v = o_normalized_origin e" "o_idempotency_key v = o_idempotency_key e"
  shows "working L origin p e (put_document p (State_File n (Some v)) c)"
proof -
  from assms(1) have "filter (\<lambda>d. fst d \<noteq> p) (c_documents c) = []"
    by (auto simp: working_def list_all_iff filter_empty_conv)
  with assms show ?thesis by (simp add: working_def put_document_def outbox_ok_def)
qed

lemma save_working:
  assumes "working L origin p e c"
  shows "wp (save L X W p e) (\<lambda>e' c'. working L origin p e' c' \<and> (\<exists>t. e' = e\<lparr>o_updated_at := t\<rparr>))
    (\<lambda>_ c'. outbox_ok L origin c' \<and> working L origin p e c') c"
proof -
  have t: "working L origin p e (c\<lparr>c_tick := n\<rparr>)" for n
    using assms working_same_files [of c "c\<lparr>c_tick := n\<rparr>"] by (simp add: same_files_def)
  have put: "working L origin p (e\<lparr>o_updated_at := w\<rparr>) (put_document p (State_File n (Some v)) (c\<lparr>c_tick := k\<rparr>))"
    if v: "outbox_entry_schema L (e\<lparr>o_updated_at := w\<rparr>) = Some v" for w v n k
  proof -
    from v obtain as where v2: "v = e\<lparr>o_updated_at := w, o_attachments := as\<rparr>" "outbox_entry_schema L v = Some v"
      by (rule outbox_entry_valid) auto
    have "working L origin p (e\<lparr>o_updated_at := w\<rparr>) (c\<lparr>c_tick := k\<rparr>)"
      by (subst working_entry [where e = e]) (simp_all add: t)
    then show ?thesis by (rule working_put) (use v2 in simp_all)
  qed
  have e: "working L origin p (e\<lparr>o_updated_at := w\<rparr>) c' = working L origin p e c'" for w c'
    by (rule working_entry) simp_all
  show ?thesis
    unfolding save_def atomic_write_def
    by (simp add: wp_simps Let_def e split: option.split sum.split) (use t put in \<open>auto simp: e working_def\<close>)
qed

section \<open>Accounting for the parts\<close>

definition missing_numbers :: "attachment_state \<Rightarrow> nat list" where
  "missing_numbers a = filter (\<lambda>n. n \<notin> set (part_numbers a)) [1..<total_parts a + 1]"

definition missing_digests :: "attachment_state \<Rightarrow> ustr list" where
  "missing_digests a = map (\<lambda>n. as_part_sha256s a ! (n - 1)) (missing_numbers a)"

text \<open>The digests of the parts an entry has still to upload, in the order they are uploaded.\<close>

definition entry_missing :: "outbox_entry \<Rightarrow> ustr list" where
  "entry_missing e = concat (map missing_digests (o_attachments e))"

text \<open>The digests of what was put.\<close>

definition sent :: "lib \<Rightarrow> conn \<Rightarrow> ustr list" where
  "sent L c = map (\<lambda>p. sha256_hex L (snd p)) (c_puts c)"

lemma same_attachment_missing: "same_attachment a b \<Longrightarrow> missing_digests b = missing_digests a"
proof -
  assume "same_attachment a b"
  then obtain ps where b: "b = a\<lparr>as_completed_parts := ps\<rparr>" "map cp_part_number ps = part_numbers a"
    by (auto simp: same_attachment_def)
  then have "part_numbers b = part_numbers a" "total_parts b = total_parts a" "as_part_sha256s b = as_part_sha256s a"
    by (simp_all add: part_numbers_def total_parts_def)
  then show ?thesis by (simp only: missing_digests_def missing_numbers_def)
qed

lemma missing_cong:
  "list_all2 (\<lambda>a b. missing_digests b = missing_digests a) as bs
   \<Longrightarrow> concat (map missing_digests bs) = concat (map missing_digests as)"
  by (induction rule: list_all2_induct) simp_all

lemma valid_missing:
  assumes "outbox_entry_schema L e = Some v"
  shows "entry_missing v = entry_missing e"
proof -
  from assms obtain as where "v = e\<lparr>o_attachments := as\<rparr>" "list_all2 same_attachment (o_attachments e) as"
    by (rule outbox_entry_valid)
  moreover from this(2) have "list_all2 (\<lambda>a b. missing_digests b = missing_digests a) (o_attachments e) as"
    by (rule list_all2_mono) (rule same_attachment_missing)
  ultimately show ?thesis by (simp add: entry_missing_def missing_cong)
qed

text \<open>Recording the next missing part leaves the ones after it.\<close>

lemma missing_add_part:
  assumes "missing_numbers a = n # ns" "cp_part_number q = n"
  shows "missing_numbers (add_part q a) = ns"
    "missing_digests (add_part q a) = map (\<lambda>n. as_part_sha256s a ! (n - 1)) ns"
proof -
  have "missing_numbers (add_part q a) = filter (\<lambda>k. k \<noteq> n \<and> k \<notin> set (part_numbers a)) [1..<total_parts a + 1]"
    using assms(2) by (auto simp: missing_numbers_def add_part_def part_numbers_def total_parts_def intro!: filter_cong)
  also have "\<dots> = filter (\<lambda>k. k \<noteq> n) (missing_numbers a)"
    by (simp add: missing_numbers_def conj_commute)
  also have "\<dots> = ns"
  proof -
    have "distinct (n # ns)" unfolding assms(1) [symmetric] missing_numbers_def by simp
    then show ?thesis by (auto simp: assms(1) filter_id_conv)
  qed
  finally show "missing_numbers (add_part q a) = ns" .
  then show "missing_digests (add_part q a) = map (\<lambda>n. as_part_sha256s a ! (n - 1)) ns"
    by (simp add: missing_digests_def add_part_def)
qed

lemma missing_set:
  assumes "i < length (o_attachments e)" "\<forall>j < i. missing_digests (o_attachments e ! j) = []"
  shows "entry_missing (set_attachment i a e) = missing_digests a @ concat (map missing_digests (drop (Suc i) (o_attachments e)))"
    "entry_missing e = missing_digests (o_attachments e ! i) @ concat (map missing_digests (drop (Suc i) (o_attachments e)))"
proof -
  let ?as = "o_attachments e"
  have z: "concat (map missing_digests (take i ?as)) = []"
    using assms by (auto simp: in_set_conv_nth)
  have "?as[i := a] = take i ?as @ a # drop (Suc i) ?as" using assms(1) by (simp add: upd_conv_take_nth_drop)
  with z show "entry_missing (set_attachment i a e) = missing_digests a @ concat (map missing_digests (drop (Suc i) ?as))"
    by (simp add: entry_missing_def set_attachment_def)
  have "?as = take i ?as @ ?as ! i # drop (Suc i) ?as" using assms(1) by (simp add: id_take_nth_drop)
  with z show "entry_missing e = missing_digests (?as ! i) @ concat (map missing_digests (drop (Suc i) ?as))"
    unfolding entry_missing_def by (metis append_Nil concat.simps(2) concat_append list.simps(9) map_append)
qed

text \<open>Between two saves: the document is up to date, and what was sent is accounted for.\<close>

definition progress :: "lib \<Rightarrow> ustr \<Rightarrow> ustr list \<Rightarrow> ustr list \<Rightarrow> outbox_entry \<Rightarrow> conn \<Rightarrow> bool" where
  "progress L p m0 s0 e c \<longleftrightarrow>
     (\<exists>n v. c_documents c = [(p, State_File n (Some v))] \<and> entry_missing v = entry_missing e)
     \<and> (\<exists>ds. m0 = ds @ entry_missing e \<and> sent L c = s0 @ ds)"

text \<open>Where a run stops: at most one part was sent that the document does not record.\<close>

definition paused :: "lib \<Rightarrow> ustr \<Rightarrow> ustr list \<Rightarrow> ustr list \<Rightarrow> conn \<Rightarrow> bool" where
  "paused L p m0 s0 c \<longleftrightarrow> (\<exists>n v ds x. c_documents c = [(p, State_File n (Some v))]
     \<and> m0 = ds @ entry_missing v \<and> sent L c = s0 @ ds @ x \<and> length x \<le> 1 \<and> prefix x (entry_missing v))"

lemma progress_paused: "progress L p m0 s0 e c \<Longrightarrow> paused L p m0 s0 c"
  unfolding progress_def paused_def by (metis Nil_prefix append_Nil2 le_numeral_extra(1) list.size(3) nat_le_linear not_one_le_zero)

lemma progress_quiet: "quiet c c' \<Longrightarrow> progress L p m0 s0 e c' = progress L p m0 s0 e c"
  by (simp add: quiet_def same_files_def same_puts_def progress_def sent_def)

lemma paused_quiet: "quiet c c' \<Longrightarrow> paused L p m0 s0 c' = paused L p m0 s0 c"
  by (simp add: quiet_def same_files_def same_puts_def paused_def sent_def)

lemma save_spec:
  "wp (save L X W p e) (\<lambda>e' c'. \<exists>n v w k. e' = e\<lparr>o_updated_at := w\<rparr> \<and> outbox_entry_schema L e' = Some v
      \<and> c' = put_document p (State_File n (Some v)) (c\<lparr>c_tick := k\<rparr>))
    (\<lambda>_ c'. only_ticks c c') c"
  unfolding save_def atomic_write_def
  by (auto simp: wp_simps Let_def only_ticks_def split: option.split sum.split)

section \<open>What a run does to its document\<close>

text \<open>\<open>safe_run\<close>: the command keeps the outbox in order for the entry it works on, from a
  state in which everything sent is accounted for to one where a run may stop.\<close>

definition at_work ::
  "lib \<Rightarrow> ustr \<Rightarrow> ustr \<Rightarrow> ustr list \<Rightarrow> ustr list \<Rightarrow> outbox_entry \<Rightarrow> conn \<Rightarrow> bool" where
  "at_work L origin p m0 s0 e c \<longleftrightarrow> working L origin p e c \<and> progress L p m0 s0 e c"

definition at_rest ::
  "lib \<Rightarrow> ustr \<Rightarrow> ustr \<Rightarrow> ustr list \<Rightarrow> ustr list \<Rightarrow> outbox_entry \<Rightarrow> conn \<Rightarrow> bool" where
  "at_rest L origin p m0 s0 e c \<longleftrightarrow> working L origin p e c \<and> paused L p m0 s0 c"

lemma at_work_rest: "at_work L origin p m0 s0 e c \<Longrightarrow> at_rest L origin p m0 s0 e c"
  by (auto simp: at_work_def at_rest_def intro: progress_paused)

lemma at_work_quiet: "at_work L origin p m0 s0 e c \<Longrightarrow> quiet c c' \<Longrightarrow> at_work L origin p m0 s0 e c'"
  using working_same_files [of c c'] progress_quiet [of c c'] by (simp add: at_work_def quiet_def)

lemma at_rest_quiet: "at_rest L origin p m0 s0 e c \<Longrightarrow> quiet c c' \<Longrightarrow> at_rest L origin p m0 s0 e c'"
  using working_same_files [of c c'] paused_quiet [of c c'] by (simp add: at_rest_def quiet_def)

definition same_operation :: "outbox_entry \<Rightarrow> outbox_entry \<Rightarrow> bool" where
  "same_operation e e' \<longleftrightarrow> o_normalized_origin e' = o_normalized_origin e
     \<and> o_idempotency_key e' = o_idempotency_key e"

lemma at_rest_entry: "same_operation e e' \<Longrightarrow> at_rest L origin p m0 s0 e' c = at_rest L origin p m0 s0 e c"
  using working_entry [of e' e] by (simp add: same_operation_def at_rest_def)

lemma at_work_entry:
  "same_operation e e' \<Longrightarrow> entry_missing e' = entry_missing e
   \<Longrightarrow> at_work L origin p m0 s0 e' c = at_work L origin p m0 s0 e c"
  using working_entry [of e' e] by (simp add: same_operation_def at_work_def progress_def)

lemma same_operation_refl [simp]: "same_operation e e"
  by (simp add: same_operation_def)

lemma same_operation_trans: "same_operation a b \<Longrightarrow> same_operation b c \<Longrightarrow> same_operation a c"
  by (simp add: same_operation_def)

text \<open>Steps that neither save nor put.\<close>

lemma quiet_step:
  assumes "frame quiet m" "at_work L origin p m0 s0 e c"
    and "\<And>x c'. at_work L origin p m0 s0 e c' \<Longrightarrow> wp (f x) Q (\<lambda>_ c'. at_rest L origin p m0 s0 e c') c'"
  shows "wp (bindc m f) Q (\<lambda>_ c'. at_rest L origin p m0 s0 e c') c"
  unfolding wp_bindc
  by (rule frame_strengthen [OF assms(1)]) (use assms at_work_quiet at_work_rest in blast)+

text \<open>Saving an entry whose progress the document does not record yet.\<close>

lemma save_progress:
  assumes w: "working L origin p e c" and e': "same_operation e e'"
    and m: "m0 = ds @ entry_missing e'" "sent L c = s0 @ ds" and pause: "paused L p m0 s0 c"
  shows "wp (save L X W p e') (\<lambda>e'' c'. at_work L origin p m0 s0 e'' c' \<and> (\<exists>w. e'' = e'\<lparr>o_updated_at := w\<rparr>))
    (\<lambda>_ c'. at_rest L origin p m0 s0 e c') c"
proof (rule wp_mono [OF save_spec])
  fix e'' c'
  assume "\<exists>n v w k. e'' = e'\<lparr>o_updated_at := w\<rparr> \<and> outbox_entry_schema L e'' = Some v
    \<and> c' = put_document p (State_File n (Some v)) (c\<lparr>c_tick := k\<rparr>)"
  then obtain n v w' k where s: "e'' = e'\<lparr>o_updated_at := w'\<rparr>" "outbox_entry_schema L e'' = Some v"
    and c': "c' = put_document p (State_File n (Some v)) (c\<lparr>c_tick := k\<rparr>)" by blast
  from s(2) obtain as where v: "v = e''\<lparr>o_attachments := as\<rparr>" "outbox_entry_schema L v = Some v"
    by (rule outbox_entry_valid) auto
  have e: "o_normalized_origin e'' = o_normalized_origin e" "o_idempotency_key e'' = o_idempotency_key e"
    using e' s(1) by (simp_all add: same_operation_def)
  have wt: "working L origin p e'' (c\<lparr>c_tick := k\<rparr>)"
    using w working_same_files [of c "c\<lparr>c_tick := k\<rparr>"] working_entry [OF e] by (simp add: same_files_def)
  then have "working L origin p e'' c'"
    unfolding c' by (rule working_put) (use v in simp_all)
  moreover have "filter (\<lambda>d. fst d \<noteq> p) (c_documents c) = []"
    using w by (auto simp: working_def list_all_iff filter_empty_conv)
  moreover have "entry_missing e'' = entry_missing e'" by (simp add: s(1) entry_missing_def)
  ultimately show "at_work L origin p m0 s0 e'' c' \<and> (\<exists>w. e'' = e'\<lparr>o_updated_at := w\<rparr>)"
    using s m valid_missing [OF s(2)] by (auto simp: at_work_def progress_def c' put_document_def sent_def)
next
  fix err c' assume "only_ticks c c'"
  then have "quiet c c'" by (auto simp: only_ticks_def quiet_def same_files_def same_puts_def)
  moreover have "at_rest L origin p m0 s0 e c" using w pause by (simp add: at_rest_def)
  ultimately show "at_rest L origin p m0 s0 e c'" by (blast intro: at_rest_quiet)
qed

text \<open>Reading a part gives bytes of the digest that is asked for; a put adds at most them.\<close>

lemma read_part_digest:
  "wp (read_part L W q n k t h) (\<lambda>content c'. quiet c c' \<and> sha256_hex L content = h) (\<lambda>_ c'. quiet c c') c"
proof (rule wp_mono [OF wp_conj [OF frame_wp [OF quiet.frame_read_part]]])
  show "wp (read_part L W q n k t h) (\<lambda>content _. sha256_hex L content = h) (\<lambda>_ _. True) c"
    unfolding read_part_def by (simp add: wp_simps Let_def split: option.split)
qed simp_all

definition put_or_not :: "lib \<Rightarrow> ustr \<Rightarrow> conn \<Rightarrow> conn \<Rightarrow> bool" where
  "put_or_not L h c c' \<longleftrightarrow> same_files c c' \<and> (sent L c' = sent L c \<or> sent L c' = sent L c @ [h])"

lemma put_part_spec:
  "wp (put_part L X W url content) (\<lambda>_ c'. same_files c c' \<and> sent L c' = sent L c @ [sha256_hex L content])
     (\<lambda>_ c'. put_or_not L (sha256_hex L content) c c') c"
proof -
  have "put_or_not L h c c'" if "quiet c c'" for h c'
    using that by (simp add: quiet_def same_puts_def put_or_not_def sent_def)
  then show ?thesis
    unfolding put_part_def wp_bindc
    by (intro frame_strengthen [OF quiet.frame_destination])
      (auto simp: wp_simps Let_def quiet_def same_puts_def same_files_def put_or_not_def sent_def split: option.split)
qed

lemma at_rest_after_put:
  assumes "at_work L origin p m0 s0 e c" "put_or_not L h c c'" "entry_missing e = h # rest"
  shows "at_rest L origin p m0 s0 e c'"
proof -
  from assms(2) have f: "same_files c c'" and s: "sent L c' = sent L c \<or> sent L c' = sent L c @ [h]"
    by (simp_all add: put_or_not_def)
  from assms(1) obtain n v ds where d: "c_documents c = [(p, State_File n (Some v))]" "entry_missing v = entry_missing e"
    "m0 = ds @ entry_missing e" "sent L c = s0 @ ds" and w: "working L origin p e c"
    by (auto simp: at_work_def progress_def)
  have "c_documents c' = [(p, State_File n (Some v))]" using f d by (simp add: same_files_def)
  moreover obtain x where "sent L c' = s0 @ ds @ x" "length x \<le> 1" "prefix x (entry_missing v)"
    using s d assms(3) by (cases "sent L c' = sent L c") auto
  ultimately have "paused L p m0 s0 c'" using d unfolding paused_def by metis
  moreover have "working L origin p e c'" using w working_same_files [OF f] by simp
  ultimately show ?thesis by (simp add: at_rest_def)
qed

lemma upload_part_account:
  assumes work: "at_work L origin p m0 s0 e c" and i: "i < length (o_attachments e)"
    and before: "\<forall>j < i. missing_digests (o_attachments e ! j) = []"
    and n: "missing_numbers (o_attachments e ! i) = n # ns"
  shows "wp (upload_part L X W token p job aid i n e)
    (\<lambda>e' c'. at_work L origin p m0 s0 e' c' \<and> (\<exists>q w. cp_part_number q = n
      \<and> e' = (set_attachment i (add_part q (o_attachments e ! i)) e)\<lparr>o_updated_at := w\<rparr>))
    (\<lambda>_ c'. at_rest L origin p m0 s0 e c') c"
proof -
  let ?a = "o_attachments e ! i" and ?h = "as_part_sha256s (o_attachments e ! i) ! (n - 1)"
  let ?rest = "map (\<lambda>n. as_part_sha256s ?a ! (n - 1)) ns @ concat (map missing_digests (drop (Suc i) (o_attachments e)))"
  have m: "entry_missing e = ?h # ?rest"
    using missing_set(2) [OF i before] n by (simp add: missing_digests_def)
  have put: "wp (put_part L X W url content) (\<lambda>_ c2. same_files c1 c2 \<and> sent L c2 = sent L c1 @ [?h])
      (\<lambda>_ c2. at_rest L origin p m0 s0 e c2) c1"
    if "at_work L origin p m0 s0 e c1" "sha256_hex L content = ?h" for url content c1
    by (rule wp_mono [OF put_part_spec]) (use that at_rest_after_put [OF that(1) _ m] in auto)
  have save: "wp (save L X W p (set_attachment i (add_part q ?a) e))
      (\<lambda>e' c'. at_work L origin p m0 s0 e' c' \<and> (\<exists>w. e' = (set_attachment i (add_part q ?a) e)\<lparr>o_updated_at := w\<rparr>))
      (\<lambda>_ c'. at_rest L origin p m0 s0 e c') c2"
    if w: "at_work L origin p m0 s0 e c1" and s: "same_files c1 c2" "sent L c2 = sent L c1 @ [?h]"
      and q: "cp_part_number q = n" for c1 c2 q
  proof -
    have rest: "at_rest L origin p m0 s0 e c2"
      using at_rest_after_put [OF w _ m] s by (simp add: put_or_not_def)
    from w obtain ds where ds: "m0 = ds @ ?h # ?rest" "sent L c1 = s0 @ ds"
      unfolding at_work_def progress_def m by blast
    have "entry_missing (set_attachment i (add_part q ?a) e) = ?rest"
      using missing_set(1) [OF i before] missing_add_part(2) [OF n q] by simp
    with ds s have "m0 = (ds @ [?h]) @ entry_missing (set_attachment i (add_part q ?a) e)" "sent L c2 = s0 @ ds @ [?h]" by simp_all
    moreover have "same_operation e (set_attachment i (add_part q ?a) e)" by (simp add: same_operation_def set_attachment_def)
    ultimately show ?thesis using rest by (intro save_progress) (simp_all add: at_rest_def)
  qed
  have parts: "wp (bindc (put_part L X W url content) (\<lambda>etag.
        bindc (of_option (Uncaught ''ValidationError'') (completed_part_schema L \<lparr>cp_part_number = n, cp_etag = etag\<rparr>))
          (\<lambda>part. save L X W p (set_attachment i (add_part part ?a) e))))
      (\<lambda>e' c'. at_work L origin p m0 s0 e' c' \<and> (\<exists>q w. cp_part_number q = n
        \<and> e' = (set_attachment i (add_part q ?a) e)\<lparr>o_updated_at := w\<rparr>))
      (\<lambda>_ c'. at_rest L origin p m0 s0 e c') c1"
    if w: "at_work L origin p m0 s0 e c1" and h: "sha256_hex L content = ?h" for url content c1
    unfolding wp_bindc [of "put_part L X W url content"]
  proof (rule wp_mono [OF put [OF w h]], goal_cases)
    case (1 etag c2)
    show ?case
    proof (cases "completed_part_schema L \<lparr>cp_part_number = n, cp_etag = etag\<rparr>")
      case None
      then show ?thesis using at_rest_after_put [OF w _ m] 1 by (simp add: wp_simps put_or_not_def)
    next
      case (Some q)
      with completed_part_valid(1) have q: "cp_part_number q = n" by fastforce
      have "same_files c1 c2" "sent L c2 = sent L c1 @ [?h]" using 1 by simp_all
      from save [OF w this q] show ?thesis
        unfolding wp_bindc wp_of_option Some option.case by (rule wp_mono) (use q in auto)
    qed
  qed
  have read: "wp (bindc (read_part L W q n k t ?h) f) Q (\<lambda>_ c'. at_rest L origin p m0 s0 e c') c1"
    if w: "at_work L origin p m0 s0 e c1"
      and f: "\<And>content c2. at_work L origin p m0 s0 e c2 \<Longrightarrow> sha256_hex L content = ?h
        \<Longrightarrow> wp (f content) Q (\<lambda>_ c'. at_rest L origin p m0 s0 e c') c2" for q k t f Q c1
    unfolding wp_bindc
    by (rule wp_mono [OF read_part_digest]) (use f at_work_quiet [OF w] at_work_rest in blast)+
  show ?thesis
    unfolding upload_part_def Let_def
    by (intro quiet_step [OF quiet.frame_part_url work] quiet_step [OF quiet.frame_verify_state] read parts)
qed

text \<open>Steps that change one attachment of the entry.\<close>

definition advanced :: "nat \<Rightarrow> outbox_entry \<Rightarrow> outbox_entry \<Rightarrow> bool" where
  "advanced i e e' \<longleftrightarrow> same_operation e e' \<and> o_job_id e' = o_job_id e \<and> o_phase e' = o_phase e
     \<and> length (o_attachments e') = length (o_attachments e)
     \<and> (\<forall>j. j \<noteq> i \<longrightarrow> o_attachments e' ! j = o_attachments e ! j)"

lemma advanced_refl [simp]: "advanced i e e"
  by (simp add: advanced_def)

lemma advanced_trans: "advanced i a b \<Longrightarrow> advanced i b c \<Longrightarrow> advanced i a c"
  by (simp add: advanced_def same_operation_def)

lemma advanced_set: "advanced i e ((set_attachment i a e)\<lparr>o_updated_at := w\<rparr>)"
  by (simp add: advanced_def same_operation_def set_attachment_def)

lemma advanced_rest: "advanced i e e' \<Longrightarrow> at_rest L origin p m0 s0 e' c = at_rest L origin p m0 s0 e c"
  by (simp add: advanced_def at_rest_entry)

lemma upload_parts_account:
  assumes "at_work L origin p m0 s0 e c" "i < length (o_attachments e)"
    "\<forall>j < i. missing_digests (o_attachments e ! j) = []"
    "missing_numbers (o_attachments e ! i) = filter (\<lambda>n. n \<notin> set completed) ns"
  shows "wp (upload_parts L X W token p job aid i completed ns e)
    (\<lambda>e' c'. at_work L origin p m0 s0 e' c' \<and> advanced i e e' \<and> missing_digests (o_attachments e' ! i) = [])
    (\<lambda>_ c'. at_rest L origin p m0 s0 e c') c"
  using assms
proof (induction ns arbitrary: e c)
  case Nil
  then show ?case by (simp add: wp_simps missing_digests_def)
next
  case (Cons n ns e c)
  show ?case
  proof (cases "n \<in> set completed")
    case True
    with Cons show ?thesis by simp
  next
    case False
    with Cons.prems(4) have n: "missing_numbers (o_attachments e ! i) = n # filter (\<lambda>n. n \<notin> set completed) ns" by simp
    have later: "wp (upload_parts L X W token p job aid i completed ns e')
        (\<lambda>e2 c'. at_work L origin p m0 s0 e2 c' \<and> advanced i e e2 \<and> missing_digests (o_attachments e2 ! i) = [])
        (\<lambda>_ c'. at_rest L origin p m0 s0 e c') c'"
      if w: "at_work L origin p m0 s0 e' c'" and q: "cp_part_number q = n"
        and e': "e' = (set_attachment i (add_part q (o_attachments e ! i)) e)\<lparr>o_updated_at := t\<rparr>" for e' c' q t
    proof -
      have a: "advanced i e e'" using advanced_set by (simp add: e')
      have "o_attachments e' ! i = add_part q (o_attachments e ! i)"
        using Cons.prems(2) by (simp add: e' set_attachment_def)
      then have "missing_numbers (o_attachments e' ! i) = filter (\<lambda>n. n \<notin> set completed) ns"
        using missing_add_part(1) [OF n q] by simp
      moreover have "i < length (o_attachments e')" "\<forall>j < i. missing_digests (o_attachments e' ! j) = []"
        using Cons.prems(2,3) a by (simp_all add: advanced_def)
      ultimately show ?thesis
        by (intro wp_mono [OF Cons.IH [OF w]]) (use advanced_trans [OF a] advanced_rest [OF a] in auto)
    qed
    show ?thesis
      using False by (simp add: wp_bindc)
        (rule wp_mono [OF upload_part_account [OF Cons.prems(1-3) n]], use later in blast)
  qed
qed

lemma save_at_work:
  assumes w: "at_work L origin p m0 s0 e c" and e': "same_operation e e'" "entry_missing e' = entry_missing e"
  shows "wp (save L X W p e') (\<lambda>e'' c'. at_work L origin p m0 s0 e'' c' \<and> (\<exists>w. e'' = e'\<lparr>o_updated_at := w\<rparr>))
    (\<lambda>_ c'. at_rest L origin p m0 s0 e c') c"
proof -
  from w obtain ds where "m0 = ds @ entry_missing e'" "sent L c = s0 @ ds"
    by (auto simp: at_work_def progress_def e')
  with at_work_rest [OF w] e'(1) show ?thesis by (intro save_progress) (simp_all add: at_rest_def)
qed

lemma finish_attachment_account:
  assumes w: "at_work L origin p m0 s0 e c" and i: "i < length (o_attachments e)"
    and all_sent: "missing_digests (o_attachments e ! i) = []"
  shows "wp (finish_attachment L X W token p job ids i e)
    (\<lambda>e' c'. at_work L origin p m0 s0 e' c' \<and> advanced i e e' \<and> missing_digests (o_attachments e' ! i) = [])
    (\<lambda>_ c'. at_rest L origin p m0 s0 e c') c"
proof (cases "as_completed (o_attachments e ! i)")
  case True
  with assms show ?thesis by (simp add: finish_attachment_def wp_simps)
next
  case False
  let ?a = "o_attachments e ! i" and ?e' = "set_attachment i ((o_attachments e ! i)\<lparr>as_completed := True\<rparr>) e"
  have md: "missing_digests (?a\<lparr>as_completed := True\<rparr>) = missing_digests ?a"
    by (simp add: missing_digests_def missing_numbers_def part_numbers_def total_parts_def)
  have "map missing_digests ((o_attachments e)[i := ?a\<lparr>as_completed := True\<rparr>]) = map missing_digests (o_attachments e)"
    using i by (simp add: map_update md)
      (metis list_update_id map_update)
  then have m: "entry_missing ?e' = entry_missing e" by (simp add: entry_missing_def set_attachment_def)
  have "wp (save L X W p ?e') (\<lambda>e' c'. at_work L origin p m0 s0 e' c' \<and> advanced i e e' \<and> missing_digests (o_attachments e' ! i) = [])
      (\<lambda>_ c'. at_rest L origin p m0 s0 e c') c'" if w': "at_work L origin p m0 s0 e c'" for c'
  proof (rule wp_mono [OF save_at_work [OF w' _ m]])
    show "same_operation e ?e'" by (simp add: same_operation_def set_attachment_def)
  qed (use advanced_set i md all_sent in \<open>auto simp: set_attachment_def\<close>)
  with False show ?thesis
    unfolding finish_attachment_def Let_def
    by (simp add: quiet_step [OF quiet.frame_verify_state w] quiet_step [OF quiet.frame_complete])
qed

lemma upload_attachment_account:
  assumes w: "at_work L origin p m0 s0 e c" and i: "i < length (o_attachments e)"
    and before: "\<forall>j < i. missing_digests (o_attachments e ! j) = []"
  shows "wp (upload_attachment L X W token p job i e)
    (\<lambda>e' c'. at_work L origin p m0 s0 e' c' \<and> advanced i e e' \<and> missing_digests (o_attachments e' ! i) = [])
    (\<lambda>_ c'. at_rest L origin p m0 s0 e c') c"
proof -
  let ?a = "o_attachments e ! i"
  have n: "missing_numbers ?a = filter (\<lambda>n. n \<notin> set (part_numbers ?a)) [1..<total_parts ?a + 1]"
    by (simp add: missing_numbers_def)
  have "wp (bindc (upload_parts L X W token p job aid i (part_numbers ?a) [1..<total_parts ?a + 1] e)
        (finish_attachment L X W token p job ids i))
      (\<lambda>e' c'. at_work L origin p m0 s0 e' c' \<and> advanced i e e' \<and> missing_digests (o_attachments e' ! i) = [])
      (\<lambda>_ c'. at_rest L origin p m0 s0 e c') c'" if w': "at_work L origin p m0 s0 e c'" for aid ids c'
    unfolding wp_bindc
  proof (rule wp_mono [OF upload_parts_account [OF w' i before n]], goal_cases)
    case (1 e' c')
    then have a: "advanced i e e'" and w2: "at_work L origin p m0 s0 e' c'" and d: "missing_digests (o_attachments e' ! i) = []"
      and i2: "i < length (o_attachments e')" using i by (auto simp: advanced_def)
    show ?case
      by (rule wp_mono [OF finish_attachment_account [OF w2 i2 d]])
        (use advanced_trans [OF a] advanced_rest [OF a] in auto)
  qed
  with at_work_rest show ?thesis
    unfolding upload_attachment_def Let_def
    by (intro quiet_step [OF quiet.frame_verify_state w])
      (auto simp: wp_fail wp_return wp_bindc split: option.split)
qed

lemma upload_attachments_account:
  assumes "at_work L origin p m0 s0 e c" "is = [k..<length (o_attachments e)]"
    "\<forall>j < k. j < length (o_attachments e) \<longrightarrow> missing_digests (o_attachments e ! j) = []"
  shows "wp (upload_attachments L X W token p job is e)
    (\<lambda>e' c'. at_work L origin p m0 s0 e' c' \<and> same_operation e e' \<and> o_job_id e' = o_job_id e
       \<and> entry_missing e' = [])
    (\<lambda>_ c'. at_rest L origin p m0 s0 e c') c"
  using assms
proof (induction "is" arbitrary: e c k)
  case Nil
  from Nil.prems(2) have "[k..<length (o_attachments e)] = []" by (rule sym)
  then have "length (o_attachments e) \<le> k" by auto
  with Nil have "\<forall>a \<in> set (o_attachments e). missing_digests a = []" by (auto simp: in_set_conv_nth)
  with Nil show ?case by (simp add: wp_simps entry_missing_def)
next
  case (Cons i "is" e c k)
  from Cons.prems(2) have u: "[k..<length (o_attachments e)] = i # is" by (rule sym)
  then have k: "k < length (o_attachments e)" "i = k" "is = [Suc k..<length (o_attachments e)]"
    unfolding upt_eq_Cons_conv by auto
  with Cons.prems have "\<forall>j < k. missing_digests (o_attachments e ! j) = []" by auto
  note one = upload_attachment_account [OF Cons.prems(1) k(1) this]
  show ?case
    unfolding upload_attachments.simps wp_bindc k(2)
  proof (rule wp_mono [OF one], goal_cases)
    case (1 e' c')
    then have w: "at_work L origin p m0 s0 e' c'" and a: "advanced k e e'" and d: "missing_digests (o_attachments e' ! k) = []"
      by auto
    have "is = [Suc k..<length (o_attachments e')]"
      "\<forall>j < Suc k. j < length (o_attachments e') \<longrightarrow> missing_digests (o_attachments e' ! j) = []"
      using k a d Cons.prems(3) by (auto simp: advanced_def less_Suc_eq)
    from Cons.IH [OF w this] show ?case
      by (rule wp_mono) (use a advanced_rest [OF a] in \<open>auto simp: advanced_def same_operation_def\<close>)
  qed
qed

lemma bind_attachments_progress:
  "bind_attachments r ss ps = Inr as \<Longrightarrow> concat (map missing_digests as) = concat (map missing_digests ss)"
proof (induction r ss ps arbitrary: as rule: bind_attachments.induct)
  case (1 r s ss p ps)
  have "missing_digests (s\<lparr>as_attachment_id := x, as_file_id := y, as_upload_id := z\<rparr>) = missing_digests s" for x y z
    by (simp add: missing_digests_def missing_numbers_def part_numbers_def total_parts_def)
  with 1 show ?case by (auto split: option.splits sum.splits)
qed auto

lemma bind_created_job_progress:
  assumes "bind_created_job e m r = Inr e'"
  shows "same_operation e e'" "entry_missing e' = entry_missing e" "o_job_id e' = Some (jr_id r)" "o_phase e' = PHASE_UPLOAD"
  using assms bind_attachments_progress
  by (auto simp: bind_created_job_def same_operation_def entry_missing_def split: if_splits sum.splits)

lemma create_phase_account:
  assumes w: "at_work L origin p m0 s0 e c"
  shows "wp (create_phase L X W token p m e)
    (\<lambda>e' c'. at_work L origin p m0 s0 e' c' \<and> same_operation e e' \<and> entry_missing e' = entry_missing e
       \<and> o_phase e' = (if o_phase e = PHASE_CREATE then PHASE_UPLOAD else o_phase e))
    (\<lambda>_ c'. at_rest L origin p m0 s0 e c') c"
proof (cases "o_phase e = PHASE_CREATE")
  case True
  have "wp (bindc (of_sum (bind_created_job e m r)) (save L X W p))
      (\<lambda>e' c'. at_work L origin p m0 s0 e' c' \<and> same_operation e e' \<and> entry_missing e' = entry_missing e
         \<and> o_phase e' = PHASE_UPLOAD)
      (\<lambda>_ c'. at_rest L origin p m0 s0 e c') c'" if w': "at_work L origin p m0 s0 e c'" for r c'
  proof (cases "bind_created_job e m r")
    case (Inl x)
    then show ?thesis using at_work_rest [OF w'] by (simp add: wp_simps)
  next
    case (Inr e')
    note b = bind_created_job_progress [OF this]
    show ?thesis
      unfolding wp_bindc wp_of_sum Inr sum.case
      by (rule wp_mono [OF save_at_work [OF w' b(1,2)]])
        (use b in \<open>auto simp: same_operation_def entry_missing_def\<close>)
  qed
  with True show ?thesis
    unfolding create_phase_def by (simp add: quiet_step [OF quiet.frame_create_job w])
next
  case False
  with w show ?thesis by (simp add: create_phase_def wp_simps)
qed

lemma upload_phase_account:
  assumes w: "at_work L origin p m0 s0 e c"
  shows "wp (upload_phase L X W token p job e)
    (\<lambda>e' c'. at_work L origin p m0 s0 e' c' \<and> same_operation e e'
       \<and> (if o_phase e = PHASE_UPLOAD then entry_missing e' = [] else e' = e))
    (\<lambda>_ c'. at_rest L origin p m0 s0 e c') c"
proof (cases "o_phase e = PHASE_UPLOAD")
  case True
  have all: "\<forall>j < 0. j < length (o_attachments e) \<longrightarrow> missing_digests (o_attachments e ! j) = []" by simp
  have "wp (save L X W p (e'\<lparr>o_phase := PHASE_SUBMIT\<rparr>))
      (\<lambda>e2 c2. at_work L origin p m0 s0 e2 c2 \<and> same_operation e e2 \<and> entry_missing e2 = [])
      (\<lambda>_ c2. at_rest L origin p m0 s0 e c2) c'"
    if w': "at_work L origin p m0 s0 e' c'" and s: "same_operation e e'" and d: "entry_missing e' = []" for e' c'
  proof -
    have *: "same_operation e' (e'\<lparr>o_phase := PHASE_SUBMIT\<rparr>)" "entry_missing (e'\<lparr>o_phase := PHASE_SUBMIT\<rparr>) = entry_missing e'"
      by (simp_all add: same_operation_def entry_missing_def)
    show ?thesis
      by (rule wp_mono [OF save_at_work [OF w' *]])
        (use s d at_rest_entry [OF s] in \<open>auto simp: same_operation_def entry_missing_def\<close>)
  qed
  with True show ?thesis
    unfolding upload_phase_def
    by (simp add: wp_bindc) (rule wp_mono [OF upload_attachments_account [OF w refl all]], auto)
next
  case False
  with w show ?thesis by (simp add: upload_phase_def wp_simps)
qed

lemma submit_phase_account:
  assumes w: "at_work L origin p m0 s0 e c"
  shows "wp (submit_phase L X W token p job e)
    (\<lambda>_ c'. at_work L origin p m0 s0 e c') (\<lambda>_ c'. at_rest L origin p m0 s0 e c') c"
proof -
  have save: "wp (bindc (save L X W p (e\<lparr>o_phase := PHASE_EVIDENCE, o_evidence := v\<rparr>)) (\<lambda>_. return r))
      (\<lambda>_ c'. at_work L origin p m0 s0 e c') (\<lambda>_ c'. at_rest L origin p m0 s0 e c') c'"
    if w': "at_work L origin p m0 s0 e c'" for v r c'
  proof -
    let ?e = "e\<lparr>o_phase := PHASE_EVIDENCE, o_evidence := v\<rparr>"
    have "same_operation e ?e" "entry_missing ?e = entry_missing e"
      by (simp_all add: same_operation_def entry_missing_def)
    moreover have "at_work L origin p m0 s0 (?e\<lparr>o_updated_at := t\<rparr>) c2 = at_work L origin p m0 s0 e c2" for t c2
      by (rule at_work_entry) (simp_all add: same_operation_def entry_missing_def)
    ultimately show ?thesis
      unfolding wp_bindc by (intro wp_mono [OF save_at_work [OF w']]) (auto simp: wp_simps)
  qed
  show ?thesis
    unfolding submit_phase_def
    by (intro quiet_step [OF quiet.frame_submit_job w] quiet_step [OF quiet.frame_if] quiet.frame_fail quiet.frame_return save)
qed

lemma resume_account:
  assumes w: "at_work L origin p m0 s0 e c"
    and m: "o_phase e \<notin> {PHASE_CREATE, PHASE_UPLOAD} \<longrightarrow> entry_missing e = []"
  shows "wp (resume L X W token p e m)
    (\<lambda>_ c'. working L origin p e c' \<and> sent L c' = s0 @ m0 \<and> paused L p m0 s0 c')
    (\<lambda>_ c'. at_rest L origin p m0 s0 e c') c"
proof -
  have submit: "wp (submit_phase L X W token p job e2)
      (\<lambda>_ c'. working L origin p e c' \<and> sent L c' = s0 @ m0 \<and> paused L p m0 s0 c')
      (\<lambda>_ c'. at_rest L origin p m0 s0 e c') c2"
    if w2: "at_work L origin p m0 s0 e2 c2" and s: "same_operation e e2" and d: "entry_missing e2 = []" for job e2 c2
  proof (rule wp_mono [OF submit_phase_account [OF w2]], goal_cases)
    case (1 r c3)
    then have "progress L p m0 s0 e2 c3" "working L origin p e c3"
      using working_entry [of e2 e] s by (auto simp: at_work_def same_operation_def)
    moreover from this(1) have "paused L p m0 s0 c3" by (rule progress_paused)
    ultimately show ?case using d by (auto simp: progress_def)
  qed (simp add: at_rest_entry [OF s])
  have upload: "wp (bindc (upload_phase L X W token p job e1) (submit_phase L X W token p job))
      (\<lambda>_ c'. working L origin p e c' \<and> sent L c' = s0 @ m0 \<and> paused L p m0 s0 c')
      (\<lambda>_ c'. at_rest L origin p m0 s0 e c') c1"
    if w1: "at_work L origin p m0 s0 e1 c1" and s: "same_operation e e1"
      and d: "o_phase e1 = PHASE_UPLOAD \<or> entry_missing e1 = []" for job e1 c1
    unfolding wp_bindc
    by (rule wp_mono [OF upload_phase_account [OF w1]])
      (use d s same_operation_trans [OF s] in \<open>auto simp: at_rest_entry [OF s] intro!: submit split: if_splits\<close>)
  show ?thesis
    unfolding resume_def wp_bindc [of "create_phase L X W token p m e"]
  proof (rule wp_mono [OF create_phase_account [OF w]], goal_cases)
    case (1 e1 c1)
    then have *: "at_work L origin p m0 s0 e1 c1" "same_operation e e1" "o_phase e1 = PHASE_UPLOAD \<or> entry_missing e1 = []"
      using m by (auto split: if_splits)
    show ?case
    proof (cases "o_job_id e1")
      case None
      then show ?thesis using at_work_rest [OF *(1)] at_rest_entry [OF *(2)] by (simp add: wp_simps)
    next
      case (Some job)
      then show ?thesis using upload [OF *] by simp
    qed
  qed
qed

end
