(* ===== verification/Connector_Commands.thy ===== *)
theory Connector_Commands
  imports Connector_Proofs
begin

text \<open>
  The four commands as a whole: they keep the outbox in order whatever the world answers, a
  retry accounts for every part, and a document goes only when its operation is over.
\<close>

section \<open>Completed entries\<close>

lemma completed_attachment_missing:
  assumes "attachment_state_schema L a = Some b" "as_completed b"
  shows "missing_digests b = []"
proof -
  from assms(1) obtain ps where ps: "all_valid (completed_part_schema L) (as_completed_parts a) = Some ps"
    and b: "b = a\<lparr>as_completed_parts := ps\<rparr>"
    by (auto simp: attachment_state_schema_def Let_def split: option.splits if_splits)
  from ps have "list_all2 (\<lambda>p q. completed_part_schema L p = Some q) (as_completed_parts a) ps"
    by (simp add: all_valid_iff)
  then have "\<forall>q \<in> set ps. 1 \<le> cp_part_number q"
    by (induction rule: list_all2_induct) (auto simp: completed_part_schema_def Let_def split: if_splits)
  then have low: "\<forall>n \<in> set (part_numbers b). 1 \<le> n" by (auto simp: b part_numbers_def)
  have "consistent_progress b" by (rule attachment_state_valid(3) [OF assms(1)])
  with assms(2) have p: "distinct (part_numbers b)" "\<forall>n \<in> set (part_numbers b). n \<le> total_parts b"
    "length (part_numbers b) = total_parts b" by (simp_all add: consistent_progress_def list_all_iff)
  have "set (part_numbers b) = {1..total_parts b}"
  proof (rule card_subset_eq)
    show "set (part_numbers b) \<subseteq> {1..total_parts b}" using low p by auto
    show "card (set (part_numbers b)) = card {1..total_parts b}" using p by (simp add: distinct_card)
  qed simp
  then have "missing_numbers b = []" by (auto simp: missing_numbers_def filter_empty_conv)
  then show ?thesis by (simp add: missing_digests_def)
qed

lemma completed_entry_missing:
  assumes "outbox_entry_schema L e = Some e" "o_phase e \<notin> {PHASE_CREATE, PHASE_UPLOAD}"
  shows "entry_missing e = []"
proof -
  from assms(1) have "all_valid (attachment_state_schema L) (o_attachments e) = Some (o_attachments e)"
    and c: "consistent_phase e"
    by (auto simp: outbox_entry_schema_def Let_def split: option.splits if_splits dest: arg_cong [where f = o_attachments])
  then have "list_all2 (\<lambda>x y. attachment_state_schema L x = Some y) (o_attachments e) (o_attachments e)"
    by (simp add: all_valid_iff)
  then have "\<forall>a \<in> set (o_attachments e). attachment_state_schema L a = Some a"
    by (auto simp: list_all2_same)
  moreover from assms(2) c have "\<forall>a \<in> set (o_attachments e). as_completed a"
    by (cases "o_phase e") (auto simp: consistent_phase_def list_all_iff)
  ultimately show ?thesis
    using completed_attachment_missing by (auto simp: entry_missing_def)
qed

section \<open>Commands that only take documents away\<close>

definition shrinks :: "lib \<Rightarrow> ustr \<Rightarrow> conn \<Rightarrow> conn \<Rightarrow> bool" where
  "shrinks L origin c c' \<longleftrightarrow> (outbox_ok L origin c \<longrightarrow> outbox_ok L origin c'
       \<and> (c_documents c' = c_documents c \<or> c_documents c' = [])
       \<and> (c_pair_marker c = None \<longrightarrow> c_pair_marker c' = None))
     \<and> c_puts c' = c_puts c"

interpretation shrinking: credential_user "shrinks L origin" for L origin
  by unfold_locales (auto simp: shrinks_def outbox_ok_def)

lemma shrink_modify: "(\<And>c. shrinks L origin c (f c)) \<Longrightarrow> frame (shrinks L origin) (modify f)"
  by (simp add: frame_def modify_def)

lemma shrinks_delete_document: "frame (shrinks L origin) (delete_document W p)"
proof -
  have f: "filter P ds = ds \<or> filter P ds = []" if "length ds \<le> 1" for P and ds :: "'a list"
    using that by (cases ds) auto
  have "shrinks L origin c (c\<lparr>c_documents := filter (\<lambda>d. fst d \<noteq> p) (c_documents c)\<rparr>)" for c
    using f [of "c_documents c" "\<lambda>d. fst d \<noteq> p"] by (auto simp: shrinks_def outbox_ok_def)
  then show ?thesis
    unfolding delete_document_def unlink_def by (intro shrinking.frame_intros shrink_modify)
qed

lemma shrinks_delete_markers:
  "frame (shrinks L origin) (delete_replacement_marker W)"
  "frame (shrinks L origin) (delete_pair_completion_marker W)"
  unfolding delete_replacement_marker_def delete_pair_completion_marker_def unlink_def
  by (intro shrinking.frame_intros shrink_modify; simp add: shrinks_def outbox_ok_def)+

lemma shrinks_echo: "frame (shrinks L origin) (safe_echo W t)"
  unfolding safe_echo_def
  by (intro shrinking.frame_intros shrink_modify) (simp add: shrinks_def outbox_ok_def)

lemmas shrinks_intros = shrinking.frame_intros shrinks_delete_document shrinks_delete_markers
  shrinks_echo shrinking.frame_load_marker shrinking.frame_load_pair_marker
  shrinking.frame_load_refresh shrinking.frame_reject_pending shrinking.frame_load_optional
  shrinking.frame_refresh shrinking.frame_status shrinking.frame_prepare

lemma shrinks_recover: "frame (shrinks L origin) (recover_replacement L W og r)"
  unfolding recover_replacement_def Let_def by (intro shrinks_intros)

lemma shrinks_recover_initial: "frame (shrinks L origin) (recover_initial_pair L W og)"
  unfolding recover_initial_pair_def by (intro shrinks_intros)

lemma shrinks_start: "frame (shrinks L origin) (start_command L W og)"
  unfolding start_command_def by (intro shrinks_intros shrinks_recover)

lemma shrinks_print: "frame (shrinks L origin) (print_result_and_delete W j s r p)"
  unfolding print_result_and_delete_def by (intro shrinks_intros)

lemma shrinks_status: "frame (shrinks L origin) (status_command L X W og job)"
  unfolding status_command_def store_lock_def by (intro shrinks_intros shrinks_start)

text \<open>What passing the guards says of the state.\<close>

lemma reject_pending_none:
  "wp (reject_pending_initial_pair W og) (\<lambda>_ c'. only_ticks c c' \<and> c_pair_marker c' = None) (\<lambda>_ c'. only_ticks c c') c"
proof -
  have "wp (reject_pending_initial_pair W og) (\<lambda>_ c'. c_pair_marker c' = None) (\<lambda>_ _. True) c"
  proof (cases "c_pair_marker c")
    case (Some f)
    then show ?thesis
      unfolding reject_pending_initial_pair_def load_pair_completion_marker_def
      by (cases f) (simp add: wp_simps read_json_def split: option.split)
  qed (simp add: reject_pending_initial_pair_def load_pair_completion_marker_def wp_simps)
  from wp_conj [OF frame_wp [OF ticks.frame_reject_pending] this] show ?thesis
    by (rule wp_mono) auto
qed

lemma start_command_ok:
  assumes "outbox_ok L origin c"
  shows "wp (start_command L W og)
    (\<lambda>_ c'. shrinks L origin c c' \<and> outbox_ok L origin c' \<and> c_pair_marker c' = None)
    (\<lambda>_ c'. shrinks L origin c c' \<and> outbox_ok L origin c') c"
proof -
  have "wp (start_command L W og) (\<lambda>_ c'. c_pair_marker c' = None) (\<lambda>_ _. True) c"
    unfolding start_command_def wp_bindc
  proof (rule wp_mono [OF reject_pending_none], goal_cases)
    case (1 x c1)
    then have "outbox_ok L origin c1" using assms by (auto simp: only_ticks_def outbox_ok_def)
    then show ?case
      by (intro frame_strengthen [OF shrinks_recover [of L origin]]) (use 1 in \<open>auto simp: shrinks_def\<close>)
  qed simp
  from wp_conj [OF frame_wp [OF shrinks_start [of L origin]] this] show ?thesis
    by (rule wp_mono) (use assms in \<open>auto simp: shrinks_def\<close>)
qed

section \<open>An operation that runs to its end or stops\<close>

text \<open>Where an operation stops: a part is sent twice at most where its save failed, and the
  document, unless it was discarded, records all the others.\<close>

definition stopped :: "lib \<Rightarrow> ustr \<Rightarrow> ustr list \<Rightarrow> ustr list \<Rightarrow> conn \<Rightarrow> bool" where
  "stopped L p m0 s0 c \<longleftrightarrow> (\<exists>ds x. sent L c = s0 @ ds @ x \<and> length x \<le> 1 \<and> prefix (ds @ x) m0
     \<and> (c_documents c = [] \<or> (\<exists>n v. c_documents c = [(p, State_File n (Some v))]
          \<and> m0 = ds @ entry_missing v)))"

lemma paused_stopped: "paused L p m0 s0 c \<Longrightarrow> stopped L p m0 s0 c"
  unfolding paused_def stopped_def
  by (metis same_prefix_prefix)

lemma stopped_shrinks:
  assumes "stopped L p m0 s0 c" "outbox_ok L origin c" "shrinks L origin c c'"
  shows "stopped L p m0 s0 c'"
proof -
  from assms(2,3) have "sent L c' = sent L c" "c_documents c' = c_documents c \<or> c_documents c' = []"
    by (auto simp: shrinks_def sent_def)
  with assms(1) show ?thesis unfolding stopped_def by metis
qed

lemma at_rest_stopped: "at_rest L origin p m0 s0 e c \<Longrightarrow> outbox_ok L origin c \<and> stopped L p m0 s0 c"
  unfolding at_rest_def working_def by (blast intro: paused_stopped)

lemma shrinks_ok: "outbox_ok L origin c \<Longrightarrow> shrinks L origin c c' \<Longrightarrow> outbox_ok L origin c'"
  by (simp add: shrinks_def)

lemma discarding_account:
  assumes "wp m Q (\<lambda>_ c'. at_rest L origin p m0 s0 e c') c"
  shows "wp (discarding_on_file_change W p m) Q (\<lambda>_ c'. outbox_ok L origin c' \<and> stopped L p m0 s0 c') c"
proof -
  have h: "wp (bindc (if exits_with 4 err then delete_document W p else return ()) (\<lambda>_. fail err)) Q
      (\<lambda>_ c'. outbox_ok L origin c' \<and> stopped L p m0 s0 c') c1"
    if "at_rest L origin p m0 s0 e c1" for err c1
  proof -
    have f: "frame (shrinks L origin) (bindc (if exits_with 4 err then delete_document W p else return ()) (\<lambda>_. fail err))"
      by (intro shrinks_intros)
    have e: "wp (bindc (if exits_with 4 err then delete_document W p else return ()) (\<lambda>_. fail err))
        (\<lambda>_ _. False) (\<lambda>_ _. True) c1"
      by (simp add: wp_simps delete_document_def unlink_def)
    from at_rest_stopped [OF that] have r: "outbox_ok L origin c1" "stopped L p m0 s0 c1" by simp_all
    from wp_conj [OF frame_wp [OF f] e] show ?thesis
      by (rule wp_mono) (use r(1) stopped_shrinks [OF r(2,1)] shrinks_ok [OF r(1)] in \<open>simp_all only: simp_thms\<close>)
  qed
  show ?thesis
    unfolding discarding_on_file_change_def wp_catch
  proof (rule wp_mono [OF assms], goal_cases)
    case (2 err c1)
    then show ?case using h [of c1 err] at_rest_stopped by (cases err) simp_all
  qed
qed

lemma print_deletes:
  "wp (print_result_and_delete W j s r p) (\<lambda>_ c'. c_documents c' = filter (\<lambda>d. fst d \<noteq> p) (c_documents c)) (\<lambda>_ _. True) c"
  by (simp add: print_result_and_delete_def safe_echo_def delete_document_def unlink_def wp_simps)

lemma run_operation_account:
  assumes w: "working L origin p e c" and d: "c_documents c = [(p, State_File n (Some v))]" "entry_missing v = entry_missing e"
    and m: "o_phase e \<notin> {PHASE_CREATE, PHASE_UPLOAD} \<longrightarrow> entry_missing e = []"
    and q: "frame quiet prepared"
  shows "wp (run_operation L X W p e prepared)
    (\<lambda>_ c'. outbox_ok L origin c' \<and> c_documents c' = [] \<and> sent L c' = sent L c @ entry_missing e)
    (\<lambda>_ c'. outbox_ok L origin c' \<and> stopped L p (entry_missing e) (sent L c) c') c"
proof -
  let ?m0 = "entry_missing e" and ?s0 = "sent L c"
  have work: "at_work L origin p ?m0 ?s0 e c" using w d by (auto simp: at_work_def progress_def)
  have "wp (bindc prepared (\<lambda>m. bindc (refresh_request L X W) (\<lambda>t. resume L X W t p e m)))
      (\<lambda>_ c'. working L origin p e c' \<and> sent L c' = ?s0 @ ?m0 \<and> paused L p ?m0 ?s0 c')
      (\<lambda>_ c'. at_rest L origin p ?m0 ?s0 e c') c"
    by (intro quiet_step [OF q work] quiet_step [OF quiet.frame_refresh] resume_account m)
  note run = discarding_account [OF this, of W]
  show ?thesis
    unfolding run_operation_def wp_bindc [of "discarding_on_file_change W p x" for x]
  proof (rule wp_mono [OF run], goal_cases)
    case (1 r c1)
    then have ok: "outbox_ok L origin c1" and st: "stopped L p ?m0 ?s0 c1"
      unfolding working_def by (blast intro: paused_stopped)+
    have snt: "sent L c1 = ?s0 @ ?m0" using 1 by simp
    from 1 have f: "filter (\<lambda>d. fst d \<noteq> p) (c_documents c1) = []"
      by (auto simp: working_def list_all_iff filter_empty_conv)
    have s: "sent L c' = ?s0 @ ?m0" if "shrinks L origin c1 c'" for c'
      using that snt by (simp add: shrinks_def sent_def)
    from wp_conj [OF frame_wp [OF shrinks_print [of L origin]] print_deletes] show ?case
      by (rule wp_mono) (use f s stopped_shrinks [OF st ok] shrinks_ok [OF ok] in \<open>simp_all only: simp_thms\<close>)
  qed
qed

lemma load_optional_ok:
  assumes "outbox_ok L origin c"
  shows "wp (load_optional L W origin)
    (\<lambda>r c'. only_ticks c c' \<and> (case r of None \<Rightarrow> c_documents c = []
       | Some (p, e) \<Rightarrow> \<exists>n. c_documents c = [(p, State_File n (Some e))]))
    (\<lambda>_ c'. only_ticks c c') c"
proof -
  have "wp (load_optional L W origin) (\<lambda>r _. case r of None \<Rightarrow> c_documents c = []
       | Some (p, e) \<Rightarrow> \<exists>n. c_documents c = [(p, State_File n (Some e))]) (\<lambda>_ _. True) c"
  proof (cases "c_documents c")
    case Nil
    then show ?thesis by (simp add: load_optional_def all_documents_def wp_simps)
  next
    case (Cons d ds)
    with assms obtain p n e where c: "c_documents c = [(p, State_File n (Some e))]"
      "outbox_entry_schema L e = Some e"
      by (cases d; cases ds) (auto simp: outbox_ok_def elim!: own_document.elims)
    then show ?thesis
      by (simp add: load_optional_def all_documents_def wp_simps read_json_def split: option.split)
  qed
  from wp_conj [OF frame_wp [OF ticks.frame_load_optional] this] show ?thesis
    by (rule wp_mono) auto
qed

lemma load_entry_ok:
  assumes "outbox_ok L origin c"
  shows "wp (load_entry L W origin)
    (\<lambda>(p, e) c'. only_ticks c c' \<and> (\<exists>n. c_documents c = [(p, State_File n (Some e))]))
    (\<lambda>_ c'. only_ticks c c') c"
  unfolding load_entry_def wp_bindc
  by (rule wp_mono [OF load_optional_ok [OF assms]]) (auto simp: wp_simps split: option.splits)

lemma stopped_start:
  assumes "c_documents c = [(p, State_File n (Some e))]"
  shows "stopped L p (entry_missing e) (sent L c) c"
  unfolding stopped_def using assms by (intro exI [of _ "[]"]) auto

lemma shrinks_tick: "only_ticks c c' \<Longrightarrow> shrinks L origin c c'"
  by (auto simp: only_ticks_def shrinks_def outbox_ok_def)

lemma shrinks_trans: "shrinks L origin a b \<Longrightarrow> shrinks L origin b c \<Longrightarrow> shrinks L origin a c"
  by (rule shrinking.R_trans)

lemma working_loaded:
  assumes "outbox_ok L origin c" "c_documents c = [(p, State_File n (Some e))]" "c_pair_marker c = None"
  shows "working L origin p e c"
  using assms by (simp add: working_def outbox_ok_def)

lemma store_lock_rule:
  assumes "E (ConnectorError 2 OUTBOX_BUSY) (c\<lparr>c_tick := Suc (c_tick c)\<rparr>)"
    and "wp body Q E (c\<lparr>c_tick := Suc (c_tick c)\<rparr>)"
  shows "wp (store_lock W body) Q E c"
  using assms by (simp add: store_lock_def wp_simps)

text \<open>The outcome of a retry: finished, or stopped.\<close>

definition retried :: "lib \<Rightarrow> ustr \<Rightarrow> ustr list \<Rightarrow> outbox_entry \<Rightarrow> conn \<Rightarrow> bool" where
  "retried L origin s0 e c \<longleftrightarrow> outbox_ok L origin c \<and> c_documents c = []
     \<and> sent L c = s0 @ entry_missing e"

lemma retry_entry_account:
  assumes ok: "outbox_ok L origin c" and d: "c_documents c = [(p, State_File n (Some e))]" "c_pair_marker c = None"
  shows "wp (retry_entry L X W p e) (\<lambda>_ c'. retried L origin (sent L c) e c')
    (\<lambda>_ c'. outbox_ok L origin c' \<and> stopped L p (entry_missing e) (sent L c) c') c"
proof -
  have stop: "outbox_ok L origin c' \<and> stopped L p (entry_missing e) (sent L c) c'" if "shrinks L origin c c'" for c'
    using shrinks_ok [OF ok that] stopped_shrinks [OF stopped_start [OF d(1)] ok that] by simp
  have "outbox_entry_schema L e = Some e" using ok d by (simp add: outbox_ok_def)
  then have m: "o_phase e \<notin> {PHASE_CREATE, PHASE_UPLOAD} \<longrightarrow> entry_missing e = []"
    by (blast intro: completed_entry_missing)
  show ?thesis
  proof (cases "o_phase e = PHASE_EVIDENCE")
    case True
    show ?thesis
    proof (cases "o_evidence e")
      case None
      then show ?thesis using True stop [OF shrinking.R_refl] by (simp add: retry_entry_def wp_simps)
    next
      case (Some v)
      have none: "entry_missing e = []" using m True by simp
      have over: "retried L origin (sent L c) e c'"
        if "shrinks L origin c c' \<and> c_documents c' = filter (\<lambda>d. fst d \<noteq> p) (c_documents c)" for c'
      proof -
        from that have s: "shrinks L origin c c'" and g: "c_documents c' = []" by (simp_all add: d)
        have "sent L c' = sent L c" using s by (simp add: shrinks_def sent_def)
        with shrinks_ok [OF ok s] g none show ?thesis by (simp add: retried_def)
      qed
      show ?thesis unfolding retry_entry_def True if_P [OF refl] Some option.case
        by (rule wp_mono [OF wp_conj [OF frame_wp [OF shrinks_print [of L origin]] print_deletes]])
          (use over stop in simp_all)
    qed
  next
    case False
    show ?thesis unfolding retry_entry_def if_not_P [OF False]
      by (rule wp_mono [OF run_operation_account [OF working_loaded [OF ok d] d(1) refl m quiet.frame_prepared_for_retry]])
        (simp_all add: retried_def)
  qed
qed

lemma retry_account:
  assumes ok: "outbox_ok L origin c" and d: "c_documents c = [(p, State_File n (Some e))]"
  shows "wp (retry_command L X W origin) (\<lambda>_ c'. retried L origin (sent L c) e c')
    (\<lambda>_ c'. outbox_ok L origin c' \<and> stopped L p (entry_missing e) (sent L c) c') c"
proof -
  let ?stop = "\<lambda>c'. outbox_ok L origin c' \<and> stopped L p (entry_missing e) (sent L c) c'"
  have stop: "?stop c'" if "shrinks L origin c c'" for c'
    using shrinks_ok [OF ok that] stopped_shrinks [OF stopped_start [OF d] ok that] by simp
  have t: "shrinks L origin c (c\<lparr>c_tick := Suc (c_tick c)\<rparr>)" by (rule shrinking.R_tick)
  have load: "wp (bindc (load_entry L W origin) (\<lambda>(p, e). retry_entry L X W p e))
      (\<lambda>_ c'. retried L origin (sent L c) e c') (\<lambda>_ c'. ?stop c') c1"
    if s: "shrinks L origin c c1" "outbox_ok L origin c1" "c_pair_marker c1 = None" for c1
    unfolding wp_bindc
  proof (rule wp_mono [OF load_entry_ok [OF s(2)]], goal_cases)
    case (1 pe c2)
    then obtain q f k where l: "pe = (q, f)" "only_ticks c1 c2" "c_documents c1 = [(q, State_File k (Some f))]"
      by (cases pe) auto
    with s ok d have e: "q = p" "f = e" "k = n" by (auto simp: shrinks_def)
    have "outbox_ok L origin c2" by (rule shrinks_ok [OF s(2) shrinks_tick [OF l(2)]])
    moreover have "c_documents c2 = c_documents c1" "c_pair_marker c2 = None" "sent L c2 = sent L c"
      using l(2) s(1,3) by (auto simp: only_ticks_def shrinks_def sent_def)
    ultimately have "outbox_ok L origin c2" "c_documents c2 = [(p, State_File n (Some e))]" "c_pair_marker c2 = None"
      "sent L c2 = sent L c" using l(3) e by simp_all
    with retry_entry_account [OF this(1-3)] show ?case unfolding l(1) e by simp
  qed (use stop shrinks_trans [OF s(1)] shrinks_tick in blast)
  show ?thesis
    unfolding retry_command_def
  proof (rule store_lock_rule)
    show "?stop (c\<lparr>c_tick := Suc (c_tick c)\<rparr>)" by (rule stop [OF t])
  qed (unfold wp_bindc [of "start_command L W origin"],
      rule wp_mono [OF start_command_ok [OF shrinks_ok [OF ok t]]], (use load stop shrinks_trans [OF t] in blast)+)
qed

section \<open>Submission\<close>

lemma ensure_available_ok:
  assumes "outbox_ok L origin c"
  shows "wp (ensure_available L W origin) (\<lambda>_ c'. only_ticks c c' \<and> c_documents c = []) (\<lambda>_ c'. only_ticks c c') c"
  unfolding ensure_available_def wp_bindc
  by (rule wp_mono [OF load_optional_ok [OF assms]]) (auto simp: wp_simps split: option.splits)

lemma initial_missing:
  assumes "consistent_progress (initial_attachment X a)"
  shows "missing_digests (initial_attachment X a) = pa_part_sha256s a"
proof -
  let ?i = "initial_attachment X a"
  have i: "part_numbers ?i = []" "as_part_sha256s ?i = pa_part_sha256s a"
    by (simp_all add: initial_attachment_def part_numbers_def)
  from assms have len: "length (pa_part_sha256s a) = total_parts ?i" by (simp add: consistent_progress_def i)
  have "missing_digests ?i = map (\<lambda>n. pa_part_sha256s a ! (n - 1)) [1..<length (pa_part_sha256s a) + 1]"
    by (simp add: missing_digests_def missing_numbers_def i len)
  also have "\<dots> = map (\<lambda>n. pa_part_sha256s a ! n) [0..<length (pa_part_sha256s a)]"
    unfolding One_nat_def add_Suc_right add_0_right map_Suc_upt [symmetric] by simp
  finally show ?thesis by (simp add: map_nth)
qed

lemma initial_entry_spec:
  "wp (initial_entry L X W origin m) (\<lambda>e c'. only_ticks c c' \<and> o_normalized_origin e = origin
      \<and> o_idempotency_key e = pr_idempotency_key m \<and> o_phase e = PHASE_CREATE
      \<and> entry_missing e = concat (map pa_part_sha256s (pr_attachments m)))
    (\<lambda>_ c'. only_ticks c c') c"
proof -
  let ?e0 = "\<lambda>now. \<lparr>o_normalized_origin = origin, o_idempotency_key = pr_idempotency_key m,
        o_manifest_path = path_str X (pr_path m), o_manifest_fingerprint = pr_fingerprint m,
        o_job_id = None, o_phase = PHASE_CREATE,
        o_attachments = map (initial_attachment X) (pr_attachments m), o_evidence = None,
        o_updated_at = Some now\<rparr>"
  have "o_normalized_origin v = origin \<and> o_idempotency_key v = pr_idempotency_key m
      \<and> o_phase v = PHASE_CREATE \<and> entry_missing v = concat (map pa_part_sha256s (pr_attachments m))"
    if v: "outbox_entry_schema L (?e0 now) = Some v" for now v
  proof -
    from v obtain as where as: "v = (?e0 now)\<lparr>o_attachments := as\<rparr>"
      "list_all2 same_attachment (o_attachments (?e0 now)) as"
      "\<forall>a \<in> set as. consistent_progress a \<and> as_part_size a = 8388608" by (rule outbox_entry_valid)
    have "missing_digests (initial_attachment X a) = pa_part_sha256s a" if a: "a \<in> set (pr_attachments m)" for a
    proof (rule initial_missing)
      from a obtain j where j: "j < length (pr_attachments m)" "a = pr_attachments m ! j"
        by (auto simp: in_set_conv_nth)
      with as(2) have b: "as ! j \<in> set as" "same_attachment (initial_attachment X a) (as ! j)"
        by (auto simp: list_all2_conv_all_nth)
      then have "as ! j = initial_attachment X a"
        by (auto simp: same_attachment_def initial_attachment_def part_numbers_def)
      with as(3) b(1) show "consistent_progress (initial_attachment X a)" by simp
    qed
    then have "map (missing_digests \<circ> initial_attachment X) (pr_attachments m) = map pa_part_sha256s (pr_attachments m)"
      by simp
    with valid_missing [OF v] as(1) show ?thesis by (simp add: entry_missing_def)
  qed
  then show ?thesis
    unfolding initial_entry_def by (auto simp: wp_simps only_ticks_def split: option.split)
qed

lemma submit_saved_account:
  assumes w: "working L origin p e c" and ph: "o_phase e = PHASE_CREATE"
  shows "wp (bindc (save L X W p e) (\<lambda>e. run_operation L X W p e (return m)))
    (\<lambda>_ c'. outbox_ok L origin c' \<and> c_documents c' = [] \<and> sent L c' = sent L c @ entry_missing e)
    (\<lambda>_ c'. outbox_ok L origin c') c"
  unfolding wp_bindc
proof (rule wp_mono [OF wp_conj [OF save_working [OF w] save_spec]], goal_cases)
  case (1 e' c2)
  then obtain n v k where w2: "working L origin p e' c2"
    and v: "outbox_entry_schema L e' = Some v" "c2 = put_document p (State_File n (Some v)) (c\<lparr>c_tick := k\<rparr>)"
    and e': "entry_missing e' = entry_missing e" "o_phase e' = PHASE_CREATE"
    using ph by (auto simp: entry_missing_def)
  from w have "filter (\<lambda>d. fst d \<noteq> p) (c_documents c) = []"
    by (auto simp: working_def list_all_iff filter_empty_conv)
  then have d: "c_documents c2 = [(p, State_File n (Some v))]" "sent L c2 = sent L c"
    using v by (simp_all add: put_document_def sent_def)
  have m: "o_phase e' \<notin> {PHASE_CREATE, PHASE_UPLOAD} \<longrightarrow> entry_missing e' = []" using e' by simp
  show ?case
    by (rule wp_mono [OF run_operation_account [OF w2 d(1) valid_missing [OF v(1)] m quiet.frame_return]])
      (use d e' in auto)
qed (auto simp: working_def)

lemma submit_prepared_account:
  assumes c: "outbox_ok L origin c" "c_pair_marker c = None"
  shows "wp (submit_prepared L X W origin m)
    (\<lambda>_ c'. outbox_ok L origin c' \<and> c_documents c' = []
       \<and> sent L c' = sent L c @ concat (map pa_part_sha256s (pr_attachments m)))
    (\<lambda>_ c'. outbox_ok L origin c') c"
  unfolding submit_prepared_def Let_def wp_bindc [of "ensure_available L W origin"]
proof (rule wp_mono [OF ensure_available_ok [OF c(1)]], goal_cases)
  case (1 x c1)
  then have t: "only_ticks c c1" and d: "c_documents c = []" by simp_all
  show ?case
    unfolding wp_bindc [of "initial_entry L X W origin m"]
  proof (rule wp_mono [OF initial_entry_spec], goal_cases)
    case (1 e c2)
    have "working L origin (path_for L (pr_idempotency_key m)) e c2" "sent L c2 = sent L c"
      using 1 c d t by (auto simp: working_def outbox_ok_def only_ticks_def sent_def)
    with 1 show ?case by (intro wp_mono [OF submit_saved_account]) auto
  qed (use shrinks_ok [OF c(1) shrinks_tick] shrinks_ok [OF _ shrinks_tick] t in blast)
qed (use shrinks_ok [OF c(1) shrinks_tick] in blast)

lemma submit_account:
  assumes ok: "outbox_ok L origin c"
  shows "wp (submit_command L X W origin path)
    (\<lambda>_ c'. outbox_ok L origin c' \<and> c_documents c' = []
       \<and> (\<exists>m c1. prepare_manifest L X W path c = (Inr m, c1)
            \<and> sent L c' = sent L c @ concat (map pa_part_sha256s (pr_attachments m))))
    (\<lambda>_ c'. outbox_ok L origin c') c"
proof -
  have lock: "wp (store_lock W (bindc (start_command L W origin) (\<lambda>_. submit_prepared L X W origin m)))
      (\<lambda>_ c'. outbox_ok L origin c' \<and> c_documents c' = []
         \<and> sent L c' = sent L c1 @ concat (map pa_part_sha256s (pr_attachments m)))
      (\<lambda>_ c'. outbox_ok L origin c') c1" if c1: "outbox_ok L origin c1" for m c1
  proof (rule store_lock_rule)
    have t: "shrinks L origin c1 (c1\<lparr>c_tick := Suc (c_tick c1)\<rparr>)" by (rule shrinking.R_tick)
    show ok: "outbox_ok L origin (c1\<lparr>c_tick := Suc (c_tick c1)\<rparr>)" by (rule shrinks_ok [OF c1 t])
    show "wp (bindc (start_command L W origin) (\<lambda>_. submit_prepared L X W origin m))
      (\<lambda>_ c'. outbox_ok L origin c' \<and> c_documents c' = []
         \<and> sent L c' = sent L c1 @ concat (map pa_part_sha256s (pr_attachments m)))
      (\<lambda>_ c'. outbox_ok L origin c') (c1\<lparr>c_tick := Suc (c_tick c1)\<rparr>)"
      unfolding wp_bindc [of "start_command L W origin"]
    proof (rule wp_mono [OF start_command_ok [OF ok]], goal_cases)
      case (1 x c2)
      then have "sent L c2 = sent L c1" by (simp add: shrinks_def sent_def)
      with 1 submit_prepared_account [of L origin c2] show ?case by simp
    qed simp
  qed
  show ?thesis
    unfolding submit_command_def wp_bindc [of "prepare_manifest L X W path"]
  proof (rule wp_mono [OF wp_conj [OF frame_wp [OF ticks.frame_prepare] wp_self]], goal_cases)
    case (1 m c1)
    then have "sent L c1 = sent L c" "only_ticks c c1" by (auto simp: only_ticks_def sent_def)
    with 1 show ?case by (intro wp_mono [OF lock [OF shrinks_ok [OF ok shrinks_tick]]]) auto
  qed (use shrinks_ok [OF ok shrinks_tick] in blast)
qed

section \<open>Pairing\<close>

lemma save_pair_marker_ok:
  assumes "outbox_ok L origin c" "c_documents c = []"
  shows "wp (save_pair_completion_marker L W origin h) (\<lambda>_ c'. outbox_ok L origin c') (\<lambda>_ c'. outbox_ok L origin c') c"
  using assms
  by (simp add: save_pair_completion_marker_def atomic_write_def wp_simps Let_def outbox_ok_def)

lemma save_replacement_marker_spec:
  "wp (save_replacement_marker L W origin h p)
    (\<lambda>_ c'. \<exists>k n m. c' = c\<lparr>c_tick := k, c_marker := Some (State_File n (Some m))\<rparr>
       \<and> m = \<lparr>rm_normalized_origin = origin,
          rm_old_credential_state = (if h \<noteq> None then PRESENT else MISSING),
          rm_old_refresh_sha256 = h, rm_old_outbox_filename = p\<rparr> \<and> replacement_marker_ok m)
    (\<lambda>_ c'. only_ticks c c') c"
  by (auto simp: save_replacement_marker_def atomic_write_def wp_simps Let_def ticks.R_refl)
    (auto simp: only_ticks_def)

lemma shrinks_pair: "frame (shrinks L origin) (pair_with_server L X W code name)"
  by (rule shrinking.frame_pair_with_server)

lemma ok_step:
  assumes "frame (shrinks L origin) m" "outbox_ok L origin c"
    and "\<And>x c'. outbox_ok L origin c' \<Longrightarrow> shrinks L origin c c' \<Longrightarrow> wp (f x) (\<lambda>_ c'. outbox_ok L origin c') (\<lambda>_ c'. outbox_ok L origin c') c'"
  shows "wp (bindc m f) (\<lambda>_ c'. outbox_ok L origin c') (\<lambda>_ c'. outbox_ok L origin c') c"
  unfolding wp_bindc
  by (rule frame_strengthen [OF assms(1)]) (use assms shrinks_ok in blast)+

lemma ok_frame:
  assumes "frame (shrinks L origin) m" "outbox_ok L origin c"
  shows "wp m (\<lambda>_ c'. outbox_ok L origin c') (\<lambda>_ c'. outbox_ok L origin c') c"
  by (rule frame_strengthen [OF assms(1)]) (use assms shrinks_ok in blast)+

lemma pair_first_ok:
  assumes "outbox_ok L origin c" "c_documents c = []"
  shows "wp (pair_first L X W origin code name) (\<lambda>_ c'. outbox_ok L origin c') (\<lambda>_ c'. outbox_ok L origin c') c"
  unfolding pair_first_def
proof (rule ok_step [OF shrinking.frame_load_refresh(1) assms(1)])
  fix x c' assume c': "outbox_ok L origin c'" "shrinks L origin c c'"
  have "c_documents c' = []" using c'(2) assms by (auto simp: shrinks_def)
  from save_pair_marker_ok [OF c'(1) this]
  show "wp (bindc (save_pair_completion_marker L W origin (refresh_fingerprint L x)) (\<lambda>_.
      bindc (pair_with_server L X W code name) (\<lambda>_. bindc (safe_echo W (u ''Device paired.'')) (\<lambda>_.
      delete_pair_completion_marker W)))) (\<lambda>_ c'. outbox_ok L origin c') (\<lambda>_ c'. outbox_ok L origin c') c'"
    unfolding wp_bindc [of "save_pair_completion_marker L W origin h" for h]
    by (rule wp_mono) (intro ok_frame shrinks_intros shrinks_pair, simp_all)
qed

lemma pair_replacing_ok:
  assumes "outbox_ok L origin c"
  shows "wp (pair_replacing L X W origin p code name) (\<lambda>_ c'. outbox_ok L origin c') (\<lambda>_ c'. outbox_ok L origin c') c"
  unfolding pair_replacing_def
proof (rule ok_step [OF shrinking.frame_load_refresh(1) assms(1)])
  fix x c' assume c': "outbox_ok L origin c'"
  show "wp (bindc (save_replacement_marker L W origin (refresh_fingerprint L x) p) (\<lambda>_.
      bindc (pair_with_server L X W code name) (\<lambda>_. bindc (delete_document W p) (\<lambda>_.
      bindc (report_replacement W) (\<lambda>_. delete_replacement_marker W)))))
      (\<lambda>_ c'. outbox_ok L origin c') (\<lambda>_ c'. outbox_ok L origin c') c'"
    unfolding wp_bindc [of "save_replacement_marker L W origin h p" for h]
  proof (rule wp_mono [OF save_replacement_marker_spec], goal_cases)
    case (1 y c2)
    then have "outbox_ok L origin c2" using c' by (auto simp: outbox_ok_def)
    then show ?case unfolding report_replacement_def by (intro ok_frame shrinks_intros shrinks_pair)
  qed (use shrinks_ok [OF c' shrinks_tick] in blast)
qed

lemma pair_operation_ok:
  assumes "outbox_ok L origin c"
  shows "wp (pair_operation L X W origin code name) (\<lambda>_ c'. outbox_ok L origin c') (\<lambda>_ c'. outbox_ok L origin c') c"
  unfolding pair_operation_def wp_bindc
proof (rule wp_mono [OF load_optional_ok [OF assms]], goal_cases)
  case (1 r c1)
  then have "outbox_ok L origin c1" using shrinks_ok [OF assms shrinks_tick] by blast
  with 1 show ?case
    by (cases r) (auto simp: wp_simps only_ticks_def intro!: pair_first_ok pair_replacing_ok)
qed (use shrinks_ok [OF assms shrinks_tick] in blast)

lemma pair_locked_ok:
  assumes "outbox_ok L origin c"
  shows "wp (pair_locked L X W origin code name) (\<lambda>_ c'. outbox_ok L origin c') (\<lambda>_ c'. outbox_ok L origin c') c"
proof -
  have report: "frame (shrinks L origin) (bindc (report_replacement W) (\<lambda>_. delete_replacement_marker W))"
    "frame (shrinks L origin) (bindc (safe_echo W t) (\<lambda>_. delete_pair_completion_marker W))" for t
    unfolding report_replacement_def by (intro shrinks_intros)+
  show ?thesis
    unfolding pair_locked_def
    by (intro ok_step [OF shrinks_recover assms], unfold wp_if)
      (simp add: ok_frame report ok_step [OF shrinks_recover_initial] pair_operation_ok)
qed

lemma pair_ok:
  assumes "outbox_ok L origin c"
  shows "wp (pair_command L X W origin code name) (\<lambda>_ c'. outbox_ok L origin c') (\<lambda>_ c'. outbox_ok L origin c') c"
proof -
  have tick: "outbox_ok L origin (c\<lparr>c_tick := k\<rparr>)" for k
    using assms by (simp add: outbox_ok_def)
  have "wp (store_lock W (pair_locked L X W origin code name)) (\<lambda>_ c'. outbox_ok L origin c') (\<lambda>_ c'. outbox_ok L origin c') c"
    by (rule store_lock_rule) (intro tick pair_locked_ok)+
  then show ?thesis unfolding pair_command_def by (simp add: wp_simps assms)
qed

section \<open>An interrupted pairing\<close>

definition current_refresh :: "conn \<Rightarrow> ustr option" where
  "current_refresh c = (if c_refresh c = Some [] then None else c_refresh c)"

lemma load_refresh_spec:
  "wp (load_refresh_optional W) (\<lambda>r c'. only_ticks c c' \<and> r = current_refresh c) (\<lambda>_ c'. only_ticks c c') c"
  by (auto simp: load_refresh_optional_def wp_simps current_refresh_def only_ticks_def)

lemma pair_with_server_spec:
  "wp (pair_with_server L X W code name)
    (\<lambda>_ c'. same_files c c' \<and> (\<exists>b k. read_token X b = Some k \<and> token_response_ok k
       \<and> c_refresh c' = Some (tk_refresh_token k)))
    (\<lambda>_ c'. same_files c c' \<and> c_refresh c' = c_refresh c) c"
proof -
  have "wp (pair_request L X W code name)
    (\<lambda>_ c'. same_files c c' \<and> (\<exists>b k. read_token X b = Some k \<and> token_response_ok k
       \<and> c_refresh c' = Some (tk_refresh_token k)))
    (\<lambda>_ c'. same_files c c' \<and> c_refresh c' = c_refresh c) c"
    by (auto simp: pair_request_def send_def save_refresh_def wp_simps same_files_def split: option.split sum.split)
  then show ?thesis
    unfolding pair_with_server_def wp_catch by (rule wp_mono) (auto simp: wp_simps split: cerror.split)
qed

definition marker_of :: "lib \<Rightarrow> ustr \<Rightarrow> ustr \<Rightarrow> conn \<Rightarrow> replacement_marker" where
  "marker_of L origin p c = \<lparr>rm_normalized_origin = origin,
     rm_old_credential_state = (if current_refresh c = None then MISSING else PRESENT),
     rm_old_refresh_sha256 = refresh_fingerprint L (current_refresh c), rm_old_outbox_filename = p\<rparr>"

definition marked :: "lib \<Rightarrow> ustr \<Rightarrow> ustr \<Rightarrow> conn \<Rightarrow> conn \<Rightarrow> bool" where
  "marked L origin p c c' \<longleftrightarrow> (\<exists>k. c_marker c' = Some (State_File k (Some (marker_of L origin p c))))"

lemma marked_updates [simp]:
  "marked L origin p c (c'\<lparr>c_tick := a\<rparr>) = marked L origin p c c'"
  "marked L origin p c (c'\<lparr>c_documents := d\<rparr>) = marked L origin p c c'"
  "marked L origin p c (c'\<lparr>c_printed := t\<rparr>) = marked L origin p c c'"
  by (simp_all add: marked_def)

definition issued :: "conn_lib \<Rightarrow> ustr option \<Rightarrow> bool" where
  "issued X t \<longleftrightarrow> (\<exists>b k. read_token X b = Some k \<and> token_response_ok k \<and> t = Some (tk_refresh_token k))"

text \<open>Where a pairing that replaces an operation can stop: before the server issued a
  credential, with the operation in place, or after it, with a marker or the operation gone.\<close>

definition pairing_stage :: "lib \<Rightarrow> conn_lib \<Rightarrow> ustr \<Rightarrow> ustr \<Rightarrow> conn \<Rightarrow> conn \<Rightarrow> bool" where
  "pairing_stage L X origin p c c' \<longleftrightarrow> c_pair_marker c' = None \<and>
     (c_refresh c' = c_refresh c \<and> c_documents c' = c_documents c \<and> (c_marker c' = None \<or> marked L origin p c c')
      \<or> issued X (c_refresh c')
        \<and> (c_documents c' = [] \<and> c_marker c' = None
           \<or> marked L origin p c c' \<and> c_documents c' \<in> {c_documents c, []}))"

lemma pair_replacing_stages:
  assumes c: "c_marker c = None" "c_pair_marker c = None" "c_documents c = [(p, State_File n (Some e))]"
  shows "wp (pair_replacing L X W origin p code name)
    (\<lambda>_ c'. pairing_stage L X origin p c c') (\<lambda>_ c'. pairing_stage L X origin p c c') c"
  unfolding pair_replacing_def wp_bindc [of "load_refresh_optional W"]
proof (rule wp_mono [OF load_refresh_spec], goal_cases)
  case (1 r c1)
  show ?case
    unfolding wp_bindc [of "save_replacement_marker L W origin h p" for h]
  proof (rule wp_mono [OF save_replacement_marker_spec], goal_cases)
    case (1 x c2)
    with \<open>only_ticks c c1 \<and> r = current_refresh c\<close> c
    have c2: "marked L origin p c c2" "c_documents c2 = c_documents c" "c_pair_marker c2 = None" "c_refresh c2 = c_refresh c"
      by (auto simp: marked_def marker_of_def only_ticks_def refresh_fingerprint_def)
    show ?case
      unfolding wp_bindc [of "pair_with_server L X W code name"]
    proof (rule wp_mono [OF pair_with_server_spec], goal_cases)
      case (1 x c3)
      with c2 have c3: "issued X (c_refresh c3)" "marked L origin p c c3" "c_documents c3 = [(p, State_File n (Some e))]"
          "c_pair_marker c3 = None"
        by (auto simp: issued_def same_files_def marked_def c)
      then show ?case
        by (simp add: delete_document_def unlink_def report_replacement_def safe_echo_def
            delete_replacement_marker_def wp_simps pairing_stage_def c)
    next
      case (2 err c3)
      with c2 show ?case by (auto simp: pairing_stage_def same_files_def marked_def)
    qed
  qed (use \<open>only_ticks c c1 \<and> r = current_refresh c\<close> c in \<open>auto simp: only_ticks_def pairing_stage_def\<close>)
qed (use c in \<open>auto simp: only_ticks_def pairing_stage_def\<close>)

lemma pair_stages:
  assumes ok: "outbox_ok L origin c"
    and c: "c_marker c = None" "c_pair_marker c = None" "c_documents c = [(p, State_File n (Some e))]"
  shows "wp (pair_command L X W origin code name)
    (\<lambda>_ c'. pairing_stage L X origin p c c') (\<lambda>_ c'. pairing_stage L X origin p c c') c"
proof -
  have base: "pairing_stage L X origin p c c'" if "only_ticks c c'" for c'
    using that c by (auto simp: only_ticks_def pairing_stage_def)
  have stage_tick: "pairing_stage L X origin p c1 = pairing_stage L X origin p c" if "only_ticks c c1" for c1
  proof -
    from that obtain k where "c1 = c\<lparr>c_tick := k\<rparr>" by (auto simp: only_ticks_def)
    then have "marker_of L origin p c1 = marker_of L origin p c" "c_refresh c1 = c_refresh c" "c_documents c1 = c_documents c"
      by (simp_all add: marker_of_def current_refresh_def)
    then show ?thesis by (simp only: pairing_stage_def marked_def fun_eq_iff simp_thms)
  qed
  have op: "wp (pair_operation L X W origin code name)
    (\<lambda>_ c'. pairing_stage L X origin p c c') (\<lambda>_ c'. pairing_stage L X origin p c c') c1" if t: "only_ticks c c1" for c1
    unfolding pair_operation_def wp_bindc
  proof (rule wp_mono [OF load_optional_ok [OF shrinks_ok [OF ok shrinks_tick [OF t]]]], goal_cases)
    case (1 r c2)
    then have t2: "only_ticks c c2" using ticks.R_trans [OF t] by blast
    have "c_documents c1 = c_documents c" using t by (auto simp: only_ticks_def)
    with 1 c have r: "r = Some (p, e)" by (cases r) auto
    have c2: "c_marker c2 = None" "c_pair_marker c2 = None" "c_documents c2 = [(p, State_File n (Some e))]"
      using t2 c by (auto simp: only_ticks_def)
    show ?case unfolding r option.case split
      using pair_replacing_stages [OF c2, of L X W origin code name, unfolded stage_tick [OF t2]] base [OF t2]
      by (simp add: wp_simps)
  qed (use base ticks.R_trans [OF t] in blast)
  have "wp (pair_locked L X W origin code name)
    (\<lambda>_ c'. pairing_stage L X origin p c c') (\<lambda>_ c'. pairing_stage L X origin p c c') c1" if t: "only_ticks c c1" for c1
  proof -
    have "c_marker c1 = None" "c_pair_marker c1 = None" using t c by (auto simp: only_ticks_def)
    then show ?thesis
      using op [OF t]
      by (simp add: pair_locked_def recover_replacement_def recover_initial_pair_def load_replacement_marker_def
          load_pair_completion_marker_def wp_simps)
  qed
  from this [of "c\<lparr>c_tick := Suc (c_tick c)\<rparr>"] base [of "c\<lparr>c_tick := Suc (c_tick c)\<rparr>"] base [OF ticks.R_refl]
  show ?thesis
    by (auto simp: pair_command_def store_lock_def wp_simps only_ticks_def)
qed

text \<open>The next command settles it.\<close>

lemma start_settles:
  assumes st: "pairing_stage L X origin p c c1" and d: "c_documents c = [(p, State_File n (Some e))]"
    and fresh: "\<forall>b k. read_token X b = Some k \<longrightarrow>
      refresh_fingerprint L (Some (tk_refresh_token k)) \<noteq> refresh_fingerprint L (current_refresh c)"
  shows "wp (start_command L W origin)
    (\<lambda>_ c2. c_marker c2 = None \<and> c_documents c2 = (if refresh_fingerprint L (current_refresh c1)
        = refresh_fingerprint L (current_refresh c) then c_documents c else []))
    (\<lambda>_ _. True) c1"
proof -
  let ?new = "refresh_fingerprint L (current_refresh c1) \<noteq> refresh_fingerprint L (current_refresh c)"
  have cur: "\<not> ?new \<Longrightarrow> (current_refresh c1 = None) = (current_refresh c = None)"
    by (cases "current_refresh c1"; cases "current_refresh c") (simp_all add: refresh_fingerprint_def)
  have issued: "?new \<and> current_refresh c1 \<noteq> None" if "issued X (c_refresh c1)"
  proof -
    from that obtain b k where k: "read_token X b = Some k" "token_response_ok k" "c_refresh c1 = Some (tk_refresh_token k)"
      by (auto simp: issued_def)
    then have "current_refresh c1 = Some (tk_refresh_token k)"
      by (auto simp: current_refresh_def token_response_ok_def safe_token_def)
    with fresh k(1) show ?thesis by simp
  qed
  have same: "\<not> ?new" if "c_refresh c1 = c_refresh c" using that by (simp add: current_refresh_def)
  have pm: "c_pair_marker c1 = None" using st by (simp add: pairing_stage_def)
  show ?thesis
  proof (cases "c_marker c1")
    case None
    then have "c_documents c1 = (if ?new then [] else c_documents c)"
      using st issued same unfolding pairing_stage_def marked_def by (metis option.distinct(1))
    with None pm show ?thesis
      by (simp add: start_command_def reject_pending_initial_pair_def load_pair_completion_marker_def
          recover_replacement_def load_replacement_marker_def wp_simps)
  next
    case (Some f)
    then obtain k where f: "f = State_File k (Some (marker_of L origin p c))"
      using st by (auto simp: pairing_stage_def marked_def)
    have dn: "\<not> ?new \<Longrightarrow> c_documents c1 = c_documents c" "c_documents c1 \<in> {c_documents c, []}"
      "?new \<Longrightarrow> current_refresh c1 \<noteq> None"
      using st issued same unfolding pairing_stage_def by blast+
    show ?thesis
    proof (cases ?new)
      case True
      then have "credential_was_replaced L (rm_old_credential_state (marker_of L origin p c))
          (rm_old_refresh_sha256 (marker_of L origin p c)) (current_refresh c1)"
        using dn(3) by (auto simp: credential_was_replaced_def marker_of_def)
      with True dn(2) pm Some f d show ?thesis
        by (auto simp: start_command_def reject_pending_initial_pair_def load_pair_completion_marker_def
          recover_replacement_def load_replacement_marker_def read_json_def load_refresh_optional_def current_refresh_def
          delete_document_def delete_replacement_marker_def unlink_def has_document_def marker_of_def wp_simps Let_def)
    next
      case False
      then have "\<not> credential_was_replaced L (rm_old_credential_state (marker_of L origin p c))
          (rm_old_refresh_sha256 (marker_of L origin p c)) (current_refresh c1)"
        using cur by (auto simp: credential_was_replaced_def marker_of_def)
      with False dn(1) pm Some f show ?thesis
        by (auto simp: start_command_def reject_pending_initial_pair_def load_pair_completion_marker_def
          recover_replacement_def load_replacement_marker_def read_json_def load_refresh_optional_def current_refresh_def
          delete_replacement_marker_def unlink_def wp_simps Let_def)
    qed
  qed
qed

section \<open>Sessions\<close>

text \<open>A session is any sequence of commands for one origin, each with the world it runs in; a
  crash is a world in which every write, deletion and request from some call on fails.\<close>

datatype connector_command =
    PairCommand ustr ustr
  | SubmitCommand path
  | StatusCommand uuid
  | RetryCommand

fun run_command :: "lib \<Rightarrow> conn_lib \<Rightarrow> ustr \<Rightarrow> world \<Rightarrow> connector_command \<Rightarrow> unit cmd" where
  "run_command L X origin W (PairCommand code name) = pair_command L X W origin code name"
| "run_command L X origin W (SubmitCommand p) = submit_command L X W origin p"
| "run_command L X origin W (StatusCommand job) = status_command L X W origin job"
| "run_command L X origin W RetryCommand = retry_command L X W origin"

fun run_session ::
  "lib \<Rightarrow> conn_lib \<Rightarrow> ustr \<Rightarrow> (world \<times> connector_command) list \<Rightarrow> conn \<Rightarrow> conn" where
  "run_session L X origin [] c = c"
| "run_session L X origin ((W, m) # ms) c = run_session L X origin ms (snd (run_command L X origin W m c))"

lemma retry_ok:
  assumes ok: "outbox_ok L origin c"
  shows "wp (retry_command L X W origin) (\<lambda>_ c'. outbox_ok L origin c') (\<lambda>_ c'. outbox_ok L origin c') c"
proof (cases "c_documents c")
  case (Cons d ds)
  with ok obtain p n e where "c_documents c = [(p, State_File n (Some e))]"
    by (cases d; cases ds) (auto simp: outbox_ok_def elim!: own_document.elims)
  from retry_account [OF ok this] show ?thesis by (rule wp_mono) (simp_all add: retried_def)
next
  case Nil
  have t: "outbox_ok L origin (c1\<lparr>c_tick := k\<rparr>)" if "outbox_ok L origin c1" for c1 k
    using that by (simp add: outbox_ok_def)
  have "wp (bindc (load_entry L W origin) (\<lambda>(p, e). retry_entry L X W p e))
      (\<lambda>_ c'. outbox_ok L origin c') (\<lambda>_ c'. outbox_ok L origin c') c1"
    if c1: "outbox_ok L origin c1" "c_documents c1 = []" for c1
    unfolding wp_bindc
    by (rule wp_mono [OF load_entry_ok [OF c1(1)]]) (use c1 in \<open>auto simp: only_ticks_def t\<close>)
  then have "wp (bindc (start_command L W origin) (\<lambda>_. bindc (load_entry L W origin) (\<lambda>(p, e). retry_entry L X W p e)))
      (\<lambda>_ c'. outbox_ok L origin c') (\<lambda>_ c'. outbox_ok L origin c') (c\<lparr>c_tick := Suc (c_tick c)\<rparr>)"
    unfolding wp_bindc [of "start_command L W origin"]
    by (intro wp_mono [OF start_command_ok [OF t [OF ok]]]) (use Nil in \<open>auto simp: shrinks_def t ok\<close>)
  with t [OF ok] show ?thesis
    unfolding retry_command_def by (intro store_lock_rule)
qed

lemma run_command_ok: "outbox_ok L origin c \<Longrightarrow> outbox_ok L origin (snd (run_command L X origin W m c))"
proof (cases m)
  case (StatusCommand job)
  assume "outbox_ok L origin c"
  then show ?thesis
    using StatusCommand shrinks_status shrinks_ok unfolding frame_def by (metis run_command.simps(3))
next
  case (SubmitCommand p)
  assume "outbox_ok L origin c"
  then have "wp (submit_command L X W origin p) (\<lambda>_ c'. outbox_ok L origin c') (\<lambda>_ c'. outbox_ok L origin c') c"
    by (intro wp_mono [OF submit_account]) simp_all
  then show ?thesis using SubmitCommand by (simp add: wp_run)
qed (simp_all add: pair_ok retry_ok wp_run [symmetric])

end
