(* ===== verification/Connector_Config.thy ===== *)
theory Connector_Config
  imports Connector_Client
begin

text \<open>
  \<open>config.py\<close>: the canonical origin a command works for.
\<close>

text \<open>\<open>str.split(sep)\<close>\<close>

fun split_char :: "nat \<Rightarrow> ustr \<Rightarrow> ustr list" where
  "split_char c [] = [[]]"
| "split_char c (x # xs) = (if x = c then [] # split_char c xs
     else (case split_char c xs of [] \<Rightarrow> [[x]] | y # ys \<Rightarrow> (x # y) # ys))"

text \<open>\<open>[a-z0-9](?:[a-z0-9-]{0,61}[a-z0-9])?\<close>, full match\<close>

definition label_char :: "nat \<Rightarrow> bool" where
  "label_char c \<longleftrightarrow> 97 \<le> c \<and> c \<le> 122 \<or> 48 \<le> c \<and> c \<le> 57"

definition dns_label :: "ustr \<Rightarrow> bool" where
  "dns_label s \<longleftrightarrow> s \<noteq> [] \<and> length s \<le> 63 \<and> label_char (hd s) \<and> label_char (last s)
     \<and> list_all (\<lambda>c. label_char c \<or> c = 45) s"

definition is_loopback :: "conn_lib \<Rightarrow> ustr \<Rightarrow> bool" where
  "is_loopback X hostname \<longleftrightarrow> py_lower X hostname = u ''localhost''
     \<or> (case ip_parse X hostname of None \<Rightarrow> False | Some a \<Rightarrow> ip_is_loopback a)"

definition remove_dot :: "ustr \<Rightarrow> ustr" where
  "remove_dot s = (if s \<noteq> [] \<and> last s = 46 then butlast s else s)"

text \<open>\<open>_canonical_host\<close>: the host and whether it is an IPv6 address; \<open>None\<close> is \<open>ValueError\<close>.\<close>

definition canonical_host :: "conn_lib \<Rightarrow> ustr \<Rightarrow> (ustr \<times> bool) option" where
  "canonical_host X hostname =
     (let candidate = remove_dot hostname in
      if candidate = [] \<or> last candidate = 46 then None
      else (case ip_parse X candidate of
          Some a \<Rightarrow> Some (py_lower X (ip_compressed X a), ip_version a = 6)
        | None \<Rightarrow>
            if numeric_host candidate then None
            else (case idna X candidate of
                None \<Rightarrow> None
              | Some h \<Rightarrow>
                  let ascii_host = py_lower X h in
                  if length ascii_host > 253 \<or> \<not> list_all dns_label (split_char 46 ascii_host)
                  then None else Some (ascii_host, False))))"

definition origin_text_ok :: "lib \<Rightarrow> ustr \<Rightarrow> bool" where
  "origin_text_ok L v \<longleftrightarrow> utf8_encode v \<noteq> None \<and> v \<noteq> []
     \<and> \<not> list_ex (\<lambda>c. isspace L c \<or> c < 33 \<or> c = 127) v \<and> 37 \<notin> set v \<and> 92 \<notin> set v"

definition origin_parts_ok :: "conn_lib \<Rightarrow> url_parts \<Rightarrow> bool" where
  "origin_parts_ok X p \<longleftrightarrow> py_lower X (url_scheme p) \<in> {u ''http'', u ''https''}
     \<and> url_username p = None \<and> url_password p = None \<and> url_query p = [] \<and> url_fragment p = []
     \<and> url_path p \<in> {[], u ''/''}"

definition origin_netloc :: "ustr \<Rightarrow> ustr \<Rightarrow> bool \<Rightarrow> nat option \<Rightarrow> ustr" where
  "origin_netloc scheme host is_ipv6 port =
     (let h = (if is_ipv6 then u ''['' @ host @ u '']'' else host);
          default_port = (scheme = u ''https'' \<and> port = Some 443 \<or> scheme = u ''http'' \<and> port = Some 80) in
      case port of None \<Rightarrow> h | Some n \<Rightarrow> if default_port then h else h @ u '':'' @ dec n)"

definition normalize_origin :: "lib \<Rightarrow> conn_lib \<Rightarrow> ustr \<Rightarrow> cerror + ustr" where
  "normalize_origin L X v =
     (if \<not> origin_text_ok L v then Inl invalid_input
      else (case url_split X v of
          None \<Rightarrow> Inl invalid_input
        | Some p \<Rightarrow> (case url_hostname p of
            None \<Rightarrow> Inl invalid_input
          | Some hostname \<Rightarrow>
              if url_port p \<in> {None, Some (Some 0)} then Inl invalid_input
              else (case canonical_host X hostname of
                None \<Rightarrow> Inl invalid_input
              | Some (host, is_ipv6) \<Rightarrow>
                  let scheme = py_lower X (url_scheme p) in
                  if \<not> origin_parts_ok X p then Inl invalid_input
                  else if scheme = u ''http'' \<and> \<not> is_loopback X host then Inl invalid_input
                  else Inr (scheme @ u ''://'' @ origin_netloc scheme host is_ipv6 (the (url_port p)))))))"

end
