(* ===== verification/Connector_Updater.thy ===== *)
theory Connector_Updater
  imports Connector_Cli Connector_Config
begin

text \<open>
  \<open>updater.py\<close>: version and digest parsing, the allowed hosts, the bounded requests, the choice
  of the release assets, and the replacement of the packaged executable.
\<close>

definition API_MAX_BYTES :: nat where "API_MAX_BYTES = 1000000"
definition DIGEST_MAX_BYTES :: nat where "DIGEST_MAX_BYTES = 4096"
definition PACKAGE_MAX_BYTES :: nat where "PACKAGE_MAX_BYTES = 80 * 1024 * 1024"
definition REDIRECT_LIMIT :: nat where "REDIRECT_LIMIT = 5"
definition GITHUB_LATEST_URL :: ustr where
  "GITHUB_LATEST_URL = u ''https://api.github.com/repos/qingyou0420/SuperBoss/releases/latest''"
definition PACKAGE_ASSET :: ustr where "PACKAGE_ASSET = u ''superboss.exe''"
definition DIGEST_ASSET :: ustr where "DIGEST_ASSET = u ''superboss.exe.sha256''"

definition update_temporary :: cerror where
  "update_temporary = ConnectorError 6 ''The update check could not finish; retry later.''"
definition update_rejected :: cerror where
  "update_rejected = ConnectorError 5 ''The published release is missing a usable connector package.''"
definition update_not_found :: cerror where
  "update_not_found = ConnectorError 5 ''No published SuperBoss connector release was found.''"
definition update_not_packaged :: cerror where
  "update_not_packaged = ConnectorError 2 ''Update applies to the packaged Windows executable.''"
definition update_too_large :: cerror where
  "update_too_large = ConnectorError 2 ''The update package is too large.''"
definition update_digest_invalid :: cerror where
  "update_digest_invalid = ConnectorError 2 ''The update digest is invalid.''"
definition update_digest_mismatch :: cerror where
  "update_digest_mismatch =
     ConnectorError 2 ''The downloaded package did not match its published digest.''"
definition update_replace_failed :: cerror where
  "update_replace_failed = ConnectorError 2 ''The packaged executable could not be replaced.''"

definition allowed_hosts :: "ustr list" where
  "allowed_hosts = [u ''api.github.com'', u ''github.com'', u ''objects.githubusercontent.com'',
     u ''release-assets.githubusercontent.com'', u ''github-releases.githubusercontent.com'']"

section \<open>Versions and digests\<close>

type_synonym semver = "nat \<times> nat \<times> nat"

definition is_decimal :: "conn_lib \<Rightarrow> ustr \<Rightarrow> bool" where
  "is_decimal X s \<longleftrightarrow> s \<noteq> [] \<and> list_all (\<lambda>c. decimal_digit X c \<noteq> None) s"

definition decimal_value :: "conn_lib \<Rightarrow> ustr \<Rightarrow> nat" where
  "decimal_value X s = foldl (\<lambda>n c. 10 * n + the (decimal_digit X c)) 0 s"

definition parse_semver :: "lib \<Rightarrow> conn_lib \<Rightarrow> ustr \<Rightarrow> semver option" where
  "parse_semver L X v =
     (let raw = strip_chars (isspace L) v;
          raw = (if take 1 raw \<in> {u ''v'', u ''V''} then drop 1 raw else raw) in
      case split_char 46 raw of
        [a, b, c] \<Rightarrow>
          if list_all (is_decimal X) [a, b, c]
          then Some (decimal_value X a, decimal_value X b, decimal_value X c) else None
      | _ \<Rightarrow> None)"

fun semver_less :: "semver \<Rightarrow> semver \<Rightarrow> bool" where
  "semver_less (a, b, c) (a', b', c') \<longleftrightarrow> a < a' \<or> a = a' \<and> (b < b' \<or> b = b' \<and> c < c')"

definition is_newer :: "lib \<Rightarrow> conn_lib \<Rightarrow> ustr \<Rightarrow> ustr \<Rightarrow> bool option" where
  "is_newer L X latest current =
     (case (parse_semver L X latest, parse_semver L X current) of
        (Some a, Some b) \<Rightarrow> Some (semver_less b a)
      | _ \<Rightarrow> None)"

text \<open>\<open>str.splitlines()\<close> of ASCII text\<close>

definition line_break :: "nat \<Rightarrow> bool" where
  "line_break c \<longleftrightarrow> 10 \<le> c \<and> c \<le> 13 \<or> 28 \<le> c \<and> c \<le> 30"

lemma dropWhile_rest:
  assumes "dropWhile P s = c # r"
  shows "length r < length s" "length r - Suc 0 < length s"
  using assms length_dropWhile_le [of P s] by simp_all

function split_lines :: "ustr \<Rightarrow> ustr list" where
  "split_lines s =
     (if s = [] then []
      else (case dropWhile (\<lambda>c. \<not> line_break c) s of
          [] \<Rightarrow> [s]
        | c # r \<Rightarrow> takeWhile (\<lambda>c. \<not> line_break c) s #
            split_lines (if c = 13 \<and> r \<noteq> [] \<and> hd r = 10 then tl r else r)))"
  by auto
termination by (relation "measure length") (auto dest: dropWhile_rest)

declare split_lines.simps [simp del]

definition hex_digest :: "ustr \<Rightarrow> bool" where
  "hex_digest s \<longleftrightarrow> length s = 64 \<and> list_all (\<lambda>c. lower_hex c \<or> 65 \<le> c \<and> c \<le> 70) s"

definition parse_digest :: "lib \<Rightarrow> ustr \<Rightarrow> cerror + ustr" where
  "parse_digest L t =
     (case filter (\<lambda>l. l \<noteq> []) (map (strip_chars (isspace L)) (split_lines t)) of
        [] \<Rightarrow> Inl update_digest_invalid
      | l # _ \<Rightarrow>
          let token = takeWhile (\<lambda>c. \<not> isspace L c) l in
          if hex_digest token then Inr (casefold L token) else Inl update_digest_invalid)"

section \<open>Requests\<close>

definition host_allowed :: "ustr \<Rightarrow> bool" where
  "host_allowed host \<longleftrightarrow> host \<in> set allowed_hosts
     \<or> (let s = u ''.githubusercontent.com'' in
        length s \<le> length host \<and> drop (length host - length s) host = s)"

definition https_allowed :: "lib \<Rightarrow> conn_lib \<Rightarrow> ustr \<Rightarrow> bool" where
  "https_allowed L X url \<longleftrightarrow> (case url_split X url of
       None \<Rightarrow> False
     | Some p \<Rightarrow>
         let host = casefold L (case url_hostname p of None \<Rightarrow> [] | Some h \<Rightarrow> h) in
         casefold L (url_scheme p) = u ''https'' \<and> url_username p = None \<and> url_password p = None
         \<and> host \<noteq> [] \<and> host_allowed host)"

fun read_chunks :: "nat \<Rightarrow> bytes \<Rightarrow> chunk list \<Rightarrow> cerror + bytes" where
  "read_chunks maximum payload [] = Inr payload"
| "read_chunks maximum payload (Broken # cs) = Inl update_temporary"
| "read_chunks maximum payload (Chunk b # cs) =
     (let payload' = payload @ b in
      if length payload' > maximum then Inl update_too_large else read_chunks maximum payload' cs)"

definition read_limited :: "conn_lib \<Rightarrow> nat \<Rightarrow> update_response \<Rightarrow> cerror + bytes" where
  "read_limited X maximum r =
     (case up_content_length r of
        None \<Rightarrow> read_chunks maximum [] (up_chunks r)
      | Some t \<Rightarrow> (case parse_int X t of
          None \<Rightarrow> Inl update_rejected
        | Some n \<Rightarrow> if n < 0 \<or> n > int maximum then Inl update_too_large
                    else read_chunks maximum [] (up_chunks r)))"

text \<open>\<open>_request\<close>: the first argument counts the requests that are left.\<close>

fun fetch :: "lib \<Rightarrow> conn_lib \<Rightarrow> world \<Rightarrow> nat \<Rightarrow> nat \<Rightarrow> ustr \<Rightarrow> bytes cmd" where
  "fetch L X W 0 maximum url = fail update_rejected"
| "fetch L X W (Suc left) maximum url =
     bindc (refuse_if (\<not> https_allowed L X url) update_rejected) (\<lambda>_.
     bindc (modify (\<lambda>c. c\<lparr>c_gets := c_gets c @ [url]\<rparr>)) (\<lambda>_.
     bindc (ask_or update_temporary (\<lambda>n. w_get W n url)) (\<lambda>r.
     if up_status r \<in> {301, 302, 303, 307, 308}
     then (if up_location r \<in> {None, Some []} then fail update_temporary
       else (case url_join X url (the (up_location r)) of
           None \<Rightarrow> fail (Uncaught ''ValueError'')
         | Some target \<Rightarrow> fetch L X W left maximum target))
     else if up_status r \<in> {429, 500, 502, 503, 504} then fail update_temporary
     else if up_status r = 404 then fail update_not_found
     else if up_status r \<ge> 400 then fail update_rejected
     else of_sum (read_limited X maximum r))))"

section \<open>The release\<close>

definition asset_ok :: "release_asset \<Rightarrow> bool" where
  "asset_ok a \<longleftrightarrow> state_text 255 (ra_name a) \<and> 47 \<notin> set (ra_name a) \<and> 92 \<notin> set (ra_name a)
     \<and> ra_name a \<notin> {u ''.'', u ''..''}
     \<and> 1 \<le> ra_size a \<and> ra_size a \<le> PACKAGE_MAX_BYTES
     \<and> 1 \<le> length (ra_url a) \<and> length (ra_url a) \<le> 2048"

definition release_ok :: "release \<Rightarrow> bool" where
  "release_ok r \<longleftrightarrow> 1 \<le> length (rl_tag_name r) \<and> length (rl_tag_name r) \<le> 64
     \<and> 1 \<le> length (rl_html_url r) \<and> length (rl_html_url r) \<le> 2048
     \<and> 1 \<le> length (rl_assets r) \<and> length (rl_assets r) \<le> 50 \<and> list_all asset_ok (rl_assets r)"

record update_offer =
  uo_current_version :: ustr
  uo_latest_version :: ustr
  uo_available :: bool
  uo_html_url :: ustr
  uo_package_url :: ustr
  uo_digest_url :: ustr

definition select_assets :: "lib \<Rightarrow> conn_lib \<Rightarrow> release \<Rightarrow> cerror + release_asset \<times> release_asset" where
  "select_assets L X r =
     (case (find (\<lambda>a. ra_name a = PACKAGE_ASSET) (rl_assets r),
            find (\<lambda>a. ra_name a = DIGEST_ASSET) (rl_assets r)) of
        (Some package, Some digest) \<Rightarrow>
          if https_allowed L X (ra_url package) \<and> https_allowed L X (ra_url digest)
          then Inr (package, digest) else Inl update_rejected
      | _ \<Rightarrow> Inl update_rejected)"

definition version_text :: "semver \<Rightarrow> ustr" where
  "version_text v = (case v of (a, b, c) \<Rightarrow> join (u ''.'') [dec a, dec b, dec c])"

definition parse_latest_release ::
  "lib \<Rightarrow> conn_lib \<Rightarrow> bytes \<Rightarrow> ustr \<Rightarrow> cerror + update_offer" where
  "parse_latest_release L X payload current_version =
     (case read_release X payload of
        None \<Rightarrow> Inl update_rejected
      | Some r \<Rightarrow>
          if \<not> release_ok r then Inl update_rejected
          else (case (parse_semver L X (rl_tag_name r), parse_semver L X current_version) of
            (Some latest, Some _) \<Rightarrow>
              if rl_prerelease r then Inl update_rejected
              else if \<not> https_allowed L X (rl_html_url r) then Inl update_rejected
              else (case select_assets L X r of
                  Inl e \<Rightarrow> Inl e
                | Inr (package, digest) \<Rightarrow> Inr \<lparr>uo_current_version = current_version,
                    uo_latest_version = version_text latest, uo_available = (is_newer L X (rl_tag_name r) current_version = Some True),
                    uo_html_url = rl_html_url r, uo_package_url = ra_url package,
                    uo_digest_url = ra_url digest\<rparr>)
          | _ \<Rightarrow> Inl update_rejected))"

definition check_for_update ::
  "lib \<Rightarrow> conn_lib \<Rightarrow> world \<Rightarrow> ustr \<Rightarrow> ustr \<Rightarrow> update_offer cmd" where
  "check_for_update L X W current_version latest_url =
     bindc (fetch L X W REDIRECT_LIMIT API_MAX_BYTES latest_url) (\<lambda>payload.
     of_sum (parse_latest_release L X payload current_version))"

section \<open>Replacing the executable\<close>

text \<open>One file operation: it happens, or raises \<open>OSError\<close> and does nothing.\<close>

definition file_op :: "world \<Rightarrow> (conn \<Rightarrow> conn) \<Rightarrow> bool cmd" where
  "file_op W f = bindc (ask (w_rename W)) (\<lambda>ok.
     if ok then bindc (modify f) (\<lambda>_. return True) else return False)"

definition write_incoming :: "world \<Rightarrow> bytes \<Rightarrow> bool cmd" where
  "write_incoming W payload = bindc (ask (w_write_bytes W)) (\<lambda>(ok, left).
     if ok then bindc (modify (\<lambda>c. c\<lparr>c_incoming := Some payload\<rparr>)) (\<lambda>_. return True)
     else bindc (modify (\<lambda>c. c\<lparr>c_incoming := left\<rparr>)) (\<lambda>_. return False))"

text \<open>The handler: \<open>incoming.unlink(missing_ok=True)\<close>, whose own failure nothing catches.\<close>

definition replace_failed :: "world \<Rightarrow> unit cmd" where
  "replace_failed W = bindc (file_op W (\<lambda>c. c\<lparr>c_incoming := None\<rparr>)) (\<lambda>ok.
     if ok then fail update_replace_failed else fail (Uncaught ''OSError''))"

definition move_files :: "world \<Rightarrow> bytes \<Rightarrow> bool cmd" where
  "move_files W payload =
     bindc (write_incoming W payload) (\<lambda>written.
     if \<not> written then return False
     else bindc (get (\<lambda>c. c_previous c \<noteq> None)) (\<lambda>stale.
     bindc (if stale then file_op W (\<lambda>c. c\<lparr>c_previous := None\<rparr>) else return True) (\<lambda>cleared.
     if \<not> cleared then return False
     else bindc (get (\<lambda>c. c_target c \<noteq> None)) (\<lambda>present.
     bindc (if present then file_op W (\<lambda>c. c\<lparr>c_previous := c_target c, c_target := None\<rparr>)
            else return True) (\<lambda>moved.
     if \<not> moved then return False
     else file_op W (\<lambda>c. c\<lparr>c_target := c_incoming c, c_incoming := None\<rparr>))))))"

definition replace_executable :: "world \<Rightarrow> bytes \<Rightarrow> unit cmd" where
  "replace_executable W payload =
     bindc (move_files W payload) (\<lambda>ok.
     if \<not> ok then replace_failed W
     else bindc (file_op W (\<lambda>c. c\<lparr>c_previous := None\<rparr>)) (\<lambda>_. return ()))"

definition install_update :: "lib \<Rightarrow> conn_lib \<Rightarrow> world \<Rightarrow> update_offer \<Rightarrow> unit cmd" where
  "install_update L X W offer =
     (if \<not> uo_available offer then return ()
      else bindc (fetch L X W REDIRECT_LIMIT DIGEST_MAX_BYTES (uo_digest_url offer)) (\<lambda>raw.
        bindc (refuse_if (list_ex (\<lambda>b. b \<ge> 128) raw) update_digest_invalid) (\<lambda>_.
        bindc (of_sum (parse_digest L raw)) (\<lambda>digest.
        bindc (fetch L X W REDIRECT_LIMIT PACKAGE_MAX_BYTES (uo_package_url offer)) (\<lambda>payload.
        bindc (refuse_if (sha256_hex L payload \<noteq> digest) update_digest_mismatch) (\<lambda>_.
        replace_executable W payload))))))"

text \<open>\<open>packaged_executable\<close>: whether the process is frozen, and the name of its file.\<close>

definition packaged_executable :: "lib \<Rightarrow> bool \<Rightarrow> ustr \<Rightarrow> unit cmd" where
  "packaged_executable L frozen name =
     bindc (refuse_if (\<not> frozen) update_not_packaged) (\<lambda>_.
     refuse_if (casefold L name \<noteq> PACKAGE_ASSET) update_not_packaged)"

definition apply_cloud_update ::
  "lib \<Rightarrow> conn_lib \<Rightarrow> world \<Rightarrow> ustr \<Rightarrow> bool \<Rightarrow> ustr \<Rightarrow> bool \<Rightarrow> unit cmd" where
  "apply_cloud_update L X W current_version frozen name check =
     bindc (check_for_update L X W current_version GITHUB_LATEST_URL) (\<lambda>offer.
     if \<not> uo_available offer
     then safe_echo W (u ''Up to date ('' @ uo_current_version offer @ u '').'')
     else bindc (safe_echo W (uo_current_version offer @ u '' -> '' @ uo_latest_version offer)) (\<lambda>_.
       bindc (safe_echo W (uo_html_url offer)) (\<lambda>_.
       if check then return ()
       else bindc (packaged_executable L frozen name) (\<lambda>_.
         bindc (install_update L X W offer) (\<lambda>_.
         safe_echo W (u ''Updated to '' @ uo_latest_version offer @ u ''.''))))))"

text \<open>\<open>_root\<close>: the two flags do not combine with each other or with a command.\<close>

definition root_callback ::
  "lib \<Rightarrow> conn_lib \<Rightarrow> world \<Rightarrow> ustr \<Rightarrow> bool \<Rightarrow> ustr \<Rightarrow> bool \<Rightarrow> bool \<Rightarrow> bool \<Rightarrow> unit cmd" where
  "root_callback L X W current_version frozen name subcommand check_update update =
     (if subcommand
      then refuse_if (check_update \<or> update) invalid_input
      else if \<not> check_update \<and> \<not> update then return ()
      else if check_update \<and> update then fail invalid_input
      else apply_cloud_update L X W current_version frozen name check_update)"

end
