(* ===== verification/Connector_Properties.thy ===== *)
theory Connector_Properties
  imports Connector_Commands Connector_Updater Imports_Properties
begin

text \<open>
  The properties of the connector, each with a concrete state, library and world on which its
  hypotheses hold, and the two that compare the connector with the server.
\<close>

section \<open>A workstation\<close>

definition sample_origin :: ustr where "sample_origin = u ''https://s''"

definition local_sample :: local_manifest where
  "local_sample = \<lparr>lm_idempotency_key = u ''key'', lm_project_id = 10, lm_local_task_id = u ''t7'',
     lm_external_reference = None, lm_base_sha256 = None, lm_k3_result = m_k3_result sample_manifest,
     lm_attachments = [\<lparr>la_kind = K3_RAW, la_path = u ''a'', la_content_type = Some (u ''a/b'')\<rparr>]\<rparr>"

definition sample_address :: ip_addr where
  "sample_address = \<lparr>ip_number = 1, ip_version = 4, ip_is_global = True, ip_is_loopback = False,
     ip_is_link_local = False, ip_is_multicast = False, ip_is_unspecified = False,
     ip_is_reserved = False, ip_is_private = False\<rparr>"

definition conn_lib_sample :: conn_lib where
  "conn_lib_sample = \<lparr>read_local_manifest = (\<lambda>_. Some local_sample),
     read_token = (\<lambda>_. Some \<lparr>tk_access_token = u ''acc'', tk_refresh_token = u ''new'',
       tk_expires_at = Some 1, tk_refresh_expires_at = Some 2\<rparr>),
     read_job_response = (\<lambda>_. None),
     read_attachment_response = (\<lambda>_. Some \<lparr>at_id = 51, at_file_id = 52, at_upload_id = 53,
       at_kind = K3_RAW, at_file_state = FILE_QUARANTINED\<rparr>),
     read_submit_response = (\<lambda>_. Some \<lparr>sr_id = 50, sr_status = IMPORT_SCANNING, sr_result_code = None,
       sr_submitted_at = Some 3, sr_updated_at = Some 3\<rparr>),
     read_part_url = (\<lambda>_. Some (u ''https://s3/p'')),
     path_str = concat, path_of = (\<lambda>s. [s]), path_is_absolute = (\<lambda>_. False), guess_type = (\<lambda>_. None),
     time_text = (\<lambda>_. u ''now''), parse_int = (\<lambda>_. None),
     url_split = (\<lambda>s. Some \<lparr>url_scheme = u ''https'', url_hostname = Some (u ''github.com''), url_port = Some None,
       url_username = None, url_password = None, url_path = [], url_query = [], url_fragment = []\<rparr>),
     ip_parse = (\<lambda>_. Some sample_address), ip_compressed = (\<lambda>_. []), idna = Some, py_lower = id,
     read_release = (\<lambda>_. None), url_join = (\<lambda>_ s. Some s),
     decimal_digit = (\<lambda>c. if 48 \<le> c \<and> c \<le> 57 then Some (c - 48) else None)\<rparr>"

definition world_sample :: world where
  "world_sample = \<lparr>w_now = (\<lambda>_. 7), w_stat = (\<lambda>_ _. Some \<lparr>st_size = 3, st_mtime_ns = 0, st_mode = 32768\<rparr>),
     w_read = (\<lambda>_ _. Some [1, 2, 3]), w_resolve = (\<lambda>_ p. Some p), w_is_symlink = (\<lambda>_ _ _. Some False),
     w_resolve_under = (\<lambda>_ b s. Some (b @ [s])),
     w_http = (\<lambda>_ _. Some \<lparr>hr_status = 200, hr_content_encoding = None, hr_content_length = None,
       hr_chunks = []\<rparr>),
     w_put = (\<lambda>_ _ _. Some \<lparr>ur_status = 200, ur_etag = Some (u ''e'')\<rparr>),
     w_getaddrinfo = (\<lambda>_ _ _. Resolver_Failed), w_state_read = (\<lambda>_. True), w_write = (\<lambda>_. True),
     w_unlink = (\<lambda>_. True), w_keyring = (\<lambda>_. True), w_echo = (\<lambda>_. True), w_lock = (\<lambda>_. True),
     w_get = (\<lambda>_ _. Some \<lparr>up_status = 200, up_location = None, up_content_length = None, up_chunks = []\<rparr>),
     w_write_bytes = (\<lambda>_. (True, None)), w_rename = (\<lambda>n. n \<noteq> 2)\<rparr>"

definition sample_entry :: outbox_entry where
  "sample_entry = \<lparr>o_normalized_origin = sample_origin, o_idempotency_key = u ''key'', o_manifest_path = u ''m'',
     o_manifest_fingerprint = toy_digest [], o_job_id = Some 50, o_phase = PHASE_UPLOAD,
     o_attachments = [\<lparr>as_kind = K3_RAW, as_path = u ''a'', as_filename = u ''a'', as_size_bytes = 3,
       as_sha256 = toy_digest [1, 2, 3], as_part_sha256s = [toy_digest [1, 2, 3]], as_content_type = u ''a/b'',
       as_part_size = 8388608, as_attachment_id = Some 51, as_file_id = Some 52, as_upload_id = Some 53,
       as_completed_parts = [], as_completed = False\<rparr>],
     o_evidence = None, o_updated_at = Some 0\<rparr>"

definition conn_sample :: "(ustr \<times> outbox_entry state_file) list \<Rightarrow> conn" where
  "conn_sample ds = \<lparr>c_tick = 0, c_documents = ds, c_marker = None, c_pair_marker = None,
     c_refresh = Some (u ''old''), c_printed = [], c_requests = [], c_puts = [], c_gets = [],
     c_target = Some [0], c_incoming = None, c_previous = None\<rparr>"

definition sample_document :: "ustr \<times> outbox_entry state_file" where
  "sample_document = (path_for sample_lib (u ''key''), State_File 900 (Some sample_entry))"

lemma sample_entry_valid: "outbox_entry_schema sample_lib sample_entry = Some sample_entry"
  by (simp add: outbox_entry_schema_def attachment_state_schema_def sample_entry_def toy_digest_sha256
      consistent_progress_def part_numbers_def total_parts_def consistent_phase_def sample_origin_def
      state_text_def control_def idempotency_key_ok_def printable_def u_def)

lemma sample_outbox_ok: "outbox_ok sample_lib sample_origin (conn_sample [sample_document])"
  by (simp add: outbox_ok_def conn_sample_def sample_document_def sample_entry_valid)
    (simp add: sample_entry_def)

section \<open>The state files\<close>

text \<open>C9. In every session, whatever the file system, the keyring, the network and the server
  answer and wherever it is interrupted, the state of the connector keeps its type: at most
  one document, valid, of this origin and named after its key, valid markers of this origin,
  and no document beside the marker of a first pairing.  So no command ever finds the local
  recovery state it wrote itself invalid, its size apart.\<close>

theorem session_keeps_outbox:
  assumes "outbox_ok L origin c"
  shows "outbox_ok L origin (run_session L X origin ms c)"
  using assms by (induction L X origin ms c rule: run_session.induct) (simp_all add: run_command_ok)

lemma session_keeps_outbox_witness:
  "outbox_ok sample_lib sample_origin (run_session sample_lib conn_lib_sample sample_origin
     [(world_sample, RetryCommand), (world_sample, SubmitCommand [u ''m''])] (conn_sample [sample_document]))"
  by (rule session_keeps_outbox [OF sample_outbox_ok])

section \<open>Uploads\<close>

text \<open>C10. A retry uploads the missing parts of its operation in order, each the declared bytes
  by their digest, and nothing else.  A successful one uploads them all and its document is
  gone; one that stops has uploaded a prefix, and the document it leaves, unless the
  operation was given up, records all of them but possibly the last.\<close>

theorem retry_accounts:
  assumes "outbox_ok L origin c" "c_documents c = [(p, State_File n (Some e))]"
    and "retry_command L X W origin c = (r, c')"
  shows "\<exists>ds x. sent L c' = sent L c @ ds @ x \<and> length x \<le> 1 \<and> prefix (ds @ x) (entry_missing e)
    \<and> (c_documents c' = [] \<or> (\<exists>k v. c_documents c' = [(p, State_File k (Some v))]
         \<and> entry_missing e = ds @ entry_missing v))
    \<and> (r = Inr () \<longrightarrow> c_documents c' = [] \<and> ds @ x = entry_missing e)"
proof (cases r)
  case (Inl err)
  from wp_Inl [OF retry_account [OF assms(1,2)] assms(3) [unfolded Inl]]
  show ?thesis by (auto simp: Inl stopped_def)
next
  case (Inr y)
  from wp_Inr [OF retry_account [OF assms(1,2)] assms(3) [unfolded Inr]]
  have "sent L c' = sent L c @ entry_missing e @ []" "c_documents c' = []" by (simp_all add: retried_def)
  then show ?thesis by (intro exI [of _ "entry_missing e"] exI [of _ "[]"]) simp
qed

lemma retry_accounts_witness:
  "\<exists>ds x. sent sample_lib (snd (retry_command sample_lib conn_lib_sample world_sample sample_origin
        (conn_sample [sample_document]))) = ds @ x \<and> length x \<le> 1 \<and> prefix (ds @ x) [toy_digest [1, 2, 3]]"
proof -
  have d: "c_documents (conn_sample [sample_document])
      = [(path_for sample_lib (u ''key''), State_File 900 (Some sample_entry))]"
    by (simp add: conn_sample_def sample_document_def)
  have "entry_missing sample_entry = [toy_digest [1, 2, 3]]"
    by (simp add: entry_missing_def sample_entry_def missing_digests_def missing_numbers_def part_numbers_def total_parts_def)
  moreover have "sent sample_lib (conn_sample [sample_document]) = []" by (simp add: sent_def conn_sample_def)
  ultimately show ?thesis
    using retry_accounts [OF sample_outbox_ok d, of conn_lib_sample world_sample
      "fst (retry_command sample_lib conn_lib_sample world_sample sample_origin (conn_sample [sample_document]))"
      "snd (retry_command sample_lib conn_lib_sample world_sample sample_origin (conn_sample [sample_document]))"]
    by auto
qed

section \<open>Pairing\<close>

text \<open>C12. A pairing that replaces an unfinished operation is atomic across an interruption: stop
  it anywhere, by any failure of the network, the keyring or the file system, and the next
  command that gets past its recovery finds the operation exactly as it was if the credential
  is still the old one, and finds it gone if a new one was stored; the marker is gone in
  both cases.  A new credential never meets an operation of the old device.\<close>

theorem pairing_atomic:
  assumes "outbox_ok L origin c" "c_marker c = None" "c_documents c = [(p, State_File n (Some e))]"
    and "\<forall>b k. read_token X b = Some k \<longrightarrow>
      refresh_fingerprint L (Some (tk_refresh_token k)) \<noteq> refresh_fingerprint L (current_refresh c)"
    and "pair_command L X W origin code name c = (r, c1)"
    and "start_command L W' origin c1 = (Inr b, c2)"
  shows "c_marker c2 = None \<and> c_documents c2 = (if refresh_fingerprint L (current_refresh c1)
    = refresh_fingerprint L (current_refresh c) then c_documents c else [])"
proof -
  have "c_pair_marker c = None" using assms(1,3) by (auto simp: outbox_ok_def)
  from pair_stages [OF assms(1,2) this assms(3), of X W code name]
  have "pairing_stage L X origin p c c1"
    using assms(5) by (simp add: wp_run)
  from wp_Inr [OF start_settles [OF this assms(3,4)] assms(6)] show ?thesis .
qed

definition broken_disk :: world where
  "broken_disk = world_sample\<lparr>w_unlink := (\<lambda>_. False)\<rparr>"

definition interrupted_pairing :: "unit cresult \<times> conn" where
  "interrupted_pairing = pair_command sample_lib conn_lib_sample broken_disk sample_origin (u ''c'') (u ''n'')
     (conn_sample [sample_document])"

lemmas run_simps = bindc_def return_def fail_def get_def modify_def ask_def of_option_def catch_def

lemma load_sample:
  assumes "c_documents c = [sample_document]" "\<And>n. w_state_read W n"
  shows "load_optional sample_lib W sample_origin c
     = (Inr (Some (path_for sample_lib (u ''key''), sample_entry)), c\<lparr>c_tick := Suc (c_tick c)\<rparr>)"
  using assms
  by (simp add: load_optional_def all_documents_def run_simps sample_document_def read_json_def sample_entry_valid
    LOCAL_STATE_MAX_BYTES_def) (simp add: sample_entry_def run_simps)

lemma broken_disk_simps [simp]:
  "w_lock broken_disk n" "w_state_read broken_disk n" "\<not> w_unlink broken_disk n" "w_keyring broken_disk n"
  "w_write broken_disk n"
  "w_http broken_disk n rq = Some \<lparr>hr_status = 200, hr_content_encoding = None, hr_content_length = None, hr_chunks = []\<rparr>"
  "w_lock world_sample n" "w_state_read world_sample n" "w_unlink world_sample n" "w_keyring world_sample n"
  by (simp_all add: broken_disk_def world_sample_def)

lemma pair_sample:
  "pair_with_server sample_lib conn_lib_sample broken_disk (u ''c'') (u ''n'') c
     = (Inr (), c\<lparr>c_tick := Suc (Suc (c_tick c)), c_refresh := Some (u ''new''),
        c_requests := c_requests c @ [request ''POST'' (u ''/api/v1/device-auth/pair'') None
          (Some (JObj [(u ''pairing_code'', JStr (u ''c'')), (u ''device_name'', JStr (u ''n''))]))]\<rparr>)"
  by (simp add: pair_with_server_def pair_request_def run_simps send_def read_response_def identity_encoding_def
    content_length_ok_def conn_lib_sample_def token_response_ok_def safe_token_def save_refresh_def
    TOKEN_MAX_CHARS_def utf8_encode_def surrogate_def control_def u_def)

lemma ascii_char_length: "c < 128 \<Longrightarrow> 1 \<le> length (ascii_char c) \<and> length (ascii_char c) \<le> 6"
  by (simp add: ascii_char_def u_escape_def)

lemma ascii_chars_length:
  "list_all (\<lambda>c. c < 128) s \<Longrightarrow> length s \<le> length (concat (map ascii_char s))
     \<and> length (concat (map ascii_char s)) \<le> 6 * length s"
proof (induction s)
  case (Cons c s)
  with ascii_char_length [of c] show ?case by simp
qed simp

lemma marker_bytes_bounds:
  assumes "ascii_json (JObj kvs)"
  shows "1 \<le> length (marker_bytes L (JObj kvs))" "length (marker_bytes L (JObj kvs)) \<le> 6 * json_size (JObj kvs)"
proof -
  let ?v = "sort_json (JObj kvs)"
  have t: "list_all (\<lambda>c. c < 128) (json_text L (u '','') (u '':'') ?v)"
    "length (json_text L (u '','') (u '':'') ?v) \<le> json_size ?v"
    using json_text_size [of ?v "u '',''" "u '':''" L] assms sort_json_ascii [of "JObj kvs"] by (simp_all add: u_def)
  from ascii_chars_length [OF t(1)] t(2)
  show "length (marker_bytes L (JObj kvs)) \<le> 6 * json_size (JObj kvs)"
    by (simp only: marker_bytes_def sort_json_size) linarith
  have "1 \<le> length (json_text L (u '','') (u '':'') ?v)" by (simp add: u_def)
  with ascii_chars_length [OF t(1)] show "1 \<le> length (marker_bytes L (JObj kvs))"
    by (simp only: marker_bytes_def) linarith
qed

lemma toy_digest_chars:
  "list_all (\<lambda>c. c < 128) (toy_digest b)" "length (toy_digest b) = 64" "sha256_text (toy_digest b)"
  using toy_digest_sha256 [of b] by (auto simp: sha256_text_def list_all_iff lower_hex_def)

lemma sample_marker_ok:
  "replacement_marker_ok (marker_of sample_lib sample_origin (path_for sample_lib (u ''key'')) (conn_sample ds))"
  using toy_digest_chars
  by (simp add: replacement_marker_ok_def marker_of_def conn_sample_def current_refresh_def sample_origin_def
    credential_state_ok_def outbox_filename_def path_for_def refresh_fingerprint_def u_def)

lemma save_marker_sample:
  assumes "\<And>n. w_write W n"
  shows "\<exists>k. 1 \<le> k \<and> k \<le> LOCAL_STATE_MAX_BYTES
     \<and> save_replacement_marker sample_lib W sample_origin (refresh_fingerprint sample_lib (Some (u ''old'')))
         (path_for sample_lib (u ''key'')) c = (Inr (), c\<lparr>c_tick := Suc (c_tick c), c_marker := Some (State_File k
         (Some (marker_of sample_lib sample_origin (path_for sample_lib (u ''key'')) (conn_sample ds))))\<rparr>)"
proof -
  let ?m = "marker_of sample_lib sample_origin (path_for sample_lib (u ''key'')) (conn_sample ds)"
  note d = toy_digest_chars
  have ok: "replacement_marker_ok ?m" by (rule sample_marker_ok)
  have "ascii_json (replacement_marker_json ?m)" "6 * json_size (replacement_marker_json ?m) \<le> LOCAL_STATE_MAX_BYTES"
    using d by (simp_all add: replacement_marker_json_def marker_of_def conn_sample_def current_refresh_def sample_origin_def
      path_for_def refresh_fingerprint_def jopt_def LOCAL_STATE_MAX_BYTES_def int_text_def dec.simps u_def)
  with marker_bytes_bounds [of _ sample_lib] have "1 \<le> length (marker_bytes sample_lib (replacement_marker_json ?m))"
    "length (marker_bytes sample_lib (replacement_marker_json ?m)) \<le> LOCAL_STATE_MAX_BYTES"
    unfolding replacement_marker_json_def by (blast intro: order_trans)+
  moreover have "\<lparr>rm_normalized_origin = sample_origin, rm_old_credential_state = PRESENT,
      rm_old_refresh_sha256 = refresh_fingerprint sample_lib (Some (u ''old'')), rm_old_outbox_filename = path_for sample_lib (u ''key'')\<rparr> = ?m"
    by (simp add: marker_of_def conn_sample_def current_refresh_def refresh_fingerprint_def u_def)
  ultimately show ?thesis
    using ok assms
    by (intro exI [of _ "length (marker_bytes sample_lib (replacement_marker_json ?m))"])
      (simp add: save_replacement_marker_def atomic_write_def run_simps refresh_fingerprint_def Let_def)
qed

lemma interrupted_pairing_run:
  "\<exists>k. 1 \<le> k \<and> k \<le> LOCAL_STATE_MAX_BYTES \<and> fst interrupted_pairing = Inl outbox_invalid
     \<and> c_documents (snd interrupted_pairing) = [sample_document]
     \<and> c_pair_marker (snd interrupted_pairing) = None
     \<and> c_refresh (snd interrupted_pairing) = Some (u ''new'')
     \<and> c_marker (snd interrupted_pairing) = Some (State_File k (Some (marker_of sample_lib sample_origin
         (path_for sample_lib (u ''key'')) (conn_sample [sample_document]))))"
proof -
  let ?c = "(conn_sample [sample_document])\<lparr>c_tick := Suc (Suc (Suc 0))\<rparr>"
  have n: "safe_argument sample_lib 255 (u ''c'')" "safe_argument sample_lib 255 (u ''n'')"
    by (simp_all add: safe_argument_def utf8_encode_def surrogate_def control_def u_def strip_chars_def)
  have p: "o_phase sample_entry \<noteq> PHASE_EVIDENCE" by (simp add: sample_entry_def)
  obtain k where k: "1 \<le> k" "k \<le> LOCAL_STATE_MAX_BYTES"
    "save_replacement_marker sample_lib broken_disk sample_origin (refresh_fingerprint sample_lib (Some (u ''old'')))
         (path_for sample_lib (u ''key'')) ?c = (Inr (), ?c\<lparr>c_tick := Suc (c_tick ?c), c_marker := Some (State_File k
         (Some (marker_of sample_lib sample_origin (path_for sample_lib (u ''key'')) (conn_sample [sample_document]))))\<rparr>)"
    using save_marker_sample [of broken_disk ?c "[sample_document]"] by auto
  have o: "u ''old'' \<noteq> []" by (simp add: u_def)
  show ?thesis
    using k
    unfolding interrupted_pairing_def pair_command_def store_lock_def pair_locked_def pair_operation_def pair_replacing_def
    by (intro exI [of _ k], simp only: simp_thms)
     (simp add: run_simps n conn_sample_def recover_replacement_def load_replacement_marker_def recover_initial_pair_def
      load_pair_completion_marker_def load_sample p load_refresh_optional_def pair_sample o
      delete_document_def unlink_def)
qed

lemma pairing_atomic_witness:
  "\<exists>c2. start_command sample_lib world_sample sample_origin (snd interrupted_pairing) = (Inr True, c2)
     \<and> c_documents (snd interrupted_pairing) = [sample_document]
     \<and> c_marker c2 = None \<and> c_documents c2 = []"
proof -
  obtain k where k: "1 \<le> k" "k \<le> LOCAL_STATE_MAX_BYTES"
    "c_documents (snd interrupted_pairing) = [sample_document]"
    "c_pair_marker (snd interrupted_pairing) = None" "c_refresh (snd interrupted_pairing) = Some (u ''new'')"
    "c_marker (snd interrupted_pairing) = Some (State_File k (Some (marker_of sample_lib sample_origin
       (path_for sample_lib (u ''key'')) (conn_sample [sample_document]))))"
    using interrupted_pairing_run by blast
  have new: "refresh_fingerprint sample_lib (Some (u ''new'')) \<noteq> refresh_fingerprint sample_lib (Some (u ''old''))"
    "u ''new'' \<noteq> []" "u ''old'' \<noteq> []"
    by (simp_all add: refresh_fingerprint_def toy_digest_inject toy_sum_def u_def utf8_char_def)
  have old: "current_refresh (conn_sample [sample_document]) = Some (u ''old'')"
    "current_refresh (snd interrupted_pairing) = Some (u ''new'')"
    using k(5) new by (simp_all add: current_refresh_def conn_sample_def)
  let ?m = "marker_of sample_lib sample_origin (path_for sample_lib (u ''key'')) (conn_sample [sample_document])"
  have m: "rm_normalized_origin ?m = sample_origin" "rm_old_outbox_filename ?m = path_for sample_lib (u ''key'')"
    "credential_was_replaced sample_lib (rm_old_credential_state ?m) (rm_old_refresh_sha256 ?m) (Some (u ''new''))"
    using old new by (simp_all add: marker_of_def credential_was_replaced_def)
  have present: "has_document (path_for sample_lib (u ''key'')) (snd interrupted_pairing)"
    using k(3) by (simp add: has_document_def sample_document_def)
  have "\<exists>c2. start_command sample_lib world_sample sample_origin (snd interrupted_pairing) = (Inr True, c2)"
    using k new m present sample_marker_ok [of "[sample_document]"]
    by (simp add: start_command_def reject_pending_initial_pair_def load_pair_completion_marker_def run_simps
      recover_replacement_def load_replacement_marker_def read_json_def load_refresh_optional_def
      delete_document_def delete_replacement_marker_def unlink_def Let_def has_document_def)
  then obtain c2 where c2: "start_command sample_lib world_sample sample_origin (snd interrupted_pairing) = (Inr True, c2)" ..
  have "c_documents (conn_sample [sample_document])
      = [(path_for sample_lib (u ''key''), State_File 900 (Some sample_entry))]" "c_marker (conn_sample [sample_document]) = None"
    by (simp_all add: conn_sample_def sample_document_def)
  moreover have "\<forall>b k. read_token conn_lib_sample b = Some k \<longrightarrow> refresh_fingerprint sample_lib (Some (tk_refresh_token k))
      \<noteq> refresh_fingerprint sample_lib (current_refresh (conn_sample [sample_document]))"
    using new old by (auto simp: conn_lib_sample_def)
  moreover have pair: "pair_command sample_lib conn_lib_sample broken_disk sample_origin (u ''c'') (u ''n'')
      (conn_sample [sample_document]) = (fst interrupted_pairing, snd interrupted_pairing)"
    by (simp add: interrupted_pairing_def)
  ultimately show ?thesis
    using pairing_atomic [OF sample_outbox_ok _ _ _ pair c2] c2 k(3) old new
    by auto
qed

section \<open>The manifest on both sides\<close>

text \<open>C13. What the connector derives from a local manifest is a manifest the server accepts as it
  is, with the fingerprint the connector records, wherever its texts are in NFC after they
  were stripped: the two schemas, written twice, agree.\<close>

theorem connector_manifest_accepted:
  assumes "prepare_manifest L X W p c = (Inr r, c')"
    and "\<forall>t \<in> normalized_texts (pr_server r). nfc L t = t"
  shows "import_job_create L (pr_server r) = Inr (pr_server r)
    \<and> manifest_fingerprint L (pr_server r) = Inr (pr_fingerprint r)"
proof -
  from wp_Inr [OF prepare_manifest_ok assms(1)] obtain raw m where
    "local_manifest_schema L raw = Inr m"
    "mset (map pa_kind (pr_attachments r)) = mset (map la_kind (lm_attachments m))"
    "sorted (map (\<lambda>a. attachment_order (pa_kind a)) (pr_attachments r))"
    "derive_server_manifest L m (pr_attachments r) = Inr (pr_server r)"
    "map_sum id (sha256_hex L) (canonical_manifest_bytes L (pr_server r)) = Inr (pr_fingerprint r)"
    by blast
  with derived_manifest_accepted [of L m "pr_attachments r" "pr_server r" raw] assms(2) show ?thesis
    by (simp add: manifest_fingerprint_def)
qed

definition derived_sample :: manifest where
  "derived_sample = sample_manifest\<lparr>m_attachments := [\<lparr>ad_kind = K3_RAW, ad_filename = u ''a'',
     ad_size_bytes = 3, ad_sha256 = toy_digest [1, 2, 3], ad_content_type = u ''a/b''\<rparr>]\<rparr>"

lemma derived_sample_ascii: "ascii_json (manifest_json derived_sample)"
  using hex_digits_ascii [of 4] dec_digits uuid_str_ascii [of 10]
  by (auto simp: derived_sample_def manifest_json_def sample_manifest_def k3_result_json_def attachment_json_def jopt_def
      text_list_json_def u_def toy_digest_def datetime_text_def iso_date_def dec_pad_def Let_def ascii_def
      list_all_iff) fastforce+

lemma derived_sample_size: "json_size (manifest_json derived_sample) \<le> MANIFEST_MAX_UTF8_BYTES"
  by (simp add: derived_sample_def manifest_json_def sample_manifest_def k3_result_json_def attachment_json_def jopt_def
      text_list_json_def u_def toy_digest_def datetime_text_def iso_date_def dec_pad_def Let_def
      uuid_str_def MANIFEST_MAX_UTF8_BYTES_def int_text_def dec.simps)

lemma derived_sample_bytes:
  "\<exists>b. manifest_bytes sample_lib (u '','') (u '':'') derived_sample = Inr b \<and> length b \<le> MANIFEST_MAX_UTF8_BYTES"
  "\<exists>b. manifest_bytes sample_lib (u '', '') (u '': '') derived_sample = Inr b \<and> length b \<le> MANIFEST_MAX_UTF8_BYTES"
  using json_bytes_ascii [OF derived_sample_ascii, of "u '',''" "u '':''" sample_lib]
    json_bytes_ascii [OF derived_sample_ascii, of "u '', ''" "u '': ''" sample_lib] derived_sample_size
  unfolding manifest_bytes_def by (auto simp: u_def intro: order_trans)

lemma derived_sample_texts: "\<forall>t \<in> normalized_texts derived_sample. nfc sample_lib t = t"
  by (simp add: sample_lib_def)

lemma toy_digest_clean: "strip_chars (white_space sample_lib) (toy_digest b) = toy_digest b"
proof (rule strip_chars_clean)
  show "list_all (\<lambda>c. \<not> white_space sample_lib c) (toy_digest b)"
    using toy_digest_sha256 [of b] unfolding sha256_text_def list_all_iff lower_hex_def
    by (fastforce simp: sample_lib_def)
qed

lemma safe_field_sample:
  assumes "list_all (\<lambda>c. 32 < c \<and> c < 127) s" "1 \<le> length s" "length s \<le> n"
  shows "safe_field sample_lib False n s = Inr s" "plain_field sample_lib (safe_text False) n s = Inr s"
    "plain_field sample_lib (\<lambda>_. True) n s = Inr s"
proof -
  have "list_all (\<lambda>c. \<not> white_space sample_lib c) s" "reject_controls False s" "list_all (\<lambda>c. c < 128) s"
    using assms(1) by (auto simp: list_all_iff sample_lib_def reject_controls_def)
  then have "strip_chars (white_space sample_lib) s = s" "safe_text False s"
    using utf8_ascii [of s] by (simp_all add: strip_chars_clean safe_text_def)
  moreover have "normalize_text sample_lib False s = s" by (simp add: normalize_text_def sample_lib_def)
  ultimately show "safe_field sample_lib False n s = Inr s" "plain_field sample_lib (safe_text False) n s = Inr s"
    "plain_field sample_lib (\<lambda>_. True) n s = Inr s"
    using assms(2,3) by (simp_all add: safe_field_def plain_field_def Let_def)
qed

lemma content_type_sample: "match_field sample_lib content_type_ok (u ''a/b'') = Inr (u ''a/b'')"
proof -
  have "strip_chars (white_space sample_lib) (u ''a/b'') = u ''a/b''"
    by (rule strip_chars_clean) (simp add: sample_lib_def u_def)
  moreover have "content_type_ok (u ''a/b'')"
    by (simp add: content_type_ok_def mime_type_def mime_char_def u_def)
  ultimately show ?thesis by (simp add: match_field_def)
qed

lemma digest_sample: "match_field sample_lib sha256_text (toy_digest b) = Inr (toy_digest b)"
  by (simp add: match_field_def toy_digest_clean toy_digest_sha256)

lemma name_sample:
  "safe_field sample_lib False 4096 (u ''a'') = Inr (u ''a'')"
  "plain_field sample_lib (safe_text False) 1024 (u ''a'') = Inr (u ''a'')"
  "plain_field sample_lib (\<lambda>_. True) 255 (u ''t7'') = Inr (u ''t7'')"
  by (rule safe_field_sample; simp add: u_def)+

lemma local_sample_valid: "local_manifest_schema sample_lib local_sample = Inr local_sample"
proof -
  have "local_k3_result sample_lib (m_k3_result sample_manifest) = Inr (m_k3_result sample_manifest)"
    by (simp add: local_k3_result_def sample_manifest_def safe_field_sample optional_field_def u_def)
  moreover have "local_attachment_schema sample_lib \<lparr>la_kind = K3_RAW, la_path = u ''a'', la_content_type = Some (u ''a/b'')\<rparr>
      = Inr \<lparr>la_kind = K3_RAW, la_path = u ''a'', la_content_type = Some (u ''a/b'')\<rparr>"
    using name_sample(1) by (simp add: local_attachment_schema_def optional_field_def content_type_sample)
  moreover have "safe_field sample_lib False 255 (u ''t7'') = Inr (u ''t7'')" "idempotency_key_ok (u ''key'')"
    by (simp_all add: safe_field_sample idempotency_key_ok_def printable_def u_def)
  ultimately show ?thesis
    by (simp add: local_manifest_schema_def local_sample_def optional_field_def attachment_kinds_ok_def)
qed

lemma hash_sample:
  "hash_regular_file sample_lib world_sample p c
     = (Inr (3, toy_digest [1, 2, 3], [toy_digest [1, 2, 3]]), c\<lparr>c_tick := Suc (Suc (Suc (c_tick c)))\<rparr>)"
  by (simp add: hash_regular_file_def run_simps world_sample_def regular_file_def
    ATTACHMENT_MAX_BYTES_def PART_SIZE_def blocks.simps)

lemma derived_sample_server:
  "derive_server_manifest sample_lib local_sample [\<lparr>pa_kind = K3_RAW, pa_path = p, pa_filename = u ''a'', pa_size_bytes = 3,
     pa_sha256 = toy_digest [1, 2, 3], pa_part_sha256s = ds, pa_content_type = u ''a/b''\<rparr>] = Inr derived_sample"
proof -
  let ?ps = "[\<lparr>pa_kind = K3_RAW, pa_path = p, pa_filename = u ''a'', pa_size_bytes = 3,
     pa_sha256 = toy_digest [1, 2, 3], pa_part_sha256s = ds, pa_content_type = u ''a/b''\<rparr>]"
  let ?m = "\<lparr>m_project_id = lm_project_id local_sample, m_local_task_id = lm_local_task_id local_sample,
     m_external_reference = lm_external_reference local_sample, m_base_sha256 = lm_base_sha256 local_sample,
     m_k3_result = lm_k3_result local_sample, m_attachments = m_attachments derived_sample\<rparr>"
  have a: "list_field (server_attachment sample_lib) (map declared ?ps) = Inr (m_attachments derived_sample)"
    by (simp add: derived_sample_def declared_def server_attachment_def name_sample digest_sample
      content_type_sample ATTACHMENT_MAX_BYTES_def)
  have m: "?m = derived_sample" by (simp add: derived_sample_def local_sample_def sample_manifest_def)
  have "server_manifest sample_lib derived_sample = Inr derived_sample"
    using derived_sample_bytes
    by (auto simp: server_manifest_def optional_field_def name_sample derived_sample_def sample_manifest_def Let_def
      size_budget_def)
  then show ?thesis unfolding derive_server_manifest_def a sum.case m .
qed

lemma prepared_sample:
  "\<exists>r c'. prepare_manifest sample_lib conn_lib_sample world_sample [u ''m''] c = (Inr r, c') \<and> pr_server r = derived_sample
     \<and> concat (map pa_part_sha256s (pr_attachments r)) = [toy_digest [1, 2, 3]]"
proof -
  have ne: "u ''a'' \<noteq> []" by (simp add: u_def)
  have a: "server_attachment sample_lib \<lparr>ad_kind = K3_RAW, ad_filename = u ''a'', ad_size_bytes = 3,
      ad_sha256 = toy_digest [1, 2, 3], ad_content_type = u ''a/b''\<rparr> = Inr \<lparr>ad_kind = K3_RAW, ad_filename = u ''a'',
      ad_size_bytes = 3, ad_sha256 = toy_digest [1, 2, 3], ad_content_type = u ''a/b''\<rparr>"
    by (simp add: server_attachment_def name_sample digest_sample content_type_sample ATTACHMENT_MAX_BYTES_def)
  have w: "w_is_symlink world_sample n b t = Some False" "w_resolve_under world_sample n b t = Some (b @ [t])"
    "w_resolve world_sample n q = Some q" "w_read world_sample n q = Some [1, 2, 3]"
    "w_stat world_sample n q = Some \<lparr>st_size = 3, st_mtime_ns = 0, st_mode = 32768\<rparr>" for n b t q
    by (simp_all add: world_sample_def)
  have nfc: "nfc sample_lib t = t" for t by (simp add: sample_lib_def)
  let ?a = "\<lparr>pa_kind = K3_RAW, pa_path = [u ''a''], pa_filename = u ''a'', pa_size_bytes = 3,
      pa_sha256 = toy_digest [1, 2, 3], pa_part_sha256s = [toy_digest [1, 2, 3]], pa_content_type = u ''a/b''\<rparr>"
  let ?d = "\<lparr>la_kind = K3_RAW, la_path = u ''a'', la_content_type = Some (u ''a/b'')\<rparr>"
  have ps: "\<exists>k. prepare_attachments sample_lib conn_lib_sample world_sample [] [] (lm_attachments local_sample) c
      = (Inr [?a], c\<lparr>c_tick := k\<rparr>)" for c
  proof -
    have "\<exists>k. prepare_attachment sample_lib conn_lib_sample world_sample [] [] ?d c = (Inr ?a, c\<lparr>c_tick := k\<rparr>)"
      using a nfc by (simp add: prepare_attachment_def hash_sample run_simps of_result_def conn_lib_sample_def w
        relative_to_def path_name_def del: One_nat_def) blast
    then obtain k where k: "prepare_attachment sample_lib conn_lib_sample world_sample [] [] ?d c = (Inr ?a, c\<lparr>c_tick := k\<rparr>)" ..
    have l: "lm_attachments local_sample = [?d]" by (simp add: local_sample_def)
    show ?thesis unfolding l prepare_attachments.simps bindc_def [of "prepare_attachment X L W b s d" for X L W b s d] k
      by (auto simp: run_simps)
  qed
  obtain b where "canonical_manifest_bytes sample_lib derived_sample = Inr b"
    using derived_sample_bytes by (auto simp: canonical_manifest_bytes_def)
  moreover have "read_local_manifest conn_lib_sample s = Some local_sample" for s
    by (simp add: conn_lib_sample_def)
  moreover obtain k where "prepare_attachments sample_lib conn_lib_sample world_sample [] [] (lm_attachments local_sample)
      (c\<lparr>c_tick := Suc (Suc (Suc (c_tick c)))\<rparr>) = (Inr [?a], c\<lparr>c_tick := k\<rparr>)"
    using ps [of "c\<lparr>c_tick := Suc (Suc (Suc (c_tick c)))\<rparr>"] by auto
  ultimately show ?thesis
    by (simp add: prepare_manifest_def run_simps of_result_def w regular_file_def MANIFEST_INPUT_MAX_BYTES_def
      local_sample_valid derived_sample_server Let_def del: One_nat_def)
qed

lemma connector_manifest_accepted_witness:
  "\<exists>r c'. prepare_manifest sample_lib conn_lib_sample world_sample [u ''m''] (conn_sample []) = (Inr r, c')
     \<and> import_job_create sample_lib (pr_server r) = Inr (pr_server r)"
proof -
  obtain r c' where r: "prepare_manifest sample_lib conn_lib_sample world_sample [u ''m''] (conn_sample []) = (Inr r, c')"
    "pr_server r = derived_sample"
    using prepared_sample [of "conn_sample []"] by blast
  with connector_manifest_accepted [OF r(1)] derived_sample_texts show ?thesis by auto
qed

text \<open>C11. A submission keeps the state files well formed however it ends.  One that returns has
  uploaded, in order and nothing else, every part of every attachment of the manifest it
  prepared, each the declared bytes by their digest, and left no operation behind.\<close>

theorem submit_uploads_declared:
  assumes "outbox_ok L origin c" and "submit_command L X W origin path c = (r, c')"
  shows "outbox_ok L origin c' \<and> (r = Inr () \<longrightarrow> c_documents c' = []
    \<and> (\<exists>m c1. prepare_manifest L X W path c = (Inr m, c1)
         \<and> sent L c' = sent L c @ concat (map pa_part_sha256s (pr_attachments m))))"
proof (cases r)
  case (Inl e)
  with wp_Inl [OF submit_account [OF assms(1)] assms(2) [unfolded Inl]] show ?thesis by simp
next
  case (Inr x)
  with wp_Inr [OF submit_account [OF assms(1)] assms(2) [unfolded Inr]] show ?thesis by simp
qed

lemma submit_uploads_declared_witness:
  "outbox_ok sample_lib sample_origin (snd (submit_command sample_lib conn_lib_sample world_sample sample_origin
     [u ''m''] (conn_sample [])))"
proof -
  have "outbox_ok sample_lib sample_origin (conn_sample [])" by (simp add: outbox_ok_def conn_sample_def)
  from submit_uploads_declared [OF this, of conn_lib_sample world_sample "[u ''m'']"] show ?thesis
    by (metis prod.collapse)
qed

section \<open>The order of the attachments\<close>

lemma shown_kinds:
  assumes "view_job L rd db i = Inr v"
  shows "map av_kind (v_attachments v) = map a_kind (attachments_of L db i)"
proof -
  have l: "list_field f xs = Inr ys \<Longrightarrow> (\<And>a b. f a = Inr b \<Longrightarrow> h b = g a) \<Longrightarrow> map h ys = map g xs"
    for f :: "import_attachment \<Rightarrow> import_attachment_view result" and xs ys h g
    by (induction xs arbitrary: ys) (auto split: sum.splits)
  from assms obtain j vs where j: "get_job db i = Some j" "attachment_views L db (j_id j) = Inr vs" "v_attachments v = vs"
    by (auto simp: view_job_def job_view_def job_views_def render_job_def split: option.splits sum.splits list.splits)
  have "j_id j = i" using j(1) by (auto simp: get_job_def find_Some_iff)
  with j have v: "attachment_views L db i = Inr (v_attachments v)" by simp
  show ?thesis
    by (rule l [OF v [unfolded attachment_views_def]]) (auto simp: attachment_view_def split: option.splits)
qed

lemma shown_first:
  assumes "K3_RAW \<in> set (map a_kind (attachments_of L db i))"
    and "\<forall>k. k \<noteq> K3_RAW \<longrightarrow> collate_key L (u ''K3_RAW'') < collate_key L (u (attachment_kind_text k))"
  shows "hd (map a_kind (attachments_of L db i)) = K3_RAW"
proof (rule ccontr)
  let ?as = "attachments_of L db i" and ?c = "\<lambda>a. collate_key L (u (attachment_kind_text (a_kind a)))"
  assume n: "hd (map a_kind ?as) \<noteq> K3_RAW"
  from assms(1) obtain a as where as: "?as = a # as" by (cases ?as) auto
  with n assms(1) obtain b where b: "b \<in> set as" "a_kind b = K3_RAW" by auto
  have "sorted (map (\<lambda>a. (?c a, a_id a)) ?as)" by (simp add: attachments_of_def)
  with as b(1) have "(?c a, a_id a) \<le> (?c b, a_id b)" by simp
  then have "?c a \<le> ?c b" by (auto simp: less_eq_prod_def)
  moreover have "?c b < ?c a" using assms(2) n as b(2) by simp
  ultimately show False by simp
qed

text \<open>C25. A job with more than one attachment can never get past its creation: the server lists
  the attachments by the text of their kind, which puts K3_RAW first in any collation that
  follows the alphabet, the connector requires the order of its manifest, which puts K3_RAW
  last, and so refuses the server's answer, every time it is retried.\<close>

theorem created_order_rejected:
  assumes "view_job L rd db i = Inr v" "map at_kind (jr_attachments j) = map av_kind (v_attachments v)"
    and "\<forall>k. k \<noteq> K3_RAW \<longrightarrow> collate_key L (u ''K3_RAW'') < collate_key L (u (attachment_kind_text k))"
    and "sorted (map (\<lambda>a. attachment_order (ad_kind a)) (m_attachments m))"
    and "K3_RAW \<in> ad_kind ` set (m_attachments m)" "length (m_attachments m) > 1"
  shows "\<not> created_job_ok m j"
proof
  let ?ks = "map ad_kind (m_attachments m)"
  assume "created_job_ok m j"
  then have e: "map at_kind (jr_attachments j) = ?ks" "distinct ?ks" by (auto simp: created_job_ok_def Let_def)
  with assms(1,2) have k: "map a_kind (attachments_of L db i) = ?ks" by (simp add: shown_kinds)
  obtain x y rest where ks: "?ks = x # y # rest" using assms(6) by (cases "m_attachments m"; cases "tl (m_attachments m)") auto
  have "K3_RAW \<in> set ?ks" using assms(5) by simp
  with shown_first [of L db i] k assms(3) ks have "x = K3_RAW" by simp
  moreover have "sorted (map attachment_order ?ks)" using assms(4) by (simp add: comp_def)
  ultimately have "y = K3_RAW" using ks by (cases y) simp_all
  with \<open>x = K3_RAW\<close> e(2) ks show False by simp
qed

definition two_file_db :: db where
  "two_file_db = (job_db FILE_UPLOADING IMPORT_UPLOADING None (toy_digest []))\<lparr>
     files := [k3_file FILE_UPLOADING, (k3_file FILE_UPLOADING)\<lparr>f_id := 31\<rparr>],
     attachments := [\<lparr>a_id = 50, a_job_id = 40, a_project_id = 10, a_file_id = 30, a_upload_id = 30, a_kind = ORIGINAL\<rparr>,
       \<lparr>a_id = 51, a_job_id = 40, a_project_id = 10, a_file_id = 31, a_upload_id = 31, a_kind = K3_RAW\<rparr>]\<rparr>"

definition two_file_manifest :: manifest where
  "two_file_manifest = sample_manifest\<lparr>m_attachments := [(hd (m_attachments sample_manifest))\<lparr>ad_kind := ORIGINAL\<rparr>,
     hd (m_attachments sample_manifest)]\<rparr>"

lemma created_order_rejected_witness:
  "\<exists>v. view_job sample_lib (\<lambda>_. Some sample_manifest) two_file_db 40 = Inr v
     \<and> (\<forall>j. map at_kind (jr_attachments j) = map av_kind (v_attachments v) \<longrightarrow> \<not> created_job_ok two_file_manifest j)"
proof -
  have "set (attachments_of sample_lib two_file_db 40) \<subseteq> set (attachments two_file_db)"
    by (auto simp: attachments_of_def)
  then have "\<exists>vs. list_field (\<lambda>a. case get_file two_file_db (a_file_id a) of
      None \<Rightarrow> Inl (PyError ''RuntimeError'') | Some f \<Rightarrow> Inr (attachment_view a (f_state f)))
      (attachments_of sample_lib two_file_db 40) = Inr vs"
    by (intro exI [of _ "map (\<lambda>a. attachment_view a FILE_UPLOADING) (attachments_of sample_lib two_file_db 40)"] list_field_all)
      (auto simp: two_file_db_def job_db_def get_file_def k3_file_def sample_file_def)
  then obtain vs where vs: "attachment_views sample_lib two_file_db 40 = Inr vs" by (auto simp: attachment_views_def)
  have "get_job two_file_db 40 = Some (sample_job IMPORT_UPLOADING None (toy_digest []))"
    by (simp add: two_file_db_def job_db_def get_job_def)
  then obtain v where v: "view_job sample_lib (\<lambda>_. Some sample_manifest) two_file_db 40 = Inr v"
    using vs sample_manifest_valid by (simp add: view_job_def job_view_def job_views_def stored_manifest_def)
  have c: "\<forall>k. k \<noteq> K3_RAW \<longrightarrow> collate_key sample_lib (u ''K3_RAW'') < collate_key sample_lib (u (attachment_kind_text k))"
  proof (intro allI impI)
    fix k assume "k \<noteq> K3_RAW"
    then show "collate_key sample_lib (u ''K3_RAW'') < collate_key sample_lib (u (attachment_kind_text k))"
      by (cases k) (simp_all add: sample_lib_def u_def)
  qed
  have m: "sorted (map (\<lambda>a. attachment_order (ad_kind a)) (m_attachments two_file_manifest))"
    "K3_RAW \<in> ad_kind ` set (m_attachments two_file_manifest)" "length (m_attachments two_file_manifest) > 1"
    by (simp_all add: two_file_manifest_def sample_manifest_def)
  from v created_order_rejected [OF v _ c m] show ?thesis by blast
qed

end
