(* ===== verification/Updater_Proofs.thy ===== *)
theory Updater_Proofs
  imports Connector_Updater
begin

text \<open>
  Facts about the updater: how many requests a command makes and to whom, how many bytes it
  keeps, and what a replacement leaves on the disk.
\<close>

section \<open>Requests\<close>

text \<open>At most \<open>k\<close> requests, each to an allowed address.\<close>

definition gets :: "lib \<Rightarrow> conn_lib \<Rightarrow> nat \<Rightarrow> conn \<Rightarrow> conn \<Rightarrow> bool" where
  "gets L X k c c' \<longleftrightarrow> (\<exists>us. c_gets c' = c_gets c @ us \<and> length us \<le> k \<and> list_all (https_allowed L X) us)"

lemma gets_same: "c_gets c' = c_gets c \<Longrightarrow> gets L X k c c'"
  by (simp add: gets_def)

lemma gets_mono: "gets L X j c c' \<Longrightarrow> j \<le> k \<Longrightarrow> gets L X k c c'"
  by (auto simp: gets_def)

lemma gets_trans: "gets L X j c c1 \<Longrightarrow> gets L X k c1 c2 \<Longrightarrow> gets L X (j + k) c c2"
  unfolding gets_def by (elim exE) (force intro: exI [of _ "us @ vs" for us vs])

definition bounded :: "lib \<Rightarrow> conn_lib \<Rightarrow> nat \<Rightarrow> 'a cmd \<Rightarrow> bool" where
  "bounded L X k m \<longleftrightarrow> (\<forall>c. wp m (\<lambda>_ c'. gets L X k c c') (\<lambda>_ c'. gets L X k c c') c)"

lemma bounded_run: "bounded L X k m = (\<forall>c. gets L X k c (snd (m c)))"
  by (simp add: bounded_def wp_run)

lemma bounded_bind:
  assumes "bounded L X j m" "\<And>x. bounded L X k (f x)"
  shows "bounded L X (j + k) (bindc m f)"
  unfolding bounded_def wp_bindc
proof
  fix c
  have m: "wp m (\<lambda>_ c'. gets L X j c c') (\<lambda>_ c'. gets L X j c c') c" using assms(1) by (simp add: bounded_def)
  show "wp m (\<lambda>x. wp (f x) (\<lambda>_ c'. gets L X (j + k) c c') (\<lambda>_ c'. gets L X (j + k) c c')) (\<lambda>_ c'. gets L X (j + k) c c') c"
  proof (rule wp_mono [OF m])
    fix x c1 assume g: "gets L X j c c1"
    have "wp (f x) (\<lambda>_ c'. gets L X k c1 c') (\<lambda>_ c'. gets L X k c1 c') c1" using assms(2) by (simp add: bounded_def)
    then show "wp (f x) (\<lambda>_ c'. gets L X (j + k) c c') (\<lambda>_ c'. gets L X (j + k) c c') c1"
      by (rule wp_mono) (use gets_trans [OF g] in blast)+
  qed (auto intro: gets_mono)
qed

lemma bounded_weaken: "bounded L X j m \<Longrightarrow> j \<le> k \<Longrightarrow> bounded L X k m"
  by (auto simp: bounded_run intro: gets_mono)

lemma bounded_fetch: "bounded L X k (fetch L X W k maximum url)"
proof (induction k arbitrary: url)
  case 0
  then show ?case by (simp add: bounded_def wp_simps gets_same)
next
  case (Suc k)
  show ?case
    unfolding bounded_def
  proof
    fix c :: conn
    let ?c = "c\<lparr>c_gets := c_gets c @ [url], c_tick := Suc (c_tick c)\<rparr>"
    have one: "gets L X (Suc 0) c ?c" if "https_allowed L X url" using that by (simp add: gets_def)
    then have here: "gets L X (Suc k) c ?c" if "https_allowed L X url" using that gets_mono by fastforce
    have rec: "wp (fetch L X W k maximum t) (\<lambda>_ c'. gets L X (Suc k) c c') (\<lambda>_ c'. gets L X (Suc k) c c') ?c"
      if "https_allowed L X url" for t
    proof -
      have "wp (fetch L X W k maximum t) (\<lambda>_ c'. gets L X k ?c c') (\<lambda>_ c'. gets L X k ?c c') ?c"
        using Suc.IH by (simp add: bounded_def)
      then show ?thesis by (rule wp_mono) (use gets_trans [OF one [OF that]] in force)+
    qed
    show "wp (fetch L X W (Suc k) maximum url) (\<lambda>_ c'. gets L X (Suc k) c c') (\<lambda>_ c'. gets L X (Suc k) c c') c"
      using here rec by (auto simp: wp_simps gets_same split: option.split sum.split)
  qed
qed

lemma bounded_quiet [intro]:
  "bounded L X k (fail e)" "bounded L X k (return x)" "bounded L X k (safe_echo W t)" "bounded L X k (of_sum s)"
  "bounded L X k (replace_executable W payload)" "bounded L X k (packaged_executable L b t)"
  by (auto simp: bounded_def wp_simps gets_same safe_echo_def replace_executable_def move_files_def write_incoming_def
      file_op_def replace_failed_def packaged_executable_def split: sum.split prod.split)

lemma bounded_if: "bounded L X k m \<Longrightarrow> bounded L X k n \<Longrightarrow> bounded L X k (if b then m else n)"
  by simp

lemma bounded_check: "bounded L X REDIRECT_LIMIT (check_for_update L X W v url)"
  unfolding check_for_update_def
  using bounded_bind [OF bounded_fetch bounded_quiet(4), of L X REDIRECT_LIMIT 0] by simp

lemma bounded_install: "bounded L X (REDIRECT_LIMIT + REDIRECT_LIMIT) (install_update L X W offer)"
proof -
  have tail: "bounded L X REDIRECT_LIMIT (bindc (fetch L X W REDIRECT_LIMIT PACKAGE_MAX_BYTES url) (\<lambda>payload.
      bindc (refuse_if (sha256_hex L payload \<noteq> digest) update_digest_mismatch) (\<lambda>_. replace_executable W payload)))" for url digest
  proof -
    have "bounded L X (REDIRECT_LIMIT + (0 + 0)) (bindc (fetch L X W REDIRECT_LIMIT PACKAGE_MAX_BYTES url) (\<lambda>payload.
        bindc (refuse_if (sha256_hex L payload \<noteq> digest) update_digest_mismatch) (\<lambda>_. replace_executable W payload)))"
      by (intro bounded_bind bounded_fetch bounded_quiet bounded_if)
    then show ?thesis by simp
  qed
  have "bounded L X (0 + (0 + REDIRECT_LIMIT)) (bindc (refuse_if b update_digest_invalid) (\<lambda>_. bindc (of_sum s) (\<lambda>digest.
      bindc (fetch L X W REDIRECT_LIMIT PACKAGE_MAX_BYTES url) (\<lambda>payload.
      bindc (refuse_if (sha256_hex L payload \<noteq> digest) update_digest_mismatch) (\<lambda>_. replace_executable W payload)))))" for b s url
    by (intro bounded_bind tail bounded_quiet bounded_if)
  then show ?thesis
    unfolding install_update_def
    by (intro bounded_if bounded_bind bounded_fetch bounded_quiet) simp
qed

lemma bounded_update: "bounded L X 15 (apply_cloud_update L X W v frozen name check)"
proof -
  have "bounded L X (0 + (0 + (0 + (10 + 0)))) (bindc (safe_echo W t) (\<lambda>_. bindc (safe_echo W h) (\<lambda>_.
      if check then return () else bindc (packaged_executable L frozen name) (\<lambda>_. bindc (install_update L X W offer) (\<lambda>_. safe_echo W d)))))"
    for t h d offer
    using bounded_install [of L X W offer]
    by (intro bounded_bind bounded_if bounded_quiet) (simp_all add: REDIRECT_LIMIT_def)
  then have "bounded L X (REDIRECT_LIMIT + 10) (apply_cloud_update L X W v frozen name check)"
    unfolding apply_cloud_update_def
    by (intro bounded_bind bounded_check bounded_if bounded_quiet) simp
  then show ?thesis by (simp add: REDIRECT_LIMIT_def)
qed

section \<open>Bytes\<close>

lemma read_chunks_bounded: "read_chunks m payload cs = Inr b \<Longrightarrow> length payload \<le> m \<Longrightarrow> length b \<le> m"
  by (induction m payload cs rule: read_chunks.induct) (auto simp: Let_def split: if_splits)

lemma read_limited_bounded: "read_limited X m r = Inr b \<Longrightarrow> length b \<le> m"
  using read_chunks_bounded by (force simp: read_limited_def split: option.splits if_splits)

lemma fetch_bytes: "wp (fetch L X W k maximum url) (\<lambda>b _. length b \<le> maximum) (\<lambda>_ _. True) c"
  by (induction k arbitrary: url c)
    (auto simp: wp_simps split: option.split sum.split dest: read_limited_bounded)

section \<open>The executable\<close>

definition files_same :: "conn \<Rightarrow> conn \<Rightarrow> bool" where
  "files_same c c' \<longleftrightarrow> c_target c' = c_target c \<and> c_incoming c' = c_incoming c \<and> c_previous c' = c_previous c"

text \<open>What a failed update leaves: the old executable, or, where the last step of the
  replacement failed, none but the old one beside it.\<close>

definition kept :: "conn \<Rightarrow> conn \<Rightarrow> bool" where
  "kept c c' \<longleftrightarrow> c_target c' = c_target c \<or> c_target c' = None \<and> c_previous c' = c_target c"

lemma replace_outcomes:
  "wp (replace_executable W payload)
     (\<lambda>_ c'. c_target c' = Some payload \<and> c_incoming c' = None) (\<lambda>_ c'. kept c c') c"
  by (auto simp: replace_executable_def move_files_def write_incoming_def file_op_def replace_failed_def kept_def
      wp_simps split: prod.split)

lemma fetch_keeps:
  "files_same c0 c \<Longrightarrow> wp (fetch L X W k maximum url) (\<lambda>_ c'. files_same c0 c') (\<lambda>_ c'. files_same c0 c') c"
proof (induction k arbitrary: url c)
  case (Suc k)
  then have "files_same c0 (c\<lparr>c_gets := c_gets c @ [url], c_tick := Suc (c_tick c)\<rparr>)"
    by (simp add: files_same_def)
  with Suc show ?case by (auto simp: wp_simps split: option.split sum.split)
qed (simp add: wp_simps)

lemma fetch_files: "wp (fetch L X W k maximum url) (\<lambda>_ c'. files_same c c') (\<lambda>_ c'. files_same c c') c"
  by (rule fetch_keeps) (simp add: files_same_def)

text \<open>The payload an offer stands for: what its package address answers, with the digest its digest
  address answers.\<close>

definition published :: "lib \<Rightarrow> conn_lib \<Rightarrow> world \<Rightarrow> update_offer \<Rightarrow> conn \<Rightarrow> bytes \<Rightarrow> bool" where
  "published L X W offer c payload \<longleftrightarrow> (\<exists>raw c1 c2.
     fetch L X W REDIRECT_LIMIT DIGEST_MAX_BYTES (uo_digest_url offer) c = (Inr raw, c1)
     \<and> parse_digest L raw = Inr (sha256_hex L payload)
     \<and> fetch L X W REDIRECT_LIMIT PACKAGE_MAX_BYTES (uo_package_url offer) c1 = (Inr payload, c2))"

lemma install_outcomes:
  "wp (install_update L X W offer)
     (\<lambda>_ c'. if uo_available offer then \<exists>payload. published L X W offer c payload \<and> c_target c' = Some payload
       else c' = c)
     (\<lambda>_ c'. kept c c') c"
proof (cases "uo_available offer")
  case True
  have kept: "kept c c'" if "files_same c c'" for c' using that by (simp add: kept_def files_same_def)
  have "wp (fetch L X W REDIRECT_LIMIT DIGEST_MAX_BYTES (uo_digest_url offer)) (\<lambda>raw.
      wp (bindc (refuse_if (list_ex (\<lambda>b. b \<ge> 128) raw) update_digest_invalid) (\<lambda>_.
        bindc (of_sum (parse_digest L raw)) (\<lambda>digest.
        bindc (fetch L X W REDIRECT_LIMIT PACKAGE_MAX_BYTES (uo_package_url offer)) (\<lambda>payload.
        bindc (refuse_if (sha256_hex L payload \<noteq> digest) update_digest_mismatch) (\<lambda>_.
        replace_executable W payload)))))
     (\<lambda>_ c'. \<exists>payload. published L X W offer c payload \<and> c_target c' = Some payload) (\<lambda>_ c'. kept c c'))
     (\<lambda>_ c'. kept c c') c"
  proof (rule wp_mono [OF wp_conj [OF wp_self fetch_files]], goal_cases)
    case (1 raw c1)
    have "wp (fetch L X W REDIRECT_LIMIT PACKAGE_MAX_BYTES (uo_package_url offer)) (\<lambda>payload.
        wp (bindc (refuse_if (sha256_hex L payload \<noteq> digest) update_digest_mismatch) (\<lambda>_. replace_executable W payload))
        (\<lambda>_ c'. \<exists>payload. published L X W offer c payload \<and> c_target c' = Some payload) (\<lambda>_ c'. kept c c'))
        (\<lambda>_ c'. kept c c') c1" if d: "parse_digest L raw = Inr digest" for digest
    proof (rule wp_mono [OF wp_conj [OF wp_self fetch_keeps [of c]]], goal_cases)
      case (2 payload c2)
      show ?case
      proof (cases "sha256_hex L payload = digest")
        case True
        with 1 2 d have "published L X W offer c payload" unfolding published_def by blast
        then have "wp (replace_executable W payload)
          (\<lambda>_ c'. \<exists>payload. published L X W offer c payload \<and> c_target c' = Some payload) (\<lambda>_ c'. kept c2 c') c2"
          by (intro wp_mono [OF replace_outcomes]) auto
        moreover have "kept c2 = kept c" using 2 by (simp add: files_same_def kept_def fun_eq_iff)
        ultimately show ?thesis using True by (simp add: wp_simps)
      qed (use 2 kept in \<open>auto simp: wp_simps\<close>)
    qed (use 1 kept in auto)
    with 1 kept show ?case by (auto simp: wp_simps split: sum.split)
  qed (use kept in auto)
  then show ?thesis unfolding install_update_def using True by (simp add: wp_bindc)
qed (simp add: install_update_def wp_simps)

end
