(* ===== verification/Updater_Properties.thy ===== *)
theory Updater_Properties
  imports Connector_Properties Updater_Proofs
begin

text \<open>
  The properties of the updater, and of the parts a file is uploaded in.
\<close>

section \<open>Updates\<close>

text \<open>C26. An update ends: whatever the servers answer, redirects included, the command makes at
  most fifteen requests, five for each of the release, the digest and the package, and each
  of them to an allowed host over HTTPS.\<close>

theorem update_requests_bounded:
  "\<exists>us. c_gets (snd (apply_cloud_update L X W v frozen name check c)) = c_gets c @ us
     \<and> length us \<le> 15 \<and> list_all (https_allowed L X) us"
  using bounded_update [of L X W v frozen name check] by (simp add: bounded_run gets_def)

text \<open>C27. An update installs what was published or nothing: one that returns has put in place
  the bytes of the package address whose digest the digest address gave, or had no newer
  release and changed nothing; one that fails has left the old executable, in its place or,
  with no executable there, beside it.\<close>

theorem install_only_published:
  "case install_update L X W offer c of
     (Inr _, c') \<Rightarrow> if uo_available offer
       then \<exists>payload. published L X W offer c payload \<and> c_target c' = Some payload else c' = c
   | (Inl _, c') \<Rightarrow> c_target c' = c_target c \<or> c_target c' = None \<and> c_previous c' = c_target c"
  using install_outcomes [of L X W offer c] by (simp add: wp_def kept_def)

text \<open>C28. A replacement whose last step fails, after the old executable was moved aside, reports
  its error and leaves no executable: the old one is not moved back.\<close>

theorem failed_update_loses_executable:
  assumes "c_target c = Some old" "c_previous c = None" "w_write_bytes W (c_tick c) = (True, left)"
    and "w_rename W (c_tick c + 1)" "\<not> w_rename W (c_tick c + 2)" "w_rename W (c_tick c + 3)"
  shows "\<exists>c'. replace_executable W payload c = (Inl update_replace_failed, c')
    \<and> c_target c' = None \<and> c_incoming c' = None \<and> c_previous c' = Some old"
  using assms by (simp add: replace_executable_def move_files_def write_incoming_def file_op_def replace_failed_def
    run_simps numeral_2_eq_2 numeral_3_eq_3)

lemma failed_update_loses_executable_witness:
  "\<exists>c'. replace_executable world_sample [1, 1] (conn_sample []) = (Inl update_replace_failed, c')
    \<and> c_target c' = None \<and> c_incoming c' = None \<and> c_previous c' = Some [0]"
  by (rule failed_update_loses_executable) (simp_all add: conn_sample_def world_sample_def)

section \<open>Parts\<close>

text \<open>The parts recorded for a file that does not change are the parts that are uploaded: there
  is one for every eight megabytes begun, reading each back succeeds, against the length it
  must have and the digest recorded for it, and the parts read make up the file.\<close>

theorem file_parts_cover:
  assumes "hash_regular_file L W p c = (Inr (n, digest, parts), c')"
    and "\<forall>t. w_read W t p = Some content" "length content = n"
  shows "length parts = (n + PART_SIZE - 1) div PART_SIZE \<and> digest = sha256_hex L content
    \<and> (\<exists>bs. length bs = length parts \<and> concat bs = content
         \<and> (\<forall>i < length parts. \<forall>c2. fst (read_part L W p (i + 1) PART_SIZE n (parts ! i) c2) = Inr (bs ! i)))"
proof -
  have k: "0 < PART_SIZE" by (simp add: PART_SIZE_def)
  from assms(1,2) have parts: "parts = map (sha256_hex L) (blocks PART_SIZE content)" "digest = sha256_hex L content"
    by (auto simp: hash_regular_file_def run_simps split: option.splits if_splits)
  have r: "fst (read_part L W p (i + 1) PART_SIZE n (parts ! i) c2) = Inr (blocks PART_SIZE content ! i)"
    if i: "i < length parts" for i c2
  proof -
    have b: "blocks PART_SIZE content ! i = take PART_SIZE (drop (i * PART_SIZE) content)"
      using i parts nth_blocks k by simp
    have "i * PART_SIZE < n"
    proof (rule ccontr)
      assume "\<not> i * PART_SIZE < n"
      then have "(n + PART_SIZE - 1) div PART_SIZE \<le> (PART_SIZE - 1 + i * PART_SIZE) div PART_SIZE"
        by (intro div_le_mono) simp
      also have "\<dots> = i" using div_mult_self2 [of PART_SIZE "PART_SIZE - 1" i] k by (simp add: mult.commute)
      finally show False using i parts length_blocks [OF k] assms(3) by simp
    qed
    then have "int (length (take PART_SIZE (drop (i * PART_SIZE) content))) = min (int PART_SIZE) (int n - int (i * PART_SIZE))"
      using assms(3) by (simp add: min_def of_nat_diff del: of_nat_mult) linarith
    with assms(2) i parts b show ?thesis
      by (simp add: read_part_def run_simps Let_def)
  qed
  show ?thesis
    using r parts length_blocks [OF k] concat_blocks [OF k, of content] assms(3)
    by (intro conjI exI [of _ "blocks PART_SIZE content"]) simp_all
qed

lemma file_parts_cover_witness:
  "\<exists>bs. length bs = 1 \<and> concat bs = [1, 2, 3]
    \<and> (\<forall>c2. fst (read_part sample_lib world_sample [u ''a''] 1 PART_SIZE 3 (toy_digest [1, 2, 3]) c2) = Inr (bs ! 0))"
proof -
  have "\<forall>t. w_read world_sample t [u ''a''] = Some [1, 2, 3]" "length [1, 2, 3 :: nat] = 3"
    by (simp_all add: world_sample_def)
  from file_parts_cover [OF hash_sample this] show ?thesis by auto
qed

end
