(* ===== verification/Requests.thy ===== *)
theory Requests
  imports Auth Devices
begin

text \<open>
  \<open>core/actors.py\<close> and \<open>main.py\<close>: who a request acts for, and what stands between the network
  and a route: the request id, the CSRF middleware and the error handlers.  A route is an
  argument (\<open>route\<close>).  An exception a middleware raises does not reach the handlers of
  \<open>DomainError\<close>, which Starlette runs inside the middleware, but the one of \<open>Exception\<close>.
  At the end: the cookies of \<open>modules/auth/router.py\<close> with the request a browser makes of them, and
  the two routes of \<open>modules/devices/router.py\<close> that read the request.
\<close>

record web_request =
  wr_method :: string
  wr_path :: ustr
  wr_authorization :: "ustr option"
  wr_access_cookie :: "ustr option"
  wr_refresh_cookie :: "ustr option"
  wr_csrf_cookie :: "ustr option"
  wr_csrf_header :: "ustr option"
  wr_request_id :: ustr  \<comment> \<open>the header, or the empty string\<close>

definition starts_with :: "ustr \<Rightarrow> ustr \<Rightarrow> bool" where
  "starts_with p s \<longleftrightarrow> take (length p) s = p"

text \<open>A cookie or header that is there and not empty\<close>

definition nonempty :: "ustr option \<Rightarrow> bool" where
  "nonempty v \<longleftrightarrow> v \<noteq> None \<and> v \<noteq> Some []"

section \<open>The actor\<close>

definition member_projects :: "db \<Rightarrow> uuid \<Rightarrow> uuid list" where
  "member_projects db user_id = map pm_project_id (filter (\<lambda>m. pm_user_id m = user_id) (members db))"

definition has_browser_cookie :: "web_request \<Rightarrow> bool" where
  "has_browser_cookie rq \<longleftrightarrow> wr_access_cookie rq \<noteq> None \<or> wr_refresh_cookie rq \<noteq> None"

definition request_token :: "web_request \<Rightarrow> ustr option" where
  "request_token rq = (let authorization = (case wr_authorization rq of None \<Rightarrow> [] | Some a \<Rightarrow> a) in
     if wr_access_cookie rq = None \<and> \<not> has_browser_cookie rq \<and> starts_with (u ''Bearer '') authorization
     then Some (drop 7 authorization) else wr_access_cookie rq)"

definition browser_actor :: "db \<Rightarrow> user \<Rightarrow> actor" where
  "browser_actor db user = \<lparr>actor_kind = ''user'', actor_subject = u_id user,
     actor_role = Some (u_role user),
     actor_projects = (if u_role user = STAFF then member_projects db (u_id user) else []),
     actor_scopes = []\<rparr>"

text \<open>\<open>get_actor\<close>; \<open>cached\<close> is \<open>request.state.resolved_actor\<close>.\<close>

definition get_actor ::
  "lib \<Rightarrow> ustr \<Rightarrow> time \<Rightarrow> actor option \<Rightarrow> web_request \<Rightarrow> db \<Rightarrow> actor result \<times> db" where
  "get_actor L secret now cached rq db =
     (case cached of
        Some a \<Rightarrow> (Inr a, db)
      | None \<Rightarrow>
          if \<not> nonempty (request_token rq) then (Inl unauthenticated_error, db)
          else (let token = the (request_token rq) in
            case authenticate_access_token L secret now token db of
              Inl InvalidSession \<Rightarrow>
                if has_browser_cookie rq then (Inl unauthenticated_error, db)
                else (case device_authenticate L secret now token db of
                    (Inl InvalidDeviceCredential, db1) \<Rightarrow> (Inl unauthenticated_error, db1)
                  | r \<Rightarrow> r)
            | Inl e \<Rightarrow> (Inl e, db)
            | Inr user \<Rightarrow>
                if u_must_change_password user then (Inl password_change_required_error, db)
                else (Inr (browser_actor db user), db)))"

section \<open>Answers\<close>

record answer =
  an_status :: nat
  an_code :: string
  an_message :: string
  an_refreshable :: bool  \<comment> \<open>\<open>X-SuperBoss-Refreshable\<close>\<close>

definition error_response :: "string \<Rightarrow> string \<Rightarrow> nat \<Rightarrow> bool \<Rightarrow> answer" where
  "error_response code message status refreshable =
     \<lparr>an_status = status, an_code = code, an_message = message, an_refreshable = refreshable\<rparr>"

definition handle_unexpected_error :: answer where
  "handle_unexpected_error = error_response ''REQUEST_FAILED'' ''Request failed'' 500 False"

fun handle_domain_error :: "web_request \<Rightarrow> exn \<Rightarrow> answer" where
  "handle_domain_error rq (DomainError code message status) = error_response code message status
     (DomainError code message status = unauthenticated_error
      \<and> wr_path rq = u ''/api/v1/auth/me'' \<and> nonempty (wr_refresh_cookie rq))"
| "handle_domain_error rq e = handle_unexpected_error"

definition request_id :: "lib \<Rightarrow> uuid \<Rightarrow> web_request \<Rightarrow> uuid" where
  "request_id L fresh rq = (case uuid_parse L (wr_request_id rq) of Some i \<Rightarrow> i | None \<Rightarrow> fresh)"

section \<open>The CSRF middleware\<close>

definition is_authenticated_write_path :: "ustr \<Rightarrow> bool" where
  "is_authenticated_write_path path \<longleftrightarrow>
     path \<in> {u ''/api/v1/projects'', u ''/api/v1/files'', u ''/api/v1/device/import-jobs''}
     \<or> list_ex (\<lambda>p. starts_with p path)
         [u ''/api/v1/projects/'', u ''/api/v1/files/'', u ''/api/v1/owner/devices'',
          u ''/api/v1/owner/users'', u ''/api/v1/device/import-jobs/'']"

definition device_auth_path :: "ustr \<Rightarrow> bool" where
  "device_auth_path path \<longleftrightarrow> path \<in> {u ''/api/v1/device-auth/pair'', u ''/api/v1/device-auth/refresh''}"

definition writes :: "web_request \<Rightarrow> bool" where
  "writes rq \<longleftrightarrow> wr_method rq \<in> {''POST'', ''PUT'', ''PATCH'', ''DELETE''}"

definition browser_credentials :: "web_request \<Rightarrow> bool" where
  "browser_credentials rq \<longleftrightarrow> nonempty (wr_access_cookie rq) \<or> nonempty (wr_refresh_cookie rq)"

text \<open>\<open>secrets.compare_digest\<close> of two texts: a \<open>TypeError\<close> unless both are ASCII.\<close>

definition compare_digest :: "ustr \<Rightarrow> ustr \<Rightarrow> bool result" where
  "compare_digest a b = (if list_all (\<lambda>c. c < 128) a \<and> list_all (\<lambda>c. c < 128) b
     then Inr (a = b) else Inl (PyError ''TypeError''))"

definition csrf_failed :: answer where
  "csrf_failed = error_response ''CSRF_VALIDATION_FAILED'' ''CSRF validation failed'' 403 False"

text \<open>\<open>Called\<close>: the route runs, with the actor cached so far; \<open>Escaped\<close>: the middleware raises.\<close>

datatype admission = Called "actor option" | Answered answer | Escaped exn

definition enforce_browser_csrf ::
  "lib \<Rightarrow> ustr \<Rightarrow> time \<Rightarrow> web_request \<Rightarrow> db \<Rightarrow> admission \<times> db" where
  "enforce_browser_csrf L secret now rq db =
     (if \<not> writes rq then (Called None, db)
      else if wr_method rq = ''POST'' \<and> device_auth_path (wr_path rq) then (Called None, db)
      else if wr_authorization rq \<noteq> None \<and> \<not> browser_credentials rq
      then (case get_actor L secret now None rq db of
          (Inr a, db1) \<Rightarrow> (Called (Some a), db1)
        | (Inl e, db1) \<Rightarrow>
            if e = unauthenticated_error
            then (Answered (error_response ''AUTHENTICATION_REQUIRED'' ''Authentication required'' 401 False), db1)
            else (Escaped e, db1))
      else if \<not> browser_credentials rq \<and> is_authenticated_write_path (wr_path rq) then (Called None, db)
      else if \<not> nonempty (wr_csrf_cookie rq) \<or> \<not> nonempty (wr_csrf_header rq) then (Answered csrf_failed, db)
      else (case compare_digest (the (wr_csrf_cookie rq)) (the (wr_csrf_header rq)) of
          Inl e \<Rightarrow> (Escaped e, db)
        | Inr same \<Rightarrow> if same then (Called None, db) else (Answered csrf_failed, db)))"

text \<open>A route that depends on \<open>get_actor\<close>, behind the middleware and the handlers.\<close>

definition serve ::
  "lib \<Rightarrow> ustr \<Rightarrow> time \<Rightarrow> web_request \<Rightarrow> (actor \<Rightarrow> db \<Rightarrow> 'a result \<times> db) \<Rightarrow> db \<Rightarrow> (answer + 'a) \<times> db" where
  "serve L secret now rq route db =
     (case enforce_browser_csrf L secret now rq db of
        (Answered a, db1) \<Rightarrow> (Inl a, db1)
      | (Escaped e, db1) \<Rightarrow> (Inl handle_unexpected_error, db1)
      | (Called cached, db1) \<Rightarrow>
          (case get_actor L secret now cached rq db1 of
             (Inl e, db2) \<Rightarrow> (Inl (handle_domain_error rq e), db2)
           | (Inr a, db2) \<Rightarrow>
               (case route a db2 of
                  (Inl e, db3) \<Rightarrow> (Inl (handle_domain_error rq e), db3)
                | (Inr v, db3) \<Rightarrow> (Inr v, db3))))"

section \<open>Cookies (auth/router.py)\<close>

text \<open>Every cookie is \<open>Secure\<close> and \<open>SameSite=lax\<close>.\<close>

record cookie =
  ck_name :: string
  ck_value :: ustr
  ck_http_only :: bool
  ck_path :: string

definition csrf_cookie :: "ustr \<Rightarrow> cookie" where
  "csrf_cookie token = \<lparr>ck_name = ''XSRF-TOKEN'', ck_value = token, ck_http_only = False, ck_path = ''/''\<rparr>"

definition session_cookies :: "session_pair \<Rightarrow> ustr \<Rightarrow> cookie list" where
  "session_cookies issued csrf_token =
     [\<lparr>ck_name = ''access_token'', ck_value = sp_access_token issued, ck_http_only = True, ck_path = ''/''\<rparr>,
      \<lparr>ck_name = ''refresh_token'', ck_value = sp_refresh_token issued, ck_http_only = True,
        ck_path = ''/api/v1/auth''\<rparr>,
      csrf_cookie csrf_token]"

text \<open>The request a browser makes to a path with the cookies it holds: those whose path is the path or
  a directory of it, and a page's copy of the CSRF cookie in the header.\<close>

definition cookie_applies :: "string \<Rightarrow> ustr \<Rightarrow> bool" where
  "cookie_applies p path \<longleftrightarrow> path = u p
     \<or> starts_with (u p) path \<and> (last (u p) = 47 \<or> drop (length p) path \<noteq> [] \<and> hd (drop (length p) path) = 47)"

definition cookie_value :: "cookie list \<Rightarrow> ustr \<Rightarrow> string \<Rightarrow> ustr option" where
  "cookie_value cookies path name =
     map_option ck_value (find (\<lambda>c. ck_name c = name \<and> cookie_applies (ck_path c) path) cookies)"

definition browser_request :: "cookie list \<Rightarrow> string \<Rightarrow> ustr \<Rightarrow> web_request" where
  "browser_request cookies verb path = \<lparr>wr_method = verb, wr_path = path, wr_authorization = None,
     wr_access_cookie = cookie_value cookies path ''access_token'',
     wr_refresh_cookie = cookie_value cookies path ''refresh_token'',
     wr_csrf_cookie = cookie_value cookies path ''XSRF-TOKEN'',
     wr_csrf_header = cookie_value cookies path ''XSRF-TOKEN'', wr_request_id = []\<rparr>"

section \<open>Routes of devices (devices/router.py)\<close>

definition list_devices_route ::
  "lib \<Rightarrow> uuid \<Rightarrow> actor \<Rightarrow> uuid \<Rightarrow> db \<Rightarrow> (device_view \<times> string) list result \<times> db" where
  "list_devices_route L aid a rid db =
     (case require_owner_route L aid a ''device.list'' ''device'' None rid db of
        (Inl e, db1) \<Rightarrow> (Inl e, db1)
      | (Inr _, db1) \<Rightarrow> (Inr (map (\<lambda>v. (v, if dv_revoked_at v \<noteq> None then ''REVOKED'' else ''ACTIVE''))
            (list_devices L (actor_subject a) db1)), db1))"

definition device_me_route ::
  "lib \<Rightarrow> uuid \<Rightarrow> actor \<Rightarrow> web_request \<Rightarrow> uuid \<Rightarrow> db \<Rightarrow> device_view result \<times> db" where
  "device_me_route L aid a rq rid db =
     (if actor_kind a \<noteq> ''device''
        \<or> \<not> starts_with (u ''Bearer '') (case wr_authorization rq of None \<Rightarrow> [] | Some v \<Rightarrow> v)
        \<or> wr_access_cookie rq \<noteq> None \<or> wr_refresh_cookie rq \<noteq> None
      then (case audit_record L id aid \<lparr>ev_actor = a, ev_action = ''device.me'',
              ev_object_type = ''device'', ev_object_id = None, ev_project_id = None,
              ev_outcome = ''DENIED'', ev_request_id = rid, ev_event_key = None,
              ev_metadata = JObj [(u ''reason'', JStr (u ''DEVICE_CREDENTIAL_REQUIRED''))]\<rparr> db of
          (Inl e, db1) \<Rightarrow> (Inl e, db1)
        | (Inr _, db1) \<Rightarrow> (Inl unauthenticated_error, db1))
      else (case get_device L (actor_subject a) db of
          Inl InvalidDeviceCredential \<Rightarrow> (Inl unauthenticated_error, db)
        | r \<Rightarrow> (r, db)))"

end
