(* ===== verification/Requests_Properties.thy ===== *)
theory Requests_Properties
  imports Requests Access_Properties
begin

text \<open>
  The properties of the request layer: what the CSRF middleware refuses, whom a request acts
  for, and how an error reaches the client.
\<close>

text \<open>C14. A request that changes state and carries a browser cookie never reaches a route,
  whichever, unless its header repeats the CSRF cookie: it is answered with an error and the
  database is as it was.  The two paths of device pairing, which read no cookie, are exempt.\<close>

theorem csrf_guards_cookies:
  assumes "writes rq" "browser_credentials rq" "\<not> device_auth_path (wr_path rq)"
    and "\<not> (nonempty (wr_csrf_header rq) \<and> wr_csrf_header rq = wr_csrf_cookie rq)"
  shows "\<exists>a. serve L secret now rq route db = (Inl a, db)
    \<and> (a = csrf_failed \<or> a = handle_unexpected_error \<and> nonempty (wr_csrf_header rq) \<and> nonempty (wr_csrf_cookie rq))"
proof (cases "nonempty (wr_csrf_header rq) \<and> nonempty (wr_csrf_cookie rq)")
  case False
  with assms show ?thesis by (auto simp: serve_def enforce_browser_csrf_def)
next
  case True
  then obtain h k where "wr_csrf_header rq = Some h" "wr_csrf_cookie rq = Some k" by (auto simp: nonempty_def)
  with assms True show ?thesis
    by (auto simp: serve_def enforce_browser_csrf_def compare_digest_def)
qed

definition forged_request :: web_request where
  "forged_request = \<lparr>wr_method = ''POST'', wr_path = u ''/api/v1/projects'', wr_authorization = None,
     wr_access_cookie = Some (u ''t''), wr_refresh_cookie = None, wr_csrf_cookie = Some (u ''x''),
     wr_csrf_header = None, wr_request_id = []\<rparr>"

lemma csrf_guards_cookies_witness:
  "\<exists>a. serve token_lib (u ''secret'') 5 forged_request (\<lambda>a db. (Inr (), db\<lparr>users := []\<rparr>)) session_db = (Inl a, session_db)"
proof -
  have "writes forged_request" "browser_credentials forged_request" "\<not> device_auth_path (wr_path forged_request)"
    "\<not> (nonempty (wr_csrf_header forged_request) \<and> wr_csrf_header forged_request = wr_csrf_cookie forged_request)"
    by (simp_all add: forged_request_def writes_def browser_credentials_def nonempty_def device_auth_path_def u_def)
  from csrf_guards_cookies [OF this, of token_lib "u ''secret''" 5 "\<lambda>a db. (Inr (), db\<lparr>users := []\<rparr>)" session_db]
  show ?thesis by blast
qed

lemma bearer_split: "starts_with (u ''Bearer '') s \<longleftrightarrow> s = u ''Bearer '' @ drop 7 s"
proof -
  have "length (u ''Bearer '') = 7" by (simp add: u_def)
  then show ?thesis unfolding starts_with_def
    by (metis append_eq_conv_conj append_take_drop_id)
qed

text \<open>C15. Whom a request acts for: an active account with a live browser session of its own that
  owes no password change, in the projects it is a member of if it is STAFF; or, only where
  the request carries no browser cookie at all, the device its credential authenticates.\<close>

theorem actor_is_authentic:
  assumes "get_actor L secret now None rq db = (Inr a, db')"
  shows "(\<exists>user s. a = browser_actor db user \<and> db' = db \<and> u_must_change_password user = False
      \<and> get_user db (u_id user) = Some user \<and> u_status user = USER_ACTIVE
      \<and> (\<exists>i. get_session db i = Some s) \<and> s_kind s = SESSION_USER \<and> s_user_id s = Some (u_id user)
      \<and> s_revoked_at s = None \<and> now < s_access_expires_at s)
    \<or> (\<not> has_browser_cookie rq \<and> (\<exists>t. wr_authorization rq = Some (u ''Bearer '' @ t)
      \<and> device_authenticate L secret now t db = (Inr a, db')) \<and> actor_kind a = ''device'')"
proof -
  obtain t where t: "request_token rq = Some t" and ne: "nonempty (request_token rq)"
    using assms by (auto simp: get_actor_def nonempty_def split: if_splits)
  show ?thesis
  proof (cases "authenticate_access_token L secret now t db")
    case (Inr user)
    with assms t ne have r: "\<not> u_must_change_password user" "a = browser_actor db user" "db' = db"
      by (auto simp: get_actor_def split: if_splits)
    from Inr show ?thesis by (cases rule: authenticate_Inr) (use r in blast)
  next
    case (Inl e)
    with assms t ne have e: "e = InvalidSession" by (auto simp: get_actor_def split: exn.splits)
    with assms t ne Inl have d: "\<not> has_browser_cookie rq" "device_authenticate L secret now t db = (Inr a, db')"
      by (auto simp: get_actor_def split: if_splits prod.splits sum.splits exn.splits)
    then have "wr_authorization rq = Some (u ''Bearer '' @ t)"
      using t by (auto simp: request_token_def has_browser_cookie_def bearer_split Let_def
        split: if_splits option.splits)
    moreover have "actor_kind a = ''device''" using d(2) by (cases rule: device_authenticate_Inr) simp
    ultimately show ?thesis using d by blast
  qed
qed

lemma actor_is_authentic_witness:
  "get_actor token_lib (u ''secret'') 5 None forged_request session_db = (Inr (browser_actor session_db owner_row), session_db)
    \<and> (\<exists>i s. get_session session_db i = Some s \<and> s_user_id s = Some 11 \<and> s_revoked_at s = None)"
proof -
  have g: "get_actor token_lib (u ''secret'') 5 None forged_request session_db
      = (Inr (browser_actor session_db owner_row), session_db)"
    using session_db_authenticates
    by (simp add: get_actor_def forged_request_def request_token_def nonempty_def u_def) (simp add: owner_row_def)
  have c: "has_browser_cookie forged_request" by (simp add: has_browser_cookie_def forged_request_def)
  have i: "u_id v = 11" if "browser_actor session_db owner_row = browser_actor session_db v" for v
    using that by (simp add: browser_actor_def owner_row_def)
  from actor_is_authentic [OF g] c i have "\<exists>i s. get_session session_db i = Some s \<and> s_user_id s = Some 11 \<and> s_revoked_at s = None"
    by metis
  with g show ?thesis by blast
qed

text \<open>C24. A write that carries the bearer token of an account that owes a password change is
  answered with a server error: the middleware resolves the actor itself and catches only the
  error of a missing credential, so the refusal, which every other way gives the client as
  PASSWORD_CHANGE_REQUIRED, escapes it.\<close>

theorem bearer_change_masked:
  assumes "writes rq" "wr_authorization rq = Some (u ''Bearer '' @ t)" "t \<noteq> []"
    and "\<not> has_browser_cookie rq" "\<not> device_auth_path (wr_path rq)"
    and "authenticate_access_token L secret now t db = Inr user" "u_must_change_password user"
  shows "serve L secret now rq route db = (Inl handle_unexpected_error, db)
    \<and> get_actor L secret now None rq db = (Inl password_change_required_error, db)
    \<and> an_status handle_unexpected_error = 500 \<and> an_status (handle_domain_error rq password_change_required_error) = 403"
proof -
  have "starts_with (u ''Bearer '') (u ''Bearer '' @ t)" "drop 7 (u ''Bearer '' @ t) = t"
    by (simp_all add: starts_with_def u_def)
  then have "request_token rq = Some t"
    using assms(2,4) by (simp add: request_token_def has_browser_cookie_def)
  with assms have g: "get_actor L secret now None rq db = (Inl password_change_required_error, db)"
    by (simp add: get_actor_def nonempty_def)
  have "\<not> browser_credentials rq"
    using assms(4) by (auto simp: browser_credentials_def has_browser_cookie_def nonempty_def)
  with g assms(1,2,5) have "enforce_browser_csrf L secret now rq db = (Escaped password_change_required_error, db)"
    by (auto simp: enforce_browser_csrf_def error_defs)
  with g show ?thesis
    by (simp add: serve_def handle_unexpected_error_def error_response_def error_defs)
qed

definition owing_db :: db where
  "owing_db = session_db\<lparr>users := [owner_row\<lparr>u_must_change_password := True\<rparr>, staff_row]\<rparr>"

definition bearer_request :: web_request where
  "bearer_request = \<lparr>wr_method = ''POST'', wr_path = u ''/api/v1/projects'',
     wr_authorization = Some (u ''Bearer '' @ u ''t''), wr_access_cookie = None, wr_refresh_cookie = None,
     wr_csrf_cookie = None, wr_csrf_header = None, wr_request_id = []\<rparr>"

lemma bearer_change_masked_witness:
  "serve token_lib (u ''secret'') 5 bearer_request (\<lambda>a db. (Inr (), db)) owing_db = (Inl handle_unexpected_error, owing_db)"
proof -
  have r: "writes bearer_request" "wr_authorization bearer_request = Some (u ''Bearer '' @ u ''t'')" "u ''t'' \<noteq> []"
    "\<not> has_browser_cookie bearer_request" "\<not> device_auth_path (wr_path bearer_request)"
    by (simp_all add: bearer_request_def writes_def has_browser_cookie_def device_auth_path_def u_def)
  have "authenticate_access_token token_lib (u ''secret'') 5 (u ''t'') owing_db
      = Inr (owner_row\<lparr>u_must_change_password := True\<rparr>)"
    by (simp add: authenticate_access_token_def token_lib_decode token_lib_claims get_session_def
      get_user_def owing_db_def session_db_def sample_session_def sample_db_def owner_row_def)
  from bearer_change_masked [OF r this, of "\<lambda>a db. (Inr (), db)"] show ?thesis by simp
qed

end
