(* ===== verification/Clamav.thy ===== *)
theory Clamav
  imports Scans Blocks "HOL-Library.Word"
begin

text \<open>
  \<open>infrastructure/clamav.py\<close>: the scanner's INSTREAM protocol.  What the daemon does is the
  record \<open>clamd\<close>: how the connection, the \<open>k\<close>-th write and the answer to the bytes it
  was sent turn out (a timeout, a refused connection, an overlong or cut answer are \<open>Failed\<close>;
  any await can be \<open>Cancelled\<close>).  A scan raises \<open>ClamAVScanError\<close> for every failure (\<open>Failed\<close>) and lets a cancellation
  through (\<open>Cancelled\<close>).
\<close>

unbundle bit_operations_syntax

record clam_config =
  cc_host :: ustr
  cc_port :: int
  cc_connect_timeout :: time
  cc_io_timeout :: time
  cc_total_timeout :: time
  cc_max_chunk_bytes :: nat
  cc_max_stream_bytes :: nat
  cc_max_response_bytes :: nat

definition clam_config_ok :: "clam_config \<Rightarrow> bool" where
  "clam_config_ok g \<longleftrightarrow> cc_host g \<noteq> [] \<and> 1 \<le> cc_port g \<and> cc_port g \<le> 65535
     \<and> 0 < cc_connect_timeout g \<and> 0 < cc_io_timeout g \<and> 0 < cc_total_timeout g
     \<and> 1 \<le> cc_max_chunk_bytes g \<and> cc_max_chunk_bytes g \<le> 4294967295
     \<and> 1 \<le> cc_max_stream_bytes g \<and> 1 \<le> cc_max_response_bytes g"

text \<open>What the stream of an object gives: a piece, an error of the storage, a cancellation.\<close>

datatype stream_item = Piece bytes | Stream_Raises | Stream_Cancelled

datatype 'a step = Done 'a | Failed | Cancelled

fun bind_step :: "'a step \<Rightarrow> ('a \<Rightarrow> 'b step) \<Rightarrow> 'b step" where
  "bind_step (Done x) f = f x"
| "bind_step Failed f = Failed"
| "bind_step Cancelled f = Cancelled"

lemma bind_step_Done: "bind_step m f = Done y \<longleftrightarrow> (\<exists>x. m = Done x \<and> f x = Done y)"
  by (cases m) simp_all

fun step_of :: "'a option \<Rightarrow> 'a step" where
  "step_of None = Failed"
| "step_of (Some x) = Done x"

lemma step_of_Done [simp]: "step_of r = Done x \<longleftrightarrow> r = Some x"
  by (cases r) simp_all

record clamd =
  cd_connect :: "unit step"
  cd_takes :: "nat \<Rightarrow> unit step"
  cd_reply :: "bytes \<Rightarrow> bytes step"
  cd_close_cancelled :: bool

section \<open>Frames\<close>

text \<open>\<open>struct.pack("!I", n)\<close>: \<open>None\<close> is \<open>struct.error\<close>.\<close>

definition pack_u32 :: "nat \<Rightarrow> bytes option" where
  "pack_u32 n = (if n < 2 ^ 32
     then (let w = word_of_nat n :: 32 word in
       Some [unat (drop_bit 24 w AND 0xFF), unat (drop_bit 16 w AND 0xFF),
             unat (drop_bit 8 w AND 0xFF), unat (w AND 0xFF)])
     else None)"

definition drain :: "clamd \<Rightarrow> bytes \<Rightarrow> bytes list \<Rightarrow> bytes list step" where
  "drain d payload sent = bind_step (cd_takes d (length sent)) (\<lambda>_. Done (sent @ [payload]))"

fun send_frames ::
  "clam_config \<Rightarrow> clamd \<Rightarrow> bytes list \<Rightarrow> nat \<Rightarrow> bytes list \<Rightarrow> (nat \<times> bytes list) step" where
  "send_frames g d [] total_bytes sent = Done (total_bytes, sent)"
| "send_frames g d (frame # frames) total_bytes sent =
     (if int total_bytes > int (cc_max_stream_bytes g) - int (length frame) then Failed
      else bind_step (step_of (pack_u32 (length frame))) (\<lambda>header.
        bind_step (drain d (header @ frame) sent) (\<lambda>sent'.
        send_frames g d frames (total_bytes + length frame) sent')))"

fun send_stream ::
  "clam_config \<Rightarrow> clamd \<Rightarrow> stream_item list \<Rightarrow> nat \<Rightarrow> bytes list \<Rightarrow> bytes list step" where
  "send_stream g d [] total_bytes sent = Done sent"
| "send_stream g d (Piece chunk # items) total_bytes sent =
     (if chunk = [] then Failed
      else bind_step (send_frames g d (blocks (cc_max_chunk_bytes g) chunk) total_bytes sent)
        (\<lambda>(total_bytes', sent'). send_stream g d items total_bytes' sent'))"
| "send_stream g d (Stream_Raises # items) total_bytes sent = Failed"
| "send_stream g d (Stream_Cancelled # items) total_bytes sent = Cancelled"

section \<open>The answer\<close>

definition parse_response :: "bytes \<Rightarrow> scan_verdict option" where
  "parse_response response =
     (let prefix = u ''stream: ''; suffix = u '' FOUND'' in
      if response = u ''stream: OK'' then Some VERDICT_CLEAN
      else if take (length prefix) response \<noteq> prefix
        \<or> drop (length response - length suffix) response \<noteq> suffix then None
      else (let signature = drop (length prefix) (take (length response - length suffix) response) in
        if signature = [] then None
        else if list_all (\<lambda>b. b < 128) signature then Some (VERDICT_INFECTED (Some signature)) else None))"

section \<open>A scan\<close>

definition INSTREAM :: bytes where "INSTREAM = u ''zINSTREAM'' @ [0]"

text \<open>The conversation on an open connection; what was sent is returned with the verdict.\<close>

definition exchange ::
  "clam_config \<Rightarrow> clamd \<Rightarrow> stream_item list \<Rightarrow> (scan_verdict \<times> bytes) step" where
  "exchange g d items =
     bind_step (drain d INSTREAM []) (\<lambda>sent.
     bind_step (send_stream g d items 0 sent) (\<lambda>sent.
     bind_step (step_of (pack_u32 0)) (\<lambda>header.
     bind_step (drain d header sent) (\<lambda>sent.
     bind_step (cd_reply d (concat sent)) (\<lambda>response.
     if int (length response) - 1 > int (cc_max_response_bytes g) then Failed
     else bind_step (step_of (parse_response (butlast response))) (\<lambda>v.
     Done (v, concat sent)))))))"

text \<open>The \<open>finally\<close> of \<open>scan\<close>: closing an open connection drops its own errors and lets a
  cancellation replace the outcome.\<close>

definition clamav_scan ::
  "clam_config \<Rightarrow> clamd \<Rightarrow> stream_item list \<Rightarrow> (scan_verdict \<times> bytes) step" where
  "clamav_scan g d items = bind_step (cd_connect d) (\<lambda>_.
     let outcome = exchange g d items in
     if cd_close_cancelled d then Cancelled else outcome)"

definition pieces :: "stream_item list \<Rightarrow> bytes" where
  "pieces items = concat (map (\<lambda>i. case i of Piece b \<Rightarrow> b | _ \<Rightarrow> []) items)"

text \<open>The external work of \<open>scan_file\<close> as this scanner does it: a verdict comes after the
  whole stream was pulled through the hash.\<close>

definition clamav_run :: "clam_config \<Rightarrow> clamd \<Rightarrow> stream_item list \<Rightarrow> scan_run" where
  "clamav_run g d items = (case clamav_scan g d items of
     Done (v, sent) \<Rightarrow> Scanned (pieces items) v | Failed \<Rightarrow> ScanRaised | Cancelled \<Rightarrow> ScanInterrupted)"

end
