(* ===== verification/Clamav_Properties.thy ===== *)
theory Clamav_Properties
  imports Clamav Files_Proofs Examples
begin

text \<open>
  The scanner's protocol against the daemon's side of it: \<open>instream_decode\<close> reads a session
  back as the INSTREAM documentation defines it.
\<close>

section \<open>The daemon's reading of a session\<close>

definition unpack_u32 :: "nat \<Rightarrow> nat \<Rightarrow> nat \<Rightarrow> nat \<Rightarrow> nat" where
  "unpack_u32 a b c d = ((a * 256 + b) * 256 + c) * 256 + d"

function instream_frames :: "bytes \<Rightarrow> bytes option" where
  "instream_frames bs = (case bs of
       a # b # c # d # rest \<Rightarrow>
         (let n = unpack_u32 a b c d in
          if n = 0 then (if rest = [] then Some [] else None)
          else if length rest < n then None
          else map_option (\<lambda>out. take n rest @ out) (instream_frames (drop n rest)))
     | _ \<Rightarrow> None)"
  by pat_completeness auto
termination by (relation "measure length") auto

declare instream_frames.simps [simp del]

definition instream_decode :: "bytes \<Rightarrow> bytes option" where
  "instream_decode bs =
     (if take (length INSTREAM) bs = INSTREAM then instream_frames (drop (length INSTREAM) bs) else None)"

section \<open>Headers\<close>

lemma unat_byte: "unat (drop_bit k (w :: 32 word) AND 0xFF) = unat w div 2 ^ k mod 256"
proof -
  have "drop_bit k w AND 0xFF = take_bit 8 (drop_bit k w)"
    by (simp add: take_bit_eq_mask mask_eq_exp_minus_1)
  moreover have "take_bit LENGTH(32) (unat w) = unat w"
    by (rule take_bit_nat_eq_self) (rule unsigned_less)
  ultimately have "unat (drop_bit k w AND 0xFF) = take_bit 8 (drop_bit k (unat w))"
    by (simp only: unsigned_take_bit_eq unsigned_drop_bit_eq)
  then show ?thesis by (simp add: take_bit_eq_mod drop_bit_eq_div)
qed

lemma base256:
  assumes "(n :: nat) < 2 ^ 32"
  shows "(((n div 2 ^ 24 mod 256) * 256 + n div 2 ^ 16 mod 256) * 256 + n div 2 ^ 8 mod 256) * 256 + n mod 256 = n"
proof -
  have d: "n div 2 ^ 16 = n div 2 ^ 8 div 256" "n div 2 ^ 24 = n div 2 ^ 16 div 256"
    by (simp_all add: div_mult2_eq [symmetric])
  from assms have "n div 2 ^ 24 mod 256 = n div 2 ^ 24" by (intro mod_less) (simp add: less_mult_imp_div_less)
  then show ?thesis using d by (simp only: div_mult_mod_eq) simp
qed

lemma pack_u32_cases:
  assumes "n < 2 ^ 32"
  obtains a b c d where "pack_u32 n = Some [a, b, c, d]" "unpack_u32 a b c d = n"
proof -
  let ?w = "word_of_nat n :: 32 word"
  have w: "unat ?w = n" using assms by (simp add: unat_of_nat take_bit_nat_eq_self)
  have low: "unat (?w AND 0xFF) = n mod 256" using unat_byte [of 0 ?w] by (simp add: w)
  show ?thesis
    by (rule that [of "n div 2 ^ 24 mod 256" "n div 2 ^ 16 mod 256" "n div 2 ^ 8 mod 256" "n mod 256"])
      (use assms in \<open>simp add: pack_u32_def Let_def unat_byte w low\<close>,
       use base256 [OF assms] in \<open>simp only: unpack_u32_def\<close>)
qed

lemma pack_u32_zero: "pack_u32 0 = Some [0, 0, 0, 0]"
  by (simp add: pack_u32_def)

definition framed :: "bytes \<Rightarrow> bytes" where
  "framed frame = the (pack_u32 (length frame)) @ frame"

lemma instream_frames_framed:
  assumes "frame \<noteq> []" "length frame < 2 ^ 32"
  shows "instream_frames (framed frame @ rest) = map_option (\<lambda>out. frame @ out) (instream_frames rest)"
proof -
  from assms(2) obtain a b c d where h: "pack_u32 (length frame) = Some [a, b, c, d]"
    and n: "unpack_u32 a b c d = length frame" by (rule pack_u32_cases)
  from assms(1) show ?thesis
    by (subst instream_frames.simps) (simp add: framed_def h n)
qed

lemma instream_frames_all:
  assumes "\<And>f. f \<in> set frames \<Longrightarrow> f \<noteq> [] \<and> length f < 2 ^ 32"
  shows "instream_frames (concat (map framed frames) @ [0, 0, 0, 0]) = Some (concat frames)"
  using assms
proof (induction frames)
  case Nil
  then show ?case by (simp add: instream_frames.simps unpack_u32_def)
next
  case (Cons f fs)
  then show ?case using instream_frames_framed [of f] by simp
qed

section \<open>What a scan sends\<close>

fun piece :: "stream_item \<Rightarrow> bytes" where
  "piece (Piece b) = b"
| "piece Stream_Raises = []"
| "piece Stream_Cancelled = []"

lemma pieces_simps [simp]:
  "pieces [] = []" "pieces (i # items) = piece i @ pieces items"
  by (simp_all add: pieces_def, cases i, simp_all)

definition frames_of :: "nat \<Rightarrow> stream_item list \<Rightarrow> bytes list" where
  "frames_of k items = concat (map (\<lambda>i. blocks k (piece i)) items)"

lemma frames_of_simps [simp]:
  "frames_of k [] = []" "frames_of k (i # items) = blocks k (piece i) @ frames_of k items"
  by (simp_all add: frames_of_def)

lemma concat_frames_of: "0 < k \<Longrightarrow> concat (frames_of k items) = pieces items"
  by (induction items) (simp_all add: concat_blocks)

lemma frames_of_bounded: "0 < k \<Longrightarrow> f \<in> set (frames_of k items) \<Longrightarrow> f \<noteq> [] \<and> length f \<le> k"
  unfolding frames_of_def using blocks_bounded by auto

definition session_bytes :: "nat \<Rightarrow> stream_item list \<Rightarrow> bytes" where
  "session_bytes k items = INSTREAM @ concat (map framed (frames_of k items)) @ [0, 0, 0, 0]"

lemma decode_session:
  assumes "0 < k" "k \<le> 4294967295"
  shows "instream_decode (session_bytes k items) = Some (pieces items)"
proof -
  have "f \<noteq> [] \<and> length f < 2 ^ 32" if "f \<in> set (frames_of k items)" for f
    using frames_of_bounded [OF assms(1) that] assms(2) by simp
  then have "instream_frames (concat (map framed (frames_of k items)) @ [0, 0, 0, 0]) = Some (pieces items)"
    using instream_frames_all concat_frames_of [OF assms(1)] by metis
  then show ?thesis by (simp add: instream_decode_def session_bytes_def)
qed

text \<open>Whatever the daemon does, a loop that ends has written one frame per block.\<close>

lemma pack_framed: "pack_u32 (length frame) = Some h \<Longrightarrow> h @ frame = framed frame"
  by (simp add: framed_def)

lemma send_frames_Done:
  assumes "send_frames g d frames n sent = Done (m, sent')" "n \<le> cc_max_stream_bytes g"
  shows "sent' = sent @ map framed frames" "m = n + length (concat frames)" "m \<le> cc_max_stream_bytes g"
proof -
  have "sent' = sent @ map framed frames \<and> m = n + length (concat frames) \<and> m \<le> cc_max_stream_bytes g"
    using assms
  proof (induction frames arbitrary: n sent)
    case (Cons f fs)
    from Cons.prems(1) obtain h where "int n \<le> int (cc_max_stream_bytes g) - int (length f)"
      "pack_u32 (length f) = Some h"
      "send_frames g d fs (n + length f) (sent @ [h @ f]) = Done (m, sent')"
      by (auto simp: bind_step_Done drain_def split: if_splits)
    then show ?case using Cons.IH [of "n + length f" "sent @ [h @ f]"] pack_framed by fastforce
  qed simp
  then show "sent' = sent @ map framed frames" "m = n + length (concat frames)" "m \<le> cc_max_stream_bytes g"
    by simp_all
qed

lemma send_stream_Done:
  assumes "0 < cc_max_chunk_bytes g" "send_stream g d items n sent = Done sent'" "n \<le> cc_max_stream_bytes g"
  shows "sent' = sent @ map framed (frames_of (cc_max_chunk_bytes g) items)
    \<and> n + length (pieces items) \<le> cc_max_stream_bytes g
    \<and> list_all (\<lambda>i. \<exists>b. i = Piece b \<and> b \<noteq> []) items"
  using assms(2, 3)
proof (induction items arbitrary: n sent)
  case (Cons i items)
  show ?case
  proof (cases i)
    case (Piece chunk)
    with Cons.prems(1) obtain m sent1 where "chunk \<noteq> []"
      and f: "send_frames g d (blocks (cc_max_chunk_bytes g) chunk) n sent = Done (m, sent1)"
      and s: "send_stream g d items m sent1 = Done sent'"
      by (auto simp: bind_step_Done split: if_splits)
    note m = send_frames_Done [OF f Cons.prems(2)]
    from Cons.IH [OF s m(3)] m \<open>chunk \<noteq> []\<close> show ?thesis
      by (simp add: Piece concat_blocks [OF assms(1)])
  qed (use Cons.prems in simp_all)
qed simp_all

lemma if_Failed: "(if b then Failed else m) = Done x \<longleftrightarrow> \<not> b \<and> m = Done x"
  by simp

lemma too_long: "int (length r) - 1 > int m \<longleftrightarrow> \<not> length r \<le> m + 1"
  by linarith

lemma exchange_Done:
  assumes "clam_config_ok g" "exchange g d items = Done (v, sent)"
  shows "sent = session_bytes (cc_max_chunk_bytes g) items"
    "length (pieces items) \<le> cc_max_stream_bytes g" "list_all (\<lambda>i. \<exists>b. i = Piece b \<and> b \<noteq> []) items"
    "\<exists>r. cd_reply d sent = Done r \<and> parse_response (butlast r) = Some v
       \<and> length r \<le> cc_max_response_bytes g + 1"
proof -
  from assms(2) obtain sent1 r where 1: "send_stream g d items 0 [INSTREAM] = Done sent1"
    and 2: "sent = concat (sent1 @ [[0, 0, 0, 0]])" "cd_reply d sent = Done r"
      "parse_response (butlast r) = Some v" "length r \<le> cc_max_response_bytes g + 1"
    by (auto simp: exchange_def bind_step_Done drain_def pack_u32_zero split: if_splits)
  from assms(1) have "0 < cc_max_chunk_bytes g" by (simp add: clam_config_ok_def)
  from send_stream_Done [OF this 1] 2
  show "sent = session_bytes (cc_max_chunk_bytes g) items"
    "length (pieces items) \<le> cc_max_stream_bytes g" "list_all (\<lambda>i. \<exists>b. i = Piece b \<and> b \<noteq> []) items"
    "\<exists>r. cd_reply d sent = Done r \<and> parse_response (butlast r) = Some v
       \<and> length r \<le> cc_max_response_bytes g + 1"
    by (auto simp: session_bytes_def)
qed

lemma scan_Done:
  "clamav_scan g d items = Done (v, sent) \<longleftrightarrow>
     cd_connect d = Done () \<and> \<not> cd_close_cancelled d \<and> exchange g d items = Done (v, sent)"
  by (auto simp: clamav_scan_def bind_step_Done)

section \<open>The answers\<close>

lemma u_lengths [simp]: "length (u ''stream: '') = 8" "length (u '' FOUND'') = 6"
  by (simp_all add: u_def)

lemma parse_found:
  "parse_response (u ''stream: '' @ s @ u '' FOUND'') =
     (if s \<noteq> [] \<and> list_all (\<lambda>b. b < 128) s then Some (VERDICT_INFECTED (Some s)) else None)"
proof -
  have "u ''stream: '' @ s @ u '' FOUND'' \<noteq> u ''stream: OK''"
    by (rule notI, drule arg_cong [of _ _ length]) (simp add: u_def)
  then show ?thesis by (simp add: parse_response_def Let_def)
qed

lemma parse_response_Some:
  "parse_response r = Some v \<longleftrightarrow>
     (r = u ''stream: OK'' \<and> v = VERDICT_CLEAN
      \<or> (\<exists>s. r = u ''stream: '' @ s @ u '' FOUND'' \<and> s \<noteq> [] \<and> list_all (\<lambda>b. b < 128) s
            \<and> v = VERDICT_INFECTED (Some s)))" (is "?l \<longleftrightarrow> ?r")
proof
  assume ?l
  show ?r
  proof (cases "r = u ''stream: OK''")
    case True
    with \<open>?l\<close> show ?thesis by (simp add: parse_response_def Let_def)
  next
    case False
    let ?s = "drop 8 (take (length r - 6) r)"
    from \<open>?l\<close> False have p: "take 8 r = u ''stream: ''" "drop (length r - 6) r = u '' FOUND''"
      "?s \<noteq> []" "list_all (\<lambda>b. b < 128) ?s" "v = VERDICT_INFECTED (Some ?s)"
      by (simp_all add: parse_response_def Let_def split: if_splits)
    from p(3) have "8 \<le> length r - 6" by simp
    then have "take 8 r = take 8 (take (length r - 6) r)" by simp
    then have "r = take 8 r @ ?s @ drop (length r - 6) r"
      by (metis append.assoc append_take_drop_id)
    with p show ?thesis by metis
  qed
next
  assume ?r
  then show ?l
  proof (elim disjE exE conjE)
    assume "r = u ''stream: OK''" "v = VERDICT_CLEAN"
    then show ?l by (simp add: parse_response_def)
  next
    fix s assume "r = u ''stream: '' @ s @ u '' FOUND''" "s \<noteq> []" "list_all (\<lambda>b. b < 128) s"
      "v = VERDICT_INFECTED (Some s)"
    then show ?l by (simp only: parse_found) simp
  qed
qed

lemma parse_response_clean: "parse_response r = Some VERDICT_CLEAN \<longleftrightarrow> r = u ''stream: OK''"
  by (simp add: parse_response_Some)

section \<open>A cooperative daemon\<close>

lemma pack_framed_Some: "length frame < 2 ^ 32 \<Longrightarrow> \<exists>h. pack_u32 (length frame) = Some h \<and> h @ frame = framed frame"
  by (simp add: framed_def pack_u32_def Let_def)

lemma send_frames_exact:
  assumes "cd_takes d = (\<lambda>_. Done ())" "\<And>f. f \<in> set frames \<Longrightarrow> length f < 2 ^ 32" "n \<le> cc_max_stream_bytes g"
  shows "send_frames g d frames n sent =
    (if n + length (concat frames) \<le> cc_max_stream_bytes g
     then Done (n + length (concat frames), sent @ map framed frames) else Failed)"
  using assms(2, 3)
proof (induction frames arbitrary: n sent)
  case (Cons f fs)
  from Cons.prems obtain h where h: "pack_u32 (length f) = Some h" "h @ f = framed f"
    using pack_framed_Some [of f] by auto
  show ?case
  proof (cases "n + length f \<le> cc_max_stream_bytes g")
    case True
    then show ?thesis using Cons.IH [of "n + length f" "sent @ [h @ f]"] Cons.prems h assms(1)
      by (simp add: drain_def add.assoc)
  next
    case False
    then show ?thesis by simp
  qed
qed simp

lemma send_stream_exact:
  assumes "cd_takes d = (\<lambda>_. Done ())" "0 < cc_max_chunk_bytes g" "cc_max_chunk_bytes g \<le> 4294967295"
    "n \<le> cc_max_stream_bytes g"
  shows "send_stream g d (map Piece chunks) n sent =
    (if [] \<notin> set chunks \<and> n + length (concat chunks) \<le> cc_max_stream_bytes g
     then Done (sent @ map framed (frames_of (cc_max_chunk_bytes g) (map Piece chunks))) else Failed)"
  using assms(4)
proof (induction chunks arbitrary: n sent)
  case (Cons c cs)
  have small: "length f < 2 ^ 32" if "f \<in> set (blocks (cc_max_chunk_bytes g) c)" for f
    using blocks_bounded [OF assms(2) that] assms(3) by simp
  note f = send_frames_exact [OF assms(1) small Cons.prems, of "blocks (cc_max_chunk_bytes g) c" sent, simplified]
  show ?case
  proof (cases "c = [] \<or> cc_max_stream_bytes g < n + length c")
    case True
    then show ?thesis using f by (auto simp: concat_blocks [OF assms(2)])
  next
    case False
    then show ?thesis using f Cons.IH [of "n + length c" "sent @ map framed (blocks (cc_max_chunk_bytes g) c)"]
      by (auto simp: concat_blocks [OF assms(2)] add.assoc)
  qed
qed simp

text \<open>C18. On a daemon that connects and takes every write, and unless the scan is cancelled while it
  closes, a scan of a stream of chunks returns a verdict exactly when no chunk is empty, the stream
  is within its bound and the answer is within its bound and reads "stream: OK" (clean)
  or "stream: <ASCII signature> FOUND" (infected, with that signature); and the daemon, reading
  what it was sent as INSTREAM frames, finds exactly the stream.\<close>

theorem clamav_scan_exact:
  assumes "clam_config_ok g" "cd_connect d = Done ()" "cd_takes d = (\<lambda>_. Done ())" "\<not> cd_close_cancelled d"
  shows "instream_decode (session_bytes (cc_max_chunk_bytes g) (map Piece chunks)) = Some (concat chunks)
    \<and> (clamav_scan g d (map Piece chunks) = Done (v, sent) \<longleftrightarrow>
      sent = session_bytes (cc_max_chunk_bytes g) (map Piece chunks)
      \<and> [] \<notin> set chunks \<and> length (concat chunks) \<le> cc_max_stream_bytes g
      \<and> (\<exists>response. cd_reply d sent = Done response \<and> length response \<le> cc_max_response_bytes g + 1
          \<and> (butlast response = u ''stream: OK'' \<and> v = VERDICT_CLEAN
             \<or> (\<exists>s. butlast response = u ''stream: '' @ s @ u '' FOUND'' \<and> s \<noteq> []
                  \<and> list_all (\<lambda>b. b < 128) s \<and> v = VERDICT_INFECTED (Some s)))))"
proof -
  from assms(1) have k: "0 < cc_max_chunk_bytes g" "cc_max_chunk_bytes g \<le> 4294967295"
    by (simp_all add: clam_config_ok_def)
  let ?items = "map Piece chunks"
  let ?sent = "[INSTREAM] @ map framed (frames_of (cc_max_chunk_bytes g) ?items)"
  have "concat (?sent @ [[0, 0, 0, 0]]) = session_bytes (cc_max_chunk_bytes g) ?items"
    by (simp add: session_bytes_def)
  moreover have "send_stream g d ?items 0 [INSTREAM] =
      (if [] \<notin> set chunks \<and> length (concat chunks) \<le> cc_max_stream_bytes g then Done ?sent else Failed)"
    using send_stream_exact [OF assms(3) k, of 0 chunks "[INSTREAM]"] by simp
  ultimately have "exchange g d ?items = Done (v, sent) \<longleftrightarrow>
      sent = session_bytes (cc_max_chunk_bytes g) ?items
      \<and> [] \<notin> set chunks \<and> length (concat chunks) \<le> cc_max_stream_bytes g
      \<and> (\<exists>response. cd_reply d sent = Done response \<and> length response \<le> cc_max_response_bytes g + 1
          \<and> parse_response (butlast response) = Some v)"
    by (auto simp: exchange_def drain_def assms(3) pack_u32_zero bind_step_Done if_Failed too_long
      simp del: concat_append)
  moreover have "pieces ?items = concat chunks" by (simp add: pieces_def comp_def)
  ultimately show ?thesis using decode_session [OF k, of ?items]
    by (simp add: scan_Done assms(2, 4) parse_response_Some)
qed

definition sample_clam :: clam_config where
  "sample_clam = \<lparr>cc_host = u ''clamd'', cc_port = 3310, cc_connect_timeout = 3, cc_io_timeout = 10,
     cc_total_timeout = 120, cc_max_chunk_bytes = 2, cc_max_stream_bytes = 6, cc_max_response_bytes = 1024\<rparr>"

definition sample_clamd :: "bytes \<Rightarrow> clamd" where
  "sample_clamd r = \<lparr>cd_connect = Done (), cd_takes = (\<lambda>_. Done ()), cd_reply = (\<lambda>_. Done r), cd_close_cancelled = False\<rparr>"

lemma clamav_scan_exact_witness:
  "\<exists>sent. clamav_scan sample_clam (sample_clamd (u ''stream: Eicar FOUND'' @ [0])) (map Piece [[1, 2, 3]])
      = Done (VERDICT_INFECTED (Some (u ''Eicar'')), sent)"
  using clamav_scan_exact [of sample_clam "sample_clamd (u ''stream: Eicar FOUND'' @ [0])" "[[1, 2, 3]]"
    "VERDICT_INFECTED (Some (u ''Eicar''))"]
  by (simp add: sample_clam_def sample_clamd_def clam_config_ok_def u_def)

section \<open>A scan of a file through the scanner\<close>

text \<open>C17. When the scan of a quarantined file through ClamAV ends with the file CLEAN, then
  (whatever the daemon, the storage and the network did) every item of the stream was a chunk, the
  daemon was sent exactly those chunks, within the stream bound, their digest is the declared one,
  and the daemon answered "stream: OK"; in every other case the file ends INFECTED or FAILED or
  the delivery was cancelled.\<close>

theorem clean_file_was_streamed:
  assumes "clam_config_ok g" "get_file db i = Some f" "f_state f = FILE_QUARANTINED"
    "get_file (fst (scan_file L now later (clamav_run g d items) id i db)) i = Some f'"
  shows "if f_state f' = FILE_CLEAN
    then \<exists>sent r. instream_decode sent = Some (pieces items) \<and> cd_reply d sent = Done r
      \<and> butlast r = u ''stream: OK'' \<and> length (pieces items) \<le> cc_max_stream_bytes g
      \<and> list_all (\<lambda>x. \<exists>b. x = Piece b \<and> b \<noteq> []) items \<and> sha256_hex L (pieces items) = f_sha256 f
    else f_state f' \<in> {FILE_INFECTED, FILE_FAILED} \<or> clamav_scan g d items = Cancelled"
proof -
  let ?run = "clamav_run g d items"
  have "f_state f' = fst (scan_result_of L (f_sha256 f) ?run)" if "?run \<noteq> ScanInterrupted"
    using assms that by (auto simp: scan_file_def claim_scan_def finish_scan_def file_terminal_def get_write_file)
  moreover have "f_state f' = FILE_SCANNING" if "?run = ScanInterrupted"
    using assms that by (auto simp: scan_file_def claim_scan_def file_terminal_def get_write_file)
  moreover have ?thesis if r: "f_state f' = fst (scan_result_of L (f_sha256 f) ?run)"
  proof (cases "f_state f' = FILE_CLEAN")
    case True
    with r have "fst (scan_result_of L (f_sha256 f) ?run) = FILE_CLEAN" by simp
    then obtain pulled where "?run = Scanned pulled VERDICT_CLEAN" and h: "sha256_hex L pulled = f_sha256 f"
      unfolding scan_result_clean by blast
    then obtain sent where "clamav_scan g d items = Done (VERDICT_CLEAN, sent)" and p: "pulled = pieces items"
      by (auto simp: clamav_run_def split: step.splits)
    then have e: "exchange g d items = Done (VERDICT_CLEAN, sent)" by (simp add: scan_Done)
    have "instream_decode sent = Some (pieces items)"
      using assms(1) exchange_Done(1) [OF assms(1) e] decode_session by (simp add: clam_config_ok_def)
    with exchange_Done [OF assms(1) e] h p True show ?thesis by (auto simp: parse_response_clean)
  next
    case False
    with scan_result_terminal [of L "f_sha256 f" ?run] r show ?thesis by (auto simp: file_terminal_def)
  qed
  moreover have "?run = ScanInterrupted \<Longrightarrow> clamav_scan g d items = Cancelled"
    by (auto simp: clamav_run_def split: step.splits)
  ultimately show ?thesis by (cases "?run = ScanInterrupted") auto
qed

lemma clean_file_was_streamed_witness:
  "\<exists>f' sent. get_file (fst (scan_file sample_lib 5 6 (clamav_run sample_clam (sample_clamd (u ''stream: OK'' @ [0]))
      [Piece [1, 2], Piece [3]]) id 30 (file_db FILE_QUARANTINED))) 30 = Some f'
    \<and> f_state f' = FILE_CLEAN \<and> instream_decode sent = Some [1, 2, 3]"
proof -
  let ?items = "[Piece [1, 2], Piece [3]]" and ?d = "sample_clamd (u ''stream: OK'' @ [0])"
  have ok: "clam_config_ok sample_clam" by (simp add: clam_config_ok_def sample_clam_def u_def)
  have "\<exists>sent. clamav_scan sample_clam ?d ?items = Done (VERDICT_CLEAN, sent)"
    by (simp add: sample_clamd_def sample_clam_def clamav_scan_def exchange_def drain_def pack_u32_def
        parse_response_def blocks.simps butlast_append u_def)
  then have "clamav_run sample_clam ?d ?items = Scanned [1, 2, 3] VERDICT_CLEAN"
    by (auto simp: clamav_run_def)
  then have "\<exists>f'. get_file (fst (scan_file sample_lib 5 6 (clamav_run sample_clam ?d ?items) id 30
      (file_db FILE_QUARANTINED))) 30 = Some f' \<and> f_state f' = FILE_CLEAN"
    by (simp add: scan_file_def claim_scan_def finish_scan_def file_terminal_def get_write_file scan_result_of_def)
  then obtain f' where g: "get_file (fst (scan_file sample_lib 5 6 (clamav_run sample_clam ?d ?items) id 30
      (file_db FILE_QUARANTINED))) 30 = Some f'" and f: "f_state f' = FILE_CLEAN" by blast
  obtain sent where "instream_decode sent = Some [1, 2, 3]"
    using clean_file_was_streamed [OF ok _ _ g, of "sample_file FILE_QUARANTINED"] f by auto
  with f g show ?thesis by blast
qed

end
