(* ===== verification/Object_Storage.thy ===== *)
theory Object_Storage
  imports Files Clamav
begin

text \<open>
  \<open>infrastructure/s3.py\<close>: the adapter \<open>Boto3ObjectStorage\<close> between the file services and an
  S3 client.  What the provider answers is the record \<open>s3\<close> (\<open>Inl\<close> is the exception a call
  raises); the code that picks the internal or the public client is a step relation, because
  the calls run in threads.
\<close>

section \<open>The provider\<close>

text \<open>A botocore \<open>ClientError\<close> with its code, any other exception of the client, and the
  adapter's own \<open>MultipartPaginationError\<close>.\<close>

datatype s3_error = Client_Error "ustr option" | Provider_Error | Pagination_Error

type_synonym 'a s3_result = "s3_error + 'a"

record multipart_page =
  pg_uploads :: "(ustr option \<times> ustr option) list"
  pg_truncated :: bool
  pg_next_key :: "ustr option"
  pg_next_upload :: "ustr option"

record object_metadata =
  om_size_bytes :: int
  om_etag :: "ustr option"

text \<open>A page is asked for by prefix and markers; the number of the request lets the provider
  answer the same question differently.  A body is the list of what its reads return.\<close>

record s3 =
  s3_page :: "ustr \<Rightarrow> (ustr \<times> ustr) option \<Rightarrow> nat \<Rightarrow> multipart_page s3_result"
  s3_create :: "ustr \<Rightarrow> ustr \<Rightarrow> ustr s3_result"
  s3_complete :: "ustr \<Rightarrow> ustr \<Rightarrow> completed_part list \<Rightarrow> unit s3_result"
  s3_head :: "ustr \<Rightarrow> object_metadata s3_result"
  s3_abort :: "ustr \<Rightarrow> ustr \<Rightarrow> unit s3_result"
  s3_body :: "ustr \<Rightarrow> bytes s3_result list s3_result"
  s3_presign_part :: "ustr \<Rightarrow> ustr \<Rightarrow> int \<Rightarrow> int \<Rightarrow> ustr result"
  s3_presign_get :: "ustr \<Rightarrow> int \<Rightarrow> ustr result"

section \<open>Listing\<close>

definition page_ids :: "ustr \<Rightarrow> multipart_page \<Rightarrow> ustr list" where
  "page_ids key page = concat (map
     (\<lambda>(k, i). case i of Some x \<Rightarrow> if k = Some key then [x] else [] | None \<Rightarrow> []) (pg_uploads page))"

definition next_markers :: "multipart_page \<Rightarrow> (ustr \<times> ustr) option" where
  "next_markers page = (case pg_next_key page of
       None \<Rightarrow> None
     | Some k \<Rightarrow> (case pg_next_upload page of None \<Rightarrow> None | Some m \<Rightarrow> Some (k, m)))"

text \<open>The loop; \<open>None\<close> is a loop that never ends.  The number of requests made is returned
  with the result.\<close>

partial_function (option) list_pages ::
  "s3 \<Rightarrow> ustr \<Rightarrow> nat \<Rightarrow> ustr list \<Rightarrow> (ustr \<times> ustr) list \<Rightarrow> (ustr \<times> ustr) option
   \<Rightarrow> (ustr list s3_result \<times> nat) option" where
  "list_pages p key n ids seen markers =
     (case s3_page p key markers n of
        Inl e \<Rightarrow> Some (Inl e, Suc n)
      | Inr page \<Rightarrow>
          if \<not> pg_truncated page then Some (Inr (sort (remdups (ids @ page_ids key page))), Suc n)
          else (case next_markers page of
              None \<Rightarrow> Some (Inl Pagination_Error, Suc n)
            | Some next_marker \<Rightarrow>
                if next_marker \<in> set seen then Some (Inl Pagination_Error, Suc n)
                else list_pages p key (Suc n) (ids @ page_ids key page) (next_marker # seen)
                  (Some next_marker)))"

declare list_pages.simps [code]

definition list_multipart_uploads :: "s3 \<Rightarrow> ustr \<Rightarrow> (ustr list s3_result \<times> nat) option" where
  "list_multipart_uploads p key = list_pages p key 0 [] [] None"

section \<open>Objects\<close>

definition error_in :: "string list \<Rightarrow> s3_error \<Rightarrow> bool" where
  "error_in codes e = (case e of Client_Error (Some c) \<Rightarrow> c \<in> set (map u codes) | _ \<Rightarrow> False)"

definition stat_object :: "s3 \<Rightarrow> ustr \<Rightarrow> object_metadata option s3_result" where
  "stat_object p key = (case s3_head p key of
       Inl e \<Rightarrow> if error_in [''404'', ''NoSuchKey'', ''NotFound''] e then Inr None else Inl e
     | Inr head \<Rightarrow> Inr (Some head))"

definition complete_multipart ::
  "s3 \<Rightarrow> ustr \<Rightarrow> ustr \<Rightarrow> completed_part list \<Rightarrow> object_metadata s3_result" where
  "complete_multipart p key m parts = (case s3_complete p key m parts of
       Inl e \<Rightarrow> Inl e | Inr _ \<Rightarrow> s3_head p key)"

definition abort_multipart :: "s3 \<Rightarrow> ustr \<Rightarrow> ustr \<Rightarrow> unit s3_result" where
  "abort_multipart p key m = (case s3_abort p key m of
       Inl e \<Rightarrow> if error_in [''NoSuchUpload'', ''404'', ''NotFound''] e then Inr () else Inl e
     | Inr _ \<Rightarrow> Inr ())"

text \<open>The chunks of an object: the loop ends at the first empty read.\<close>

fun body_chunks :: "bytes s3_result list \<Rightarrow> stream_item list" where
  "body_chunks [] = []"
| "body_chunks (Inl e # reads) = [Stream_Raises]"
| "body_chunks (Inr chunk # reads) = (if chunk = [] then [] else Piece chunk # body_chunks reads)"

definition stream_object :: "s3 \<Rightarrow> ustr \<Rightarrow> stream_item list" where
  "stream_object p key = (case s3_body p key of Inl e \<Rightarrow> [Stream_Raises] | Inr reads \<Rightarrow> body_chunks reads)"

text \<open>The adapter as the services see it; a call that raises or never returns ends in their
  timeout.\<close>

definition no_error :: "'a s3_result \<Rightarrow> 'a option" where
  "no_error r = (case r of Inl e \<Rightarrow> None | Inr x \<Rightarrow> Some x)"

definition object_storage :: "s3 \<Rightarrow> storage" where
  "object_storage p = \<lparr>
     st_list = (\<lambda>key. Option.bind (list_multipart_uploads p key) (\<lambda>(r, n). no_error r)),
     st_create = (\<lambda>key content_type. no_error (s3_create p key content_type)),
     st_complete = (\<lambda>key m parts. map_option om_size_bytes (no_error (complete_multipart p key m parts))),
     st_presign_part = s3_presign_part p, st_presign_get = s3_presign_get p\<rparr>"

section \<open>The clients\<close>

text \<open>The lazy construction of a client in a thread: an unlocked check, the lock, a second
  check, the construction and its publication.  A built client is its number.\<close>

datatype getter = Check | Wait | Locked | Built nat | Returned nat | Raised

record client_cell =
  ce_client :: "nat option"
  ce_lock :: "nat option"
  ce_built :: nat
  ce_thread :: "nat \<Rightarrow> getter"

definition goes :: "nat \<Rightarrow> getter \<Rightarrow> client_cell \<Rightarrow> client_cell" where
  "goes t g s = s\<lparr>ce_thread := (ce_thread s)(t := g)\<rparr>"

inductive client_step :: "client_cell \<Rightarrow> client_cell \<Rightarrow> bool" where
  check_hit: "ce_thread s t = Check \<Longrightarrow> ce_client s = Some c \<Longrightarrow> client_step s (goes t (Returned c) s)"
| check_miss: "ce_thread s t = Check \<Longrightarrow> ce_client s = None \<Longrightarrow> client_step s (goes t Wait s)"
| acquire: "ce_thread s t = Wait \<Longrightarrow> ce_lock s = None
    \<Longrightarrow> client_step s (goes t Locked (s\<lparr>ce_lock := Some t\<rparr>))"
| locked_hit: "ce_thread s t = Locked \<Longrightarrow> ce_client s = Some c
    \<Longrightarrow> client_step s (goes t (Returned c) (s\<lparr>ce_lock := None\<rparr>))"
| locked_build: "ce_thread s t = Locked \<Longrightarrow> ce_client s = None
    \<Longrightarrow> client_step s (goes t (Built (ce_built s)) (s\<lparr>ce_built := Suc (ce_built s)\<rparr>))"
| build_raises: "ce_thread s t = Locked \<Longrightarrow> ce_client s = None
    \<Longrightarrow> client_step s (goes t Raised (s\<lparr>ce_lock := None\<rparr>))"
| publish: "ce_thread s t = Built c
    \<Longrightarrow> client_step s (goes t (Returned c) (s\<lparr>ce_client := Some c, ce_lock := None\<rparr>))"

definition no_client :: client_cell where
  "no_client = \<lparr>ce_client = None, ce_lock = None, ce_built = 0, ce_thread = (\<lambda>_. Check)\<rparr>"

text \<open>Which cell a call uses: presigned URLs are signed for the public endpoint, when one is
  configured.\<close>

datatype s3_client_kind = Internal_Client | Public_Client

definition presign_client :: "ustr option \<Rightarrow> s3_client_kind" where
  "presign_client public_endpoint_url = (case public_endpoint_url of
       None \<Rightarrow> Internal_Client | Some _ \<Rightarrow> Public_Client)"

end
