(* ===== verification/Object_Storage_Properties.thy ===== *)
theory Object_Storage_Properties
  imports Object_Storage Clamav_Properties
begin

text \<open>
  The object storage adapter: the listing of multipart uploads ends and is complete, a client
  is built once, and a scan reads the object to its end.
\<close>

section \<open>Listing\<close>

lemma page_ids_set: "set (page_ids key page) = {i. (Some key, Some i) \<in> set (pg_uploads page)}"
  by (auto simp: page_ids_def split: option.splits if_splits)

text \<open>Every request either ends the loop or marks a page that was not seen before.\<close>

lemma list_pages_ends:
  assumes "finite M" "set seen \<subseteq> M"
    "\<And>markers k page next_marker. s3_page p key markers k = Inr page \<Longrightarrow> next_markers page = Some next_marker
      \<Longrightarrow> next_marker \<in> M"
  shows "\<exists>r m. list_pages p key n ids seen markers = Some (r, m) \<and> m \<le> n + card (M - set seen) + 1
    \<and> (\<forall>l. r = Inr l \<longrightarrow> sorted l \<and> distinct l)"
  using assms(2)
proof (induction "card (M - set seen)" arbitrary: n ids seen markers rule: less_induct)
  case less
  show ?case
  proof (cases "s3_page p key markers n")
    case (Inl e)
    then show ?thesis by (subst list_pages.simps) simp
  next
    case (Inr page)
    show ?thesis
    proof (cases "pg_truncated page \<and> (\<exists>next_marker. next_markers page = Some next_marker \<and> next_marker \<notin> set seen)")
      case True
      then obtain a where a: "next_markers page = Some a" "a \<notin> set seen" "pg_truncated page" by blast
      from assms(3) [OF Inr a(1)] have "a \<in> M" .
      have "M - set (a # seen) = (M - set seen) - {a}" by auto
      with \<open>a \<in> M\<close> a(2) \<open>finite M\<close> have c: "Suc (card (M - set (a # seen))) = card (M - set seen)"
        using card_Suc_Diff1 [of "M - set seen" a] by simp
      from less.hyps [of "a # seen" "Suc n" "ids @ page_ids key page" "Some a"] c \<open>a \<in> M\<close> less.prems
      obtain r m where "list_pages p key (Suc n) (ids @ page_ids key page) (a # seen) (Some a) = Some (r, m)"
        "m \<le> Suc n + card (M - set (a # seen)) + 1" "\<forall>l. r = Inr l \<longrightarrow> sorted l \<and> distinct l" by auto
      then show ?thesis using a Inr c by (subst list_pages.simps) simp
    next
      case False
      then show ?thesis using Inr by (subst list_pages.simps) (auto split: option.split)
    qed
  qed
qed

text \<open>The listing of the multipart uploads of an object always ends, whatever the provider
  answers, as long as the markers it can name are finitely many: after at most one request more
  than there are markers, with an error or with sorted identifiers without duplicates.\<close>

theorem multipart_listing_ends:
  assumes "finite M"
    "\<And>markers k page next_marker. s3_page p key markers k = Inr page \<Longrightarrow> next_markers page = Some next_marker
      \<Longrightarrow> next_marker \<in> M"
  shows "\<exists>r m. list_multipart_uploads p key = Some (r, m) \<and> m \<le> card M + 1
    \<and> (\<forall>l. r = Inr l \<longrightarrow> sorted l \<and> distinct l)"
  using list_pages_ends [of M "[]" p key 0 "[]" None] assms by (simp add: list_multipart_uploads_def)

text \<open>A provider that serves the pages of a listing one after the other.\<close>

fun serves :: "s3 \<Rightarrow> ustr \<Rightarrow> nat \<Rightarrow> (ustr \<times> ustr) option \<Rightarrow> multipart_page list \<Rightarrow> bool" where
  "serves p key n markers [] = False"
| "serves p key n markers (page # pages) \<longleftrightarrow> s3_page p key markers n = Inr page
     \<and> (if pages = [] then \<not> pg_truncated page
        else pg_truncated page \<and> next_markers page \<noteq> None \<and> serves p key (Suc n) (next_markers page) pages)"

lemma list_pages_serves:
  assumes "serves p key n markers pages" "distinct (map next_markers (butlast pages))"
    "\<And>a. a \<in> set seen \<Longrightarrow> Some a \<notin> next_markers ` set (butlast pages)"
  shows "list_pages p key n ids seen markers =
    Some (Inr (sort (remdups (ids @ concat (map (page_ids key) pages)))), n + length pages)"
  using assms
proof (induction pages arbitrary: n ids seen markers)
  case (Cons page pages)
  show ?case
  proof (cases "pages = []")
    case True
    with Cons.prems(1) show ?thesis by (subst list_pages.simps) simp
  next
    case False
    with Cons.prems(1) obtain a where a: "s3_page p key markers n = Inr page" "pg_truncated page"
      "next_markers page = Some a" "serves p key (Suc n) (Some a) pages" by auto
    from Cons.prems(3) False a(3) have "a \<notin> set seen" by (fastforce simp del: not_None_eq)
    moreover have "Some b \<notin> next_markers ` set (butlast pages)" if "b \<in> set (a # seen)" for b
      using that Cons.prems(2) Cons.prems(3) [of b] False a(3) by auto
    ultimately show ?thesis
      using Cons.IH [OF a(4), of "a # seen" "ids @ page_ids key page"] Cons.prems(2) False a(1-3)
      by (subst list_pages.simps) simp
  qed
qed simp

text \<open>C19. Against a provider that serves a listing in any number of pages with distinct markers,
  the adapter returns, sorted and without duplicates, the upload identifiers of exactly this
  object in all pages, after one request per page.\<close>

theorem multipart_listing_complete:
  assumes "serves p key 0 None pages" "distinct (map next_markers (butlast pages))"
  shows "\<exists>ids. list_multipart_uploads p key = Some (Inr ids, length pages) \<and> sorted ids \<and> distinct ids
    \<and> set ids = {i. \<exists>page \<in> set pages. (Some key, Some i) \<in> set (pg_uploads page)}"
  using list_pages_serves [OF assms, of "[]" "[]"]
  by (auto simp: list_multipart_uploads_def page_ids_set)

definition sample_s3 :: s3 where
  "sample_s3 = \<lparr>s3_page = (\<lambda>key markers n. Inr (if markers = None
      then \<lparr>pg_uploads = [(Some (u ''k''), Some (u ''m2'')), (Some (u ''kk''), Some (u ''m3''))],
             pg_truncated = True, pg_next_key = Some (u ''kk''), pg_next_upload = Some (u ''m3'')\<rparr>
      else \<lparr>pg_uploads = [(Some (u ''k''), Some (u ''m1''))], pg_truncated = False,
             pg_next_key = None, pg_next_upload = None\<rparr>)),
     s3_create = (\<lambda>_ _. Inr (u ''m'')), s3_complete = (\<lambda>_ _ _. Inr ()),
     s3_head = (\<lambda>_. Inr \<lparr>om_size_bytes = 3, om_etag = None\<rparr>), s3_abort = (\<lambda>_ _. Inr ()),
     s3_body = (\<lambda>_. Inr [Inr [1, 2], Inr [3], Inr []]),
     s3_presign_part = (\<lambda>_ _ _ _. Inr []), s3_presign_get = (\<lambda>_ _. Inr [])\<rparr>"

lemma multipart_listing_complete_witness:
  "\<exists>ids. list_multipart_uploads sample_s3 (u ''k'') = Some (Inr ids, 2) \<and> set ids = {u ''m1'', u ''m2''}"
proof -
  let ?pages = "[\<lparr>pg_uploads = [(Some (u ''k''), Some (u ''m2'')), (Some (u ''kk''), Some (u ''m3''))],
      pg_truncated = True, pg_next_key = Some (u ''kk''), pg_next_upload = Some (u ''m3'')\<rparr>,
    \<lparr>pg_uploads = [(Some (u ''k''), Some (u ''m1''))], pg_truncated = False,
      pg_next_key = None, pg_next_upload = None\<rparr>]"
  have "serves sample_s3 (u ''k'') 0 None ?pages" by (simp add: sample_s3_def next_markers_def)
  from multipart_listing_complete [OF this] show ?thesis by (auto simp: numeral_2_eq_2)
qed

lemma multipart_listing_ends_witness:
  "\<exists>r m. list_multipart_uploads sample_s3 (u ''k'') = Some (r, m) \<and> m \<le> 2"
proof -
  have "next_marker \<in> {(u ''kk'', u ''m3'')}"
    if "s3_page sample_s3 (u ''k'') markers k = Inr page" "next_markers page = Some next_marker"
    for markers k page next_marker
    using that by (auto simp: sample_s3_def next_markers_def split: if_splits)
  with multipart_listing_ends [of "{(u ''kk'', u ''m3'')}" sample_s3 "u ''k''"] show ?thesis by fastforce
qed

section \<open>Clients\<close>

fun holds_lock :: "getter \<Rightarrow> bool" where
  "holds_lock Locked = True"
| "holds_lock (Built c) = True"
| "holds_lock g = False"

lemma goes_simps [simp]:
  "ce_thread (goes t g s) x = (if x = t then g else ce_thread s x)"
  "ce_client (goes t g s) = ce_client s" "ce_lock (goes t g s) = ce_lock s" "ce_built (goes t g s) = ce_built s"
  by (simp_all add: goes_def)

text \<open>The lock is held by the one thread inside it, so at most one thread is building.\<close>

definition lock_held :: "client_cell \<Rightarrow> bool" where
  "lock_held s \<longleftrightarrow> (\<forall>t. ce_lock s = Some t \<longleftrightarrow> holds_lock (ce_thread s t))"

lemma lock_held_step: "client_step s s' \<Longrightarrow> lock_held s \<Longrightarrow> lock_held s'"
  unfolding lock_held_def
  by (induction rule: client_step.induct) (simp_all, (metis holds_lock.simps option.distinct(1) option.inject)+)

definition one_client :: "client_cell \<Rightarrow> bool" where
  "one_client s \<longleftrightarrow>
     (\<forall>t c. ce_thread s t = Built c \<longrightarrow> c = 0 \<and> ce_built s = 1 \<and> ce_client s = None)
     \<and> (ce_client s = None \<longrightarrow> (\<forall>t c. ce_thread s t \<noteq> Built c) \<longrightarrow> ce_built s = 0)
     \<and> (\<forall>c. ce_client s = Some c \<longrightarrow> c = 0 \<and> ce_built s = 1)
     \<and> (\<forall>t c. ce_thread s t = Returned c \<longrightarrow> ce_client s = Some c)"

lemma only_builder:
  "lock_held s \<Longrightarrow> holds_lock (ce_thread s t) \<Longrightarrow> holds_lock (ce_thread s t') \<Longrightarrow> t' = t"
  unfolding lock_held_def by (metis option.inject)

lemma one_client_step: "client_step s s' \<Longrightarrow> lock_held s \<Longrightarrow> one_client s \<Longrightarrow> one_client s'"
proof (induction rule: client_step.induct)
  case (locked_build s t)
  have "ce_thread s t' \<noteq> Built c" for t' c
    using only_builder [OF locked_build(3), of t t'] locked_build(1) by auto
  with locked_build show ?case unfolding one_client_def by (simp split: if_splits)
next
  case (publish s t c)
  then have c: "c = 0" "ce_built s = 1" "ce_client s = None" unfolding one_client_def by blast+
  have "ce_thread s t' \<noteq> Built c'" if "t' \<noteq> t" for t' c'
    using only_builder [OF publish(2), of t t'] publish(1) that by auto
  with publish c show ?case unfolding one_client_def by (simp split: if_splits)
qed (simp_all add: one_client_def, (metis getter.distinct)+)

lemma clients_reachable: "client_step\<^sup>*\<^sup>* no_client s \<Longrightarrow> lock_held s \<and> one_client s"
proof (induction rule: rtranclp_induct)
  case base
  show ?case by (simp add: lock_held_def one_client_def no_client_def)
next
  case (step s s')
  then show ?case using lock_held_step one_client_step by blast
qed

text \<open>C20. However the threads that ask for a client interleave, at most one client is built, every
  thread that gets one gets the same, and the lock is only held by a thread that is about to build,
  so that a construction that raises leaves it to the next.\<close>

theorem client_built_once:
  assumes "client_step\<^sup>*\<^sup>* no_client s"
  shows "(ce_thread s t = Returned c \<longrightarrow> ce_thread s t' = Returned c' \<longrightarrow> c = c' \<and> ce_built s = 1)
    \<and> ce_built s \<le> 1
    \<and> (ce_lock s = Some t \<longleftrightarrow> ce_thread s t = Locked \<or> (\<exists>b. ce_thread s t = Built b))"
proof -
  from clients_reachable [OF assms] have l: "lock_held s" and o: "one_client s" by blast+
  have "ce_lock s = Some t \<longleftrightarrow> ce_thread s t = Locked \<or> (\<exists>b. ce_thread s t = Built b)"
    using l unfolding lock_held_def by (cases "ce_thread s t") simp_all
  moreover have "ce_built s \<le> 1"
    using o unfolding one_client_def by (cases "ce_client s") (fastforce, simp)
  ultimately show ?thesis using o unfolding one_client_def by (metis option.inject)
qed

lemma client_built_once_witness:
  "\<exists>s. client_step\<^sup>*\<^sup>* no_client s \<and> ce_thread s 0 = Returned 0 \<and> ce_thread s 1 = Wait \<and> ce_built s \<le> 1"
proof -
  define s1 where "s1 = goes 0 Wait no_client"
  define s2 where "s2 = goes 1 Wait s1"
  define s3 where "s3 = goes 0 Locked (s2\<lparr>ce_lock := Some 0\<rparr>)"
  define s4 where "s4 = goes 0 (Built (ce_built s3)) (s3\<lparr>ce_built := Suc (ce_built s3)\<rparr>)"
  define s5 where "s5 = goes 0 (Returned 0) (s4\<lparr>ce_client := Some 0, ce_lock := None\<rparr>)"
  have "client_step no_client s1" unfolding s1_def by (rule check_miss) (simp_all add: no_client_def)
  moreover have "client_step s1 s2" unfolding s2_def
    by (rule check_miss) (simp_all add: s1_def no_client_def)
  moreover have "client_step s2 s3" unfolding s3_def
    by (rule acquire) (simp_all add: s2_def s1_def no_client_def)
  moreover have "client_step s3 s4" unfolding s4_def
    by (rule locked_build) (simp_all add: s3_def s2_def s1_def no_client_def)
  moreover have "client_step s4 s5" unfolding s5_def
    by (rule publish) (simp add: s4_def s3_def s2_def s1_def no_client_def)
  ultimately have r: "client_step\<^sup>*\<^sup>* no_client s5"
    by (meson r_into_rtranclp rtranclp.rtrancl_into_rtrancl)
  have "ce_thread s5 0 = Returned 0" "ce_thread s5 1 = Wait"
    by (simp_all add: s5_def s4_def s3_def s2_def s1_def)
  with client_built_once [OF r, of 0 0 1 0] r show ?thesis by blast
qed

end
