(* ===== verification/Settings_Properties.thy ===== *)
theory Settings_Properties
  imports Settings Files_Properties
begin

text \<open>
  What accepted settings guarantee: the JWT secret is the canonical text of enough random
  material, and the workers' scanner fits the uploads and the task limits.
\<close>

lemma b64_value_symbol [simp]: "v < 64 \<Longrightarrow> b64_value (b64_symbol v) = v"
  by (auto simp: b64_value_def b64_symbol_def)

lemma b64_char_symbol [simp]: "v < 64 \<Longrightarrow> b64_char (b64_symbol v)"
  by (auto simp: b64_char_def b64_symbol_def)

lemma encode_bytes:
  assumes "x < 256" "y < 256" "z < (256 :: nat)"
  shows "x div 4 < 64" "x mod 4 * 16 + y div 16 < 64" "y mod 16 * 4 + z div 64 < 64"
    "x mod 4 * 16 < 64" "y mod 16 * 4 < 64"
proof -
  have "x div 4 < 64" "y div 16 < 16" "z div 64 < 4" "x mod 4 < 4" "y mod 16 < 16" using assms by auto
  then show "x div 4 < 64" "x mod 4 * 16 + y div 16 < 64" "y mod 16 * 4 + z div 64 < 64"
    "x mod 4 * 16 < 64" "y mod 16 * 4 < 64" by linarith+
qed

lemma join_bits:
  fixes a b k :: nat
  assumes "b < k"
  shows "(a * k + b) div k = a" "(a * k + b) mod k = b"
  using assms by simp_all

lemma decode_encode: "list_all (\<lambda>b. b < 256) bs \<Longrightarrow> urlsafe_b64decode (urlsafe_b64encode bs) = Some bs"
proof (induction bs rule: urlsafe_b64encode.induct)
  case (2 x)
  then show ?case using encode_bytes [of x 0 0] by simp
next
  case (3 x y)
  then have "y div 16 < 16" "y mod 16 * 4 div 4 = y mod 16" by auto
  with 3 encode_bytes [of x y 0] join_bits [of "y div 16" 16 "x mod 4"] show ?case by simp
next
  case (4 x y z rest)
  then have "y div 16 < 16" "z div 64 < 4" by auto
  with 4 encode_bytes [of x y z] join_bits [of "y div 16" 16 "x mod 4"] join_bits [of "z div 64" 4 "y mod 16"]
  show ?case by simp
qed simp

lemma encode_chars: "list_all (\<lambda>b. b < 256) bs \<Longrightarrow> list_all b64_char (urlsafe_b64encode bs)"
proof (induction bs rule: urlsafe_b64encode.induct)
  case (2 x)
  then show ?case using encode_bytes [of x 0 0] by simp
next
  case (3 x y)
  then show ?case using encode_bytes [of x y 0] by simp
next
  case (4 x y z rest)
  then show ?case using encode_bytes [of x y z] by simp
qed simp

lemma b64_value_small: "b64_value c < 64"
  by (auto simp: b64_value_def)

lemma pack_bits:
  fixes a b k m :: nat
  assumes "a < m" "b < k"
  shows "a * k + b < m * k"
proof -
  have "a * k + b < Suc a * k" using assms(2) by simp
  also have "\<dots> \<le> m * k" using assms(1) by (intro mult_le_mono1) simp
  finally show ?thesis .
qed

lemma decode_bytes: "urlsafe_b64decode s = Some bs \<Longrightarrow> list_all (\<lambda>b. b < 256) bs"
proof (induction s arbitrary: bs rule: urlsafe_b64decode.induct)
  case (3 a b)
  then show ?case using b64_value_small [of a] b64_value_small [of b] by auto
next
  case (4 a b c)
  then show ?case using b64_value_small [of a] b64_value_small [of b] b64_value_small [of c] by auto
next
  case (5 a b c d rest)
  have "b64_value a * 4 + b64_value b div 16 < 256" "b64_value b mod 16 * 16 + b64_value c div 4 < 256"
    "b64_value c mod 4 * 64 + b64_value d < 256"
    using pack_bits [of "b64_value a" 64 "b64_value b div 16" 4]
      pack_bits [of "b64_value b mod 16" 16 "b64_value c div 4" 16]
      pack_bits [of "b64_value c mod 4" 4 "b64_value d" 64]
      b64_value_small [of a] b64_value_small [of b] b64_value_small [of c] b64_value_small [of d] by auto
  with 5 show ?case by auto
qed auto

section \<open>The encoding of RFC 4648\<close>

text \<open>The reference encoding: the bits of all bytes, most significant first, in groups of six,
  the last one filled with zeros, each group the number of a symbol of the URL and filename
  safe alphabet; no padding.\<close>

definition bits_of :: "nat \<Rightarrow> nat \<Rightarrow> bool list" where
  "bits_of k n = map (\<lambda>i. odd (n div 2 ^ i)) (rev [0..<k])"

definition bits_number :: "bool list \<Rightarrow> nat" where
  "bits_number bs = foldl (\<lambda>n b. 2 * n + (if b then 1 else 0)) 0 bs"

fun sextets :: "bool list \<Rightarrow> bool list list" where
  "sextets [] = []"
| "sextets (b # bs) = (let g = take 6 (b # bs) in
     (g @ replicate (6 - length g) False) # sextets (drop 6 (b # bs)))"

definition url_alphabet :: ustr where
  "url_alphabet = u ''ABCDEFGHIJKLMNOPQRSTUVWXYZabcdefghijklmnopqrstuvwxyz0123456789-_''"

definition rfc4648_base64url :: "bytes \<Rightarrow> ustr" where
  "rfc4648_base64url bs =
     map (\<lambda>g. url_alphabet ! bits_number g) (sextets (concat (map (bits_of 8) bs)))"

lemma length_bits [simp]: "length (bits_of k n) = k"
  by (simp add: bits_of_def)

lemma bits_add: "bits_of (a + b) n = bits_of a (n div 2 ^ b) @ bits_of b n"
proof -
  have r: "[0..<a + b] = [0..<b] @ map (\<lambda>i. i + b) [0..<a]"
    using upt_add_eq_append [of 0 b a] map_add_upt [of b a] by (simp add: add.commute)
  have d: "n div 2 ^ (i + b) = n div 2 ^ b div 2 ^ i" for i
    by (metis div_mult2_eq mult.commute power_add)
  show ?thesis unfolding bits_of_def r by (simp add: rev_map o_def d)
qed

lemma number_append: "bits_number (as @ bs) = bits_number as * 2 ^ length bs + bits_number bs"
proof (induction bs rule: rev_induct)
  case (snoc b bs)
  then show ?case by (simp add: bits_number_def algebra_simps flip: append_assoc)
qed (simp add: bits_number_def)

lemma number_bits: "bits_number (bits_of k n) = n mod 2 ^ k"
proof (induction k arbitrary: n)
  case (Suc k)
  have "bits_of (Suc k) n = bits_of k (n div 2) @ bits_of 1 n" using bits_add [of k 1 n] by simp
  moreover have "bits_number (bits_of 1 n) = n mod 2" by (simp add: bits_number_def bits_of_def odd_iff_mod_2_eq_one)
  moreover have "n mod 2 ^ Suc k = n div 2 mod 2 ^ k * 2 + n mod 2"
    using mod_mult2_eq [of n 2 "2 ^ k"] by simp
  ultimately show ?case using Suc.IH [of "n div 2"] by (simp add: number_append)
qed (simp add: bits_number_def bits_of_def)

lemma number_zeros [simp]: "bits_number (replicate k False) = 0"
  by (induction k) (simp_all add: bits_number_def)

lemma sextets_append: "length g = 6 \<Longrightarrow> sextets (g @ bs) = g # sextets bs"
  by (cases g) (simp_all add: Let_def)

lemma sextets_last: "0 < length g \<Longrightarrow> length g < 6 \<Longrightarrow> sextets g = [g @ replicate (6 - length g) False]"
  by (cases g) (simp_all add: Let_def)

lemma sextets_join:
  "length g + length h = 6 \<Longrightarrow> sextets (g @ h @ bs) = (g @ h) # sextets bs"
  using sextets_append [of "g @ h" bs] by simp

lemma byte_bits:
  "bits_of 8 x = bits_of 6 (x div 4) @ bits_of 2 x" "bits_of 8 x = bits_of 4 (x div 16) @ bits_of 4 x"
  "bits_of 8 x = bits_of 2 (x div 64) @ bits_of 6 x"
  using bits_add [of 6 2 x] bits_add [of 4 4 x] bits_add [of 2 6 x] by simp_all

lemma symbol_alphabet:
  assumes "v < 64"
  shows "b64_symbol v = url_alphabet ! v"
proof -
  have "map b64_symbol [0..<64] = url_alphabet"
    by (simp add: upt_rec b64_symbol_def url_alphabet_def u_def)
  from arg_cong [OF this, of "\<lambda>xs. xs ! v"] assms show ?thesis by simp
qed

text \<open>The arithmetic of the program computes the reference encoding.\<close>

lemma encode_rfc4648: "list_all (\<lambda>b. b < 256) bs \<Longrightarrow> urlsafe_b64encode bs = rfc4648_base64url bs"
proof (induction bs rule: urlsafe_b64encode.induct)
  case 1
  then show ?case by (simp add: rfc4648_base64url_def)
next
  case (2 x)
  then have "x div 4 < 64" "x mod 4 * 16 < 64" by auto
  then show ?case
    by (simp add: rfc4648_base64url_def byte_bits(1) sextets_append sextets_last number_append number_bits
        symbol_alphabet)
next
  case (3 x y)
  then have "x div 4 < 64" "x mod 4 * 16 + y div 16 < 64" "y mod 16 * 4 < 64" "y div 16 < 16"
    using encode_bytes [of x y 0] by auto
  then show ?case
    unfolding rfc4648_base64url_def
    by (simp add: byte_bits(1) [of x] byte_bits(2) [of y] sextets_append sextets_join sextets_last
        number_append number_bits symbol_alphabet)
next
  case (4 x y z rest)
  then have "x div 4 < 64" "x mod 4 * 16 + y div 16 < 64" "y mod 16 * 4 + z div 64 < 64" "y div 16 < 16"
    "z div 64 < 4" "z mod 64 < 64"
    using encode_bytes [of x y z] by auto
  moreover have "urlsafe_b64encode rest = rfc4648_base64url rest" using 4 by simp
  ultimately show ?case
    unfolding rfc4648_base64url_def
    by (simp add: byte_bits(1) [of x] byte_bits(2) [of y] byte_bits(3) [of z] sextets_append sextets_join
        number_append number_bits symbol_alphabet)
qed

lemma occurs_iff: "occurs needle s \<longleftrightarrow> (\<exists>p q. s = p @ needle @ q)"
proof (induction s)
  case (Cons x xs)
  have "take (length needle) (x # xs) = needle \<longleftrightarrow> (\<exists>q. x # xs = needle @ q)"
    by (metis append_eq_conv_conj append_take_drop_id)
  with Cons show ?case by (auto simp: Cons_eq_append_conv)
qed simp

text \<open>C23. The JWT secrets that staging and production accept are exactly the unpadded base64url texts,
  as RFC 4648 defines them, of at least 32 bytes with at least 16 different values, that
  contain, in any case, none of the placeholder words; each is the text of one such material.\<close>

theorem jwt_secret_canonical:
  "jwt_secret_ok candidate \<longleftrightarrow>
     (\<exists>!material. list_all (\<lambda>b. b < 256) material \<and> candidate = rfc4648_base64url material
       \<and> 32 \<le> length material \<and> 16 \<le> card (set material)
       \<and> list_all (\<lambda>word. \<nexists>p q. ascii_lower candidate = p @ u word @ q)
           [''change-me'', ''change_me'', ''changeme'', ''example'', ''placeholder'', ''password'', ''common'', ''secret''])"
proof -
  let ?clean = "list_all (\<lambda>word. \<nexists>p q. ascii_lower candidate = p @ u word @ q)
    [''change-me'', ''change_me'', ''changeme'', ''example'', ''placeholder'', ''password'', ''common'', ''secret'']"
  have w: "\<not> list_ex (\<lambda>m. occurs (u m) (ascii_lower candidate)) secret_markers \<longleftrightarrow> ?clean"
    by (simp add: secret_markers_def occurs_iff)
  have one: "m = material" if "list_all (\<lambda>b. b < 256) m" "candidate = rfc4648_base64url m"
      "urlsafe_b64decode candidate = Some material" for m material
    using that decode_encode [OF that(1)] encode_rfc4648 [OF that(1)] by simp
  show ?thesis
  proof
    assume ok: "jwt_secret_ok candidate"
    then obtain material where m: "urlsafe_b64decode candidate = Some material"
      "urlsafe_b64encode material = candidate" "32 \<le> length material" "16 \<le> card (set material)" ?clean
      unfolding jwt_secret_ok_def w by (auto split: option.splits)
    from decode_bytes [OF m(1)] have b: "list_all (\<lambda>b. b < 256) material" .
    with encode_rfc4648 m(2) have "candidate = rfc4648_base64url material" by simp
    with m b one [OF _ _ m(1)] show "\<exists>!material. list_all (\<lambda>b. b < 256) material \<and> candidate = rfc4648_base64url material
       \<and> 32 \<le> length material \<and> 16 \<le> card (set material) \<and> ?clean" by blast
  next
    assume "\<exists>!material. list_all (\<lambda>b. b < 256) material \<and> candidate = rfc4648_base64url material
       \<and> 32 \<le> length material \<and> 16 \<le> card (set material) \<and> ?clean"
    then obtain m where m: "list_all (\<lambda>b. b < 256) m" "candidate = rfc4648_base64url m"
      "32 \<le> length m" "16 \<le> card (set m)" ?clean by blast
    then have c: "candidate = urlsafe_b64encode m" "urlsafe_b64decode candidate = Some m"
      using encode_rfc4648 [OF m(1)] decode_encode [OF m(1)] by simp_all
    with m(3) have "candidate \<noteq> []" by auto
    with c m encode_chars [OF m(1)] show "jwt_secret_ok candidate"
      unfolding jwt_secret_ok_def w by simp
  qed
qed

text \<open>Settings that the validator accepts come back unchanged and fit together: the scanner a worker
  builds from them has a valid configuration whose chunks fit a frame and a stream, a scan times
  out before the soft limit of its task, which comes before the hard limit, which is below the age
  at which an unfinished upload expires; production only runs with a public HTTPS origin, staging
  and production only with an acceptable JWT secret; and with the default limits the scanner
  accepts a stream as long as the largest upload.\<close>

theorem accepted_settings_fit:
  assumes "validate_settings urlsplit s = Inr s'" "upload_start_schema L c"
  shows "s' = s \<and> clam_config_ok (worker_scanner s)
    \<and> cc_max_chunk_bytes (worker_scanner s) \<le> cc_max_stream_bytes (worker_scanner s)
    \<and> cc_total_timeout (worker_scanner s) < se_scan_soft_time_limit_seconds s * second
    \<and> se_scan_soft_time_limit_seconds s < se_scan_hard_time_limit_seconds s
    \<and> se_scan_hard_time_limit_seconds s * second < 24 * hour
    \<and> (se_environment s = u ''production'' \<longrightarrow>
        (\<exists>e. se_s3_public_endpoint_url s = Some e \<and> https_origin urlsplit e))
    \<and> (se_environment s \<in> {u ''staging'', u ''production''} \<longrightarrow> jwt_secret_ok (se_jwt_secret s))
    \<and> us_size_bytes c \<le> int (cc_max_stream_bytes (worker_scanner default_settings))"
proof -
  from assms(1) have "s' = s" and e: "1 \<le> se_clamav_max_chunk_bytes s"
    "se_clamav_max_chunk_bytes s \<le> se_clamav_max_stream_bytes s" "se_clamav_max_stream_bytes s \<le> 104857600"
    "se_clamav_host s \<noteq> []" "1 \<le> se_clamav_port s" "se_clamav_port s \<le> 65535"
    "0 < se_clamav_connect_timeout s" "0 < se_clamav_io_timeout s" "0 < se_clamav_total_timeout s"
    "1 \<le> se_clamav_max_response_bytes s"
    "se_clamav_total_timeout s < se_scan_soft_time_limit_seconds s * second"
    "se_scan_soft_time_limit_seconds s < se_scan_hard_time_limit_seconds s"
    "se_scan_hard_time_limit_seconds s < 86400"
    by (auto simp: validate_settings_def split: if_splits)
  have "clam_config_ok (worker_scanner s)"
    using e by (simp add: clam_config_ok_def worker_scanner_def) linarith
  moreover have "se_environment s = u ''production'' \<longrightarrow>
      (\<exists>e. se_s3_public_endpoint_url s = Some e \<and> https_origin urlsplit e)"
    "se_environment s \<in> {u ''staging'', u ''production''} \<longrightarrow> jwt_secret_ok (se_jwt_secret s)"
    using assms(1) by (auto simp: validate_settings_def split: if_splits option.splits)
  moreover have "us_size_bytes c \<le> int (cc_max_stream_bytes (worker_scanner default_settings))"
    using assms(2) by (simp add: upload_start_schema_def worker_scanner_def default_settings_def)
  ultimately show ?thesis using \<open>s' = s\<close> e by (simp add: worker_scanner_def)
qed

definition sample_secret :: ustr where
  "sample_secret = u ''AAECAwQFBgcICQoLDA0ODxAREhMUFRYXGBkaGxwdHh8''"

definition production_settings :: settings where
  "production_settings = default_settings\<lparr>se_environment := u ''production'', se_jwt_secret := sample_secret,
     se_s3_public_endpoint_url := Some (u ''https://files'')\<rparr>"

definition sample_split :: "ustr \<Rightarrow> split_url option" where
  "sample_split s = Some \<lparr>su_scheme = take 5 s, su_hostname = Some (drop 8 s), su_username = None,
     su_password = None, su_path = [], su_query = [], su_fragment = []\<rparr>"

lemma sample_secret_ok: "jwt_secret_ok sample_secret"
  by code_simp

definition sample_declared :: upload_start where
  "sample_declared = \<lparr>us_project_id = 10, us_filename = u ''raw.json'', us_size_bytes = 3,
     us_sha256 = toy_digest [1, 2, 3], us_category = u ''kimi'', us_file_date = (2026, 7, 1),
     us_content_type = u ''application/json''\<rparr>"

lemma sample_declared_ok: "upload_start_schema sample_lib sample_declared"
proof -
  have "mime_type (u ''application/json'')" by (simp add: u_def mime_type_def mime_char_def)
  moreover have "nonblank_text sample_lib (u ''raw.json'')" "nonblank_text sample_lib (u ''kimi'')"
    by (simp_all add: nonblank_text_def u_def strip_chars_def control_def)
  ultimately show ?thesis using toy_digest_sha256
    by (simp add: upload_start_schema_def sample_declared_def) (simp add: u_def)
qed

lemma accepted_settings_fit_witness:
  "clam_config_ok (worker_scanner production_settings)
   \<and> https_origin sample_split (u ''https://files'') \<and> jwt_secret_ok (se_jwt_secret production_settings)"
proof -
  have "validate_settings sample_split production_settings = Inr production_settings"
    using sample_secret_ok by (simp add: validate_settings_def production_settings_def default_settings_def
      https_origin_def sample_split_def starts_def u_def)
  from accepted_settings_fit [OF this sample_declared_ok] show ?thesis
    by (simp add: production_settings_def)
qed

end
