(* ===== verification/Readiness.thy ===== *)
theory Readiness
  imports Prelude Text
begin

text \<open>
  \<open>modules/health\<close>: the readiness of the four dependencies, the Redis protocol the probe speaks,
  and the two routes.  What the dependencies do, and how a URL splits, are arguments.
\<close>

section \<open>The checker\<close>

text \<open>A probe returns, raises an \<open>Exception\<close>, runs past the timeout or is cancelled.\<close>

datatype probe = Probe_Returns | Probe_Raises | Probe_Slow | Probe_Cancelled

definition DEPENDENCY_NAMES :: "string list" where
  "DEPENDENCY_NAMES = [''postgres'', ''redis'', ''minio'', ''clamav'']"

definition checker_ok :: "(string \<times> probe) list \<Rightarrow> time \<Rightarrow> bool" where
  "checker_ok probes timeout_seconds \<longleftrightarrow>
     set (map fst probes) = set DEPENDENCY_NAMES \<and> 0 < timeout_seconds"

fun check_one :: "probe \<Rightarrow> string option" where
  "check_one Probe_Returns = Some ''ok''"
| "check_one Probe_Raises = Some ''failed''"
| "check_one Probe_Slow = Some ''failed''"
| "check_one Probe_Cancelled = None"

text \<open>\<open>None\<close>: the check was cancelled, which is passed on.\<close>

definition check :: "(string \<times> probe) list \<Rightarrow> (string \<times> string) list option" where
  "check probes = map_option (zip DEPENDENCY_NAMES)
     (those (map (\<lambda>n. check_one (the (map_of probes n))) DEPENDENCY_NAMES))"

definition readiness_status :: "(string \<times> string) list \<Rightarrow> string" where
  "readiness_status dependencies =
     (if list_all (\<lambda>d. snd d = ''ok'') dependencies then ''ok'' else ''failed'')"

definition ready_route :: "(string \<times> probe) list \<Rightarrow> (nat \<times> string \<times> (string \<times> string) list) option" where
  "ready_route probes = map_option (\<lambda>dependencies.
     (if readiness_status dependencies = ''ok'' then 200 else 503, readiness_status dependencies, dependencies))
     (check probes)"

section \<open>Redis\<close>

record redis_url =
  ru_scheme :: ustr
  ru_hostname :: "ustr option"
  ru_port :: "nat option option"  \<comment> \<open>\<open>None\<close>: reading it raises \<open>ValueError\<close>\<close>
  ru_username :: "ustr option"
  ru_password :: "ustr option"
  ru_path :: ustr

text \<open>The library functions, and the server: whether it takes a connection to a host and port, with
  or without TLS, and what it answers to the frames sent so far (up to and with CR LF).\<close>

record redis_world =
  rw_urlsplit :: "ustr \<Rightarrow> redis_url option"
  rw_unquote :: "ustr \<Rightarrow> ustr"
  rw_isdecimal :: "ustr \<Rightarrow> bool"
  rw_connects :: "ustr \<Rightarrow> nat \<Rightarrow> bool \<Rightarrow> bool"
  rw_answer :: "bytes list \<Rightarrow> bytes option"

definition crlf :: bytes where "crlf = [13, 10]"

definition redis_frame :: "bytes list \<Rightarrow> bytes" where
  "redis_frame encoded = 42 # dec (length encoded) @ crlf
     @ concat (map (\<lambda>argument. 36 # dec (length argument) @ crlf @ argument @ crlf) encoded)"

text \<open>A command on the connection that has sent \<open>sent\<close>: the answer without its \<open>+\<close> and line end,
  and what has been sent then.\<close>

definition redis_command ::
  "redis_world \<Rightarrow> ustr list \<Rightarrow> bytes list \<Rightarrow> (bytes \<times> bytes list) option" where
  "redis_command W arguments sent =
     (case those (map utf8_encode arguments) of
        None \<Rightarrow> None
      | Some encoded \<Rightarrow>
        (let sent' = sent @ [redis_frame encoded] in
         case rw_answer W sent' of
           None \<Rightarrow> None
         | Some response \<Rightarrow>
             if length response > 1024 \<or> take 1 response \<noteq> [43] then None
             else Some (drop 1 (take (length response - 2) response), sent')))"

definition expect :: "redis_world \<Rightarrow> ustr list \<Rightarrow> string \<Rightarrow> bytes list \<Rightarrow> bytes list option" where
  "expect W arguments answer sent = (case redis_command W arguments sent of
       None \<Rightarrow> None
     | Some (response, sent') \<Rightarrow> if response = u answer then Some sent' else None)"

definition redis_database :: "redis_url \<Rightarrow> ustr" where
  "redis_database p =
     (let d = (case ru_path p of [] \<Rightarrow> [] | c # rest \<Rightarrow> if c = 47 then rest else c # rest) in
      if d = [] then u ''0'' else d)"

definition redis_auth :: "redis_world \<Rightarrow> redis_url \<Rightarrow> ustr list option" where
  "redis_auth W p = (case ru_password p of
       None \<Rightarrow> None
     | Some password \<Rightarrow>
         Some (u ''AUTH'' # (case ru_username p of
             None \<Rightarrow> []
           | Some username \<Rightarrow> if username = [] then [] else [rw_unquote W username])
           @ [rw_unquote W password]))"

text \<open>The frames sent by a probe that returns; \<open>None\<close> if it raises.\<close>

definition probe_redis :: "redis_world \<Rightarrow> ustr \<Rightarrow> bytes list option" where
  "probe_redis W url = (case rw_urlsplit W url of
       None \<Rightarrow> None
     | Some p \<Rightarrow>
       if ru_scheme p \<notin> {u ''redis'', u ''rediss''} \<or> ru_hostname p = None then None
       else (let use_tls = (ru_scheme p = u ''rediss'') in
         case ru_port p of
           None \<Rightarrow> None
         | Some port \<Rightarrow>
           (let number = (case port of None \<Rightarrow> 0 | Some n \<Rightarrow> n) in
            if \<not> rw_connects W (the (ru_hostname p))
                (if number = 0 then (if use_tls then 6380 else 6379) else number) use_tls then None
            else (case (case redis_auth W p of None \<Rightarrow> Some [] | Some auth \<Rightarrow> expect W auth ''OK'' []) of
                None \<Rightarrow> None
              | Some sent \<Rightarrow>
                if \<not> rw_isdecimal W (redis_database p) then None
                else (case (if redis_database p \<noteq> u ''0''
                      then expect W [u ''SELECT'', redis_database p] ''OK'' sent else Some sent) of
                    None \<Rightarrow> None
                  | Some sent \<Rightarrow> expect W [u ''PING''] ''PONG'' sent)))))"

section \<open>The other dependencies\<close>

definition probe_minio :: "(ustr \<Rightarrow> nat option) \<Rightarrow> ustr \<Rightarrow> bool" where
  "probe_minio http_status endpoint_url \<longleftrightarrow>
     http_status (rev (dropWhile (\<lambda>c. c = 47) (rev endpoint_url)) @ u ''/minio/health/ready'') = Some 200"

definition probe_clamav :: "(bytes \<Rightarrow> bytes option) option \<Rightarrow> bool" where
  "probe_clamav connection \<longleftrightarrow> (case connection of
       None \<Rightarrow> False
     | Some answer \<Rightarrow> answer (u ''zPING'' @ [0]) = Some (u ''PONG'' @ [0]))"

definition returns :: "bool \<Rightarrow> probe" where
  "returns b = (if b then Probe_Returns else Probe_Raises)"

definition default_probes ::
  "bool \<Rightarrow> redis_world \<Rightarrow> ustr \<Rightarrow> (ustr \<Rightarrow> nat option) \<Rightarrow> ustr \<Rightarrow> (bytes \<Rightarrow> bytes option) option
   \<Rightarrow> (string \<times> probe) list" where
  "default_probes postgres W redis_url http_status endpoint_url clamav =
     [(''postgres'', returns postgres), (''redis'', returns (probe_redis W redis_url \<noteq> None)),
      (''minio'', returns (probe_minio http_status endpoint_url)), (''clamav'', returns (probe_clamav clamav))]"

end
