(* ===== verification/Readiness_Properties.thy ===== *)
theory Readiness_Properties
  imports Readiness
begin

text \<open>
  What readiness means, and that the Redis probe says exactly what its URL says: a Redis server,
  reading the connection by the protocol, finds the commands of the probe and nothing else.
\<close>

section \<open>Readiness\<close>

lemma check_one_iff:
  "check_one p = (if p = Probe_Cancelled then None else Some (if p = Probe_Returns then ''ok'' else ''failed''))"
  by (cases p) simp_all

text \<open>The readiness route answers unless it is cancelled; it answers 200 with status ok exactly when
  every one of the four probes returned in time and 503 otherwise, and what it says of a dependency
  is one of two fixed words that tells only whether its own probe returned.\<close>

theorem readiness_exact:
  assumes "checker_ok probes t"
  shows "(if \<exists>n \<in> set DEPENDENCY_NAMES. map_of probes n = Some Probe_Cancelled then ready_route probes = None
    else \<exists>deps. ready_route probes =
        (if \<forall>n \<in> set DEPENDENCY_NAMES. map_of probes n = Some Probe_Returns
         then Some (200, ''ok'', deps) else Some (503, ''failed'', deps))
      \<and> map fst deps = DEPENDENCY_NAMES
      \<and> (\<forall>n \<in> set DEPENDENCY_NAMES. map_of deps n
           = Some (if map_of probes n = Some Probe_Returns then ''ok'' else ''failed'')))"
proof -
  from assms have "map_of probes n \<noteq> None" if "n \<in> set DEPENDENCY_NAMES" for n
    using that by (simp add: checker_ok_def map_of_eq_None_iff)
  then obtain a b c d where p: "map_of probes ''postgres'' = Some a" "map_of probes ''redis'' = Some b"
    "map_of probes ''minio'' = Some c" "map_of probes ''clamav'' = Some d"
    by (fastforce simp: DEPENDENCY_NAMES_def)
  show ?thesis
    by (simp add: ready_route_def check_def readiness_status_def DEPENDENCY_NAMES_def p check_one_iff)
qed

lemma readiness_exact_witness:
  "\<exists>deps. ready_route [(''clamav'', Probe_Slow), (''postgres'', Probe_Returns), (''redis'', Probe_Returns),
      (''minio'', Probe_Returns)] = Some (503, ''failed'', deps) \<and> map_of deps ''clamav'' = Some ''failed''"
  using readiness_exact [of "[(''clamav'', Probe_Slow), (''postgres'', Probe_Returns), (''redis'', Probe_Returns),
      (''minio'', Probe_Returns)]" 3]
  by (auto simp: checker_ok_def DEPENDENCY_NAMES_def)

section \<open>The Redis protocol\<close>

text \<open>A command as a server reads it: an array of bulk strings, each with its length.\<close>

definition resp_number :: "nat \<Rightarrow> bytes \<Rightarrow> (nat \<times> bytes) option" where
  "resp_number mark bs = (case bs of
       [] \<Rightarrow> None
     | c # rest \<Rightarrow>
         (let digits = takeWhile (\<lambda>c. 48 \<le> c \<and> c \<le> 57) rest; after = drop (length digits) rest in
          if c = mark \<and> digits \<noteq> [] \<and> take 2 after = crlf then Some (undec digits, drop 2 after) else None))"

fun resp_bulks :: "nat \<Rightarrow> bytes \<Rightarrow> (bytes list \<times> bytes) option" where
  "resp_bulks 0 bs = Some ([], bs)"
| "resp_bulks (Suc n) bs = (case resp_number 36 bs of
       None \<Rightarrow> None
     | Some (k, rest) \<Rightarrow>
         if length rest < k + 2 \<or> take 2 (drop k rest) \<noteq> crlf then None
         else map_option (\<lambda>(args, after). (take k rest # args, after)) (resp_bulks n (drop (k + 2) rest)))"

definition resp_command :: "bytes \<Rightarrow> (bytes list \<times> bytes) option" where
  "resp_command bs = Option.bind (resp_number 42 bs) (\<lambda>(n, rest). resp_bulks n rest)"

fun resp_session :: "nat \<Rightarrow> bytes \<Rightarrow> bytes list list option" where
  "resp_session 0 bs = (if bs = [] then Some [] else None)"
| "resp_session (Suc n) bs =
     Option.bind (resp_command bs) (\<lambda>(args, rest). map_option ((#) args) (resp_session n rest))"

lemma resp_number_dec: "resp_number m (m # dec n @ crlf @ rest) = Some (n, rest)"
proof -
  have "takeWhile (\<lambda>c. 48 \<le> c \<and> c \<le> 57) (dec n @ crlf @ rest) = dec n"
    using dec_digits [of n] by (simp add: takeWhile_append2 crlf_def)
  moreover have "dec n \<noteq> []" by (subst dec.simps) simp
  ultimately show ?thesis using undec_dec [of n]
    by (simp add: resp_number_def crlf_def Let_def del: undec.simps)
qed

lemma resp_bulks_frame:
  "resp_bulks (length args) (concat (map (\<lambda>a. 36 # dec (length a) @ crlf @ a @ crlf) args) @ rest) = Some (args, rest)"
proof (induction args)
  case (Cons a args)
  have "resp_number 36 (36 # dec (length a) @ crlf @ (a @ crlf
      @ concat (map (\<lambda>a. 36 # dec (length a) @ crlf @ a @ crlf) args) @ rest))
    = Some (length a, a @ crlf @ concat (map (\<lambda>a. 36 # dec (length a) @ crlf @ a @ crlf) args) @ rest)"
    by (rule resp_number_dec)
  with Cons show ?case by (simp add: crlf_def)
qed simp

lemma resp_command_frame: "resp_command (redis_frame args @ rest) = Some (args, rest)"
  using resp_number_dec [of 42 "length args"] resp_bulks_frame [of args rest]
  by (simp add: resp_command_def redis_frame_def)

lemma resp_session_frames: "resp_session (length cmds) (concat (map redis_frame cmds)) = Some cmds"
  by (induction cmds) (simp_all add: resp_command_frame)

text \<open>The commands of a probe, each with the answer it needs.\<close>

definition probe_commands :: "redis_world \<Rightarrow> redis_url \<Rightarrow> (ustr list \<times> string) list" where
  "probe_commands W p =
     (case redis_auth W p of None \<Rightarrow> [] | Some auth \<Rightarrow> [(auth, ''OK'')])
     @ (if redis_database p \<noteq> u ''0'' then [([u ''SELECT'', redis_database p], ''OK'')] else [])
     @ [([u ''PING''], ''PONG'')]"

fun expect_all :: "redis_world \<Rightarrow> (ustr list \<times> string) list \<Rightarrow> bytes list \<Rightarrow> bytes list option" where
  "expect_all W [] sent = Some sent"
| "expect_all W ((args, answer) # cmds) sent = Option.bind (expect W args answer sent) (expect_all W cmds)"

lemma expect_all_append: "expect_all W (xs @ ys) sent = Option.bind (expect_all W xs sent) (expect_all W ys)"
proof (induction xs arbitrary: sent)
  case (Cons c xs)
  then show ?case by (cases c, cases "expect W (fst c) (snd c) sent") simp_all
qed simp

lemma expect_all_one: "expect_all W [(args, answer)] = expect W args answer"
  by (rule ext) (simp add: Option.bind_runit expect_all.simps(1) [abs_def])

lemma probe_expects:
  assumes "probe_redis W url = Some sent"
  shows "\<exists>p. rw_urlsplit W url = Some p \<and> ru_scheme p \<in> {u ''redis'', u ''rediss''} \<and> ru_hostname p \<noteq> None
    \<and> rw_isdecimal W (redis_database p) \<and> expect_all W (probe_commands W p) [] = Some sent"
proof -
  from assms obtain p where p: "rw_urlsplit W url = Some p"
    by (cases "rw_urlsplit W url") (simp_all add: probe_redis_def)
  from assms have g: "ru_scheme p \<in> {u ''redis'', u ''rediss''} \<and> ru_hostname p \<noteq> None"
    by (simp add: probe_redis_def p split: if_splits)
  from assms obtain sent1 where a: "(case redis_auth W p of None \<Rightarrow> Some [] | Some auth \<Rightarrow> expect W auth ''OK'' []) = Some sent1"
    and "rw_isdecimal W (redis_database p)"
    and "Option.bind (if redis_database p \<noteq> u ''0'' then expect W [u ''SELECT'', redis_database p] ''OK'' sent1
      else Some sent1) (expect W [u ''PING''] ''PONG'') = Some sent"
    by (simp add: probe_redis_def p Let_def split: if_split_asm option.split_asm)
  moreover from a have "expect_all W (case redis_auth W p of None \<Rightarrow> [] | Some auth \<Rightarrow> [(auth, ''OK'')]) [] = Some sent1"
    by (simp split: option.split_asm option.split)
  ultimately have "rw_isdecimal W (redis_database p)" "expect_all W (probe_commands W p) [] = Some sent"
    by (simp_all add: probe_commands_def expect_all_append expect_all_one split: if_split_asm)
  with p g show ?thesis by blast
qed

definition answered :: "redis_world \<Rightarrow> string \<Rightarrow> bytes list \<Rightarrow> bool" where
  "answered W answer sent \<longleftrightarrow> (case rw_answer W sent of
       None \<Rightarrow> False
     | Some r \<Rightarrow> take 1 r = [43] \<and> drop 1 (take (length r - 2) r) = u answer)"

lemma expect_Some:
  "expect W args answer sent = Some sent' \<Longrightarrow>
     \<exists>e. those (map utf8_encode args) = Some e \<and> sent' = sent @ [redis_frame e] \<and> answered W answer sent'"
  by (auto simp: expect_def redis_command_def answered_def Let_def split: option.splits if_splits)

definition encode_commands :: "ustr list list \<Rightarrow> bytes list list option" where
  "encode_commands cmds = those (map (\<lambda>args. those (map utf8_encode args)) cmds)"

lemma expect_all_Some:
  "expect_all W cmds sent = Some sent' \<Longrightarrow>
     \<exists>es. encode_commands (map fst cmds) = Some es \<and> sent' = sent @ map redis_frame es
       \<and> (\<forall>k < length cmds. answered W (snd (cmds ! k)) (take (length sent + Suc k) sent'))"
proof (induction cmds arbitrary: sent)
  case Nil
  then show ?case by (simp add: encode_commands_def)
next
  case (Cons c cmds)
  obtain args answer where c: "c = (args, answer)" by (cases c)
  with Cons.prems obtain sent1 where 1: "expect W args answer sent = Some sent1"
    "expect_all W cmds sent1 = Some sent'" by (auto simp: Option.bind_eq_Some_conv)
  from expect_Some [OF 1(1)] obtain e where e: "those (map utf8_encode args) = Some e"
    "sent1 = sent @ [redis_frame e]" "answered W answer sent1" by blast
  from Cons.IH [OF 1(2)] obtain es where es: "encode_commands (map fst cmds) = Some es"
    "sent' = sent1 @ map redis_frame es"
    "\<forall>k < length cmds. answered W (snd (cmds ! k)) (take (length sent1 + Suc k) sent')" by blast
  have "answered W (snd ((c # cmds) ! k)) (take (length sent + Suc k) sent')" if "k < length (c # cmds)" for k
  proof (cases k)
    case 0
    then show ?thesis using e es(2) c by simp
  next
    case (Suc j)
    then show ?thesis using es(3) that e(2) by simp
  qed
  moreover have "encode_commands (map fst (c # cmds)) = Some (e # es)"
    using es(1) e(1) c by (simp add: encode_commands_def)
  ultimately show ?case using es(2) e(2) by (intro exI [of _ "e # es"]) simp
qed

text \<open>C21. When the Redis probe succeeds, the bytes it sent, read as RESP, are exactly its commands with
  their arguments in UTF-8: AUTH with the unquoted credentials when the URL has a password, SELECT
  unless the database is 0, and PING; whatever characters the credentials contain, no other command
  is read, and each command was answered +OK, the last one +PONG.\<close>

theorem redis_probe_speaks:
  assumes "probe_redis W url = Some sent"
  shows "\<exists>p es. rw_urlsplit W url = Some p \<and> ru_scheme p \<in> {u ''redis'', u ''rediss''}
    \<and> encode_commands (map fst (probe_commands W p)) = Some es
    \<and> resp_session (length es) (concat sent) = Some es
    \<and> length sent = length es
    \<and> (\<forall>k < length sent. answered W (snd (probe_commands W p ! k)) (take (Suc k) sent))"
proof -
  from probe_expects [OF assms] obtain p where p: "rw_urlsplit W url = Some p"
    "ru_scheme p \<in> {u ''redis'', u ''rediss''}" "expect_all W (probe_commands W p) [] = Some sent" by blast
  from expect_all_Some [OF p(3)] obtain es where es: "encode_commands (map fst (probe_commands W p)) = Some es"
    "sent = map redis_frame es"
    "\<forall>k < length (probe_commands W p). answered W (snd (probe_commands W p ! k)) (take (Suc k) sent)" by auto
  have "those xs = Some ys \<Longrightarrow> length ys = length xs" for xs :: "bytes list option list" and ys
    by (induction xs arbitrary: ys) (auto split: option.splits)
  with es(1) have "length es = length (probe_commands W p)" by (fastforce simp: encode_commands_def)
  with p(1,2) es resp_session_frames [of es] show ?thesis by auto
qed

definition sample_redis :: redis_world where
  "sample_redis = \<lparr>rw_urlsplit = (\<lambda>_. Some \<lparr>ru_scheme = u ''redis'', ru_hostname = Some (u ''cache''),
       ru_port = Some None, ru_username = None, ru_password = Some [97, 13, 10, 98], ru_path = u ''/0''\<rparr>),
     rw_unquote = id, rw_isdecimal = list_all (\<lambda>c. 48 \<le> c \<and> c \<le> 57), rw_connects = (\<lambda>_ _ _. True),
     rw_answer = (\<lambda>sent. Some (if length sent = 1 then u ''+OK'' @ [13, 10] else u ''+PONG'' @ [13, 10]))\<rparr>"

lemma redis_probe_speaks_witness:
  "\<exists>sent. probe_redis sample_redis (u ''redis://:a%0D%0Ab@cache/0'') = Some sent
    \<and> resp_session 2 (concat sent) = Some [u ''AUTH'' # [[97, 13, 10, 98]], [u ''PING'']]"
proof -
  have e: "utf8_encode (u ''AUTH'') = Some (u ''AUTH'')" "utf8_encode (u ''PING'') = Some (u ''PING'')"
    "utf8_encode [97, 13, 10, 98] = Some [97, 13, 10, 98]"
    by (simp_all add: utf8_encode_def utf8_char_def surrogate_def u_def)
  let ?p = "\<lparr>ru_scheme = u ''redis'', ru_hostname = Some (u ''cache''),
       ru_port = Some None, ru_username = None, ru_password = Some [97, 13, 10, 98], ru_path = u ''/0''\<rparr>"
  have cmds: "map fst (probe_commands sample_redis ?p) = [[u ''AUTH'', [97, 13, 10, 98]], [u ''PING'']]"
    by (simp add: probe_commands_def redis_auth_def redis_database_def sample_redis_def u_def)
  have "\<exists>sent. probe_redis sample_redis (u ''redis://:a%0D%0Ab@cache/0'') = Some sent"
    using e by (simp add: probe_redis_def sample_redis_def redis_auth_def redis_database_def expect_def
        redis_command_def Let_def) (simp add: u_def)
  then obtain sent where s: "probe_redis sample_redis (u ''redis://:a%0D%0Ab@cache/0'') = Some sent" by blast
  have c: "encode_commands [[u ''AUTH'', [97, 13, 10, 98]], [u ''PING'']] = Some [[u ''AUTH'', [97, 13, 10, 98]], [u ''PING'']]"
    by (simp add: encode_commands_def e)
  have p: "rw_urlsplit sample_redis url = Some ?p" for url by (simp add: sample_redis_def)
  from redis_probe_speaks [OF s] have "resp_session 2 (concat sent) = Some [[u ''AUTH'', [97, 13, 10, 98]], [u ''PING'']]"
    unfolding p by (auto simp: cmds c numeral_2_eq_2 simp del: map_map resp_session.simps)
  with s show ?thesis by blast
qed

end
