(* ===== verification/Seed.thy ===== *)
theory Seed
  imports Users
begin

text \<open>
  \<open>scripts/seed_acceptance.py\<close>: the operator command that creates the acceptance identities and
  projects in one transaction.  A conflict with another transaction ends in a constraint error
  (\<open>Seed_Failed\<close>); the environment and the prompts are arguments.
\<close>

datatype seed_error = Seed_Refused string | Seed_Failed exn

type_synonym 'a seed_result = "seed_error + 'a"

record seed_ids =
  si_owner_id :: uuid
  si_staff_id :: uuid
  si_normal_project_id :: uuid
  si_test_project_id :: uuid

definition NORMAL_PROJECT_NAME :: ustr where
  "NORMAL_PROJECT_NAME = [77, 49, 32, 0x6B63, 0x5E38, 0x9879, 0x76EE]"

definition TEST_PROJECT_NAME :: ustr where
  "TEST_PROJECT_NAME = [0x9A8C, 0x6536, 0x6D4B, 0x8BD5]"

text \<open>\<open>name.lower()\<close> of these two names, which changes ASCII capitals only.\<close>

definition lower_name :: "ustr \<Rightarrow> ustr" where
  "lower_name s = map (\<lambda>c. if 65 \<le> c \<and> c \<le> 90 then c + 32 else c) s"

section \<open>The rows\<close>

definition acceptance_user ::
  "lib \<Rightarrow> time \<Rightarrow> nat \<Rightarrow> uuid \<Rightarrow> ustr \<Rightarrow> ustr \<Rightarrow> role \<Rightarrow> db \<Rightarrow> (user \<times> db) seed_result" where
  "acceptance_user L now salt new_id username password role db =
     (case find (\<lambda>x. u_username x = username) (users db) of
        Some existing \<Rightarrow>
          if u_role existing \<noteq> role \<or> role = STAFF \<and> u_status existing \<noteq> USER_ACTIVE
          then Inl (Seed_Refused ''Acceptance seed conflicts with an existing identity.'')
          else Inr (existing, db)
      | None \<Rightarrow> (case hash_password L salt password of
            Inl e \<Rightarrow> Inl (Seed_Failed e)
          | Inr h \<Rightarrow>
            (let row = \<lparr>u_id = new_id, u_username = username, u_display_name = [], u_password_hash = h,
                   u_must_change_password = False, u_password_changed_at = now, u_failed_login_count = 0,
                   u_locked_until = None, u_role = role, u_status = USER_ACTIVE, u_last_login_at = None\<rparr> in
             case insert_user row db of Inl e \<Rightarrow> Inl (Seed_Failed e) | Inr db' \<Rightarrow> Inr (row, db'))))"

definition acceptance_project ::
  "lib \<Rightarrow> uuid \<Rightarrow> ustr \<Rightarrow> bool \<Rightarrow> db \<Rightarrow> (project \<times> db) seed_result" where
  "acceptance_project L new_id name is_test db =
     (case find (\<lambda>p. pg_lower L (p_name p) = lower_name name) (projects db) of
        Some existing \<Rightarrow>
          if p_name existing \<noteq> name \<or> p_is_test existing \<noteq> is_test \<or> p_status existing \<noteq> PROJECT_ACTIVE
          then Inl (Seed_Refused ''Acceptance seed conflicts with an existing project.'')
          else Inr (existing, db)
      | None \<Rightarrow>
        (let row = \<lparr>p_id = new_id, p_name = name, p_is_test = is_test, p_status = PROJECT_ACTIVE\<rparr> in
         case insert_project L row db of Inl e \<Rightarrow> Inl (Seed_Failed e) | Inr db' \<Rightarrow> Inr (row, db')))"

section \<open>The transaction\<close>

record seed_draw =
  seed_now :: time
  seed_salt :: nat
  seed_staff_salt :: nat
  seed_owner_id :: uuid
  seed_staff_id :: uuid
  seed_normal_id :: uuid
  seed_test_id :: uuid

definition seed_rows ::
  "lib \<Rightarrow> seed_draw \<Rightarrow> ustr \<Rightarrow> ustr \<Rightarrow> ustr \<Rightarrow> ustr \<Rightarrow> db \<Rightarrow> (seed_ids \<times> db) seed_result" where
  "seed_rows L d owner_username owner_password staff_username staff_password db =
     (let existing_owner = find (\<lambda>x. u_role x = OWNER) (users db) in
      if existing_owner \<noteq> None \<and> u_username (the existing_owner) \<noteq> owner_username
      then Inl (Seed_Refused ''Acceptance seed does not match the protected OWNER.'')
      else (case (case existing_owner of
            Some owner \<Rightarrow> Inr (owner, db)
          | None \<Rightarrow> acceptance_user L (seed_now d) (seed_salt d) (seed_owner_id d) owner_username owner_password OWNER db) of
          Inl e \<Rightarrow> Inl e
        | Inr (owner, db1) \<Rightarrow>
          (case acceptance_user L (seed_now d) (seed_staff_salt d) (seed_staff_id d) staff_username staff_password STAFF db1 of
             Inl e \<Rightarrow> Inl e
           | Inr (staff, db2) \<Rightarrow>
             (case acceptance_project L (seed_normal_id d) NORMAL_PROJECT_NAME False db2 of
                Inl e \<Rightarrow> Inl e
              | Inr (normal, db3) \<Rightarrow>
                (case acceptance_project L (seed_test_id d) TEST_PROJECT_NAME True db3 of
                   Inl e \<Rightarrow> Inl e
                 | Inr (test, db4) \<Rightarrow>
                   Inr (\<lparr>si_owner_id = u_id owner, si_staff_id = u_id staff,
                     si_normal_project_id = p_id normal, si_test_project_id = p_id test\<rparr>, db4))))))"

text \<open>The transaction rolls back with any error.\<close>

definition seed ::
  "lib \<Rightarrow> seed_draw \<Rightarrow> ustr \<Rightarrow> ustr \<Rightarrow> ustr \<Rightarrow> ustr \<Rightarrow> db \<Rightarrow> seed_ids seed_result \<times> db" where
  "seed L d owner_username owner_password staff_username staff_password db =
     (case seed_rows L d owner_username owner_password staff_username staff_password db of
        Inl e \<Rightarrow> (Inl e, db)
      | Inr (ids, db') \<Rightarrow> (Inr ids, db'))"

section \<open>The command\<close>

definition required_username :: "(string \<Rightarrow> ustr option) \<Rightarrow> string \<Rightarrow> ustr seed_result" where
  "required_username env name =
     (let value = (case env name of None \<Rightarrow> [] | Some v \<Rightarrow> v) in
      if username_ok value then Inr value
      else Inl (Seed_Refused ''Acceptance seed input is invalid.''))"

text \<open>The two prompts of one account; the confirmation is compared before the policy.\<close>

definition seed_password :: "lib \<Rightarrow> ustr \<times> ustr \<Rightarrow> ustr seed_result" where
  "seed_password L typed =
     (if fst typed \<noteq> snd typed then Inl (Seed_Refused ''Password confirmation does not match.'')
      else (case validate_password L (fst typed) of
          Inl _ \<Rightarrow> Inl (Seed_Refused ''Password does not meet the local policy.'')
        | Inr _ \<Rightarrow> Inr (fst typed)))"

definition read_passwords ::
  "lib \<Rightarrow> ustr \<times> ustr \<Rightarrow> ustr \<times> ustr \<Rightarrow> (ustr \<times> ustr) seed_result" where
  "read_passwords L owner_typed staff_typed = (case seed_password L owner_typed of
       Inl e \<Rightarrow> Inl e
     | Inr owner \<Rightarrow> (case seed_password L staff_typed of
         Inl e \<Rightarrow> Inl e
       | Inr staff \<Rightarrow> Inr (owner, staff)))"

definition run_from_environment ::
  "lib \<Rightarrow> (string \<Rightarrow> ustr option) \<Rightarrow> seed_draw \<Rightarrow> bool \<Rightarrow> ustr \<times> ustr \<Rightarrow> ustr \<times> ustr \<Rightarrow> db
   \<Rightarrow> seed_ids seed_result \<times> db" where
  "run_from_environment L env d confirm_production_seed owner_typed staff_typed db =
     (if env ''SUPERBOSS_ENVIRONMENT'' = Some (u ''production'') \<and> \<not> confirm_production_seed
      then (Inl (Seed_Refused ''Production acceptance seed requires explicit confirmation.''), db)
      else if env ''SUPERBOSS_DATABASE_URL'' = None \<or> env ''SUPERBOSS_DATABASE_URL'' = Some []
      then (Inl (Seed_Refused ''Acceptance seed database is not configured.''), db)
      else (case required_username env ''SUPERBOSS_OWNER_USERNAME'' of
          Inl e \<Rightarrow> (Inl e, db)
        | Inr owner_username \<Rightarrow> (case required_username env ''SUPERBOSS_ACCEPTANCE_STAFF_USERNAME'' of
            Inl e \<Rightarrow> (Inl e, db)
          | Inr staff_username \<Rightarrow>
            if owner_username = staff_username
            then (Inl (Seed_Refused ''Acceptance OWNER and STAFF must be distinct.''), db)
            else (case read_passwords L owner_typed staff_typed of
                Inl e \<Rightarrow> (Inl e, db)
              | Inr (owner_password, staff_password) \<Rightarrow>
                  seed L d owner_username owner_password staff_username staff_password db))))"

text \<open>\<open>main\<close>: the exit code.\<close>

definition seed_exit_code :: "seed_ids seed_result \<Rightarrow> nat" where
  "seed_exit_code r = (case r of Inr _ \<Rightarrow> 0 | Inl (Seed_Refused _) \<Rightarrow> 2 | Inl (Seed_Failed _) \<Rightarrow> 1)"

end
