(* ===== verification/Seed_Properties.thy ===== *)
theory Seed_Properties
  imports Seed Account_Properties
begin

text \<open>
  The seeding of acceptance data only appends rows, keeps the tables well formed and can be
  repeated.
\<close>

text \<open>What a step leaves: the same database with more users and projects.\<close>

definition appended :: "nat \<Rightarrow> nat \<Rightarrow> db \<Rightarrow> db \<Rightarrow> bool" where
  "appended m n db db' \<longleftrightarrow> (\<exists>us ps. length us \<le> m \<and> length ps \<le> n
     \<and> db' = db\<lparr>users := users db @ us, projects := projects db @ ps\<rparr>)"

lemma appended_refl: "appended m n db db"
  unfolding appended_def by (rule exI [of _ "[]"], rule exI [of _ "[]"]) simp

lemma appended_trans:
  assumes "appended m n a b" "appended m' n' b c"
  shows "appended (m + m') (n + n') a c"
proof -
  from assms obtain us ps us' ps' where "length us \<le> m" "length ps \<le> n" "length us' \<le> m'" "length ps' \<le> n'"
    "b = a\<lparr>users := users a @ us, projects := projects a @ ps\<rparr>"
    "c = b\<lparr>users := users b @ us', projects := projects b @ ps'\<rparr>" by (auto simp: appended_def)
  then show ?thesis unfolding appended_def
    by (intro exI [of _ "us @ us'"] exI [of _ "ps @ ps'"]) simp
qed

lemma appended_keeps: "appended m n a b \<Longrightarrow> set (users a) \<subseteq> set (users b) \<and> set (projects a) \<subseteq> set (projects b)"
  by (auto simp: appended_def)

lemma acceptance_user_spec:
  assumes "acceptance_user L now salt i n pw role db = Inr (x, db')" "accounts_ok db"
  shows "x \<in> set (users db')" "u_username x = n" "u_role x = role" "role = STAFF \<Longrightarrow> u_status x = USER_ACTIVE"
    "accounts_ok db'" "projects db' = projects db" "appended 1 0 db db'"
proof -
  have "x \<in> set (users db') \<and> u_username x = n \<and> u_role x = role \<and> (role = STAFF \<longrightarrow> u_status x = USER_ACTIVE)
      \<and> accounts_ok db' \<and> projects db' = projects db \<and> appended 1 0 db db'"
  proof (cases "find (\<lambda>x. u_username x = n) (users db)")
    case None
    with assms(1) have i: "insert_user x db = Inr db'" and "u_username x = n" "u_role x = role" "u_status x = USER_ACTIVE"
      by (auto simp: acceptance_user_def Let_def split: sum.splits)
    moreover from i have "db' = db\<lparr>users := users db @ [x]\<rparr>" by (auto simp: insert_user_def split: if_splits)
    ultimately show ?thesis using insert_user_ok [OF assms(2) i]
      by (auto simp: appended_def intro!: exI [of _ "[x]"])
  next
    case (Some y)
    with assms find_SomeD [OF Some] show ?thesis
      by (auto simp: acceptance_user_def appended_refl split: if_splits)
  qed
  then show "x \<in> set (users db')" "u_username x = n" "u_role x = role" "role = STAFF \<Longrightarrow> u_status x = USER_ACTIVE"
    "accounts_ok db'" "projects db' = projects db" "appended 1 0 db db'" by simp_all
qed

lemma acceptance_user_found:
  assumes "accounts_ok db" "x \<in> set (users db)" "u_role x = STAFF" "u_status x = USER_ACTIVE"
  shows "acceptance_user L now salt i (u_username x) pw STAFF db = Inr (x, db)"
  using assms find_key_unique [of u_username "users db" x] by (simp add: acceptance_user_def accounts_ok_def)

lemma acceptance_project_spec:
  assumes "acceptance_project L i n b db = Inr (p, db')" "projects_ok L db"
  shows "p \<in> set (projects db')" "p_name p = n" "p_is_test p = b" "p_status p = PROJECT_ACTIVE"
    "projects_ok L db'" "users db' = users db" "appended 0 1 db db'"
proof -
  have "p \<in> set (projects db') \<and> p_name p = n \<and> p_is_test p = b \<and> p_status p = PROJECT_ACTIVE
      \<and> projects_ok L db' \<and> users db' = users db \<and> appended 0 1 db db'"
  proof (cases "find (\<lambda>p. pg_lower L (p_name p) = lower_name n) (projects db)")
    case None
    with assms(1) have i: "insert_project L p db = Inr db'" and "p_name p = n" "p_is_test p = b" "p_status p = PROJECT_ACTIVE"
      by (auto simp: acceptance_project_def Let_def split: sum.splits)
    moreover from i have "db' = db\<lparr>projects := projects db @ [p]\<rparr>" by (auto simp: insert_project_def split: if_splits)
    ultimately show ?thesis using insert_project_ok [OF assms(2) i]
      by (auto simp: appended_def intro!: exI [of _ "[p]"])
  next
    case (Some y)
    with assms find_SomeD [OF Some] show ?thesis
      by (auto simp: acceptance_project_def appended_refl split: if_splits)
  qed
  then show "p \<in> set (projects db')" "p_name p = n" "p_is_test p = b" "p_status p = PROJECT_ACTIVE"
    "projects_ok L db'" "users db' = users db" "appended 0 1 db db'" by simp_all
qed

lemma acceptance_project_found:
  assumes "projects_ok L db" "p \<in> set (projects db)" "p_status p = PROJECT_ACTIVE"
    "pg_lower L (p_name p) = lower_name (p_name p)"
  shows "acceptance_project L i (p_name p) (p_is_test p) db = Inr (p, db)"
  using assms find_key_unique [of "\<lambda>p. pg_lower L (p_name p)" "projects db" p]
  by (simp add: acceptance_project_def projects_ok_def)

lemma sole_owner:
  assumes "accounts_ok db" "x \<in> set (users db)" "u_role x = OWNER"
  shows "find (\<lambda>x. u_role x = OWNER) (users db) = Some x"
proof -
  from assms(2, 3) obtain y where y: "find (\<lambda>x. u_role x = OWNER) (users db) = Some y"
    by (cases "find (\<lambda>x. u_role x = OWNER) (users db)") (auto simp: find_None_iff)
  from find_SomeD [OF y] assms(2, 3) have "x \<in> set (filter (\<lambda>x. u_role x = OWNER) (users db))"
    "y \<in> set (filter (\<lambda>x. u_role x = OWNER) (users db))" by auto
  with assms(1) have "x = y"
    unfolding accounts_ok_def by (cases "filter (\<lambda>x. u_role x = OWNER) (users db)") auto
  with y show ?thesis by simp
qed

lemma seed_rows_Inr:
  assumes "seed_rows L d on op sn sp db = Inr (ids, db4)"
  obtains owner db1 staff db2 normal db3 test where
    "find (\<lambda>x. u_role x = OWNER) (users db) = Some owner \<and> u_username owner = on \<and> db1 = db
     \<or> find (\<lambda>x. u_role x = OWNER) (users db) = None
       \<and> acceptance_user L (seed_now d) (seed_salt d) (seed_owner_id d) on op OWNER db = Inr (owner, db1)"
    "acceptance_user L (seed_now d) (seed_staff_salt d) (seed_staff_id d) sn sp STAFF db1 = Inr (staff, db2)"
    "acceptance_project L (seed_normal_id d) NORMAL_PROJECT_NAME False db2 = Inr (normal, db3)"
    "acceptance_project L (seed_test_id d) TEST_PROJECT_NAME True db3 = Inr (test, db4)"
    "ids = \<lparr>si_owner_id = u_id owner, si_staff_id = u_id staff,
       si_normal_project_id = p_id normal, si_test_project_id = p_id test\<rparr>"
  using assms by (auto simp: seed_rows_def Let_def split: if_splits sum.splits option.splits)

text \<open>The rows a successful run leaves behind, whether it found or created them.\<close>

definition seeded :: "ustr \<Rightarrow> ustr \<Rightarrow> seed_ids \<Rightarrow> db \<Rightarrow> bool" where
  "seeded on sn ids db \<longleftrightarrow>
     (\<exists>x \<in> set (users db). u_id x = si_owner_id ids \<and> u_username x = on \<and> u_role x = OWNER)
     \<and> (\<exists>x \<in> set (users db). u_id x = si_staff_id ids \<and> u_username x = sn \<and> u_role x = STAFF
          \<and> u_status x = USER_ACTIVE)
     \<and> (\<exists>p \<in> set (projects db). p_id p = si_normal_project_id ids \<and> p_name p = NORMAL_PROJECT_NAME
          \<and> \<not> p_is_test p \<and> p_status p = PROJECT_ACTIVE)
     \<and> (\<exists>p \<in> set (projects db). p_id p = si_test_project_id ids \<and> p_name p = TEST_PROJECT_NAME
          \<and> p_is_test p \<and> p_status p = PROJECT_ACTIVE)"

lemma tables_ok: "users b = users a \<Longrightarrow> accounts_ok b = accounts_ok a"
  "projects b = projects a \<Longrightarrow> projects_ok L b = projects_ok L a"
  by (simp_all add: accounts_ok_def projects_ok_def)

lemma seed_rows_spec:
  assumes "seed_rows L d on op sn sp db = Inr (ids, db4)" "accounts_ok db" "projects_ok L db"
  shows "seeded on sn ids db4 \<and> accounts_ok db4 \<and> projects_ok L db4 \<and> appended 2 2 db db4"
  using assms(1)
proof (rule seed_rows_Inr)
  fix owner db1 staff db2 normal db3 test
  assume o: "find (\<lambda>x. u_role x = OWNER) (users db) = Some owner \<and> u_username owner = on \<and> db1 = db
     \<or> find (\<lambda>x. u_role x = OWNER) (users db) = None
       \<and> acceptance_user L (seed_now d) (seed_salt d) (seed_owner_id d) on op OWNER db = Inr (owner, db1)"
    and s: "acceptance_user L (seed_now d) (seed_staff_salt d) (seed_staff_id d) sn sp STAFF db1 = Inr (staff, db2)"
    and n: "acceptance_project L (seed_normal_id d) NORMAL_PROJECT_NAME False db2 = Inr (normal, db3)"
    and t: "acceptance_project L (seed_test_id d) TEST_PROJECT_NAME True db3 = Inr (test, db4)"
    and ids: "ids = \<lparr>si_owner_id = u_id owner, si_staff_id = u_id staff,
       si_normal_project_id = p_id normal, si_test_project_id = p_id test\<rparr>"
  have 1: "owner \<in> set (users db1) \<and> u_username owner = on \<and> u_role owner = OWNER \<and> accounts_ok db1
      \<and> projects_ok L db1 \<and> appended 1 0 db db1"
    using o
  proof (elim disjE conjE)
    assume f: "find (\<lambda>x. u_role x = OWNER) (users db) = Some owner" "u_username owner = on" "db1 = db"
    with find_SomeD [OF f(1)] assms(2, 3) show ?thesis by (simp add: appended_refl)
  next
    assume "acceptance_user L (seed_now d) (seed_salt d) (seed_owner_id d) on op OWNER db = Inr (owner, db1)"
    note u = acceptance_user_spec [OF this assms(2)]
    with tables_ok(2) [OF u(6)] assms(3) show ?thesis by blast
  qed
  then have a1: "accounts_ok db1" by blast
  note 2 = acceptance_user_spec [OF s a1]
  from 1 2(6) tables_ok(2) have "projects_ok L db2" by blast
  note 3 = acceptance_project_spec [OF n this]
  note 4 = acceptance_project_spec [OF t 3(5)]
  have "appended (1 + 1 + 0 + 0) (0 + 0 + 1 + 1) db db4"
    by (rule appended_trans [OF appended_trans [OF appended_trans]]) (use 1 2(7) 3(7) 4(7) in blast)+
  then have "appended 2 2 db db4" by (simp only: numeral_2_eq_2) simp
  moreover have "accounts_ok db4" using 2(5) 3(6) 4(6) tables_ok(1) by metis
  moreover have "owner \<in> set (users db4)" "staff \<in> set (users db4)" "normal \<in> set (projects db4)"
    using 1 2(1) 3(1,6) 4(6) appended_keeps [OF 2(7)] appended_keeps [OF 4(7)] by auto
  ultimately show ?thesis using 1 2(2-4) 3(2-4) 4(1-5) ids by (auto simp: seeded_def)
qed

lemma seed_rows_seeded:
  assumes "seeded on sn ids db" "accounts_ok db" "projects_ok L db"
    "pg_lower L NORMAL_PROJECT_NAME = lower_name NORMAL_PROJECT_NAME"
    "pg_lower L TEST_PROJECT_NAME = lower_name TEST_PROJECT_NAME"
  shows "seed_rows L d on op sn sp db = Inr (ids, db)"
proof -
  from assms(1) obtain owner staff normal test where
    o: "owner \<in> set (users db)" "u_username owner = on" "u_role owner = OWNER" "u_id owner = si_owner_id ids"
    and s: "staff \<in> set (users db)" "u_role staff = STAFF" "u_status staff = USER_ACTIVE"
      "u_username staff = sn" "u_id staff = si_staff_id ids"
    and n: "normal \<in> set (projects db)" "p_status normal = PROJECT_ACTIVE" "p_name normal = NORMAL_PROJECT_NAME"
      "\<not> p_is_test normal" "p_id normal = si_normal_project_id ids"
    and t: "test \<in> set (projects db)" "p_status test = PROJECT_ACTIVE" "p_name test = TEST_PROJECT_NAME"
      "p_is_test test" "p_id test = si_test_project_id ids"
    unfolding seeded_def by auto
  from sole_owner [OF assms(2) o(1,3)] acceptance_user_found [OF assms(2) s(1-3)]
    acceptance_project_found [OF assms(3) n(1,2)] acceptance_project_found [OF assms(3) t(1,2)] assms(4,5) o s n t
  show ?thesis by (simp add: seed_rows_def)
qed

text \<open>C22. A seeding that succeeds keeps accounts and project names well formed, appends at most two
  accounts and two projects and changes nothing else, and leaves an OWNER, an active STAFF and the
  two active projects it names; seeding again, whatever the passwords, then returns the same
  identifiers and changes nothing.  A seeding that is refused or fails changes nothing.\<close>

theorem seed_repeatable:
  assumes "accounts_ok db" "projects_ok L db"
    "pg_lower L NORMAL_PROJECT_NAME = lower_name NORMAL_PROJECT_NAME"
    "pg_lower L TEST_PROJECT_NAME = lower_name TEST_PROJECT_NAME"
  shows "case seed L d on op sn sp db of
      (Inl e, db') \<Rightarrow> db' = db
    | (Inr ids, db') \<Rightarrow> accounts_ok db' \<and> projects_ok L db' \<and> appended 2 2 db db' \<and> seeded on sn ids db'
        \<and> seed L d' on op' sn sp' db' = (Inr ids, db')"
proof (cases "seed_rows L d on op sn sp db")
  case (Inl e)
  then show ?thesis by (simp add: seed_def)
next
  case (Inr x)
  then obtain ids db' where x: "seed_rows L d on op sn sp db = Inr (ids, db')" by (cases x) simp
  from seed_rows_spec [OF this assms(1,2)] seed_rows_seeded [of on sn ids db' L] assms(3,4)
  show ?thesis using x by (simp add: seed_def)
qed

lemma seed_repeatable_witness:
  "\<exists>ids db'. seed sample_lib \<lparr>seed_now = 5, seed_salt = 0, seed_staff_salt = 0, seed_owner_id = 90, seed_staff_id = 91,
      seed_normal_id = 92, seed_test_id = 93\<rparr> (u ''boss'') [] (u ''staff'') (u ''staff-secret-99'') sample_db = (Inr ids, db')
    \<and> seeded (u ''boss'') (u ''staff'') ids db'"
proof -
  let ?d = "\<lparr>seed_now = 5, seed_salt = 0, seed_staff_salt = 0, seed_owner_id = 90, seed_staff_id = 91,
      seed_normal_id = 92, seed_test_id = 93\<rparr>"
  have ok: "accounts_ok sample_db" "projects_ok sample_lib sample_db"
    by (rule accounts_ok_sample)
      (simp add: projects_ok_def sample_db_def project_row_def u_def strip_chars_def edge_whitespace_def)
  have l: "pg_lower sample_lib NORMAL_PROJECT_NAME = lower_name NORMAL_PROJECT_NAME"
    "pg_lower sample_lib TEST_PROJECT_NAME = lower_name TEST_PROJECT_NAME"
    by (simp_all add: sample_lib_def lower_name_def)
  have "validate_password sample_lib (u ''staff-secret-99'') = Inr ()"
    by (simp add: validate_password_iff u_def surrogate_def)
  then have "\<exists>ids db'. seed sample_lib ?d (u ''boss'') [] (u ''staff'') (u ''staff-secret-99'') sample_db = (Inr ids, db')"
    by (simp add: seed_def seed_rows_def sample_db_def owner_row_def staff_row_def project_row_def
        acceptance_user_def acceptance_project_def hash_password_def insert_user_def insert_project_def
        NORMAL_PROJECT_NAME_def TEST_PROJECT_NAME_def lower_name_def l u_def strip_chars_def edge_whitespace_def
        sample_lib_def username_char_def Let_def)
  then obtain ids db' where
    "seed sample_lib ?d (u ''boss'') [] (u ''staff'') (u ''staff-secret-99'') sample_db = (Inr ids, db')" by blast
  with seed_repeatable [OF ok l, where d = ?d and on = "u ''boss''" and op = "[]" and sn = "u ''staff''"
      and sp = "u ''staff-secret-99''"]
  show ?thesis by auto
qed

end
