(* ===== verification/Session_Properties.thy ===== *)
theory Session_Properties
  imports Requests_Properties Users_Proofs
begin

text \<open>
  The way from a sign-in to a request: the token a login issues makes later requests act for
  the account that signed in.
\<close>

text \<open>The claims of a browser access token.\<close>

definition access_claims :: "uuid \<Rightarrow> role \<Rightarrow> uuid \<Rightarrow> time \<Rightarrow> uuid \<Rightarrow> (ustr \<times> json) list" where
  "access_claims user_id role session_id now jti =
     [(u ''sub'', JStr (uuid_str user_id)), (u ''role'', JStr (u (role_text role))),
      (u ''session_id'', JStr (uuid_str session_id)), (u ''iat'', numeric_date (whole_seconds now)),
      (u ''exp'', numeric_date (whole_seconds now + 2 * hour)), (u ''jti'', JStr (uuid_str jti))]"

text \<open>What PyJWT and \<open>uuid\<close> document: \<open>jwt.decode\<close> verifies a token that
  \<open>jwt.encode\<close> signed with the same secret and returns its payload, provided that the registered
  claims in it are valid: \<open>sub\<close> and \<open>jti\<close> texts, \<open>iat\<close> a number that is not in the future, and
  \<open>exp\<close> one that is.  It is assumed for the six claims of a browser access token only, between
  its issue and its expiry two hours later; the encoding of a token is not empty; and the
  text of a UUID reads back.\<close>

definition signs :: "lib \<Rightarrow> ustr \<Rightarrow> bool" where
  "signs L secret \<longleftrightarrow>
     (\<forall>user_id role session_id now jti at. whole_seconds now \<le> at \<and> at < whole_seconds now + 2 * hour \<longrightarrow>
        jwt_decode L at True secret (jwt_encode L secret (access_claims user_id role session_id now jti))
          = Some (access_claims user_id role session_id now jti))
     \<and> (\<forall>user_id role session_id now jti. jwt_encode L secret (access_claims user_id role session_id now jti) \<noteq> [])"

definition reads_uuids :: "lib \<Rightarrow> uuid set \<Rightarrow> bool" where
  "reads_uuids L ids \<longleftrightarrow> (\<forall>i \<in> ids. uuid_parse L (uuid_str i) = Some i)"

lemma whole_seconds_le: "whole_seconds t \<le> t"
  by (simp add: whole_seconds_def)

lemma uuid_str_nonempty: "uuid_str i \<noteq> []"
  by (simp add: uuid_str_def Let_def)

lemma access_token_decodes:
  assumes "signs L secret" "issue_access_token L secret now jti user_id (role_text role) session_id = Inr (token, expires)"
    "whole_seconds now \<le> at" "at < expires"
  shows "decode_access_token L at secret token = Inr (access_claims user_id role session_id now jti)"
    "token \<noteq> []" "expires = whole_seconds now + 2 * hour"
proof -
  from assms(2) have s: "secret \<noteq> []" and e: "expires = whole_seconds now + 2 * hour"
    and t: "token = jwt_encode L secret (access_claims user_id role session_id now jti)"
    by (auto simp: issue_access_token_def access_claims_def Let_def split: if_splits)
  have "jwt_decode L at True secret token = Some (access_claims user_id role session_id now jti)"
    using assms(1,3,4) unfolding t e signs_def by blast
  moreover have "role_text role \<noteq> []" by (cases role) simp_all
  ultimately show "decode_access_token L at secret token = Inr (access_claims user_id role session_id now jti)"
    using s by (simp add: decode_access_token_def exact_claims_def ACCESS_CLAIMS_def access_claims_def claim_text_def
        claim_int_def numeric_date_def uuid_str_nonempty)
  from assms(1) show "token \<noteq> []" by (simp add: t signs_def)
  show "expires = whole_seconds now + 2 * hour" by (rule e)
qed

lemma find_fresh: "\<forall>x \<in> set xs. k x \<noteq> i \<Longrightarrow> k y = i \<Longrightarrow> find (\<lambda>x. k x = i) (xs @ [y]) = Some y"
  by (induction xs) auto

lemma issued_session_authenticates:
  assumes "signs L secret" "reads_uuids L {sd_session_id dr, u_id user}"
    "issue_session L secret dr user db = (Inr issued, db')"
    "get_user db (u_id user) = Some user" "u_status user = USER_ACTIVE"
    "\<forall>s \<in> set (sessions db). s_id s \<noteq> sd_session_id dr"
    "sd_now dr \<le> at" "at < sp_access_expires_at issued"
    "users db2 = users db'" "sessions db2 = sessions db'"
  shows "authenticate_access_token L secret at (sp_access_token issued) db2 = Inr user" "sp_access_token issued \<noteq> []"
proof -
  let ?claims = "access_claims (u_id user) (u_role user) (sd_session_id dr) (sd_now dr) (sd_jti dr)"
  let ?issue = "issue_access_token L secret (sd_now dr) (sd_jti dr) (u_id user) (role_text (u_role user)) (sd_session_id dr)"
  obtain h token expires claims where i: "?issue = Inr (token, expires)"
    and d: "decode_access_token L (sd_now dr) secret token = Inr claims"
    and p: "sp_access_token issued = token" "sp_access_expires_at issued = expires"
    and db': "users db' = users db" "sessions db' = sessions db @ [\<lparr>s_id = sd_session_id dr, s_kind = SESSION_USER,
        s_user_id = Some (u_id user), s_device_id = None,
        s_access_jti = (case claim_text claims ''jti'' of Some j \<Rightarrow> j | None \<Rightarrow> []),
        s_refresh_token_hash = h, s_access_expires_at = expires, s_refresh_expires_at = sd_now dr + 14 * day,
        s_refresh_used_at = None, s_revoked_at = None, s_created_at = sd_now dr\<rparr>]"
    using assms(3) by (auto simp: issue_session_def Let_def split: option.splits sum.splits prod.splits)
  have "expires = whole_seconds (sd_now dr) + 2 * hour"
    using i by (auto simp: issue_access_token_def Let_def split: if_splits)
  moreover have "sd_now dr < whole_seconds (sd_now dr) + second" by (simp add: whole_seconds_def)
  ultimately have "sd_now dr < expires" by simp
  with d access_token_decodes(1) [OF assms(1) i whole_seconds_le] have c: "claims = ?claims" by simp
  have "whole_seconds (sd_now dr) \<le> at" using whole_seconds_le [of "sd_now dr"] assms(7) by simp
  note a = access_token_decodes [OF assms(1) i this assms(8) [unfolded p]]
  have k: "claim_uuid L ?claims ''session_id'' = Some (sd_session_id dr)" "claim_uuid L ?claims ''sub'' = Some (u_id user)"
    "claim_text ?claims ''role'' = Some (u (role_text (u_role user)))" "claim_text ?claims ''jti'' = Some (uuid_str (sd_jti dr))"
    using assms(2) by (simp_all add: access_claims_def claim_uuid_def claim_text_def reads_uuids_def)
  have "get_session db2 (sd_session_id dr) = Some (last (sessions db'))"
    unfolding get_session_def assms(10) db'(2) using find_fresh [OF assms(6)] by simp
  moreover have "get_user db2 (u_id user) = Some user" using assms(4,9) db'(1) by (simp add: get_user_def)
  ultimately show "authenticate_access_token L secret at (sp_access_token issued) db2 = Inr user"
    using a(1) k assms(5,8) p by (simp add: authenticate_access_token_def db'(2) c)
  show "sp_access_token issued \<noteq> []" using a(2) p by simp
qed

lemma get_user_key: "distinct (map u_id (users db)) \<Longrightarrow> x \<in> set (users db) \<Longrightarrow> get_user db (u_id x) = Some x"
  unfolding get_user_def by (rule find_key_unique)

lemma login_Inr:
  assumes "login L secret now salt dr name pw db = (Inr c, db')"
  obtains user h db2 where "user_by_username db name = Some user" "u_status user = USER_ACTIVE"
    "cl_user c = accept_login now h (clear_lock user)"
    "db2 = put_user (u_id user) (accept_login now h) (put_user (u_id user) clear_lock db)"
    "issue_session L secret dr (cl_user c) db2 = (Inr (cl_pair c), db')"
  using assms
  by (auto simp: login_def Let_def split: option.splits if_splits sum.splits prod.splits)

lemma login_session:
  assumes "login L secret now salt dr name pw db = (Inr c, db')" "accounts_ok db"
    and "signs L secret" "reads_uuids L (insert (sd_session_id dr) (u_id ` set (users db)))"
    and "\<forall>s \<in> set (sessions db). s_id s \<noteq> sd_session_id dr"
    and "sd_now dr \<le> at" "at < sp_access_expires_at (cl_pair c)" "only_log db' db2"
  shows "authenticate_access_token L secret at (sp_access_token (cl_pair c)) db2 = Inr (cl_user c)
    \<and> sp_access_token (cl_pair c) \<noteq> [] \<and> u_username (cl_user c) = name
    \<and> (\<exists>x. user_by_username db name = Some x \<and> u_id x = u_id (cl_user c) \<and> u_role x = u_role (cl_user c)
        \<and> u_must_change_password x = u_must_change_password (cl_user c))"
  using assms(1)
proof (rule login_Inr)
  fix user h db1
  assume u: "user_by_username db name = Some user" "u_status user = USER_ACTIVE"
    and c: "cl_user c = accept_login now h (clear_lock user)"
    and db1: "db1 = put_user (u_id user) (accept_login now h) (put_user (u_id user) clear_lock db)"
    and i: "issue_session L secret dr (cl_user c) db1 = (Inr (cl_pair c), db')"
  have f: "u_id (cl_user c) = u_id user" "u_username (cl_user c) = u_username user" "u_role (cl_user c) = u_role user"
    "u_status (cl_user c) = u_status user" "u_must_change_password (cl_user c) = u_must_change_password user"
    by (simp_all add: c accept_login_def clear_lock_def)
  from u(1) have m: "user \<in> set (users db)" "u_username user = name"
    unfolding user_by_username_def using find_SomeD by fast+
  have g: "get_user db (u_id user) = Some user"
    using assms(2) m(1) by (intro get_user_key) (simp_all add: accounts_ok_def)
  have "get_user db1 (u_id (cl_user c)) = Some (cl_user c)"
    unfolding f db1 c using g by (simp add: row_simps accept_login_def clear_lock_def)
  moreover have "sessions db1 = sessions db" by (simp add: db1 put_user_def)
  moreover have "reads_uuids L {sd_session_id dr, u_id (cl_user c)}"
    using assms(4) m(1) f(1) by (simp add: reads_uuids_def)
  moreover have "users db2 = users db'" "sessions db2 = sessions db'" using assms(8) by (auto simp: only_log_def)
  ultimately have "authenticate_access_token L secret at (sp_access_token (cl_pair c)) db2 = Inr (cl_user c)"
    "sp_access_token (cl_pair c) \<noteq> []"
    using issued_session_authenticates [OF assms(3) _ i, of at db2] f(4) u(2) assms(5-7) by simp_all
  with f m(2) u(1) show ?thesis by auto
qed

lemma login_acts:
  assumes "login_route L secret now salt dr aid rid name pw db = (Inr p, db')" "accounts_ok db"
    and "signs L secret" "reads_uuids L (insert (sd_session_id dr) (u_id ` set (users db)))"
    and "\<forall>s \<in> set (sessions db). s_id s \<noteq> sd_session_id dr"
    and "sd_now dr \<le> at" "at < sp_access_expires_at p" "only_log db' db2"
    and "wr_access_cookie rq = Some (sp_access_token p)"
  shows "\<exists>x y. user_by_username db name = Some x \<and> u_id y = u_id x \<and> u_username y = name \<and> u_role y = u_role x
    \<and> get_actor L secret at None rq db2 =
      (if u_must_change_password x then Inl password_change_required_error else Inr (browser_actor db2 y), db2)"
proof -
  obtain r db1 where l: "login L secret now salt dr name pw db = (r, db1)" by fastforce
  with assms(1) obtain c where c: "r = Inr c" "p = cl_pair c" "only_log db1 db'"
    by (auto simp: login_route_def finish_login_def stage_auth_audit_def dest: insert_audit_Inr
        split: sum.splits exn.splits)
  from only_log_trans [OF c(3) assms(8)] have "only_log db1 db2" .
  from login_session [OF l [unfolded c(1)] assms(2-6) assms(7) [unfolded c(2)] this]
  obtain x where a: "authenticate_access_token L secret at (sp_access_token p) db2 = Inr (cl_user c)"
    "sp_access_token p \<noteq> []" "u_username (cl_user c) = name" "user_by_username db name = Some x"
    "u_id x = u_id (cl_user c)" "u_role x = u_role (cl_user c)"
    "u_must_change_password (cl_user c) = u_must_change_password x" unfolding c(2) by auto
  have "request_token rq = Some (sp_access_token p)" using assms(9) by (simp add: request_token_def)
  with a(1,2,7) have "get_actor L secret at None rq db2 =
      (if u_must_change_password x then Inl password_change_required_error else Inr (browser_actor db2 (cl_user c)), db2)"
    by (simp add: get_actor_def nonempty_def)
  with a show ?thesis by metis
qed

lemma session_cookie_values:
  assumes "starts_with (u ''/'') path"
  shows "cookie_value (session_cookies p csrf) path ''access_token'' = Some (sp_access_token p)"
    "cookie_value (session_cookies p csrf) path ''XSRF-TOKEN'' = Some csrf"
  using assms by (simp_all add: cookie_value_def session_cookies_def csrf_cookie_def cookie_applies_def u_def)

text \<open>C16. A successful sign-in opens a session: from then until the access token expires, as long as
  nothing but audit evidence is added, every request a page makes with the cookies of the sign-in,
  reading or writing, passes the CSRF check and reaches its route as exactly the account that signed
  in, with the projects it is then a member of; if the account owes a password change, every such
  request is answered with that error instead.\<close>

theorem login_opens_session:
  assumes "login_route L secret now salt dr aid rid name pw db = (Inr p, db')" "accounts_ok db"
    and "signs L secret" "reads_uuids L (insert (sd_session_id dr) (u_id ` set (users db)))"
    and "\<forall>s \<in> set (sessions db). s_id s \<noteq> sd_session_id dr"
    and "sd_now dr \<le> at" "at < sp_access_expires_at p" "only_log db' db2"
    and "rq = browser_request (session_cookies p csrf) verb path" "starts_with (u ''/'') path"
    and "csrf \<noteq> []" "list_all (\<lambda>c. c < 128) csrf"
  shows "\<exists>x y. user_by_username db name = Some x \<and> u_id y = u_id x \<and> u_username y = name \<and> u_role y = u_role x
    \<and> serve L secret at rq route db2 =
      (if u_must_change_password x then (Inl (handle_domain_error rq password_change_required_error), db2)
       else (case route (browser_actor db2 y) db2 of
           (Inl e, db3) \<Rightarrow> (Inl (handle_domain_error rq e), db3)
         | (Inr v, db3) \<Rightarrow> (Inr v, db3)))"
proof -
  note k = session_cookie_values [OF assms(10), of p csrf]
  have rq: "wr_access_cookie rq = Some (sp_access_token p)" "wr_csrf_cookie rq = Some csrf"
    "wr_csrf_header rq = Some csrf" "wr_authorization rq = None" "wr_method rq = verb"
    by (simp_all add: assms(9) browser_request_def k)
  from login_acts [OF assms(1-8) rq(1)] obtain x y where a: "user_by_username db name = Some x"
    "u_id y = u_id x" "u_username y = name" "u_role y = u_role x" "get_actor L secret at None rq db2 =
      (if u_must_change_password x then Inl password_change_required_error else Inr (browser_actor db2 y), db2)"
    by blast
  have "sp_access_token p \<noteq> []"
    using a(5) rq(1) by (auto simp: get_actor_def request_token_def nonempty_def error_defs split: if_splits)
  then have "enforce_browser_csrf L secret at rq db2 = (Called None, db2)"
    using rq assms(11,12) by (simp add: enforce_browser_csrf_def browser_credentials_def nonempty_def compare_digest_def)
  with a have "serve L secret at rq route db2 =
      (if u_must_change_password x then (Inl (handle_domain_error rq password_change_required_error), db2)
       else (case route (browser_actor db2 y) db2 of
           (Inl e, db3) \<Rightarrow> (Inl (handle_domain_error rq e), db3)
         | (Inr v, db3) \<Rightarrow> (Inr v, db3)))"
    by (simp add: serve_def)
  with a show ?thesis by blast
qed

text \<open>A signature-free token format over claims that are texts and integers, for the witness.\<close>

fun flat_claim :: "json \<Rightarrow> bool" where
  "flat_claim (JStr s) = True"
| "flat_claim (JInt i) = True"
| "flat_claim v = False"

fun toy_pack :: "(ustr \<times> json) list \<Rightarrow> ustr" where
  "toy_pack [] = []"
| "toy_pack ((k, JStr s) # claims) = length k # k @ 0 # length s # s @ toy_pack claims"
| "toy_pack ((k, JInt i) # claims) = length k # k @ 1 # nat i # nat (- i) # toy_pack claims"
| "toy_pack ((k, v) # claims) = toy_pack claims"

fun toy_unpack :: "nat \<Rightarrow> ustr \<Rightarrow> (ustr \<times> json) list" where
  "toy_unpack (Suc n) (l # r) = (let k = take l r; q = drop l r in
     if q ! 0 = 0 then (k, JStr (take (q ! 1) (drop 2 q))) # toy_unpack n (drop (2 + q ! 1) q)
     else (k, JInt (int (q ! 1) - int (q ! 2))) # toy_unpack n (drop 3 q))"
| "toy_unpack n r = []"

lemma toy_unpack_pack:
  "list_all (\<lambda>c. flat_claim (snd c)) claims \<Longrightarrow> length claims \<le> n \<Longrightarrow> toy_unpack n (toy_pack claims) = claims"
proof (induction claims arbitrary: n rule: toy_pack.induct)
  case 1
  then show ?case by (cases n) simp_all
next
  case (2 k s claims)
  then show ?case by (cases n) (simp_all add: Let_def)
next
  case (3 k i claims)
  then show ?case by (cases n) (simp_all add: Let_def numeral_3_eq_3 numeral_2_eq_2)
qed simp_all

lemma toy_pack_length:
  "list_all (\<lambda>c. flat_claim (snd c)) claims \<Longrightarrow> length claims \<le> length (toy_pack claims)"
  by (induction claims rule: toy_pack.induct) simp_all

definition signing_lib :: lib where
  "signing_lib = sample_lib\<lparr>jwt_encode := (\<lambda>secret claims. 0 # toy_pack claims),
     jwt_decode := (\<lambda>now verify secret token. Some (toy_unpack (length token) (tl token))),
     uuid_parse := (\<lambda>s. find (\<lambda>i. uuid_str i = s) [40, 11, 12])\<rparr>"

lemma signing_lib_signs: "signs signing_lib (u ''secret'')"
proof -
  have "list_all (\<lambda>c. flat_claim (snd c)) (access_claims user_id role session_id now jti)" for user_id role session_id now jti
    by (simp add: access_claims_def numeric_date_def)
  note f = toy_unpack_pack [OF this] toy_pack_length [OF this]
  show ?thesis unfolding signs_def by (auto simp: signing_lib_def intro!: f(1) le_SucI f(2))
qed

lemma signing_lib_uuids: "reads_uuids signing_lib {40, 11, 12}"
  using uuid_str_inject by (auto simp: reads_uuids_def signing_lib_def)

lemma stage_success:
  "\<exists>db'. stage_auth_audit L aid (auth_event a action who outcome rid (JObj [])) db = Inr db' \<and> only_log db db'"
proof -
  have "flat_ascii []" by (simp add: flat_ascii_def)
  from audit_row_flat [OF _ this, of "auth_event a action who outcome rid (JObj [])" L aid]
  have "\<exists>row. audit_row L aid (auth_event a action who outcome rid (JObj [])) = Inr row \<and> al_event_key row = None"
    by (auto simp: auth_event_def)
  then show ?thesis by (auto simp: stage_auth_audit_def insert_audit_def)
qed

lemma signing_login:
  "\<exists>p db'. login_route signing_lib (u ''secret'') 5 0 sample_draw 60 61 (u ''boss'') (u ''correct-horse-1'') sample_db
     = (Inr p, db') \<and> sp_access_expires_at p = 2 * hour"
proof -
  let ?x = "accept_login 5 (u ''$argon2id$correct-horse-1'') (clear_lock owner_row)"
  let ?d = "put_user 11 (accept_login 5 (u ''$argon2id$correct-horse-1'')) (put_user 11 clear_lock sample_db)"
  have v: "verify_password signing_lib (u ''$argon2id$correct-horse-1'') (u ''correct-horse-1'')
      = \<lparr>pv_valid = True, pv_needs_rehash = False\<rparr>"
    by (simp add: verify_password_def validate_password_def u_def signing_lib_def
        MIN_PASSWORD_CODEPOINTS_def MAX_PASSWORD_CODEPOINTS_def MAX_PASSWORD_UTF8_BYTES_def
        utf8_encode_def utf8_char_def surrogate_def)
  have o: "user_by_username sample_db (u ''boss'') = Some owner_row" "u_id owner_row = 11"
    "u_status owner_row = USER_ACTIVE" "\<not> locked 5 owner_row"
    "u_password_hash owner_row = u ''$argon2id$correct-horse-1''"
    by (simp_all add: user_by_username_def sample_db_def owner_row_def locked_def)
  obtain h where h: "hash_token signing_lib (u ''raw-refresh'') = Some h"
    by (simp add: hash_token_def utf8_encode_def u_def surrogate_def)
  obtain token where t: "issue_access_token signing_lib (u ''secret'') 0 41 11 ''OWNER'' 40 = Inr (token, 2 * hour)"
    by (simp add: issue_access_token_def whole_seconds_def Let_def)
  from access_token_decodes(1) [where role = OWNER and at = 0, OF signing_lib_signs _ _ _, of 0 41 11 40 token "2 * hour"] t
  obtain claims where d: "decode_access_token signing_lib 0 (u ''secret'') token = Inr claims"
    by (simp add: whole_seconds_def)
  have x: "u_role ?x = OWNER" "u_role owner_row = OWNER" by (simp_all add: accept_login_def clear_lock_def owner_row_def)
  have "\<exists>p db1. issue_session signing_lib (u ''secret'') sample_draw ?x ?d = (Inr p, db1) \<and> sp_access_expires_at p = 2 * hour"
    by (simp add: issue_session_def sample_draw_def x o(2) h t d Let_def)
  then obtain p db1 where i: "issue_session signing_lib (u ''secret'') sample_draw ?x ?d = (Inr p, db1)"
    "sp_access_expires_at p = 2 * hour" by blast
  have "login signing_lib (u ''secret'') 5 0 sample_draw (u ''boss'') (u ''correct-horse-1'') sample_db
      = (Inr \<lparr>cl_pair = p, cl_user = ?x\<rparr>, db1)"
    by (simp add: login_def o v i(1) Let_def)
  with i(2) stage_success [of signing_lib 60 "user_actor ?x" "''auth.login''" "Some (u_id ?x)" "''SUCCESS''" 61 db1]
  show ?thesis by (auto simp: login_route_def finish_login_def)
qed

lemma login_opens_session_witness:
  "\<exists>p db' y. login_route signing_lib (u ''secret'') 5 0 sample_draw 60 61 (u ''boss'') (u ''correct-horse-1'') sample_db
     = (Inr p, db')
   \<and> serve signing_lib (u ''secret'') 7 (browser_request (session_cookies p (u ''x'')) ''POST'' (u ''/api/v1/projects''))
       (\<lambda>a d. (Inr (actor_subject a), d)) db' = (Inr 11, db')"
proof -
  obtain p db' where l: "login_route signing_lib (u ''secret'') 5 0 sample_draw 60 61 (u ''boss'')
      (u ''correct-horse-1'') sample_db = (Inr p, db')" "sp_access_expires_at p = 2 * hour"
    using signing_login by blast
  have ok: "accounts_ok sample_db"
    by (simp add: accounts_ok_def sample_db_def owner_row_def staff_row_def u_def username_char_def)
  have ids: "reads_uuids signing_lib (insert (sd_session_id sample_draw) (u_id ` set (users sample_db)))"
    using signing_lib_uuids by (simp add: reads_uuids_def sample_draw_def sample_db_def owner_row_def staff_row_def)
  have fresh: "\<forall>s \<in> set (sessions sample_db). s_id s \<noteq> sd_session_id sample_draw"
    by (simp add: sample_db_def empty_db_def)
  have b: "user_by_username sample_db (u ''boss'') = Some owner_row"
    by (simp add: user_by_username_def sample_db_def owner_row_def)
  have "sd_now sample_draw \<le> 7" "(7 :: time) < sp_access_expires_at p" by (simp_all add: sample_draw_def l(2))
  moreover have "starts_with (u ''/'') (u ''/api/v1/projects'')" "u ''x'' \<noteq> []" "list_all (\<lambda>c. c < 128) (u ''x'')"
    by (simp_all add: starts_with_def u_def)
  ultimately have "serve signing_lib (u ''secret'') 7
      (browser_request (session_cookies p (u ''x'')) ''POST'' (u ''/api/v1/projects''))
      (\<lambda>a d. (Inr (actor_subject a), d)) db' = (Inr 11, db')"
    using login_opens_session [OF l(1) ok signing_lib_signs ids fresh _ _ only_log_refl refl, of 7
      "u ''/api/v1/projects''" "u ''x''" "''POST''" "\<lambda>a d. (Inr (actor_subject a), d)"] b
    by (auto simp: owner_row_def browser_actor_def)
  with l(1) show ?thesis by blast
qed

end
