(* ===== verification/Spec2Isabelle.thy ===== *)
theory Spec2Isabelle
  imports Files_Properties Access_Properties Account_Properties Imports_Properties Updater_Properties
    Requests_Properties Clamav_Properties Object_Storage_Properties Settings_Properties Readiness_Properties
    Seed_Properties Session_Properties
begin

text \<open>
  SuperBoss: a server (\<open>server/src/superboss\<close>) that keeps projects, accounts, devices, files and
  imported work results, and a connector (\<open>integrations/kimi-superboss/connector\<close>) that uploads
  such results from a workstation.  This development models the Python code of both and proves
  what makes it correct.

  \<^bold>\<open>The parts and how they interact.\<close>  A browser session (\<open>modules/auth\<close>) or a paired device
  (\<open>modules/devices\<close>) authenticates a request as an actor (\<open>core/actors.py\<close>).  Files
  (\<open>modules/files\<close>) are uploaded in parts to object storage, completed, scanned by a worker and
  only then downloaded.  An import job (\<open>modules/imports\<close>) is created by a device around a
  manifest; each of its attachments is a file, and the job is received, rejected or found
  conflicting by the scans of its files.  Every decision leaves an audit event
  (\<open>modules/audit\<close>).  The connector prepares the manifest from local files, creates the job,
  uploads the parts and submits it, and keeps enough on the disk to resume after any
  interruption.

  \<^bold>\<open>Which theory models what.\<close>  Each theory that models code opens with the file it is about;
  its definitions carry the names of the functions they translate.
  \<^item> \<open>Prelude\<close>, \<open>Text\<close>, \<open>Platform\<close>, \<open>Json\<close>: identifiers, instants and text as Python has them
    (a \<open>str\<close> is a list of code points), the errors of \<open>core/errors.py\<close>, the record \<open>lib\<close> of
    library functions (hashing, Unicode normalization and classification, JWT, Argon2, the
    database's \<open>lower\<close> and collation), and \<open>json.dumps\<close>.
  \<^item> \<open>Schema\<close>: one record per table of \<open>modules/*/models.py\<close> and the record \<open>db\<close> of all tables.  An
    operation takes the database it reads and returns the one it commits; a constraint of the
    database is the error its insert function returns.  Where two requests can interleave
    between transactions, the other request is an argument (\<open>race\<close>) of the operation.
  \<^item> \<open>Actors\<close>, \<open>Audit_Log\<close>, \<open>Security\<close>: actors and project authorization; the bounded and
    redacting sanitizer and the append-only log; tokens, password policy and verification.
  \<^item> \<open>Auth\<close>, \<open>Users\<close>, \<open>Projects\<close>, \<open>Devices\<close>: sign-in with lockout and rotating sessions; STAFF
    and OWNER accounts with the administration commands of \<open>modules/auth/admin.py\<close>; projects;
    pairing, device sessions, live authorization and revocation.
  \<^item> \<open>Files\<close>, \<open>Scans\<close>: starting, presigning, completing and downloading uploads; claiming and
    deciding scans; the expiry and redispatch of stale uploads.
  \<^item> \<open>Requests\<close>: the actor of a request (\<open>core/actors.py\<close>) and what surrounds a route in \<open>main.py\<close>,
    the CSRF middleware and the error handlers, with the cookies of a browser; \<open>Settings\<close>: \<open>core/config.py\<close> with its validator;
    \<open>Readiness\<close>: \<open>modules/health\<close>; \<open>Seed\<close>: \<open>scripts/seed_acceptance.py\<close>.
  \<^item> \<open>Clamav\<close>, \<open>Object_Storage\<close>: the scanner's INSTREAM conversation and the S3 adapter of
    \<open>infrastructure/\<close>.  The daemon and the provider are records of what they answer; \<open>clamav_run\<close>
    is the external work of \<open>scan_file\<close> and \<open>object_storage\<close> the storage of the file services.
    \<open>Blocks\<close>: byte strings in blocks.
  \<^item> \<open>Manifest\<close>, \<open>Imports\<close>: the normalized manifest with its canonical bytes; creation with its
    idempotency, attachment uploads, submission, evaluation, reconciliation, views, reads and
    routes, and the scan delivery of \<open>modules/files/tasks.py\<close> that ends in reconciliation.
  \<^item> \<open>Connector\<close>: the connector's data, the record \<open>conn\<close> of its state (files, keyring, output,
    requests made, the executable), the record \<open>world\<close> of everything that answers it, indexed
    by the number of the question so that no two answers need agree, commands \<open>'a cmd\<close> over
    \<open>conn\<close> that may fail with a \<open>ConnectorError\<close> or an exception nothing catches, and their
    weakest preconditions \<open>wp\<close>.
  \<^item> \<open>Connector_Manifest\<close> (\<open>manifest.py\<close>), \<open>Connector_Outbox\<close> (\<open>outbox.py\<close>, \<open>credentials.py\<close>),
    \<open>Connector_Client\<close> (\<open>client.py\<close>), \<open>Connector_Config\<close> (\<open>config.py\<close>), \<open>Connector_Cli\<close>
    (\<open>cli.py\<close>), \<open>Connector_Updater\<close> (\<open>updater.py\<close>).
  \<^item> \<open>Examples\<close>: the concrete library and rows the witnesses evaluate on.

  \<^bold>\<open>What the lemmas show.\<close>  The theories \<open>*_Proofs\<close>, \<open>File_Clients\<close>, \<open>Connector_Frames\<close> and
  \<open>Connector_Commands\<close> carry the proofs, \<open>*_Properties\<close> state the properties with their
  witnesses.
  \<^item> Interfaces are locales, interpreted on the model: \<open>one_time_credential\<close> (a value that is
    exchanged at most once: pairing codes, browser and device refresh tokens), the file
    lifecycle as its clients see it (\<open>File_Clients\<close>: imports rest on it for \<open>CLEAN\<close> being final),
    and the frames of the connector (what requests, uploads and credential exchanges leave
    alone, proved once for every command built from them).
  \<^item> Imports: a received job has only clean files and the base it named; decided jobs are
    final; creation is idempotent and refines a write-once ledger from device and key to
    fingerprint and status; submission has a specified outcome in every case, also
    when another transaction commits in between, and a delivered scan leaves its job in a
    specified state on every branch; devices only reach their own jobs and upload only to
    the attachments of those.
  \<^item> Files: scanned files keep their state and identity under every interleaving; completion,
    scanning and maintenance are specified on every branch; only clean files are downloaded.
  \<^item> Access: lockout, one-time credentials, live sessions, what a device may do, revocation;
    accounts and names stay unique with one OWNER, protected from STAFF management; the log
    only grows, and recording an event returns the row that states it or an error, also after
    a lost race.
  \<^item> Requests: a state-changing request with a browser cookie reaches no route without the CSRF
    token, a request acts for a live session or device only, and the cookies of a sign-in carry
    every request to its route as that account until the token expires; one error of the actor escapes
    the middleware.  Accepted JWT secrets are exactly the base64url texts
    of RFC 4648 of enough varied material without a placeholder word, and settings fit
    together.
  \<^item> Infrastructure: a file that a scan leaves clean was sent to the daemon exactly, frame by
    frame; the listing of uploads ends and is complete; a client is built once however threads
    interleave (a step relation with its invariant); the Redis probe cannot be made to say
    anything else by its credentials; seeding is repeatable.
  \<^item> Connector: the state files keep their type in every session of commands, whatever the
    world answers and wherever it is interrupted; submission and retry account for every part
    they upload; an interrupted pairing is atomic; parts cover a stable file; updates end,
    reach only allowed hosts and install only what was published.
  \<^item> Both sides: the server accepts every manifest the connector derives, with the same
    fingerprint; and the order in which the server lists attachments is one the connector
    refuses as soon as there are two.

  \<^bold>\<open>Bounds and fuel.\<close>  All recursions but one terminate.  \<open>fetch\<close> counts down \<open>REDIRECT_LIMIT\<close>, the loop of
  the source, which is its only fuel; loops over foreign lists (chunks of a response, rows) are
  recursions over them.  \<open>list_pages\<close> is a partial function, because a provider that always names
  new markers keeps it going; \<open>multipart_listing_ends\<close> bounds its requests by the number of
  markers.  Python integers are \<open>int\<close> or \<open>nat\<close>; the only fixed width is the frame header of
  INSTREAM, packed from a 32-bit word.

  \<^bold>\<open>Not modelled.\<close>  Pydantic's and \<open>json\<close>'s reading of bytes into typed fields, SQL and transaction
  isolation beyond the named races (of the
  constraints: the order in which PostgreSQL checks them and the foreign key of an audit row to its
  project), equality of JSON numbers of different types, the \<open>OverflowError\<close> of \<open>datetime.fromtimestamp\<close>
  for a signed device token with an absurd expiry, the moment between the publication of an S3 client
  and the release of its lock, the configuration of FastAPI, Celery
  and SQLAlchemy (\<open>api/router.py\<close>, \<open>core/db.py\<close>, \<open>workers/\<close>), the
  transports (HTTP, S3, ClamAV, keyring, file system), whose answers are arguments, exceptions
  of httpx that are not \<open>HTTPError\<close>, the command-line parser, schema migrations, the web client
  and the tests.
\<close>

end
